(* ===== verification/Prelude.thy ===== *)
theory Prelude
  imports Main "HOL-Library.Word"
begin

text \<open>
  Vocabulary shared by the whole library: the machine integers of the program, the
  decimal rendering \<open>std::to_string\<close> of an unsigned value, the pattern
  "\<open>if (x && *x > time) time = *x\<close>" that the receipt code repeats, and the collections
  of rules the component theories fill.
\<close>

subsection \<open>Machine integers\<close>

type_synonym u8 = "8 word"
type_synonym u16 = "16 word"
type_synonym u32 = "32 word"
type_synonym u64 = "64 word"

text \<open>\<open>MonotonicTime\<close> and \<open>OperationId\<close> are both \<open>std::uint64_t\<close>.\<close>

type_synonym monotonic_time = u64
type_synonym operation_id = u64

text \<open>\<open>std::numeric_limits<std::uint64_t>::max()\<close>.\<close>

definition u64_max :: u64 where
  "u64_max = - 1"

lemma u64_max_ge [simp]: "x \<le> u64_max"
  by (simp add: u64_max_def)

lemma u64_not_max_less: "x \<noteq> u64_max \<Longrightarrow> x < u64_max"
  by (simp add: order.strict_iff_order)

lemma word_plus_one_eq_0: "(x::u64) + 1 = 0 \<longleftrightarrow> x = u64_max"
  by (metis add.right_neutral add_diff_cancel_right' diff_add_cancel u64_max_def uminus_add_conv_diff)

lemma word_less_plus_one: "(x::u64) + 1 \<noteq> 0 \<Longrightarrow> x < x + 1"
  using unatSuc [of x] by (simp add: word_less_nat_alt add.commute)

lemma word_le_plus_one: "(x::u64) + 1 \<noteq> 0 \<Longrightarrow> y \<le> x \<Longrightarrow> y < x + 1"
  by (rule le_less_trans [OF _ word_less_plus_one])

subsection \<open>Engaged optional times\<close>

text \<open>\<open>raise_to t x\<close> is the later of \<open>t\<close> and the time in \<open>x\<close>, if it has one.\<close>

fun raise_to :: "monotonic_time \<Rightarrow> monotonic_time option \<Rightarrow> monotonic_time" where
  "raise_to t None = t"
| "raise_to t (Some x) = (if x > t then x else t)"

lemma raise_to_ge [simp, intro]: "t \<le> raise_to t x"
  by (cases x) auto

lemma raise_to_Some_ge [simp, intro]: "x \<le> raise_to t (Some x)"
  by auto

lemma le_raise_to: "x \<le> t \<Longrightarrow> x \<le> raise_to t y"
  by (rule order_trans [OF _ raise_to_ge])

lemma raise_to_le_iff: "raise_to t x \<le> y \<longleftrightarrow> t \<le> y \<and> (\<forall>z. x = Some z \<longrightarrow> z \<le> y)"
  by (cases x) auto

lemma raise_to_max: "raise_to t (Some x) = max t x"
  by (auto simp: max_def)

subsection \<open>Decimal rendering\<close>

text \<open>\<open>std::to_string\<close> of an unsigned integer: the decimal digits, most significant first.\<close>

definition digit_char :: "nat \<Rightarrow> char" where
  "digit_char d = char_of (48 + d)"

fun decimal :: "nat \<Rightarrow> string" where
  "decimal n = (if n < 10 then [digit_char n] else decimal (n div 10) @ [digit_char (n mod 10)])"

declare decimal.simps [simp del]

definition u64_to_string :: "u64 \<Rightarrow> string" where
  "u64_to_string w = decimal (unat w)"

text \<open>Reading the digits back: the left inverse that makes rendered identities distinct.\<close>

definition digit_value :: "char \<Rightarrow> nat" where
  "digit_value c = of_char c - 48"

definition read_decimal :: "string \<Rightarrow> nat" where
  "read_decimal cs = foldl (\<lambda>n c. 10 * n + digit_value c) 0 cs"

lemma digit_value_char: "d < 10 \<Longrightarrow> digit_value (digit_char d) = d"
  by (simp add: digit_value_def digit_char_def)

lemma read_decimal_decimal: "read_decimal (decimal n) = n"
proof (induction n rule: decimal.induct)
  case (1 n)
  show ?case
  proof (cases "n < 10")
    case True
    then show ?thesis
      by (subst decimal.simps) (simp add: read_decimal_def digit_value_char)
  next
    case False
    with "1.IH" have "read_decimal (decimal (n div 10)) = n div 10" by simp
    with False show ?thesis
      by (subst decimal.simps) (simp add: read_decimal_def digit_value_char)
  qed
qed

lemma decimal_inject: "decimal m = decimal n \<longleftrightarrow> m = n"
  by (metis read_decimal_decimal)

lemma decimal_nonempty: "decimal n \<noteq> []"
  by (subst decimal.simps) simp

lemma u64_to_string_inject: "u64_to_string v = u64_to_string w \<longleftrightarrow> v = w"
  by (simp add: u64_to_string_def decimal_inject word_unat_eq_iff)

lemma u64_to_string_nonempty [simp]: "u64_to_string w \<noteq> []"
  by (simp add: u64_to_string_def decimal_nonempty)

end
