(* ===== verification/Evidence.thy ===== *)
theory Evidence
  imports Prelude
begin

text \<open>
  The vocabulary of \<open>include/robot_harness/authority_gate.hpp\<close>: identities, evidence
  records, the requests and pieces of evidence callers hand to the gate and the decisions
  it returns. Every struct is a record with the source's fields in the source's order,
  prefixed per struct because Isabelle's field selectors are global; every enum is a
  datatype with one constructor per enumerator. Values outside an enum's enumerators,
  which C++ can forge by a cast, are not representable, so the \<open>default\<close> branches that
  reject them have no counterpart.
\<close>

subsection \<open>Identities and evidence records\<close>

record BindingIdentity =
  bid_provider_id :: string
  bid_effect_domain :: string
  bid_composition_revision :: u64
  bid_provider_generation :: u64

record EvidenceRecord =
  er_source :: string
  er_observed_at :: monotonic_time
  er_sequence :: u64

datatype InitializationState = IsRecoveryRequired | IsReady | IsClosed

datatype StartupEvidenceKind =
    SkBindingIdleAndSettled | SkWorkerReady | SkResultSinkReady | SkAdapterReady

record StartupEvidence =
  se_kind :: StartupEvidenceKind
  se_binding :: BindingIdentity
  se_record :: EvidenceRecord
  se_observed :: bool

record StartupStatus =
  ss_state :: InitializationState
  ss_binding :: BindingIdentity
  ss_is_binding_idle_and_settled :: bool
  ss_is_worker_ready :: bool
  ss_is_result_sink_ready :: bool
  ss_binding_idle_and_settled :: "EvidenceRecord option"
  ss_worker_ready :: "EvidenceRecord option"
  ss_result_sink_ready :: "EvidenceRecord option"
  ss_is_adapter_ready :: bool
  ss_adapter_ready :: "EvidenceRecord option"

record ExecutionRequirements =
  xr_profile_id :: string
  xr_work_units :: u64

record ExecutionCapabilities =
  xc_binding :: BindingIdentity
  xc_capability_id :: string
  xc_profile_id :: string
  xc_maximum_work_units :: u64
  xc_available :: bool
  xc_record :: EvidenceRecord
  xc_valid_until :: monotonic_time

record OperationRequest =
  oq_capability_id :: string
  oq_effect_domain :: string
  oq_opaque_request_reference :: string
  oq_target_reference :: string
  oq_requested_at :: monotonic_time
  oq_deadline :: "monotonic_time option"
  oq_execution_requirements :: "ExecutionRequirements option"

record OperationAuthority =
  oa_operation_id :: operation_id
  oa_binding :: BindingIdentity
  oa_admitted_at :: monotonic_time

subsection \<open>Rebinding\<close>

datatype BindingPhase = PhActive | PhWithdrawn | PhPreparing | PhClosed

datatype BindingControlStatus =
    BcApplied | BcAlreadyInPhase | BcStaleIdentity | BcWrongPhase | BcUnresolvedWork
  | BcInvalidEvidence | BcInvalidTime | BcInvalidProvider | BcIdentityExhausted | BcClosed

record BindingReadinessEvidence =
  bre_kind :: StartupEvidenceKind
  bre_binding :: BindingIdentity
  bre_record :: EvidenceRecord
  bre_observed :: bool
  bre_valid_until :: monotonic_time

record BindingDecision =
  bd_status :: BindingControlStatus
  bd_candidate :: "BindingIdentity option"
  bd_native_stop_authority :: "OperationAuthority option"

record BindingStatus =
  bs_phase :: BindingPhase
  bs_active :: BindingIdentity
  bs_candidate :: "BindingIdentity option"
  bs_can_commit :: bool

subsection \<open>Admission and evidence about an operation\<close>

datatype AdmissionStatus =
    AdAdmitted | AdInvalidRequest | AdExpired | AdRecoveryRequired | AdDomainOccupied
  | AdClosed | AdCapabilitiesUnavailable

record AdmissionDecision =
  ad_status :: AdmissionStatus
  ad_authority :: "OperationAuthority option"

datatype EvidenceDisposition = EvAccepted | EvDuplicate | EvRejected

datatype NativeEventKind =
    NkAccepted | NkRejected | NkStarted | NkTerminalSucceeded | NkTerminalFailed
  | NkTerminalCancelled

record NativeEvidence =
  ne_authority :: OperationAuthority
  ne_native_identity :: string
  ne_kind :: NativeEventKind
  ne_record :: EvidenceRecord

record OutputEvidence =
  oe_authority :: OperationAuthority
  oe_result_reference :: string
  oe_record :: EvidenceRecord

record NonSubmissionEvidence =
  nse_authority :: OperationAuthority
  nse_record :: EvidenceRecord

datatype OutputNonDeliveryReason = NdNoOutputProduced | NdSinkRejected | NdAuthorityRevoked

record OutputNonDeliveryEvidence =
  ond_authority :: OperationAuthority
  ond_reason :: OutputNonDeliveryReason
  ond_result_reference :: string
  ond_record :: EvidenceRecord

record SettlementEvidence =
  ste_authority :: OperationAuthority
  ste_scope :: string
  ste_permits_same_domain_admission :: bool
  ste_record :: EvidenceRecord

datatype DispatchStatus = DsPending | DsSubmitted | DsNotSubmitted
datatype NativeAcceptance = NaPending | NaAccepted | NaRejected

datatype NativeOutcome =
    NoPending | NoNotExecuted | NoSucceeded | NoFailed | NoCancelled | NoUnknown

datatype OutputDisposition = OdPending | OdAccepted | OdNotDelivered
datatype SettlementStatus = StPending | StSettled
datatype DomainVerdict = DvUnassessed
datatype AuthorityDisposition = AuCurrent | AuRevoked | AuReleased | AuBlockedUnknown

datatype ControlStatus = CsApplied | CsAlreadyRequested | CsNoActiveOperation | CsNotDue | CsRejected

record ControlDecision =
  cd_status :: ControlStatus
  cd_should_request_native_stop :: bool

datatype StopAcknowledgement =
    SaNotRequested | SaPending | SaAcknowledged | SaRefused | SaUnavailable

record StopAcknowledgementEvidence =
  sae_authority :: OperationAuthority
  sae_acknowledgement :: StopAcknowledgement
  sae_record :: EvidenceRecord

subsection \<open>The gate's configuration\<close>

record AuthorityGateConfig =
  cfg_binding :: BindingIdentity
  cfg_capability_id :: string
  cfg_binding_observer :: string
  cfg_worker_observer :: string
  cfg_result_sink_observer :: string
  cfg_native_evidence_source :: string
  cfg_settlement_evidence_source :: string
  cfg_settlement_scope :: string
  cfg_started_at :: monotonic_time
  cfg_stop_evidence_source :: string
  cfg_readiness_kind :: StartupEvidenceKind
  cfg_execution_capability_observer :: string

subsection \<open>Matching identities and records\<close>

definition binding_eq :: "BindingIdentity \<Rightarrow> BindingIdentity \<Rightarrow> bool" where
  "binding_eq left right \<longleftrightarrow>
     bid_provider_id left = bid_provider_id right \<and>
     bid_effect_domain left = bid_effect_domain right \<and>
     bid_composition_revision left = bid_composition_revision right \<and>
     bid_provider_generation left = bid_provider_generation right"

definition records_match :: "EvidenceRecord \<Rightarrow> EvidenceRecord \<Rightarrow> bool" where
  "records_match left right \<longleftrightarrow>
     er_source left = er_source right \<and> er_observed_at left = er_observed_at right \<and>
     er_sequence left = er_sequence right"

definition authority_matches :: "OperationAuthority \<Rightarrow> OperationAuthority \<Rightarrow> bool" where
  "authority_matches left right \<longleftrightarrow>
     oa_operation_id left = oa_operation_id right \<and>
     binding_eq (oa_binding left) (oa_binding right) \<and>
     oa_admitted_at left = oa_admitted_at right"

definition is_record_well_formed :: "EvidenceRecord \<Rightarrow> string \<Rightarrow> monotonic_time \<Rightarrow> bool" where
  "is_record_well_formed rcd expected_source earliest_time \<longleftrightarrow>
     er_source rcd \<noteq> [] \<and> er_source rcd = expected_source \<and> er_sequence rcd \<noteq> 0 \<and>
     er_observed_at rcd \<ge> earliest_time"

definition authority_is_valid :: "OperationAuthority \<Rightarrow> bool" where
  "authority_is_valid a \<longleftrightarrow>
     oa_operation_id a \<noteq> 0 \<and> bid_provider_id (oa_binding a) \<noteq> [] \<and>
     bid_effect_domain (oa_binding a) \<noteq> [] \<and>
     bid_composition_revision (oa_binding a) \<noteq> 0 \<and>
     bid_provider_generation (oa_binding a) \<noteq> 0"

text \<open>The field-by-field comparisons decide equality of the whole record.\<close>

lemma binding_eq_iff [simp]: "binding_eq l r \<longleftrightarrow> l = r"
  by (cases l; cases r) (auto simp: binding_eq_def)

lemma records_match_iff [simp]: "records_match l r \<longleftrightarrow> l = r"
  by (cases l; cases r) (auto simp: records_match_def)

lemma authority_matches_iff [simp]: "authority_matches l r \<longleftrightarrow> l = r"
  by (cases l; cases r) (auto simp: authority_matches_def)

lemma well_formed_time: "is_record_well_formed e s t \<Longrightarrow> t \<le> er_observed_at e"
  by (simp add: is_record_well_formed_def)

lemma well_formed_source: "is_record_well_formed e s t \<Longrightarrow> er_source e = s"
  by (simp add: is_record_well_formed_def)

end
