(* ===== verification/Receipt.thy ===== *)
theory Receipt
  imports Evidence
begin

text \<open>
  The receipt of one operation, \<open>OperationReceipt\<close>, and the functions of
  \<open>src/core/authority_gate.cpp\<close> that read it: whether the operation is revoked, the
  latest time it has seen, whether its effects are resolved, and the authority
  disposition these determine.
\<close>

record OperationReceipt =
  rc_authority :: OperationAuthority
  rc_dispatch :: DispatchStatus
  rc_native_acceptance :: NativeAcceptance
  rc_native_started :: bool
  rc_native_outcome :: NativeOutcome
  rc_observed_native_success :: bool
  rc_observed_native_failure :: bool
  rc_observed_native_cancellation :: bool
  rc_output :: OutputDisposition
  rc_settlement :: SettlementStatus
  rc_domain_verdict :: DomainVerdict
  rc_authority_disposition :: AuthorityDisposition
  rc_dispatched_at :: "monotonic_time option"
  rc_cancellation_requested_at :: "monotonic_time option"
  rc_deadline :: "monotonic_time option"
  rc_expiry_observed_at :: "monotonic_time option"
  rc_binding_withdrawn_at :: "monotonic_time option"
  rc_native_stop_requested_at :: "monotonic_time option"
  rc_stop_acknowledgement :: StopAcknowledgement
  rc_native_identity :: string
  rc_result_reference :: string
  rc_settlement_scope :: string
  rc_output_non_delivery_reason :: "OutputNonDeliveryReason option"
  rc_non_submission_evidence :: "EvidenceRecord option"
  rc_native_acceptance_evidence :: "EvidenceRecord option"
  rc_native_rejection_evidence :: "EvidenceRecord option"
  rc_native_started_evidence :: "EvidenceRecord option"
  rc_native_success_evidence :: "EvidenceRecord option"
  rc_native_failure_evidence :: "EvidenceRecord option"
  rc_native_cancellation_evidence :: "EvidenceRecord option"
  rc_stop_acknowledgement_evidence :: "EvidenceRecord option"
  rc_output_evidence :: "EvidenceRecord option"
  rc_output_non_delivery_evidence :: "EvidenceRecord option"
  rc_settlement_evidence :: "EvidenceRecord option"
  rc_execution_requirements :: "ExecutionRequirements option"

text \<open>The receipt \<open>admit\<close> starts from: the member initialisers of the struct.\<close>

definition new_receipt ::
  "OperationAuthority \<Rightarrow> monotonic_time option \<Rightarrow> ExecutionRequirements option \<Rightarrow> OperationReceipt"
where
  "new_receipt authority deadline requirements =
    \<lparr>rc_authority = authority, rc_dispatch = DsPending, rc_native_acceptance = NaPending,
     rc_native_started = False, rc_native_outcome = NoPending,
     rc_observed_native_success = False, rc_observed_native_failure = False,
     rc_observed_native_cancellation = False, rc_output = OdPending,
     rc_settlement = StPending, rc_domain_verdict = DvUnassessed,
     rc_authority_disposition = AuCurrent, rc_dispatched_at = None,
     rc_cancellation_requested_at = None, rc_deadline = deadline,
     rc_expiry_observed_at = None, rc_binding_withdrawn_at = None,
     rc_native_stop_requested_at = None, rc_stop_acknowledgement = SaNotRequested,
     rc_native_identity = [], rc_result_reference = [], rc_settlement_scope = [],
     rc_output_non_delivery_reason = None, rc_non_submission_evidence = None,
     rc_native_acceptance_evidence = None, rc_native_rejection_evidence = None,
     rc_native_started_evidence = None, rc_native_success_evidence = None,
     rc_native_failure_evidence = None, rc_native_cancellation_evidence = None,
     rc_stop_acknowledgement_evidence = None, rc_output_evidence = None,
     rc_output_non_delivery_evidence = None, rc_settlement_evidence = None,
     rc_execution_requirements = requirements\<rparr>"

subsection \<open>Records, times, revocation\<close>

definition effect_records :: "OperationReceipt \<Rightarrow> EvidenceRecord option list" where
  "effect_records r =
    [rc_native_acceptance_evidence r, rc_native_rejection_evidence r,
     rc_native_started_evidence r, rc_native_success_evidence r,
     rc_native_failure_evidence r, rc_output_evidence r,
     rc_non_submission_evidence r, rc_output_non_delivery_evidence r,
     rc_settlement_evidence r, rc_native_cancellation_evidence r]"

text \<open>The source's array, whose last entry \<open>latest_effect_time\<close> skips.\<close>

definition receipt_records :: "OperationReceipt \<Rightarrow> EvidenceRecord option list" where
  "receipt_records r = effect_records r @ [rc_stop_acknowledgement_evidence r]"

definition follows_same_source_records :: "EvidenceRecord \<Rightarrow> OperationReceipt \<Rightarrow> bool" where
  "follows_same_source_records evidence r \<longleftrightarrow>
     list_all (\<lambda>rcd. \<not> (case rcd of None \<Rightarrow> False
                        | Some x \<Rightarrow> er_source x = er_source evidence \<and>
                                    er_sequence evidence \<le> er_sequence x))
       (receipt_records r)"

definition is_revoked :: "OperationReceipt \<Rightarrow> bool" where
  "is_revoked r \<longleftrightarrow>
     rc_cancellation_requested_at r \<noteq> None \<or> rc_expiry_observed_at r \<noteq> None \<or>
     rc_binding_withdrawn_at r \<noteq> None"

definition raise_over :: "monotonic_time \<Rightarrow> EvidenceRecord option list \<Rightarrow> monotonic_time" where
  "raise_over t rcds = fold (\<lambda>rcd t. raise_to t (map_option er_observed_at rcd)) rcds t"

definition latest_effect_time :: "OperationReceipt \<Rightarrow> monotonic_time" where
  "latest_effect_time r =
     raise_over (raise_to (oa_admitted_at (rc_authority r)) (rc_dispatched_at r))
       (effect_records r)"

definition latest_time :: "OperationReceipt \<Rightarrow> monotonic_time" where
  "latest_time r =
    (let time = latest_effect_time r;
         time = raise_to time (map_option er_observed_at (rc_stop_acknowledgement_evidence r));
         time = raise_to time (rc_cancellation_requested_at r);
         time = raise_to time (rc_expiry_observed_at r)
     in raise_to time (rc_binding_withdrawn_at r))"

definition has_reached_deadline :: "OperationReceipt \<Rightarrow> monotonic_time \<Rightarrow> bool" where
  "has_reached_deadline r time \<longleftrightarrow>
     (case rc_deadline r of None \<Rightarrow> False | Some d \<Rightarrow> time \<ge> d)"

definition at_or_after :: "monotonic_time option \<Rightarrow> monotonic_time \<Rightarrow> bool" where
  "at_or_after since time \<longleftrightarrow> (case since of None \<Rightarrow> False | Some s \<Rightarrow> time \<ge> s)"

definition revocation_precedes :: "OperationReceipt \<Rightarrow> monotonic_time \<Rightarrow> bool" where
  "revocation_precedes r time \<longleftrightarrow>
     at_or_after (rc_cancellation_requested_at r) time \<or>
     at_or_after (rc_expiry_observed_at r) time \<or>
     at_or_after (rc_binding_withdrawn_at r) time"

subsection \<open>Resolution and disposition\<close>

definition no_output_produced :: "OperationReceipt \<Rightarrow> bool" where
  "no_output_produced r \<longleftrightarrow>
     rc_output r = OdNotDelivered \<and>
     rc_output_non_delivery_reason r = Some NdNoOutputProduced"

definition has_resolved_effects :: "OperationReceipt \<Rightarrow> bool" where
  "has_resolved_effects r =
    (if rc_dispatch r = DsNotSubmitted then
       rc_native_outcome r = NoNotExecuted \<and> no_output_produced r
     else if rc_dispatch r \<noteq> DsSubmitted then False
     else if rc_native_acceptance r = NaRejected then
       rc_native_outcome r = NoNotExecuted \<and> no_output_produced r
     else if rc_native_acceptance r \<noteq> NaAccepted then False
     else if rc_native_outcome r = NoFailed \<or> rc_native_outcome r = NoCancelled then
       no_output_produced r
     else if rc_native_outcome r \<noteq> NoSucceeded then False
     else rc_output r = OdAccepted \<or>
          (rc_output r = OdNotDelivered \<and>
           (rc_output_non_delivery_reason r = Some NdSinkRejected \<or>
            rc_output_non_delivery_reason r = Some NdAuthorityRevoked)))"

definition has_resolved_closure :: "OperationReceipt \<Rightarrow> bool" where
  "has_resolved_closure r \<longleftrightarrow> rc_settlement r = StSettled \<and> has_resolved_effects r"

text \<open>\<open>refresh_authority_disposition\<close> on an engaged receipt, as the value it stores.\<close>

definition disposition_of :: "OperationReceipt \<Rightarrow> AuthorityDisposition" where
  "disposition_of r =
    (if rc_native_outcome r = NoUnknown then AuBlockedUnknown
     else if has_resolved_closure r then AuReleased
     else if is_revoked r then AuRevoked else AuCurrent)"

definition refresh_receipt :: "OperationReceipt \<Rightarrow> OperationReceipt" where
  "refresh_receipt r = r\<lparr>rc_authority_disposition := disposition_of r\<rparr>"

text \<open>
  \<open>revoke\<close>: the caller has stored the reason; a stop is asked of the native side once,
  when work was submitted and has no outcome yet.
\<close>

definition should_stop :: "OperationReceipt \<Rightarrow> bool" where
  "should_stop r \<longleftrightarrow>
     rc_dispatch r = DsSubmitted \<and> rc_native_outcome r = NoPending \<and>
     rc_native_stop_requested_at r = None"

definition revoke :: "OperationReceipt \<Rightarrow> monotonic_time \<Rightarrow> OperationReceipt \<times> ControlDecision" where
  "revoke r observed_at =
    (let stop = should_stop r;
         r' = (if stop
               then r\<lparr>rc_native_stop_requested_at := Some observed_at,
                      rc_stop_acknowledgement := SaPending\<rparr>
               else r)
     in (refresh_receipt r', \<lparr>cd_status = CsApplied, cd_should_request_native_stop = stop\<rparr>))"

text \<open>The native outcome that the observed terminal events determine.\<close>

definition combined_outcome :: "OperationReceipt \<Rightarrow> NativeOutcome" where
  "combined_outcome r =
    (let terminal_count = of_bool (rc_observed_native_success r) +
                          of_bool (rc_observed_native_failure r) +
                          of_bool (rc_observed_native_cancellation r) :: nat
     in if terminal_count > 1 then NoUnknown
        else if rc_observed_native_success r then NoSucceeded
        else if rc_observed_native_failure r then NoFailed
        else if rc_observed_native_cancellation r then NoCancelled
        else rc_native_outcome r)"

subsection \<open>Facts about times and dispositions\<close>

lemma raise_over_ge: "t \<le> raise_over t rcds"
proof (induction rcds arbitrary: t)
  case Nil
  then show ?case by (simp add: raise_over_def)
next
  case (Cons x xs)
  have "t \<le> raise_to t (map_option er_observed_at x)" by (rule raise_to_ge)
  also have "\<dots> \<le> raise_over \<dots> xs" by (rule Cons.IH)
  finally show ?case by (simp add: raise_over_def)
qed

lemma raise_over_member: "Some e \<in> set rcds \<Longrightarrow> er_observed_at e \<le> raise_over t rcds"
proof (induction rcds arbitrary: t)
  case Nil
  then show ?case by simp
next
  case (Cons x xs)
  show ?case
  proof (cases "x = Some e")
    case True
    have "er_observed_at e \<le> raise_to t (Some (er_observed_at e))" by (rule raise_to_Some_ge)
    also have "\<dots> \<le> raise_over \<dots> xs" by (rule raise_over_ge)
    finally show ?thesis using True by (simp add: raise_over_def)
  next
    case False
    with Cons.prems have "Some e \<in> set xs" by auto
    from Cons.IH [OF this] show ?thesis by (simp add: raise_over_def)
  qed
qed

lemma latest_effect_time_record: "Some e \<in> set (effect_records r) \<Longrightarrow> er_observed_at e \<le> latest_effect_time r"
  unfolding latest_effect_time_def by (rule raise_over_member)

lemma latest_effect_time_admitted: "oa_admitted_at (rc_authority r) \<le> latest_effect_time r"
  unfolding latest_effect_time_def by (rule order_trans [OF raise_to_ge raise_over_ge])

lemma latest_effect_le_latest: "latest_effect_time r \<le> latest_time r"
  unfolding latest_time_def Let_def by (intro le_raise_to order_refl)

lemma latest_time_cancellation: "rc_cancellation_requested_at r = Some t \<Longrightarrow> t \<le> latest_time r"
  unfolding latest_time_def Let_def by (simp only:) (intro le_raise_to raise_to_Some_ge)

lemma latest_time_expiry: "rc_expiry_observed_at r = Some t \<Longrightarrow> t \<le> latest_time r"
  unfolding latest_time_def Let_def by (simp only:) (intro le_raise_to raise_to_Some_ge)

lemma latest_time_withdrawal: "rc_binding_withdrawn_at r = Some t \<Longrightarrow> t \<le> latest_time r"
  unfolding latest_time_def Let_def by (simp only:) (rule raise_to_Some_ge)

lemmas latest_time_revocations =
  latest_time_cancellation latest_time_expiry latest_time_withdrawal

lemma is_revoked_precedes_latest:
  "is_revoked r \<Longrightarrow> latest_time r \<le> t \<Longrightarrow> revocation_precedes r t"
  unfolding is_revoked_def revocation_precedes_def at_or_after_def
  by (auto split: option.splits dest: latest_time_revocations order_trans)

end
