(* ===== verification/Gate_State.thy ===== *)
theory Gate_State
  imports Receipt
begin

text \<open>
  The gate's private state, \<open>AuthorityGate::Implementation\<close> of
  \<open>src/core/authority_gate.cpp\<close>: its configuration, the startup facts, the rebind
  candidate and the current receipt; the helper members that read it; and the
  constructor, whose \<open>std::invalid_argument\<close> is the value \<open>None\<close>.
\<close>

record StartupFact =
  sf_observed :: bool
  sf_value :: bool
  sf_record :: "EvidenceRecord option"

record ReadinessFact =
  rf_evidence :: "BindingReadinessEvidence option"
  rf_conflicted :: bool

record Candidate =
  cn_binding :: BindingIdentity
  cn_prepared_at :: monotonic_time
  cn_old_scope :: BindingReadinessEvidence
  cn_readiness :: "ReadinessFact list"
  cn_capabilities :: "ExecutionCapabilities option"
  cn_capabilities_conflicted :: bool

record gate =
  g_config :: AuthorityGateConfig
  g_initialization_state :: InitializationState
  g_binding_idle :: StartupFact
  g_worker_ready :: StartupFact
  g_result_sink_ready :: StartupFact
  g_binding_phase :: BindingPhase
  g_generation_high_water :: u64
  g_last_binding_control_at :: monotonic_time
  g_withdrawn_at :: "monotonic_time option"
  g_last_old_scope_record :: "EvidenceRecord option"
  g_candidate :: "Candidate option"
  g_next_operation_id :: operation_id
  g_current_receipt :: "OperationReceipt option"
  g_last_native_record :: "EvidenceRecord option"
  g_last_native_kind :: "NativeEventKind option"
  g_execution_capabilities :: "ExecutionCapabilities option"

abbreviation active_binding :: "gate \<Rightarrow> BindingIdentity" where
  "active_binding g \<equiv> cfg_binding (g_config g)"

definition empty_fact :: StartupFact where
  "empty_fact = \<lparr>sf_observed = False, sf_value = False, sf_record = None\<rparr>"

definition empty_readiness :: ReadinessFact where
  "empty_readiness = \<lparr>rf_evidence = None, rf_conflicted = False\<rparr>"

definition fact_holds :: "StartupFact \<Rightarrow> bool" where
  "fact_holds f \<longleftrightarrow> sf_observed f \<and> sf_value f"

subsection \<open>Construction\<close>

definition implementation_init :: "AuthorityGateConfig \<Rightarrow> gate" where
  "implementation_init config =
    \<lparr>g_config = config, g_initialization_state = IsRecoveryRequired,
     g_binding_idle = empty_fact, g_worker_ready = empty_fact,
     g_result_sink_ready = empty_fact, g_binding_phase = PhActive,
     g_generation_high_water = bid_provider_generation (cfg_binding config),
     g_last_binding_control_at = cfg_started_at config, g_withdrawn_at = None,
     g_last_old_scope_record = None, g_candidate = None, g_next_operation_id = 1,
     g_current_receipt = None, g_last_native_record = None, g_last_native_kind = None,
     g_execution_capabilities = None\<rparr>"

definition config_rejected :: "AuthorityGateConfig \<Rightarrow> bool" where
  "config_rejected v \<longleftrightarrow>
     bid_provider_id (cfg_binding v) = [] \<or> bid_effect_domain (cfg_binding v) = [] \<or>
     bid_composition_revision (cfg_binding v) = 0 \<or>
     bid_provider_generation (cfg_binding v) = 0 \<or>
     cfg_capability_id v = [] \<or> cfg_binding_observer v = [] \<or>
     cfg_worker_observer v = [] \<or> cfg_result_sink_observer v = [] \<or>
     cfg_native_evidence_source v = [] \<or> cfg_settlement_evidence_source v = [] \<or>
     cfg_settlement_scope v = [] \<or> cfg_stop_evidence_source v = [] \<or>
     cfg_stop_evidence_source v = cfg_native_evidence_source v \<or>
     cfg_stop_evidence_source v = cfg_settlement_evidence_source v \<or>
     cfg_stop_evidence_source v = cfg_result_sink_observer v \<or>
     (cfg_readiness_kind v \<noteq> SkWorkerReady \<and> cfg_readiness_kind v \<noteq> SkAdapterReady)"

definition make_gate :: "AuthorityGateConfig \<Rightarrow> gate option" where
  "make_gate config = (if config_rejected config then None else Some (implementation_init config))"

subsection \<open>Reading the state\<close>

definition current_authority_matches :: "gate \<Rightarrow> OperationAuthority \<Rightarrow> bool" where
  "current_authority_matches g authority \<longleftrightarrow>
     (case g_current_receipt g of
        None \<Rightarrow> False
      | Some r \<Rightarrow> binding_eq (oa_binding authority) (active_binding g) \<and>
                  authority_matches (rc_authority r) authority)"

text \<open>The source returns \<open>-1\<close> for a kind without an index.\<close>

definition readiness_index :: "gate \<Rightarrow> StartupEvidenceKind \<Rightarrow> nat option" where
  "readiness_index g kind =
    (if kind = SkBindingIdleAndSettled then Some 0
     else if kind = cfg_readiness_kind (g_config g) then Some 1
     else if kind = SkResultSinkReady then Some 2 else None)"

definition readiness_source :: "gate \<Rightarrow> nat \<Rightarrow> string" where
  "readiness_source g index =
    (if index = 0 then cfg_binding_observer (g_config g)
     else if index = 1 then cfg_worker_observer (g_config g)
     else cfg_result_sink_observer (g_config g))"

definition candidate_times :: "Candidate \<Rightarrow> monotonic_time option list" where
  "candidate_times c =
     map (\<lambda>f. map_option (\<lambda>e. er_observed_at (bre_record e)) (rf_evidence f)) (cn_readiness c) @
     [map_option (\<lambda>x. er_observed_at (xc_record x)) (cn_capabilities c)]"

definition binding_times :: "gate \<Rightarrow> monotonic_time option list" where
  "binding_times g =
     [map_option latest_time (g_current_receipt g),
      map_option er_observed_at (sf_record (g_binding_idle g)),
      map_option er_observed_at (sf_record (g_worker_ready g)),
      map_option er_observed_at (sf_record (g_result_sink_ready g)),
      map_option (\<lambda>x. er_observed_at (xc_record x)) (g_execution_capabilities g)] @
     (case g_candidate g of None \<Rightarrow> [] | Some c \<Rightarrow> candidate_times c)"

definition latest_binding_time :: "gate \<Rightarrow> monotonic_time" where
  "latest_binding_time g =
     fold (\<lambda>t time. raise_to time t) (binding_times g) (g_last_binding_control_at g)"

definition current_is_releasable :: "gate \<Rightarrow> bool" where
  "current_is_releasable g \<longleftrightarrow>
     (case g_current_receipt g of
        None \<Rightarrow> False
      | Some r \<Rightarrow> has_resolved_closure r \<and> rc_authority_disposition r = AuReleased)"

definition old_work_closed :: "gate \<Rightarrow> bool" where
  "old_work_closed g \<longleftrightarrow> g_current_receipt g = None \<or> current_is_releasable g"

text \<open>One readiness fact of the candidate still holds at \<open>now\<close>.\<close>

definition readiness_fact_holds :: "monotonic_time \<Rightarrow> ReadinessFact \<Rightarrow> bool" where
  "readiness_fact_holds now f \<longleftrightarrow>
     (case rf_evidence f of
        None \<Rightarrow> False
      | Some e \<Rightarrow> \<not> rf_conflicted f \<and> bre_observed e \<and>
                  now \<ge> er_observed_at (bre_record e) \<and> now < bre_valid_until e)"

definition candidate_capabilities_hold :: "monotonic_time \<Rightarrow> Candidate \<Rightarrow> bool" where
  "candidate_capabilities_hold now c \<longleftrightarrow>
     (case cn_capabilities c of
        None \<Rightarrow> False
      | Some x \<Rightarrow> \<not> cn_capabilities_conflicted c \<and> xc_available x \<and>
                  now \<ge> er_observed_at (xc_record x) \<and> now < xc_valid_until x)"

definition can_commit :: "gate \<Rightarrow> monotonic_time \<Rightarrow> bool" where
  "can_commit g now =
    (case g_candidate g of
       None \<Rightarrow> False
     | Some c \<Rightarrow>
         g_binding_phase g = PhPreparing \<and> now \<ge> latest_binding_time g \<and>
         old_work_closed g \<and> now < bre_valid_until (cn_old_scope c) \<and>
         (case g_current_receipt g of
            None \<Rightarrow> True
          | Some r \<Rightarrow> er_observed_at (bre_record (cn_old_scope c)) \<ge> latest_effect_time r) \<and>
         list_all (readiness_fact_holds now) (cn_readiness c) \<and>
         (cfg_execution_capability_observer (g_config g) \<noteq> [] \<longrightarrow>
            candidate_capabilities_hold now c))"

definition supports_execution :: "gate \<Rightarrow> ExecutionRequirements \<Rightarrow> monotonic_time \<Rightarrow> bool" where
  "supports_execution g requirements at =
    (case g_execution_capabilities g of
       None \<Rightarrow> False
     | Some x \<Rightarrow>
         g_binding_phase g = PhActive \<and> g_initialization_state g \<noteq> IsClosed \<and>
         xr_profile_id requirements \<noteq> [] \<and> xr_work_units requirements \<noteq> 0 \<and>
         xc_available x \<and> xc_profile_id x = xr_profile_id requirements \<and>
         xr_work_units requirements \<le> xc_maximum_work_units x \<and>
         at \<ge> er_observed_at (xc_record x) \<and> at < xc_valid_until x)"

definition binding_status :: "gate \<Rightarrow> monotonic_time \<Rightarrow> BindingStatus" where
  "binding_status g at =
    \<lparr>bs_phase = g_binding_phase g, bs_active = active_binding g,
     bs_candidate = map_option cn_binding (g_candidate g), bs_can_commit = can_commit g at\<rparr>"

definition startup_status :: "gate \<Rightarrow> StartupStatus" where
  "startup_status g =
    (let kind = cfg_readiness_kind (g_config g);
         is_ready = fact_holds (g_worker_ready g);
         worker_record = (if sf_observed (g_worker_ready g) then sf_record (g_worker_ready g) else None)
     in \<lparr>ss_state = g_initialization_state g, ss_binding = active_binding g,
         ss_is_binding_idle_and_settled = fact_holds (g_binding_idle g),
         ss_is_worker_ready = (kind = SkWorkerReady \<and> is_ready),
         ss_is_result_sink_ready = fact_holds (g_result_sink_ready g),
         ss_binding_idle_and_settled =
           (if sf_observed (g_binding_idle g) then sf_record (g_binding_idle g) else None),
         ss_worker_ready = (if kind = SkWorkerReady then worker_record else None),
         ss_result_sink_ready =
           (if sf_observed (g_result_sink_ready g) then sf_record (g_result_sink_ready g) else None),
         ss_is_adapter_ready = (kind = SkAdapterReady \<and> is_ready),
         ss_adapter_ready = (if kind = SkWorkerReady then None else worker_record)\<rparr>)"

definition gate_receipt :: "gate \<Rightarrow> OperationAuthority \<Rightarrow> OperationReceipt option" where
  "gate_receipt g authority =
    (case g_current_receipt g of
       None \<Rightarrow> None
     | Some r \<Rightarrow> if authority_matches (rc_authority r) authority then Some r else None)"

subsection \<open>Rules\<close>

text \<open>The conditions as propositions about the engaged optionals, for the operation proofs.\<close>

lemma current_authority_matches_iff:
  "current_authority_matches g a \<longleftrightarrow>
    (\<exists>r. g_current_receipt g = Some r \<and> oa_binding a = active_binding g \<and> rc_authority r = a)"
  by (auto simp: current_authority_matches_def split: option.splits)

lemma current_is_releasable_iff:
  "current_is_releasable g \<longleftrightarrow>
    (\<exists>r. g_current_receipt g = Some r \<and> has_resolved_closure r \<and>
         rc_authority_disposition r = AuReleased)"
  by (auto simp: current_is_releasable_def split: option.splits)

lemma fold_raise_ge: "t \<le> fold (\<lambda>t time. raise_to time t) ts t"
  by (induction ts arbitrary: t) (auto intro: order_trans [OF raise_to_ge])

lemma fold_raise_member: "Some x \<in> set ts \<Longrightarrow> x \<le> fold (\<lambda>t time. raise_to time t) ts t"
proof (induction ts arbitrary: t)
  case Nil
  then show ?case by simp
next
  case (Cons y ys)
  show ?case
  proof (cases "y = Some x")
    case True
    then show ?thesis
      using order_trans [OF raise_to_Some_ge fold_raise_ge] by simp
  next
    case False
    with Cons show ?thesis by auto
  qed
qed

lemma latest_binding_time_ge_control: "g_last_binding_control_at g \<le> latest_binding_time g"
  unfolding latest_binding_time_def by (rule fold_raise_ge)

lemma latest_binding_time_ge_receipt:
  "g_current_receipt g = Some r \<Longrightarrow> latest_time r \<le> latest_binding_time g"
  unfolding latest_binding_time_def by (rule fold_raise_member) (simp add: binding_times_def)

lemma can_commit_iff:
  "can_commit g now \<longleftrightarrow>
    (\<exists>c. g_candidate g = Some c \<and> g_binding_phase g = PhPreparing \<and>
       now \<ge> latest_binding_time g \<and> old_work_closed g \<and>
       now < bre_valid_until (cn_old_scope c) \<and>
       (\<forall>r. g_current_receipt g = Some r \<longrightarrow>
          er_observed_at (bre_record (cn_old_scope c)) \<ge> latest_effect_time r) \<and>
       list_all (readiness_fact_holds now) (cn_readiness c) \<and>
       (cfg_execution_capability_observer (g_config g) \<noteq> [] \<longrightarrow> candidate_capabilities_hold now c))"
  by (auto simp: can_commit_def split: option.splits)

end
