(* ===== verification/Gate_Binding.thy ===== *)
theory Gate_Binding
  imports Gate_State
begin

text \<open>
  The gate's operations on its binding (\<open>src/core/authority_gate.cpp\<close>): startup facts,
  execution capabilities, withdrawal, and the three steps of a rebind. Each returns the
  new gate and the operation's result; every early return of the source is a branch.
\<close>

subsection \<open>Startup\<close>

datatype fact_slot = SlotBindingIdle | SlotWorkerReady | SlotResultSinkReady

fun get_fact :: "fact_slot \<Rightarrow> gate \<Rightarrow> StartupFact" where
  "get_fact SlotBindingIdle g = g_binding_idle g"
| "get_fact SlotWorkerReady g = g_worker_ready g"
| "get_fact SlotResultSinkReady g = g_result_sink_ready g"

fun put_fact :: "fact_slot \<Rightarrow> StartupFact \<Rightarrow> gate \<Rightarrow> gate" where
  "put_fact SlotBindingIdle f g = g\<lparr>g_binding_idle := f\<rparr>"
| "put_fact SlotWorkerReady f g = g\<lparr>g_worker_ready := f\<rparr>"
| "put_fact SlotResultSinkReady f g = g\<lparr>g_result_sink_ready := f\<rparr>"

fun startup_slot :: "gate \<Rightarrow> StartupEvidenceKind \<Rightarrow> (fact_slot \<times> string) option" where
  "startup_slot g SkBindingIdleAndSettled = Some (SlotBindingIdle, cfg_binding_observer (g_config g))"
| "startup_slot g SkResultSinkReady = Some (SlotResultSinkReady, cfg_result_sink_observer (g_config g))"
| "startup_slot g kind =
     (if kind \<noteq> cfg_readiness_kind (g_config g) then None
      else Some (SlotWorkerReady, cfg_worker_observer (g_config g)))"

definition all_facts_hold :: "gate \<Rightarrow> bool" where
  "all_facts_hold g \<longleftrightarrow>
     fact_holds (g_binding_idle g) \<and> fact_holds (g_worker_ready g) \<and>
     fact_holds (g_result_sink_ready g)"

text \<open>What a stored fact says about a further record: a verdict, or go on and store it.\<close>

definition startup_repeat :: "StartupFact \<Rightarrow> StartupEvidence \<Rightarrow> EvidenceDisposition option" where
  "startup_repeat stored evidence =
    (case sf_record stored of
       None \<Rightarrow> None
     | Some rcd \<Rightarrow>
         if er_sequence (se_record evidence) < er_sequence rcd \<or>
            er_observed_at (se_record evidence) < er_observed_at rcd then Some EvRejected
         else if er_sequence (se_record evidence) = er_sequence rcd then
           Some (if records_match (se_record evidence) rcd \<and> se_observed evidence = sf_value stored
                 then EvDuplicate else EvRejected)
         else None)"

definition store_startup :: "gate \<Rightarrow> fact_slot \<Rightarrow> StartupEvidence \<Rightarrow> gate" where
  "store_startup g slot evidence =
    (let g' = put_fact slot
                \<lparr>sf_observed = True, sf_value = se_observed evidence,
                 sf_record = Some (se_record evidence)\<rparr> g
     in g'\<lparr>g_initialization_state := (if all_facts_hold g' then IsReady else IsRecoveryRequired)\<rparr>)"

definition observe_startup :: "gate \<Rightarrow> StartupEvidence \<Rightarrow> gate \<times> EvidenceDisposition" where
  "observe_startup g evidence =
    (if g_binding_phase g \<noteq> PhActive \<or> g_initialization_state g = IsClosed \<or>
        g_current_receipt g \<noteq> None \<or> \<not> binding_eq (se_binding evidence) (active_binding g)
     then (g, EvRejected)
     else case startup_slot g (se_kind evidence) of
       None \<Rightarrow> (g, EvRejected)
     | Some (slot, expected_source) \<Rightarrow>
         if \<not> is_record_well_formed (se_record evidence) expected_source (cfg_started_at (g_config g))
         then (g, EvRejected)
         else case startup_repeat (get_fact slot g) evidence of
           Some verdict \<Rightarrow> (g, verdict)
         | None \<Rightarrow> (store_startup g slot evidence, EvAccepted))"

subsection \<open>Execution capabilities\<close>

definition capabilities_well_formed :: "gate \<Rightarrow> ExecutionCapabilities \<Rightarrow> bool" where
  "capabilities_well_formed g caps \<longleftrightarrow>
     xc_capability_id caps = cfg_capability_id (g_config g) \<and> xc_profile_id caps \<noteq> [] \<and>
     xc_maximum_work_units caps \<noteq> 0 \<and>
     er_observed_at (xc_record caps) < xc_valid_until caps"

definition capabilities_identical :: "ExecutionCapabilities \<Rightarrow> ExecutionCapabilities \<Rightarrow> bool" where
  "capabilities_identical caps previous \<longleftrightarrow>
     records_match (xc_record caps) (xc_record previous) \<and>
     xc_profile_id caps = xc_profile_id previous \<and>
     xc_maximum_work_units caps = xc_maximum_work_units previous \<and>
     xc_available caps = xc_available previous \<and>
     xc_valid_until caps = xc_valid_until previous"

text \<open>
  A second record of one sequence number that differs from the first marks the candidate's
  capabilities as conflicted and keeps the later observation time.
\<close>

definition conflict_capabilities :: "ExecutionCapabilities \<Rightarrow> ExecutionCapabilities \<Rightarrow> Candidate \<Rightarrow> Candidate" where
  "conflict_capabilities caps previous c =
     c\<lparr>cn_capabilities_conflicted := True,
       cn_capabilities := Some (previous\<lparr>xc_record := (xc_record previous)
          \<lparr>er_observed_at := max (er_observed_at (xc_record previous))
                                  (er_observed_at (xc_record caps))\<rparr>\<rparr>)\<rparr>"

definition store_candidate_capabilities ::
  "gate \<Rightarrow> ExecutionCapabilities \<Rightarrow> Candidate \<Rightarrow> Candidate \<times> EvidenceDisposition" where
  "store_candidate_capabilities g caps c =
    (if \<not> capabilities_well_formed g caps then (c, EvRejected)
     else (c\<lparr>cn_capabilities := Some caps, cn_capabilities_conflicted := False\<rparr>, EvAccepted))"

definition observe_candidate_capabilities ::
  "gate \<Rightarrow> ExecutionCapabilities \<Rightarrow> Candidate \<Rightarrow> Candidate \<times> EvidenceDisposition" where
  "observe_candidate_capabilities g caps c =
    (if cfg_execution_capability_observer (g_config g) = [] \<or>
        \<not> is_record_well_formed (xc_record caps)
            (cfg_execution_capability_observer (g_config g)) (cn_prepared_at c)
     then (c, EvRejected)
     else case cn_capabilities c of
       None \<Rightarrow> store_candidate_capabilities g caps c
     | Some previous \<Rightarrow>
         if er_sequence (xc_record caps) < er_sequence (xc_record previous) then (c, EvRejected)
         else if er_sequence (xc_record caps) = er_sequence (xc_record previous) then
           (let identical = capabilities_identical caps previous \<and>
                            xc_capability_id caps = xc_capability_id previous;
                c' = (if identical then c else conflict_capabilities caps previous c)
            in (c', if identical \<and> \<not> cn_capabilities_conflicted c' then EvDuplicate else EvRejected))
         else if er_observed_at (xc_record caps) < er_observed_at (xc_record previous)
         then (c, EvRejected)
         else store_candidate_capabilities g caps c)"

definition observe_active_capabilities ::
  "gate \<Rightarrow> ExecutionCapabilities \<Rightarrow> gate \<times> EvidenceDisposition" where
  "observe_active_capabilities g caps =
    (if g_initialization_state g = IsClosed \<or>
        cfg_execution_capability_observer (g_config g) = [] \<or>
        \<not> binding_eq (xc_binding caps) (active_binding g) \<or>
        \<not> capabilities_well_formed g caps \<or>
        \<not> is_record_well_formed (xc_record caps)
            (cfg_execution_capability_observer (g_config g)) (cfg_started_at (g_config g))
     then (g, EvRejected)
     else case g_execution_capabilities g of
       None \<Rightarrow> (g\<lparr>g_execution_capabilities := Some caps\<rparr>, EvAccepted)
     | Some previous \<Rightarrow>
         if er_observed_at (xc_record caps) < er_observed_at (xc_record previous) \<or>
            er_sequence (xc_record caps) < er_sequence (xc_record previous)
         then (g, EvRejected)
         else if er_sequence (xc_record caps) = er_sequence (xc_record previous) then
           (g, if capabilities_identical caps previous then EvDuplicate else EvRejected)
         else (g\<lparr>g_execution_capabilities := Some caps\<rparr>, EvAccepted))"

definition observe_execution_capabilities ::
  "gate \<Rightarrow> ExecutionCapabilities \<Rightarrow> gate \<times> EvidenceDisposition" where
  "observe_execution_capabilities g caps =
    (case g_candidate g of
       Some c \<Rightarrow>
         if binding_eq (xc_binding caps) (cn_binding c) \<and> g_binding_phase g = PhPreparing then
           (case observe_candidate_capabilities g caps c of
              (c', verdict) \<Rightarrow> (g\<lparr>g_candidate := Some c'\<rparr>, verdict))
         else observe_active_capabilities g caps
     | None \<Rightarrow> observe_active_capabilities g caps)"

subsection \<open>Withdrawal\<close>

abbreviation binding_decision :: "BindingControlStatus \<Rightarrow> BindingDecision" where
  "binding_decision status \<equiv>
     \<lparr>bd_status = status, bd_candidate = None, bd_native_stop_authority = None\<rparr>"

definition withdraw_binding ::
  "gate \<Rightarrow> BindingIdentity \<Rightarrow> monotonic_time \<Rightarrow> gate \<times> BindingDecision" where
  "withdraw_binding g expected_binding now =
    (if g_binding_phase g = PhClosed then (g, binding_decision BcClosed)
     else if \<not> binding_eq expected_binding
               (case g_candidate g of Some c \<Rightarrow> cn_binding c | None \<Rightarrow> active_binding g)
     then (g, binding_decision BcStaleIdentity)
     else if now < latest_binding_time g then (g, binding_decision BcInvalidTime)
     else if g_binding_phase g = PhWithdrawn then (g, binding_decision BcAlreadyInPhase)
     else let g1 = g\<lparr>g_last_binding_control_at := now,
                     g_initialization_state := IsRecoveryRequired,
                     g_binding_phase := PhWithdrawn\<rparr>
          in if g_candidate g \<noteq> None then
               (g1\<lparr>g_candidate := None\<rparr>, binding_decision BcApplied)
             else let g2 = g1\<lparr>g_withdrawn_at := Some now\<rparr>
                  in case g_current_receipt g of
                       None \<Rightarrow> (g2, binding_decision BcApplied)
                     | Some r \<Rightarrow>
                         if current_authority_matches g (rc_authority r) \<and>
                            \<not> current_is_releasable g then
                           (case revoke (r\<lparr>rc_binding_withdrawn_at := Some now\<rparr>) now of
                              (r', control) \<Rightarrow>
                                (g2\<lparr>g_current_receipt := Some r'\<rparr>,
                                 (binding_decision BcApplied)
                                   \<lparr>bd_native_stop_authority :=
                                      (if cd_should_request_native_stop control
                                       then Some (rc_authority r) else None)\<rparr>))
                         else (g2, binding_decision BcApplied))"

subsection \<open>Beginning a rebind\<close>

text \<open>
  The dereference \<open>*state.withdrawn_at\<close> is \<open>the\<close> here; the gate's invariant shows that it
  is engaged wherever \<open>begin_rebind\<close> reaches it.
\<close>

definition old_scope_earliest :: "gate \<Rightarrow> monotonic_time" where
  "old_scope_earliest g =
    (case g_current_receipt g of
       None \<Rightarrow> the (g_withdrawn_at g)
     | Some r \<Rightarrow> max (the (g_withdrawn_at g)) (latest_effect_time r))"

definition old_scope_valid :: "gate \<Rightarrow> BindingReadinessEvidence \<Rightarrow> monotonic_time \<Rightarrow> bool" where
  "old_scope_valid g evidence now \<longleftrightarrow>
     binding_eq (bre_binding evidence) (active_binding g) \<and>
     bre_kind evidence = SkBindingIdleAndSettled \<and> bre_observed evidence \<and>
     is_record_well_formed (bre_record evidence) (cfg_binding_observer (g_config g))
       (old_scope_earliest g) \<and>
     er_observed_at (bre_record evidence) \<le> now \<and> now < bre_valid_until evidence"

definition record_succeeds :: "EvidenceRecord \<Rightarrow> EvidenceRecord option \<Rightarrow> bool" where
  "record_succeeds rcd previous \<longleftrightarrow>
     (case previous of
        None \<Rightarrow> True
      | Some p \<Rightarrow> er_sequence p < er_sequence rcd \<and> er_observed_at p \<le> er_observed_at rcd)"

definition new_candidate ::
  "gate \<Rightarrow> string \<Rightarrow> BindingReadinessEvidence \<Rightarrow> monotonic_time \<Rightarrow> Candidate" where
  "new_candidate g new_provider_id evidence now =
    \<lparr>cn_binding = (active_binding g)
       \<lparr>bid_provider_id := new_provider_id,
        bid_provider_generation := g_generation_high_water g + 1\<rparr>,
     cn_prepared_at = now, cn_old_scope = evidence,
     cn_readiness = [empty_readiness, empty_readiness, empty_readiness],
     cn_capabilities = None, cn_capabilities_conflicted = False\<rparr>"

definition begin_rebind ::
  "gate \<Rightarrow> BindingIdentity \<Rightarrow> string \<Rightarrow> BindingReadinessEvidence \<Rightarrow> monotonic_time \<Rightarrow>
   gate \<times> BindingDecision" where
  "begin_rebind g expected_old_binding new_provider_id old_scope_evidence now =
    (if g_binding_phase g = PhClosed then (g, binding_decision BcClosed)
     else if \<not> binding_eq expected_old_binding (active_binding g)
     then (g, binding_decision BcStaleIdentity)
     else if now < latest_binding_time g then (g, binding_decision BcInvalidTime)
     else case g_candidate g of
       Some c \<Rightarrow> (g, (binding_decision BcAlreadyInPhase)\<lparr>bd_candidate := Some (cn_binding c)\<rparr>)
     | None \<Rightarrow>
         if g_binding_phase g \<noteq> PhWithdrawn then (g, binding_decision BcWrongPhase)
         else if \<not> old_work_closed g then (g, binding_decision BcUnresolvedWork)
         else if new_provider_id = [] then (g, binding_decision BcInvalidProvider)
         else if \<not> old_scope_valid g old_scope_evidence now
         then (g, binding_decision BcInvalidEvidence)
         else if \<not> record_succeeds (bre_record old_scope_evidence) (sf_record (g_binding_idle g)) \<or>
                 \<not> record_succeeds (bre_record old_scope_evidence) (g_last_old_scope_record g)
         then (g, binding_decision BcInvalidEvidence)
         else if g_generation_high_water g = u64_max
         then (g, binding_decision BcIdentityExhausted)
         else let c = new_candidate g new_provider_id old_scope_evidence now
              in (g\<lparr>g_candidate := Some c,
                    g_last_old_scope_record := Some (bre_record old_scope_evidence),
                    g_generation_high_water := g_generation_high_water g + 1,
                    g_last_binding_control_at := now, g_binding_phase := PhPreparing\<rparr>,
                  (binding_decision BcApplied)\<lparr>bd_candidate := Some (cn_binding c)\<rparr>))"

subsection \<open>Readiness of the candidate\<close>

definition readiness_identical :: "BindingReadinessEvidence \<Rightarrow> BindingReadinessEvidence \<Rightarrow> bool" where
  "readiness_identical evidence previous \<longleftrightarrow>
     records_match (bre_record evidence) (bre_record previous) \<and>
     bre_observed evidence = bre_observed previous \<and>
     bre_valid_until evidence = bre_valid_until previous"

definition conflict_readiness :: "BindingReadinessEvidence \<Rightarrow> BindingReadinessEvidence \<Rightarrow> ReadinessFact \<Rightarrow> ReadinessFact" where
  "conflict_readiness evidence previous f =
     f\<lparr>rf_conflicted := True,
       rf_evidence := Some (previous\<lparr>bre_record := (bre_record previous)
          \<lparr>er_observed_at := max (er_observed_at (bre_record previous))
                                  (er_observed_at (bre_record evidence))\<rparr>\<rparr>)\<rparr>"

definition store_readiness :: "BindingReadinessEvidence \<Rightarrow> ReadinessFact \<Rightarrow> ReadinessFact \<times> EvidenceDisposition" where
  "store_readiness evidence f =
    (if bre_valid_until evidence \<le> er_observed_at (bre_record evidence) then (f, EvRejected)
     else (f\<lparr>rf_evidence := Some evidence, rf_conflicted := False\<rparr>, EvAccepted))"

definition observe_readiness_fact ::
  "BindingReadinessEvidence \<Rightarrow> ReadinessFact \<Rightarrow> ReadinessFact \<times> EvidenceDisposition" where
  "observe_readiness_fact evidence f =
    (case rf_evidence f of
       None \<Rightarrow> store_readiness evidence f
     | Some previous \<Rightarrow>
         if er_sequence (bre_record evidence) < er_sequence (bre_record previous)
         then (f, EvRejected)
         else if er_sequence (bre_record evidence) = er_sequence (bre_record previous) then
           (let identical = readiness_identical evidence previous;
                f' = (if identical then f else conflict_readiness evidence previous f)
            in (f', if identical \<and> \<not> rf_conflicted f' then EvDuplicate else EvRejected))
         else if er_observed_at (bre_record evidence) < er_observed_at (bre_record previous)
         then (f, EvRejected)
         else store_readiness evidence f)"

definition observe_rebind_readiness ::
  "gate \<Rightarrow> BindingReadinessEvidence \<Rightarrow> gate \<times> EvidenceDisposition" where
  "observe_rebind_readiness g evidence =
    (case g_candidate g of
       None \<Rightarrow> (g, EvRejected)
     | Some c \<Rightarrow>
         if g_binding_phase g \<noteq> PhPreparing \<or> \<not> binding_eq (bre_binding evidence) (cn_binding c)
         then (g, EvRejected)
         else case readiness_index g (bre_kind evidence) of
           None \<Rightarrow> (g, EvRejected)
         | Some index \<Rightarrow>
             if \<not> is_record_well_formed (bre_record evidence) (readiness_source g index)
                   (cn_prepared_at c)
             then (g, EvRejected)
             else case observe_readiness_fact evidence (cn_readiness c ! index) of
               (f, verdict) \<Rightarrow>
                 (g\<lparr>g_candidate := Some (c\<lparr>cn_readiness := (cn_readiness c)[index := f]\<rparr>)\<rparr>,
                  verdict))"

subsection \<open>Committing a rebind\<close>

definition committed_fact :: "Candidate \<Rightarrow> nat \<Rightarrow> StartupFact" where
  "committed_fact c i =
    \<lparr>sf_observed = True, sf_value = True,
     sf_record = Some (bre_record (the (rf_evidence (cn_readiness c ! i))))\<rparr>"

definition install_candidate :: "gate \<Rightarrow> Candidate \<Rightarrow> monotonic_time \<Rightarrow> gate" where
  "install_candidate g c now =
     g\<lparr>g_config := (g_config g)\<lparr>cfg_binding := cn_binding c\<rparr>,
       g_binding_idle := committed_fact c 0, g_worker_ready := committed_fact c 1,
       g_result_sink_ready := committed_fact c 2,
       g_execution_capabilities := cn_capabilities c,
       g_last_old_scope_record := None, g_candidate := None,
       g_last_binding_control_at := now, g_initialization_state := IsReady,
       g_binding_phase := PhActive\<rparr>"

definition commit_rebind ::
  "gate \<Rightarrow> BindingIdentity \<Rightarrow> monotonic_time \<Rightarrow> gate \<times> BindingDecision" where
  "commit_rebind g expected_candidate now =
    (if g_binding_phase g = PhClosed then (g, binding_decision BcClosed)
     else if now < latest_binding_time g then (g, binding_decision BcInvalidTime)
     else case g_candidate g of
       None \<Rightarrow>
         (g, binding_decision
               (if g_binding_phase g = PhActive \<and> g_withdrawn_at g \<noteq> None \<and>
                   binding_eq expected_candidate (active_binding g)
                then BcAlreadyInPhase else BcStaleIdentity))
     | Some c \<Rightarrow>
         if \<not> binding_eq expected_candidate (cn_binding c)
         then (g, binding_decision BcStaleIdentity)
         else if \<not> old_work_closed g then (g, binding_decision BcUnresolvedWork)
         else if \<not> can_commit g now then (g, binding_decision BcInvalidEvidence)
         else (install_candidate g c now, binding_decision BcApplied))"

end
