(* ===== verification/Gate_Operation.thy ===== *)
theory Gate_Operation
  imports Gate_Binding
begin

text \<open>
  The gate's operations on the current operation (\<open>src/core/authority_gate.cpp\<close>):
  admission, the dispatch claim, cancellation and expiry, the evidence about stopping,
  submission, native execution, output and settlement, and the closing of admission.
\<close>

subsection \<open>Admission\<close>

definition request_mismatch :: "gate \<Rightarrow> OperationRequest \<Rightarrow> bool" where
  "request_mismatch g request \<longleftrightarrow>
     oq_capability_id request \<noteq> cfg_capability_id (g_config g) \<or>
     oq_effect_domain request \<noteq> bid_effect_domain (active_binding g) \<or>
     oq_opaque_request_reference request = [] \<or> oq_target_reference request = [] \<or>
     oq_requested_at request < g_last_binding_control_at g \<or> g_next_operation_id g = 0"

definition precedes_startup_record :: "gate \<Rightarrow> monotonic_time \<Rightarrow> bool" where
  "precedes_startup_record g time \<longleftrightarrow>
     list_ex (\<lambda>f. case sf_record f of None \<Rightarrow> False | Some rcd \<Rightarrow> time < er_observed_at rcd)
       [g_binding_idle g, g_worker_ready g, g_result_sink_ready g]"

definition capabilities_unavailable :: "gate \<Rightarrow> OperationRequest \<Rightarrow> bool" where
  "capabilities_unavailable g request =
    (case oq_execution_requirements request of
       None \<Rightarrow> cfg_execution_capability_observer (g_config g) \<noteq> []
     | Some requirements \<Rightarrow> \<not> supports_execution g requirements (oq_requested_at request))"

definition admission_refusal :: "gate \<Rightarrow> OperationRequest \<Rightarrow> AdmissionStatus option" where
  "admission_refusal g request =
    (if g_initialization_state g = IsClosed then Some AdClosed
     else if request_mismatch g request then Some AdInvalidRequest
     else if \<not> (case oq_deadline request of None \<Rightarrow> True | Some d \<Rightarrow> oq_requested_at request < d)
     then Some AdExpired
     else if g_binding_phase g \<noteq> PhActive \<or> g_initialization_state g \<noteq> IsReady
     then Some AdRecoveryRequired
     else if g_current_receipt g \<noteq> None \<and> \<not> current_is_releasable g then Some AdDomainOccupied
     else if (case g_current_receipt g of
                None \<Rightarrow> False | Some r \<Rightarrow> oq_requested_at request < latest_time r)
     then Some AdInvalidRequest
     else if precedes_startup_record g (oq_requested_at request) then Some AdInvalidRequest
     else if capabilities_unavailable g request then Some AdCapabilitiesUnavailable
     else None)"

definition admitted_authority :: "gate \<Rightarrow> OperationRequest \<Rightarrow> OperationAuthority" where
  "admitted_authority g request =
    \<lparr>oa_operation_id = g_next_operation_id g, oa_binding = active_binding g,
     oa_admitted_at = oq_requested_at request\<rparr>"

definition admit :: "gate \<Rightarrow> OperationRequest \<Rightarrow> gate \<times> AdmissionDecision" where
  "admit g request =
    (case admission_refusal g request of
       Some status \<Rightarrow> (g, \<lparr>ad_status = status, ad_authority = None\<rparr>)
     | None \<Rightarrow>
         let authority = admitted_authority g request
         in (g\<lparr>g_next_operation_id := g_next_operation_id g + 1,
               g_current_receipt := Some (new_receipt authority (oq_deadline request)
                                            (oq_execution_requirements request)),
               g_last_native_record := None, g_last_native_kind := None\<rparr>,
             \<lparr>ad_status = AdAdmitted, ad_authority = Some authority\<rparr>))"

subsection \<open>The dispatch claim\<close>

definition claim_refused :: "gate \<Rightarrow> OperationReceipt \<Rightarrow> OperationAuthority \<Rightarrow> monotonic_time \<Rightarrow> bool" where
  "claim_refused g r authority observed_at \<longleftrightarrow>
     g_binding_phase g \<noteq> PhActive \<or> g_initialization_state g \<noteq> IsReady \<or>
     \<not> current_authority_matches g authority \<or> observed_at < oa_admitted_at authority \<or>
     rc_dispatch r \<noteq> DsPending \<or> is_revoked r \<or> has_reached_deadline r observed_at \<or>
     (case rc_execution_requirements r of
        None \<Rightarrow> False | Some requirements \<Rightarrow> \<not> supports_execution g requirements observed_at)"

definition claim_dispatch :: "gate \<Rightarrow> OperationAuthority \<Rightarrow> monotonic_time \<Rightarrow> gate \<times> bool" where
  "claim_dispatch g authority observed_at =
    (case g_current_receipt g of
       None \<Rightarrow> (g, False)
     | Some r \<Rightarrow>
         if claim_refused g r authority observed_at then (g, False)
         else (g\<lparr>g_current_receipt :=
                   Some (r\<lparr>rc_dispatch := DsSubmitted, rc_dispatched_at := Some observed_at\<rparr>)\<rparr>,
               True))"

subsection \<open>Cancellation and expiry\<close>

abbreviation control_decision :: "ControlStatus \<Rightarrow> ControlDecision" where
  "control_decision status \<equiv> \<lparr>cd_status = status, cd_should_request_native_stop = False\<rparr>"

definition request_cancel ::
  "gate \<Rightarrow> OperationAuthority \<Rightarrow> monotonic_time \<Rightarrow> gate \<times> ControlDecision" where
  "request_cancel g authority observed_at =
    (case g_current_receipt g of
       None \<Rightarrow> (g, control_decision CsNoActiveOperation)
     | Some r \<Rightarrow>
         if \<not> current_authority_matches g authority then (g, control_decision CsNoActiveOperation)
         else if rc_authority_disposition r = AuReleased
         then (g, control_decision CsNoActiveOperation)
         else if observed_at < latest_time r then (g, control_decision CsRejected)
         else if rc_cancellation_requested_at r \<noteq> None
         then (g, control_decision CsAlreadyRequested)
         else case revoke (r\<lparr>rc_cancellation_requested_at := Some observed_at\<rparr>) observed_at of
           (r', decision) \<Rightarrow> (g\<lparr>g_current_receipt := Some r'\<rparr>, decision))"

definition observe_time ::
  "gate \<Rightarrow> OperationAuthority \<Rightarrow> monotonic_time \<Rightarrow> gate \<times> ControlDecision" where
  "observe_time g authority observed_at =
    (case g_current_receipt g of
       None \<Rightarrow> (g, control_decision CsNoActiveOperation)
     | Some r \<Rightarrow>
         if \<not> current_authority_matches g authority \<or> rc_authority_disposition r = AuReleased
         then (g, control_decision CsNoActiveOperation)
         else if observed_at < latest_time r then (g, control_decision CsRejected)
         else if rc_expiry_observed_at r \<noteq> None then (g, control_decision CsAlreadyRequested)
         else if \<not> has_reached_deadline r observed_at then (g, control_decision CsNotDue)
         else case revoke (r\<lparr>rc_expiry_observed_at := Some observed_at\<rparr>) observed_at of
           (r', decision) \<Rightarrow> (g\<lparr>g_current_receipt := Some r'\<rparr>, decision))"

subsection \<open>Stop acknowledgements\<close>

text \<open>
  The evidence operations act on the receipt of the matching authority only. Each is
  written as its verdict on that receipt, and \<open>on_current\<close> stores what it returns.
\<close>

definition on_current ::
  "gate \<Rightarrow> OperationAuthority \<Rightarrow> (OperationReceipt \<Rightarrow> OperationReceipt \<times> EvidenceDisposition) \<Rightarrow>
   gate \<times> EvidenceDisposition" where
  "on_current g authority f =
    (case g_current_receipt g of
       None \<Rightarrow> (g, EvRejected)
     | Some r \<Rightarrow>
         if \<not> current_authority_matches g authority then (g, EvRejected)
         else case f r of (r', verdict) \<Rightarrow> (g\<lparr>g_current_receipt := Some r'\<rparr>, verdict))"

definition matches_stored :: "EvidenceRecord option \<Rightarrow> EvidenceRecord \<Rightarrow> bool" where
  "matches_stored stored rcd \<longleftrightarrow>
     (case stored of None \<Rightarrow> False | Some s \<Rightarrow> records_match s rcd)"

abbreviation repeat_verdict :: "bool \<Rightarrow> EvidenceDisposition" where
  "repeat_verdict same \<equiv> (if same then EvDuplicate else EvRejected)"

definition mark_stop_acknowledged :: "StopAcknowledgementEvidence \<Rightarrow> OperationReceipt \<Rightarrow> OperationReceipt" where
  "mark_stop_acknowledged evidence r =
     r\<lparr>rc_stop_acknowledgement := sae_acknowledgement evidence,
       rc_stop_acknowledgement_evidence := Some (sae_record evidence)\<rparr>"

definition receipt_stop_acknowledgement ::
  "AuthorityGateConfig \<Rightarrow> StopAcknowledgementEvidence \<Rightarrow> OperationReceipt \<Rightarrow>
   OperationReceipt \<times> EvidenceDisposition" where
  "receipt_stop_acknowledgement config evidence r =
    (case rc_native_stop_requested_at r of
       None \<Rightarrow> (r, EvRejected)
     | Some requested_at \<Rightarrow>
         if \<not> is_record_well_formed (sae_record evidence) (cfg_stop_evidence_source config)
               requested_at
         then (r, EvRejected)
         else if sae_acknowledgement evidence \<notin> {SaAcknowledged, SaRefused, SaUnavailable}
         then (r, EvRejected)
         else if rc_stop_acknowledgement_evidence r \<noteq> None then
           (r, repeat_verdict (rc_stop_acknowledgement r = sae_acknowledgement evidence \<and>
                matches_stored (rc_stop_acknowledgement_evidence r) (sae_record evidence)))
         else if rc_authority_disposition r = AuReleased then (r, EvRejected)
         else (mark_stop_acknowledged evidence r, EvAccepted))"

definition observe_stop_acknowledgement ::
  "gate \<Rightarrow> StopAcknowledgementEvidence \<Rightarrow> gate \<times> EvidenceDisposition" where
  "observe_stop_acknowledgement g evidence =
     on_current g (sae_authority evidence) (receipt_stop_acknowledgement (g_config g) evidence)"

subsection \<open>Non-submission\<close>

definition mark_not_submitted :: "NonSubmissionEvidence \<Rightarrow> OperationReceipt \<Rightarrow> OperationReceipt" where
  "mark_not_submitted evidence r =
     refresh_receipt (r\<lparr>rc_dispatch := DsNotSubmitted, rc_native_outcome := NoNotExecuted,
                        rc_non_submission_evidence := Some (nse_record evidence)\<rparr>)"

definition receipt_non_submission ::
  "AuthorityGateConfig \<Rightarrow> NonSubmissionEvidence \<Rightarrow> OperationReceipt \<Rightarrow>
   OperationReceipt \<times> EvidenceDisposition" where
  "receipt_non_submission config evidence r =
    (if \<not> is_record_well_formed (nse_record evidence) (cfg_settlement_evidence_source config)
           (oa_admitted_at (nse_authority evidence))
     then (r, EvRejected)
     else if rc_dispatch r = DsSubmitted \<and>
             \<not> at_or_after (rc_dispatched_at r) (er_observed_at (nse_record evidence))
     then (r, EvRejected)
     else if rc_dispatch r = DsNotSubmitted then
       (r, repeat_verdict (matches_stored (rc_non_submission_evidence r) (nse_record evidence)))
     else if (rc_dispatch r \<noteq> DsPending \<and> rc_dispatch r \<noteq> DsSubmitted) \<or>
             rc_native_acceptance_evidence r \<noteq> None \<or> rc_native_rejection_evidence r \<noteq> None \<or>
             rc_native_started_evidence r \<noteq> None \<or> rc_native_success_evidence r \<noteq> None \<or>
             rc_native_failure_evidence r \<noteq> None
     then (r, EvRejected)
     else (mark_not_submitted evidence r, EvAccepted))"

definition observe_non_submission ::
  "gate \<Rightarrow> NonSubmissionEvidence \<Rightarrow> gate \<times> EvidenceDisposition" where
  "observe_non_submission g evidence =
     on_current g (nse_authority evidence) (receipt_non_submission (g_config g) evidence)"

subsection \<open>Native events\<close>

text \<open>
  The switch of \<open>observe_native\<close>. Each case asks first whether the event was already
  observed, and otherwise notes it with its evidence.
\<close>

definition already_observed :: "NativeEventKind \<Rightarrow> OperationReceipt \<Rightarrow> bool" where
  "already_observed kind r \<longleftrightarrow>
     (case kind of
        NkAccepted \<Rightarrow> rc_native_acceptance r = NaAccepted
      | NkRejected \<Rightarrow> rc_native_acceptance r = NaRejected
      | NkStarted \<Rightarrow> rc_native_started r
      | NkTerminalSucceeded \<Rightarrow> rc_observed_native_success r
      | NkTerminalFailed \<Rightarrow> rc_observed_native_failure r
      | NkTerminalCancelled \<Rightarrow> rc_observed_native_cancellation r)"

definition note_native :: "NativeEvidence \<Rightarrow> OperationReceipt \<Rightarrow> OperationReceipt" where
  "note_native evidence r =
    (case ne_kind evidence of
       NkAccepted \<Rightarrow>
         r\<lparr>rc_native_identity := ne_native_identity evidence,
           rc_native_acceptance := NaAccepted,
           rc_native_acceptance_evidence := Some (ne_record evidence)\<rparr>
     | NkRejected \<Rightarrow>
         r\<lparr>rc_native_identity := ne_native_identity evidence,
           rc_native_acceptance := NaRejected, rc_native_outcome := NoNotExecuted,
           rc_native_rejection_evidence := Some (ne_record evidence)\<rparr>
     | NkStarted \<Rightarrow>
         r\<lparr>rc_native_started := True, rc_native_started_evidence := Some (ne_record evidence)\<rparr>
     | NkTerminalSucceeded \<Rightarrow>
         r\<lparr>rc_observed_native_success := True,
           rc_native_success_evidence := Some (ne_record evidence)\<rparr>
     | NkTerminalFailed \<Rightarrow>
         r\<lparr>rc_observed_native_failure := True,
           rc_native_failure_evidence := Some (ne_record evidence)\<rparr>
     | NkTerminalCancelled \<Rightarrow>
         r\<lparr>rc_observed_native_cancellation := True,
           rc_native_cancellation_evidence := Some (ne_record evidence)\<rparr>)"

text \<open>\<open>None\<close> is the early \<open>return kRejected\<close> of the cases that need an accepted submission.\<close>

definition native_event ::
  "NativeEvidence \<Rightarrow> OperationReceipt \<Rightarrow> (OperationReceipt \<times> EvidenceDisposition) option" where
  "native_event evidence r =
    (if ne_kind evidence \<noteq> NkAccepted \<and> ne_kind evidence \<noteq> NkRejected \<and>
        rc_native_acceptance r \<noteq> NaAccepted
     then None
     else Some (if already_observed (ne_kind evidence) r then (r, EvDuplicate)
                else (note_native evidence r, EvAccepted)))"

definition native_out_of_place :: "NativeEvidence \<Rightarrow> OperationReceipt \<Rightarrow> bool" where
  "native_out_of_place evidence r \<longleftrightarrow>
     (rc_native_identity r \<noteq> [] \<and> rc_native_identity r \<noteq> ne_native_identity evidence) \<or>
     (rc_native_identity r = [] \<and> ne_kind evidence \<noteq> NkAccepted \<and> ne_kind evidence \<noteq> NkRejected) \<or>
     (rc_native_acceptance r = NaRejected \<and> ne_kind evidence \<noteq> NkRejected) \<or>
     (rc_native_acceptance r = NaAccepted \<and> ne_kind evidence = NkRejected)"

text \<open>
  The sequence check against the last native record. The dereferences
  \<open>*state.last_native_kind\<close> and \<open>*dispatched_at\<close> are comparisons with \<open>Some\<close>.
\<close>

definition native_repeat :: "gate \<Rightarrow> NativeEvidence \<Rightarrow> OperationReceipt \<Rightarrow> EvidenceDisposition option" where
  "native_repeat g evidence r =
    (case g_last_native_record g of
       None \<Rightarrow> None
     | Some previous \<Rightarrow>
         if er_sequence (ne_record evidence) < er_sequence previous \<or>
            er_observed_at (ne_record evidence) < er_observed_at previous then Some EvRejected
         else if er_sequence (ne_record evidence) = er_sequence previous then
           Some (repeat_verdict (records_match (ne_record evidence) previous \<and>
                   g_last_native_kind g = Some (ne_kind evidence) \<and>
                   ne_native_identity evidence = rc_native_identity r))
         else None)"

definition native_inadmissible :: "gate \<Rightarrow> NativeEvidence \<Rightarrow> OperationReceipt \<Rightarrow> bool" where
  "native_inadmissible g evidence r \<longleftrightarrow>
     \<not> current_authority_matches g (ne_authority evidence) \<or> ne_native_identity evidence = [] \<or>
     rc_dispatch r \<noteq> DsSubmitted \<or>
     \<not> is_record_well_formed (ne_record evidence) (cfg_native_evidence_source (g_config g))
         (the (rc_dispatched_at r))"

definition settle_native_outcome :: "OperationReceipt \<Rightarrow> OperationReceipt" where
  "settle_native_outcome r = refresh_receipt (r\<lparr>rc_native_outcome := combined_outcome r\<rparr>)"

definition observe_native :: "gate \<Rightarrow> NativeEvidence \<Rightarrow> gate \<times> EvidenceDisposition" where
  "observe_native g evidence =
    (case g_current_receipt g of
       None \<Rightarrow> (g, EvRejected)
     | Some r \<Rightarrow>
         if native_inadmissible g evidence r then (g, EvRejected)
         else case native_repeat g evidence r of
           Some verdict \<Rightarrow> (g, verdict)
         | None \<Rightarrow>
             if native_out_of_place evidence r then (g, EvRejected)
             else case native_event evidence r of
               None \<Rightarrow> (g, EvRejected)
             | Some (r', disposition) \<Rightarrow>
                 (g\<lparr>g_current_receipt := Some (settle_native_outcome r'),
                    g_last_native_record := Some (ne_record evidence),
                    g_last_native_kind := Some (ne_kind evidence)\<rparr>, disposition))"

subsection \<open>Output\<close>

definition can_deliver_result :: "gate \<Rightarrow> OperationAuthority \<Rightarrow> bool" where
  "can_deliver_result g authority \<longleftrightarrow>
     (case g_current_receipt g of
        None \<Rightarrow> False
      | Some r \<Rightarrow>
          g_binding_phase g \<noteq> PhWithdrawn \<and> g_binding_phase g \<noteq> PhPreparing \<and>
          current_authority_matches g authority \<and> \<not> is_revoked r \<and>
          rc_native_outcome r = NoSucceeded \<and> rc_output r = OdPending)"

definition mark_output_accepted :: "OutputEvidence \<Rightarrow> OperationReceipt \<Rightarrow> OperationReceipt" where
  "mark_output_accepted evidence r =
     refresh_receipt (r\<lparr>rc_output := OdAccepted, rc_result_reference := oe_result_reference evidence,
                        rc_output_evidence := Some (oe_record evidence)\<rparr>)"

definition receipt_output_accepted ::
  "gate \<Rightarrow> OutputEvidence \<Rightarrow> OperationReceipt \<Rightarrow> OperationReceipt \<times> EvidenceDisposition" where
  "receipt_output_accepted g evidence r =
    (if oe_result_reference evidence = [] \<or>
        \<not> is_record_well_formed (oe_record evidence) (cfg_result_sink_observer (g_config g))
            (oa_admitted_at (oe_authority evidence))
     then (r, EvRejected)
     else if rc_output r = OdAccepted then
       (r, repeat_verdict (rc_result_reference r = oe_result_reference evidence \<and>
                           matches_stored (rc_output_evidence r) (oe_record evidence)))
     else if \<not> can_deliver_result g (oe_authority evidence) \<or>
             has_reached_deadline r (er_observed_at (oe_record evidence))
     then (r, EvRejected)
     else case rc_native_success_evidence r of
       None \<Rightarrow> (r, EvRejected)
     | Some success \<Rightarrow>
         if er_observed_at (oe_record evidence) < er_observed_at success then (r, EvRejected)
         else (mark_output_accepted evidence r, EvAccepted))"

definition observe_output_accepted :: "gate \<Rightarrow> OutputEvidence \<Rightarrow> gate \<times> EvidenceDisposition" where
  "observe_output_accepted g evidence =
     on_current g (oe_authority evidence) (receipt_output_accepted g evidence)"

text \<open>
  The record that must precede a report that nothing was produced; \<open>None\<close> is the null
  \<open>prerequisite\<close> pointer.
\<close>

definition no_output_prerequisite :: "OperationReceipt \<Rightarrow> EvidenceRecord option" where
  "no_output_prerequisite r =
    (if rc_dispatch r = DsNotSubmitted then rc_non_submission_evidence r
     else if rc_native_acceptance r = NaRejected then rc_native_rejection_evidence r
     else if rc_native_acceptance r = NaAccepted \<and> rc_native_outcome r = NoFailed
     then rc_native_failure_evidence r
     else if rc_native_outcome r = NoCancelled then rc_native_cancellation_evidence r
     else None)"

text \<open>
  The switch over the reason: the expected source and the prerequisite record, or \<open>None\<close>
  for its early \<open>return kRejected\<close>. \<open>kAuthorityRevoked\<close> falls through to \<open>kSinkRejected\<close>.
\<close>

definition sink_prerequisite ::
  "AuthorityGateConfig \<Rightarrow> OutputNonDeliveryEvidence \<Rightarrow> OperationReceipt \<Rightarrow>
   (string \<times> EvidenceRecord option) option" where
  "sink_prerequisite config evidence r =
    (if ond_result_reference evidence = [] \<or> rc_native_acceptance r \<noteq> NaAccepted \<or>
        rc_native_outcome r \<noteq> NoSucceeded
     then None
     else Some (cfg_result_sink_observer config, rc_native_success_evidence r))"

definition non_delivery_prerequisite ::
  "AuthorityGateConfig \<Rightarrow> OutputNonDeliveryEvidence \<Rightarrow> OperationReceipt \<Rightarrow>
   (string \<times> EvidenceRecord option) option" where
  "non_delivery_prerequisite config evidence r =
    (case ond_reason evidence of
       NdNoOutputProduced \<Rightarrow>
         if ond_result_reference evidence \<noteq> [] then None
         else Some (cfg_settlement_evidence_source config, no_output_prerequisite r)
     | NdAuthorityRevoked \<Rightarrow>
         if \<not> revocation_precedes r (er_observed_at (ond_record evidence)) then None
         else sink_prerequisite config evidence r
     | NdSinkRejected \<Rightarrow> sink_prerequisite config evidence r)"

definition mark_not_delivered :: "OutputNonDeliveryEvidence \<Rightarrow> OperationReceipt \<Rightarrow> OperationReceipt" where
  "mark_not_delivered evidence r =
     refresh_receipt (r\<lparr>rc_output := OdNotDelivered,
                        rc_output_non_delivery_reason := Some (ond_reason evidence),
                        rc_result_reference := ond_result_reference evidence,
                        rc_output_non_delivery_evidence := Some (ond_record evidence)\<rparr>)"

definition receipt_not_delivered ::
  "AuthorityGateConfig \<Rightarrow> OutputNonDeliveryEvidence \<Rightarrow> OperationReceipt \<Rightarrow>
   OperationReceipt \<times> EvidenceDisposition" where
  "receipt_not_delivered config evidence r =
    (case non_delivery_prerequisite config evidence r of
       None \<Rightarrow> (r, EvRejected)
     | Some (expected_source, None) \<Rightarrow> (r, EvRejected)
     | Some (expected_source, Some prerequisite) \<Rightarrow>
         if \<not> is_record_well_formed (ond_record evidence) expected_source
               (er_observed_at prerequisite)
         then (r, EvRejected)
         else if rc_output r = OdNotDelivered then
           (r, repeat_verdict (rc_output_non_delivery_reason r = Some (ond_reason evidence) \<and>
                 rc_result_reference r = ond_result_reference evidence \<and>
                 matches_stored (rc_output_non_delivery_evidence r) (ond_record evidence)))
         else if rc_output r \<noteq> OdPending \<or> \<not> follows_same_source_records (ond_record evidence) r
         then (r, EvRejected)
         else (mark_not_delivered evidence r, EvAccepted))"

definition observe_output_not_delivered ::
  "gate \<Rightarrow> OutputNonDeliveryEvidence \<Rightarrow> gate \<times> EvidenceDisposition" where
  "observe_output_not_delivered g evidence =
     on_current g (ond_authority evidence) (receipt_not_delivered (g_config g) evidence)"

subsection \<open>Settlement\<close>

definition mark_settled :: "SettlementEvidence \<Rightarrow> OperationReceipt \<Rightarrow> OperationReceipt" where
  "mark_settled evidence r =
     refresh_receipt (r\<lparr>rc_settlement := StSettled, rc_settlement_scope := ste_scope evidence,
                        rc_settlement_evidence := Some (ste_record evidence)\<rparr>)"

definition receipt_settlement ::
  "AuthorityGateConfig \<Rightarrow> SettlementEvidence \<Rightarrow> OperationReceipt \<Rightarrow>
   OperationReceipt \<times> EvidenceDisposition" where
  "receipt_settlement config evidence r =
    (if ste_scope evidence \<noteq> cfg_settlement_scope config \<or>
        \<not> is_record_well_formed (ste_record evidence) (cfg_settlement_evidence_source config)
            (oa_admitted_at (ste_authority evidence))
     then (r, EvRejected)
     else if rc_settlement r = StSettled then
       (r, repeat_verdict (rc_settlement_scope r = ste_scope evidence \<and>
             matches_stored (rc_settlement_evidence r) (ste_record evidence) \<and>
             ste_permits_same_domain_admission evidence))
     else if \<not> ste_permits_same_domain_admission evidence \<or> rc_output r = OdPending
     then (r, EvRejected)
     else if er_observed_at (ste_record evidence) < latest_effect_time r \<or>
             \<not> follows_same_source_records (ste_record evidence) r
     then (r, EvRejected)
     else if \<not> has_resolved_effects r then (r, EvRejected)
     else (mark_settled evidence r, EvAccepted))"

definition observe_settlement :: "gate \<Rightarrow> SettlementEvidence \<Rightarrow> gate \<times> EvidenceDisposition" where
  "observe_settlement g evidence =
     on_current g (ste_authority evidence) (receipt_settlement (g_config g) evidence)"

subsection \<open>Closing admission\<close>

definition close_admission :: "gate \<Rightarrow> gate" where
  "close_admission g =
     g\<lparr>g_initialization_state := IsClosed, g_binding_phase := PhClosed, g_candidate := None\<rparr>"

end
