(* ===== verification/Receipt_Invariant.thy ===== *)
theory Receipt_Invariant
  imports Gate_Operation
begin

text \<open>
  The invariant of a receipt, in five parts (dispatch, native execution, output,
  settlement, control), and that every operation of the gate on a receipt keeps all five.
\<close>

named_theorems receipt_parts \<open>the definitions of the parts of the receipt invariant\<close>

definition native_count :: "OperationReceipt \<Rightarrow> nat" where
  "native_count r =
     of_bool (rc_observed_native_success r) + of_bool (rc_observed_native_failure r) +
     of_bool (rc_observed_native_cancellation r)"

text \<open>The outcome as a function of what was observed.\<close>

definition expected_outcome :: "OperationReceipt \<Rightarrow> NativeOutcome" where
  "expected_outcome r =
    (if rc_dispatch r = DsNotSubmitted \<or> rc_native_acceptance r = NaRejected then NoNotExecuted
     else if native_count r > 1 then NoUnknown
     else if rc_observed_native_success r then NoSucceeded
     else if rc_observed_native_failure r then NoFailed
     else if rc_observed_native_cancellation r then NoCancelled
     else NoPending)"

definition dispatch_ok :: "OperationReceipt \<Rightarrow> bool" where
  [receipt_parts]: "dispatch_ok r \<longleftrightarrow>
     (rc_dispatch r = DsSubmitted \<longrightarrow> rc_dispatched_at r \<noteq> None) \<and>
     (rc_dispatch r = DsPending \<longrightarrow> rc_dispatched_at r = None) \<and>
     (rc_dispatch r = DsNotSubmitted \<longleftrightarrow> rc_non_submission_evidence r \<noteq> None) \<and>
     (\<forall>t. rc_dispatched_at r = Some t \<longrightarrow> oa_admitted_at (rc_authority r) \<le> t)"

definition native_ok :: "OperationReceipt \<Rightarrow> bool" where
  [receipt_parts]: "native_ok r \<longleftrightarrow>
     (rc_native_acceptance r \<noteq> NaPending \<longrightarrow> rc_dispatch r = DsSubmitted) \<and>
     (rc_native_acceptance r = NaPending \<longleftrightarrow> rc_native_identity r = []) \<and>
     (rc_native_acceptance r = NaAccepted \<longleftrightarrow> rc_native_acceptance_evidence r \<noteq> None) \<and>
     (rc_native_acceptance r = NaRejected \<longleftrightarrow> rc_native_rejection_evidence r \<noteq> None) \<and>
     (rc_native_started r \<longleftrightarrow> rc_native_started_evidence r \<noteq> None) \<and>
     (rc_observed_native_success r \<longleftrightarrow> rc_native_success_evidence r \<noteq> None) \<and>
     (rc_observed_native_failure r \<longleftrightarrow> rc_native_failure_evidence r \<noteq> None) \<and>
     (rc_observed_native_cancellation r \<longleftrightarrow> rc_native_cancellation_evidence r \<noteq> None) \<and>
     (rc_native_started r \<or> native_count r > 0 \<longrightarrow> rc_native_acceptance r = NaAccepted) \<and>
     rc_native_outcome r = expected_outcome r"

definition output_ok :: "OperationReceipt \<Rightarrow> bool" where
  [receipt_parts]: "output_ok r \<longleftrightarrow>
     (rc_output r = OdAccepted \<longleftrightarrow> rc_output_evidence r \<noteq> None) \<and>
     (rc_output r = OdNotDelivered \<longleftrightarrow> rc_output_non_delivery_evidence r \<noteq> None) \<and>
     (rc_output r = OdNotDelivered \<longleftrightarrow> rc_output_non_delivery_reason r \<noteq> None) \<and>
     (rc_output r = OdPending \<longrightarrow> rc_result_reference r = []) \<and>
     (rc_output r = OdAccepted \<longrightarrow> rc_result_reference r \<noteq> [] \<and> rc_observed_native_success r) \<and>
     (\<forall>e. rc_output_evidence r = Some e \<longrightarrow> \<not> has_reached_deadline r (er_observed_at e)) \<and>
     (\<forall>e s. rc_output_evidence r = Some e \<and> rc_native_success_evidence r = Some s \<longrightarrow>
        er_observed_at s \<le> er_observed_at e) \<and>
     (rc_output_non_delivery_reason r = Some NdAuthorityRevoked \<longrightarrow> is_revoked r)"

definition settlement_ok :: "OperationReceipt \<Rightarrow> bool" where
  [receipt_parts]: "settlement_ok r \<longleftrightarrow>
     (rc_settlement r = StSettled \<longleftrightarrow> rc_settlement_evidence r \<noteq> None) \<and>
     (rc_settlement r = StSettled \<longrightarrow> rc_output r \<noteq> OdPending) \<and>
     (rc_settlement r = StSettled \<longrightarrow> has_resolved_effects r \<or> rc_native_outcome r = NoUnknown)"

definition control_ok :: "OperationReceipt \<Rightarrow> bool" where
  [receipt_parts]: "control_ok r \<longleftrightarrow>
     rc_authority_disposition r = disposition_of r \<and>
     (rc_native_stop_requested_at r \<noteq> None \<longrightarrow> is_revoked r \<and> rc_dispatched_at r \<noteq> None) \<and>
     (rc_native_stop_requested_at r = None \<longleftrightarrow> rc_stop_acknowledgement r = SaNotRequested) \<and>
     (rc_stop_acknowledgement_evidence r \<noteq> None \<longrightarrow>
        rc_stop_acknowledgement r \<in> {SaAcknowledged, SaRefused, SaUnavailable}) \<and>
     (rc_stop_acknowledgement_evidence r = None \<longrightarrow>
        rc_stop_acknowledgement r \<in> {SaNotRequested, SaPending})"

definition receipt_ok :: "OperationReceipt \<Rightarrow> bool" where
  "receipt_ok r \<longleftrightarrow>
     dispatch_ok r \<and> native_ok r \<and> output_ok r \<and> settlement_ok r \<and> control_ok r"

lemma receipt_okI:
  "dispatch_ok r \<Longrightarrow> native_ok r \<Longrightarrow> output_ok r \<Longrightarrow> settlement_ok r \<Longrightarrow> control_ok r \<Longrightarrow> receipt_ok r"
  by (simp add: receipt_ok_def)

lemma receipt_okD:
  assumes "receipt_ok r"
  shows "dispatch_ok r" "native_ok r" "output_ok r" "settlement_ok r" "control_ok r"
  using assms by (simp_all add: receipt_ok_def)

subsection \<open>Frames\<close>

text \<open>
  Each part reads some fields only, so a transition that leaves those alone keeps it. The
  fields of a refreshed or revoked receipt are those of the receipt it came from, except
  the disposition and the two stop fields.
\<close>

lemma refresh_receipt_fields [simp]:
  "rc_authority (refresh_receipt r) = rc_authority r"
  "rc_dispatch (refresh_receipt r) = rc_dispatch r"
  "rc_native_acceptance (refresh_receipt r) = rc_native_acceptance r"
  "rc_native_started (refresh_receipt r) = rc_native_started r"
  "rc_native_outcome (refresh_receipt r) = rc_native_outcome r"
  "rc_observed_native_success (refresh_receipt r) = rc_observed_native_success r"
  "rc_observed_native_failure (refresh_receipt r) = rc_observed_native_failure r"
  "rc_observed_native_cancellation (refresh_receipt r) = rc_observed_native_cancellation r"
  "rc_output (refresh_receipt r) = rc_output r"
  "rc_settlement (refresh_receipt r) = rc_settlement r"
  "rc_domain_verdict (refresh_receipt r) = rc_domain_verdict r"
  "rc_dispatched_at (refresh_receipt r) = rc_dispatched_at r"
  "rc_cancellation_requested_at (refresh_receipt r) = rc_cancellation_requested_at r"
  "rc_deadline (refresh_receipt r) = rc_deadline r"
  "rc_expiry_observed_at (refresh_receipt r) = rc_expiry_observed_at r"
  "rc_binding_withdrawn_at (refresh_receipt r) = rc_binding_withdrawn_at r"
  "rc_native_stop_requested_at (refresh_receipt r) = rc_native_stop_requested_at r"
  "rc_stop_acknowledgement (refresh_receipt r) = rc_stop_acknowledgement r"
  "rc_native_identity (refresh_receipt r) = rc_native_identity r"
  "rc_result_reference (refresh_receipt r) = rc_result_reference r"
  "rc_settlement_scope (refresh_receipt r) = rc_settlement_scope r"
  "rc_output_non_delivery_reason (refresh_receipt r) = rc_output_non_delivery_reason r"
  "rc_non_submission_evidence (refresh_receipt r) = rc_non_submission_evidence r"
  "rc_native_acceptance_evidence (refresh_receipt r) = rc_native_acceptance_evidence r"
  "rc_native_rejection_evidence (refresh_receipt r) = rc_native_rejection_evidence r"
  "rc_native_started_evidence (refresh_receipt r) = rc_native_started_evidence r"
  "rc_native_success_evidence (refresh_receipt r) = rc_native_success_evidence r"
  "rc_native_failure_evidence (refresh_receipt r) = rc_native_failure_evidence r"
  "rc_native_cancellation_evidence (refresh_receipt r) = rc_native_cancellation_evidence r"
  "rc_stop_acknowledgement_evidence (refresh_receipt r) = rc_stop_acknowledgement_evidence r"
  "rc_output_evidence (refresh_receipt r) = rc_output_evidence r"
  "rc_output_non_delivery_evidence (refresh_receipt r) = rc_output_non_delivery_evidence r"
  "rc_settlement_evidence (refresh_receipt r) = rc_settlement_evidence r"
  "rc_execution_requirements (refresh_receipt r) = rc_execution_requirements r"
  by (simp_all add: refresh_receipt_def)

lemma revoke_fields [simp]:
  "rc_authority (fst (revoke r t)) = rc_authority r"
  "rc_dispatch (fst (revoke r t)) = rc_dispatch r"
  "rc_native_acceptance (fst (revoke r t)) = rc_native_acceptance r"
  "rc_native_started (fst (revoke r t)) = rc_native_started r"
  "rc_native_outcome (fst (revoke r t)) = rc_native_outcome r"
  "rc_observed_native_success (fst (revoke r t)) = rc_observed_native_success r"
  "rc_observed_native_failure (fst (revoke r t)) = rc_observed_native_failure r"
  "rc_observed_native_cancellation (fst (revoke r t)) = rc_observed_native_cancellation r"
  "rc_output (fst (revoke r t)) = rc_output r"
  "rc_settlement (fst (revoke r t)) = rc_settlement r"
  "rc_domain_verdict (fst (revoke r t)) = rc_domain_verdict r"
  "rc_dispatched_at (fst (revoke r t)) = rc_dispatched_at r"
  "rc_cancellation_requested_at (fst (revoke r t)) = rc_cancellation_requested_at r"
  "rc_deadline (fst (revoke r t)) = rc_deadline r"
  "rc_expiry_observed_at (fst (revoke r t)) = rc_expiry_observed_at r"
  "rc_binding_withdrawn_at (fst (revoke r t)) = rc_binding_withdrawn_at r"
  "rc_native_identity (fst (revoke r t)) = rc_native_identity r"
  "rc_result_reference (fst (revoke r t)) = rc_result_reference r"
  "rc_settlement_scope (fst (revoke r t)) = rc_settlement_scope r"
  "rc_output_non_delivery_reason (fst (revoke r t)) = rc_output_non_delivery_reason r"
  "rc_non_submission_evidence (fst (revoke r t)) = rc_non_submission_evidence r"
  "rc_native_acceptance_evidence (fst (revoke r t)) = rc_native_acceptance_evidence r"
  "rc_native_rejection_evidence (fst (revoke r t)) = rc_native_rejection_evidence r"
  "rc_native_started_evidence (fst (revoke r t)) = rc_native_started_evidence r"
  "rc_native_success_evidence (fst (revoke r t)) = rc_native_success_evidence r"
  "rc_native_failure_evidence (fst (revoke r t)) = rc_native_failure_evidence r"
  "rc_native_cancellation_evidence (fst (revoke r t)) = rc_native_cancellation_evidence r"
  "rc_stop_acknowledgement_evidence (fst (revoke r t)) = rc_stop_acknowledgement_evidence r"
  "rc_output_evidence (fst (revoke r t)) = rc_output_evidence r"
  "rc_output_non_delivery_evidence (fst (revoke r t)) = rc_output_non_delivery_evidence r"
  "rc_settlement_evidence (fst (revoke r t)) = rc_settlement_evidence r"
  "rc_execution_requirements (fst (revoke r t)) = rc_execution_requirements r"
  by (simp_all add: revoke_def Let_def)

lemma revoke_stop_fields:
  "rc_native_stop_requested_at (fst (revoke r t)) =
     (if should_stop r then Some t else rc_native_stop_requested_at r)"
  "rc_stop_acknowledgement (fst (revoke r t)) =
     (if should_stop r then SaPending else rc_stop_acknowledgement r)"
  by (simp_all add: revoke_def Let_def)

lemma dispatch_ok_frame:
  assumes "dispatch_ok r"
    and "rc_dispatch r' = rc_dispatch r"
    and "rc_dispatched_at r' = rc_dispatched_at r"
    and "rc_non_submission_evidence r' = rc_non_submission_evidence r"
    and "rc_authority r' = rc_authority r"
  shows "dispatch_ok r'"
  using assms(1) unfolding dispatch_ok_def assms(2-5) by assumption

lemma native_ok_frame:
  assumes "native_ok r"
    and "rc_dispatch r' = rc_dispatch r"
    and "rc_native_acceptance r' = rc_native_acceptance r"
    and "rc_native_identity r' = rc_native_identity r"
    and "rc_native_started r' = rc_native_started r"
    and "rc_native_outcome r' = rc_native_outcome r"
    and "rc_observed_native_success r' = rc_observed_native_success r"
    and "rc_observed_native_failure r' = rc_observed_native_failure r"
    and "rc_observed_native_cancellation r' = rc_observed_native_cancellation r"
    and "rc_native_acceptance_evidence r' = rc_native_acceptance_evidence r"
    and "rc_native_rejection_evidence r' = rc_native_rejection_evidence r"
    and "rc_native_started_evidence r' = rc_native_started_evidence r"
    and "rc_native_success_evidence r' = rc_native_success_evidence r"
    and "rc_native_failure_evidence r' = rc_native_failure_evidence r"
    and "rc_native_cancellation_evidence r' = rc_native_cancellation_evidence r"
  shows "native_ok r'"
  using assms(1) unfolding native_ok_def expected_outcome_def native_count_def assms(2-15)
  by assumption

lemma has_resolved_effects_frame:
  assumes "rc_dispatch r' = rc_dispatch r"
    and "rc_native_acceptance r' = rc_native_acceptance r"
    and "rc_native_outcome r' = rc_native_outcome r"
    and "rc_output r' = rc_output r"
    and "rc_output_non_delivery_reason r' = rc_output_non_delivery_reason r"
  shows "has_resolved_effects r' = has_resolved_effects r"
  unfolding has_resolved_effects_def no_output_produced_def assms by (rule refl)

lemma output_ok_frame:
  assumes "output_ok r"
    and "rc_output r' = rc_output r"
    and "rc_output_evidence r' = rc_output_evidence r"
    and "rc_output_non_delivery_evidence r' = rc_output_non_delivery_evidence r"
    and "rc_output_non_delivery_reason r' = rc_output_non_delivery_reason r"
    and "rc_result_reference r' = rc_result_reference r"
    and "rc_observed_native_success r' = rc_observed_native_success r"
    and "rc_native_success_evidence r' = rc_native_success_evidence r"
    and "rc_deadline r' = rc_deadline r"
    and "is_revoked r \<Longrightarrow> is_revoked r'"
  shows "output_ok r'"
  using assms(1,10) unfolding output_ok_def has_reached_deadline_def assms(2-9) by blast

lemma settlement_ok_frame:
  assumes "settlement_ok r"
    and "rc_dispatch r' = rc_dispatch r"
    and "rc_native_acceptance r' = rc_native_acceptance r"
    and "rc_native_outcome r' = rc_native_outcome r"
    and "rc_output r' = rc_output r"
    and "rc_output_non_delivery_reason r' = rc_output_non_delivery_reason r"
    and "rc_settlement r' = rc_settlement r"
    and "rc_settlement_evidence r' = rc_settlement_evidence r"
  shows "settlement_ok r'"
  using assms has_resolved_effects_frame [of r' r] unfolding settlement_ok_def by simp

lemma disposition_of_frame:
  assumes "rc_dispatch r' = rc_dispatch r"
    and "rc_native_acceptance r' = rc_native_acceptance r"
    and "rc_native_outcome r' = rc_native_outcome r"
    and "rc_output r' = rc_output r"
    and "rc_output_non_delivery_reason r' = rc_output_non_delivery_reason r"
    and "rc_settlement r' = rc_settlement r"
    and "is_revoked r' = is_revoked r"
  shows "disposition_of r' = disposition_of r"
  using assms has_resolved_effects_frame [of r' r]
  unfolding disposition_of_def has_resolved_closure_def by simp

lemma control_ok_frame:
  assumes "control_ok r"
    and "rc_native_stop_requested_at r' = rc_native_stop_requested_at r"
    and "rc_dispatched_at r' = rc_dispatched_at r"
    and "rc_stop_acknowledgement r' = rc_stop_acknowledgement r"
    and "rc_stop_acknowledgement_evidence r' = rc_stop_acknowledgement_evidence r"
    and "rc_authority_disposition r' = rc_authority_disposition r"
    and "is_revoked r \<Longrightarrow> is_revoked r'"
    and "disposition_of r' = disposition_of r"
  shows "control_ok r'"
  using assms(1,7) unfolding control_ok_def assms(2-6,8) by blast

text \<open>A refresh establishes the disposition, so only the stop fields remain.\<close>

definition stop_ok :: "OperationReceipt \<Rightarrow> bool" where
  "stop_ok r \<longleftrightarrow>
     (rc_native_stop_requested_at r \<noteq> None \<longrightarrow> is_revoked r \<and> rc_dispatched_at r \<noteq> None) \<and>
     (rc_native_stop_requested_at r = None \<longleftrightarrow> rc_stop_acknowledgement r = SaNotRequested) \<and>
     (rc_stop_acknowledgement_evidence r \<noteq> None \<longrightarrow>
        rc_stop_acknowledgement r \<in> {SaAcknowledged, SaRefused, SaUnavailable}) \<and>
     (rc_stop_acknowledgement_evidence r = None \<longrightarrow>
        rc_stop_acknowledgement r \<in> {SaNotRequested, SaPending})"

lemma is_revoked_refresh [simp]: "is_revoked (refresh_receipt r) = is_revoked r"
  by (simp add: is_revoked_def)

lemma disposition_of_refresh [simp]: "disposition_of (refresh_receipt r) = disposition_of r"
  by (rule disposition_of_frame) simp_all

lemma control_ok_refresh: "control_ok (refresh_receipt r) \<longleftrightarrow> stop_ok r"
proof -
  have "rc_authority_disposition (refresh_receipt r) = disposition_of r"
    by (simp add: refresh_receipt_def)
  then show ?thesis
    unfolding control_ok_def stop_ok_def refresh_receipt_fields is_revoked_refresh
      disposition_of_refresh by blast
qed

lemma control_ok_stop: "control_ok r \<Longrightarrow> stop_ok r"
  unfolding control_ok_def stop_ok_def by blast

lemma stop_ok_frame:
  assumes "stop_ok r"
    and "rc_native_stop_requested_at r' = rc_native_stop_requested_at r"
    and "rc_dispatched_at r' = rc_dispatched_at r"
    and "rc_stop_acknowledgement r' = rc_stop_acknowledgement r"
    and "rc_stop_acknowledgement_evidence r' = rc_stop_acknowledgement_evidence r"
    and "is_revoked r \<Longrightarrow> is_revoked r'"
  shows "stop_ok r'"
  using assms(1,6) unfolding stop_ok_def assms(2-5) by blast

lemma refresh_receipt_ok:
  assumes "dispatch_ok r" and "native_ok r" and "output_ok r" and "settlement_ok r" and "stop_ok r"
  shows "receipt_ok (refresh_receipt r)"
proof (rule receipt_okI)
  show "dispatch_ok (refresh_receipt r)" by (rule dispatch_ok_frame [OF assms(1)]) simp_all
  show "native_ok (refresh_receipt r)" by (rule native_ok_frame [OF assms(2)]) simp_all
  show "output_ok (refresh_receipt r)" by (rule output_ok_frame [OF assms(3)]) simp_all
  show "settlement_ok (refresh_receipt r)" by (rule settlement_ok_frame [OF assms(4)]) simp_all
  show "control_ok (refresh_receipt r)" using assms(5) by (simp add: control_ok_refresh)
qed

end
