(* ===== verification/Receipt_Steps.thy ===== *)
theory Receipt_Steps
  imports Receipt_Invariant
begin

text \<open>
  What each evidence operation does to a receipt, as a pair of facts (a verdict other than
  accepted leaves the receipt alone; an accepted one gives the guards that held and the
  stored receipt), and that every operation keeps the receipt invariant.
\<close>

subsection \<open>Verdicts\<close>

lemma stop_acknowledgement_unchanged:
  "snd (receipt_stop_acknowledgement config evidence r) \<noteq> EvAccepted \<Longrightarrow>
     fst (receipt_stop_acknowledgement config evidence r) = r"
  by (auto simp: receipt_stop_acknowledgement_def split: option.splits if_split_asm)

lemma stop_acknowledgement_accepted:
  assumes "snd (receipt_stop_acknowledgement config evidence r) = EvAccepted"
  shows "fst (receipt_stop_acknowledgement config evidence r) = mark_stop_acknowledged evidence r"
    and "rc_native_stop_requested_at r \<noteq> None"
    and "sae_acknowledgement evidence \<in> {SaAcknowledged, SaRefused, SaUnavailable}"
    and "rc_stop_acknowledgement_evidence r = None"
    and "rc_authority_disposition r \<noteq> AuReleased"
  using assms
  by (auto simp: receipt_stop_acknowledgement_def split: option.splits if_split_asm)

lemma non_submission_unchanged:
  "snd (receipt_non_submission config evidence r) \<noteq> EvAccepted \<Longrightarrow>
     fst (receipt_non_submission config evidence r) = r"
  unfolding receipt_non_submission_def by (auto split: if_split_asm)

lemma non_submission_accepted:
  assumes "snd (receipt_non_submission config evidence r) = EvAccepted"
  shows "fst (receipt_non_submission config evidence r) = mark_not_submitted evidence r"
    and "rc_dispatch r \<noteq> DsNotSubmitted"
    and "rc_native_acceptance_evidence r = None" and "rc_native_rejection_evidence r = None"
  using assms unfolding receipt_non_submission_def by (auto split: if_split_asm)

lemma output_accepted_unchanged:
  "snd (receipt_output_accepted g evidence r) \<noteq> EvAccepted \<Longrightarrow>
     fst (receipt_output_accepted g evidence r) = r"
  unfolding receipt_output_accepted_def by (auto split: option.splits if_split_asm)

lemma output_accepted_accepted:
  assumes "snd (receipt_output_accepted g evidence r) = EvAccepted"
  shows "fst (receipt_output_accepted g evidence r) = mark_output_accepted evidence r"
    and "oe_result_reference evidence \<noteq> []"
    and "can_deliver_result g (oe_authority evidence)"
    and "\<not> has_reached_deadline r (er_observed_at (oe_record evidence))"
    and "\<exists>s. rc_native_success_evidence r = Some s \<and> er_observed_at s \<le> er_observed_at (oe_record evidence)"
  using assms unfolding receipt_output_accepted_def
  by (auto simp: not_less split: option.splits if_split_asm)

lemma not_delivered_unchanged:
  "snd (receipt_not_delivered config evidence r) \<noteq> EvAccepted \<Longrightarrow>
     fst (receipt_not_delivered config evidence r) = r"
  unfolding receipt_not_delivered_def by (auto split: option.splits prod.splits if_split_asm)

lemma not_delivered_accepted:
  assumes "snd (receipt_not_delivered config evidence r) = EvAccepted"
  shows "fst (receipt_not_delivered config evidence r) = mark_not_delivered evidence r"
    and "\<exists>source p. non_delivery_prerequisite config evidence r = Some (source, Some p) \<and>
           is_record_well_formed (ond_record evidence) source (er_observed_at p)"
    and "rc_output r = OdPending"
  using assms unfolding receipt_not_delivered_def
  by (auto split: option.splits prod.splits if_split_asm)

lemma settlement_unchanged:
  "snd (receipt_settlement config evidence r) \<noteq> EvAccepted \<Longrightarrow>
     fst (receipt_settlement config evidence r) = r"
  unfolding receipt_settlement_def by (auto split: if_split_asm)

lemma settlement_accepted:
  assumes "snd (receipt_settlement config evidence r) = EvAccepted"
  shows "fst (receipt_settlement config evidence r) = mark_settled evidence r"
    and "rc_settlement r \<noteq> StSettled"
    and "rc_output r \<noteq> OdPending"
    and "latest_effect_time r \<le> er_observed_at (ste_record evidence)"
    and "has_resolved_effects r"
  using assms unfolding receipt_settlement_def by (auto simp: not_less split: if_split_asm)

lemma on_current_unmatched:
  "\<not> current_authority_matches g a \<Longrightarrow> on_current g a f = (g, EvRejected)"
  by (auto simp: on_current_def split: option.splits)

lemma on_current_matched:
  "current_authority_matches g a \<Longrightarrow> g_current_receipt g = Some r \<Longrightarrow>
    on_current g a f = (g\<lparr>g_current_receipt := Some (fst (f r))\<rparr>, snd (f r))"
  by (simp add: on_current_def split_beta)

lemma observe_native_cases:
  obtains (unchanged) v where "observe_native g evidence = (g, v)" and "v \<noteq> EvAccepted"
  | (observed) r r' v where "g_current_receipt g = Some r"
    and "observe_native g evidence =
       (g\<lparr>g_current_receipt := Some (settle_native_outcome r'),
          g_last_native_record := Some (ne_record evidence),
          g_last_native_kind := Some (ne_kind evidence)\<rparr>, v)"
    and "\<not> native_inadmissible g evidence r"
    and "\<not> native_out_of_place evidence r"
    and "native_event evidence r = Some (r', v)"
proof (cases "g_current_receipt g")
  case None
  then show thesis by (intro unchanged [of EvRejected]) (simp_all add: observe_native_def)
next
  case (Some r)
  show thesis
  proof (cases "native_inadmissible g evidence r")
    case True
    with Some show thesis by (intro unchanged [of EvRejected]) (simp_all add: observe_native_def)
  next
    case False
    show thesis
    proof (cases "native_repeat g evidence r")
      case None
      note here = \<open>g_current_receipt g = Some r\<close> False None
      show thesis
      proof (cases "native_out_of_place evidence r \<or> native_event evidence r = None")
        case True
        with here show thesis
          by (intro unchanged [of EvRejected]) (auto simp: observe_native_def)
      next
        case False
        then obtain r' v where "native_event evidence r = Some (r', v)" by auto
        with here False show thesis
          by (intro observed [of r r' v]) (simp_all add: observe_native_def)
      qed
    next
      case (Some v)
      then have "v \<noteq> EvAccepted"
        by (auto simp: native_repeat_def split: option.splits if_splits)
      with Some False \<open>g_current_receipt g = Some r\<close> show thesis
        by (intro unchanged [of v]) (simp_all add: observe_native_def)
    qed
  qed
qed


subsection \<open>A new receipt, and the basic consequences\<close>

lemma new_receipt_ok: "receipt_ok (new_receipt a d x)"
  by (simp add: receipt_ok_def receipt_parts new_receipt_def expected_outcome_def native_count_def
      disposition_of_def has_resolved_closure_def is_revoked_def)

lemma resolved_output: "has_resolved_effects r \<Longrightarrow> rc_output r \<noteq> OdPending"
  by (auto simp: has_resolved_effects_def no_output_produced_def split: if_splits)

lemma resolved_dispatched: "has_resolved_effects r \<Longrightarrow> rc_dispatch r \<noteq> DsPending"
  by (auto simp: has_resolved_effects_def split: if_splits)

lemma unknown_is_accepted:
  assumes "native_ok r" and "rc_native_outcome r = NoUnknown"
  shows "rc_dispatch r = DsSubmitted" and "rc_native_acceptance r = NaAccepted"
proof -
  have "rc_dispatch r \<noteq> DsNotSubmitted" and "native_count r > 0"
    using assms by (auto simp: native_ok_def expected_outcome_def split: if_splits)
  with assms(1) show "rc_native_acceptance r = NaAccepted" by (simp add: native_ok_def)
  with assms(1) show "rc_dispatch r = DsSubmitted" by (simp add: native_ok_def)
qed

lemma settled_dispatched:
  assumes "native_ok r" and "settlement_ok r" and "rc_settlement r = StSettled"
  shows "rc_dispatch r \<noteq> DsPending"
  using assms unknown_is_accepted [OF assms(1)] resolved_dispatched [of r]
  by (auto simp: settlement_ok_def)

lemma native_unaccepted:
  assumes "native_ok r" and "rc_native_acceptance r \<noteq> NaAccepted"
  shows "\<not> rc_native_started r" "\<not> rc_observed_native_success r" "\<not> rc_observed_native_failure r"
    "\<not> rc_observed_native_cancellation r" "rc_native_started_evidence r = None"
    "rc_native_success_evidence r = None" "rc_native_failure_evidence r = None"
    "rc_native_cancellation_evidence r = None" "rc_native_acceptance_evidence r = None"
proof -
  have none: "\<not> rc_native_started r \<and> native_count r = 0"
    using assms unfolding native_ok_def by blast
  then show flags: "\<not> rc_native_started r" "\<not> rc_observed_native_success r"
    "\<not> rc_observed_native_failure r" "\<not> rc_observed_native_cancellation r"
    by (simp_all add: native_count_def)
  show "rc_native_started_evidence r = None" "rc_native_success_evidence r = None"
    "rc_native_failure_evidence r = None" "rc_native_cancellation_evidence r = None"
    "rc_native_acceptance_evidence r = None"
    using assms flags unfolding native_ok_def by blast+
qed

lemma native_pending:
  assumes "native_ok r" and "rc_native_acceptance r = NaPending"
  shows "rc_native_identity r = []" "rc_native_rejection_evidence r = None"
  using assms unfolding native_ok_def by auto

lemma stop_needs_dispatch: "control_ok r \<Longrightarrow> rc_dispatched_at r = None \<Longrightarrow> rc_native_stop_requested_at r = None"
  by (auto simp: control_ok_def)

subsection \<open>Revocation\<close>

lemma revoke_receipt_ok:
  assumes ok: "receipt_ok r"
    and r': "r' = r\<lparr>rc_cancellation_requested_at := x, rc_expiry_observed_at := y,
                   rc_binding_withdrawn_at := z\<rparr>"
    and rev: "is_revoked r'"
  shows "receipt_ok (fst (revoke r' t))"
proof -
  note parts = receipt_okD [OF ok]
  let ?s = "if should_stop r'
            then r'\<lparr>rc_native_stop_requested_at := Some t, rc_stop_acknowledgement := SaPending\<rparr>
            else r'"
  have "dispatch_ok ?s" by (rule dispatch_ok_frame [OF parts(1)]) (simp_all add: r')
  moreover have "native_ok ?s" by (rule native_ok_frame [OF parts(2)]) (simp_all add: r')
  moreover have revoked: "is_revoked ?s" using rev by (simp add: is_revoked_def)
  then have "output_ok ?s" by - (rule output_ok_frame [OF parts(3)], simp_all add: r')
  moreover have "settlement_ok ?s" by (rule settlement_ok_frame [OF parts(4)]) (simp_all add: r')
  moreover have "stop_ok ?s"
  proof (cases "should_stop r'")
    case True
    have "rc_dispatched_at r \<noteq> None" using True parts(1) by (auto simp: should_stop_def dispatch_ok_def r')
    moreover have "rc_stop_acknowledgement_evidence r = None"
      using True parts(5) by (auto simp: should_stop_def control_ok_def r')
    ultimately show ?thesis using True revoked by (simp add: stop_ok_def r')
  next
    case False
    have "stop_ok r'"
      by (rule stop_ok_frame [OF control_ok_stop [OF parts(5)]]) (simp_all add: r' rev [unfolded r'])
    with False show ?thesis by simp
  qed
  ultimately have "receipt_ok (refresh_receipt ?s)" by (rule refresh_receipt_ok)
  then show ?thesis by (simp add: revoke_def Let_def)
qed

lemma revoke_cancelled_ok:
  assumes "receipt_ok r"
  shows "receipt_ok (fst (revoke (r\<lparr>rc_cancellation_requested_at := Some t\<rparr>) t))"
  by (rule revoke_receipt_ok [OF assms, where x = "Some t" and y = "rc_expiry_observed_at r"
        and z = "rc_binding_withdrawn_at r"]) (simp_all add: is_revoked_def)

lemma revoke_expired_ok:
  assumes "receipt_ok r"
  shows "receipt_ok (fst (revoke (r\<lparr>rc_expiry_observed_at := Some t\<rparr>) t))"
  by (rule revoke_receipt_ok [OF assms, where x = "rc_cancellation_requested_at r" and y = "Some t"
        and z = "rc_binding_withdrawn_at r"]) (simp_all add: is_revoked_def)

lemma revoke_withdrawn_ok:
  assumes "receipt_ok r"
  shows "receipt_ok (fst (revoke (r\<lparr>rc_binding_withdrawn_at := Some t\<rparr>) t))"
  by (rule revoke_receipt_ok [OF assms, where x = "rc_cancellation_requested_at r"
        and y = "rc_expiry_observed_at r" and z = "Some t"]) (simp_all add: is_revoked_def)

subsection \<open>Dispatch and its evidence\<close>

lemma claim_receipt_ok:
  assumes ok: "receipt_ok r" and pending: "rc_dispatch r = DsPending"
    and time: "oa_admitted_at (rc_authority r) \<le> t"
  shows "receipt_ok (r\<lparr>rc_dispatch := DsSubmitted, rc_dispatched_at := Some t\<rparr>)"
proof -
  note parts = receipt_okD [OF ok]
  have undispatched: "rc_dispatched_at r = None" and unsubmitted: "rc_non_submission_evidence r = None"
    using parts(1) pending by (auto simp: dispatch_ok_def)
  have accept: "rc_native_acceptance r = NaPending"
    using parts(2) pending by (auto simp: native_ok_def)
  have unsettled: "rc_settlement r = StPending"
    using settled_dispatched [OF parts(2,4)] pending by (cases "rc_settlement r") auto
  let ?r = "r\<lparr>rc_dispatch := DsSubmitted, rc_dispatched_at := Some t\<rparr>"
  have "dispatch_ok ?r" using time unsubmitted by (simp add: dispatch_ok_def)
  moreover have "rc_native_outcome r = NoPending"
    using parts(2) pending accept native_unaccepted(1-4) [OF parts(2)]
    by (simp add: native_ok_def expected_outcome_def native_count_def)
  then have "native_ok ?r"
    using accept native_pending [OF parts(2) accept] native_unaccepted [OF parts(2)]
    by (simp add: native_ok_def expected_outcome_def native_count_def)
  moreover have "output_ok ?r" by (rule output_ok_frame [OF parts(3)]) (simp_all add: is_revoked_def)
  moreover have "settlement_ok ?r" using parts(4) unsettled by (simp add: settlement_ok_def)
  moreover have "control_ok ?r"
    using parts(5) unsettled stop_needs_dispatch [OF parts(5) undispatched]
    by (cases "rc_stop_acknowledgement_evidence r")
      (auto simp: control_ok_def disposition_of_def has_resolved_closure_def is_revoked_def)
  ultimately show ?thesis by (rule receipt_okI)
qed

lemma stop_acknowledgement_receipt_ok:
  assumes ok: "receipt_ok r"
  shows "receipt_ok (fst (receipt_stop_acknowledgement config evidence r))" (is "receipt_ok (fst ?p)")
proof (cases "snd ?p = EvAccepted")
  case False
  with ok show ?thesis by (simp add: stop_acknowledgement_unchanged)
next
  case True
  note acc = stop_acknowledgement_accepted [OF True] and parts = receipt_okD [OF ok]
  let ?r = "mark_stop_acknowledged evidence r"
  have "receipt_ok ?r"
  proof (rule receipt_okI)
    show "dispatch_ok ?r" by (rule dispatch_ok_frame [OF parts(1)]) (simp_all add: mark_stop_acknowledged_def)
    show "native_ok ?r" by (rule native_ok_frame [OF parts(2)]) (simp_all add: mark_stop_acknowledged_def)
    show "output_ok ?r"
      by (rule output_ok_frame [OF parts(3)]) (simp_all add: is_revoked_def mark_stop_acknowledged_def)
    show "settlement_ok ?r" by (rule settlement_ok_frame [OF parts(4)]) (simp_all add: mark_stop_acknowledged_def)
    have "disposition_of ?r = disposition_of r"
      by (rule disposition_of_frame) (simp_all add: is_revoked_def mark_stop_acknowledged_def)
    then show "control_ok ?r"
      using parts(5) acc(2,3) by (auto simp: control_ok_def is_revoked_def mark_stop_acknowledged_def)
  qed
  with acc(1) show ?thesis by simp
qed

lemma non_submission_receipt_ok:
  assumes ok: "receipt_ok r"
  shows "receipt_ok (fst (receipt_non_submission config evidence r))" (is "receipt_ok (fst ?p)")
proof (cases "snd ?p = EvAccepted")
  case False
  with ok show ?thesis by (simp add: non_submission_unchanged)
next
  case True
  note fresh = non_submission_accepted [OF True] and parts = receipt_okD [OF ok]
  let ?r = "r\<lparr>rc_dispatch := DsNotSubmitted, rc_native_outcome := NoNotExecuted,
              rc_non_submission_evidence := Some (nse_record evidence)\<rparr>"
  have accept: "rc_native_acceptance r = NaPending"
    using parts(2) fresh by (cases "rc_native_acceptance r") (auto simp: native_ok_def)
  have "\<not> has_resolved_effects r" and "rc_native_outcome r \<noteq> NoUnknown"
    using fresh(2) accept unknown_is_accepted(2) [OF parts(2)]
    by (auto simp: has_resolved_effects_def)
  then have unsettled: "rc_settlement r = StPending"
    using parts(4) by (cases "rc_settlement r") (auto simp: settlement_ok_def)
  have "receipt_ok (refresh_receipt ?r)"
  proof (rule refresh_receipt_ok)
    show "dispatch_ok ?r" using parts(1) by (simp add: dispatch_ok_def)
    show "native_ok ?r"
      using accept native_pending [OF parts(2) accept] native_unaccepted [OF parts(2)]
      by (simp add: native_ok_def expected_outcome_def native_count_def)
    show "output_ok ?r" by (rule output_ok_frame [OF parts(3)]) (simp_all add: is_revoked_def)
    show "settlement_ok ?r" using parts(4) unsettled by (simp add: settlement_ok_def)
    show "stop_ok ?r"
      by (rule stop_ok_frame [OF control_ok_stop [OF parts(5)]]) (simp_all add: is_revoked_def)
  qed
  with fresh(1) show ?thesis by (simp add: mark_not_submitted_def)
qed

subsection \<open>Output\<close>

lemma pending_output_unsettled: "settlement_ok r \<Longrightarrow> rc_output r = OdPending \<Longrightarrow> rc_settlement r = StPending"
  by (cases "rc_settlement r") (auto simp: settlement_ok_def)

lemma pending_output_fields:
  assumes "output_ok r" and "rc_output r = OdPending"
  shows "rc_output_evidence r = None" "rc_output_non_delivery_evidence r = None"
    "rc_output_non_delivery_reason r = None"
  using assms by (auto simp: output_ok_def)

lemma output_accepted_receipt_ok:
  assumes ok: "receipt_ok r" and current: "g_current_receipt g = Some r"
  shows "receipt_ok (fst (receipt_output_accepted g evidence r))" (is "receipt_ok (fst ?p)")
proof (cases "snd ?p = EvAccepted")
  case False
  with ok show ?thesis by (simp add: output_accepted_unchanged)
next
  case True
  note acc = output_accepted_accepted [OF True] and parts = receipt_okD [OF ok]
  let ?r = "r\<lparr>rc_output := OdAccepted, rc_result_reference := oe_result_reference evidence,
              rc_output_evidence := Some (oe_record evidence)\<rparr>"
  have pending: "rc_output r = OdPending"
    using acc(3) current by (simp add: can_deliver_result_def)
  note unsettled = pending_output_unsettled [OF parts(4) pending]
  have success: "rc_observed_native_success r" using acc(5) parts(2) by (auto simp: native_ok_def)
  have "receipt_ok (refresh_receipt ?r)"
  proof (rule refresh_receipt_ok)
    show "dispatch_ok ?r" by (rule dispatch_ok_frame [OF parts(1)]) simp_all
    show "native_ok ?r" by (rule native_ok_frame [OF parts(2)]) simp_all
    show "output_ok ?r"
      using acc(2,4,5) success pending_output_fields [OF parts(3) pending]
      by (auto simp: output_ok_def has_reached_deadline_def)
    show "settlement_ok ?r" using parts(4) unsettled by (simp add: settlement_ok_def)
    show "stop_ok ?r"
      by (rule stop_ok_frame [OF control_ok_stop [OF parts(5)]]) (simp_all add: is_revoked_def)
  qed
  with acc(1) show ?thesis by (simp add: mark_output_accepted_def)
qed

lemma revocation_precedes_revoked: "revocation_precedes r t \<Longrightarrow> is_revoked r"
  by (auto simp: revocation_precedes_def is_revoked_def at_or_after_def split: option.splits)

lemma prerequisite_revoked:
  "non_delivery_prerequisite config evidence r = Some sp \<Longrightarrow>
    ond_reason evidence = NdAuthorityRevoked \<Longrightarrow> is_revoked r"
  by (auto simp: non_delivery_prerequisite_def revocation_precedes_revoked split: if_splits)

lemma not_delivered_receipt_ok:
  assumes ok: "receipt_ok r"
  shows "receipt_ok (fst (receipt_not_delivered config evidence r))" (is "receipt_ok (fst ?p)")
proof (cases "snd ?p = EvAccepted")
  case False
  with ok show ?thesis by (simp add: not_delivered_unchanged)
next
  case True
  note acc = not_delivered_accepted [OF True] and parts = receipt_okD [OF ok]
  let ?r = "r\<lparr>rc_output := OdNotDelivered, rc_output_non_delivery_reason := Some (ond_reason evidence),
              rc_result_reference := ond_result_reference evidence,
              rc_output_non_delivery_evidence := Some (ond_record evidence)\<rparr>"
  note unsettled = pending_output_unsettled [OF parts(4) acc(3)]
  have revoked: "ond_reason evidence = NdAuthorityRevoked \<Longrightarrow> is_revoked r"
    using acc(2) prerequisite_revoked by blast
  have "receipt_ok (refresh_receipt ?r)"
  proof (rule refresh_receipt_ok)
    show "dispatch_ok ?r" by (rule dispatch_ok_frame [OF parts(1)]) simp_all
    show "native_ok ?r" by (rule native_ok_frame [OF parts(2)]) simp_all
    show "output_ok ?r"
      using revoked pending_output_fields [OF parts(3) acc(3)]
      by (auto simp: output_ok_def is_revoked_def)
    show "settlement_ok ?r" using parts(4) unsettled by (simp add: settlement_ok_def)
    show "stop_ok ?r"
      by (rule stop_ok_frame [OF control_ok_stop [OF parts(5)]]) (simp_all add: is_revoked_def)
  qed
  with acc(1) show ?thesis by (simp add: mark_not_delivered_def)
qed

subsection \<open>Settlement\<close>

lemma settlement_receipt_ok:
  assumes ok: "receipt_ok r"
  shows "receipt_ok (fst (receipt_settlement config evidence r))" (is "receipt_ok (fst ?p)")
proof (cases "snd ?p = EvAccepted")
  case False
  with ok show ?thesis by (simp add: settlement_unchanged)
next
  case True
  note acc = settlement_accepted [OF True] and parts = receipt_okD [OF ok]
  let ?r = "r\<lparr>rc_settlement := StSettled, rc_settlement_scope := ste_scope evidence,
              rc_settlement_evidence := Some (ste_record evidence)\<rparr>"
  have "has_resolved_effects ?r = has_resolved_effects r" by (rule has_resolved_effects_frame) simp_all
  note resolved = this [THEN iffD2, OF acc(5)]
  have "receipt_ok (refresh_receipt ?r)"
  proof (rule refresh_receipt_ok)
    show "dispatch_ok ?r" by (rule dispatch_ok_frame [OF parts(1)]) simp_all
    show "native_ok ?r" by (rule native_ok_frame [OF parts(2)]) simp_all
    show "output_ok ?r" by (rule output_ok_frame [OF parts(3)]) (simp_all add: is_revoked_def)
    show "settlement_ok ?r" using resolved acc(3) by (simp add: settlement_ok_def)
    show "stop_ok ?r"
      by (rule stop_ok_frame [OF control_ok_stop [OF parts(5)]]) (simp_all add: is_revoked_def)
  qed
  with acc(1) show ?thesis by (simp add: mark_settled_def)
qed

subsection \<open>Native events\<close>

text \<open>What every native event leaves alone.\<close>

lemma native_event_step:
  "native_event evidence r = Some (r', v) \<Longrightarrow>
    r' = r \<or> (r' = note_native evidence r \<and> \<not> already_observed (ne_kind evidence) r)"
  by (simp add: native_event_def split: if_split_asm)

lemma note_native_fields [simp]:
  "rc_authority (note_native evidence r) = rc_authority r"
  "rc_dispatch (note_native evidence r) = rc_dispatch r"
  "rc_dispatched_at (note_native evidence r) = rc_dispatched_at r"
  "rc_non_submission_evidence (note_native evidence r) = rc_non_submission_evidence r"
  "rc_output (note_native evidence r) = rc_output r"
  "rc_output_evidence (note_native evidence r) = rc_output_evidence r"
  "rc_output_non_delivery_evidence (note_native evidence r) = rc_output_non_delivery_evidence r"
  "rc_output_non_delivery_reason (note_native evidence r) = rc_output_non_delivery_reason r"
  "rc_result_reference (note_native evidence r) = rc_result_reference r"
  "rc_deadline (note_native evidence r) = rc_deadline r"
  "rc_settlement (note_native evidence r) = rc_settlement r"
  "rc_settlement_evidence (note_native evidence r) = rc_settlement_evidence r"
  "rc_native_stop_requested_at (note_native evidence r) = rc_native_stop_requested_at r"
  "rc_stop_acknowledgement (note_native evidence r) = rc_stop_acknowledgement r"
  "rc_stop_acknowledgement_evidence (note_native evidence r) = rc_stop_acknowledgement_evidence r"
  "rc_execution_requirements (note_native evidence r) = rc_execution_requirements r"
  "is_revoked (note_native evidence r) = is_revoked r"
  by (simp_all add: note_native_def is_revoked_def split: NativeEventKind.split)

lemma native_event_fields:
  assumes "native_event evidence r = Some (r', v)"
  shows "rc_authority r' = rc_authority r" "rc_dispatch r' = rc_dispatch r"
    "rc_dispatched_at r' = rc_dispatched_at r"
    "rc_non_submission_evidence r' = rc_non_submission_evidence r"
    "rc_output r' = rc_output r" "rc_output_evidence r' = rc_output_evidence r"
    "rc_output_non_delivery_evidence r' = rc_output_non_delivery_evidence r"
    "rc_output_non_delivery_reason r' = rc_output_non_delivery_reason r"
    "rc_result_reference r' = rc_result_reference r" "rc_deadline r' = rc_deadline r"
    "rc_settlement r' = rc_settlement r" "rc_settlement_evidence r' = rc_settlement_evidence r"
    "rc_native_stop_requested_at r' = rc_native_stop_requested_at r"
    "rc_stop_acknowledgement r' = rc_stop_acknowledgement r"
    "rc_stop_acknowledgement_evidence r' = rc_stop_acknowledgement_evidence r"
    "is_revoked r' = is_revoked r"
  using native_event_step [OF assms] by auto

end
