(* ===== verification/Receipt_Native.thy ===== *)
theory Receipt_Native
  imports Receipt_Steps
begin

text \<open>
  Native events and the receipt invariant: the stored native outcome is the one that the
  observed events determine, an outcome once known is kept or becomes unknown, and
  \<open>observe_native\<close>'s update of the receipt keeps every part of the invariant.
\<close>


text \<open>The outcome the gate stores is the one its observations determine.\<close>

lemma combined_outcome_expected:
  assumes "rc_dispatch r = DsSubmitted" and "rc_native_acceptance r = NaAccepted"
    and "native_count r = 0 \<Longrightarrow> rc_native_outcome r = NoPending"
  shows "combined_outcome r = expected_outcome r"
  using assms
  by (auto simp: combined_outcome_def expected_outcome_def native_count_def Let_def)

lemma combined_outcome_quiet: "native_count r = 0 \<Longrightarrow> combined_outcome r = rc_native_outcome r"
  by (simp add: combined_outcome_def native_count_def Let_def)

text \<open>Where the outcome stands, once the other fields of the native part are right.\<close>

definition native_shape :: "OperationReceipt \<Rightarrow> bool" where
  "native_shape r \<longleftrightarrow>
     (rc_native_acceptance r \<noteq> NaPending \<longrightarrow> rc_dispatch r = DsSubmitted) \<and>
     (rc_native_acceptance r = NaPending \<longleftrightarrow> rc_native_identity r = []) \<and>
     (rc_native_acceptance r = NaAccepted \<longleftrightarrow> rc_native_acceptance_evidence r \<noteq> None) \<and>
     (rc_native_acceptance r = NaRejected \<longleftrightarrow> rc_native_rejection_evidence r \<noteq> None) \<and>
     (rc_native_started r \<longleftrightarrow> rc_native_started_evidence r \<noteq> None) \<and>
     (rc_observed_native_success r \<longleftrightarrow> rc_native_success_evidence r \<noteq> None) \<and>
     (rc_observed_native_failure r \<longleftrightarrow> rc_native_failure_evidence r \<noteq> None) \<and>
     (rc_observed_native_cancellation r \<longleftrightarrow> rc_native_cancellation_evidence r \<noteq> None) \<and>
     (rc_native_started r \<or> native_count r > 0 \<longrightarrow> rc_native_acceptance r = NaAccepted)"

lemma native_ok_shape: "native_ok r \<longleftrightarrow> native_shape r \<and> rc_native_outcome r = expected_outcome r"
  unfolding native_ok_def native_shape_def by blast

lemma native_shape_outcome: "native_shape (r\<lparr>rc_native_outcome := x\<rparr>) = native_shape r"
  by (simp add: native_shape_def native_count_def)

lemma expected_outcome_outcome: "expected_outcome (r\<lparr>rc_native_outcome := x\<rparr>) = expected_outcome r"
  by (simp add: expected_outcome_def native_count_def)

lemma native_ok_outcome:
  assumes "native_shape r" and "combined_outcome r = expected_outcome r"
  shows "native_ok (r\<lparr>rc_native_outcome := combined_outcome r\<rparr>)"
  using assms by (simp add: native_ok_shape native_shape_outcome expected_outcome_outcome)

lemma native_ok_combined: "native_ok r \<Longrightarrow> rc_dispatch r = DsSubmitted \<Longrightarrow> combined_outcome r = expected_outcome r"
proof -
  assume ok: "native_ok r" and sub: "rc_dispatch r = DsSubmitted"
  show ?thesis
  proof (cases "native_count r = 0")
    case True
    with ok show ?thesis by (simp add: combined_outcome_quiet native_ok_shape)
  next
    case False
    with ok have "rc_native_acceptance r = NaAccepted" by (simp add: native_ok_def)
    with False sub show ?thesis by (simp add: combined_outcome_expected)
  qed
qed

lemma native_shape_observe:
  assumes "native_shape r" and "rc_native_acceptance r = NaAccepted"
  shows "native_shape (r\<lparr>rc_native_started := True, rc_native_started_evidence := Some e\<rparr>)"
    and "native_shape (r\<lparr>rc_observed_native_success := True, rc_native_success_evidence := Some e\<rparr>)"
    and "native_shape (r\<lparr>rc_observed_native_failure := True, rc_native_failure_evidence := Some e\<rparr>)"
    and "native_shape (r\<lparr>rc_observed_native_cancellation := True,
                         rc_native_cancellation_evidence := Some e\<rparr>)"
  using assms by (simp_all add: native_shape_def native_count_def)

lemma native_shape_accept:
  assumes "native_shape r" and "rc_native_acceptance r = NaPending" and "rc_dispatch r = DsSubmitted"
    and "name \<noteq> []"
  shows "native_shape (r\<lparr>rc_native_identity := name, rc_native_acceptance := NaAccepted,
                         rc_native_acceptance_evidence := Some e\<rparr>)"
    and "native_shape (r\<lparr>rc_native_identity := name, rc_native_acceptance := NaRejected,
                         rc_native_outcome := x, rc_native_rejection_evidence := Some e\<rparr>)"
  using assms by (auto simp: native_shape_def native_count_def)

text \<open>The acceptance under which a native event is noted.\<close>

lemma native_event_guard:
  assumes "native_event evidence r = Some (note_native evidence r, v)"
    and "\<not> already_observed (ne_kind evidence) r" and "\<not> native_out_of_place evidence r"
  shows "rc_native_acceptance r =
    (if ne_kind evidence = NkAccepted \<or> ne_kind evidence = NkRejected then NaPending else NaAccepted)"
  using assms
  by (cases "rc_native_acceptance r")
    (auto simp: native_event_def already_observed_def native_out_of_place_def split: if_split_asm)

lemma note_native_shape:
  assumes "native_shape r" and "rc_dispatch r = DsSubmitted" and "ne_native_identity evidence \<noteq> []"
    and "rc_native_acceptance r =
      (if ne_kind evidence = NkAccepted \<or> ne_kind evidence = NkRejected then NaPending else NaAccepted)"
  shows "native_shape (note_native evidence r)"
  using assms
  by (cases "ne_kind evidence")
    (simp_all add: note_native_def native_shape_accept native_shape_observe)

lemma note_native_outcome:
  assumes "native_ok r" and "rc_dispatch r = DsSubmitted"
    and "rc_native_acceptance r =
      (if ne_kind evidence = NkAccepted \<or> ne_kind evidence = NkRejected then NaPending else NaAccepted)"
  shows "combined_outcome (note_native evidence r) = expected_outcome (note_native evidence r)"
proof (cases "rc_native_acceptance r = NaAccepted")
  case True
  then have kind: "ne_kind evidence \<noteq> NkAccepted" "ne_kind evidence \<noteq> NkRejected"
    using assms(3) by (auto split: if_split_asm)
  have quiet: "native_count r = 0 \<Longrightarrow> rc_native_outcome r = NoPending"
    using assms(1,2) True by (simp add: native_ok_def expected_outcome_def native_count_def)
  show ?thesis
  proof (rule combined_outcome_expected)
    show "rc_dispatch (note_native evidence r) = DsSubmitted" using assms(2) by simp
    show "rc_native_acceptance (note_native evidence r) = NaAccepted"
      using kind True by (cases "ne_kind evidence") (simp_all add: note_native_def)
    show "rc_native_outcome (note_native evidence r) = NoPending"
      if "native_count (note_native evidence r) = 0"
      using that kind quiet
      by (cases "ne_kind evidence") (simp_all add: note_native_def native_count_def)
  qed
next
  case False
  then have kind: "ne_kind evidence = NkAccepted \<or> ne_kind evidence = NkRejected"
    and pending: "rc_native_acceptance r = NaPending"
    using assms(3) by (auto split: if_split_asm)
  note flags = native_unaccepted(2-4) [OF assms(1) False]
  have "rc_native_outcome r = NoPending"
    using assms(1,2) pending flags by (simp add: native_ok_def expected_outcome_def native_count_def)
  with kind flags assms(2) show ?thesis
    by (auto simp: note_native_def combined_outcome_def expected_outcome_def native_count_def)
qed

lemma native_event_native_ok:
  assumes ok: "native_ok r" and sub: "rc_dispatch r = DsSubmitted"
    and place: "\<not> native_out_of_place evidence r" and ident: "ne_native_identity evidence \<noteq> []"
    and ev: "native_event evidence r = Some (r', v)"
  shows "native_ok (r'\<lparr>rc_native_outcome := combined_outcome r'\<rparr>)"
  using native_event_step [OF ev]
proof
  assume "r' = r"
  with ok sub show ?thesis
    by (intro native_ok_outcome) (auto simp: native_ok_combined native_ok_shape)
next
  assume noted: "r' = note_native evidence r \<and> \<not> already_observed (ne_kind evidence) r"
  with ev place have guard: "rc_native_acceptance r =
    (if ne_kind evidence = NkAccepted \<or> ne_kind evidence = NkRejected then NaPending else NaAccepted)"
    by (intro native_event_guard) auto
  have "native_shape r" using ok by (simp add: native_ok_shape)
  from native_ok_outcome [OF note_native_shape [OF this sub ident guard]
      note_native_outcome [OF ok sub guard]] noted
  show ?thesis by simp
qed

lemma native_event_output_ok:
  assumes out: "output_ok r" and ev: "native_event evidence r = Some (r', v)"
  shows "output_ok r'"
  using native_event_step [OF ev]
proof
  assume "r' = r"
  with out show ?thesis by simp
next
  assume noted: "r' = note_native evidence r \<and> \<not> already_observed (ne_kind evidence) r"
  show ?thesis
  proof (cases "ne_kind evidence = NkTerminalSucceeded")
    case True
    with noted have "\<not> rc_observed_native_success r" by (simp add: already_observed_def)
    with out have "rc_output r \<noteq> OdAccepted" and "rc_output_evidence r = None"
      by (auto simp: output_ok_def)
    with out show ?thesis unfolding output_ok_def native_event_fields [OF ev] by auto
  next
    case False
    then have "rc_observed_native_success r' = rc_observed_native_success r"
      and "rc_native_success_evidence r' = rc_native_success_evidence r"
      using noted by (cases "ne_kind evidence"; simp add: note_native_def)+
    with out show ?thesis
      by (intro output_ok_frame [OF out]) (simp_all add: native_event_fields [OF ev])
  qed
qed

text \<open>Observations only accumulate, and an accepted submission stays accepted.\<close>

lemma note_native_flags:
  "rc_observed_native_success r \<Longrightarrow> rc_observed_native_success (note_native evidence r)"
  "rc_observed_native_failure r \<Longrightarrow> rc_observed_native_failure (note_native evidence r)"
  "rc_observed_native_cancellation r \<Longrightarrow> rc_observed_native_cancellation (note_native evidence r)"
  by (simp_all add: note_native_def split: NativeEventKind.split)

lemma native_event_flags:
  assumes "native_event evidence r = Some (r', v)"
  shows "rc_observed_native_success r \<Longrightarrow> rc_observed_native_success r'"
    and "rc_observed_native_failure r \<Longrightarrow> rc_observed_native_failure r'"
    and "rc_observed_native_cancellation r \<Longrightarrow> rc_observed_native_cancellation r'"
  using native_event_step [OF assms] note_native_flags by auto

lemma native_event_acceptance:
  assumes ev: "native_event evidence r = Some (r', v)" and place: "\<not> native_out_of_place evidence r"
    and acc: "rc_native_acceptance r \<noteq> NaPending"
  shows "rc_native_acceptance r' = rc_native_acceptance r"
  using native_event_step [OF ev]
proof
  assume "r' = note_native evidence r \<and> \<not> already_observed (ne_kind evidence) r"
  with ev place acc show ?thesis
    using native_event_guard [of evidence r v]
    by (cases "ne_kind evidence") (simp_all add: note_native_def)
qed simp

lemma combined_outcome_mono:
  assumes "native_count r \<noteq> 0"
    and "rc_observed_native_success r \<Longrightarrow> rc_observed_native_success r'"
    and "rc_observed_native_failure r \<Longrightarrow> rc_observed_native_failure r'"
    and "rc_observed_native_cancellation r \<Longrightarrow> rc_observed_native_cancellation r'"
  shows "combined_outcome r' = combined_outcome r \<or> combined_outcome r' = NoUnknown"
  using assms
  by (cases "rc_observed_native_success r"; cases "rc_observed_native_failure r";
      cases "rc_observed_native_cancellation r"; cases "rc_observed_native_success r'";
      cases "rc_observed_native_failure r'"; cases "rc_observed_native_cancellation r'")
    (simp_all add: combined_outcome_def native_count_def)

text \<open>Once an accepted submission has an outcome, a further event keeps it or makes it unknown.\<close>

lemma native_event_outcome:
  assumes ok: "native_ok r" and sub: "rc_dispatch r = DsSubmitted"
    and place: "\<not> native_out_of_place evidence r" and ev: "native_event evidence r = Some (r', v)"
    and known: "rc_native_outcome r \<noteq> NoPending"
  shows "combined_outcome r' = rc_native_outcome r \<or> combined_outcome r' = NoUnknown"
proof (cases "native_count r = 0")
  case True
  with ok known sub have rejected: "rc_native_acceptance r = NaRejected"
    by (auto simp: native_ok_def expected_outcome_def native_count_def split: if_splits)
  have "r' = r"
    using native_event_step [OF ev] native_event_guard [of evidence r v] ev place rejected
    by (auto split: if_splits)
  with True show ?thesis by (simp add: combined_outcome_quiet)
next
  case False
  have same: "rc_native_outcome r = combined_outcome r"
    using ok sub native_ok_combined by (simp add: native_ok_shape)
  show ?thesis
    unfolding same by (rule combined_outcome_mono [OF False native_event_flags [OF ev]])
qed

lemma native_event_settlement_ok:
  assumes set: "settlement_ok r" and nat: "native_ok r" and sub: "rc_dispatch r = DsSubmitted"
    and ev: "native_event evidence r = Some (r', v)"
    and place: "\<not> native_out_of_place evidence r"
  shows "settlement_ok (r'\<lparr>rc_native_outcome := combined_outcome r'\<rparr>)" (is "settlement_ok ?r")
proof (cases "rc_settlement r")
  case StPending
  with set show ?thesis by (simp add: settlement_ok_def native_event_fields [OF ev])
next
  case StSettled
  have out: "rc_output r \<noteq> OdPending" and res: "has_resolved_effects r \<or> rc_native_outcome r = NoUnknown"
    using set StSettled by (simp_all add: settlement_ok_def)
  have acc: "rc_native_acceptance r \<noteq> NaPending" and known: "rc_native_outcome r \<noteq> NoPending"
    using res sub unknown_is_accepted(2) [OF nat] by (auto simp: has_resolved_effects_def split: if_splits)
  have "has_resolved_effects ?r \<or> rc_native_outcome ?r = NoUnknown"
  proof (cases "combined_outcome r' = NoUnknown")
    case False
    then have same: "combined_outcome r' = rc_native_outcome r"
      using native_event_outcome [OF nat sub place ev known] by simp
    have "has_resolved_effects ?r = has_resolved_effects r"
      by (rule has_resolved_effects_frame)
        (simp_all add: native_event_fields [OF ev] same native_event_acceptance [OF ev place acc])
    with res False same show ?thesis by simp
  qed simp
  with set StSettled out show ?thesis
    by (simp add: settlement_ok_def native_event_fields [OF ev])
qed

lemma is_revoked_outcome: "is_revoked (r\<lparr>rc_native_outcome := x\<rparr>) = is_revoked r"
  by (simp add: is_revoked_def)

lemma native_event_receipt_ok:
  assumes ok: "receipt_ok r" and sub: "rc_dispatch r = DsSubmitted"
    and place: "\<not> native_out_of_place evidence r" and ident: "ne_native_identity evidence \<noteq> []"
    and ev: "native_event evidence r = Some (r', v)"
  shows "receipt_ok (settle_native_outcome r')"
  unfolding settle_native_outcome_def
proof (rule refresh_receipt_ok)
  note parts = receipt_okD [OF ok]
  let ?r = "r'\<lparr>rc_native_outcome := combined_outcome r'\<rparr>"
  show "dispatch_ok ?r" by (rule dispatch_ok_frame [OF parts(1)]) (simp_all add: native_event_fields [OF ev])
  show "native_ok ?r" by (rule native_event_native_ok [OF parts(2) sub place ident ev])
  show "output_ok ?r"
    by (rule output_ok_frame [OF native_event_output_ok [OF parts(3) ev]])
      (simp_all add: is_revoked_outcome)
  show "settlement_ok ?r" by (rule native_event_settlement_ok [OF parts(4,2) sub ev place])
  show "stop_ok ?r"
    by (rule stop_ok_frame [OF control_ok_stop [OF parts(5)]])
      (simp_all add: native_event_fields [OF ev] is_revoked_outcome)
qed

text \<open>
  What never goes back in the life of one operation. \<open>receipt_evolves r r'\<close> collects the
  facts about a receipt that every operation of the gate keeps: whose operation it is, that
  it was revoked, dispatched, asked to stop, answered, settled, or lost to an unknown
  outcome. Each operation on a receipt is shown to move along this order.
\<close>

definition receipt_evolves :: "OperationReceipt \<Rightarrow> OperationReceipt \<Rightarrow> bool" where
  "receipt_evolves r r' \<longleftrightarrow>
     rc_authority r' = rc_authority r \<and> rc_deadline r' = rc_deadline r \<and>
     (is_revoked r \<longrightarrow> is_revoked r') \<and>
     (rc_dispatch r \<noteq> DsPending \<longrightarrow> rc_dispatch r' \<noteq> DsPending) \<and>
     (rc_dispatched_at r \<noteq> None \<longrightarrow> rc_dispatched_at r' = rc_dispatched_at r) \<and>
     (rc_native_stop_requested_at r \<noteq> None \<longrightarrow>
        rc_native_stop_requested_at r' = rc_native_stop_requested_at r) \<and>
     (rc_output r \<noteq> OdPending \<longrightarrow> rc_output r' = rc_output r) \<and>
     (rc_observed_native_success r \<longrightarrow> rc_observed_native_success r') \<and>
     (rc_settlement r = StSettled \<longrightarrow> rc_settlement r' = StSettled) \<and>
     (rc_native_outcome r = NoUnknown \<longrightarrow> rc_native_outcome r' = NoUnknown) \<and>
     (has_resolved_closure r \<longrightarrow> has_resolved_closure r' \<or> rc_native_outcome r' = NoUnknown)"

lemma receipt_evolvesD:
  assumes "receipt_evolves r r'"
  shows "rc_authority r' = rc_authority r" "rc_deadline r' = rc_deadline r"
    "is_revoked r \<Longrightarrow> is_revoked r'"
    "rc_dispatch r \<noteq> DsPending \<Longrightarrow> rc_dispatch r' \<noteq> DsPending"
    "rc_dispatched_at r \<noteq> None \<Longrightarrow> rc_dispatched_at r' = rc_dispatched_at r"
    "rc_native_stop_requested_at r \<noteq> None \<Longrightarrow>
       rc_native_stop_requested_at r' = rc_native_stop_requested_at r"
    "rc_output r \<noteq> OdPending \<Longrightarrow> rc_output r' = rc_output r"
    "rc_observed_native_success r \<Longrightarrow> rc_observed_native_success r'"
    "rc_settlement r = StSettled \<Longrightarrow> rc_settlement r' = StSettled"
    "rc_native_outcome r = NoUnknown \<Longrightarrow> rc_native_outcome r' = NoUnknown"
    "has_resolved_closure r \<Longrightarrow> has_resolved_closure r' \<or> rc_native_outcome r' = NoUnknown"
  using assms unfolding receipt_evolves_def by blast+

lemma receipt_evolves_refl [simp]: "receipt_evolves r r"
  by (simp add: receipt_evolves_def)

lemma has_resolved_closure_frame:
  assumes "rc_dispatch r' = rc_dispatch r"
    and "rc_native_acceptance r' = rc_native_acceptance r"
    and "rc_native_outcome r' = rc_native_outcome r"
    and "rc_output r' = rc_output r"
    and "rc_output_non_delivery_reason r' = rc_output_non_delivery_reason r"
    and "rc_settlement r' = rc_settlement r"
  shows "has_resolved_closure r' = has_resolved_closure r"
  using assms has_resolved_effects_frame [of r' r] unfolding has_resolved_closure_def by simp

lemma has_resolved_closure_refresh [simp]:
  "has_resolved_closure (refresh_receipt r) = has_resolved_closure r"
  by (rule has_resolved_closure_frame) simp_all

lemma receipt_evolves_refresh [simp]: "receipt_evolves r (refresh_receipt r') = receipt_evolves r r'"
  unfolding receipt_evolves_def refresh_receipt_fields is_revoked_refresh
    has_resolved_closure_refresh by (rule refl)

lemma revoke_evolves:
  assumes r': "r' = r\<lparr>rc_cancellation_requested_at := x, rc_expiry_observed_at := y,
                     rc_binding_withdrawn_at := z\<rparr>"
    and rev: "is_revoked r'"
  shows "receipt_evolves r (fst (revoke r' t))"
proof -
  have closure: "has_resolved_closure (fst (revoke r' t)) = has_resolved_closure r"
    by (rule has_resolved_closure_frame) (simp_all add: r')
  have revoked: "is_revoked (fst (revoke r' t))" using rev by (simp add: is_revoked_def)
  have "should_stop r' = should_stop r" by (simp add: r' should_stop_def)
  then show ?thesis
    using closure revoked
    by (simp add: receipt_evolves_def revoke_stop_fields should_stop_def) (simp_all add: r')
qed

lemma claim_evolves:
  assumes ok: "receipt_ok r" and pending: "rc_dispatch r = DsPending"
  shows "receipt_evolves r (r\<lparr>rc_dispatch := DsSubmitted, rc_dispatched_at := Some t\<rparr>)"
proof -
  have "\<not> has_resolved_closure r"
    using pending resolved_dispatched [of r] by (auto simp: has_resolved_closure_def)
  moreover have "rc_dispatched_at r = None"
    using receipt_okD(1) [OF ok] pending by (simp add: dispatch_ok_def)
  ultimately show ?thesis by (simp add: receipt_evolves_def is_revoked_def)
qed

lemma stop_acknowledgement_evolves:
  "receipt_evolves r (fst (receipt_stop_acknowledgement config evidence r))" (is "receipt_evolves r (fst ?p)")
proof (cases "snd ?p = EvAccepted")
  case True
  have "has_resolved_closure (mark_stop_acknowledged evidence r) = has_resolved_closure r"
    by (rule has_resolved_closure_frame) (simp_all add: mark_stop_acknowledged_def)
  then have "receipt_evolves r (mark_stop_acknowledged evidence r)"
    by (simp add: receipt_evolves_def) (simp add: mark_stop_acknowledged_def is_revoked_def)
  then show ?thesis by (simp add: stop_acknowledgement_accepted(1) [OF True])
qed (simp add: stop_acknowledgement_unchanged)

lemma non_submission_evolves:
  assumes ok: "receipt_ok r"
  shows "receipt_evolves r (fst (receipt_non_submission config evidence r))" (is "receipt_evolves r (fst ?p)")
proof (cases "snd ?p = EvAccepted")
  case True
  note fresh = non_submission_accepted [OF True] and parts = receipt_okD [OF ok]
  have accept: "rc_native_acceptance r = NaPending"
    using parts(2) fresh by (cases "rc_native_acceptance r") (auto simp: native_ok_def)
  have "\<not> has_resolved_closure r" and "rc_native_outcome r \<noteq> NoUnknown"
    using fresh(2) accept unknown_is_accepted(2) [OF parts(2)]
    by (auto simp: has_resolved_closure_def has_resolved_effects_def)
  then have "receipt_evolves r (mark_not_submitted evidence r)"
    by (simp add: mark_not_submitted_def) (simp add: receipt_evolves_def is_revoked_def)
  then show ?thesis by (simp add: fresh(1))
qed (simp add: non_submission_unchanged)

lemma pending_output_unresolved: "rc_output r = OdPending \<Longrightarrow> \<not> has_resolved_closure r"
  using resolved_output [of r] by (auto simp: has_resolved_closure_def)

lemma output_accepted_evolves:
  assumes current: "g_current_receipt g = Some r"
  shows "receipt_evolves r (fst (receipt_output_accepted g evidence r))" (is "receipt_evolves r (fst ?p)")
proof (cases "snd ?p = EvAccepted")
  case True
  have pending: "rc_output r = OdPending"
    using output_accepted_accepted(3) [OF True] current by (simp add: can_deliver_result_def)
  then have "receipt_evolves r (mark_output_accepted evidence r)"
    using pending_output_unresolved [OF pending]
    by (simp add: mark_output_accepted_def) (simp add: receipt_evolves_def is_revoked_def)
  then show ?thesis by (simp add: output_accepted_accepted(1) [OF True])
qed (simp add: output_accepted_unchanged)

lemma not_delivered_evolves:
  "receipt_evolves r (fst (receipt_not_delivered config evidence r))" (is "receipt_evolves r (fst ?p)")
proof (cases "snd ?p = EvAccepted")
  case True
  note pending = not_delivered_accepted(3) [OF True]
  have "receipt_evolves r (mark_not_delivered evidence r)"
    using pending pending_output_unresolved [OF pending]
    by (simp add: mark_not_delivered_def) (simp add: receipt_evolves_def is_revoked_def)
  then show ?thesis by (simp add: not_delivered_accepted(1) [OF True])
qed (simp add: not_delivered_unchanged)

lemma settlement_evolves:
  "receipt_evolves r (fst (receipt_settlement config evidence r))" (is "receipt_evolves r (fst ?p)")
proof (cases "snd ?p = EvAccepted")
  case True
  note acc = settlement_accepted [OF True]
  have "\<not> has_resolved_closure r" using acc(2) by (simp add: has_resolved_closure_def)
  then have "receipt_evolves r (mark_settled evidence r)"
    by (simp add: mark_settled_def) (simp add: receipt_evolves_def is_revoked_def)
  then show ?thesis by (simp add: acc(1))
qed (simp add: settlement_unchanged)

lemma native_event_evolves:
  assumes ok: "receipt_ok r" and sub: "rc_dispatch r = DsSubmitted"
    and place: "\<not> native_out_of_place evidence r"
    and ev: "native_event evidence r = Some (r', v)"
  shows "receipt_evolves r (settle_native_outcome r')"
proof -
  note parts = receipt_okD [OF ok]
  let ?r = "r'\<lparr>rc_native_outcome := combined_outcome r'\<rparr>"
  have outcome: "rc_native_outcome r \<noteq> NoPending \<Longrightarrow>
    combined_outcome r' = rc_native_outcome r \<or> combined_outcome r' = NoUnknown"
    by (rule native_event_outcome [OF parts(2) sub place ev])
  have closure: "has_resolved_closure r \<longrightarrow> has_resolved_closure ?r \<or> rc_native_outcome ?r = NoUnknown"
  proof
    assume res: "has_resolved_closure r"
    then have acc: "rc_native_acceptance r \<noteq> NaPending" and known: "rc_native_outcome r \<noteq> NoPending"
      using sub by (auto simp: has_resolved_closure_def has_resolved_effects_def split: if_splits)
    show "has_resolved_closure ?r \<or> rc_native_outcome ?r = NoUnknown"
    proof (cases "combined_outcome r' = NoUnknown")
      case False
      with outcome known have same: "combined_outcome r' = rc_native_outcome r" by simp
      have "has_resolved_closure ?r = has_resolved_closure r"
        by (rule has_resolved_closure_frame)
          (simp_all add: native_event_fields [OF ev] same native_event_acceptance [OF ev place acc])
      with res show ?thesis by simp
    qed simp
  qed
  have unknown: "rc_native_outcome r = NoUnknown \<longrightarrow> combined_outcome r' = NoUnknown"
    using outcome by auto
  have "receipt_evolves r ?r"
    using closure unknown native_event_flags(1) [OF ev]
    by (simp add: receipt_evolves_def is_revoked_outcome native_event_fields [OF ev])
  then show ?thesis by (simp add: settle_native_outcome_def)
qed

end
