(* ===== verification/Transition_System.thy ===== *)
theory Transition_System
  imports Prelude
begin

text \<open>
  Components whose operations are called in any order are step functions
  \<open>step :: 's \<Rightarrow> 'c \<Rightarrow> 's \<times> 'r\<close> from a state and a call to the next state and the
  call's result. This theory holds their runs and traces, and one locale per shape of
  argument that the components make about them: an invariant, a latch (a condition that
  is never lost), an event that happens at most once, an event that needs an earlier one,
  and a simulation of an abstract machine.
\<close>

subsection \<open>Runs and traces\<close>

fun run :: "('s \<Rightarrow> 'c \<Rightarrow> 's \<times> 'r) \<Rightarrow> 's \<Rightarrow> 'c list \<Rightarrow> 's" where
  "run step s [] = s"
| "run step s (c # cs) = run step (fst (step s c)) cs"

fun trace :: "('s \<Rightarrow> 'c \<Rightarrow> 's \<times> 'r) \<Rightarrow> 's \<Rightarrow> 'c list \<Rightarrow> ('c \<times> 'r) list" where
  "trace step s [] = []"
| "trace step s (c # cs) = (c, snd (step s c)) # trace step (fst (step s c)) cs"

text \<open>The states a machine can be in: its initial ones, closed under its calls.\<close>

inductive reachable :: "('s \<Rightarrow> 'c \<Rightarrow> 's \<times> 'r) \<Rightarrow> ('s \<Rightarrow> bool) \<Rightarrow> 's \<Rightarrow> bool"
  for step :: "'s \<Rightarrow> 'c \<Rightarrow> 's \<times> 'r" and init :: "'s \<Rightarrow> bool" where
  reachable_init: "init s \<Longrightarrow> reachable step init s"
| reachable_step: "reachable step init s \<Longrightarrow> reachable step init (fst (step s c))"

lemma run_append: "run step s (cs @ ds) = run step (run step s cs) ds"
  by (induction cs arbitrary: s) auto

lemma length_trace [simp]: "length (trace step s cs) = length cs"
  by (induction cs arbitrary: s) auto

lemma trace_append: "trace step s (cs @ ds) = trace step s cs @ trace step (run step s cs) ds"
  by (induction cs arbitrary: s) auto

lemma trace_nth:
  "i < length cs \<Longrightarrow>
    trace step s cs ! i = (cs ! i, snd (step (run step s (take i cs)) (cs ! i)))"
  by (induction cs arbitrary: s i) (auto simp: nth_Cons' take_Cons' split: nat.splits)

lemma reachable_run: "reachable step init s \<Longrightarrow> reachable step init (run step s cs)"
  by (induction cs arbitrary: s) (auto intro: reachable_step)

text \<open>How often an event occurs in a trace.\<close>

definition occurrences :: "('c \<Rightarrow> 'r \<Rightarrow> bool) \<Rightarrow> ('c \<times> 'r) list \<Rightarrow> nat" where
  "occurrences event tr = length (filter (\<lambda>(c, r). event c r) tr)"

lemma occurrences_simps [simp]:
  "occurrences event [] = 0"
  "occurrences event ((c, r) # tr) = (if event c r then 1 else 0) + occurrences event tr"
  by (simp_all add: occurrences_def)

subsection \<open>Invariants\<close>

locale inv_machine =
  fixes step :: "'s \<Rightarrow> 'c \<Rightarrow> 's \<times> 'r"
    and inv :: "'s \<Rightarrow> bool"
  assumes inv_step: "inv s \<Longrightarrow> inv (fst (step s c))"
begin

lemma inv_run: "inv s \<Longrightarrow> inv (run step s cs)"
  by (induction cs arbitrary: s) (auto intro: inv_step)

lemma inv_reachable:
  assumes "reachable step init s" and "\<And>s. init s \<Longrightarrow> inv s"
  shows "inv s"
  using assms by (induction rule: reachable.induct) (auto intro: inv_step)

end

subsection \<open>Latches: conditions that are never lost\<close>

locale latch_machine = inv_machine +
  fixes latched :: "'s \<Rightarrow> bool"
  assumes latch_step: "inv s \<Longrightarrow> latched s \<Longrightarrow> latched (fst (step s c))"
begin

lemma latch_run: "inv s \<Longrightarrow> latched s \<Longrightarrow> latched (run step s cs)"
  by (induction cs arbitrary: s) (auto intro: inv_step latch_step)

end

subsection \<open>Blocked events: a latch that forbids an event\<close>

locale blocking_machine = latch_machine +
  fixes fires :: "'c \<Rightarrow> 'r \<Rightarrow> bool"
  assumes latched_blocks: "inv s \<Longrightarrow> latched s \<Longrightarrow> \<not> fires c (snd (step s c))"
begin

lemma blocked_trace: "inv s \<Longrightarrow> latched s \<Longrightarrow> occurrences fires (trace step s cs) = 0"
  by (induction cs arbitrary: s) (auto simp: latched_blocks inv_step latch_step)

end

subsection \<open>Events that happen at most once\<close>

locale one_shot_machine = blocking_machine +
  assumes fires_latches: "inv s \<Longrightarrow> fires c (snd (step s c)) \<Longrightarrow> latched (fst (step s c))"
begin

lemma at_most_once: "inv s \<Longrightarrow> occurrences fires (trace step s cs) \<le> 1"
proof (induction cs arbitrary: s)
  case Nil
  then show ?case by simp
next
  case (Cons c cs)
  then have "inv (fst (step s c))" by (simp add: inv_step)
  with Cons show ?case
    by (auto simp: blocked_trace dest: fires_latches)
qed

end

subsection \<open>Events that need an earlier event\<close>

locale precedence_machine = inv_machine +
  fixes flag :: "'s \<Rightarrow> bool"
    and cause :: "'c \<Rightarrow> 'r \<Rightarrow> bool"
    and effect :: "'c \<Rightarrow> 'r \<Rightarrow> bool"
  assumes flag_cause: "inv s \<Longrightarrow> \<not> flag s \<Longrightarrow> flag (fst (step s c)) \<Longrightarrow> cause c (snd (step s c))"
    and effect_flag: "inv s \<Longrightarrow> effect c (snd (step s c)) \<Longrightarrow> flag s"
begin

lemma flag_needs_cause:
  assumes "inv s" and "\<not> flag s" and "flag (run step s cs)"
  shows "\<exists>j < length cs. case_prod cause (trace step s cs ! j)"
  using assms
proof (induction cs arbitrary: s)
  case Nil
  then show ?case by simp
next
  case (Cons c cs)
  show ?case
  proof (cases "flag (fst (step s c))")
    case True
    with Cons.prems have "cause c (snd (step s c))" by (simp add: flag_cause)
    then show ?thesis by (intro exI [of _ 0]) simp
  next
    case False
    with Cons obtain j where "j < length cs"
      and "case_prod cause (trace step (fst (step s c)) cs ! j)"
      by (metis inv_step run.simps(2))
    then show ?thesis by (intro exI [of _ "Suc j"]) simp
  qed
qed

lemma effect_needs_cause:
  assumes "inv s" and "\<not> flag s" and "i < length cs"
    and "case_prod effect (trace step s cs ! i)"
  shows "\<exists>j < i. case_prod cause (trace step s cs ! j)"
proof -
  let ?before = "take i cs"
  from assms(3,4) have "effect (cs ! i) (snd (step (run step s ?before) (cs ! i)))"
    by (simp add: trace_nth)
  with assms(1) have "flag (run step s ?before)"
    by (intro effect_flag inv_run)
  from flag_needs_cause [OF assms(1,2) this]
  obtain j where j: "j < length ?before" and c: "case_prod cause (trace step s ?before ! j)"
    by auto
  have "trace step s (?before @ drop i cs) ! j = trace step s ?before ! j"
    using j by (simp only: trace_append nth_append length_trace if_True)
  then have "trace step s cs ! j = trace step s ?before ! j" by simp
  with j c show ?thesis by (intro exI [of _ j]) simp
qed

end

subsection \<open>Simulations of an abstract machine\<close>

locale simulation = inv_machine +
  fixes abs :: "'s \<Rightarrow> 'a"
    and astep :: "'a \<Rightarrow> 'a \<Rightarrow> bool"
  assumes sim_step: "inv s \<Longrightarrow> abs s = abs (fst (step s c)) \<or> astep (abs s) (abs (fst (step s c)))"
begin

lemma sim_run: "inv s \<Longrightarrow> astep\<^sup>*\<^sup>* (abs s) (abs (run step s cs))"
proof (induction cs arbitrary: s)
  case Nil
  then show ?case by simp
next
  case (Cons c cs)
  then have "astep\<^sup>*\<^sup>* (abs (fst (step s c))) (abs (run step s (c # cs)))"
    by (simp add: inv_step)
  with sim_step [OF Cons.prems, of c] show ?case
    by (metis converse_rtranclp_into_rtranclp)
qed

end

end
