(* ===== verification/Gate_Machine.thy ===== *)
theory Gate_Machine
  imports Receipt_Native Transition_System
begin

text \<open>
  The gate as a machine: its public interface as a datatype of calls, the step function
  that dispatches a call to its operation, the gate's invariant, and the preservation of
  the invariant by every call. The gate takes no lock of its own: its owners call it under
  theirs (the hosts) or from one thread, so what happens to a gate is a list of calls.
\<close>

subsection \<open>Calls and results\<close>

datatype gate_call =
    CallStartup StartupEvidence
  | CallCapabilities ExecutionCapabilities
  | CallWithdraw BindingIdentity monotonic_time
  | CallBeginRebind BindingIdentity string BindingReadinessEvidence monotonic_time
  | CallReadiness BindingReadinessEvidence
  | CallCommit BindingIdentity monotonic_time
  | CallAdmit OperationRequest
  | CallClaim OperationAuthority monotonic_time
  | CallCancel OperationAuthority monotonic_time
  | CallTime OperationAuthority monotonic_time
  | CallStopAcknowledgement StopAcknowledgementEvidence
  | CallNonSubmission NonSubmissionEvidence
  | CallNative NativeEvidence
  | CallOutputAccepted OutputEvidence
  | CallOutputNotDelivered OutputNonDeliveryEvidence
  | CallSettlement SettlementEvidence
  | CallClose

datatype gate_result =
    ResDisposition EvidenceDisposition
  | ResBinding BindingDecision
  | ResAdmission AdmissionDecision
  | ResClaim bool
  | ResControl ControlDecision
  | ResDone

fun gate_step :: "gate \<Rightarrow> gate_call \<Rightarrow> gate \<times> gate_result" where
  "gate_step g (CallStartup e) = apsnd ResDisposition (observe_startup g e)"
| "gate_step g (CallCapabilities x) = apsnd ResDisposition (observe_execution_capabilities g x)"
| "gate_step g (CallWithdraw b t) = apsnd ResBinding (withdraw_binding g b t)"
| "gate_step g (CallBeginRebind b p e t) = apsnd ResBinding (begin_rebind g b p e t)"
| "gate_step g (CallReadiness e) = apsnd ResDisposition (observe_rebind_readiness g e)"
| "gate_step g (CallCommit b t) = apsnd ResBinding (commit_rebind g b t)"
| "gate_step g (CallAdmit q) = apsnd ResAdmission (admit g q)"
| "gate_step g (CallClaim a t) = apsnd ResClaim (claim_dispatch g a t)"
| "gate_step g (CallCancel a t) = apsnd ResControl (request_cancel g a t)"
| "gate_step g (CallTime a t) = apsnd ResControl (observe_time g a t)"
| "gate_step g (CallStopAcknowledgement e) = apsnd ResDisposition (observe_stop_acknowledgement g e)"
| "gate_step g (CallNonSubmission e) = apsnd ResDisposition (observe_non_submission g e)"
| "gate_step g (CallNative e) = apsnd ResDisposition (observe_native g e)"
| "gate_step g (CallOutputAccepted e) = apsnd ResDisposition (observe_output_accepted g e)"
| "gate_step g (CallOutputNotDelivered e) = apsnd ResDisposition (observe_output_not_delivered g e)"
| "gate_step g (CallSettlement e) = apsnd ResDisposition (observe_settlement g e)"
| "gate_step g CallClose = (close_admission g, ResDone)"

text \<open>The initial states: what the constructor returns for the configurations it accepts.\<close>

definition gate_initial :: "gate \<Rightarrow> bool" where
  "gate_initial g \<longleftrightarrow> (\<exists>config. make_gate config = Some g)"

abbreviation gate_run :: "gate \<Rightarrow> gate_call list \<Rightarrow> gate" where
  "gate_run \<equiv> run gate_step"

abbreviation gate_trace :: "gate \<Rightarrow> gate_call list \<Rightarrow> (gate_call \<times> gate_result) list" where
  "gate_trace \<equiv> trace gate_step"

abbreviation gate_reachable :: "gate \<Rightarrow> bool" where
  "gate_reachable \<equiv> reachable gate_step gate_initial"

subsection \<open>The invariant\<close>

definition candidate_ok :: "gate \<Rightarrow> Candidate \<Rightarrow> bool" where
  "candidate_ok g c \<longleftrightarrow>
     bid_provider_id (cn_binding c) \<noteq> [] \<and>
     bid_effect_domain (cn_binding c) = bid_effect_domain (active_binding g) \<and>
     bid_composition_revision (cn_binding c) = bid_composition_revision (active_binding g) \<and>
     bid_provider_generation (cn_binding c) = g_generation_high_water g \<and>
     bid_provider_generation (active_binding g) < bid_provider_generation (cn_binding c) \<and>
     length (cn_readiness c) = 3"

definition phases_ok :: "gate \<Rightarrow> bool" where
  "phases_ok g \<longleftrightarrow>
     (g_binding_phase g = PhPreparing \<longleftrightarrow> g_candidate g \<noteq> None) \<and>
     (g_binding_phase g = PhClosed \<longleftrightarrow> g_initialization_state g = IsClosed) \<and>
     (g_initialization_state g = IsReady \<longrightarrow> g_binding_phase g = PhActive \<and> all_facts_hold g) \<and>
     (g_binding_phase g = PhWithdrawn \<or> g_binding_phase g = PhPreparing \<longrightarrow> g_withdrawn_at g \<noteq> None)"

definition binding_ok :: "gate \<Rightarrow> bool" where
  "binding_ok g \<longleftrightarrow>
     \<not> config_rejected (g_config g) \<and>
     bid_provider_generation (active_binding g) \<le> g_generation_high_water g \<and>
     (\<forall>c. g_candidate g = Some c \<longrightarrow> candidate_ok g c)"

text \<open>The receipt belongs to the active binding, or its work is closed under an older one.\<close>

definition receipt_bound :: "gate \<Rightarrow> OperationReceipt \<Rightarrow> bool" where
  "receipt_bound g r \<longleftrightarrow>
     oa_operation_id (rc_authority r) \<noteq> 0 \<and>
     g_next_operation_id g = oa_operation_id (rc_authority r) + 1 \<and>
     (oa_binding (rc_authority r) = active_binding g \<or>
      (bid_provider_generation (oa_binding (rc_authority r))
         < bid_provider_generation (active_binding g) \<and>
       has_resolved_closure r \<and> rc_authority_disposition r = AuReleased)) \<and>
     (g_binding_phase g = PhWithdrawn \<or> g_binding_phase g = PhPreparing \<longrightarrow>
        is_revoked r \<or> rc_settlement r = StSettled)"

definition work_ok :: "gate \<Rightarrow> bool" where
  "work_ok g \<longleftrightarrow>
     (g_last_native_record g = None \<longleftrightarrow> g_last_native_kind g = None) \<and>
     (case g_current_receipt g of
        None \<Rightarrow> g_next_operation_id g = 1 \<and> g_last_native_record g = None
      | Some r \<Rightarrow> receipt_ok r \<and> receipt_bound g r)"

definition gate_ok :: "gate \<Rightarrow> bool" where
  "gate_ok g \<longleftrightarrow> phases_ok g \<and> binding_ok g \<and> work_ok g"

lemma gate_okI: "phases_ok g \<Longrightarrow> binding_ok g \<Longrightarrow> work_ok g \<Longrightarrow> gate_ok g"
  by (simp add: gate_ok_def)

lemma gate_okD:
  assumes "gate_ok g"
  shows "phases_ok g" "binding_ok g" "work_ok g"
  using assms by (simp_all add: gate_ok_def)

lemma gate_ok_receipt:
  "gate_ok g \<Longrightarrow> g_current_receipt g = Some r \<Longrightarrow> receipt_ok r \<and> receipt_bound g r"
  by (simp add: gate_ok_def work_ok_def)

lemma phases_ok_frame:
  assumes "phases_ok g"
    and "g_binding_phase g' = g_binding_phase g"
    and "g_candidate g' = None \<longleftrightarrow> g_candidate g = None"
    and "g_initialization_state g' = g_initialization_state g"
    and "g_withdrawn_at g' = g_withdrawn_at g"
    and "g_binding_idle g' = g_binding_idle g" and "g_worker_ready g' = g_worker_ready g"
    and "g_result_sink_ready g' = g_result_sink_ready g"
  shows "phases_ok g'"
  using assms(1) unfolding phases_ok_def all_facts_hold_def assms(2-8) by assumption

lemma binding_ok_frame:
  assumes "binding_ok g" and "g_config g' = g_config g"
    and "g_generation_high_water g' = g_generation_high_water g"
    and "g_candidate g' = g_candidate g"
  shows "binding_ok g'"
  using assms(1) unfolding binding_ok_def candidate_ok_def assms(2-4) by assumption

lemma work_ok_frame:
  assumes "work_ok g" and "active_binding g' = active_binding g"
    and "g_current_receipt g' = g_current_receipt g"
    and "g_next_operation_id g' = g_next_operation_id g"
    and "g_last_native_record g' = g_last_native_record g"
    and "g_last_native_kind g' = g_last_native_kind g"
    and "g_binding_phase g' = g_binding_phase g \<or>
         (g_binding_phase g' \<noteq> PhWithdrawn \<and> g_binding_phase g' \<noteq> PhPreparing) \<or>
         (g_binding_phase g = PhWithdrawn \<or> g_binding_phase g = PhPreparing)"
  shows "work_ok g'"
  using assms(1,7) unfolding work_ok_def receipt_bound_def assms(2-6)
  by (auto split: option.splits)

subsection \<open>Construction\<close>

lemma gate_initial_ok: "gate_initial g \<Longrightarrow> gate_ok g"
  by (auto simp: gate_initial_def make_gate_def implementation_init_def gate_ok_def phases_ok_def
      binding_ok_def work_ok_def split: if_split_asm)

subsection \<open>Operations on the binding\<close>

lemma observe_startup_cases:
  obtains (unchanged) v where "observe_startup g e = (g, v)" and "v \<noteq> EvAccepted"
  | (stored) slot where "observe_startup g e = (store_startup g slot e, EvAccepted)"
    and "g_binding_phase g = PhActive" and "g_initialization_state g \<noteq> IsClosed"
    and "g_current_receipt g = None"
proof (cases "g_binding_phase g \<noteq> PhActive \<or> g_initialization_state g = IsClosed \<or>
        g_current_receipt g \<noteq> None \<or> \<not> binding_eq (se_binding e) (active_binding g)")
  case True
  then show thesis by (intro unchanged [of EvRejected]) (auto simp: observe_startup_def)
next
  case False
  show thesis
  proof (cases "startup_slot g (se_kind e)")
    case None
    with False show thesis by (intro unchanged [of EvRejected]) (simp_all add: observe_startup_def)
  next
    case (Some p)
    obtain slot source where p: "p = (slot, source)" by (cases p)
    show thesis
    proof (cases "is_record_well_formed (se_record e) source (cfg_started_at (g_config g))")
      case wf: True
      show thesis
      proof (cases "startup_repeat (get_fact slot g) e")
        case None
        with False Some p wf show thesis by (intro stored [of slot]) (auto simp: observe_startup_def)
      next
        case (Some v)
        then have "v \<noteq> EvAccepted" by (auto simp: startup_repeat_def split: option.splits if_splits)
        with False Some p wf \<open>startup_slot g (se_kind e) = Some p\<close> show thesis
          by (intro unchanged [of v]) (simp_all add: observe_startup_def)
      qed
    next
      case wf: False
      with False Some p show thesis
        by (intro unchanged [of EvRejected]) (simp_all add: observe_startup_def)
    qed
  qed
qed

lemma store_startup_fields [simp]:
  "g_config (store_startup g slot e) = g_config g"
  "g_binding_phase (store_startup g slot e) = g_binding_phase g"
  "g_generation_high_water (store_startup g slot e) = g_generation_high_water g"
  "g_withdrawn_at (store_startup g slot e) = g_withdrawn_at g"
  "g_candidate (store_startup g slot e) = g_candidate g"
  "g_next_operation_id (store_startup g slot e) = g_next_operation_id g"
  "g_current_receipt (store_startup g slot e) = g_current_receipt g"
  "g_last_native_record (store_startup g slot e) = g_last_native_record g"
  "g_last_native_kind (store_startup g slot e) = g_last_native_kind g"
  by (cases slot; simp add: store_startup_def Let_def)+

lemma store_startup_state:
  "g_initialization_state (store_startup g slot e) =
    (if all_facts_hold (store_startup g slot e) then IsReady else IsRecoveryRequired)"
  by (cases slot) (simp_all add: store_startup_def Let_def all_facts_hold_def)

lemma observe_startup_ok:
  assumes "gate_ok g"
  shows "gate_ok (fst (observe_startup g e))"
proof (cases rule: observe_startup_cases [of g e])
  case (unchanged v)
  with assms show ?thesis by simp
next
  case (stored slot)
  note parts = gate_okD [OF assms]
  let ?g = "store_startup g slot e"
  have "phases_ok ?g" using parts(1) stored(2) by (simp add: phases_ok_def store_startup_state)
  moreover have "binding_ok ?g" by (rule binding_ok_frame [OF parts(2)]) simp_all
  moreover have "work_ok ?g" by (rule work_ok_frame [OF parts(3)]) simp_all
  ultimately show ?thesis using stored(1) by (simp add: gate_ok_def)
qed

lemma candidate_capabilities_fields:
  assumes "observe_candidate_capabilities g x c = (c', v)"
  shows "cn_binding c' = cn_binding c" "cn_readiness c' = cn_readiness c"
    "cn_prepared_at c' = cn_prepared_at c" "cn_old_scope c' = cn_old_scope c"
  using assms
  by (auto simp: observe_candidate_capabilities_def store_candidate_capabilities_def
      conflict_capabilities_def Let_def split: option.splits if_splits)

lemma observe_active_capabilities_cases:
  "fst (observe_active_capabilities g x) = g \<or>
   fst (observe_active_capabilities g x) = g\<lparr>g_execution_capabilities := Some x\<rparr>"
  unfolding observe_active_capabilities_def by (simp split: option.split)

lemma observe_capabilities_cases:
  obtains (candidate) c c' v where "g_candidate g = Some c"
    and "observe_candidate_capabilities g x c = (c', v)"
    and "fst (observe_execution_capabilities g x) = g\<lparr>g_candidate := Some c'\<rparr>"
  | (unchanged) "fst (observe_execution_capabilities g x) = g"
  | (active) "fst (observe_execution_capabilities g x) = g\<lparr>g_execution_capabilities := Some x\<rparr>"
proof (cases "g_candidate g")
  case None
  then have "observe_execution_capabilities g x = observe_active_capabilities g x"
    by (simp add: observe_execution_capabilities_def)
  with observe_active_capabilities_cases [of g x] unchanged active show thesis by auto
next
  case (Some c)
  show thesis
  proof (cases "binding_eq (xc_binding x) (cn_binding c) \<and> g_binding_phase g = PhPreparing")
    case True
    obtain c' v where "observe_candidate_capabilities g x c = (c', v)"
      by (cases "observe_candidate_capabilities g x c")
    with True Some show thesis
      by (intro candidate) (simp_all add: observe_execution_capabilities_def)
  next
    case False
    with Some have "observe_execution_capabilities g x = observe_active_capabilities g x"
      by (auto simp: observe_execution_capabilities_def)
    with observe_active_capabilities_cases [of g x] unchanged active show thesis by auto
  qed
qed

lemma binding_ok_candidate:
  assumes "binding_ok g" and "g_candidate g = Some c"
    and "cn_binding c' = cn_binding c" and "length (cn_readiness c') = length (cn_readiness c)"
  shows "binding_ok (g\<lparr>g_candidate := Some c'\<rparr>)"
  using assms by (auto simp: binding_ok_def candidate_ok_def)

lemma update_candidate_ok:
  assumes ok: "gate_ok g" and c: "g_candidate g = Some c"
    and c': "cn_binding c' = cn_binding c" "length (cn_readiness c') = length (cn_readiness c)"
  shows "gate_ok (g\<lparr>g_candidate := Some c'\<rparr>)"
proof (rule gate_okI)
  note parts = gate_okD [OF ok]
  show "phases_ok (g\<lparr>g_candidate := Some c'\<rparr>)"
    by (rule phases_ok_frame [OF parts(1)]) (simp_all add: c)
  show "binding_ok (g\<lparr>g_candidate := Some c'\<rparr>)" by (rule binding_ok_candidate [OF parts(2) c c'])
  show "work_ok (g\<lparr>g_candidate := Some c'\<rparr>)" by (rule work_ok_frame [OF parts(3)]) simp_all
qed

lemma observe_capabilities_ok:
  assumes ok: "gate_ok g"
  shows "gate_ok (fst (observe_execution_capabilities g x))"
proof (cases rule: observe_capabilities_cases [of g x])
  case (candidate c c' v)
  have "gate_ok (g\<lparr>g_candidate := Some c'\<rparr>)"
    by (rule update_candidate_ok [OF ok candidate(1)])
      (simp_all add: candidate_capabilities_fields [OF candidate(2)])
  with candidate(3) show ?thesis by simp
next
  case unchanged
  with ok show ?thesis by simp
next
  case active
  note parts = gate_okD [OF ok]
  let ?g = "g\<lparr>g_execution_capabilities := Some x\<rparr>"
  have "phases_ok ?g" by (rule phases_ok_frame [OF parts(1)]) simp_all
  moreover have "binding_ok ?g" by (rule binding_ok_frame [OF parts(2)]) simp_all
  moreover have "work_ok ?g" by (rule work_ok_frame [OF parts(3)]) simp_all
  ultimately show ?thesis using active by (simp add: gate_ok_def)
qed

lemma observe_readiness_cases:
  obtains (unchanged) v where "observe_rebind_readiness g e = (g, v)" and "v \<noteq> EvAccepted"
  | (fact) c f v i where "g_candidate g = Some c" and "g_binding_phase g = PhPreparing"
    and "bre_binding e = cn_binding c" and "readiness_index g (bre_kind e) = Some i"
    and "observe_readiness_fact e (cn_readiness c ! i) = (f, v)"
    and "observe_rebind_readiness g e =
      (g\<lparr>g_candidate := Some (c\<lparr>cn_readiness := (cn_readiness c)[i := f]\<rparr>)\<rparr>, v)"
proof (cases "g_candidate g")
  case None
  then show thesis
    by (intro unchanged [of EvRejected]) (simp_all add: observe_rebind_readiness_def)
next
  case (Some c)
  show thesis
  proof (cases "g_binding_phase g \<noteq> PhPreparing \<or> \<not> binding_eq (bre_binding e) (cn_binding c) \<or>
      readiness_index g (bre_kind e) = None")
    case True
    with Some show thesis
      by (intro unchanged [of EvRejected]) (auto simp: observe_rebind_readiness_def)
  next
    case False
    then obtain i where i: "readiness_index g (bre_kind e) = Some i" by auto
    obtain f v where f: "observe_readiness_fact e (cn_readiness c ! i) = (f, v)"
      by (cases "observe_readiness_fact e (cn_readiness c ! i)")
    show thesis
    proof (cases "is_record_well_formed (bre_record e) (readiness_source g i) (cn_prepared_at c)")
      case True
      with False Some i f show thesis
        by (intro fact [of c i f v]) (simp_all add: observe_rebind_readiness_def)
    next
      case wf: False
      with False Some i show thesis
        by (intro unchanged [of EvRejected]) (simp_all add: observe_rebind_readiness_def)
    qed
  qed
qed

lemma observe_readiness_ok:
  assumes ok: "gate_ok g"
  shows "gate_ok (fst (observe_rebind_readiness g e))"
proof (cases rule: observe_readiness_cases [of g e])
  case (unchanged v)
  with ok show ?thesis by simp
next
  case (fact c f v i)
  have "gate_ok (g\<lparr>g_candidate := Some (c\<lparr>cn_readiness := (cn_readiness c)[i := f]\<rparr>)\<rparr>)"
    by (rule update_candidate_ok [OF ok fact(1)]) simp_all
  with fact(6) show ?thesis by simp
qed

end
