(* ===== verification/Gate_Control.thy ===== *)
theory Gate_Control
  imports Gate_Machine
begin

text \<open>
  The calls that control the binding: for each a rule that enumerates its outcomes (its
  early returns leave the gate as it was), and the proof that it keeps the invariant.
\<close>

subsection \<open>Withdrawal\<close>

definition withdrawn_gate :: "gate \<Rightarrow> monotonic_time \<Rightarrow> gate" where
  "withdrawn_gate g now =
     g\<lparr>g_last_binding_control_at := now, g_initialization_state := IsRecoveryRequired,
       g_binding_phase := PhWithdrawn\<rparr>"

lemma withdraw_cases:
  obtains (unchanged) s where "withdraw_binding g b now = (g, binding_decision s)" and "s \<noteq> BcApplied"
  | (abandoned) c where "g_candidate g = Some c" and "g_binding_phase g \<noteq> PhClosed"
    and "b = cn_binding c" and "latest_binding_time g \<le> now"
    and "withdraw_binding g b now =
      ((withdrawn_gate g now)\<lparr>g_candidate := None\<rparr>, binding_decision BcApplied)"
  | (idle) "g_candidate g = None" and "g_binding_phase g \<noteq> PhClosed" and "g_binding_phase g \<noteq> PhWithdrawn"
    and "b = active_binding g" and "latest_binding_time g \<le> now"
    and "\<And>r. g_current_receipt g = Some r \<Longrightarrow>
      oa_binding (rc_authority r) \<noteq> active_binding g \<or> current_is_releasable g"
    and "withdraw_binding g b now =
      ((withdrawn_gate g now)\<lparr>g_withdrawn_at := Some now\<rparr>, binding_decision BcApplied)"
  | (revoked) r where "g_candidate g = None" and "g_binding_phase g \<noteq> PhClosed"
    and "g_binding_phase g \<noteq> PhWithdrawn"
    and "b = active_binding g" and "latest_binding_time g \<le> now"
    and "g_current_receipt g = Some r" and "oa_binding (rc_authority r) = active_binding g"
    and "\<not> current_is_releasable g"
    and "withdraw_binding g b now =
      ((withdrawn_gate g now)\<lparr>g_withdrawn_at := Some now,
         g_current_receipt := Some (fst (revoke (r\<lparr>rc_binding_withdrawn_at := Some now\<rparr>) now))\<rparr>,
       (binding_decision BcApplied)\<lparr>bd_native_stop_authority :=
         (if should_stop r then Some (rc_authority r) else None)\<rparr>)"
proof (cases "g_binding_phase g = PhClosed")
  case True
  then show thesis by (intro unchanged [of BcClosed]) (simp_all add: withdraw_binding_def)
next
  case open_phase: False
  show thesis
  proof (cases "b = (case g_candidate g of Some c \<Rightarrow> cn_binding c | None \<Rightarrow> active_binding g)")
    case False
    with open_phase show thesis
      by (intro unchanged [of BcStaleIdentity]) (simp_all add: withdraw_binding_def)
  next
    case same: True
    show thesis
    proof (cases "now < latest_binding_time g")
      case True
      with open_phase same show thesis
        by (intro unchanged [of BcInvalidTime]) (simp_all add: withdraw_binding_def)
    next
      case False
      then have time: "latest_binding_time g \<le> now" by simp
      show thesis
      proof (cases "g_binding_phase g = PhWithdrawn")
        case True
        with open_phase same False show thesis
          by (intro unchanged [of BcAlreadyInPhase]) (simp_all add: withdraw_binding_def)
      next
        case here: False
        show thesis
        proof (cases "g_candidate g")
          case (Some c)
          with open_phase same False here time show thesis
            by (intro abandoned [of c])
              (simp_all add: withdraw_binding_def withdrawn_gate_def Let_def)
        next
          case cand: None
          show thesis
          proof (cases "\<exists>r. g_current_receipt g = Some r \<and>
              oa_binding (rc_authority r) = active_binding g \<and> \<not> current_is_releasable g")
            case True
            then obtain r where r: "g_current_receipt g = Some r"
              "oa_binding (rc_authority r) = active_binding g" "\<not> current_is_releasable g" by blast
            then have matches: "current_authority_matches g (rc_authority r)"
              by (simp add: current_authority_matches_iff)
            have stop: "cd_should_request_native_stop
                (snd (revoke (r\<lparr>rc_binding_withdrawn_at := Some now\<rparr>) now)) = should_stop r"
              by (simp add: revoke_def Let_def should_stop_def)
            show thesis
              by (rule revoked [OF cand open_phase here _ time r])
                (use open_phase same False here cand r(1,3) matches stop in
                  \<open>simp_all add: withdraw_binding_def withdrawn_gate_def Let_def split_beta\<close>)
          next
            case none: False
            then have quiet: "g_current_receipt g = Some r \<Longrightarrow>
              \<not> (current_authority_matches g (rc_authority r) \<and> \<not> current_is_releasable g)" for r
              by (auto simp: current_authority_matches_iff)
            show thesis
            proof (rule idle [OF cand open_phase here _ time])
              show "b = active_binding g" using same cand by simp
              show "g_current_receipt g = Some r \<Longrightarrow>
                oa_binding (rc_authority r) \<noteq> active_binding g \<or> current_is_releasable g" for r
                using none by blast
              show "withdraw_binding g b now =
                ((withdrawn_gate g now)\<lparr>g_withdrawn_at := Some now\<rparr>, binding_decision BcApplied)"
                using open_phase same False here cand quiet
                by (cases "g_current_receipt g")
                  (auto simp: withdraw_binding_def withdrawn_gate_def Let_def)
            qed
          qed
        qed
      qed
    qed
  qed
qed

lemma withdrawn_gate_fields [simp]:
  "g_config (withdrawn_gate g now) = g_config g"
  "g_binding_phase (withdrawn_gate g now) = PhWithdrawn"
  "g_initialization_state (withdrawn_gate g now) = IsRecoveryRequired"
  "g_candidate (withdrawn_gate g now) = g_candidate g"
  "g_withdrawn_at (withdrawn_gate g now) = g_withdrawn_at g"
  "g_generation_high_water (withdrawn_gate g now) = g_generation_high_water g"
  "g_current_receipt (withdrawn_gate g now) = g_current_receipt g"
  "g_next_operation_id (withdrawn_gate g now) = g_next_operation_id g"
  "g_last_native_record (withdrawn_gate g now) = g_last_native_record g"
  "g_last_native_kind (withdrawn_gate g now) = g_last_native_kind g"
  by (simp_all add: withdrawn_gate_def)

text \<open>An evolved receipt of the active binding keeps the work part of the invariant.\<close>

lemma work_ok_evolves:
  assumes ok: "work_ok g" and r: "g_current_receipt g = Some r"
    and active: "oa_binding (rc_authority r) = active_binding g"
    and r': "receipt_ok r'" "receipt_evolves r r'" "g_current_receipt g' = Some r'"
    and same: "active_binding g' = active_binding g"
      "g_next_operation_id g' = g_next_operation_id g"
    and native: "g_last_native_record g' = None \<longleftrightarrow> g_last_native_kind g' = None"
    and phase: "g_binding_phase g' = g_binding_phase g \<or> is_revoked r'"
  shows "work_ok g'"
proof -
  have bound: "receipt_bound g r" using ok r by (simp add: work_ok_def)
  note ev = receipt_evolvesD [OF r'(2)]
  have "receipt_bound g' r'"
    using bound active phase ev(3,9) unfolding receipt_bound_def same ev(1) by auto
  with r'(1,3) native show ?thesis by (simp add: work_ok_def)
qed

lemma withdraw_ok:
  assumes ok: "gate_ok g"
  shows "gate_ok (fst (withdraw_binding g b now))"
proof (cases rule: withdraw_cases [of g b now])
  case (unchanged s)
  with ok show ?thesis by simp
next
  case (abandoned c)
  note parts = gate_okD [OF ok]
  let ?g = "(withdrawn_gate g now)\<lparr>g_candidate := None\<rparr>"
  have "g_binding_phase g = PhPreparing" using parts(1) abandoned(1) by (simp add: phases_ok_def)
  then have "phases_ok ?g" and "work_ok ?g"
    using parts(1) by (simp add: phases_ok_def, intro work_ok_frame [OF parts(3)]) simp_all
  moreover have "binding_ok ?g" using parts(2) by (simp add: binding_ok_def)
  ultimately show ?thesis using abandoned by (simp add: gate_ok_def)
next
  case idle
  note parts = gate_okD [OF ok]
  let ?g = "(withdrawn_gate g now)\<lparr>g_withdrawn_at := Some now\<rparr>"
  have "phases_ok ?g" using idle(1) by (simp add: phases_ok_def)
  moreover have "binding_ok ?g" by (rule binding_ok_frame [OF parts(2)]) simp_all
  moreover have "work_ok ?g"
  proof (cases "g_current_receipt g")
    case None
    with parts(3) show ?thesis by (auto simp: work_ok_def)
  next
    case (Some r)
    with ok have r: "receipt_ok r" "receipt_bound g r" using gate_ok_receipt by blast+
    then have "rc_settlement r = StSettled"
      using idle(6) [OF Some] Some
      by (auto simp: receipt_bound_def current_is_releasable_iff has_resolved_closure_def)
    with r have "receipt_bound ?g r" by (simp add: receipt_bound_def)
    with Some r(1) parts(3) show ?thesis by (simp add: work_ok_def)
  qed
  ultimately show ?thesis using idle(7) by (simp add: gate_ok_def)
next
  case (revoked r)
  note parts = gate_okD [OF ok]
  let ?r = "fst (revoke (r\<lparr>rc_binding_withdrawn_at := Some now\<rparr>) now)"
  let ?g = "(withdrawn_gate g now)\<lparr>g_withdrawn_at := Some now, g_current_receipt := Some ?r\<rparr>"
  have "phases_ok ?g" using revoked(1) by (simp add: phases_ok_def)
  moreover have "binding_ok ?g" by (rule binding_ok_frame [OF parts(2)]) simp_all
  moreover have "work_ok ?g"
  proof (rule work_ok_evolves [OF parts(3) revoked(6,7)])
    show "receipt_ok ?r"
      using gate_ok_receipt [OF ok revoked(6)] by (intro revoke_withdrawn_ok) simp
    show "receipt_evolves r ?r"
      by (rule revoke_evolves [where x = "rc_cancellation_requested_at r"
            and y = "rc_expiry_observed_at r" and z = "Some now"]) (simp_all add: is_revoked_def)
    show "g_last_native_record ?g = None \<longleftrightarrow> g_last_native_kind ?g = None"
      using parts(3) by (simp add: work_ok_def)
  qed (simp_all add: is_revoked_def)
  ultimately show ?thesis using revoked(9) by (simp add: gate_ok_def)
qed

subsection \<open>Rebinding\<close>

definition preparing_gate :: "gate \<Rightarrow> string \<Rightarrow> BindingReadinessEvidence \<Rightarrow> monotonic_time \<Rightarrow> gate" where
  "preparing_gate g p e now =
     g\<lparr>g_candidate := Some (new_candidate g p e now),
       g_last_old_scope_record := Some (bre_record e),
       g_generation_high_water := g_generation_high_water g + 1,
       g_last_binding_control_at := now, g_binding_phase := PhPreparing\<rparr>"

lemma begin_rebind_cases:
  obtains (unchanged) d where "begin_rebind g b p e now = (g, d)" and "bd_status d \<noteq> BcApplied"
    and "bd_native_stop_authority d = None"
  | (prepared) "g_binding_phase g = PhWithdrawn" and "g_candidate g = None"
    and "b = active_binding g" and "latest_binding_time g \<le> now" and "old_work_closed g"
    and "p \<noteq> []" and "old_scope_valid g e now" and "g_generation_high_water g \<noteq> u64_max"
    and "begin_rebind g b p e now =
      (preparing_gate g p e now,
       (binding_decision BcApplied)\<lparr>bd_candidate := Some (cn_binding (new_candidate g p e now))\<rparr>)"
proof (cases "g_binding_phase g = PhWithdrawn \<and> binding_eq b (active_binding g) \<and> \<not> now < latest_binding_time g \<and>
    g_candidate g = None \<and> old_work_closed g \<and> p \<noteq> [] \<and> old_scope_valid g e now \<and>
    record_succeeds (bre_record e) (sf_record (g_binding_idle g)) \<and>
    record_succeeds (bre_record e) (g_last_old_scope_record g) \<and> g_generation_high_water g \<noteq> u64_max")
  case True
  then show thesis
    by (intro prepared) (simp_all add: begin_rebind_def preparing_gate_def Let_def not_less binding_eq_iff)
next
  case False
  then have "fst (begin_rebind g b p e now) = g \<and> bd_status (snd (begin_rebind g b p e now)) \<noteq> BcApplied \<and>
      bd_native_stop_authority (snd (begin_rebind g b p e now)) = None"
    by (cases "g_candidate g") (simp_all add: begin_rebind_def, blast)
  then show thesis
    by (intro unchanged [of "snd (begin_rebind g b p e now)"]) (simp_all add: prod_eq_iff)
qed

lemma begin_rebind_ok:
  assumes ok: "gate_ok g"
  shows "gate_ok (fst (begin_rebind g b p e now))"
proof (cases rule: begin_rebind_cases [of g b p e now])
  case (unchanged d)
  with ok show ?thesis by simp
next
  case prepared
  note parts = gate_okD [OF ok]
  let ?g = "preparing_gate g p e now"
  have "phases_ok ?g" using parts(1) prepared(1) by (auto simp: phases_ok_def preparing_gate_def)
  moreover have "g_generation_high_water g + 1 \<noteq> 0"
    using prepared(8) by (simp add: word_plus_one_eq_0)
  then have "bid_provider_generation (active_binding g) < g_generation_high_water g + 1"
    using parts(2) by (intro word_le_plus_one) (simp_all add: binding_ok_def)
  then have "binding_ok ?g"
    using parts(2) prepared(6)
    by (simp add: binding_ok_def candidate_ok_def preparing_gate_def new_candidate_def)
  moreover have "work_ok ?g"
    by (rule work_ok_frame [OF parts(3)]) (simp_all add: preparing_gate_def prepared(1))
  ultimately show ?thesis using prepared(9) by (simp add: gate_ok_def)
qed

lemma commit_cases:
  obtains (unchanged) s where "commit_rebind g b now = (g, binding_decision s)" and "s \<noteq> BcApplied"
  | (committed) c where "g_candidate g = Some c" and "b = cn_binding c" and "can_commit g now"
    and "commit_rebind g b now = (install_candidate g c now, binding_decision BcApplied)"
proof (cases "snd (commit_rebind g b now) = binding_decision BcApplied")
  case True
  then obtain c where "g_candidate g = Some c"
    by (auto simp: commit_rebind_def split: if_splits option.splits)
  with True show thesis
    by (intro committed [of c]) (auto simp: commit_rebind_def split: if_splits)
next
  case False
  then show thesis
    by (intro unchanged [of "bd_status (snd (commit_rebind g b now))"])
      (auto simp: commit_rebind_def split: if_splits option.splits)
qed

lemma install_candidate_fields [simp]:
  "active_binding (install_candidate g c now) = cn_binding c"
  "g_binding_phase (install_candidate g c now) = PhActive"
  "g_initialization_state (install_candidate g c now) = IsReady"
  "g_candidate (install_candidate g c now) = None"
  "g_generation_high_water (install_candidate g c now) = g_generation_high_water g"
  "g_current_receipt (install_candidate g c now) = g_current_receipt g"
  "g_next_operation_id (install_candidate g c now) = g_next_operation_id g"
  "g_last_native_record (install_candidate g c now) = g_last_native_record g"
  "g_last_native_kind (install_candidate g c now) = g_last_native_kind g"
  "all_facts_hold (install_candidate g c now)"
  by (simp_all add: install_candidate_def all_facts_hold_def fact_holds_def committed_fact_def)

lemma commit_ok:
  assumes ok: "gate_ok g"
  shows "gate_ok (fst (commit_rebind g b now))"
proof (cases rule: commit_cases [of g b now])
  case (unchanged s)
  with ok show ?thesis by simp
next
  case (committed c)
  note parts = gate_okD [OF ok]
  let ?g = "install_candidate g c now"
  have cand: "candidate_ok g c" using parts(2) committed(1) by (simp add: binding_ok_def)
  then have gen: "bid_provider_generation (active_binding g) < bid_provider_generation (cn_binding c)"
    unfolding candidate_ok_def by blast
  then have "bid_provider_generation (cn_binding c) \<noteq> 0" by auto
  with cand parts(2) have "\<not> config_rejected (g_config ?g)"
    by (simp add: binding_ok_def candidate_ok_def config_rejected_def install_candidate_def)
  with cand have "binding_ok ?g" by (simp add: binding_ok_def candidate_ok_def)
  moreover have "phases_ok ?g" by (simp add: phases_ok_def)
  moreover have "work_ok ?g"
  proof (cases "g_current_receipt g")
    case None
    with parts(3) show ?thesis by (auto simp: work_ok_def)
  next
    case (Some r)
    then have r: "receipt_ok r" "receipt_bound g r" using ok gate_ok_receipt by blast+
    have "current_is_releasable g"
      using committed(3) Some by (auto simp: can_commit_iff old_work_closed_def)
    with Some have "has_resolved_closure r" "rc_authority_disposition r = AuReleased"
      by (auto simp: current_is_releasable_iff)
    moreover have "bid_provider_generation (oa_binding (rc_authority r))
        < bid_provider_generation (cn_binding c)"
      using r(2) gen by (auto simp: receipt_bound_def)
    ultimately have "receipt_bound ?g r" using r(2) by (simp add: receipt_bound_def)
    with Some r(1) parts(3) show ?thesis by (simp add: work_ok_def)
  qed
  ultimately show ?thesis using committed(4) by (simp add: gate_ok_def)
qed

end
