(* ===== verification/Gate_Invariant.thy ===== *)
theory Gate_Invariant
  imports Gate_Control
begin

text \<open>
  Every call keeps the gate's invariant (\<open>gate_step_ok\<close>), and how a call moves the
  current receipt (\<open>gate_step_receipt\<close>): it stays, it evolves, or a new one is admitted
  when there was none or the old one was released.
\<close>

subsection \<open>Calls that update the current receipt\<close>

text \<open>
  \<open>receipt_update g r r' g'\<close>: the receipt \<open>r\<close> of the active binding evolved to \<open>r'\<close>, and
  nothing else changed but perhaps the last native event.
\<close>

definition receipt_update :: "gate \<Rightarrow> OperationReceipt \<Rightarrow> OperationReceipt \<Rightarrow> gate \<Rightarrow> bool" where
  "receipt_update g r r' g' \<longleftrightarrow>
     g_current_receipt g = Some r \<and> oa_binding (rc_authority r) = active_binding g \<and>
     receipt_ok r' \<and> receipt_evolves r r' \<and>
     (\<exists>x k. g' = g\<lparr>g_current_receipt := Some r', g_last_native_record := x, g_last_native_kind := k\<rparr> \<and>
        (x = None \<longleftrightarrow> k = None))"

lemma receipt_update_ok:
  assumes ok: "gate_ok g" and up: "receipt_update g r r' g'"
  shows "gate_ok g'"
proof -
  note parts = gate_okD [OF ok]
  from up obtain x k where r: "g_current_receipt g = Some r"
    and active: "oa_binding (rc_authority r) = active_binding g"
    and r': "receipt_ok r'" "receipt_evolves r r'" and none: "x = None \<longleftrightarrow> k = None"
    and g': "g' = g\<lparr>g_current_receipt := Some r', g_last_native_record := x, g_last_native_kind := k\<rparr>"
    unfolding receipt_update_def by blast
  have "phases_ok g'" unfolding g' by (rule phases_ok_frame [OF parts(1)]) simp_all
  moreover have "binding_ok g'" unfolding g' by (rule binding_ok_frame [OF parts(2)]) simp_all
  moreover have "work_ok g'"
    unfolding g' by (rule work_ok_evolves [OF parts(3) r active r']) (simp_all add: none)
  ultimately show ?thesis by (rule gate_okI)
qed

lemma receipt_updateI:
  assumes "gate_ok g" and "g_current_receipt g = Some r"
    and "oa_binding (rc_authority r) = active_binding g" and "receipt_ok r'" and "receipt_evolves r r'"
  shows "receipt_update g r r' (g\<lparr>g_current_receipt := Some r'\<rparr>)"
proof -
  have "g_last_native_record g = None \<longleftrightarrow> g_last_native_kind g = None"
    using assms(1) by (simp add: gate_ok_def work_ok_def)
  then show ?thesis
    unfolding receipt_update_def using assms(2-5)
    by (intro conjI exI [of _ "g_last_native_record g"] exI [of _ "g_last_native_kind g"]) simp_all
qed

text \<open>How a call leaves the gate's work: as it was, or with an updated receipt.\<close>

definition work_kept :: "gate \<Rightarrow> gate \<Rightarrow> bool" where
  "work_kept g g' \<longleftrightarrow> g' = g \<or> (\<exists>r r'. receipt_update g r r' g')"

lemma work_kept_ok: "gate_ok g \<Longrightarrow> work_kept g g' \<Longrightarrow> gate_ok g'"
  unfolding work_kept_def using receipt_update_ok by blast

lemma work_kept_same [simp]: "work_kept g g"
  by (simp add: work_kept_def)

lemma on_current_kept:
  assumes ok: "gate_ok g"
    and step: "\<And>r. g_current_receipt g = Some r \<Longrightarrow> receipt_ok r \<Longrightarrow>
      receipt_ok (fst (f r)) \<and> receipt_evolves r (fst (f r))"
  shows "work_kept g (fst (on_current g a f))"
proof (cases "current_authority_matches g a")
  case True
  then obtain r where r: "g_current_receipt g = Some r" "oa_binding (rc_authority r) = active_binding g"
    by (auto simp: current_authority_matches_iff)
  with ok step have "receipt_update g r (fst (f r)) (g\<lparr>g_current_receipt := Some (fst (f r))\<rparr>)"
    by (intro receipt_updateI) (simp_all add: gate_ok_receipt)
  then show ?thesis by (auto simp: work_kept_def on_current_matched [OF True r(1)])
qed (simp add: on_current_unmatched)

lemma stop_acknowledgement_kept: "gate_ok g \<Longrightarrow> work_kept g (fst (observe_stop_acknowledgement g e))"
  unfolding observe_stop_acknowledgement_def
  by (rule on_current_kept) (simp_all add: stop_acknowledgement_receipt_ok stop_acknowledgement_evolves)

lemma non_submission_kept: "gate_ok g \<Longrightarrow> work_kept g (fst (observe_non_submission g e))"
  unfolding observe_non_submission_def
  by (rule on_current_kept) (simp_all add: non_submission_receipt_ok non_submission_evolves)

lemma output_accepted_kept: "gate_ok g \<Longrightarrow> work_kept g (fst (observe_output_accepted g e))"
  unfolding observe_output_accepted_def
  by (rule on_current_kept) (simp_all add: output_accepted_receipt_ok output_accepted_evolves)

lemma not_delivered_kept: "gate_ok g \<Longrightarrow> work_kept g (fst (observe_output_not_delivered g e))"
  unfolding observe_output_not_delivered_def
  by (rule on_current_kept) (simp_all add: not_delivered_receipt_ok not_delivered_evolves)

lemma settlement_kept: "gate_ok g \<Longrightarrow> work_kept g (fst (observe_settlement g e))"
  unfolding observe_settlement_def
  by (rule on_current_kept) (simp_all add: settlement_receipt_ok settlement_evolves)

lemma native_admissible:
  assumes "\<not> native_inadmissible g e r" and "g_current_receipt g = Some r"
  shows "oa_binding (rc_authority r) = active_binding g" "rc_authority r = ne_authority e"
    "rc_dispatch r = DsSubmitted" "ne_native_identity e \<noteq> []"
  using assms by (auto simp: native_inadmissible_def current_authority_matches_iff)

lemma native_kept:
  assumes ok: "gate_ok g"
  shows "work_kept g (fst (observe_native g e))"
proof (cases rule: observe_native_cases [of g e])
  case (unchanged v)
  then show ?thesis by simp
next
  case (observed r r' v)
  note adm = native_admissible [OF observed(3,1)]
  have r: "receipt_ok r" using gate_ok_receipt [OF ok observed(1)] by simp
  have "receipt_update g r (settle_native_outcome r') (fst (observe_native g e))"
    unfolding receipt_update_def observed(2) fst_conv
  proof (intro conjI exI [of _ "Some (ne_record e)"] exI [of _ "Some (ne_kind e)"])
    show "g_current_receipt g = Some r" by (rule observed(1))
    show "receipt_ok (settle_native_outcome r')"
      by (rule native_event_receipt_ok [OF r adm(3) observed(4) adm(4) observed(5)])
    show "receipt_evolves r (settle_native_outcome r')"
      by (rule native_event_evolves [OF r adm(3) observed(4,5)])
  qed (simp_all add: adm(1))
  then show ?thesis by (auto simp: work_kept_def)
qed

lemma claim_cases:
  obtains (refused) "claim_dispatch g a t = (g, False)"
  | (claimed) r where "g_current_receipt g = Some r" and "\<not> claim_refused g r a t"
    and "claim_dispatch g a t =
      (g\<lparr>g_current_receipt := Some (r\<lparr>rc_dispatch := DsSubmitted, rc_dispatched_at := Some t\<rparr>)\<rparr>, True)"
proof (cases "g_current_receipt g")
  case None
  then show thesis by (intro refused) (simp add: claim_dispatch_def)
next
  case (Some r)
  then show thesis
    by (cases "claim_refused g r a t") (simp_all add: claim_dispatch_def refused claimed)
qed

lemma claim_acceptedD:
  assumes "\<not> claim_refused g r a t" and "g_current_receipt g = Some r"
  shows "oa_binding (rc_authority r) = active_binding g" "rc_authority r = a"
    "rc_dispatch r = DsPending" "oa_admitted_at a \<le> t" "\<not> is_revoked r" "\<not> has_reached_deadline r t"
    "g_binding_phase g = PhActive" "g_initialization_state g = IsReady"
    "\<And>x. rc_execution_requirements r = Some x \<Longrightarrow> supports_execution g x t"
  using assms by (auto simp: claim_refused_def current_authority_matches_iff not_less)

lemma claim_kept:
  assumes ok: "gate_ok g"
  shows "work_kept g (fst (claim_dispatch g a t))"
proof (cases rule: claim_cases [of g a t])
  case refused
  then show ?thesis by simp
next
  case (claimed r)
  note acc = claim_acceptedD [OF claimed(2,1)]
  let ?r = "r\<lparr>rc_dispatch := DsSubmitted, rc_dispatched_at := Some t\<rparr>"
  have r: "receipt_ok r" using gate_ok_receipt [OF ok claimed(1)] by simp
  have "receipt_update g r ?r (g\<lparr>g_current_receipt := Some ?r\<rparr>)"
    using acc(4) by (intro receipt_updateI [OF ok claimed(1) acc(1)] claim_receipt_ok [OF r acc(3)]
        claim_evolves [OF r acc(3)]) (simp add: acc(2))
  then show ?thesis by (auto simp: work_kept_def claimed(3))
qed

lemma cancel_cases:
  obtains (refused) s where "request_cancel g a t = (g, control_decision s)"
  | (cancelled) r where "g_current_receipt g = Some r" and "current_authority_matches g a"
    and "rc_authority_disposition r \<noteq> AuReleased" and "latest_time r \<le> t"
    and "rc_cancellation_requested_at r = None"
    and "request_cancel g a t =
      (g\<lparr>g_current_receipt := Some (fst (revoke (r\<lparr>rc_cancellation_requested_at := Some t\<rparr>) t))\<rparr>,
       snd (revoke (r\<lparr>rc_cancellation_requested_at := Some t\<rparr>) t))"
proof (cases "g_current_receipt g")
  case None
  then show thesis by (intro refused [of CsNoActiveOperation]) (simp add: request_cancel_def)
next
  case (Some r)
  show thesis
  proof (cases "current_authority_matches g a \<and> rc_authority_disposition r \<noteq> AuReleased \<and>
      latest_time r \<le> t \<and> rc_cancellation_requested_at r = None")
    case True
    with Some show thesis
      by (intro cancelled [of r]) (simp_all add: request_cancel_def split_beta leD)
  next
    case False
    with Some show thesis
      by (intro refused [of "cd_status (snd (request_cancel g a t))"]) (auto simp: request_cancel_def)
  qed
qed

lemma time_cases:
  obtains (refused) s where "observe_time g a t = (g, control_decision s)"
  | (expired) r where "g_current_receipt g = Some r" and "current_authority_matches g a"
    and "rc_authority_disposition r \<noteq> AuReleased" and "latest_time r \<le> t"
    and "rc_expiry_observed_at r = None" and "has_reached_deadline r t"
    and "observe_time g a t =
      (g\<lparr>g_current_receipt := Some (fst (revoke (r\<lparr>rc_expiry_observed_at := Some t\<rparr>) t))\<rparr>,
       snd (revoke (r\<lparr>rc_expiry_observed_at := Some t\<rparr>) t))"
proof (cases "g_current_receipt g")
  case None
  then show thesis by (intro refused [of CsNoActiveOperation]) (simp add: observe_time_def)
next
  case (Some r)
  show thesis
  proof (cases "current_authority_matches g a \<and> rc_authority_disposition r \<noteq> AuReleased \<and>
      latest_time r \<le> t \<and> rc_expiry_observed_at r = None \<and> has_reached_deadline r t")
    case True
    with Some show thesis
      by (intro expired [of r]) (simp_all add: observe_time_def split_beta leD)
  next
    case False
    with Some show thesis
      by (intro refused [of "cd_status (snd (observe_time g a t))"]) (auto simp: observe_time_def)
  qed
qed

lemma cancel_kept:
  assumes ok: "gate_ok g"
  shows "work_kept g (fst (request_cancel g a t))"
proof (cases rule: cancel_cases [of g a t])
  case (refused s)
  then show ?thesis by simp
next
  case (cancelled r)
  let ?r = "fst (revoke (r\<lparr>rc_cancellation_requested_at := Some t\<rparr>) t)"
  have "receipt_ok r" using gate_ok_receipt [OF ok cancelled(1)] by simp
  moreover have "receipt_evolves r ?r"
    by (rule revoke_evolves [where x = "Some t" and y = "rc_expiry_observed_at r"
          and z = "rc_binding_withdrawn_at r"]) (simp_all add: is_revoked_def)
  ultimately have "receipt_update g r ?r (g\<lparr>g_current_receipt := Some ?r\<rparr>)"
    using cancelled(1,2)
    by (intro receipt_updateI [OF ok cancelled(1)] revoke_cancelled_ok)
      (auto simp: current_authority_matches_iff)
  then show ?thesis by (auto simp: work_kept_def cancelled(6))
qed

lemma time_kept:
  assumes ok: "gate_ok g"
  shows "work_kept g (fst (observe_time g a t))"
proof (cases rule: time_cases [of g a t])
  case (refused s)
  then show ?thesis by simp
next
  case (expired r)
  let ?r = "fst (revoke (r\<lparr>rc_expiry_observed_at := Some t\<rparr>) t)"
  have "receipt_ok r" using gate_ok_receipt [OF ok expired(1)] by simp
  moreover have "receipt_evolves r ?r"
    by (rule revoke_evolves [where x = "rc_cancellation_requested_at r" and y = "Some t"
          and z = "rc_binding_withdrawn_at r"]) (simp_all add: is_revoked_def)
  ultimately have "receipt_update g r ?r (g\<lparr>g_current_receipt := Some ?r\<rparr>)"
    using expired(1,2)
    by (intro receipt_updateI [OF ok expired(1)] revoke_expired_ok)
      (auto simp: current_authority_matches_iff)
  then show ?thesis by (auto simp: work_kept_def expired(7))
qed

lemmas work_calls_kept =
  stop_acknowledgement_kept non_submission_kept output_accepted_kept not_delivered_kept
  settlement_kept native_kept claim_kept cancel_kept time_kept

subsection \<open>Admission and closing\<close>

definition admitted_gate :: "gate \<Rightarrow> OperationRequest \<Rightarrow> gate" where
  "admitted_gate g q =
     g\<lparr>g_next_operation_id := g_next_operation_id g + 1,
       g_current_receipt := Some (new_receipt (admitted_authority g q) (oq_deadline q)
                                    (oq_execution_requirements q)),
       g_last_native_record := None, g_last_native_kind := None\<rparr>"

lemma admit_cases:
  obtains (refused) s where "admission_refusal g q = Some s"
    and "admit g q = (g, \<lparr>ad_status = s, ad_authority = None\<rparr>)"
  | (admitted) "admission_refusal g q = None"
    and "admit g q = (admitted_gate g q,
           \<lparr>ad_status = AdAdmitted, ad_authority = Some (admitted_authority g q)\<rparr>)"
  by (cases "admission_refusal g q") (auto simp: admit_def admitted_gate_def Let_def)

lemma admission_granted:
  assumes "admission_refusal g q = None"
  shows "g_initialization_state g = IsReady" "g_binding_phase g = PhActive"
    "g_next_operation_id g \<noteq> 0" "old_work_closed g"
    "oq_capability_id q = cfg_capability_id (g_config g)"
    "oq_effect_domain q = bid_effect_domain (active_binding g)"
    "g_last_binding_control_at g \<le> oq_requested_at q"
    "\<And>d. oq_deadline q = Some d \<Longrightarrow> oq_requested_at q < d"
    "\<And>r. g_current_receipt g = Some r \<Longrightarrow> latest_time r \<le> oq_requested_at q"
    "\<not> capabilities_unavailable g q"
  using assms
  by (auto simp: admission_refusal_def request_mismatch_def old_work_closed_def not_less
      split: if_split_asm option.splits)

lemma admission_refusal_not_admitted: "admission_refusal g q \<noteq> Some AdAdmitted"
  by (auto simp: admission_refusal_def split: if_split_asm)

lemma admit_ok:
  assumes ok: "gate_ok g"
  shows "gate_ok (fst (admit g q))"
proof (cases rule: admit_cases [of g q])
  case (refused s)
  with ok show ?thesis by simp
next
  case admitted
  note parts = gate_okD [OF ok] and granted = admission_granted [OF admitted(1)]
  let ?g = "admitted_gate g q"
  have "phases_ok ?g" by (rule phases_ok_frame [OF parts(1)]) (simp_all add: admitted_gate_def)
  moreover have "binding_ok ?g" by (rule binding_ok_frame [OF parts(2)]) (simp_all add: admitted_gate_def)
  moreover have "work_ok ?g"
    using granted(2,3)
    by (simp add: work_ok_def admitted_gate_def new_receipt_ok receipt_bound_def)
      (simp add: new_receipt_def admitted_authority_def)
  ultimately show ?thesis using admitted(2) by (simp add: gate_ok_def)
qed

lemma close_ok:
  assumes ok: "gate_ok g"
  shows "gate_ok (close_admission g)"
proof -
  note parts = gate_okD [OF ok]
  have "phases_ok (close_admission g)" by (simp add: phases_ok_def close_admission_def)
  moreover have "binding_ok (close_admission g)"
    using parts(2) by (simp add: binding_ok_def close_admission_def)
  moreover have "work_ok (close_admission g)"
    by (rule work_ok_frame [OF parts(3)]) (simp_all add: close_admission_def)
  ultimately show ?thesis by (rule gate_okI)
qed

lemma gate_step_ok: "gate_ok g \<Longrightarrow> gate_ok (fst (gate_step g c))"
  by (cases c)
    (simp_all add: observe_startup_ok observe_capabilities_ok withdraw_ok begin_rebind_ok
      observe_readiness_ok commit_ok admit_ok close_ok work_kept_ok [OF _ work_calls_kept(1)]
      work_kept_ok [OF _ work_calls_kept(2)] work_kept_ok [OF _ work_calls_kept(3)]
      work_kept_ok [OF _ work_calls_kept(4)] work_kept_ok [OF _ work_calls_kept(5)]
      work_kept_ok [OF _ work_calls_kept(6)] work_kept_ok [OF _ work_calls_kept(7)]
      work_kept_ok [OF _ work_calls_kept(8)] work_kept_ok [OF _ work_calls_kept(9)])

interpretation gate: inv_machine gate_step gate_ok
  by unfold_locales (rule gate_step_ok)

lemma gate_reachable_ok: "gate_reachable g \<Longrightarrow> gate_ok g"
  by (rule gate.inv_reachable [where init = gate_initial]) (simp_all add: gate_initial_ok)

end
