(* ===== verification/Gate_Guarantees.thy ===== *)
theory Gate_Guarantees
  imports Gate_Invariant
begin

text \<open>
  How a call moves the current receipt, and what follows for sequences of calls: facts
  about an operation that are latched once true, events that happen at most once per
  operation, events that need an earlier one, identities that are never reused, and the
  two terminal conditions of a gate (closed, and blocked by an unknown outcome). Each is
  an interpretation of a locale of \<^verbatim>\<open>Transition_System\<close> on the gate.
\<close>

subsection \<open>How a call moves the receipt\<close>

lemma work_kept_cases:
  assumes "work_kept g g'"
  obtains (same) "g_current_receipt g' = g_current_receipt g" and "g_next_operation_id g' = g_next_operation_id g"
  | (evolved) r r' where "g_current_receipt g = Some r" and "g_current_receipt g' = Some r'"
    and "oa_binding (rc_authority r) = active_binding g" and "receipt_evolves r r'"
    and "g_next_operation_id g' = g_next_operation_id g"
  using assms unfolding work_kept_def receipt_update_def by (elim disjE exE conjE) simp_all

lemma begin_rebind_work:
  "g_current_receipt (fst (begin_rebind g b p e t)) = g_current_receipt g"
  "g_next_operation_id (fst (begin_rebind g b p e t)) = g_next_operation_id g"
  by (cases rule: begin_rebind_cases [of g b p e t]; simp add: preparing_gate_def)+

lemma commit_work:
  "g_current_receipt (fst (commit_rebind g b t)) = g_current_receipt g"
  "g_next_operation_id (fst (commit_rebind g b t)) = g_next_operation_id g"
  by (cases rule: commit_cases [of g b t]; simp)+

lemma startup_work:
  "g_current_receipt (fst (observe_startup g e)) = g_current_receipt g"
  "g_next_operation_id (fst (observe_startup g e)) = g_next_operation_id g"
  by (cases rule: observe_startup_cases [of g e]; simp)+

lemma capabilities_work:
  "g_current_receipt (fst (observe_execution_capabilities g x)) = g_current_receipt g"
  "g_next_operation_id (fst (observe_execution_capabilities g x)) = g_next_operation_id g"
  by (cases rule: observe_capabilities_cases [of g x]; simp)+

lemma readiness_work:
  "g_current_receipt (fst (observe_rebind_readiness g e)) = g_current_receipt g"
  "g_next_operation_id (fst (observe_rebind_readiness g e)) = g_next_operation_id g"
  by (cases rule: observe_readiness_cases [of g e]; simp)+

lemma close_work:
  "g_current_receipt (close_admission g) = g_current_receipt g"
  "g_next_operation_id (close_admission g) = g_next_operation_id g"
  by (simp_all add: close_admission_def)

lemmas binding_calls_work =
  begin_rebind_work commit_work startup_work capabilities_work readiness_work close_work

lemma gate_step_receipt [consumes 1]:
  assumes ok: "gate_ok g"
  obtains (same) "g_current_receipt (fst (gate_step g c)) = g_current_receipt g"
    and "g_next_operation_id (fst (gate_step g c)) = g_next_operation_id g"
  | (evolved) r r' where "g_current_receipt g = Some r"
    and "g_current_receipt (fst (gate_step g c)) = Some r'"
    and "oa_binding (rc_authority r) = active_binding g" and "receipt_evolves r r'"
    and "g_next_operation_id (fst (gate_step g c)) = g_next_operation_id g"
  | (admitted) q where "c = CallAdmit q" and "admission_refusal g q = None"
    and "fst (gate_step g c) = admitted_gate g q"
proof -
  have keep: "work_kept g (fst (gate_step g c)) \<Longrightarrow> thesis"
    by (erule work_kept_cases) (auto intro: same evolved)
  show thesis
  proof (cases c)
    case (CallWithdraw b t)
    show thesis
    proof (cases rule: withdraw_cases [of g b t])
      case (revoked r)
      let ?r = "fst (revoke (r\<lparr>rc_binding_withdrawn_at := Some t\<rparr>) t)"
      have "receipt_evolves r ?r"
        by (rule revoke_evolves [where x = "rc_cancellation_requested_at r"
              and y = "rc_expiry_observed_at r" and z = "Some t"]) (simp_all add: is_revoked_def)
      with revoked CallWithdraw show thesis by (intro evolved [of r ?r]) simp_all
    qed (simp_all add: CallWithdraw same)
  next
    case (CallAdmit q)
    show thesis
      by (cases rule: admit_cases [of g q]) (auto simp: CallAdmit intro: same admitted)
  qed (use ok in \<open>simp_all add: same binding_calls_work work_calls_kept keep\<close>)
qed

subsection \<open>Identities\<close>

text \<open>
  An operation id has been spent once the counter is past it. The counter stops at zero,
  where the source refuses to admit, so ids are never reused even when it wraps.
\<close>

definition id_spent :: "gate \<Rightarrow> operation_id \<Rightarrow> bool" where
  "id_spent g i \<longleftrightarrow> g_next_operation_id g = 0 \<or> i < g_next_operation_id g"

fun admits_id :: "operation_id \<Rightarrow> gate_call \<Rightarrow> gate_result \<Rightarrow> bool" where
  "admits_id i (CallAdmit q) (ResAdmission d) \<longleftrightarrow>
     (case ad_authority d of None \<Rightarrow> False | Some a \<Rightarrow> oa_operation_id a = i)"
| "admits_id i _ _ \<longleftrightarrow> False"

lemma admits_idD:
  assumes "admits_id i c (snd (gate_step g c))"
  obtains q where "c = CallAdmit q" and "admission_refusal g q = None"
    and "i = g_next_operation_id g" and "gate_step g c = (admitted_gate g q,
      ResAdmission \<lparr>ad_status = AdAdmitted, ad_authority = Some (admitted_authority g q)\<rparr>)"
proof (cases c)
  case (CallAdmit q)
  with assms that show thesis
    by (cases rule: admit_cases [of g q]) (auto simp: admitted_authority_def)
qed (use assms in simp_all)

lemma admitted_gate_fields [simp]:
  "g_next_operation_id (admitted_gate g q) = g_next_operation_id g + 1"
  "g_current_receipt (admitted_gate g q) =
     Some (new_receipt (admitted_authority g q) (oq_deadline q) (oq_execution_requirements q))"
  by (simp_all add: admitted_gate_def)

lemma admitted_spent: "g_next_operation_id g \<noteq> 0 \<Longrightarrow> i \<le> g_next_operation_id g \<Longrightarrow> id_spent (admitted_gate g q) i"
  using word_le_plus_one [of "g_next_operation_id g" i] by (auto simp: id_spent_def)

lemma id_spent_step:
  assumes "gate_ok g" and "id_spent g i"
  shows "id_spent (fst (gate_step g c)) i"
  using assms(1)
proof (cases rule: gate_step_receipt [of g c])
  case (admitted q)
  with assms(2) show ?thesis
    using admission_granted(3) [OF admitted(2)] admitted_spent [of g i q] by (simp add: id_spent_def)
qed (use assms(2) in \<open>simp_all add: id_spent_def\<close>)

interpretation ids: one_shot_machine gate_step gate_ok "\<lambda>g. id_spent g i" "admits_id i" for i
proof unfold_locales
  fix g c
  assume ok: "gate_ok g"
  show "id_spent g i \<Longrightarrow> id_spent (fst (gate_step g c)) i" by (rule id_spent_step [OF ok])
  show "id_spent g i \<Longrightarrow> \<not> admits_id i c (snd (gate_step g c))"
    by (auto elim!: admits_idD dest: admission_granted(3) simp: id_spent_def)
  show "admits_id i c (snd (gate_step g c)) \<Longrightarrow> id_spent (fst (gate_step g c)) i"
    by (erule admits_idD) (simp add: admitted_spent admission_granted(3))
qed

subsection \<open>Latched facts about one operation\<close>

text \<open>
  A condition on receipts that evolution keeps gives a latch on the gate: the operation
  was admitted, and as long as its receipt is the current one the condition holds.
\<close>

definition operation_has :: "(OperationReceipt \<Rightarrow> bool) \<Rightarrow> OperationAuthority \<Rightarrow> gate \<Rightarrow> bool" where
  "operation_has P a g \<longleftrightarrow>
     id_spent g (oa_operation_id a) \<and>
     (\<forall>r. g_current_receipt g = Some r \<and> rc_authority r = a \<longrightarrow> P r)"

locale receipt_latch =
  fixes P :: "OperationReceipt \<Rightarrow> bool"
  assumes stable: "receipt_evolves r r' \<Longrightarrow> P r \<Longrightarrow> P r'"
begin

lemma operation_has_step:
  assumes ok: "gate_ok g" and has: "operation_has P a g"
  shows "operation_has P a (fst (gate_step g c))"
  using ok
proof (cases rule: gate_step_receipt [of g c])
  case same
  with has show ?thesis by (simp add: operation_has_def id_spent_def)
next
  case (evolved r r')
  have "rc_authority r' = rc_authority r" by (rule receipt_evolvesD [OF evolved(4)])
  with has evolved stable [OF evolved(4)] show ?thesis by (simp add: operation_has_def id_spent_def)
next
  case (admitted q)
  have spent: "id_spent g (oa_operation_id a)" using has by (simp add: operation_has_def)
  then have "rc_authority (new_receipt (admitted_authority g q) d x) \<noteq> a" for d x
    using admission_granted(3) [OF admitted(2)]
    by (auto simp: new_receipt_def admitted_authority_def id_spent_def)
  with id_spent_step [OF ok spent, of c] admitted(3) show ?thesis
    by (simp add: operation_has_def)
qed

end

lemma current_id_spent:
  assumes "gate_ok g" and "g_current_receipt g = Some r"
  shows "id_spent g (oa_operation_id (rc_authority r))"
proof -
  have "g_next_operation_id g = oa_operation_id (rc_authority r) + 1"
    using gate_ok_receipt [OF assms] by (simp add: receipt_bound_def)
  then show ?thesis using word_less_plus_one by (auto simp: id_spent_def)
qed

text \<open>The receipt that a step leaves current decides what is latched afterwards.\<close>

lemma operation_hasI:
  assumes "gate_ok g" and "g_current_receipt g = Some r" and "rc_authority r = a" and "P r"
  shows "operation_has P a g"
  using assms current_id_spent [OF assms(1,2)] by (simp add: operation_has_def)

lemma operation_hasD:
  "operation_has P a g \<Longrightarrow> g_current_receipt g = Some r \<Longrightarrow> rc_authority r = a \<Longrightarrow> P r"
  by (simp add: operation_has_def)

subsection \<open>The dispatch claim\<close>

fun claims :: "OperationAuthority \<Rightarrow> gate_call \<Rightarrow> gate_result \<Rightarrow> bool" where
  "claims a (CallClaim b t) (ResClaim granted) \<longleftrightarrow> b = a \<and> granted"
| "claims a _ _ \<longleftrightarrow> False"

lemma claimsD:
  assumes "claims a c (snd (gate_step g c))"
  obtains t r where "c = CallClaim a t" and "g_current_receipt g = Some r"
    and "\<not> claim_refused g r a t" and "rc_authority r = a"
    and "fst (gate_step g c) =
      g\<lparr>g_current_receipt := Some (r\<lparr>rc_dispatch := DsSubmitted, rc_dispatched_at := Some t\<rparr>)\<rparr>"
proof (cases c)
  case (CallClaim b t)
  show thesis
  proof (cases rule: claim_cases [of g b t])
    case refused
    with assms CallClaim show thesis by simp
  next
    case (claimed r)
    with assms CallClaim that show thesis using claim_acceptedD(2) [OF claimed(2,1)] by simp
  qed
qed (use assms in simp_all)

interpretation dispatched: receipt_latch "\<lambda>r. rc_dispatch r \<noteq> DsPending"
  by unfold_locales (rule receipt_evolvesD)

interpretation claim: one_shot_machine gate_step gate_ok
  "operation_has (\<lambda>r. rc_dispatch r \<noteq> DsPending) a" "claims a" for a
proof unfold_locales
  fix g c
  assume ok: "gate_ok g"
  let ?has = "operation_has (\<lambda>r. rc_dispatch r \<noteq> DsPending) a"
  show "?has g \<Longrightarrow> ?has (fst (gate_step g c))" by (rule dispatched.operation_has_step [OF ok])
  show "?has g \<Longrightarrow> \<not> claims a c (snd (gate_step g c))"
    by (auto elim!: claimsD dest!: operation_hasD dest: claim_acceptedD(3))
  show "claims a c (snd (gate_step g c)) \<Longrightarrow> ?has (fst (gate_step g c))"
  proof (erule claimsD)
    fix t and r :: OperationReceipt
    let ?r = "r\<lparr>rc_dispatch := DsSubmitted, rc_dispatched_at := Some t\<rparr>"
    assume "rc_authority r = a" and step: "fst (gate_step g c) = g\<lparr>g_current_receipt := Some ?r\<rparr>"
    then show "?has (fst (gate_step g c))"
      by (intro operation_hasI [OF gate_step_ok [OF ok], of _ ?r]) simp_all
  qed
qed

text \<open>
  The remaining guarantees over sequences of calls: one delivery and one native stop
  request per operation, nothing delivered or dispatched after a revocation, nothing
  granted once the outcome is unknown or admission is closed, the order of the events of
  one operation, and the refinement of the gate to an abstract lease of its effect domain.
\<close>

subsection \<open>Delivery\<close>

fun accepts_output :: "OperationAuthority \<Rightarrow> gate_call \<Rightarrow> gate_result \<Rightarrow> bool" where
  "accepts_output a (CallOutputAccepted e) res \<longleftrightarrow> oe_authority e = a \<and> res = ResDisposition EvAccepted"
| "accepts_output a _ _ \<longleftrightarrow> False"

lemma on_current_acceptedE:
  assumes "snd (on_current g a f) = EvAccepted"
  obtains r where "g_current_receipt g = Some r" and "rc_authority r = a"
    and "snd (f r) = EvAccepted" and "fst (on_current g a f) = g\<lparr>g_current_receipt := Some (fst (f r))\<rparr>"
proof (cases "current_authority_matches g a")
  case True
  then obtain r where "g_current_receipt g = Some r" "rc_authority r = a"
    by (auto simp: current_authority_matches_iff)
  with assms True that show thesis by (simp add: on_current_matched)
qed (use assms in \<open>simp add: on_current_unmatched\<close>)

lemma accepts_outputD:
  assumes "accepts_output a c (snd (gate_step g c))"
  obtains e r where "c = CallOutputAccepted e" and "oe_authority e = a"
    and "g_current_receipt g = Some r" and "rc_authority r = a"
    and "snd (receipt_output_accepted g e r) = EvAccepted"
    and "fst (gate_step g c) = g\<lparr>g_current_receipt := Some (mark_output_accepted e r)\<rparr>"
proof (cases c)
  case (CallOutputAccepted e)
  with assms have e: "oe_authority e = a" "snd (observe_output_accepted g e) = EvAccepted" by simp_all
  from e(2) obtain r where r: "g_current_receipt g = Some r" "rc_authority r = a"
    "snd (receipt_output_accepted g e r) = EvAccepted"
    "fst (observe_output_accepted g e) =
      g\<lparr>g_current_receipt := Some (fst (receipt_output_accepted g e r))\<rparr>"
    unfolding observe_output_accepted_def e(1) by (rule on_current_acceptedE)
  have "fst (gate_step g c) = g\<lparr>g_current_receipt := Some (mark_output_accepted e r)\<rparr>"
    using r(4) by (simp add: CallOutputAccepted output_accepted_accepted(1) [OF r(3)])
  with CallOutputAccepted e(1) r(1-3) show thesis by (rule that)
qed (use assms in simp_all)

interpretation answered: receipt_latch "\<lambda>r. rc_output r \<noteq> OdPending"
  by unfold_locales (simp add: receipt_evolvesD(7))

lemma mark_output_accepted_fields [simp]:
  "rc_output (mark_output_accepted e r) = OdAccepted"
  "rc_authority (mark_output_accepted e r) = rc_authority r"
  by (simp_all add: mark_output_accepted_def)

lemma deliverable:
  assumes "snd (receipt_output_accepted g e r) = EvAccepted" and "g_current_receipt g = Some r"
  shows "rc_output r = OdPending" "\<not> is_revoked r" "rc_native_outcome r = NoSucceeded"
    "g_binding_phase g \<noteq> PhWithdrawn" "g_binding_phase g \<noteq> PhPreparing"
  using output_accepted_accepted(3) [OF assms(1)] assms(2) by (simp_all add: can_deliver_result_def)

interpretation delivery: one_shot_machine gate_step gate_ok
  "operation_has (\<lambda>r. rc_output r \<noteq> OdPending) a" "accepts_output a" for a
proof unfold_locales
  fix g c
  assume ok: "gate_ok g"
  let ?has = "operation_has (\<lambda>r. rc_output r \<noteq> OdPending) a"
  show "?has g \<Longrightarrow> ?has (fst (gate_step g c))" by (rule answered.operation_has_step [OF ok])
  show "?has g \<Longrightarrow> \<not> accepts_output a c (snd (gate_step g c))"
    by (auto elim!: accepts_outputD dest!: operation_hasD dest: deliverable(1))
  show "accepts_output a c (snd (gate_step g c)) \<Longrightarrow> ?has (fst (gate_step g c))"
  proof (erule accepts_outputD)
    fix e r
    assume "rc_authority r = a"
      and "fst (gate_step g c) = g\<lparr>g_current_receipt := Some (mark_output_accepted e r)\<rparr>"
    then show "?has (fst (gate_step g c))"
      by (intro operation_hasI [OF gate_step_ok [OF ok], of _ "mark_output_accepted e r"]) simp_all
  qed
qed

subsection \<open>Revocation\<close>

text \<open>What a revoked operation must not get: the right to dispatch, or a delivery.\<close>

definition grants :: "OperationAuthority \<Rightarrow> gate_call \<Rightarrow> gate_result \<Rightarrow> bool" where
  "grants a c res \<longleftrightarrow> claims a c res \<or> accepts_output a c res"

interpretation revoked: receipt_latch is_revoked
  by unfold_locales (rule receipt_evolvesD)

interpretation revocation: blocking_machine gate_step gate_ok "operation_has is_revoked a" "grants a" for a
proof unfold_locales
  fix g c
  assume ok: "gate_ok g"
  show "operation_has is_revoked a g \<Longrightarrow> operation_has is_revoked a (fst (gate_step g c))"
    by (rule revoked.operation_has_step [OF ok])
  show "operation_has is_revoked a g \<Longrightarrow> \<not> grants a c (snd (gate_step g c))"
    by (auto simp: grants_def elim!: claimsD accepts_outputD dest!: operation_hasD
        dest: claim_acceptedD(5) deliverable(2))
qed

subsection \<open>Native stop requests\<close>

fun requests_stop :: "OperationAuthority \<Rightarrow> gate_call \<Rightarrow> gate_result \<Rightarrow> bool" where
  "requests_stop a (CallCancel b t) res \<longleftrightarrow>
     b = a \<and> (\<exists>d. res = ResControl d \<and> cd_should_request_native_stop d)"
| "requests_stop a (CallTime b t) res \<longleftrightarrow>
     b = a \<and> (\<exists>d. res = ResControl d \<and> cd_should_request_native_stop d)"
| "requests_stop a (CallWithdraw b t) res \<longleftrightarrow>
     (\<exists>d. res = ResBinding d \<and> bd_native_stop_authority d = Some a)"
| "requests_stop a _ _ \<longleftrightarrow> False"

lemma revoke_should_stop: "cd_should_request_native_stop (snd (revoke r t)) = should_stop r"
  by (simp add: revoke_def Let_def)

lemma should_stop_reasons:
  "should_stop (r\<lparr>rc_cancellation_requested_at := x\<rparr>) = should_stop r"
  "should_stop (r\<lparr>rc_expiry_observed_at := x\<rparr>) = should_stop r"
  "should_stop (r\<lparr>rc_binding_withdrawn_at := x\<rparr>) = should_stop r"
  by (simp_all add: should_stop_def)

lemma requests_stopD:
  assumes "requests_stop a c (snd (gate_step g c))"
  obtains r r' where "g_current_receipt g = Some r" and "rc_authority r = a" and "should_stop r"
    and "g_current_receipt (fst (gate_step g c)) = Some r'" and "rc_authority r' = a"
    and "rc_native_stop_requested_at r' \<noteq> None"
proof (cases c)
  case (CallCancel b t)
  show thesis
  proof (cases rule: cancel_cases [of g b t])
    case (refused s)
    with assms CallCancel show thesis by simp
  next
    case (cancelled r)
    then show thesis
      using assms CallCancel
      by (intro that [of r "fst (revoke (r\<lparr>rc_cancellation_requested_at := Some t\<rparr>) t)"])
        (auto simp: revoke_should_stop should_stop_reasons revoke_stop_fields
          current_authority_matches_iff)
  qed
next
  case (CallTime b t)
  show thesis
  proof (cases rule: time_cases [of g b t])
    case (refused s)
    with assms CallTime show thesis by simp
  next
    case (expired r)
    then show thesis
      using assms CallTime
      by (intro that [of r "fst (revoke (r\<lparr>rc_expiry_observed_at := Some t\<rparr>) t)"])
        (auto simp: revoke_should_stop should_stop_reasons revoke_stop_fields
          current_authority_matches_iff)
  qed
next
  case (CallWithdraw b t)
  show thesis
  proof (cases rule: withdraw_cases [of g b t])
    case (revoked r)
    then show thesis
      using assms CallWithdraw
      by (intro that [of r "fst (revoke (r\<lparr>rc_binding_withdrawn_at := Some t\<rparr>) t)"])
        (auto simp: should_stop_reasons revoke_stop_fields split: if_split_asm)
  qed (use assms CallWithdraw in simp_all)
qed (use assms in simp_all)

interpretation stop_asked: receipt_latch "\<lambda>r. rc_native_stop_requested_at r \<noteq> None"
  by unfold_locales (simp add: receipt_evolvesD(6))

interpretation stop_request: one_shot_machine gate_step gate_ok
  "operation_has (\<lambda>r. rc_native_stop_requested_at r \<noteq> None) a" "requests_stop a" for a
proof unfold_locales
  fix g c
  assume ok: "gate_ok g"
  let ?has = "operation_has (\<lambda>r. rc_native_stop_requested_at r \<noteq> None) a"
  show "?has g \<Longrightarrow> ?has (fst (gate_step g c))" by (rule stop_asked.operation_has_step [OF ok])
  show "?has g \<Longrightarrow> \<not> requests_stop a c (snd (gate_step g c))"
    by (auto elim!: requests_stopD dest!: operation_hasD simp: should_stop_def)
  show "requests_stop a c (snd (gate_step g c)) \<Longrightarrow> ?has (fst (gate_step g c))"
    by (erule requests_stopD) (rule operation_hasI [OF gate_step_ok [OF ok]])
qed

subsection \<open>Terminal conditions of the gate\<close>

text \<open>The grants that put new work or a new binding in charge of the effect domain.\<close>

fun grants_domain :: "gate_call \<Rightarrow> gate_result \<Rightarrow> bool" where
  "grants_domain (CallAdmit q) res \<longleftrightarrow> (\<exists>d. res = ResAdmission d \<and> ad_authority d \<noteq> None)"
| "grants_domain (CallBeginRebind b p e t) res \<longleftrightarrow> (\<exists>d. res = ResBinding d \<and> bd_status d = BcApplied)"
| "grants_domain (CallCommit b t) res \<longleftrightarrow> (\<exists>d. res = ResBinding d \<and> bd_status d = BcApplied)"
| "grants_domain _ _ \<longleftrightarrow> False"

lemma grants_domainD:
  assumes "grants_domain c (snd (gate_step g c))"
  shows "old_work_closed g \<and> g_binding_phase g \<noteq> PhClosed"
proof (cases c)
  case (CallAdmit q)
  with assms show ?thesis
    by (cases rule: admit_cases [of g q]) (auto dest: admission_granted)
next
  case (CallBeginRebind b p e t)
  with assms show ?thesis by (cases rule: begin_rebind_cases [of g b p e t]) auto
next
  case (CallCommit b t)
  with assms show ?thesis by (cases rule: commit_cases [of g b t]) (auto simp: can_commit_iff)
qed (use assms in simp_all)

definition outcome_unknown :: "gate \<Rightarrow> bool" where
  "outcome_unknown g \<longleftrightarrow> (\<exists>r. g_current_receipt g = Some r \<and> rc_native_outcome r = NoUnknown)"

lemma unknown_not_closed:
  assumes "gate_ok g" and "outcome_unknown g"
  shows "\<not> old_work_closed g"
proof -
  from assms obtain r where r: "g_current_receipt g = Some r" "rc_native_outcome r = NoUnknown" "receipt_ok r"
    using gate_ok_receipt by (auto simp: outcome_unknown_def)
  then have "rc_authority_disposition r = AuBlockedUnknown"
    by (simp add: receipt_ok_def control_ok_def disposition_of_def)
  with r show ?thesis by (auto simp: old_work_closed_def current_is_releasable_iff)
qed

interpretation unknown: blocking_machine gate_step gate_ok outcome_unknown grants_domain
proof unfold_locales
  fix g c
  assume ok: "gate_ok g"
  show "outcome_unknown (fst (gate_step g c))" if unknown: "outcome_unknown g"
    using ok
  proof (cases rule: gate_step_receipt [of g c])
    case (admitted q)
    with unknown_not_closed [OF ok unknown] admission_granted(4) [OF admitted(2)] show ?thesis by simp
  qed (use unknown in \<open>auto simp: outcome_unknown_def dest: receipt_evolvesD(10)\<close>)
  show "outcome_unknown g \<Longrightarrow> \<not> grants_domain c (snd (gate_step g c))"
    using grants_domainD [of c g] unknown_not_closed [OF ok] by blast
qed

definition admission_closed :: "gate \<Rightarrow> bool" where
  "admission_closed g \<longleftrightarrow> g_binding_phase g = PhClosed"

text \<open>Once admission is closed, neither the domain nor a dispatch is granted.\<close>

fun grants_effects :: "gate_call \<Rightarrow> gate_result \<Rightarrow> bool" where
  "grants_effects (CallClaim a t) res \<longleftrightarrow> res = ResClaim True"
| "grants_effects (CallStartup e) res \<longleftrightarrow> res = ResDisposition EvAccepted"
| "grants_effects (CallWithdraw b t) res \<longleftrightarrow> (\<exists>d. res = ResBinding d \<and> bd_status d = BcApplied)"
| "grants_effects c res \<longleftrightarrow> grants_domain c res"

lemma receipt_update_phase: "receipt_update g r r' g' \<Longrightarrow> g_binding_phase g' = g_binding_phase g"
  by (auto simp: receipt_update_def)

lemma work_kept_phase: "work_kept g g' \<Longrightarrow> g_binding_phase g' = g_binding_phase g"
  unfolding work_kept_def using receipt_update_phase by blast

lemma closed_step:
  assumes ok: "gate_ok g" and closed: "g_binding_phase g = PhClosed"
  shows "g_binding_phase (fst (gate_step g c)) = PhClosed"
proof (cases c)
  case (CallStartup e)
  with closed show ?thesis by (simp add: observe_startup_def)
next
  case (CallCapabilities x)
  with closed show ?thesis by (cases rule: observe_capabilities_cases [of g x]) simp_all
next
  case (CallReadiness e)
  with closed show ?thesis by (cases rule: observe_readiness_cases [of g e]) simp_all
next
  case (CallAdmit q)
  with closed show ?thesis by (cases rule: admit_cases [of g q]) (simp_all add: admitted_gate_def)
qed (use closed ok in \<open>simp_all add: withdraw_binding_def begin_rebind_def commit_rebind_def
  close_admission_def work_kept_phase [OF work_calls_kept(1)] work_kept_phase [OF work_calls_kept(2)]
  work_kept_phase [OF work_calls_kept(3)] work_kept_phase [OF work_calls_kept(4)]
  work_kept_phase [OF work_calls_kept(5)] work_kept_phase [OF work_calls_kept(6)]
  work_kept_phase [OF work_calls_kept(7)] work_kept_phase [OF work_calls_kept(8)]
  work_kept_phase [OF work_calls_kept(9)]\<close>)

interpretation closed: blocking_machine gate_step gate_ok admission_closed grants_effects
proof unfold_locales
  fix g c
  assume ok: "gate_ok g"
  show "admission_closed g \<Longrightarrow> admission_closed (fst (gate_step g c))"
    using closed_step [OF ok] by (simp add: admission_closed_def)
  show "\<not> grants_effects c (snd (gate_step g c))" if closed: "admission_closed g"
  proof
    assume grant: "grants_effects c (snd (gate_step g c))"
    show False
    proof (cases c)
      case (CallClaim a t)
      with grant closed show False
        by (cases rule: claim_cases [of g a t]) (auto simp: admission_closed_def dest: claim_acceptedD(7))
    qed (use grant closed grants_domainD [of c g] in
        \<open>auto simp: admission_closed_def observe_startup_def withdraw_binding_def\<close>)
  qed
qed

end
