(* ===== verification/Gate_Order.thy ===== *)
theory Gate_Order
  imports Gate_Guarantees
begin

text \<open>
  The order of the events of one operation (claim, native acceptance, native success,
  delivery) and the refinement of the gate to an abstract lease of its effect domain.
\<close>

subsection \<open>Fields that only some calls write\<close>

text \<open>
  A field of the receipt that no control and no mark of evidence writes is changed by an
  admission, a claim or a native event only.
\<close>

fun writes_work :: "gate_call \<Rightarrow> bool" where
  "writes_work (CallAdmit q) \<longleftrightarrow> True"
| "writes_work (CallClaim a t) \<longleftrightarrow> True"
| "writes_work (CallNative e) \<longleftrightarrow> True"
| "writes_work c \<longleftrightarrow> False"

fun settles :: "gate_call \<Rightarrow> bool" where
  "settles (CallSettlement e) \<longleftrightarrow> True"
| "settles (CallAdmit q) \<longleftrightarrow> True"
| "settles c \<longleftrightarrow> False"

locale unsettled_field =
  fixes F :: "OperationReceipt \<Rightarrow> 'x"
  assumes revoke: "F (fst (revoke r t)) = F r"
    and reason: "F (r\<lparr>rc_cancellation_requested_at := x\<rparr>) = F r"
      "F (r\<lparr>rc_expiry_observed_at := x\<rparr>) = F r" "F (r\<lparr>rc_binding_withdrawn_at := x\<rparr>) = F r"
    and stopped: "F (mark_stop_acknowledged e1 r) = F r"
    and unsubmitted: "F (mark_not_submitted e2 r) = F r"
    and delivered: "F (mark_output_accepted e3 r) = F r"
    and undelivered: "F (mark_not_delivered e4 r) = F r"
begin

lemma evidence_keeps:
  "F (fst (receipt_stop_acknowledgement config e1 r)) = F r"
  "F (fst (receipt_non_submission config e2 r)) = F r"
  "F (fst (receipt_output_accepted g e3 r)) = F r"
  "F (fst (receipt_not_delivered config e4 r)) = F r"
  using stop_acknowledgement_unchanged [of config e1 r] stop_acknowledgement_accepted(1) [of config e1 r]
    non_submission_unchanged [of config e2 r] non_submission_accepted(1) [of config e2 r]
    output_accepted_unchanged [of g e3 r] output_accepted_accepted(1) [of g e3 r]
    not_delivered_unchanged [of config e4 r] not_delivered_accepted(1) [of config e4 r]
    stopped unsubmitted delivered undelivered
  by metis+

lemma on_current_keeps:
  assumes "\<And>r. F (fst (f r)) = F r"
  shows "map_option F (g_current_receipt (fst (on_current g a f))) = map_option F (g_current_receipt g)"
  by (cases "current_authority_matches g a")
    (auto simp: current_authority_matches_iff on_current_matched on_current_unmatched assms)

lemma cancel_keeps:
  "map_option F (g_current_receipt (fst (request_cancel g a t))) = map_option F (g_current_receipt g)"
  by (cases rule: cancel_cases [of g a t]) (simp_all add: revoke reason)

lemma time_keeps:
  "map_option F (g_current_receipt (fst (observe_time g a t))) = map_option F (g_current_receipt g)"
  by (cases rule: time_cases [of g a t]) (simp_all add: revoke reason)

lemma withdraw_keeps:
  "map_option F (g_current_receipt (fst (withdraw_binding g b t))) = map_option F (g_current_receipt g)"
  by (cases rule: withdraw_cases [of g b t]) (simp_all add: revoke reason)

lemma unsettling_step_keeps:
  "\<not> writes_work c \<Longrightarrow> \<not> settles c \<Longrightarrow>
    map_option F (g_current_receipt (fst (gate_step g c))) = map_option F (g_current_receipt g)"
  by (cases c)
    (simp_all add: binding_calls_work cancel_keeps time_keeps withdraw_keeps evidence_keeps
      on_current_keeps observe_stop_acknowledgement_def observe_non_submission_def
      observe_output_accepted_def observe_output_not_delivered_def)

end

locale receipt_field = unsettled_field +
  assumes settled: "F (mark_settled e5 r) = F r"
begin

lemma settlement_keeps: "F (fst (receipt_settlement config e5 r)) = F r"
  using settlement_unchanged [of config e5 r] settlement_accepted(1) [of config e5 r] settled by metis

lemma step_keeps:
  "\<not> writes_work c \<Longrightarrow>
    map_option F (g_current_receipt (fst (gate_step g c))) = map_option F (g_current_receipt g)"
  using unsettling_step_keeps [of c g]
  by (cases c) (simp_all add: on_current_keeps settlement_keeps observe_settlement_def)

end

interpretation authority_field: receipt_field rc_authority
  by unfold_locales (simp_all add: mark_stop_acknowledged_def mark_not_submitted_def
      mark_not_delivered_def mark_settled_def)

interpretation dispatched_at: receipt_field "\<lambda>r. (rc_authority r, rc_dispatched_at r)"
  by unfold_locales (simp_all add: mark_stop_acknowledged_def mark_not_submitted_def
      mark_output_accepted_def mark_not_delivered_def mark_settled_def)

interpretation acceptance: receipt_field "\<lambda>r. (rc_authority r, rc_native_acceptance r)"
  by unfold_locales (simp_all add: mark_stop_acknowledged_def mark_not_submitted_def
      mark_output_accepted_def mark_not_delivered_def mark_settled_def)

interpretation success: receipt_field "\<lambda>r. (rc_authority r, rc_observed_native_success r)"
  by unfold_locales (simp_all add: mark_stop_acknowledged_def mark_not_submitted_def
      mark_output_accepted_def mark_not_delivered_def mark_settled_def)

subsection \<open>Native events\<close>

fun native_accepts :: "OperationAuthority \<Rightarrow> NativeEventKind \<Rightarrow> gate_call \<Rightarrow> gate_result \<Rightarrow> bool" where
  "native_accepts a k (CallNative e) res \<longleftrightarrow>
     ne_authority e = a \<and> ne_kind e = k \<and> res = ResDisposition EvAccepted"
| "native_accepts a k _ _ \<longleftrightarrow> False"

text \<open>The current receipt is \<open>a\<close>'s and has \<open>P\<close>.\<close>

definition current_has :: "OperationAuthority \<Rightarrow> (OperationReceipt \<Rightarrow> bool) \<Rightarrow> gate \<Rightarrow> bool" where
  "current_has a P g \<longleftrightarrow> (\<exists>r. g_current_receipt g = Some r \<and> rc_authority r = a \<and> P r)"

lemma current_has_map:
  "map_option (\<lambda>r. (rc_authority r, F r)) (g_current_receipt g') =
     map_option (\<lambda>r. (rc_authority r, F r)) (g_current_receipt g) \<Longrightarrow>
   current_has a (\<lambda>r. P (F r)) g' = current_has a (\<lambda>r. P (F r)) g"
  by (cases "g_current_receipt g"; cases "g_current_receipt g'") (auto simp: current_has_def)

lemma settle_native_fields [simp]:
  "rc_authority (settle_native_outcome r) = rc_authority r"
  "rc_dispatched_at (settle_native_outcome r) = rc_dispatched_at r"
  "rc_native_acceptance (settle_native_outcome r) = rc_native_acceptance r"
  "rc_observed_native_success (settle_native_outcome r) = rc_observed_native_success r"
  by (simp_all add: settle_native_outcome_def)

lemma native_event_accepted:
  assumes "native_event e r = Some (r', v)" and "r' \<noteq> r"
  shows "v = EvAccepted" "r' = note_native e r"
  using assms by (auto simp: native_event_def split: if_split_asm)

lemma new_receipt_blank [simp]:
  "rc_authority (new_receipt a d x) = a" "rc_dispatched_at (new_receipt a d x) = None"
  "rc_native_acceptance (new_receipt a d x) = NaPending"
  "\<not> rc_observed_native_success (new_receipt a d x)"
  "rc_dispatch (new_receipt a d x) = DsPending" "rc_output (new_receipt a d x) = OdPending"
  "rc_native_outcome (new_receipt a d x) = NoPending" "rc_settlement (new_receipt a d x) = StPending"
  by (simp_all add: new_receipt_def)

lemma admit_blank:
  assumes "\<not> P None NaPending False"
    and "current_has a (\<lambda>r. P (rc_dispatched_at r) (rc_native_acceptance r)
           (rc_observed_native_success r)) (fst (admit g q))"
  shows "current_has a (\<lambda>r. P (rc_dispatched_at r) (rc_native_acceptance r)
           (rc_observed_native_success r)) g"
  using assms by (cases rule: admit_cases [of g q]) (auto simp: current_has_def)

text \<open>What a native event can add to the three fields.\<close>

lemma native_step_fields:
  assumes "current_has a P (fst (observe_native g e))" and "\<not> current_has a P g"
  obtains r r' v where "g_current_receipt g = Some r" and "rc_authority r = a"
    and "ne_authority e = a" and "\<not> P r" and "P (settle_native_outcome r')"
    and "native_event e r = Some (r', v)" and "rc_dispatch r = DsSubmitted"
    and "snd (observe_native g e) = v"
proof (cases rule: observe_native_cases [of g e])
  case (unchanged v)
  with assms show thesis by simp
next
  case (observed r r' v)
  note adm = native_admissible [OF observed(3,1)]
  have same: "rc_authority (settle_native_outcome r') = rc_authority r"
    by (simp add: native_event_fields(1) [OF observed(5)])
  have after: "g_current_receipt (fst (observe_native g e)) = Some (settle_native_outcome r')"
    by (simp add: observed(2))
  from assms(1) after same have a: "rc_authority r = a" and new: "P (settle_native_outcome r')"
    unfolding current_has_def by simp_all
  from assms(2) observed(1) a have old: "\<not> P r" unfolding current_has_def by blast
  from adm(2) a have "ne_authority e = a" by (rule subst)
  moreover have "snd (observe_native g e) = v" by (simp add: observed(2))
  ultimately show thesis
    by (intro that [OF observed(1) a _ old new observed(5) adm(3)])
qed

subsection \<open>Precedence\<close>

interpretation claim_order: precedence_machine gate_step gate_ok
  "current_has a (\<lambda>r. rc_dispatched_at r \<noteq> None)" "claims a" "native_accepts a k" for a k
proof unfold_locales
  fix g c
  assume ok: "gate_ok g"
  let ?flag = "current_has a (\<lambda>r. rc_dispatched_at r \<noteq> None)"
  show "claims a c (snd (gate_step g c))" if not: "\<not> ?flag g" and flag: "?flag (fst (gate_step g c))"
  proof (cases c)
    case (CallClaim b t)
    then show ?thesis
      using not flag
      by (cases rule: claim_cases [of g b t]) (auto simp: current_has_def dest: claim_acceptedD(2))
  next
    case (CallNative e)
    with flag have "?flag (fst (observe_native g e))" by simp
    then show ?thesis
      by (rule native_step_fields [OF _ not]) (simp add: native_event_fields(3))
  next
    case (CallAdmit q)
    with flag not show ?thesis using admit_blank [of "\<lambda>d n s. d \<noteq> None" a g q] by simp
  qed (use not flag current_has_map [OF dispatched_at.step_keeps [of c g], of a "\<lambda>x. x \<noteq> None"] in
      simp_all)
  show "native_accepts a k c (snd (gate_step g c)) \<Longrightarrow> ?flag g"
  proof (cases c)
    case (CallNative e)
    assume acc: "native_accepts a k c (snd (gate_step g c))"
    show ?thesis
    proof (cases rule: observe_native_cases [of g e])
      case (unchanged v)
      with acc CallNative show ?thesis by simp
    next
      case (observed r r' v)
      note adm = native_admissible [OF observed(3,1)]
      have "rc_dispatched_at r \<noteq> None"
        using gate_ok_receipt [OF ok observed(1)] adm(3) by (simp add: receipt_ok_def dispatch_ok_def)
      with observed(1) adm(2) acc CallNative show ?thesis by (auto simp: current_has_def)
    qed
  qed simp_all
qed

interpretation acceptance_order: precedence_machine gate_step gate_ok
  "current_has a (\<lambda>r. rc_native_acceptance r = NaAccepted)" "native_accepts a NkAccepted"
  "native_accepts a NkTerminalSucceeded" for a
proof unfold_locales
  fix g c
  assume ok: "gate_ok g"
  let ?flag = "current_has a (\<lambda>r. rc_native_acceptance r = NaAccepted)"
  show "native_accepts a NkAccepted c (snd (gate_step g c))"
    if not: "\<not> ?flag g" and flag: "?flag (fst (gate_step g c))"
  proof (cases c)
    case (CallClaim b t)
    then show ?thesis
      using not flag by (cases rule: claim_cases [of g b t]) (auto simp: current_has_def)
  next
    case (CallNative e)
    with flag have "?flag (fst (observe_native g e))" by simp
    then show ?thesis
    proof (rule native_step_fields [OF _ not])
      fix r r' v
      assume here: "ne_authority e = a" "snd (observe_native g e) = v"
        and new: "rc_native_acceptance r \<noteq> NaAccepted"
          "rc_native_acceptance (settle_native_outcome r') = NaAccepted"
        and ev: "native_event e r = Some (r', v)"
      from new have "r' \<noteq> r" by auto
      note noted = native_event_accepted [OF ev this]
      from new noted(2) have "ne_kind e = NkAccepted"
        by (auto simp: note_native_def split: NativeEventKind.split_asm)
      with here noted(1) CallNative show ?thesis by simp
    qed
  next
    case (CallAdmit q)
    with flag not show ?thesis using admit_blank [of "\<lambda>d n s. n = NaAccepted" a g q] by simp
  qed (use not flag current_has_map [OF acceptance.step_keeps [of c g], of a "\<lambda>x. x = NaAccepted"] in
      simp_all)
  show "native_accepts a NkTerminalSucceeded c (snd (gate_step g c)) \<Longrightarrow> ?flag g"
  proof (cases c)
    case (CallNative e)
    assume acc: "native_accepts a NkTerminalSucceeded c (snd (gate_step g c))"
    show ?thesis
    proof (cases rule: observe_native_cases [of g e])
      case (unchanged v)
      with acc CallNative show ?thesis by simp
    next
      case (observed r r' v)
      note adm = native_admissible [OF observed(3,1)]
      have "rc_native_acceptance r = NaAccepted"
        using observed(5) acc CallNative by (auto simp: native_event_def split: if_split_asm)
      with observed(1) adm(2) acc CallNative show ?thesis by (auto simp: current_has_def)
    qed
  qed simp_all
qed

interpretation success_order: precedence_machine gate_step gate_ok
  "current_has a rc_observed_native_success" "native_accepts a NkTerminalSucceeded"
  "accepts_output a" for a
proof unfold_locales
  fix g c
  assume ok: "gate_ok g"
  let ?flag = "current_has a rc_observed_native_success"
  show "native_accepts a NkTerminalSucceeded c (snd (gate_step g c))"
    if not: "\<not> ?flag g" and flag: "?flag (fst (gate_step g c))"
  proof (cases c)
    case (CallClaim b t)
    then show ?thesis
      using not flag by (cases rule: claim_cases [of g b t]) (auto simp: current_has_def)
  next
    case (CallNative e)
    with flag have "?flag (fst (observe_native g e))" by simp
    then show ?thesis
    proof (rule native_step_fields [OF _ not])
      fix r r' v
      assume here: "ne_authority e = a" "snd (observe_native g e) = v"
        and new: "\<not> rc_observed_native_success r"
          "rc_observed_native_success (settle_native_outcome r')"
        and ev: "native_event e r = Some (r', v)"
      from new have "r' \<noteq> r" by auto
      note noted = native_event_accepted [OF ev this]
      from new noted(2) have "ne_kind e = NkTerminalSucceeded"
        by (auto simp: note_native_def split: NativeEventKind.split_asm)
      with here noted(1) CallNative show ?thesis by simp
    qed
  next
    case (CallAdmit q)
    with flag not show ?thesis using admit_blank [of "\<lambda>d n s. s" a g q] by simp
  qed (use not flag current_has_map [OF success.step_keeps [of c g], of a "\<lambda>x. x"] in simp_all)
  show "accepts_output a c (snd (gate_step g c)) \<Longrightarrow> ?flag g"
  proof (erule accepts_outputD)
    fix e r
    assume r: "g_current_receipt g = Some r" "rc_authority r = a"
      and acc: "snd (receipt_output_accepted g e r) = EvAccepted"
    have "rc_native_success_evidence r \<noteq> None" using output_accepted_accepted(5) [OF acc] by auto
    then have "rc_observed_native_success r"
      using gate_ok_receipt [OF ok r(1)] by (simp add: receipt_ok_def native_ok_def)
    with r show ?thesis by (auto simp: current_has_def)
  qed
qed

lemma initial_current_has: "gate_initial g \<Longrightarrow> \<not> current_has a P g"
  by (auto simp: gate_initial_def make_gate_def implementation_init_def current_has_def
      split: if_split_asm)

subsection \<open>The abstract lease\<close>

text \<open>
  The gate's promise to the rest of the system is a lease of the effect domain: at most
  one operation holds it; it comes free when the operation is settled with its effects
  resolved; a contradiction about the native outcome quarantines the domain for good.
\<close>

datatype lease =
    Vacant
  | Held OperationAuthority
  | Freed OperationAuthority
  | Quarantined OperationAuthority

inductive lease_step :: "lease \<Rightarrow> lease \<Rightarrow> bool" where
  take: "lease_step Vacant (Held a)"
| release: "lease_step (Held a) (Freed a)"
| lose: "lease_step (Held a) (Quarantined a)"
| contradict: "lease_step (Freed a) (Quarantined a)"
| pass: "oa_operation_id a < oa_operation_id b \<Longrightarrow> lease_step (Freed a) (Held b)"

inductive_simps lease_step_simps [simp]:
  "lease_step Vacant l" "lease_step (Held a) l" "lease_step (Freed a) l" "lease_step (Quarantined a) l"

definition lease_of :: "gate \<Rightarrow> lease" where
  "lease_of g =
    (case g_current_receipt g of
       None \<Rightarrow> Vacant
     | Some r \<Rightarrow>
         (case rc_authority_disposition r of
            AuBlockedUnknown \<Rightarrow> Quarantined (rc_authority r)
          | AuReleased \<Rightarrow> Freed (rc_authority r)
          | _ \<Rightarrow> Held (rc_authority r)))"

definition receipt_lease :: "OperationReceipt \<Rightarrow> lease" where
  "receipt_lease r =
    (if rc_native_outcome r = NoUnknown then Quarantined (rc_authority r)
     else if has_resolved_closure r then Freed (rc_authority r) else Held (rc_authority r))"

lemma lease_of_receipt:
  assumes "gate_ok g" and "g_current_receipt g = Some r"
  shows "lease_of g = receipt_lease r"
proof -
  have "rc_authority_disposition r = disposition_of r"
    using gate_ok_receipt [OF assms] by (simp add: receipt_ok_def control_ok_def)
  with assms(2) show ?thesis by (simp add: lease_of_def receipt_lease_def disposition_of_def)
qed

lemma evolves_lease:
  "receipt_evolves r r' \<Longrightarrow>
    receipt_lease r = receipt_lease r' \<or> lease_step (receipt_lease r) (receipt_lease r')"
  using receipt_evolvesD(1,10,11) [of r r'] by (auto simp: receipt_lease_def)

lemma gate_sim_step:
  assumes ok: "gate_ok g"
  shows "lease_of g = lease_of (fst (gate_step g c)) \<or>
    lease_step (lease_of g) (lease_of (fst (gate_step g c)))"
  using ok
proof (cases rule: gate_step_receipt [of g c])
  case same
  then show ?thesis by (simp add: lease_of_def)
next
  case (evolved r r')
  with evolves_lease [OF evolved(4)] show ?thesis
    by (simp add: lease_of_receipt [OF ok] lease_of_receipt [OF gate_step_ok [OF ok]])
next
  case (admitted q)
  have held: "lease_of (fst (gate_step g c)) = Held (admitted_authority g q)"
    by (simp add: lease_of_def admitted(3)) (simp add: new_receipt_def)
  show ?thesis
  proof (cases "g_current_receipt g")
    case None
    then have "lease_of g = Vacant" by (simp add: lease_of_def)
    then show ?thesis by (simp add: held)
  next
    case (Some r)
    have "lease_of g = Freed (rc_authority r)"
      using admission_granted(4) [OF admitted(2)] Some
      by (auto simp: old_work_closed_def current_is_releasable_iff lease_of_def)
    moreover have "oa_operation_id (rc_authority r) < g_next_operation_id g"
      using current_id_spent [OF ok Some] admission_granted(3) [OF admitted(2)]
      by (simp add: id_spent_def)
    ultimately show ?thesis by (simp add: held admitted_authority_def)
  qed
qed

interpretation lease: simulation gate_step gate_ok lease_of lease_step
  by unfold_locales (rule gate_sim_step)

text \<open>
  A concrete gate and a concrete life of one operation on it, at which the properties of
  the gate are evaluated.
\<close>

definition demo_binding :: BindingIdentity where
  "demo_binding = \<lparr>bid_provider_id = ''p'', bid_effect_domain = ''d'',
     bid_composition_revision = 1, bid_provider_generation = 1\<rparr>"

definition demo_config :: AuthorityGateConfig where
  "demo_config = \<lparr>cfg_binding = demo_binding, cfg_capability_id = ''c'',
     cfg_binding_observer = ''b'', cfg_worker_observer = ''w'',
     cfg_result_sink_observer = ''r'', cfg_native_evidence_source = ''n'',
     cfg_settlement_evidence_source = ''s'', cfg_settlement_scope = ''x'',
     cfg_started_at = 1, cfg_stop_evidence_source = ''t'',
     cfg_readiness_kind = SkWorkerReady, cfg_execution_capability_observer = []\<rparr>"

definition demo_gate :: gate where
  "demo_gate = implementation_init demo_config"

abbreviation rec :: "string \<Rightarrow> u64 \<Rightarrow> u64 \<Rightarrow> EvidenceRecord" where
  "rec source sequence at \<equiv> \<lparr>er_source = source, er_observed_at = at, er_sequence = sequence\<rparr>"

definition demo_startup :: "StartupEvidenceKind \<Rightarrow> string \<Rightarrow> gate_call" where
  "demo_startup kind source = CallStartup
     \<lparr>se_kind = kind, se_binding = demo_binding, se_record = rec source 1 2, se_observed = True\<rparr>"

definition demo_request :: OperationRequest where
  "demo_request = \<lparr>oq_capability_id = ''c'', oq_effect_domain = ''d'',
     oq_opaque_request_reference = ''q'', oq_target_reference = ''t'',
     oq_requested_at = 3, oq_deadline = Some 20, oq_execution_requirements = None\<rparr>"

definition demo_authority :: OperationAuthority where
  "demo_authority = \<lparr>oa_operation_id = 1, oa_binding = demo_binding, oa_admitted_at = 3\<rparr>"

definition demo_native :: "NativeEventKind \<Rightarrow> u64 \<Rightarrow> u64 \<Rightarrow> gate_call" where
  "demo_native kind sequence at = CallNative
     \<lparr>ne_authority = demo_authority, ne_native_identity = ''g'', ne_kind = kind,
      ne_record = rec ''n'' sequence at\<rparr>"

definition demo_output :: gate_call where
  "demo_output = CallOutputAccepted
     \<lparr>oe_authority = demo_authority, oe_result_reference = ''o'', oe_record = rec ''r'' 5 9\<rparr>"

definition demo_settlement :: gate_call where
  "demo_settlement = CallSettlement
     \<lparr>ste_authority = demo_authority, ste_scope = ''x'', ste_permits_same_domain_admission = True,
      ste_record = rec ''s'' 1 10\<rparr>"

definition demo_start :: "gate_call list" where
  "demo_start = [demo_startup SkBindingIdleAndSettled ''b'', demo_startup SkWorkerReady ''w'',
     demo_startup SkResultSinkReady ''r'']"

definition demo_dispatched :: "gate_call list" where
  "demo_dispatched = demo_start @ [CallAdmit demo_request, CallClaim demo_authority 4]"

definition demo_delivered :: "gate_call list" where
  "demo_delivered = demo_dispatched @ [demo_native NkAccepted 1 5, demo_native NkStarted 2 6,
     demo_native NkTerminalSucceeded 3 7, demo_output]"

definition demo_life :: "gate_call list" where
  "demo_life = demo_delivered @ [demo_settlement, demo_output, CallClaim demo_authority 11]"

lemmas demo_defs =
  demo_gate_def demo_config_def demo_binding_def demo_startup_def demo_request_def
  demo_authority_def demo_native_def demo_output_def demo_settlement_def demo_start_def
  demo_dispatched_def demo_delivered_def demo_life_def

lemma demo_make: "make_gate demo_config = Some demo_gate"
  by (simp add: make_gate_def demo_gate_def) (simp add: config_rejected_def demo_config_def demo_binding_def)

lemma demo_initial: "gate_initial demo_gate"
  unfolding gate_initial_def using demo_make by blast

lemma demo_reachable: "gate_reachable (gate_run demo_gate cs)"
  by (rule reachable_run, rule reachable_init, rule demo_initial)

lemma demo_life_results:
  "map snd (gate_trace demo_gate demo_life) =
    [ResDisposition EvAccepted, ResDisposition EvAccepted, ResDisposition EvAccepted,
     ResAdmission \<lparr>ad_status = AdAdmitted, ad_authority = Some demo_authority\<rparr>, ResClaim True,
     ResDisposition EvAccepted, ResDisposition EvAccepted, ResDisposition EvAccepted,
     ResDisposition EvAccepted, ResDisposition EvAccepted, ResDisposition EvDuplicate, ResClaim False]"
  by code_simp

end
