(* ===== verification/Gate_Rules.thy ===== *)
theory Gate_Rules
  imports Gate_Order
begin

text \<open>
  Properties of single operations of the authority gate in a reachable state: admission,
  rebinding, the evidence it refuses, the delivery it records, and what a released
  operation leaves behind.
\<close>

lemma reached_receipt:
  "gate_reachable g \<Longrightarrow> g_current_receipt g = Some r \<Longrightarrow> receipt_ok r"
  using gate_ok_receipt [OF gate_reachable_ok] by blast

text \<open>
  C7. A committed rebind puts a strictly newer provider generation in charge, and only
  when the old work is closed, the old scope is still idle, and all three readiness facts
  about the candidate were observed true, are undisputed and still valid.
\<close>

theorem commit_supersedes:
  assumes "gate_reachable g" and "commit_rebind g b now = (g', d)" and "bd_status d = BcApplied"
  shows "\<exists>c. g_candidate g = Some c \<and> b = cn_binding c \<and> active_binding g' = b \<and>
    bid_provider_generation (active_binding g) < bid_provider_generation b \<and>
    old_work_closed g \<and> now < bre_valid_until (cn_old_scope c) \<and>
    length (cn_readiness c) = 3 \<and> list_all (readiness_fact_holds now) (cn_readiness c) \<and>
    g_initialization_state g' = IsReady \<and> g_candidate g' = None"
proof (cases rule: commit_cases [of g b now])
  case (unchanged s)
  with assms(2,3) show ?thesis by auto
next
  case (committed c)
  have g': "g' = install_candidate g c now" using assms(2) committed(4) by simp
  have "candidate_ok g c"
    using gate_okD(2) [OF gate_reachable_ok [OF assms(1)]] committed(1) by (simp add: binding_ok_def)
  then have "bid_provider_generation (active_binding g) < bid_provider_generation (cn_binding c)"
    and "length (cn_readiness c) = 3" unfolding candidate_ok_def by blast+
  moreover from committed(3) committed(1)
  have "old_work_closed g" "now < bre_valid_until (cn_old_scope c)"
    "list_all (readiness_fact_holds now) (cn_readiness c)"
    by (auto simp: can_commit_iff)
  ultimately show ?thesis using committed(1,2) by (simp add: g')
qed

definition demo_new_binding :: BindingIdentity where
  "demo_new_binding = demo_binding\<lparr>bid_provider_id := ''p2'', bid_provider_generation := 2\<rparr>"

definition demo_readiness :: "StartupEvidenceKind \<Rightarrow> string \<Rightarrow> BindingIdentity \<Rightarrow> u64 \<Rightarrow> u64 \<Rightarrow> BindingReadinessEvidence" where
  "demo_readiness kind source binding sequence at =
    \<lparr>bre_kind = kind, bre_binding = binding, bre_record = rec source sequence at,
     bre_observed = True, bre_valid_until = 90\<rparr>"

definition demo_prepared :: "gate_call list" where
  "demo_prepared = demo_start @
    [CallWithdraw demo_binding 30,
     CallBeginRebind demo_binding ''p2'' (demo_readiness SkBindingIdleAndSettled ''b'' demo_binding 2 31) 32,
     CallReadiness (demo_readiness SkBindingIdleAndSettled ''b'' demo_new_binding 3 33),
     CallReadiness (demo_readiness SkWorkerReady ''w'' demo_new_binding 3 34),
     CallReadiness (demo_readiness SkResultSinkReady ''r'' demo_new_binding 3 35)]"

lemma demo_commit: "bd_status (snd (commit_rebind (gate_run demo_gate demo_prepared) demo_new_binding 36)) = BcApplied"
  by code_simp

lemma commit_supersedes_witness:
  "bid_provider_generation demo_binding < bid_provider_generation demo_new_binding \<and>
   active_binding (fst (commit_rebind (gate_run demo_gate demo_prepared) demo_new_binding 36)) = demo_new_binding"
proof -
  let ?g = "gate_run demo_gate demo_prepared" and ?p = "commit_rebind (gate_run demo_gate demo_prepared) demo_new_binding 36"
  have "active_binding ?g = demo_binding" by code_simp
  with commit_supersedes [OF demo_reachable, of demo_prepared demo_new_binding 36 "fst ?p" "snd ?p"] demo_commit
  show ?thesis by auto
qed

text \<open>
  C8. Admission is exclusive: an operation is admitted only when the gate is ready, the
  domain is unoccupied or its last operation is settled with its effects resolved and its
  authority released, and the deadline is still ahead; it gets an id never used before and
  the active binding, and starts undispatched.
\<close>

theorem admission_exclusive:
  assumes "gate_reachable g" and "ad_authority (snd (admit g q)) = Some a"
  shows "g_initialization_state g = IsReady \<and> all_facts_hold g \<and>
    (g_current_receipt g = None \<or>
       (\<exists>r. g_current_receipt g = Some r \<and> has_resolved_closure r \<and>
            rc_authority_disposition r = AuReleased \<and>
            oa_operation_id (rc_authority r) < oa_operation_id a)) \<and>
    oq_deadline q \<notin> Some ` {..oq_requested_at q} \<and>
    oa_binding a = active_binding g \<and> oa_operation_id a \<noteq> 0 \<and>
    map_option (\<lambda>r. (rc_authority r, rc_dispatch r)) (g_current_receipt (fst (admit g q)))
      = Some (a, DsPending)"
proof (cases rule: admit_cases [of g q])
  case (refused s)
  with assms(2) show ?thesis by simp
next
  case admitted
  note ok = gate_reachable_ok [OF assms(1)] and granted = admission_granted [OF admitted(1)]
  have a: "a = admitted_authority g q" using assms(2) admitted(2) by simp
  have "all_facts_hold g" using gate_okD(1) [OF ok] granted(1) by (simp add: phases_ok_def)
  moreover have "g_current_receipt g = None \<or>
       (\<exists>r. g_current_receipt g = Some r \<and> has_resolved_closure r \<and>
            rc_authority_disposition r = AuReleased \<and>
            oa_operation_id (rc_authority r) < oa_operation_id a)"
    using granted(3,4) current_id_spent [OF ok]
    by (auto simp: old_work_closed_def current_is_releasable_iff a admitted_authority_def id_spent_def)
  moreover have "oq_deadline q \<notin> Some ` {..oq_requested_at q}"
    using granted(8) by auto
  moreover have "oa_binding a = active_binding g" "oa_operation_id a \<noteq> 0"
    using granted(3) by (simp_all add: a admitted_authority_def)
  moreover have "map_option (\<lambda>r. (rc_authority r, rc_dispatch r)) (g_current_receipt (fst (admit g q)))
      = Some (a, DsPending)"
    by (simp add: admitted(2) a)
  ultimately show ?thesis using granted(1) by blast
qed

lemma admission_exclusive_witness:
  "oa_binding demo_authority = active_binding (gate_run demo_gate demo_start) \<and>
   ad_authority (snd (admit (gate_run demo_gate demo_start) demo_request)) = Some demo_authority"
proof
  show admitted: "ad_authority (snd (admit (gate_run demo_gate demo_start) demo_request)) = Some demo_authority"
    by code_simp
  show "oa_binding demo_authority = active_binding (gate_run demo_gate demo_start)"
    using admission_exclusive [OF demo_reachable admitted] by blast
qed

text \<open>
  Evidence that is not accepted changes nothing: for startup, stop acknowledgement,
  non-submission, delivery, non-delivery and settlement evidence the gate after a
  duplicate or a rejection is the gate before it.
\<close>

lemma on_current_refused:
  assumes "\<And>r. fst (f r) = r \<or> snd (f r) = EvAccepted"
  shows "fst (on_current g a f) = g \<or> snd (on_current g a f) = EvAccepted"
proof (cases "current_authority_matches g a")
  case True
  then obtain r where r: "g_current_receipt g = Some r" by (auto simp: current_authority_matches_iff)
  show ?thesis
    using assms [of r] unfolding on_current_matched [OF True r] by (auto simp: r)
qed (simp add: on_current_unmatched)

theorem refused_evidence_changes_nothing:
  "(fst (observe_startup g e1) = g \<or> snd (observe_startup g e1) = EvAccepted) \<and>
   (fst (observe_stop_acknowledgement g e2) = g \<or> snd (observe_stop_acknowledgement g e2) = EvAccepted) \<and>
   (fst (observe_non_submission g e3) = g \<or> snd (observe_non_submission g e3) = EvAccepted) \<and>
   (fst (observe_output_accepted g e4) = g \<or> snd (observe_output_accepted g e4) = EvAccepted) \<and>
   (fst (observe_output_not_delivered g e5) = g \<or> snd (observe_output_not_delivered g e5) = EvAccepted) \<and>
   (fst (observe_settlement g e6) = g \<or> snd (observe_settlement g e6) = EvAccepted)"
proof (intro conjI)
  show "fst (observe_startup g e1) = g \<or> snd (observe_startup g e1) = EvAccepted"
    by (cases rule: observe_startup_cases [of g e1]) simp_all
  show "fst (observe_stop_acknowledgement g e2) = g \<or> snd (observe_stop_acknowledgement g e2) = EvAccepted"
    unfolding observe_stop_acknowledgement_def
    by (rule on_current_refused) (use stop_acknowledgement_unchanged in blast)
  show "fst (observe_non_submission g e3) = g \<or> snd (observe_non_submission g e3) = EvAccepted"
    unfolding observe_non_submission_def by (rule on_current_refused) (use non_submission_unchanged in blast)
  show "fst (observe_output_accepted g e4) = g \<or> snd (observe_output_accepted g e4) = EvAccepted"
    unfolding observe_output_accepted_def by (rule on_current_refused) (use output_accepted_unchanged in blast)
  show "fst (observe_output_not_delivered g e5) = g \<or> snd (observe_output_not_delivered g e5) = EvAccepted"
    unfolding observe_output_not_delivered_def by (rule on_current_refused) (use not_delivered_unchanged in blast)
  show "fst (observe_settlement g e6) = g \<or> snd (observe_settlement g e6) = EvAccepted"
    unfolding observe_settlement_def by (rule on_current_refused) (use settlement_unchanged in blast)
qed

text \<open>
  A recorded delivery is timely: it was observed before the operation's deadline and
  not before the native success it delivers, and it names a result.
\<close>

theorem recorded_delivery_is_timely:
  assumes "gate_reachable g" and "g_current_receipt g = Some r" and "rc_output_evidence r = Some e"
  shows "\<not> has_reached_deadline r (er_observed_at e) \<and>
    (\<exists>s. rc_native_success_evidence r = Some s \<and> er_observed_at s \<le> er_observed_at e) \<and>
    rc_output r = OdAccepted \<and> rc_result_reference r \<noteq> []"
proof -
  have out: "output_ok r" and nat: "native_ok r"
    using receipt_okD [OF reached_receipt [OF assms(1,2)]] by simp_all
  have accepted: "rc_output r = OdAccepted" using out assms(3) unfolding output_ok_def by auto
  with out have "rc_result_reference r \<noteq> []" "rc_observed_native_success r"
    unfolding output_ok_def by blast+
  moreover from this(2) nat obtain s where s: "rc_native_success_evidence r = Some s"
    unfolding native_ok_def by blast
  moreover have "er_observed_at s \<le> er_observed_at e" "\<not> has_reached_deadline r (er_observed_at e)"
    using out s assms(3) unfolding output_ok_def by blast+
  ultimately show ?thesis using accepted by blast
qed

lemma recorded_delivery_is_timely_witness:
  "\<exists>r. g_current_receipt (gate_run demo_gate demo_delivered) = Some r \<and> rc_result_reference r \<noteq> []"
proof -
  have "(case g_current_receipt (gate_run demo_gate demo_delivered) of
      None \<Rightarrow> False | Some r \<Rightarrow> rc_output_evidence r = Some (rec ''r'' 5 9))" by code_simp
  then obtain r where r: "g_current_receipt (gate_run demo_gate demo_delivered) = Some r"
    "rc_output_evidence r = Some (rec ''r'' 5 9)" by (auto split: option.splits)
  from recorded_delivery_is_timely [OF demo_reachable r] r(1) show ?thesis by blast
qed

text \<open>
  Readiness evidence that contradicts an earlier record of the same sequence number is
  rejected, and the candidate cannot be committed at any time on that record.
\<close>

theorem conflicting_readiness_blocks_commit:
  assumes "g_candidate g = Some c" and "readiness_index g (bre_kind e) = Some i"
    and "i < length (cn_readiness c)" and "rf_evidence (cn_readiness c ! i) = Some p"
    and "g_binding_phase g = PhPreparing" and "bre_binding e = cn_binding c"
    and "is_record_well_formed (bre_record e) (readiness_source g i) (cn_prepared_at c)"
    and "er_sequence (bre_record e) = er_sequence (bre_record p)"
    and "\<not> readiness_identical e p"
  shows "snd (observe_rebind_readiness g e) = EvRejected \<and>
    \<not> can_commit (fst (observe_rebind_readiness g e)) now"
proof -
  let ?f = "conflict_readiness e p (cn_readiness c ! i)"
  have "observe_readiness_fact e (cn_readiness c ! i) = (?f, EvRejected)"
    using assms by (simp add: observe_readiness_fact_def Let_def)
  then have step: "observe_rebind_readiness g e =
      (g\<lparr>g_candidate := Some (c\<lparr>cn_readiness := (cn_readiness c)[i := ?f]\<rparr>)\<rparr>, EvRejected)"
    using assms by (simp add: observe_rebind_readiness_def)
  have "?f \<in> set ((cn_readiness c)[i := ?f])" using assms(3) by (rule set_update_memI)
  moreover have "\<not> readiness_fact_holds now ?f"
    by (simp add: readiness_fact_holds_def conflict_readiness_def)
  ultimately show ?thesis by (auto simp: step can_commit_def list_all_iff)
qed

definition demo_conflict :: BindingReadinessEvidence where
  "demo_conflict = (demo_readiness SkWorkerReady ''w'' demo_new_binding 3 34)\<lparr>bre_observed := False\<rparr>"

lemma conflicting_readiness_blocks_commit_witness:
  "\<not> can_commit (fst (observe_rebind_readiness (gate_run demo_gate demo_prepared) demo_conflict)) 36"
proof -
  let ?g = "gate_run demo_gate demo_prepared"
  have "(case g_candidate ?g of None \<Rightarrow> False | Some c \<Rightarrow>
      length (cn_readiness c) = 3 \<and> cn_binding c = demo_new_binding \<and> cn_prepared_at c = 32 \<and>
      rf_evidence (hd (tl (cn_readiness c))) = Some (demo_readiness SkWorkerReady ''w'' demo_new_binding 3 34))"
    by code_simp
  then obtain c where c: "g_candidate ?g = Some c" "length (cn_readiness c) = 3"
    "cn_binding c = demo_new_binding" "cn_prepared_at c = 32"
    "rf_evidence (hd (tl (cn_readiness c))) = Some (demo_readiness SkWorkerReady ''w'' demo_new_binding 3 34)"
    by (auto split: option.splits)
  have second: "hd (tl (cn_readiness c)) = cn_readiness c ! 1"
    using c(2) by (cases "cn_readiness c"; cases "tl (cn_readiness c)") auto
  have phase: "g_binding_phase ?g = PhPreparing" by code_simp
  have index: "readiness_index ?g (bre_kind demo_conflict) = Some 1" by code_simp
  have shape: "is_record_well_formed (bre_record demo_conflict) (readiness_source ?g 1) 32"
    "bre_binding demo_conflict = demo_new_binding"
    "er_sequence (bre_record demo_conflict) =
       er_sequence (bre_record (demo_readiness SkWorkerReady ''w'' demo_new_binding 3 34))"
    "\<not> readiness_identical demo_conflict (demo_readiness SkWorkerReady ''w'' demo_new_binding 3 34)"
    by code_simp+
  have bound: "1 < length (cn_readiness c)" by (simp add: c(2))
  from conflicting_readiness_blocks_commit [OF c(1) index bound c(5) [unfolded second] phase _ _ shape(3,4)]
    shape(1,2) c(3,4)
  show ?thesis by simp
qed

text \<open>
  An authority of a superseded binding is inert: it cannot claim, cancel, expire or
  report anything, and the gate stays as it was.
\<close>

theorem superseded_authority_is_inert:
  assumes "oa_binding a \<noteq> active_binding g"
  shows "claim_dispatch g a t = (g, False) \<and>
    request_cancel g a t = (g, control_decision CsNoActiveOperation) \<and>
    observe_time g a t = (g, control_decision CsNoActiveOperation) \<and>
    observe_native g (e1\<lparr>ne_authority := a\<rparr>) = (g, EvRejected) \<and>
    observe_output_accepted g (e2\<lparr>oe_authority := a\<rparr>) = (g, EvRejected) \<and>
    observe_output_not_delivered g (e3\<lparr>ond_authority := a\<rparr>) = (g, EvRejected) \<and>
    observe_non_submission g (e4\<lparr>nse_authority := a\<rparr>) = (g, EvRejected) \<and>
    observe_stop_acknowledgement g (e5\<lparr>sae_authority := a\<rparr>) = (g, EvRejected) \<and>
    observe_settlement g (e6\<lparr>ste_authority := a\<rparr>) = (g, EvRejected) \<and>
    \<not> can_deliver_result g a"
proof -
  have no: "\<not> current_authority_matches g a"
    using assms by (auto simp: current_authority_matches_iff)
  show ?thesis
    by (simp add: claim_dispatch_def claim_refused_def request_cancel_def observe_time_def
        observe_native_def native_inadmissible_def observe_output_accepted_def
        observe_output_not_delivered_def observe_non_submission_def observe_stop_acknowledgement_def
        observe_settlement_def on_current_unmatched can_deliver_result_def no split: option.split)
qed

lemma superseded_authority_is_inert_witness:
  "claim_dispatch (fst (commit_rebind (gate_run demo_gate demo_prepared) demo_new_binding 36))
     demo_authority 40 =
   (fst (commit_rebind (gate_run demo_gate demo_prepared) demo_new_binding 36), False)"
proof -
  have "oa_binding demo_authority \<noteq>
    active_binding (fst (commit_rebind (gate_run demo_gate demo_prepared) demo_new_binding 36))"
    by code_simp
  from superseded_authority_is_inert [OF this, of 40] show ?thesis by blast
qed

text \<open>
  A released operation is accounted for: it has settlement evidence, and evidence of
  exactly how it ended. Either it was never submitted, or the native side rejected it, or
  it failed or was cancelled with no output produced, or it succeeded and its result was
  delivered, refused by the sink, or withheld because the authority was revoked.
\<close>

theorem released_work_is_accounted:
  assumes "gate_reachable g" and "g_current_receipt g = Some r"
    and "rc_authority_disposition r = AuReleased"
  shows "rc_settlement_evidence r \<noteq> None \<and>
    (no_output_produced r \<and> rc_output_non_delivery_evidence r \<noteq> None \<and>
       (rc_non_submission_evidence r \<noteq> None \<or> rc_native_rejection_evidence r \<noteq> None \<or>
        (rc_native_failure_evidence r \<noteq> None \<and> rc_native_outcome r = NoFailed) \<or>
        (rc_native_cancellation_evidence r \<noteq> None \<and> rc_native_outcome r = NoCancelled)) \<or>
     rc_native_success_evidence r \<noteq> None \<and> rc_native_outcome r = NoSucceeded \<and>
       (rc_output_evidence r \<noteq> None \<or>
        rc_output_non_delivery_evidence r \<noteq> None \<and>
          (rc_output_non_delivery_reason r = Some NdSinkRejected \<or>
           rc_output_non_delivery_reason r = Some NdAuthorityRevoked \<and> is_revoked r)))"
proof -
  note parts = receipt_okD [OF reached_receipt [OF assms(1,2)]]
  have "disposition_of r = AuReleased" using parts(5) assms(3) by (simp add: control_ok_def)
  then have closure: "has_resolved_closure r" by (simp add: disposition_of_def split: if_split_asm)
  then have effects: "has_resolved_effects r" and settled: "rc_settlement r = StSettled"
    by (simp_all add: has_resolved_closure_def)
  have evidence: "rc_settlement_evidence r \<noteq> None" using parts(4) settled unfolding settlement_ok_def by simp
  have failed: "rc_native_failure_evidence r \<noteq> None" if "rc_native_outcome r = NoFailed"
    using parts(2) that by (auto simp: native_ok_def expected_outcome_def split: if_splits)
  have cancelled: "rc_native_cancellation_evidence r \<noteq> None" if "rc_native_outcome r = NoCancelled"
    using parts(2) that by (auto simp: native_ok_def expected_outcome_def split: if_splits)
  have succeeded: "rc_native_success_evidence r \<noteq> None" if "rc_native_outcome r = NoSucceeded"
    using parts(2) that by (auto simp: native_ok_def expected_outcome_def split: if_splits)
  have unsubmitted: "rc_non_submission_evidence r \<noteq> None" if "rc_dispatch r = DsNotSubmitted"
    using parts(1) that by (simp add: dispatch_ok_def)
  have rejected: "rc_native_rejection_evidence r \<noteq> None" if "rc_native_acceptance r = NaRejected"
    using parts(2) that by (simp add: native_ok_def)
  have undelivered: "rc_output_non_delivery_evidence r \<noteq> None" if "rc_output r = OdNotDelivered"
    using parts(3) that unfolding output_ok_def by blast
  have delivered: "rc_output_evidence r \<noteq> None" if "rc_output r = OdAccepted"
    using parts(3) that unfolding output_ok_def by blast
  have revoked: "is_revoked r" if "rc_output_non_delivery_reason r = Some NdAuthorityRevoked"
    using parts(3) that unfolding output_ok_def by blast
  have "no_output_produced r \<Longrightarrow> rc_output_non_delivery_evidence r \<noteq> None"
    by (rule undelivered) (simp add: no_output_produced_def)
  with effects evidence failed cancelled succeeded unsubmitted rejected undelivered delivered revoked
  show ?thesis unfolding has_resolved_effects_def by (auto split: if_split_asm)
qed

lemma released_work_is_accounted_witness:
  "\<exists>r. g_current_receipt (gate_run demo_gate demo_life) = Some r \<and> rc_settlement_evidence r \<noteq> None"
proof -
  have "(case g_current_receipt (gate_run demo_gate demo_life) of
      None \<Rightarrow> False | Some r \<Rightarrow> rc_authority_disposition r = AuReleased)" by code_simp
  then obtain r where r: "g_current_receipt (gate_run demo_gate demo_life) = Some r"
    "rc_authority_disposition r = AuReleased" by (auto split: option.splits)
  from released_work_is_accounted [OF demo_reachable r] r(1) show ?thesis by blast
qed

text \<open>
  Every optional that the gate dereferences without a test is engaged there: the
  withdrawal time in \<open>begin_rebind\<close>, the dispatch time and the last native kind in
  \<open>observe_native\<close>, and the readiness evidence that \<open>commit_rebind\<close> installs.
\<close>

theorem dereferences_are_engaged:
  assumes "gate_reachable g"
  shows "(g_binding_phase g = PhWithdrawn \<longrightarrow> g_withdrawn_at g \<noteq> None) \<and>
    (\<forall>r. g_current_receipt g = Some r \<and> rc_dispatch r = DsSubmitted \<longrightarrow> rc_dispatched_at r \<noteq> None) \<and>
    (g_last_native_record g \<noteq> None \<longrightarrow> g_last_native_kind g \<noteq> None) \<and>
    (\<forall>c now i. g_candidate g = Some c \<and> can_commit g now \<and> i < 3 \<longrightarrow>
       i < length (cn_readiness c) \<and> rf_evidence (cn_readiness c ! i) \<noteq> None)"
proof -
  note ok = gate_reachable_ok [OF assms]
  note parts = gate_okD [OF ok]
  have "rf_evidence (cn_readiness c ! i) \<noteq> None \<and> i < length (cn_readiness c)"
    if c: "g_candidate g = Some c" and commit: "can_commit g now" and i: "i < 3" for c now i
  proof -
    have "length (cn_readiness c) = 3"
      using parts(2) c unfolding binding_ok_def candidate_ok_def by blast
    moreover have "list_all (readiness_fact_holds now) (cn_readiness c)"
      using commit c by (auto simp: can_commit_iff)
    ultimately show ?thesis
      using i by (auto simp: list_all_length readiness_fact_holds_def split: option.splits)
  qed
  moreover have "\<forall>r. g_current_receipt g = Some r \<and> rc_dispatch r = DsSubmitted \<longrightarrow> rc_dispatched_at r \<noteq> None"
    using receipt_okD(1) [OF reached_receipt [OF assms]] unfolding dispatch_ok_def by blast
  moreover have "g_binding_phase g = PhWithdrawn \<longrightarrow> g_withdrawn_at g \<noteq> None"
    using parts(1) unfolding phases_ok_def by blast
  moreover have "g_last_native_record g \<noteq> None \<longrightarrow> g_last_native_kind g \<noteq> None"
    using parts(3) unfolding work_ok_def by simp
  ultimately show ?thesis by blast
qed

lemma dereferences_are_engaged_witness:
  "g_withdrawn_at (gate_run demo_gate (demo_start @ [CallWithdraw demo_binding 30])) \<noteq> None"
proof -
  have "g_binding_phase (gate_run demo_gate (demo_start @ [CallWithdraw demo_binding 30])) = PhWithdrawn"
    by code_simp
  with dereferences_are_engaged [OF demo_reachable, of "demo_start @ [CallWithdraw demo_binding 30]"]
  show ?thesis by blast
qed

end
