(* ===== verification/Compute_Protocol.thy ===== *)
theory Compute_Protocol
  imports Prelude
begin

text \<open>
  \<open>src/compute/compute_protocol.hpp\<close>: the frame that the compute worker writes to its
  event pipe and the host process reads from it. The two ends are the same build on one
  machine and exchange the struct's memory image; its 32 bytes are written out here in
  little-endian order (magic at 0, version at 4, kind at 6, the three counters at 8, 16
  and 24, no padding), with their inverse. The operating system calls of the compute code
  follow, which worker, process and recovery share.
\<close>

unbundle bit_operations_syntax

subsection \<open>Integers as bytes\<close>

primrec le_bytes :: "nat \<Rightarrow> 'a::len word \<Rightarrow> u8 list" where
  "le_bytes 0 w = []"
| "le_bytes (Suc n) w = ucast w # le_bytes n (drop_bit 8 w)"

primrec le_word :: "u8 list \<Rightarrow> 'a::len word" where
  "le_word [] = 0"
| "le_word (b # bs) = ucast b OR push_bit 8 (le_word bs)"

lemma length_le_bytes [simp]: "length (le_bytes n w) = n"
  by (induction n arbitrary: w) simp_all

lemma le_word_bytes_take: "le_word (le_bytes n w) = take_bit (8 * n) w"
proof (induction n arbitrary: w)
  case 0
  then show ?case by simp
next
  case (Suc n)
  show ?case
    unfolding le_bytes.simps le_word.simps Suc
  proof (rule bit_word_eqI)
    fix i
    assume i: "i < LENGTH('a)"
    show "bit (ucast (ucast w :: u8) OR push_bit 8 (take_bit (8 * n) (drop_bit 8 w)) :: 'a word) i
        = bit (take_bit (8 * Suc n) w) i"
      using i
      by (cases "i < 8")
        (auto simp: bit_or_iff bit_unsigned_iff bit_push_bit_iff bit_take_bit_iff bit_drop_bit_eq
          dest: bit_imp_le_length)
  qed
qed

lemma le_word_bytes:
  "LENGTH('a) = 8 * n \<Longrightarrow> le_word (le_bytes n w) = (w :: 'a::len word)"
  by (simp add: le_word_bytes_take take_bit_word_eq_self)

lemma le_bytes_word:
  assumes "LENGTH('a) = 8 * n" and "length bs = n"
  shows "le_bytes n (le_word bs :: 'a::len word) = bs"
proof -
  have "le_bytes (length bs) (le_word bs :: 'a word) = bs" if "8 * length bs \<le> LENGTH('a)"
    using that
  proof (induction bs)
    case Nil
    then show ?case by simp
  next
    case (Cons b bs)
    have low: "ucast (ucast b OR push_bit 8 (le_word bs) :: 'a word) = b"
      by (rule bit_word_eqI)
        (use Cons.prems in \<open>auto simp: bit_or_iff bit_unsigned_iff bit_push_bit_iff dest: bit_imp_le_length\<close>)
    have "8 * length bs + 8 \<le> LENGTH('a)" using Cons.prems by simp
    then have small: "take_bit (8 * length bs) (le_word bs :: 'a word) = le_word bs"
    proof (induction bs)
      case Nil
      then show ?case by simp
    next
      case (Cons c cs)
      have "take_bit (8 * length (c # cs)) (ucast c OR push_bit 8 (le_word cs) :: 'a word)
          = ucast c OR push_bit 8 (take_bit (8 * length cs) (le_word cs))"
        by (rule bit_word_eqI)
          (auto simp: bit_or_iff bit_unsigned_iff bit_push_bit_iff bit_take_bit_iff
            dest: bit_imp_le_length)
      with Cons show ?case by simp
    qed
    have high: "drop_bit 8 (ucast b OR push_bit 8 (le_word bs) :: 'a word) = le_word bs"
    proof (rule bit_word_eqI)
      fix i
      assume i: "i < LENGTH('a)"
      have "bit (le_word bs :: 'a word) i \<Longrightarrow> i < 8 * length bs"
        using small by (metis bit_take_bit_iff)
      then show "bit (drop_bit 8 (ucast b OR push_bit 8 (le_word bs) :: 'a word)) i
          = bit (le_word bs :: 'a word) i"
        using i Cons.prems
        by (auto simp: bit_drop_bit_eq bit_or_iff bit_unsigned_iff bit_push_bit_iff
            dest: bit_imp_le_length)
    qed
    have "le_bytes (length bs) (le_word bs :: 'a word) = bs" using Cons by simp
    then show ?case by (simp only: le_word.simps le_bytes.simps list.size low high add_0_right add_Suc_right One_nat_def)
  qed
  with assms show ?thesis by simp
qed

subsection \<open>Constants and frames\<close>

definition kControlDescriptor :: int where "kControlDescriptor = 3"
definition kEventDescriptor :: int where "kEventDescriptor = 4"
definition kFrameMagic :: u32 where "kFrameMagic = 0x52484350"
definition kFrameVersion :: u16 where "kFrameVersion = 1"
definition kMaximumIterations :: u64 where "kMaximumIterations = 100000000"
definition kBatchIterations :: u64 where "kBatchIterations = 4096"
definition kCancelledExitCode :: int where "kCancelledExitCode = 20"
definition kFailureExitCode :: int where "kFailureExitCode = 21"
definition kStopCommand :: u8 where "kStopCommand = 0x53"

datatype FrameKind = FkReady | FkProgress | FkStopAcknowledged | FkStopIgnored | FkCompleted | FkCancelled

text \<open>
  The enum has a fixed underlying type, so a frame read from the pipe can hold any 16-bit
  value in its kind. A frame therefore stores the code.
\<close>

fun kind_code :: "FrameKind \<Rightarrow> u16" where
  "kind_code FkReady = 1"
| "kind_code FkProgress = 2"
| "kind_code FkStopAcknowledged = 3"
| "kind_code FkStopIgnored = 4"
| "kind_code FkCompleted = 5"
| "kind_code FkCancelled = 6"

text \<open>The switch of \<open>is_known_kind\<close>, and the enumerator that a known code stands for.\<close>

definition kind_of :: "u16 \<Rightarrow> FrameKind option" where
  "kind_of c =
    (if c = 1 then Some FkReady else if c = 2 then Some FkProgress
     else if c = 3 then Some FkStopAcknowledged else if c = 4 then Some FkStopIgnored
     else if c = 5 then Some FkCompleted else if c = 6 then Some FkCancelled else None)"

lemma kind_of_code [simp]: "kind_of (kind_code k) = Some k"
  by (cases k) (simp_all add: kind_of_def)

lemma kind_of_numeral [simp]:
  "kind_of 1 = Some FkReady" "kind_of 2 = Some FkProgress" "kind_of 3 = Some FkStopAcknowledged"
  "kind_of 4 = Some FkStopIgnored" "kind_of 5 = Some FkCompleted" "kind_of 6 = Some FkCancelled"
  by (simp_all add: kind_of_def)

lemma kind_of_Some: "kind_of c = Some k \<longleftrightarrow> c = kind_code k"
  by (cases k) (auto simp: kind_of_def split: if_splits)

record frame =
  fr_magic :: u32
  fr_version :: u16
  fr_kind :: u16
  fr_iterations :: u64
  fr_value :: u64
  fr_dropped_progress :: u64

definition make_frame :: "FrameKind \<Rightarrow> u64 \<Rightarrow> u64 \<Rightarrow> u64 \<Rightarrow> frame" where
  "make_frame kind iterations val dropped =
    \<lparr>fr_magic = kFrameMagic, fr_version = kFrameVersion, fr_kind = kind_code kind,
     fr_iterations = iterations, fr_value = val, fr_dropped_progress = dropped\<rparr>"

lemma make_frame_fields [simp]:
  "fr_magic (make_frame k i s d) = kFrameMagic" "fr_version (make_frame k i s d) = kFrameVersion"
  "fr_kind (make_frame k i s d) = kind_code k" "fr_iterations (make_frame k i s d) = i"
  "fr_value (make_frame k i s d) = s" "fr_dropped_progress (make_frame k i s d) = d"
  by (simp_all add: make_frame_def)

abbreviation frame_size :: nat where "frame_size \<equiv> 32"

definition encode_frame :: "frame \<Rightarrow> u8 list" where
  "encode_frame f =
     le_bytes 4 (fr_magic f) @ le_bytes 2 (fr_version f) @ le_bytes 2 (fr_kind f) @
     le_bytes 8 (fr_iterations f) @ le_bytes 8 (fr_value f) @ le_bytes 8 (fr_dropped_progress f)"

definition decode_frame :: "u8 list \<Rightarrow> frame" where
  "decode_frame bs =
    \<lparr>fr_magic = le_word (take 4 bs), fr_version = le_word (take 2 (drop 4 bs)),
     fr_kind = le_word (take 2 (drop 6 bs)), fr_iterations = le_word (take 8 (drop 8 bs)),
     fr_value = le_word (take 8 (drop 16 bs)), fr_dropped_progress = le_word (take 8 (drop 24 bs))\<rparr>"

lemma length_encode_frame [simp]: "length (encode_frame f) = frame_size"
  by (simp add: encode_frame_def)

lemma decode_encode: "decode_frame (encode_frame f) = f"
  by (simp add: decode_frame_def encode_frame_def le_word_bytes)

lemma encode_decode:
  assumes "length bs = frame_size"
  shows "encode_frame (decode_frame bs) = bs"
proof -
  have join: "take n (drop k bs) @ drop m bs = drop k bs" if "m = n + k" for k n m
    using that by (metis append_take_drop_id drop_drop)
  have joins: "take 8 (drop 16 bs) @ drop 24 bs = drop 16 bs" "take 8 (drop 8 bs) @ drop 16 bs = drop 8 bs"
    "take 2 (drop 6 bs) @ drop 8 bs = drop 6 bs" "take 2 (drop 4 bs) @ drop 6 bs = drop 4 bs"
    "take 4 bs @ drop 4 bs = bs"
    by (rule join, simp)+ (rule append_take_drop_id)
  have last: "take 8 (drop 24 bs) = drop 24 bs" using assms by simp
  have parts: "take 4 bs @ take 2 (drop 4 bs) @ take 2 (drop 6 bs) @ take 8 (drop 8 bs) @
      take 8 (drop 16 bs) @ take 8 (drop 24 bs) = bs"
    unfolding last joins by (rule refl)
  show ?thesis
    using assms by (simp add: encode_frame_def decode_frame_def le_bytes_word parts [unfolded last])
qed

subsection \<open>The operating system\<close>

text \<open>
  The operating system calls that the compute code makes, as parameters: a record of
  functions that thread an abstract world \<open>'w\<close>. A call that fails returns \<open>Inl errno\<close>.
  Which calls are made, in what order and with what arguments is the program's and is
  modelled; what they answer is not. The \<open>errno\<close> values are Linux's; \<open>EWOULDBLOCK\<close> is
  \<open>EAGAIN\<close> there.
\<close>

definition EINTR :: int where "EINTR = 4"
definition EIO :: int where "EIO = 5"
definition ENOENT :: int where "ENOENT = 2"
definition ECHILD :: int where "ECHILD = 10"
definition EAGAIN :: int where "EAGAIN = 11"
definition EACCES :: int where "EACCES = 13"
definition EBUSY :: int where "EBUSY = 16"
definition ESRCH :: int where "ESRCH = 3"
definition EINVAL :: int where "EINVAL = 22"
definition EMFILE :: int where "EMFILE = 24"
definition O_NONBLOCK :: int where "O_NONBLOCK = 2048"

lemmas errno_defs =
  EINTR_def EIO_def ESRCH_def ENOENT_def ECHILD_def EAGAIN_def EACCES_def EBUSY_def EINVAL_def EMFILE_def

text \<open>"\<open>errno == 0 ? fallback : errno\<close>".\<close>

definition errno_or :: "int \<Rightarrow> int \<Rightarrow> int" where
  "errno_or fallback e = (if e = 0 then fallback else e)"

lemma errno_or_nonzero: "fallback \<noteq> 0 \<Longrightarrow> errno_or fallback e \<noteq> 0"
  by (simp add: errno_or_def)

text \<open>The macros of \<open>sys/wait.h\<close> on a wait status.\<close>

definition WIFEXITED :: "int \<Rightarrow> bool" where "WIFEXITED status \<longleftrightarrow> status AND 0x7f = 0"
definition WEXITSTATUS :: "int \<Rightarrow> int" where "WEXITSTATUS status = drop_bit 8 (status AND 0xff00)"
definition WTERMSIG :: "int \<Rightarrow> int" where "WTERMSIG status = status AND 0x7f"
definition WIFSIGNALED :: "int \<Rightarrow> bool" where "WIFSIGNALED status \<longleftrightarrow> status AND 0x7f \<noteq> 0 \<and> status AND 0x7f \<noteq> 0x7f"

record 'w os =
  os_stat :: "string \<Rightarrow> 'w \<Rightarrow> (int + bool) \<times> 'w"  \<comment> \<open>whether the file is regular\<close>
  os_access_x :: "string \<Rightarrow> 'w \<Rightarrow> (int + unit) \<times> 'w"
  os_sigchld :: "'w \<Rightarrow> (int + bool \<times> bool) \<times> 'w"  \<comment> \<open>default handler, no-wait flag\<close>
  os_socketpair :: "'w \<Rightarrow> (int + int \<times> int) \<times> 'w"
  os_pipe :: "'w \<Rightarrow> (int + int \<times> int) \<times> 'w"
  os_dupfd :: "int \<Rightarrow> int \<Rightarrow> 'w \<Rightarrow> (int + int) \<times> 'w"
  os_getfl :: "int \<Rightarrow> 'w \<Rightarrow> (int + int) \<times> 'w"
  os_setfl :: "int \<Rightarrow> int \<Rightarrow> 'w \<Rightarrow> (int + unit) \<times> 'w"
  os_close :: "int \<Rightarrow> 'w \<Rightarrow> (int + unit) \<times> 'w"
  os_actions_init :: "'w \<Rightarrow> int \<times> 'w"
  os_adddup2 :: "int \<Rightarrow> int \<Rightarrow> 'w \<Rightarrow> int \<times> 'w"
  os_spawn :: "string \<Rightarrow> string list \<Rightarrow> (int \<times> int) list \<Rightarrow> 'w \<Rightarrow> (int \<times> int) \<times> 'w"
  os_send :: "int \<Rightarrow> u8 list \<Rightarrow> 'w \<Rightarrow> (int + nat) \<times> 'w"
  os_read :: "int \<Rightarrow> nat \<Rightarrow> 'w \<Rightarrow> (int + u8 list) \<times> 'w"
  os_waitpid :: "int \<Rightarrow> 'w \<Rightarrow> (int + int \<times> int) \<times> 'w"  \<comment> \<open>with WNOHANG: pid and status\<close>
  os_wait :: "int \<Rightarrow> 'w \<Rightarrow> (int + int \<times> int) \<times> 'w"  \<comment> \<open>blocking waitpid\<close>
  os_kill :: "int \<Rightarrow> 'w \<Rightarrow> (int + unit) \<times> 'w"  \<comment> \<open>with SIGKILL\<close>

text \<open>POSIX \<open>read\<close> returns at most the bytes asked for.\<close>

definition reads_bounded :: "('w, 'x) os_scheme \<Rightarrow> bool" where
  "reads_bounded os \<longleftrightarrow>
     (\<forall>fd n w. case os_read os fd n w of (Inr bs, w') \<Rightarrow> length bs \<le> n | _ \<Rightarrow> True)"

lemma reads_boundedD: "reads_bounded os \<Longrightarrow> os_read os fd n w = (Inr bs, w') \<Longrightarrow> length bs \<le> n"
  unfolding reads_bounded_def by (metis (no_types, lifting) case_prod_conv sum.case(2))

end
