(* ===== verification/Compute_Process.thy ===== *)
theory Compute_Process
  imports Compute_Protocol
begin

text \<open>
  \<open>ComputeProcess::Impl\<close> of \<open>src/compute/compute_process.cpp\<close>: the host's side of one
  worker child. It spawns the worker with a control socket and an event pipe, reads and
  checks the worker's frames, asks it to stop, escalates to one \<open>SIGKILL\<close>, reaps it and
  closes the channels. The state is the class's members; every operation threads it and
  the world of the operating system.
\<close>

definition kMinimumPrivateDescriptor :: int where "kMinimumPrivateDescriptor = 10"
definition kMaximumFramesPerPoll :: nat where "kMaximumFramesPerPoll = 128"

datatype Terminal = TmNone | TmCompleted | TmCancelled

record ProcessObservation =
  po_launched :: bool
  po_started :: bool
  po_malformed :: bool
  po_event_eof :: bool
  po_channels_closed :: bool
  po_stop_requested :: bool
  po_stop_delivered :: bool
  po_stop_acknowledged :: bool
  po_stop_ignored :: bool
  po_termination_requested :: bool
  po_ownership_lost :: bool
  po_launch_error :: int
  po_io_error :: int
  po_stop_error :: int
  po_termination_error :: int
  po_child_pid :: int
  po_exit_status :: "int option"
  po_progress :: u64
  po_dropped_progress :: u64
  po_terminal :: Terminal
  po_terminal_iterations :: u64
  po_terminal_value :: u64
  po_stop_requested_at :: "u64 option"

text \<open>The process is its observation together with the private members.\<close>

record process = ProcessObservation +
  pr_executable :: string
  pr_iterations :: u64
  pr_stop_grace_ms :: u64
  pr_owned_pid :: int
  pr_control_descriptor :: int
  pr_event_descriptor :: int
  pr_buffer :: "u8 list"  \<comment> \<open>the first \<open>buffered_frame_bytes_\<close> bytes of \<open>frame_buffer_\<close>\<close>
  pr_last_iterations :: u64
  pr_termination_pending :: bool
  pr_termination_attempted :: bool
  pr_channel_cleanup_unknown :: bool

definition make_process :: "string \<Rightarrow> u64 \<Rightarrow> u64 \<Rightarrow> process" where
  "make_process executable iterations stop_grace_ms =
    \<lparr>po_launched = False, po_started = False, po_malformed = False, po_event_eof = False,
     po_channels_closed = False, po_stop_requested = False, po_stop_delivered = False,
     po_stop_acknowledged = False, po_stop_ignored = False, po_termination_requested = False,
     po_ownership_lost = False, po_launch_error = 0, po_io_error = 0, po_stop_error = 0,
     po_termination_error = 0, po_child_pid = - 1, po_exit_status = None, po_progress = 0,
     po_dropped_progress = 0, po_terminal = TmNone, po_terminal_iterations = 0,
     po_terminal_value = 0, po_stop_requested_at = None,
     pr_executable = executable, pr_iterations = iterations, pr_stop_grace_ms = stop_grace_ms,
     pr_owned_pid = - 1, pr_control_descriptor = - 1, pr_event_descriptor = - 1, pr_buffer = [],
     pr_last_iterations = 0, pr_termination_pending = False, pr_termination_attempted = False,
     pr_channel_cleanup_unknown = False\<rparr>"

definition observation :: "process \<Rightarrow> ProcessObservation" where
  "observation p = ProcessObservation.truncate p"

subsection \<open>Launching\<close>

definition executable_error :: "'w os \<Rightarrow> string \<Rightarrow> 'w \<Rightarrow> int \<times> 'w" where
  "executable_error os executable w =
    (if executable = [] \<or> hd executable \<noteq> CHR ''/'' then (EINVAL, w)
     else case os_stat os executable w of
       (Inl e, w) \<Rightarrow> (errno_or ENOENT e, w)
     | (Inr is_regular, w) \<Rightarrow>
         if \<not> is_regular then (EACCES, w)
         else case os_access_x os executable w of
           (Inl e, w) \<Rightarrow> (errno_or EACCES e, w)
         | (Inr _, w) \<Rightarrow>
             (case os_sigchld os w of
                (Inl e, w) \<Rightarrow> (errno_or EINVAL e, w)
              | (Inr (is_default, no_wait), w) \<Rightarrow>
                  (if \<not> is_default \<or> no_wait then EBUSY else 0, w)))"

definition can_launch :: "'w os \<Rightarrow> string \<Rightarrow> 'w \<Rightarrow> bool \<times> 'w" where
  "can_launch os executable w = apfst (\<lambda>e. e = 0) (executable_error os executable w)"

text \<open>
  \<open>Descriptor::reset\<close>, also its destructor: the first failure to close is reported in
  \<open>io_error\<close> and every failure sets \<open>channel_cleanup_unknown_\<close>.
\<close>

definition reset_descriptor :: "'w os \<Rightarrow> int \<Rightarrow> process \<times> 'w \<Rightarrow> process \<times> 'w" where
  "reset_descriptor os fd pw =
    (case pw of (p, w) \<Rightarrow>
       if fd < 0 then (p, w)
       else case os_close os fd w of
         (Inr _, w) \<Rightarrow> (p, w)
       | (Inl e, w) \<Rightarrow>
           (p\<lparr>po_io_error := (if po_io_error p = 0 then errno_or EIO e else po_io_error p),
              pr_channel_cleanup_unknown := True\<rparr>, w))"

definition set_nonblocking :: "'w os \<Rightarrow> int \<Rightarrow> 'w \<Rightarrow> (int + unit) \<times> 'w" where
  "set_nonblocking os fd w =
    (case os_getfl os fd w of
       (Inl e, w) \<Rightarrow> (Inl (errno_or EIO e), w)
     | (Inr flags, w) \<Rightarrow>
         (case os_setfl os fd (flags OR O_NONBLOCK) w of
            (Inl e, w) \<Rightarrow> (Inl (errno_or EIO e), w)
          | (Inr u, w) \<Rightarrow> (Inr u, w)))"

text \<open>
  On the early returns the locals that own descriptors are destroyed, the later declared
  one first; \<open>Inl\<close> is a false return with \<open>*error\<close>.
\<close>

definition duplicate_pair ::
  "'w os \<Rightarrow> int \<times> int \<Rightarrow> process \<times> 'w \<Rightarrow> (int + int \<times> int) \<times> process \<times> 'w" where
  "duplicate_pair os originals pw =
    (case pw of (p, w) \<Rightarrow>
     case os_dupfd os (fst originals) kMinimumPrivateDescriptor w of
       (Inl e, w) \<Rightarrow> (Inl (errno_or EMFILE e), p, w)
     | (Inr first, w) \<Rightarrow>
         (case os_dupfd os (snd originals) kMinimumPrivateDescriptor w of
            (Inl e, w) \<Rightarrow> (Inl (errno_or EMFILE e), reset_descriptor os first (p, w))
          | (Inr second, w) \<Rightarrow>
              (case set_nonblocking os first w of
                 (Inl e, w) \<Rightarrow>
                   (Inl e, reset_descriptor os first (reset_descriptor os second (p, w)))
               | (Inr _, w) \<Rightarrow>
                   (case set_nonblocking os second w of
                      (Inl e, w) \<Rightarrow>
                        (Inl e, reset_descriptor os first (reset_descriptor os second (p, w)))
                    | (Inr _, w) \<Rightarrow> (Inr (first, second), p, w)))))"

text \<open>
  \<open>make_control_pair\<close> and \<open>make_event_pipe\<close> differ in the call that makes the originals
  (and in a socket option that only macOS sets).
\<close>

definition make_pair ::
  "'w os \<Rightarrow> ('w \<Rightarrow> (int + int \<times> int) \<times> 'w) \<Rightarrow> process \<times> 'w \<Rightarrow> (int + int \<times> int) \<times> process \<times> 'w"
where
  "make_pair os create pw =
    (case pw of (p, w) \<Rightarrow>
     case create w of
       (Inl e, w) \<Rightarrow> (Inl (errno_or EMFILE e), p, w)
     | (Inr originals, w) \<Rightarrow>
         (case duplicate_pair os originals (p, w) of
            (made, pw) \<Rightarrow>
              (made, reset_descriptor os (fst originals)
                       (reset_descriptor os (snd originals) pw))))"

definition make_control_pair :: "'w os \<Rightarrow> process \<times> 'w \<Rightarrow> (int + int \<times> int) \<times> process \<times> 'w" where
  "make_control_pair os = make_pair os (os_socketpair os)"

definition make_event_pipe :: "'w os \<Rightarrow> process \<times> 'w \<Rightarrow> (int + int \<times> int) \<times> process \<times> 'w" where
  "make_event_pipe os = make_pair os (os_pipe os)"

definition fail_launch :: "int \<Rightarrow> process \<times> 'w \<Rightarrow> process \<times> 'w" where
  "fail_launch e pw = (case pw of (p, w) \<Rightarrow> (p\<lparr>po_launch_error := e\<rparr>, w))"

definition reset_pair :: "'w os \<Rightarrow> int \<times> int \<Rightarrow> process \<times> 'w \<Rightarrow> process \<times> 'w" where
  "reset_pair os pair pw = reset_descriptor os (fst pair) (reset_descriptor os (snd pair) pw)"

definition record_launch :: "int \<Rightarrow> int \<Rightarrow> int \<Rightarrow> process \<Rightarrow> process" where
  "record_launch child control event p =
     p\<lparr>pr_owned_pid := child, pr_control_descriptor := control, pr_event_descriptor := event,
       po_launched := True, po_child_pid := child, po_launch_error := 0\<rparr>"

text \<open>
  The spawn: \<open>Inl\<close> is the error that the source stores in \<open>launch_error\<close>. The
  \<open>to_chars\<close> conversion of a positive count of at most nine digits always fits.
\<close>

definition spawn_worker :: "'w os \<Rightarrow> process \<Rightarrow> int \<Rightarrow> int \<Rightarrow> 'w \<Rightarrow> (int + int) \<times> 'w" where
  "spawn_worker os p control_child event_child w =
    (case os_actions_init os w of
       (error, w) \<Rightarrow>
         if error \<noteq> 0 then (Inl error, w)
         else case os_adddup2 os control_child kControlDescriptor w of
           (error, w) \<Rightarrow>
             (case (if error = 0 then os_adddup2 os event_child kEventDescriptor w else (error, w)) of
                (error, w) \<Rightarrow>
                  (case (if error = 0
                         then os_spawn os (pr_executable p)
                                [pr_executable p, ''--iterations'', u64_to_string (pr_iterations p)]
                                [(control_child, kControlDescriptor), (event_child, kEventDescriptor)] w
                         else ((error, - 1), w)) of
                     ((error, child), w) \<Rightarrow>
                       (if error \<noteq> 0 \<or> child \<le> 0
                        then Inl (if error \<noteq> 0 then error else ECHILD) else Inr child, w))))"

definition open_channels ::
  "'w os \<Rightarrow> process \<times> 'w \<Rightarrow> (int + (int \<times> int) \<times> (int \<times> int)) \<times> process \<times> 'w" where
  "open_channels os pw =
    (case make_control_pair os pw of
       (Inl e, p, w) \<Rightarrow> (Inl e, p, w)
     | (Inr control, p, w) \<Rightarrow>
         (case make_event_pipe os (p, w) of
            (Inl e, p, w) \<Rightarrow> (Inl e, reset_pair os control (p, w))
          | (Inr events, p, w) \<Rightarrow>
              if pr_channel_cleanup_unknown p
              then (Inl (po_io_error p),
                    reset_pair os control (reset_pair os events (p, w)))
              else (Inr (control, events), p, w)))"

definition launch :: "'w os \<Rightarrow> process \<times> 'w \<Rightarrow> bool \<times> process \<times> 'w" where
  "launch os pw =
    (case pw of (p, w) \<Rightarrow>
     if po_launched p then (True, p, w)
     else if po_stop_requested p then (False, fail_launch EINVAL (p, w))
     else if pr_iterations p = 0 \<or> pr_iterations p > kMaximumIterations
     then (False, fail_launch EINVAL (p, w))
     else case executable_error os (pr_executable p) w of
       (e, w) \<Rightarrow>
         let p = p\<lparr>po_launch_error := e\<rparr>
         in if e \<noteq> 0 then (False, p, w)
            else case open_channels os (p, w) of
              (Inl e, p, w) \<Rightarrow> (False, p\<lparr>po_launch_error := e\<rparr>, w)
            | (Inr (control, events), p, w) \<Rightarrow>
                (case spawn_worker os p (fst control) (snd events) w of
                   (Inl e, w) \<Rightarrow>
                     (False, reset_pair os control (reset_pair os events (fail_launch e (p, w))))
                 | (Inr child, w) \<Rightarrow>
                     (True, reset_descriptor os (fst control)
                        (reset_descriptor os (snd events)
                          (record_launch child (snd control) (fst events) p, w)))))"

subsection \<open>Frames\<close>

definition malformed_frame :: "process \<Rightarrow> frame \<Rightarrow> bool" where
  "malformed_frame p f \<longleftrightarrow>
     fr_magic f \<noteq> kFrameMagic \<or> fr_version f \<noteq> kFrameVersion \<or> kind_of (fr_kind f) = None \<or>
     fr_iterations f > pr_iterations p \<or> fr_iterations f < pr_last_iterations p \<or>
     fr_dropped_progress f > pr_iterations p \<or>
     fr_dropped_progress f < po_dropped_progress p \<or> po_terminal p \<noteq> TmNone"

text \<open>The guard of each case of \<open>consume\<close>'s switch, under which it marks the frame malformed.\<close>

fun misplaced :: "FrameKind \<Rightarrow> process \<Rightarrow> frame \<Rightarrow> bool" where
  "misplaced FkReady p f \<longleftrightarrow>
     po_started p \<or> fr_iterations f \<noteq> 0 \<or> fr_value f \<noteq> 0 \<or> fr_dropped_progress f \<noteq> 0"
| "misplaced FkProgress p f \<longleftrightarrow>
     \<not> po_started p \<or> po_stop_acknowledged p \<or> fr_iterations f \<le> pr_last_iterations p"
| "misplaced FkStopAcknowledged p f \<longleftrightarrow>
     \<not> po_started p \<or> \<not> po_stop_requested p \<or> po_stop_acknowledged p \<or> po_stop_ignored p \<or>
     fr_iterations f < po_progress p"
| "misplaced FkStopIgnored p f \<longleftrightarrow>
     \<not> po_started p \<or> \<not> po_stop_requested p \<or> po_stop_acknowledged p \<or> po_stop_ignored p \<or>
     fr_iterations f < po_progress p"
| "misplaced FkCompleted p f \<longleftrightarrow>
     \<not> po_started p \<or> po_stop_acknowledged p \<or> fr_iterations f \<noteq> pr_iterations p \<or>
     fr_iterations f < po_progress p"
| "misplaced FkCancelled p f \<longleftrightarrow>
     \<not> po_started p \<or> \<not> po_stop_requested p \<or> \<not> po_stop_acknowledged p \<or>
     fr_iterations f < po_progress p"

fun apply_frame :: "FrameKind \<Rightarrow> frame \<Rightarrow> process \<Rightarrow> process" where
  "apply_frame FkReady f p = p\<lparr>po_started := True\<rparr>"
| "apply_frame FkProgress f p = p\<lparr>po_progress := fr_iterations f\<rparr>"
| "apply_frame FkStopAcknowledged f p = p\<lparr>po_stop_acknowledged := True\<rparr>"
| "apply_frame FkStopIgnored f p = p\<lparr>po_stop_ignored := True\<rparr>"
| "apply_frame FkCompleted f p =
     p\<lparr>po_terminal := TmCompleted, po_terminal_iterations := fr_iterations f,
       po_terminal_value := fr_value f\<rparr>"
| "apply_frame FkCancelled f p =
     p\<lparr>po_terminal := TmCancelled, po_terminal_iterations := fr_iterations f,
       po_terminal_value := fr_value f\<rparr>"

definition consume :: "frame \<Rightarrow> process \<Rightarrow> process" where
  "consume f p =
    (if po_malformed p then p
     else if malformed_frame p f then p\<lparr>po_malformed := True\<rparr>
     else case kind_of (fr_kind f) of
       None \<Rightarrow> p\<lparr>po_malformed := True\<rparr>
     | Some k \<Rightarrow>
         if misplaced k p f then p\<lparr>po_malformed := True\<rparr>
         else (apply_frame k f p)
                \<lparr>pr_last_iterations := fr_iterations f,
                 po_dropped_progress := fr_dropped_progress f\<rparr>)"

definition remember_io_error :: "int \<Rightarrow> process \<Rightarrow> process" where
  "remember_io_error e p =
    (if po_io_error p = 0 then p\<lparr>po_io_error := errno_or EIO e\<rparr> else p)"

text \<open>The bytes of one read: they complete a frame, which is consumed, or stay in the buffer.\<close>

definition receive_bytes :: "u8 list \<Rightarrow> process \<Rightarrow> process \<times> nat" where
  "receive_bytes bs p =
    (let buffer = pr_buffer p @ bs
     in if length buffer = frame_size
        then (consume (decode_frame buffer) (p\<lparr>pr_buffer := []\<rparr>), 1)
        else (p\<lparr>pr_buffer := buffer\<rparr>, 0))"

definition reach_eof :: "process \<Rightarrow> process" where
  "reach_eof p =
     p\<lparr>po_event_eof := True,
       po_malformed := (po_malformed p \<or> pr_buffer p \<noteq> [] \<or> po_terminal p = TmNone)\<rparr>"

text \<open>
  The loop of \<open>drain_events\<close>. Every turn reads at least one byte or returns, and 128
  frames end it, so \<open>128 * 32 + 1\<close> turns are enough (\<open>drain_fuel_enough\<close>).
\<close>

fun drain :: "'w os \<Rightarrow> nat \<Rightarrow> nat \<Rightarrow> process \<times> 'w \<Rightarrow> process \<times> 'w" where
  "drain os 0 frames pw = pw"
| "drain os (Suc fuel) frames (p, w) =
    (if frames < kMaximumFramesPerPoll then
       (case os_read os (pr_event_descriptor p) (frame_size - length (pr_buffer p)) w of
          (Inr bs, w) \<Rightarrow>
            if bs = [] then (reach_eof p, w)
            else (case receive_bytes bs p of
                    (p, n) \<Rightarrow> drain os fuel (frames + n) (p, w))
        | (Inl e, w) \<Rightarrow> (if e = EAGAIN \<or> e = EINTR then p else remember_io_error e p, w))
     else (p, w))"

definition drain_fuel :: nat where
  "drain_fuel = kMaximumFramesPerPoll * frame_size + 1"

definition drain_events :: "'w os \<Rightarrow> process \<times> 'w \<Rightarrow> process \<times> 'w" where
  "drain_events os pw =
    (if pr_event_descriptor (fst pw) < 0 \<or> po_event_eof (fst pw) then pw
     else drain os drain_fuel 0 pw)"

subsection \<open>Exit, stop and termination\<close>

definition collect_exit :: "'w os \<Rightarrow> process \<times> 'w \<Rightarrow> process \<times> 'w" where
  "collect_exit os pw =
    (case pw of (p, w) \<Rightarrow>
     if pr_owned_pid p \<le> 0 \<or> po_exit_status p \<noteq> None then (p, w)
     else case os_waitpid os (pr_owned_pid p) w of
       (Inr (result, status), w) \<Rightarrow>
         (if result = pr_owned_pid p
          then p\<lparr>pr_owned_pid := - 1, po_exit_status := Some status\<rparr> else p, w)
     | (Inl e, w) \<Rightarrow>
         (if e = EINTR then p
          else if e = ECHILD then p\<lparr>pr_owned_pid := - 1, po_ownership_lost := True\<rparr>
          else (remember_io_error e p)\<lparr>pr_termination_pending := True\<rparr>, w))"

definition request_termination_once :: "'w os \<Rightarrow> process \<times> 'w \<Rightarrow> process \<times> 'w" where
  "request_termination_once os pw =
    (case pw of (p, w) \<Rightarrow>
     if \<not> pr_termination_pending p \<or> pr_termination_attempted p \<or> pr_owned_pid p \<le> 0 \<or>
        po_exit_status p \<noteq> None \<or> po_ownership_lost p
     then (p, w)
     else let p = p\<lparr>pr_termination_attempted := True, po_termination_requested := True\<rparr>
          in case os_kill os (pr_owned_pid p) w of
               (Inr _, w) \<Rightarrow> (p, w)
             | (Inl e, w) \<Rightarrow> (p\<lparr>po_termination_error := errno_or EIO e\<rparr>, w))"

definition request_stop :: "'w os \<Rightarrow> u64 \<Rightarrow> process \<times> 'w \<Rightarrow> process \<times> 'w" where
  "request_stop os now_ms pw =
    (case pw of (p, w) \<Rightarrow>
     if po_stop_requested p then (p, w)
     else let p = p\<lparr>po_stop_requested := True, po_stop_requested_at := Some now_ms\<rparr>
          in if pr_owned_pid p \<le> 0 \<or> po_exit_status p \<noteq> None \<or> pr_control_descriptor p < 0
             then (p\<lparr>pr_termination_pending :=
                       (pr_owned_pid p > 0 \<and> po_exit_status p = None)\<rparr>, w)
             else case os_send os (pr_control_descriptor p) [kStopCommand] w of
               (Inr n, w) \<Rightarrow>
                 (if n = 1 then p\<lparr>po_stop_delivered := True\<rparr>
                  else p\<lparr>po_stop_error := EIO, pr_termination_pending := True\<rparr>, w)
             | (Inl e, w) \<Rightarrow>
                 (p\<lparr>po_stop_error := errno_or EIO e, pr_termination_pending := True\<rparr>, w))"

text \<open>What \<open>poll\<close> decides between reading and killing.\<close>

definition escalate :: "u64 \<Rightarrow> process \<Rightarrow> process" where
  "escalate now_ms p =
    (let p = (if po_malformed p \<or> po_io_error p \<noteq> 0 then p\<lparr>pr_termination_pending := True\<rparr> else p)
     in if po_stop_requested p \<and> po_exit_status p = None then
          (if \<not> po_stop_delivered p then p\<lparr>pr_termination_pending := True\<rparr>
           else case po_stop_requested_at p of
             None \<Rightarrow> p
           | Some at \<Rightarrow>
               if now_ms \<ge> at \<and> now_ms - at \<ge> pr_stop_grace_ms p
               then p\<lparr>pr_termination_pending := True\<rparr> else p)
        else p)"

definition poll :: "'w os \<Rightarrow> u64 \<Rightarrow> process \<times> 'w \<Rightarrow> process \<times> 'w" where
  "poll os now_ms pw =
    (if \<not> po_launched (fst pw) \<or> po_ownership_lost (fst pw) \<or> po_channels_closed (fst pw) then pw
     else request_termination_once os
            (apfst (escalate now_ms) (collect_exit os (drain_events os pw))))"

definition close_once :: "'w os \<Rightarrow> int \<Rightarrow> process \<times> 'w \<Rightarrow> bool \<times> process \<times> 'w" where
  "close_once os descriptor pw =
    (case pw of (p, w) \<Rightarrow>
     if descriptor < 0 then (True, p, w)
     else case os_close os descriptor w of
       (Inr _, w) \<Rightarrow> (True, p, w)
     | (Inl e, w) \<Rightarrow> (False, (remember_io_error e p)\<lparr>pr_channel_cleanup_unknown := True\<rparr>, w))"

definition close_channels :: "'w os \<Rightarrow> process \<times> 'w \<Rightarrow> bool \<times> process \<times> 'w" where
  "close_channels os pw =
    (case pw of (p, w) \<Rightarrow>
     if po_channels_closed p then (True, p, w)
     else if po_exit_status p = None \<or> \<not> po_event_eof p \<or> po_ownership_lost p \<or>
             pr_channel_cleanup_unknown p
     then (False, p, w)
     else case close_once os (pr_control_descriptor p) (p\<lparr>pr_control_descriptor := - 1\<rparr>, w) of
       (control_closed, p, w) \<Rightarrow>
         (case close_once os (pr_event_descriptor p) (p\<lparr>pr_event_descriptor := - 1\<rparr>, w) of
            (event_closed, p, w) \<Rightarrow>
              (control_closed \<and> event_closed,
               p\<lparr>po_channels_closed := (control_closed \<and> event_closed)\<rparr>, w)))"

subsection \<open>The destructor\<close>

text \<open>
  The blocking \<open>waitpid\<close> of the destructor is repeated while it is interrupted, so it may
  not return: \<open>None\<close>.
\<close>

partial_function (option) reap_child ::
  "'w os \<Rightarrow> int \<Rightarrow> 'w \<Rightarrow> ((int + int \<times> int) \<times> 'w) option" where
  "reap_child os pid w =
    (case os_wait os pid w of (answer, w') \<Rightarrow>
       if answer = Inl EINTR then reap_child os pid w' else Some (answer, w'))"

definition close_quietly :: "'w os \<Rightarrow> int \<Rightarrow> process \<times> 'w \<Rightarrow> process \<times> 'w" where
  "close_quietly os fd pw =
    (case pw of (p, w) \<Rightarrow>
     if fd < 0 then (p, w)
     else case os_close os fd w of
       (Inr _, w) \<Rightarrow> (p, w)
     | (Inl _, w) \<Rightarrow> (p\<lparr>pr_channel_cleanup_unknown := True\<rparr>, w))"

definition close_owned_channels :: "'w os \<Rightarrow> process \<times> 'w \<Rightarrow> bool \<times> process \<times> 'w" where
  "close_owned_channels os pw =
    (case close_quietly os (pr_control_descriptor (fst pw))
            (apfst (\<lambda>p. p\<lparr>pr_control_descriptor := - 1\<rparr>) pw) of
       (p, w) \<Rightarrow>
         (case close_quietly os (pr_event_descriptor p) (p\<lparr>pr_event_descriptor := - 1\<rparr>, w) of
            (p, w) \<Rightarrow> (\<not> pr_channel_cleanup_unknown p, p, w)))"

text \<open>\<open>Some (False, _)\<close> is the call of \<open>std::terminate\<close>.\<close>

definition cleanup_owned_child :: "'w os \<Rightarrow> process \<times> 'w \<Rightarrow> (bool \<times> process \<times> 'w) option" where
  "cleanup_owned_child os pw =
    (case pw of (p, w) \<Rightarrow>
     if po_ownership_lost p then Some (False, p, w)
     else if pr_owned_pid p > 0 then
       (case os_kill os (pr_owned_pid p) w of
          (killed, w) \<Rightarrow>
            if killed \<noteq> Inr () \<and> killed \<noteq> Inl ESRCH then Some (False, p, w)
            else case reap_child os (pr_owned_pid p) w of
              None \<Rightarrow> None
            | Some (Inl e, w) \<Rightarrow> Some (False, p, w)
            | Some (Inr (result, status), w) \<Rightarrow>
                if result \<noteq> pr_owned_pid p then Some (False, p, w)
                else Some (close_owned_channels os
                       (p\<lparr>pr_owned_pid := - 1, po_exit_status := Some status\<rparr>, w)))
     else Some (close_owned_channels os (p, w)))"

end
