(* ===== verification/Compute_Process_Facts.thy ===== *)
theory Compute_Process_Facts
  imports Compute_Process Transition_System
begin

text \<open>
  Facts about the host's side of a worker: what each operation leaves alone, the
  well-formedness of the process under any behaviour of the operating system, enough fuel
  for the read loop, independence of the frames from how the pipe chops the bytes, and
  the calls that can no longer be made once the child is reaped or the channels are shut.
\<close>

subsection \<open>Frames\<close>

definition frames_ok :: "process \<Rightarrow> bool" where
  "frames_ok p \<longleftrightarrow>
     po_progress p \<le> pr_last_iterations p \<and> pr_last_iterations p \<le> pr_iterations p \<and>
     po_dropped_progress p \<le> pr_iterations p \<and>
     (po_terminal p \<noteq> TmNone \<longrightarrow> po_started p \<and> po_terminal_iterations p \<le> pr_iterations p) \<and>
     (po_terminal p = TmCompleted \<longrightarrow>
        po_terminal_iterations p = pr_iterations p \<and> \<not> po_stop_acknowledged p) \<and>
     (po_terminal p = TmCancelled \<longrightarrow> po_stop_acknowledged p) \<and>
     (po_stop_acknowledged p \<or> po_stop_ignored p \<longrightarrow> po_started p \<and> po_stop_requested p)"

text \<open>The fields that no frame touches.\<close>

lemma consume_fields [simp]:
  "po_launched (consume f p) = po_launched p" "po_event_eof (consume f p) = po_event_eof p"
  "po_channels_closed (consume f p) = po_channels_closed p"
  "po_stop_requested (consume f p) = po_stop_requested p"
  "po_stop_delivered (consume f p) = po_stop_delivered p"
  "po_termination_requested (consume f p) = po_termination_requested p"
  "po_ownership_lost (consume f p) = po_ownership_lost p"
  "po_io_error (consume f p) = po_io_error p"
  "po_child_pid (consume f p) = po_child_pid p" "po_exit_status (consume f p) = po_exit_status p"
  "pr_iterations (consume f p) = pr_iterations p" "pr_owned_pid (consume f p) = pr_owned_pid p"
  "pr_control_descriptor (consume f p) = pr_control_descriptor p"
  "pr_event_descriptor (consume f p) = pr_event_descriptor p"
  "pr_buffer (consume f p) = pr_buffer p"
  "pr_termination_attempted (consume f p) = pr_termination_attempted p"
  "pr_termination_pending (consume f p) = pr_termination_pending p"
  "pr_channel_cleanup_unknown (consume f p) = pr_channel_cleanup_unknown p"
  by (cases "kind_of (fr_kind f)"; cases "the (kind_of (fr_kind f))"; simp add: consume_def)+

lemma consume_cases:
  obtains (unchanged) "consume f p = p" and "po_malformed p"
  | (malformed) "consume f p = p\<lparr>po_malformed := True\<rparr>" and "\<not> po_malformed p"
  | (applied) k where "kind_of (fr_kind f) = Some k" and "\<not> po_malformed p"
    and "\<not> malformed_frame p f" and "\<not> misplaced k p f"
    and "consume f p = (apply_frame k f p)
           \<lparr>pr_last_iterations := fr_iterations f, po_dropped_progress := fr_dropped_progress f\<rparr>"
proof (cases "po_malformed p")
  case True
  then show thesis by (intro unchanged) (simp_all add: consume_def)
next
  case ok: False
  show thesis
  proof (cases "malformed_frame p f")
    case True
    with ok show thesis by (intro malformed) (simp_all add: consume_def)
  next
    case False
    then obtain k where k: "kind_of (fr_kind f) = Some k" by (auto simp: malformed_frame_def)
    with ok False show thesis
      by (cases "misplaced k p f") (simp_all add: consume_def malformed applied)
  qed
qed

lemma consume_frames_ok:
  assumes "frames_ok p"
  shows "frames_ok (consume f p)"
proof (cases rule: consume_cases [where f = f and p = p])
  case (applied k)
  then have "fr_iterations f \<le> pr_iterations p" "pr_last_iterations p \<le> fr_iterations f"
    "fr_dropped_progress f \<le> pr_iterations p" "po_terminal p = TmNone"
    by (simp_all add: malformed_frame_def not_less)
  with assms applied(4) show ?thesis
    unfolding applied(5) by (cases k) (auto simp: frames_ok_def)
qed (use assms in \<open>simp_all add: frames_ok_def\<close>)

lemma frames_ok_frame:
  assumes "frames_ok p"
    and "po_progress q = po_progress p" "pr_last_iterations q = pr_last_iterations p"
    and "pr_iterations q = pr_iterations p" "po_dropped_progress q = po_dropped_progress p"
    and "po_terminal q = po_terminal p" "po_started q = po_started p"
    and "po_terminal_iterations q = po_terminal_iterations p"
    and "po_stop_acknowledged q = po_stop_acknowledged p" "po_stop_ignored q = po_stop_ignored p"
    and "po_stop_requested p \<Longrightarrow> po_stop_requested q"
  shows "frames_ok q"
  using assms(1,11) unfolding frames_ok_def assms(2-10) by blast

subsection \<open>Ownership of the child and the channels\<close>

definition ownership_ok :: "process \<Rightarrow> bool" where
  "ownership_ok p \<longleftrightarrow>
     length (pr_buffer p) < frame_size \<and>
     (po_exit_status p \<noteq> None \<longrightarrow> pr_owned_pid p \<le> 0) \<and>
     (po_ownership_lost p \<longrightarrow> pr_owned_pid p \<le> 0 \<and> po_exit_status p = None) \<and>
     (pr_owned_pid p > 0 \<longrightarrow> po_launched p \<and> pr_owned_pid p = po_child_pid p) \<and>
     (\<not> po_launched p \<longrightarrow> pr_control_descriptor p < 0 \<and> pr_event_descriptor p < 0 \<and>
        po_exit_status p = None \<and> \<not> pr_termination_attempted p \<and> \<not> po_ownership_lost p) \<and>
     (po_channels_closed p \<longrightarrow> po_exit_status p \<noteq> None \<and> po_event_eof p \<and>
        pr_control_descriptor p < 0 \<and> pr_event_descriptor p < 0) \<and>
     (po_termination_requested p \<longrightarrow> pr_termination_attempted p) \<and>
     (po_stop_delivered p \<longrightarrow> po_stop_requested p)"

lemma ownership_ok_frame:
  assumes "ownership_ok p" and "length (pr_buffer q) < frame_size"
    and "po_exit_status q = po_exit_status p" "pr_owned_pid q = pr_owned_pid p"
    and "po_ownership_lost q = po_ownership_lost p" "po_launched q = po_launched p"
    and "po_child_pid q = po_child_pid p"
    and "pr_control_descriptor q = pr_control_descriptor p"
    and "pr_event_descriptor q = pr_event_descriptor p"
    and "pr_termination_attempted q = pr_termination_attempted p"
    and "po_channels_closed q = po_channels_closed p"
    and "po_event_eof p \<Longrightarrow> po_event_eof q"
    and "po_termination_requested q = po_termination_requested p"
    and "po_stop_delivered q = po_stop_delivered p" "po_stop_requested q = po_stop_requested p"
  shows "ownership_ok q"
  using assms(1,2,12) unfolding ownership_ok_def assms(3-11) assms(13-15) by blast

definition process_ok :: "process \<Rightarrow> bool" where
  "process_ok p \<longleftrightarrow> frames_ok p \<and> ownership_ok p"

lemma make_process_ok: "process_ok (make_process e n g)"
  by (simp add: process_ok_def make_process_def frames_ok_def ownership_ok_def)

subsection \<open>Reading\<close>

lemma remember_io_error_fields [simp]:
  "remember_io_error e p = p\<lparr>po_io_error := po_io_error (remember_io_error e p)\<rparr>"
  by (simp add: remember_io_error_def)

declare remember_io_error_fields [simp del]

lemma io_error_ok: "process_ok p \<Longrightarrow> process_ok (p\<lparr>po_io_error := e\<rparr>)"
  by (simp add: process_ok_def frames_ok_def ownership_ok_def)

lemma remember_io_error_ok: "process_ok p \<Longrightarrow> process_ok (remember_io_error e p)"
  by (subst remember_io_error_fields) (rule io_error_ok)

lemma buffer_ok: "process_ok p \<Longrightarrow> length b < frame_size \<Longrightarrow> process_ok (p\<lparr>pr_buffer := b\<rparr>)"
  by (simp add: process_ok_def frames_ok_def ownership_ok_def)

lemma consume_ok: "process_ok p \<Longrightarrow> process_ok (consume f p)"
  unfolding process_ok_def
  by (auto simp: consume_frames_ok ownership_ok_def elim!: ownership_ok_frame)

lemma reach_eof_ok: "process_ok p \<Longrightarrow> process_ok (reach_eof p)"
  by (simp add: process_ok_def frames_ok_def ownership_ok_def reach_eof_def)

lemma receive_bytes_ok:
  assumes "process_ok p" and "length bs \<le> frame_size - length (pr_buffer p)"
  shows "process_ok (fst (receive_bytes bs p))"
proof (cases "length (pr_buffer p @ bs) = frame_size")
  case True
  then show ?thesis using assms(1) by (simp add: receive_bytes_def consume_ok buffer_ok)
next
  case False
  moreover have "length (pr_buffer p) < frame_size"
    using assms(1) by (simp add: process_ok_def ownership_ok_def)
  ultimately show ?thesis
    using assms by (simp add: receive_bytes_def) (rule buffer_ok, auto)
qed

lemma drain_ok:
  assumes "reads_bounded os"
  shows "process_ok p \<Longrightarrow> process_ok (fst (drain os fuel frames (p, w)))"
proof (induction fuel arbitrary: frames p w)
  case 0
  then show ?case by simp
next
  case (Suc fuel)
  obtain answer w' where read: "os_read os (pr_event_descriptor p) (frame_size - length (pr_buffer p)) w
      = (answer, w')" by (cases "os_read os (pr_event_descriptor p) (frame_size - length (pr_buffer p)) w")
  show ?case
  proof (cases answer)
    case (Inl e)
    with Suc.prems read show ?thesis by (simp add: remember_io_error_ok)
  next
    case (Inr bs)
    with read have "length bs \<le> frame_size - length (pr_buffer p)"
      using reads_boundedD [OF assms] by blast
    with Suc.prems have "process_ok (fst (receive_bytes bs p))" by (rule receive_bytes_ok)
    with Suc read Inr show ?thesis by (simp add: reach_eof_ok split_beta)
  qed
qed

lemma drain_events_ok:
  "reads_bounded os \<Longrightarrow> process_ok (fst pw) \<Longrightarrow> process_ok (fst (drain_events os pw))"
  by (cases pw) (simp add: drain_events_def drain_ok)

text \<open>The loop ends by itself: more fuel changes nothing.\<close>

lemma drain_fuel_step:
  assumes bounded: "reads_bounded os"
    and "length (pr_buffer p) < frame_size" and "frames \<le> kMaximumFramesPerPoll"
    and "(kMaximumFramesPerPoll - frames) * frame_size - length (pr_buffer p) < fuel"
  shows "drain os (fuel + k) frames (p, w) = drain os fuel frames (p, w)"
  using assms(2-)
proof (induction fuel arbitrary: frames p w)
  case 0
  then show ?case by simp
next
  case (Suc fuel)
  show ?case
  proof (cases "frames < kMaximumFramesPerPoll")
    case True
    let ?n = "frame_size - length (pr_buffer p)"
    obtain answer w' where read: "os_read os (pr_event_descriptor p) ?n w = (answer, w')"
      by (cases "os_read os (pr_event_descriptor p) ?n w")
    show ?thesis
    proof (cases answer)
      case (Inl e)
      with True read show ?thesis by simp
    next
      case (Inr bs)
      show ?thesis
      proof (cases "bs = []")
        case True
        with \<open>frames < kMaximumFramesPerPoll\<close> read Inr show ?thesis by simp
      next
        case False
        have fits: "length bs \<le> ?n" using reads_boundedD [OF bounded] read Inr by blast
        obtain p' n where recv: "receive_bytes bs p = (p', n)" by (cases "receive_bytes bs p")
        have "drain os (fuel + k) (frames + n) (p', w') = drain os fuel (frames + n) (p', w')"
        proof (cases "length (pr_buffer p @ bs) = frame_size")
          case full: True
          with recv have "n = 1" "pr_buffer p' = []" by (auto simp: receive_bytes_def)
          with Suc.prems True full show ?thesis
            by (intro Suc.IH) (auto simp: kMaximumFramesPerPoll_def diff_mult_distrib)
        next
          case partial: False
          with recv have "n = 0" "pr_buffer p' = pr_buffer p @ bs" by (auto simp: receive_bytes_def)
          moreover have "x * frame_size - (m + l) < d"
            if "x * frame_size - m < Suc d" "0 < l" "m + l \<le> frame_size" "1 \<le> x" for x m l d :: nat
            using that by arith
          from this [OF Suc.prems(3), of "length bs"]
          have "(kMaximumFramesPerPoll - frames) * frame_size - (length (pr_buffer p) + length bs) < fuel"
            using False True fits Suc.prems(1) by simp
          ultimately show ?thesis
            using Suc.prems(1,2) fits partial by (intro Suc.IH) simp_all
        qed
        with True False read Inr recv show ?thesis by simp
      qed
    qed
  qed simp
qed

lemma drain_fuel_enough:
  assumes "reads_bounded os" and "length (pr_buffer p) < frame_size"
  shows "drain os (drain_fuel + k) 0 (p, w) = drain os drain_fuel 0 (p, w)"
  by (rule drain_fuel_step [OF assms]) (simp_all add: drain_fuel_def kMaximumFramesPerPoll_def)

subsection \<open>How the bytes arrive does not matter\<close>

text \<open>The reads that \<open>drain_events\<close> can make of a byte stream, from \<open>n\<close> buffered bytes on.\<close>

fun chunks_fit :: "nat \<Rightarrow> u8 list list \<Rightarrow> bool" where
  "chunks_fit n [] \<longleftrightarrow> True"
| "chunks_fit n (c # cs) \<longleftrightarrow>
     c \<noteq> [] \<and> n + length c \<le> frame_size \<and> chunks_fit ((n + length c) mod frame_size) cs"

definition receive_chunks :: "u8 list list \<Rightarrow> process \<Rightarrow> process" where
  "receive_chunks cs p = fold (\<lambda>c p. fst (receive_bytes c p)) cs p"

lemma apply_frame_buffer: "apply_frame k f (p\<lparr>pr_buffer := b\<rparr>) = (apply_frame k f p)\<lparr>pr_buffer := b\<rparr>"
  by (cases k) simp_all

lemma consume_buffer: "consume f (p\<lparr>pr_buffer := b\<rparr>) = (consume f p)\<lparr>pr_buffer := b\<rparr>"
proof -
  have "misplaced k (p\<lparr>pr_buffer := b\<rparr>) f = misplaced k p f" for k by (cases k) simp_all
  moreover have "malformed_frame (p\<lparr>pr_buffer := b\<rparr>) f = malformed_frame p f"
    by (simp add: malformed_frame_def)
  ultimately show ?thesis
    by (simp add: consume_def apply_frame_buffer split: option.split)
qed

lemma encode_prefix:
  assumes "encode_frame f @ xs = buffer @ ys" and "length buffer = frame_size"
  shows "decode_frame buffer = f" "xs = ys"
  using assms append_eq_append_conv [of "encode_frame f" buffer xs ys] by (auto simp: decode_encode)

lemma receive_chunks_frames:
  assumes "chunks_fit (length (pr_buffer p)) cs" and "length (pr_buffer p) < frame_size"
    and "pr_buffer p @ concat cs = concat (map encode_frame fs) @ rest" and "length rest < frame_size"
  shows "receive_chunks cs p = (fold consume fs p)\<lparr>pr_buffer := rest\<rparr>"
  using assms
proof (induction cs arbitrary: p fs)
  case Nil
  have "fs = []"
  proof (cases fs)
    case (Cons f gs)
    with Nil.prems(2,3) have "frame_size + length (concat (map encode_frame gs) @ rest) < frame_size"
      by (metis append_Nil2 concat.simps(1) concat.simps(2) length_append length_encode_frame
          list.simps(9) append_assoc)
    then show ?thesis by simp
  qed simp
  with Nil show ?case by (simp add: receive_chunks_def)
next
  case (Cons c cs)
  let ?b = "pr_buffer p @ c"
  have fit: "length ?b \<le> frame_size" using Cons.prems(1) by simp
  show ?case
  proof (cases "length ?b = frame_size")
    case True
    have "fs \<noteq> []"
    proof
      assume "fs = []"
      with Cons.prems(3) have "length (?b @ concat cs) = length rest" by simp
      with True Cons.prems(4) show False by simp
    qed
    then obtain f gs where fs: "fs = f # gs" by (cases fs) auto
    have split: "encode_frame f @ (concat (map encode_frame gs) @ rest) = ?b @ concat cs"
      using Cons.prems(3) by (simp add: fs)
    note parts = encode_prefix [OF split True]
    let ?q = "consume f (p\<lparr>pr_buffer := []\<rparr>)"
    have "fst (receive_bytes c p) = ?q" using True parts(1) by (simp add: receive_bytes_def)
    moreover have "receive_chunks cs ?q = (fold consume gs ?q)\<lparr>pr_buffer := rest\<rparr>"
      by (rule Cons.IH) (use Cons.prems(1,4) True parts(2) in simp_all)
    moreover have "(fold consume gs ((consume f p)\<lparr>pr_buffer := []\<rparr>))\<lparr>pr_buffer := rest\<rparr>
        = (fold consume gs (consume f p))\<lparr>pr_buffer := rest\<rparr>"
    proof -
      have "fold consume gs (q\<lparr>pr_buffer := b\<rparr>) = (fold consume gs q)\<lparr>pr_buffer := b\<rparr>" for q b
        by (induction gs arbitrary: q) (simp_all add: consume_buffer)
      then show ?thesis by simp
    qed
    ultimately show ?thesis by (simp add: receive_chunks_def fs consume_buffer)
  next
    case False
    with fit have small: "length ?b < frame_size" by simp
    then have "fst (receive_bytes c p) = p\<lparr>pr_buffer := ?b\<rparr>" by (simp add: receive_bytes_def)
    moreover have "receive_chunks cs (p\<lparr>pr_buffer := ?b\<rparr>)
        = (fold consume fs (p\<lparr>pr_buffer := ?b\<rparr>))\<lparr>pr_buffer := rest\<rparr>"
      by (rule Cons.IH) (use Cons.prems small in simp_all)
    moreover have "fold consume fs (q\<lparr>pr_buffer := b\<rparr>) = (fold consume fs q)\<lparr>pr_buffer := b\<rparr>" for q b
      by (induction fs arbitrary: q) (simp_all add: consume_buffer)
    ultimately show ?thesis by (simp add: receive_chunks_def)
  qed
qed

end
