(* ===== verification/Compute_Process_Machine.thy ===== *)
theory Compute_Process_Machine
  imports Compute_Process_Facts
begin

text \<open>
  The host's side of a worker as a machine over its four operations, for any operating
  system: the process stays well formed, and once the child has been reaped (or killed
  once) no further signal is sent, and once its channels were shut no further close is
  made, whatever calls follow.
\<close>

subsection \<open>Launching\<close>

text \<open>
  Only the error fields change; an error stays recorded, and closing that becomes unknown
  leaves one.
\<close>

definition only_errors :: "process \<Rightarrow> process \<Rightarrow> bool" where
  "only_errors p q \<longleftrightarrow>
     (\<exists>e l u. q = p\<lparr>po_io_error := e, po_launch_error := l, pr_channel_cleanup_unknown := u\<rparr> \<and>
        (po_io_error p \<noteq> 0 \<longrightarrow> e \<noteq> 0) \<and> (u \<longrightarrow> pr_channel_cleanup_unknown p \<or> e \<noteq> 0))"

lemma only_errorsI:
  assumes "q = p\<lparr>po_io_error := e, po_launch_error := l, pr_channel_cleanup_unknown := u\<rparr>"
    and "po_io_error p \<noteq> 0 \<longrightarrow> e \<noteq> 0" and "u \<longrightarrow> pr_channel_cleanup_unknown p \<or> e \<noteq> 0"
  shows "only_errors p q"
  using assms unfolding only_errors_def by blast

lemma only_errors_refl [simp]: "only_errors p p"
  by (rule only_errorsI [where e = "po_io_error p" and l = "po_launch_error p" and u = "pr_channel_cleanup_unknown p"]) simp_all

lemma only_errors_trans:
  assumes "only_errors p q" and "only_errors q r"
  shows "only_errors p r"
proof -
  obtain e l u where q: "q = p\<lparr>po_io_error := e, po_launch_error := l, pr_channel_cleanup_unknown := u\<rparr>"
    and first: "po_io_error p \<noteq> 0 \<longrightarrow> e \<noteq> 0" "u \<longrightarrow> pr_channel_cleanup_unknown p \<or> e \<noteq> 0"
    using assms(1) unfolding only_errors_def by blast
  obtain e' l' u' where r: "r = q\<lparr>po_io_error := e', po_launch_error := l', pr_channel_cleanup_unknown := u'\<rparr>"
    and second: "po_io_error q \<noteq> 0 \<longrightarrow> e' \<noteq> 0" "u' \<longrightarrow> pr_channel_cleanup_unknown q \<or> e' \<noteq> 0"
    using assms(2) unfolding only_errors_def by blast
  show ?thesis
    by (rule only_errorsI [where e = e' and l = l' and u = u']) (use first second in \<open>auto simp: q r\<close>)
qed

lemma only_errors_launch_error: "only_errors p (p\<lparr>po_launch_error := l\<rparr>)"
  by (rule only_errorsI [where e = "po_io_error p" and l = l and u = "pr_channel_cleanup_unknown p"]) simp_all

lemma only_errors_closed:
  "e \<noteq> 0 \<Longrightarrow> only_errors p (p\<lparr>po_io_error := e, pr_channel_cleanup_unknown := u\<rparr>)"
  by (rule only_errorsI [where e = e and l = "po_launch_error p" and u = u]) simp_all

lemma only_errors_ok:
  assumes "only_errors p q" and "process_ok p"
  shows "process_ok q"
proof -
  obtain e l u where q: "q = p\<lparr>po_io_error := e, po_launch_error := l, pr_channel_cleanup_unknown := u\<rparr>"
    using assms(1) by (auto simp: only_errors_def)
  show ?thesis using assms(2) by (simp add: q process_ok_def frames_ok_def ownership_ok_def)
qed

lemma reset_descriptor_errors: "only_errors (fst pw) (fst (reset_descriptor os fd pw))"
  by (cases pw)
    (auto simp: reset_descriptor_def only_errors_closed errno_or_nonzero EIO_def split: prod.splits sum.splits)

lemma reset_twice_errors: "only_errors (fst pw) (fst (reset_descriptor os a (reset_descriptor os b pw)))"
  by (rule only_errors_trans [OF reset_descriptor_errors reset_descriptor_errors])

lemma reset_pair_errors: "only_errors (fst pw) (fst (reset_pair os pair pw))"
  unfolding reset_pair_def by (rule reset_twice_errors)

lemma duplicate_pair_errors: "only_errors (fst pw) (fst (snd (duplicate_pair os os2 pw)))"
proof (cases pw)
  case (Pair p w)
  have one: "only_errors p (fst (reset_descriptor os fd (p, v)))" for fd v
    using reset_descriptor_errors [of "(p, v)" os fd] by simp
  have two: "only_errors p (fst (reset_descriptor os a (reset_descriptor os b (p, v))))" for a b v
    using reset_twice_errors [of "(p, v)" os a b] by simp
  show ?thesis
    unfolding duplicate_pair_def Pair by (auto simp: one two split: prod.splits sum.splits)
qed

lemma make_pair_errors: "only_errors (fst pw) (fst (snd (make_pair os create pw)))"
proof (cases pw)
  case (Pair p w)
  show ?thesis
  proof (cases "create w")
    case created: (Pair r v)
    show ?thesis
    proof (cases r)
      case (Inr originals)
      obtain made qw where dup: "duplicate_pair os originals (p, v) = (made, qw)"
        by (cases "duplicate_pair os originals (p, v)")
      have "only_errors p (fst qw)" using duplicate_pair_errors [of "(p, v)" os originals] dup by simp
      from only_errors_trans [OF this reset_twice_errors] show ?thesis
        by (simp add: make_pair_def Pair created Inr dup)
    qed (simp add: make_pair_def Pair created)
  qed
qed

lemma open_channels_errors: "only_errors (fst pw) (fst (snd (open_channels os pw)))"
proof -
  obtain r p w where control: "make_control_pair os pw = (r, p, w)" by (cases "make_control_pair os pw") auto
  have first: "only_errors (fst pw) p"
    using make_pair_errors [of pw os "os_socketpair os"] control by (simp add: make_control_pair_def)
  show ?thesis
  proof (cases r)
    case (Inl e)
    with first control show ?thesis by (simp add: open_channels_def)
  next
    case (Inr pair)
    obtain r' q v where events: "make_event_pipe os (p, w) = (r', q, v)"
      by (cases "make_event_pipe os (p, w)") auto
    have "only_errors p q"
      using make_pair_errors [of "(p, w)" os "os_pipe os"] events by (simp add: make_event_pipe_def)
    then have second: "only_errors (fst pw) q" by (rule only_errors_trans [OF first])
    have "only_errors q (fst (reset_pair os a (q, v)))" for a
      using reset_pair_errors [of "(q, v)" os a] by simp
    moreover have "only_errors q (fst (reset_pair os a (reset_pair os b (q, v))))" for a b
      using only_errors_trans [OF reset_pair_errors reset_pair_errors, of "(q, v)" os a os b] by simp
    ultimately show ?thesis
      using second only_errors_trans [OF second]
      by (simp add: open_channels_def control Inr events split: sum.split)
  qed
qed

lemma launch_cases:
  obtains (failed) q w' where "launch os (p, w) = (False, q, w')" and "only_errors p q" and "\<not> po_launched p"
  | (already) "launch os (p, w) = (True, p, w)" and "po_launched p"
  | (spawned) q child control event q' w' where "launch os (p, w) = (True, q', w')" and "only_errors p q"
    and "\<not> po_launched p" and "child > 0" and "only_errors (record_launch child control event q) q'"
proof (cases "po_launched p")
  case True
  then show thesis by (intro already) (simp_all add: launch_def)
next
  case False
  note failed' = failed [OF _ _ False]
  show thesis
  proof (cases "po_stop_requested p \<or> pr_iterations p = 0 \<or> pr_iterations p > kMaximumIterations")
    case True
    with False show thesis
      by (intro failed' [of "p\<lparr>po_launch_error := EINVAL\<rparr>" w])
        (auto simp: launch_def fail_launch_def only_errors_launch_error)
  next
    case ready: False
    obtain e v where error: "executable_error os (pr_executable p) w = (e, v)"
      by (cases "executable_error os (pr_executable p) w")
    let ?p = "p\<lparr>po_launch_error := e\<rparr>"
    show thesis
    proof (cases "e = 0")
      case bad: False
      with False ready error show thesis
        by (intro failed' [of ?p v]) (simp_all add: launch_def only_errors_launch_error Let_def)
    next
      case True
      obtain r q u where opened: "open_channels os (?p, v) = (r, q, u)"
        by (cases "open_channels os (?p, v)") auto
      have "only_errors ?p q" using open_channels_errors [of "(?p, v)" os] opened by simp
      then have errors: "only_errors p q" by (rule only_errors_trans [OF only_errors_launch_error])
      show thesis
      proof (cases r)
        case (Inl l)
        with False ready error True opened show thesis
          by (intro failed' [of "q\<lparr>po_launch_error := l\<rparr>" u])
            (simp_all add: launch_def Let_def only_errors_trans [OF errors only_errors_launch_error])
      next
        case (Inr channels)
        obtain control events where channels: "channels = (control, events)" by (cases channels)
        obtain s t where spawn: "spawn_worker os q (fst control) (snd events) u = (s, t)"
          by (cases "spawn_worker os q (fst control) (snd events) u")
        show thesis
        proof (cases s)
          case (Inl l)
          let ?c = "reset_pair os control (reset_pair os events (q\<lparr>po_launch_error := l\<rparr>, t))"
          let ?q = "q\<lparr>po_launch_error := l\<rparr>"
          have "only_errors ?q (fst ?c)"
            using only_errors_trans [OF reset_pair_errors [of "(?q, t)" os events] reset_pair_errors]
            by simp
          from only_errors_trans [OF only_errors_launch_error this]
          have "only_errors p (fst ?c)" by (rule only_errors_trans [OF errors])
          with False ready error True opened Inr channels spawn Inl show thesis
            by (intro failed' [of "fst ?c" "snd ?c"]) (simp_all add: launch_def Let_def fail_launch_def)
        next
          case spawned': (Inr child)
          let ?q = "record_launch child (snd control) (fst events) q"
          let ?c = "reset_descriptor os (fst control) (reset_descriptor os (snd events) (?q, t))"
          have "child > 0"
            using spawn spawned' by (auto simp: spawn_worker_def split: prod.splits if_splits)
          moreover have "only_errors ?q (fst ?c)" using reset_twice_errors [of "(?q, t)"] by simp
          moreover have "launch os (p, w) = (True, fst ?c, snd ?c)"
            using False ready error True opened Inr channels spawn spawned'
            by (simp add: launch_def Let_def)
          ultimately show thesis by (intro spawned [OF _ errors False])
        qed
      qed
    qed
  qed
qed

lemma record_launch_ok:
  assumes "process_ok p" and "\<not> po_launched p" and "child > 0"
  shows "process_ok (record_launch child control event p)"
  using assms by (auto simp: process_ok_def frames_ok_def ownership_ok_def record_launch_def)

lemma launch_ok:
  assumes "process_ok p"
  shows "process_ok (fst (snd (launch os (p, w))))"
proof (cases rule: launch_cases [of os p w])
  case (failed q w')
  with assms show ?thesis by (simp add: only_errors_ok)
next
  case already
  with assms show ?thesis by simp
next
  case (spawned q child control event q' w')
  have "\<not> po_launched q" using spawned(2,3) by (auto simp: only_errors_def)
  then have "process_ok (record_launch child control event q)"
    by (rule record_launch_ok [OF only_errors_ok [OF spawned(2) assms] _ spawned(4)])
  with spawned(1,5) show ?thesis by (simp add: only_errors_ok)
qed

subsection \<open>Stopping, polling, closing\<close>

lemma request_stop_ok:
  assumes "process_ok p"
  shows "process_ok (fst (request_stop os now (p, w)))"
proof -
  let ?p = "p\<lparr>po_stop_requested := True, po_stop_requested_at := Some now\<rparr>"
  have stopped: "process_ok ?p" using assms by (auto simp: process_ok_def frames_ok_def ownership_ok_def)
  have pending: "process_ok (?p\<lparr>pr_termination_pending := t\<rparr>)" for t
    using stopped by (simp add: process_ok_def frames_ok_def ownership_ok_def)
  have delivered: "process_ok (?p\<lparr>po_stop_delivered := True\<rparr>)"
    using stopped by (simp add: process_ok_def frames_ok_def ownership_ok_def)
  have undelivered: "process_ok (?p\<lparr>po_stop_error := e, pr_termination_pending := True\<rparr>)" for e
    using stopped by (simp add: process_ok_def frames_ok_def ownership_ok_def)
  show ?thesis
  proof (cases "po_stop_requested p \<or> pr_owned_pid p \<le> 0 \<or> po_exit_status p \<noteq> None \<or>
      pr_control_descriptor p < 0")
    case True
    with assms pending [of "pr_owned_pid p > 0 \<and> po_exit_status p = None"] show ?thesis
      by (auto simp: request_stop_def Let_def)
  next
    case False
    obtain r v where sent: "os_send os (pr_control_descriptor p) [kStopCommand] w = (r, v)"
      by (cases "os_send os (pr_control_descriptor p) [kStopCommand] w")
    with False delivered undelivered show ?thesis
      by (cases r) (simp_all add: request_stop_def Let_def)
  qed
qed

lemma collect_exit_ok:
  assumes "process_ok p"
  shows "process_ok (fst (collect_exit os (p, w)))"
proof -
  have "process_ok (p\<lparr>pr_owned_pid := - 1, po_exit_status := Some s\<rparr>)"
    and "process_ok (p\<lparr>pr_owned_pid := - 1, po_ownership_lost := True\<rparr>)"
    if "pr_owned_pid p > 0" "po_exit_status p = None" for s
    using assms that by (auto simp: process_ok_def frames_ok_def ownership_ok_def)
  moreover have "process_ok (q\<lparr>pr_termination_pending := t\<rparr>)" if "process_ok q" for q t
    using that by (simp add: process_ok_def frames_ok_def ownership_ok_def)
  ultimately show ?thesis
    using assms remember_io_error_ok [OF assms]
    by (auto simp: collect_exit_def not_le split: prod.splits sum.splits)
qed

lemma escalate_pending: "\<exists>t. escalate now p = p\<lparr>pr_termination_pending := t\<rparr>"
proof -
  have raise: "(if A then q\<lparr>pr_termination_pending := True\<rparr> else q)
      = q\<lparr>pr_termination_pending := A \<or> pr_termination_pending q\<rparr>" for A and q :: process
    by simp
  show ?thesis
    unfolding escalate_def Let_def raise by (cases "po_stop_requested_at p") auto
qed

lemma escalate_fields [simp]:
  "pr_owned_pid (escalate now p) = pr_owned_pid p" "po_exit_status (escalate now p) = po_exit_status p"
  "po_launched (escalate now p) = po_launched p"
  "pr_termination_attempted (escalate now p) = pr_termination_attempted p"
  "po_ownership_lost (escalate now p) = po_ownership_lost p"
  using escalate_pending [of now p] by auto

lemma escalate_ok:
  assumes "process_ok p"
  shows "process_ok (escalate now p)"
proof -
  obtain t where e: "escalate now p = p\<lparr>pr_termination_pending := t\<rparr>"
    using escalate_pending [of now p] by blast
  show ?thesis using assms by (simp add: e process_ok_def frames_ok_def ownership_ok_def)
qed

lemma request_termination_ok:
  assumes "process_ok p"
  shows "process_ok (fst (request_termination_once os (p, w)))"
proof -
  let ?p = "p\<lparr>pr_termination_attempted := True, po_termination_requested := True\<rparr>"
  show ?thesis
  proof (cases "\<not> pr_termination_pending p \<or> pr_termination_attempted p \<or> pr_owned_pid p \<le> 0 \<or>
      po_exit_status p \<noteq> None \<or> po_ownership_lost p")
    case True
    with assms show ?thesis by (auto simp: request_termination_once_def)
  next
    case False
    then have "po_launched p" using assms by (simp add: process_ok_def ownership_ok_def)
    then have attempted: "process_ok ?p"
      using assms by (simp add: process_ok_def frames_ok_def ownership_ok_def)
    then have "process_ok (?p\<lparr>po_termination_error := e\<rparr>)" for e
      by (simp add: process_ok_def frames_ok_def ownership_ok_def)
    moreover obtain r v where "os_kill os (pr_owned_pid p) w = (r, v)"
      by (cases "os_kill os (pr_owned_pid p) w")
    ultimately show ?thesis
      using False attempted by (cases r) (simp_all add: request_termination_once_def Let_def)
  qed
qed

lemma poll_ok:
  assumes "reads_bounded os" and "process_ok p"
  shows "process_ok (fst (poll os now (p, w)))"
proof -
  obtain q v where drained: "drain_events os (p, w) = (q, v)" by (cases "drain_events os (p, w)")
  have "process_ok q" using drain_events_ok [OF assms(1), of "(p, w)"] assms(2) drained by simp
  then have "process_ok (fst (collect_exit os (q, v)))" by (rule collect_exit_ok)
  then have "process_ok (escalate now (fst (collect_exit os (q, v))))" by (rule escalate_ok)
  from request_termination_ok [OF this, of os "snd (collect_exit os (q, v))"] assms(2)
  show ?thesis by (simp add: poll_def drained apfst_def map_prod_def split_beta)
qed

lemma close_channels_ok:
  assumes "process_ok p"
  shows "process_ok (fst (snd (close_channels os (p, w))))"
proof -
  have close: "process_ok q \<Longrightarrow> process_ok (fst (snd (close_once os fd (q, v))))" for q fd v
  proof -
    assume q: "process_ok q"
    then have "process_ok ((remember_io_error e q)\<lparr>pr_channel_cleanup_unknown := True\<rparr>)" for e
      using remember_io_error_ok [OF q] by (simp add: process_ok_def frames_ok_def ownership_ok_def)
    with q show ?thesis by (auto simp: close_once_def split: prod.splits sum.splits)
  qed
  have fields: "pr_event_descriptor (fst (snd (close_once os fd (q, v)))) = pr_event_descriptor q"
    "pr_control_descriptor (fst (snd (close_once os fd (q, v)))) = pr_control_descriptor q"
    "po_exit_status (fst (snd (close_once os fd (q, v)))) = po_exit_status q"
    "po_event_eof (fst (snd (close_once os fd (q, v)))) = po_event_eof q"
    "po_channels_closed (fst (snd (close_once os fd (q, v)))) = po_channels_closed q" for q fd v
    by (auto simp: close_once_def remember_io_error_def split: prod.splits sum.splits)
  show ?thesis
  proof (cases "po_channels_closed p \<or> po_exit_status p = None \<or> \<not> po_event_eof p \<or>
      po_ownership_lost p \<or> pr_channel_cleanup_unknown p")
    case True
    with assms show ?thesis by (auto simp: close_channels_def)
  next
    case False
    let ?p = "p\<lparr>pr_control_descriptor := - 1\<rparr>"
    obtain a q v where first: "close_once os (pr_control_descriptor p) (?p, w) = (a, q, v)"
      by (cases "close_once os (pr_control_descriptor p) (?p, w)") auto
    have "process_ok ?p" using assms False by (auto simp: process_ok_def frames_ok_def ownership_ok_def)
    from close [OF this, of "pr_control_descriptor p" w] have q: "process_ok q" by (simp add: first)
    have q_fields: "pr_control_descriptor q = - 1" "po_exit_status q = po_exit_status p"
      "po_event_eof q" "\<not> po_channels_closed q"
      using fields [of "pr_control_descriptor p" ?p w] False by (simp_all add: first)
    let ?q = "q\<lparr>pr_event_descriptor := - 1\<rparr>"
    obtain b r u where second: "close_once os (pr_event_descriptor q) (?q, v) = (b, r, u)"
      by (cases "close_once os (pr_event_descriptor q) (?q, v)") auto
    have "process_ok ?q" using q q_fields by (auto simp: process_ok_def frames_ok_def ownership_ok_def)
    from close [OF this, of "pr_event_descriptor q" v] have r: "process_ok r" by (simp add: second)
    have "pr_control_descriptor r = - 1" "pr_event_descriptor r = - 1" "po_exit_status r \<noteq> None" "po_event_eof r"
      using fields [of "pr_event_descriptor q" ?q v] q_fields False by (simp_all add: second)
    with r have "process_ok (r\<lparr>po_channels_closed := c\<rparr>)" for c
      by (auto simp: process_ok_def frames_ok_def ownership_ok_def)
    with False show ?thesis by (auto simp: close_channels_def first second)
  qed
qed

subsection \<open>The machine\<close>

datatype process_call = PcLaunch | PcStop u64 | PcPoll u64 | PcClose

fun process_step :: "'w os \<Rightarrow> process \<times> 'w \<Rightarrow> process_call \<Rightarrow> (process \<times> 'w) \<times> bool" where
  "process_step os pw PcLaunch = prod.swap (launch os pw)"
| "process_step os pw (PcStop now) = (request_stop os now pw, True)"
| "process_step os pw (PcPoll now) = (poll os now pw, True)"
| "process_step os pw PcClose = prod.swap (close_channels os pw)"

lemma process_step_ok:
  assumes "reads_bounded os" and "process_ok (fst pw)"
  shows "process_ok (fst (fst (process_step os pw c)))"
  using assms
  by (cases pw; cases c) (simp_all add: launch_ok request_stop_ok poll_ok close_channels_ok)

text \<open>
  What each operation on a process leaves alone, and when a process has nothing left to
  clean up: its destructor then makes no system call and cannot terminate the program.
\<close>

subsection \<open>What drained bytes leave alone\<close>

lemma receive_bytes_fields [simp]:
  "pr_owned_pid (fst (receive_bytes bs p)) = pr_owned_pid p"
  "po_launched (fst (receive_bytes bs p)) = po_launched p"
  "pr_termination_attempted (fst (receive_bytes bs p)) = pr_termination_attempted p"
  "pr_control_descriptor (fst (receive_bytes bs p)) = pr_control_descriptor p"
  "pr_event_descriptor (fst (receive_bytes bs p)) = pr_event_descriptor p"
  by (simp_all add: receive_bytes_def Let_def)

lemma remember_fields [simp]:
  "pr_owned_pid (remember_io_error e p) = pr_owned_pid p"
  "po_launched (remember_io_error e p) = po_launched p"
  "pr_termination_attempted (remember_io_error e p) = pr_termination_attempted p"
  "pr_control_descriptor (remember_io_error e p) = pr_control_descriptor p"
  "pr_event_descriptor (remember_io_error e p) = pr_event_descriptor p"
  by (simp_all add: remember_io_error_def)

lemma reach_eof_fields [simp]:
  "pr_owned_pid (reach_eof p) = pr_owned_pid p" "po_launched (reach_eof p) = po_launched p"
  "pr_termination_attempted (reach_eof p) = pr_termination_attempted p"
  "pr_control_descriptor (reach_eof p) = pr_control_descriptor p"
  "pr_event_descriptor (reach_eof p) = pr_event_descriptor p"
  by (simp_all add: reach_eof_def)

lemma drain_keeps:
  assumes "\<And>bs p. F (fst (receive_bytes bs p)) = F p" and "\<And>e p. F (remember_io_error e p) = F p"
    and "\<And>p. F (reach_eof p) = F p"
  shows "F (fst (drain os fuel n (p, w))) = F p"
proof (induction fuel arbitrary: n p w)
  case (Suc fuel)
  show ?case
    by (cases "os_read os (pr_event_descriptor p) (frame_size - length (pr_buffer p)) w";
        cases "fst (os_read os (pr_event_descriptor p) (frame_size - length (pr_buffer p)) w)")
      (use Suc in \<open>auto simp: assms split_beta\<close>)
qed simp

lemma drain_events_keeps:
  assumes "\<And>bs p. F (fst (receive_bytes bs p)) = F p" and "\<And>e p. F (remember_io_error e p) = F p"
    and "\<And>p. F (reach_eof p) = F p"
  shows "F (fst (drain_events os (p, w))) = F p"
  unfolding drain_events_def by (simp add: drain_keeps [where F = F, OF assms])

lemma drain_preserves:
  assumes "\<And>bs p. P p \<Longrightarrow> P (fst (receive_bytes bs p))" and "\<And>e p. P p \<Longrightarrow> P (remember_io_error e p)"
    and "\<And>p. P p \<Longrightarrow> P (reach_eof p)"
  shows "P p \<Longrightarrow> P (fst (drain os fuel n (p, w)))"
proof (induction fuel arbitrary: n p w)
  case (Suc fuel)
  show ?case
    by (cases "os_read os (pr_event_descriptor p) (frame_size - length (pr_buffer p)) w";
        cases "fst (os_read os (pr_event_descriptor p) (frame_size - length (pr_buffer p)) w)")
      (use Suc in \<open>auto simp: assms split_beta\<close>)
qed simp

lemma collect_exit_keeps:
  "po_launched (fst (collect_exit os (p, w))) = po_launched p"
  "pr_termination_attempted (fst (collect_exit os (p, w))) = pr_termination_attempted p"
  "pr_control_descriptor (fst (collect_exit os (p, w))) = pr_control_descriptor p"
  "pr_event_descriptor (fst (collect_exit os (p, w))) = pr_event_descriptor p"
  "pr_owned_pid p \<le> 0 \<Longrightarrow> pr_owned_pid (fst (collect_exit os (p, w))) \<le> 0"
  by (auto simp: collect_exit_def split: prod.splits sum.splits)

lemma escalate_descriptors [simp]:
  "pr_control_descriptor (escalate now p) = pr_control_descriptor p"
  "pr_event_descriptor (escalate now p) = pr_event_descriptor p"
  using escalate_pending [of now p] by auto

lemma request_termination_keeps:
  "po_launched (fst (request_termination_once os (p, w))) = po_launched p"
  "pr_owned_pid (fst (request_termination_once os (p, w))) = pr_owned_pid p"
  "pr_control_descriptor (fst (request_termination_once os (p, w))) = pr_control_descriptor p"
  "pr_event_descriptor (fst (request_termination_once os (p, w))) = pr_event_descriptor p"
  "pr_termination_attempted p \<Longrightarrow> pr_termination_attempted (fst (request_termination_once os (p, w)))"
  by (simp_all add: request_termination_once_def Let_def split: prod.splits sum.splits)

lemma request_stop_keeps:
  "po_launched (fst (request_stop os t (p, w))) = po_launched p"
  "pr_owned_pid (fst (request_stop os t (p, w))) = pr_owned_pid p"
  "pr_termination_attempted (fst (request_stop os t (p, w))) = pr_termination_attempted p"
  "pr_control_descriptor (fst (request_stop os t (p, w))) = pr_control_descriptor p"
  "pr_event_descriptor (fst (request_stop os t (p, w))) = pr_event_descriptor p"
  by (simp_all add: request_stop_def Let_def split: prod.splits sum.splits)

lemma close_once_keeps [simp]:
  "po_launched (fst (snd (close_once os fd (p, w)))) = po_launched p"
  "pr_owned_pid (fst (snd (close_once os fd (p, w)))) = pr_owned_pid p"
  "pr_termination_attempted (fst (snd (close_once os fd (p, w)))) = pr_termination_attempted p"
  by (simp_all add: close_once_def split: prod.splits sum.splits)

lemma close_channels_keeps:
  "po_launched (fst (snd (close_channels os (p, w)))) = po_launched p"
  "pr_owned_pid (fst (snd (close_channels os (p, w)))) = pr_owned_pid p"
  "pr_termination_attempted (fst (snd (close_channels os (p, w)))) = pr_termination_attempted p"
  by (simp_all add: close_channels_def split_beta)

subsection \<open>Nothing left to clean up\<close>

text \<open>A failed close is recorded as an error and excludes that the channels count as closed.\<close>

definition cleanup_ok :: "process \<Rightarrow> bool" where
  "cleanup_ok p \<longleftrightarrow> (pr_channel_cleanup_unknown p \<longrightarrow> po_io_error p \<noteq> 0 \<and> \<not> po_channels_closed p)"

definition clear :: "process \<Rightarrow> bool" where
  "clear p \<longleftrightarrow> po_channels_closed p \<or> \<not> po_launched p \<and> \<not> pr_channel_cleanup_unknown p"

lemma clear_cleanup:
  assumes "process_ok p" and "cleanup_ok p" and "clear p"
  shows "\<exists>q. cleanup_owned_child os (p, w) = Some (True, q, w)"
proof -
  have "\<not> po_ownership_lost p" "pr_owned_pid p \<le> 0" "pr_control_descriptor p < 0"
    "pr_event_descriptor p < 0" "\<not> pr_channel_cleanup_unknown p"
    using assms by (auto simp: process_ok_def ownership_ok_def cleanup_ok_def clear_def)
  then show ?thesis by (simp add: cleanup_owned_child_def close_owned_channels_def close_quietly_def)
qed

lemma cleanup_unlaunched: "\<exists>q. cleanup_owned_child os (make_process e n g, w) = Some (True, q, w)"
  by (rule clear_cleanup [OF make_process_ok]) (simp_all add: cleanup_ok_def clear_def make_process_def)

lemma only_errors_cleanup:
  assumes "only_errors p q" and "cleanup_ok p" and "\<not> po_channels_closed p"
  shows "cleanup_ok q" "\<not> po_channels_closed q" "po_launched q = po_launched p"
  using assms unfolding only_errors_def cleanup_ok_def by auto

lemma launch_cleanup:
  assumes "launch os (p, w) = (b, q, w')" and "cleanup_ok p" and "\<not> po_channels_closed p"
  shows "cleanup_ok q" "\<not> po_channels_closed q" "po_launched q = b"
proof -
  have "cleanup_ok q \<and> \<not> po_channels_closed q \<and> po_launched q = b"
  proof (cases rule: launch_cases [of os p w])
    case (failed q w')
    with assms only_errors_cleanup [OF failed(2)] show ?thesis by simp
  next
    case already
    with assms show ?thesis by simp
  next
    case (spawned q child control event q' w')
    note opened = only_errors_cleanup [OF spawned(2) assms(2,3)]
    have "cleanup_ok (record_launch child control event q)"
      "\<not> po_channels_closed (record_launch child control event q)"
      using opened by (simp_all add: record_launch_def cleanup_ok_def)
    from only_errors_cleanup [OF spawned(5) this] assms(1) spawned(1) show ?thesis
      by (simp add: record_launch_def)
  qed
  then show "cleanup_ok q" "\<not> po_channels_closed q" "po_launched q = b" by simp_all
qed

lemma request_stop_fields:
  "po_channels_closed (fst (request_stop os t (p, w))) = po_channels_closed p"
  "pr_channel_cleanup_unknown (fst (request_stop os t (p, w))) = pr_channel_cleanup_unknown p"
  "po_io_error (fst (request_stop os t (p, w))) = po_io_error p"
  "po_exit_status (fst (request_stop os t (p, w))) = po_exit_status p"
  "po_event_eof (fst (request_stop os t (p, w))) = po_event_eof p"
  "po_ownership_lost (fst (request_stop os t (p, w))) = po_ownership_lost p"
  "po_malformed (fst (request_stop os t (p, w))) = po_malformed p"
  by (simp_all add: request_stop_def Let_def split: prod.splits sum.splits)

lemma poll_fields:
  "po_launched (fst (poll os t (p, w))) = po_launched p"
  "po_channels_closed (fst (poll os t (p, w))) = po_channels_closed p"
  "pr_channel_cleanup_unknown (fst (poll os t (p, w))) = pr_channel_cleanup_unknown p"
  "po_io_error p \<noteq> 0 \<Longrightarrow> po_io_error (fst (poll os t (p, w))) \<noteq> 0"
proof -
  have escalated: "po_launched (escalate t q) = po_launched q" "po_channels_closed (escalate t q) = po_channels_closed q"
    "pr_channel_cleanup_unknown (escalate t q) = pr_channel_cleanup_unknown q" "po_io_error (escalate t q) = po_io_error q" for q
    using escalate_pending [of t q] by auto
  have collected: "po_channels_closed (fst (collect_exit os qw)) = po_channels_closed (fst qw)"
    "po_launched (fst (collect_exit os qw)) = po_launched (fst qw)"
    "pr_channel_cleanup_unknown (fst (collect_exit os qw)) = pr_channel_cleanup_unknown (fst qw)"
    "po_io_error (fst qw) \<noteq> 0 \<Longrightarrow> po_io_error (fst (collect_exit os qw)) \<noteq> 0" for qw
    by (auto simp: collect_exit_def remember_io_error_def split: prod.splits sum.splits)
  have killed: "po_channels_closed (fst (request_termination_once os qw)) = po_channels_closed (fst qw)"
    "po_launched (fst (request_termination_once os qw)) = po_launched (fst qw)"
    "pr_channel_cleanup_unknown (fst (request_termination_once os qw)) = pr_channel_cleanup_unknown (fst qw)"
    "po_io_error (fst (request_termination_once os qw)) = po_io_error (fst qw)" for qw
    by (simp_all add: request_termination_once_def Let_def split: prod.splits sum.splits)
  have drained: "po_channels_closed (fst (drain_events os (p, w))) = po_channels_closed p"
    "po_launched (fst (drain_events os (p, w))) = po_launched p"
    "pr_channel_cleanup_unknown (fst (drain_events os (p, w))) = pr_channel_cleanup_unknown p"
    by (rule drain_events_keeps; simp add: receive_bytes_def remember_io_error_def reach_eof_def Let_def)+
  have "po_io_error p \<noteq> 0 \<Longrightarrow> po_io_error (fst (drain os drain_fuel 0 (p, w))) \<noteq> 0"
    by (rule drain_preserves [where P = "\<lambda>q. po_io_error q \<noteq> 0"])
      (simp_all add: receive_bytes_def remember_io_error_def reach_eof_def Let_def)
  then have errors: "po_io_error p \<noteq> 0 \<Longrightarrow> po_io_error (fst (drain_events os (p, w))) \<noteq> 0"
    by (simp add: drain_events_def)
  show "po_launched (fst (poll os t (p, w))) = po_launched p"
    "po_channels_closed (fst (poll os t (p, w))) = po_channels_closed p"
    "pr_channel_cleanup_unknown (fst (poll os t (p, w))) = pr_channel_cleanup_unknown p"
    "po_io_error p \<noteq> 0 \<Longrightarrow> po_io_error (fst (poll os t (p, w))) \<noteq> 0"
    by (simp_all add: poll_def escalated collected killed drained errors)
qed

lemma close_channels_cleanup:
  assumes "close_channels os (p, w) = (b, q, w')"
  shows "po_launched q = po_launched p" "cleanup_ok p \<Longrightarrow> cleanup_ok q"
    "po_channels_closed q = b" "po_channels_closed p \<Longrightarrow> q = p \<and> b"
  using assms
  by (auto simp: close_channels_def close_once_def cleanup_ok_def remember_io_error_def EIO_def errno_or_nonzero
      split: prod.splits sum.splits if_split_asm)

subsection \<open>What an operation on a process keeps\<close>

definition process_moves :: "process \<Rightarrow> process \<Rightarrow> bool" where
  "process_moves p q \<longleftrightarrow>
     (process_ok p \<and> cleanup_ok p \<longrightarrow> process_ok q \<and> cleanup_ok q \<and> (clear p \<longrightarrow> clear q)) \<and>
     po_launched q = po_launched p"

lemma process_moves_refl: "process_moves p p"
  by (simp add: process_moves_def)

lemma process_moves_trans: "process_moves p q \<Longrightarrow> process_moves q r \<Longrightarrow> process_moves p r"
  by (auto simp: process_moves_def)

lemma request_stop_moves: "process_moves p (fst (request_stop os t (p, w)))"
  using request_stop_ok [of p os t w]
  by (simp add: process_moves_def cleanup_ok_def clear_def request_stop_fields request_stop_keeps)

lemma poll_moves: "reads_bounded os \<Longrightarrow> process_moves p (fst (poll os t (p, w)))"
  using poll_ok [of os p t w] poll_fields(1,2,3) [where os = os and t = t and p = p and w = w] poll_fields(4) [where os = os and t = t and p = p and w = w]
  by (auto simp: process_moves_def cleanup_ok_def clear_def)

lemma close_channels_moves: "process_moves p (fst (snd (close_channels os (p, w))))"
proof -
  obtain b q v where closed: "close_channels os (p, w) = (b, q, v)"
    by (cases "close_channels os (p, w)") auto
  note fields = close_channels_cleanup [OF closed]
  have "clear q" if "process_ok p" "clear p"
  proof (cases "po_channels_closed p")
    case True
    with fields(4) that show ?thesis by simp
  next
    case False
    with that have "po_exit_status p = None" by (auto simp: clear_def process_ok_def ownership_ok_def)
    with False closed have "q = p" by (simp add: close_channels_def)
    with that show ?thesis by simp
  qed
  with close_channels_ok [of p os w] fields(1,2) closed show ?thesis
    by (auto simp: process_moves_def)
qed

text \<open>A concrete operating system and a concrete worker process on it.\<close>

subsection \<open>A scripted operating system\<close>

text \<open>
  The world is the list of chunks still to be read from the pipe; the pipe ends with them.
  The child is process 7 and has exited with status 0.
\<close>

definition demo_os :: "u8 list list os" where
  "demo_os =
    \<lparr>os_stat = \<lambda>_ w. (Inr True, w), os_access_x = \<lambda>_ w. (Inr (), w),
     os_sigchld = \<lambda>w. (Inr (True, False), w), os_socketpair = \<lambda>w. (Inr (20, 21), w),
     os_pipe = \<lambda>w. (Inr (22, 23), w), os_dupfd = \<lambda>fd _ w. (Inr (fd + 10), w),
     os_getfl = \<lambda>_ w. (Inr 0, w), os_setfl = \<lambda>_ _ w. (Inr (), w), os_close = \<lambda>_ w. (Inr (), w),
     os_actions_init = \<lambda>w. (0, w), os_adddup2 = \<lambda>_ _ w. (0, w), os_spawn = \<lambda>_ _ _ w. ((0, 7), w),
     os_send = \<lambda>_ bs w. (Inr (length bs), w),
     os_read = \<lambda>_ n w. (case w of [] \<Rightarrow> (Inr [], []) | c # cs \<Rightarrow> (Inr (take n c), cs)),
     os_waitpid = \<lambda>pid w. (Inr (pid, 0), w), os_wait = \<lambda>pid w. (Inr (pid, 0), w),
     os_kill = \<lambda>_ w. (Inr (), w)\<rparr>"

lemma demo_os_bounded: "reads_bounded demo_os"
  by (auto simp: reads_bounded_def demo_os_def split: list.split)

definition demo_process :: process where
  "demo_process = make_process ''/worker'' 5 100"

definition demo_frames :: "frame list" where
  "demo_frames = [make_frame FkReady 0 0 0, make_frame FkProgress 5 30 0, make_frame FkCompleted 5 30 0]"

definition demo_chunks :: "u8 list list" where
  "demo_chunks =
    [take 5 (encode_frame (demo_frames ! 0)), drop 5 (encode_frame (demo_frames ! 0)),
     encode_frame (demo_frames ! 1), take 31 (encode_frame (demo_frames ! 2)),
     drop 31 (encode_frame (demo_frames ! 2))]"

definition demo_calls :: "process_call list" where
  "demo_calls = [PcLaunch, PcPoll 1, PcClose]"

end
