(* ===== verification/Compute_Process_Properties.thy ===== *)
theory Compute_Process_Properties
  imports Compute_Process_Machine
begin

text \<open>
  The properties of the frame protocol and of the host's side of a worker, each for every
  operating system that the record of calls can describe, with a scripted operating
  system as the concrete one.
\<close>

subsection \<open>Calls that can no longer be made\<close>

definition quiet :: "process \<Rightarrow> bool" where
  "quiet p \<longleftrightarrow> po_launched p \<and> (pr_termination_attempted p \<or> pr_owned_pid p \<le> 0)"

lemma drain_without_kill: "drain (os\<lparr>os_kill := k\<rparr>) fuel n (p, w) = drain os fuel n (p, w)"
  by (induction fuel arbitrary: n p w) (simp_all split: prod.split sum.split)

lemma drain_without_close: "drain (os\<lparr>os_close := k\<rparr>) fuel n (p, w) = drain os fuel n (p, w)"
  by (induction fuel arbitrary: n p w) (simp_all split: prod.split sum.split)

lemma other_calls:
  "os_waitpid (os\<lparr>os_kill := k\<rparr>) = os_waitpid os" "os_send (os\<lparr>os_kill := k\<rparr>) = os_send os"
  "os_close (os\<lparr>os_kill := k\<rparr>) = os_close os"
  "os_waitpid (os\<lparr>os_close := h\<rparr>) = os_waitpid os" "os_send (os\<lparr>os_close := h\<rparr>) = os_send os"
  "os_kill (os\<lparr>os_close := h\<rparr>) = os_kill os"
  by simp_all

lemma calls_without_kill:
  "collect_exit (os\<lparr>os_kill := k\<rparr>) pw = collect_exit os pw"
  "request_stop (os\<lparr>os_kill := k\<rparr>) t pw = request_stop os t pw"
  "close_channels (os\<lparr>os_kill := k\<rparr>) pw = close_channels os pw"
  unfolding collect_exit_def request_stop_def close_channels_def close_once_def other_calls
  by (rule refl)+

lemma calls_without_close:
  "collect_exit (os\<lparr>os_close := k\<rparr>) pw = collect_exit os pw"
  "request_stop (os\<lparr>os_close := k\<rparr>) t pw = request_stop os t pw"
  "request_termination_once (os\<lparr>os_close := k\<rparr>) pw = request_termination_once os pw"
  unfolding collect_exit_def request_stop_def request_termination_once_def other_calls
  by (rule refl)+

lemma quiet_poll:
  assumes "quiet p"
  shows "quiet (fst (poll os t (p, w)))" and "poll (os\<lparr>os_kill := k\<rparr>) t (p, w) = poll os t (p, w)"
proof -
  obtain q v where d: "drain_events os (p, w) = (q, v)" by (cases "drain_events os (p, w)")
  obtain r u where c: "collect_exit os (q, v) = (r, u)" by (cases "collect_exit os (q, v)")
  have "quiet q"
    using assms drain_events_keeps [where F = "\<lambda>p. (po_launched p, pr_termination_attempted p, pr_owned_pid p)",
        where os = os and p = p and w = w] d by (simp add: quiet_def)
  then have r: "quiet r"
    using collect_exit_keeps [where os = os and p = q and w = v] c by (auto simp: quiet_def)
  have quiet_end: "request_termination_once os' (escalate t r, u) = (escalate t r, u)" for os' :: "'a os"
    using r by (auto simp: request_termination_once_def quiet_def)
  have d': "drain_events (os\<lparr>os_kill := k\<rparr>) (p, w) = (q, v)"
    using d unfolding drain_events_def drain_without_kill .
  have c': "collect_exit (os\<lparr>os_kill := k\<rparr>) (q, v) = (r, u)"
    using c by (simp add: calls_without_kill)
  show "poll (os\<lparr>os_kill := k\<rparr>) t (p, w) = poll os t (p, w)"
    by (simp add: poll_def d d' c c' quiet_end)
  show "quiet (fst (poll os t (p, w)))"
    using r assms by (simp add: poll_def d c quiet_end) (simp add: quiet_def)
qed

lemma quiet_step:
  assumes "quiet (fst pw)"
  shows "quiet (fst (fst (process_step os pw c)))"
    and "process_step (os\<lparr>os_kill := k\<rparr>) pw c = process_step os pw c"
proof -
  obtain p w where pw: "pw = (p, w)" by (cases pw)
  have q: "quiet p" using assms pw by simp
  show "quiet (fst (fst (process_step os pw c)))"
    using q quiet_poll(1) [OF q]
    by (cases c) (simp_all add: pw launch_def quiet_def request_stop_keeps close_channels_keeps)
  show "process_step (os\<lparr>os_kill := k\<rparr>) pw c = process_step os pw c"
    using q quiet_poll(2) [OF q]
    by (cases c)
      (simp_all add: pw launch_def quiet_def calls_without_kill)
qed

definition shut :: "process \<Rightarrow> bool" where
  "shut p \<longleftrightarrow> po_launched p \<and> pr_control_descriptor p < 0 \<and> pr_event_descriptor p < 0"

lemma shut_close: "shut p \<Longrightarrow> shut (fst (snd (close_channels os (p, w))))"
  by (simp add: close_channels_def close_once_def shut_def)

lemma shut_poll:
  assumes "shut p"
  shows "shut (fst (poll os t (p, w)))" and "poll (os\<lparr>os_close := k\<rparr>) t (p, w) = poll os t (p, w)"
proof -
  have d: "drain_events os' (p, w) = (p, w)" for os' :: "'a os"
    using assms by (simp add: drain_events_def shut_def)
  obtain r u where c: "collect_exit os (p, w) = (r, u)" by (cases "collect_exit os (p, w)")
  have c': "collect_exit (os\<lparr>os_close := k\<rparr>) (p, w) = (r, u)" using c by (simp add: calls_without_close)
  have r: "shut r" using assms collect_exit_keeps [where os = os and p = p and w = w] c by (simp add: shut_def)
  show "poll (os\<lparr>os_close := k\<rparr>) t (p, w) = poll os t (p, w)"
    by (simp add: poll_def d c c' calls_without_close)
  show "shut (fst (poll os t (p, w)))"
    using r assms by (simp add: poll_def d c) (simp add: shut_def request_termination_keeps)
qed

lemma shut_step:
  assumes "shut (fst pw)"
  shows "shut (fst (fst (process_step os pw c)))"
    and "process_step (os\<lparr>os_close := k\<rparr>) pw c = process_step os pw c"
proof -
  obtain p w where pw: "pw = (p, w)" by (cases pw)
  have s: "shut p" using assms pw by simp
  show "shut (fst (fst (process_step os pw c)))"
    using s shut_poll(1) [OF s] shut_close [OF s]
    by (cases c) (simp_all add: pw launch_def shut_def request_stop_keeps)
  show "process_step (os\<lparr>os_close := k\<rparr>) pw c = process_step os pw c"
    using s shut_poll(2) [OF s]
    by (cases c)
      (simp_all add: pw launch_def shut_def calls_without_close close_channels_def close_once_def)
qed

lemma run_indifferent:
  assumes "\<And>s c. P s \<Longrightarrow> P (fst (f s c))" and "\<And>s c. P s \<Longrightarrow> g s c = f s c" and "P s"
  shows "run g s cs = run f s cs \<and> trace g s cs = trace f s cs"
  using assms(3) by (induction cs arbitrary: s) (simp_all add: assms)

interpretation quiet_process: latch_machine "process_step os" "\<lambda>_. True" "\<lambda>pw. quiet (fst pw)" for os
  by unfold_locales (simp_all add: quiet_step)

interpretation shut_process: latch_machine "process_step os" "\<lambda>_. True" "\<lambda>pw. shut (fst pw)" for os
  by unfold_locales (simp_all add: shut_step)

subsection \<open>A concrete run\<close>

lemma demo_process_run:
  "(case run (process_step demo_os) (demo_process, demo_chunks) demo_calls of (p, w) \<Rightarrow>
      quiet p \<and> shut p \<and> po_terminal p = TmCompleted \<and> po_terminal_value p = 30 \<and>
      po_channels_closed p \<and> \<not> po_malformed p \<and> w = [])"
  by code_simp

subsection \<open>Properties\<close>





text \<open>
  Draining the pipe ends: 128 frames of 32 bytes bound the turns of the loop, whatever
  a conforming \<open>read\<close> answers, so turns beyond the modelled fuel would change nothing.
\<close>

theorem draining_ends:
  assumes "reads_bounded os" and "length (pr_buffer p) < frame_size"
  shows "drain os (drain_fuel + k) 0 (p, w) = drain os drain_fuel 0 (p, w)"
  by (rule drain_fuel_enough [OF assms])

lemma draining_ends_witness:
  "drain demo_os (drain_fuel + 1) 0 (demo_process, demo_chunks)
     = drain demo_os drain_fuel 0 (demo_process, demo_chunks)"
  by (rule draining_ends [OF demo_os_bounded]) (simp add: demo_process_def make_process_def)

text \<open>
  Whatever the operating system and the worker do, the host's view stays consistent:
  progress and drop counts stay within the requested work, a terminal frame comes after
  the start (a cancelled one after an acknowledged stop, a completed one with all the work
  and no acknowledged stop), an exit status means that nothing is owned any more, and the
  pid that may be signalled is that of the unreaped child.
\<close>

theorem process_stays_well_formed:
  assumes "reads_bounded os"
  shows "process_ok (fst (run (process_step os) (make_process e n g, w) cs))"
proof -
  have "process_ok (fst (run (process_step os) pw cs))" if "process_ok (fst pw)" for pw
    using that by (induction cs arbitrary: pw) (simp_all add: process_step_ok [OF assms])
  then show ?thesis by (simp add: make_process_ok)
qed

lemma process_stays_well_formed_witness:
  "process_ok (fst (run (process_step demo_os) (demo_process, demo_chunks) demo_calls))"
  unfolding demo_process_def by (rule process_stays_well_formed [OF demo_os_bounded])



text \<open>
  The channels are closed at most once: after \<open>close_channels\<close> has attempted it, even
  when the system reported a failure, no operation closes a descriptor again.
\<close>

theorem channels_closed_once:
  assumes "po_launched p" and "pr_control_descriptor p < 0" and "pr_event_descriptor p < 0"
  shows "run (process_step (os\<lparr>os_close := k\<rparr>)) (p, w) cs = run (process_step os) (p, w) cs \<and>
    trace (process_step (os\<lparr>os_close := k\<rparr>)) (p, w) cs = trace (process_step os) (p, w) cs"
  by (rule run_indifferent [where P = "\<lambda>pw. shut (fst pw)"])
    (use assms in \<open>simp_all add: shut_step\<close>, simp add: shut_def)

lemma channels_closed_once_witness:
  "run (process_step (demo_os\<lparr>os_close := (\<lambda>_ _. (Inl 1, []))\<rparr>))
     (run (process_step demo_os) (demo_process, demo_chunks) demo_calls) [PcClose, PcPoll 900] =
   run (process_step demo_os)
     (run (process_step demo_os) (demo_process, demo_chunks) demo_calls) [PcClose, PcPoll 900]"
proof -
  obtain p w where pw: "run (process_step demo_os) (demo_process, demo_chunks) demo_calls = (p, w)"
    by (cases "run (process_step demo_os) (demo_process, demo_chunks) demo_calls")
  with demo_process_run have "shut p" by simp
  then have "po_launched p" "pr_control_descriptor p < 0" "pr_event_descriptor p < 0"
    by (simp_all add: shut_def)
  from channels_closed_once [OF this, where os = demo_os and k = "\<lambda>_ _. (Inl 1, [])" and w = w] show ?thesis unfolding pw by blast
qed

end
