(* ===== verification/Compute_Worker.thy ===== *)
theory Compute_Worker
  imports Compute_Protocol
begin

text \<open>
  \<open>src/compute/compute_worker.cpp\<close>: the child that sums the squares of \<open>i mod 1000\<close> in
  batches, reports progress on its event pipe, and polls its control socket for the stop
  byte between batches. Its system calls are a record of functions over a world, like the
  host's. A required frame is retried against a deadline of one second on the steady
  clock (in nanoseconds), so sending one may in principle not return: \<open>None\<close>.
\<close>

record 'w wos =
  wo_now :: "'w \<Rightarrow> nat \<times> 'w"
  wo_write :: "u8 list \<Rightarrow> 'w \<Rightarrow> (int + nat) \<times> 'w"  \<comment> \<open>to the event descriptor\<close>
  wo_read :: "'w \<Rightarrow> (int + u8 list) \<times> 'w"  \<comment> \<open>one byte of the control descriptor\<close>
  wo_poll :: "int \<Rightarrow> 'w \<Rightarrow> (int + unit) \<times> 'w"
  wo_ignore_sigpipe :: "'w \<Rightarrow> bool \<times> 'w"

definition kRequiredFrameDeadline :: nat where "kRequiredFrameDeadline = 1000 * 1000000"

datatype SendResult = SrSent | SrDropped | SrFailed

text \<open>The poll timeout: the whole milliseconds left, at least 1 and at most 10.\<close>

definition poll_timeout :: "nat \<Rightarrow> nat \<Rightarrow> int" where
  "poll_timeout deadline now = max 1 (min (int ((deadline - now) div 1000000)) 10)"

partial_function (option) send_loop ::
  "'w wos \<Rightarrow> frame \<Rightarrow> bool \<Rightarrow> nat \<Rightarrow> 'w \<Rightarrow> (SendResult \<times> 'w) option" where
  "send_loop os f required deadline w =
    (case wo_write os (encode_frame f) w of
       (answer, w1) \<Rightarrow>
         if answer = Inr frame_size then Some (SrSent, w1)
         else if \<not> isl answer then Some (SrFailed, w1)
         else if projl answer = EINTR then
           (if \<not> required then Some (SrDropped, w1)
            else case wo_now os w1 of
              (now, w2) \<Rightarrow>
                if now \<ge> deadline then Some (SrFailed, w2)
                else send_loop os f required deadline w2)
         else if projl answer \<noteq> EAGAIN then Some (SrFailed, w1)
         else if \<not> required then Some (SrDropped, w1)
         else case wo_now os w1 of
           (now, w2) \<Rightarrow>
             if now \<ge> deadline then Some (SrFailed, w2)
             else case wo_poll os (poll_timeout deadline now) w2 of
               (polled, w3) \<Rightarrow>
                 if isl polled \<and> projl polled \<noteq> EINTR then Some (SrFailed, w3)
                 else send_loop os f required deadline w3)"

definition send_frame :: "'w wos \<Rightarrow> frame \<Rightarrow> bool \<Rightarrow> 'w \<Rightarrow> (SendResult \<times> 'w) option" where
  "send_frame os f required w =
    (case wo_now os w of (now, w1) \<Rightarrow> send_loop os f required (now + kRequiredFrameDeadline) w1)"

text \<open>The arguments: \<open>from_chars\<close> reads decimal digits, all of them, without overflow.\<close>

definition is_digit :: "char \<Rightarrow> bool" where
  "is_digit c \<longleftrightarrow> 48 \<le> (of_char c :: nat) \<and> (of_char c :: nat) \<le> 57"

definition parse_iterations :: "string list \<Rightarrow> u64 option" where
  "parse_iterations argv =
    (if length argv \<noteq> 3 \<or> argv ! 1 \<noteq> ''--iterations'' then None
     else let argument = argv ! 2;
              n = read_decimal argument
          in if argument \<noteq> [] \<and> list_all is_digit argument \<and> n < 2 ^ 64 \<and>
                0 < n \<and> n \<le> unat kMaximumIterations
             then Some (of_nat n) else None)"

text \<open>The inner loop: \<open>n\<close> turns from the index \<open>completed\<close>.\<close>

primrec accumulate :: "nat \<Rightarrow> u64 \<Rightarrow> u64 \<Rightarrow> u64 \<times> u64" where
  "accumulate 0 completed acc = (completed, acc)"
| "accumulate (Suc n) completed acc =
     (let val = completed mod 1000 in accumulate n (completed + 1) (acc + val * val))"

definition run_batch :: "u64 \<Rightarrow> u64 \<Rightarrow> u64 \<Rightarrow> u64 \<times> u64" where
  "run_batch limit completed acc =
    (let final = min (completed + kBatchIterations) limit
     in accumulate (unat final - unat completed) completed acc)"

text \<open>The answer to a stop command: two required frames and the exit code.\<close>

definition acknowledge_stop :: "'w wos \<Rightarrow> u64 \<Rightarrow> u64 \<Rightarrow> u64 \<Rightarrow> 'w \<Rightarrow> (int \<times> 'w) option" where
  "acknowledge_stop os completed acc dropped w =
    (case send_frame os (make_frame FkStopAcknowledged completed acc dropped) True w of
       None \<Rightarrow> None
     | Some (r, w) \<Rightarrow>
         if r \<noteq> SrSent then Some (kFailureExitCode, w)
         else case send_frame os (make_frame FkCancelled completed acc dropped) True w of
           None \<Rightarrow> None
         | Some (r, w) \<Rightarrow> Some (if r \<noteq> SrSent then kFailureExitCode else kCancelledExitCode, w))"

partial_function (option) work_loop ::
  "'w wos \<Rightarrow> u64 \<Rightarrow> u64 \<Rightarrow> u64 \<Rightarrow> u64 \<Rightarrow> 'w \<Rightarrow> (int \<times> 'w) option" where
  "work_loop os limit completed acc dropped w =
    (if completed < limit then
       (case wo_read os w of
          (received, w) \<Rightarrow>
            if \<not> isl received \<and> length (projr received) = 1 then
              (if projr received \<noteq> [kStopCommand] then Some (kFailureExitCode, w)
               else acknowledge_stop os completed acc dropped w)
            else if \<not> isl received \<and> projr received = [] then Some (kFailureExitCode, w)
            else if isl received \<and> projl received \<noteq> EINTR \<and> projl received \<noteq> EAGAIN
            then Some (kFailureExitCode, w)
            else case run_batch limit completed acc of
              (completed, acc) \<Rightarrow>
                (case send_frame os (make_frame FkProgress completed acc dropped) False w of
                   None \<Rightarrow> None
                 | Some (r, w) \<Rightarrow>
                     if r = SrFailed then Some (kFailureExitCode, w)
                     else work_loop os limit completed acc
                            (if r = SrDropped then dropped + 1 else dropped) w))
     else
       (case send_frame os (make_frame FkCompleted completed acc dropped) True w of
          None \<Rightarrow> None
        | Some (r, w) \<Rightarrow> Some (if r = SrSent then 0 else kFailureExitCode, w)))"

definition run_worker :: "'w wos \<Rightarrow> u64 \<Rightarrow> 'w \<Rightarrow> (int \<times> 'w) option" where
  "run_worker os limit w =
    (case send_frame os (make_frame FkReady 0 0 0) True w of
       None \<Rightarrow> None
     | Some (r, w) \<Rightarrow>
         if r \<noteq> SrSent then Some (kFailureExitCode, w) else work_loop os limit 0 0 0 w)"

definition worker_main :: "'w wos \<Rightarrow> string list \<Rightarrow> 'w \<Rightarrow> (int \<times> 'w) option" where
  "worker_main os argv w =
    (case wo_ignore_sigpipe os w of
       (installed, w) \<Rightarrow>
         if \<not> installed then Some (kFailureExitCode, w)
         else case parse_iterations argv of
           None \<Rightarrow> Some (kFailureExitCode, w)
         | Some iterations \<Rightarrow> run_worker os iterations w)"

subsection \<open>The sum\<close>

text \<open>\<open>expected_sum\<close> of \<open>src/compute/compute_execution.cpp\<close>: the closed form the host checks.\<close>

definition expected_sum :: "u64 \<Rightarrow> u64" where
  "expected_sum iterations =
    (let remainder = iterations mod 1000
     in (iterations div 1000) * 332833500 +
        (if remainder = 0 then 0
         else (remainder - 1) * remainder * (2 * remainder - 1) div 6))"

definition reference_sum :: "nat \<Rightarrow> nat" where
  "reference_sum n = (\<Sum>i<n. (i mod 1000)\<^sup>2)"

lemma unat_mod_1000: "unat (w mod 1000 :: u64) = unat w mod 1000"
  by (simp add: unat_mod)

lemma square_word: "((w::u64) mod 1000) * (w mod 1000) = of_nat ((unat w mod 1000)\<^sup>2)"
proof -
  have "w mod 1000 = of_nat (unat w mod 1000)" by (simp add: word_arith_nat_mod)
  then show ?thesis by (simp add: power2_eq_square)
qed

lemma accumulate_sum:
  assumes "unat completed + n < 2 ^ 64" and "acc = of_nat (reference_sum (unat completed))"
  shows "accumulate n completed acc =
    (completed + of_nat n, of_nat (reference_sum (unat completed + n)))"
  using assms
proof (induction n arbitrary: completed acc)
  case 0
  then show ?case by simp
next
  case (Suc n)
  have next_index: "unat (completed + 1) = unat completed + 1"
    using Suc.prems(1) by (intro unat_word_ariths(1) [THEN trans]) (simp add: unat_word_ariths)
  have "accumulate n (completed + 1) (acc + completed mod 1000 * (completed mod 1000)) =
      (completed + 1 + of_nat n, of_nat (reference_sum (unat (completed + 1) + n)))"
  proof (rule Suc.IH)
    show "unat (completed + 1) + n < 2 ^ 64" using Suc.prems(1) next_index by simp
    show "acc + completed mod 1000 * (completed mod 1000) = of_nat (reference_sum (unat (completed + 1)))"
      unfolding next_index Suc.prems(2) square_word by (simp add: reference_sum_def)
  qed
  then show ?case unfolding next_index by (simp add: Let_def ac_simps)
qed

lemma sum_of_squares: "6 * (\<Sum>i<n. i\<^sup>2) = (n - 1) * n * (2 * n - 1)" for n :: nat
proof (induction n)
  case (Suc n)
  then show ?case by (cases n) (simp_all add: algebra_simps power2_eq_square)
qed simp

lemma reference_sum_period: "reference_sum (n + 1000) = reference_sum n + 332833500"
proof -
  have "reference_sum (n + m) = reference_sum n + (\<Sum>i<m. ((n + i) mod 1000)\<^sup>2)" for m
    by (induction m) (simp_all add: reference_sum_def)
  moreover have "(\<Sum>i<1000. ((n + i) mod 1000)\<^sup>2) = (332833500::nat)"
  proof (induction n)
    case 0
    have "(\<Sum>i<1000. (i mod 1000)\<^sup>2) = (\<Sum>i<1000. i\<^sup>2 :: nat)" by (rule sum.cong) simp_all
    also have "\<dots> = 332833500" using sum_of_squares [of 1000] by simp
    finally show ?case by simp
  next
    case (Suc n)
    have "(\<Sum>i<1000. ((Suc n + i) mod 1000)\<^sup>2) + (n mod 1000)\<^sup>2
        = (\<Sum>i<Suc 1000. ((n + i) mod 1000)\<^sup>2)"
      by (subst sum.lessThan_Suc_shift) simp
    also have "\<dots> = (\<Sum>i<1000. ((n + i) mod 1000)\<^sup>2) + (n mod 1000)\<^sup>2"
      by (subst sum.lessThan_Suc) simp
    finally show ?case using Suc by simp
  qed
  ultimately show ?thesis by simp
qed

lemma reference_sum_small: "n < 1000 \<Longrightarrow> reference_sum n = (n - 1) * n * (2 * n - 1) div 6"
proof -
  assume "n < 1000"
  then have "reference_sum n = (\<Sum>i<n. i\<^sup>2)" unfolding reference_sum_def by (intro sum.cong) auto
  also have "\<dots> = 6 * (\<Sum>i<n. i\<^sup>2) div 6" by simp
  finally show ?thesis by (simp only: sum_of_squares)
qed

lemma reference_sum_closed:
  "reference_sum n = (n div 1000) * 332833500 + (n mod 1000 - 1) * (n mod 1000) * (2 * (n mod 1000) - 1) div 6"
proof -
  have "reference_sum (q * 1000 + r) = q * 332833500 + reference_sum r" for q r
  proof (induction q)
    case (Suc q)
    have "Suc q * 1000 + r = (q * 1000 + r) + 1000" by simp
    then show ?case by (simp only: reference_sum_period Suc)
  qed simp
  from this [of "n div 1000" "n mod 1000"] show ?thesis by (simp add: reference_sum_small)
qed

lemma expected_sum_reference: "expected_sum n = of_nat (reference_sum (unat n))"
proof -
  let ?r = "n mod 1000" and ?m = "unat n mod 1000"
  have r: "?r = of_nat ?m" by (simp add: word_arith_nat_mod)
  have bound: "?m < 1000" by simp
  have tail: "(if ?r = 0 then 0 else (?r - 1) * ?r * (2 * ?r - 1) div 6)
      = of_nat ((?m - 1) * ?m * (2 * ?m - 1) div 6)"
  proof (cases "?m = 0")
    case True
    then have "?r = 0" by (simp add: r)
    then show ?thesis by (simp add: True)
  next
    case False
    have nonzero: "?r \<noteq> 0" using False by (metis unat_0 unat_mod_1000)
    have minus: "?r - 1 = of_nat (?m - 1)" using False by (simp add: r of_nat_diff)
    have twice: "2 * ?r - 1 = of_nat (2 * ?m - 1)" using False by (simp add: r of_nat_diff)
    have product: "(?r - 1) * ?r * (2 * ?r - 1) = of_nat ((?m - 1) * ?m * (2 * ?m - 1))"
      unfolding minus twice by (simp add: r)
    have "(?m - 1) * ?m * (2 * ?m - 1) \<le> 1000 * 1000 * 2000"
      using bound by (intro mult_mono) auto
    moreover have "(of_nat x :: u64) div 6 = of_nat (x div 6)" if "x \<le> 1000 * 1000 * 2000" for x
      using that by (simp add: word_arith_nat_div unat_of_nat take_bit_nat_eq_self)
    ultimately have "(of_nat ((?m - 1) * ?m * (2 * ?m - 1)) :: u64) div 6
        = of_nat ((?m - 1) * ?m * (2 * ?m - 1) div 6)" by blast
    with nonzero product show ?thesis by (simp only: if_False)
  qed
  have "n div 1000 = of_nat (unat n div 1000)" by (simp add: word_arith_nat_div)
  then show ?thesis
    unfolding expected_sum_def Let_def tail reference_sum_closed by simp
qed

end
