(* ===== verification/Compute_Conformance.thy ===== *)
theory Compute_Conformance
  imports Compute_Process Compute_Worker
begin

text \<open>
  The worker and the host's side of it belong together: every sequence of frames that the
  worker writes is one that \<open>consume\<close> accepts, the exit code agrees with the terminal
  frame, and the completed value is the one the host expects. A worker whose clock
  advances returns.
\<close>

subsection \<open>Recording what the worker writes\<close>

text \<open>An operating system that also keeps the frames that were written in full.\<close>

definition recording :: "'w wos \<Rightarrow> ('w \<times> frame list) wos" where
  "recording os =
    \<lparr>wo_now = (\<lambda>(w, l). case wo_now os w of (t, w) \<Rightarrow> (t, w, l)),
     wo_write = (\<lambda>bs (w, l). case wo_write os bs w of
       (r, w) \<Rightarrow> (r, w, if r = Inr frame_size then l @ [decode_frame bs] else l)),
     wo_read = (\<lambda>(w, l). case wo_read os w of (r, w) \<Rightarrow> (r, w, l)),
     wo_poll = (\<lambda>t (w, l). case wo_poll os t w of (r, w) \<Rightarrow> (r, w, l)),
     wo_ignore_sigpipe = (\<lambda>(w, l). case wo_ignore_sigpipe os w of (b, w) \<Rightarrow> (b, w, l))\<rparr>"

lemma recording_simps [simp]:
  "wo_now (recording os) (w, l) = (case wo_now os w of (t, w) \<Rightarrow> (t, w, l))"
  "wo_write (recording os) bs (w, l) = (case wo_write os bs w of
     (r, w) \<Rightarrow> (r, w, if r = Inr frame_size then l @ [decode_frame bs] else l))"
  "wo_read (recording os) (w, l) = (case wo_read os w of (r, w) \<Rightarrow> (r, w, l))"
  "wo_poll (recording os) t (w, l) = (case wo_poll os t w of (r, w) \<Rightarrow> (r, w, l))"
  by (simp_all add: recording_def)

lemma send_loop_records:
  assumes "send_loop (recording os) f required deadline wl = Some (r, wl')"
  shows "snd wl' = (if r = SrSent then snd wl @ [f] else snd wl)"
  using assms
proof (induction "recording os" f required deadline wl "(r, wl')" arbitrary: r wl'
    rule: send_loop.raw_induct [rotated, consumes 1])
  case (1 send_loop f required deadline wl)
  obtain w l where wl: "wl = (w, l)" by (cases wl)
  obtain answer w1 where sent: "wo_write os (encode_frame f) w = (answer, w1)"
    by (cases "wo_write os (encode_frame f) w")
  obtain time w2 where time: "wo_now os w1 = (time, w2)" by (cases "wo_now os w1")
  obtain polled w3 where polled: "wo_poll os (poll_timeout deadline time) w2 = (polled, w3)"
    by (cases "wo_poll os (poll_timeout deadline time) w2")
  show ?case
    using 1 by (auto simp: wl sent time polled decode_encode split: if_split_asm)
qed

lemma send_frame_records:
  assumes "send_frame (recording os) f required (w, l) = Some (r, w', l')"
  shows "l' = (if r = SrSent then l @ [f] else l)"
  using assms send_loop_records [of os f required _ _ r "(w', l')"]
  by (cases "wo_now os w") (auto simp: send_frame_def)

subsection \<open>What the host has seen while the worker works\<close>

definition working :: "u64 \<Rightarrow> u64 \<Rightarrow> u64 \<Rightarrow> process \<Rightarrow> bool" where
  "working limit completed dropped p \<longleftrightarrow>
     pr_iterations p = limit \<and> \<not> po_malformed p \<and> po_started p \<and> po_terminal p = TmNone \<and>
     \<not> po_stop_acknowledged p \<and> \<not> po_stop_ignored p \<and> po_progress p \<le> pr_last_iterations p \<and>
     pr_last_iterations p \<le> completed \<and> po_dropped_progress p \<le> dropped \<and> dropped \<le> completed \<and>
     completed \<le> limit"

text \<open>What the exit code says about the frames.\<close>

definition agrees :: "u64 \<Rightarrow> int \<Rightarrow> process \<Rightarrow> bool" where
  "agrees limit code p \<longleftrightarrow>
     \<not> po_malformed p \<and> (po_terminal p = TmCompleted \<longleftrightarrow> code = 0) \<and>
     (po_terminal p = TmCancelled \<longleftrightarrow> code = kCancelledExitCode) \<and>
     (code = 0 \<longrightarrow> po_terminal_iterations p = limit \<and> po_terminal_value p = expected_sum limit) \<and>
     (code = kCancelledExitCode \<longrightarrow> po_terminal_iterations p < limit)"

lemma consume_applies:
  assumes "\<not> po_malformed p" and "kind_of (fr_kind f) = Some k" and "\<not> malformed_frame p f"
    and "\<not> misplaced k p f"
  shows "consume f p = (apply_frame k f p)
    \<lparr>pr_last_iterations := fr_iterations f, po_dropped_progress := fr_dropped_progress f\<rparr>"
  using assms by (simp add: consume_def)

lemma working_frame_ok:
  assumes "working limit completed dropped p"
  shows "\<not> malformed_frame p (make_frame k completed v dropped)"
  using assms by (auto simp: working_def malformed_frame_def not_less)

lemma working_progress:
  assumes "working limit completed dropped p" and "completed < completed'" and "completed' \<le> limit"
  shows "working limit completed' dropped (consume (make_frame FkProgress completed' v dropped) p)"
proof -
  have bounds: "pr_last_iterations p < completed'" "dropped \<le> completed'" "po_dropped_progress p \<le> dropped"
    using assms by (auto simp: working_def)
  have "\<not> malformed_frame p (make_frame FkProgress completed' v dropped)"
    using assms bounds by (auto simp: working_def malformed_frame_def not_less)
  moreover have "\<not> misplaced FkProgress p (make_frame FkProgress completed' v dropped)"
    using assms(1) bounds by (auto simp: working_def)
  ultimately have "consume (make_frame FkProgress completed' v dropped) p =
      p\<lparr>po_progress := completed', pr_last_iterations := completed', po_dropped_progress := dropped\<rparr>"
    using assms(1) by (subst consume_applies [where k = FkProgress]) (auto simp: working_def)
  with assms bounds show ?thesis by (simp add: working_def)
qed

lemma working_wait:
  "working limit completed dropped p \<Longrightarrow> completed \<le> completed' \<Longrightarrow> completed' \<le> limit \<Longrightarrow>
    dropped \<le> dropped' \<Longrightarrow> dropped' \<le> completed' \<Longrightarrow> working limit completed' dropped' p"
  by (auto simp: working_def)

lemma working_completes:
  assumes "working limit limit dropped p" and "v = expected_sum limit"
  shows "agrees limit 0 (consume (make_frame FkCompleted limit v dropped) p)"
proof -
  have "\<not> misplaced FkCompleted p (make_frame FkCompleted limit v dropped)"
    using assms(1) by (auto simp: working_def)
  with assms working_frame_ok [OF assms(1)] show ?thesis
    by (subst consume_applies [where k = FkCompleted])
      (auto simp: working_def agrees_def kCancelledExitCode_def)
qed

lemma working_acknowledges:
  assumes "working limit completed dropped p" and "po_stop_requested p"
  shows "consume (make_frame FkStopAcknowledged completed v dropped) p =
    p\<lparr>po_stop_acknowledged := True, pr_last_iterations := completed, po_dropped_progress := dropped\<rparr>"
proof -
  have "\<not> misplaced FkStopAcknowledged p (make_frame FkStopAcknowledged completed v dropped)"
    using assms by (auto simp: working_def)
  with assms working_frame_ok [OF assms(1)] show ?thesis
    by (subst consume_applies [where k = FkStopAcknowledged]) (auto simp: working_def)
qed

lemma working_cancels:
  assumes "working limit completed dropped p" and "po_stop_requested p" and "completed < limit"
  shows "agrees limit kFailureExitCode (consume (make_frame FkStopAcknowledged completed v dropped) p)"
    and "agrees limit kCancelledExitCode
      (consume (make_frame FkCancelled completed v dropped)
        (consume (make_frame FkStopAcknowledged completed v dropped) p))"
proof -
  let ?q = "p\<lparr>po_stop_acknowledged := True, pr_last_iterations := completed, po_dropped_progress := dropped\<rparr>"
  note step = working_acknowledges [OF assms(1,2)]
  show "agrees limit kFailureExitCode (consume (make_frame FkStopAcknowledged completed v dropped) p)"
    using assms(1) by (simp add: step agrees_def working_def kFailureExitCode_def kCancelledExitCode_def)
  have "\<not> malformed_frame ?q (make_frame FkCancelled completed v dropped)"
    using assms(1) by (auto simp: working_def malformed_frame_def not_less)
  moreover have "\<not> misplaced FkCancelled ?q (make_frame FkCancelled completed v dropped)"
    using assms by (auto simp: working_def)
  ultimately show "agrees limit kCancelledExitCode
      (consume (make_frame FkCancelled completed v dropped)
        (consume (make_frame FkStopAcknowledged completed v dropped) p))"
    using assms unfolding step
    by (subst consume_applies [where k = FkCancelled])
      (auto simp: working_def agrees_def kCancelledExitCode_def)
qed

lemma working_fails: "working limit completed dropped p \<Longrightarrow> agrees limit kFailureExitCode p"
  by (simp add: working_def agrees_def kFailureExitCode_def kCancelledExitCode_def)

subsection \<open>The batches\<close>

lemma unat_less_limit: "unat (w::u64) < 2 ^ 64"
  by (rule order_less_le_trans [OF unsigned_less]) simp

lemma run_batch_sum:
  assumes "completed < limit" and "limit \<le> kMaximumIterations" and "acc = expected_sum completed"
  obtains completed' where "run_batch limit completed acc = (completed', expected_sum completed')"
    and "completed < completed'" and "completed' \<le> limit"
proof -
  let ?last = "min (completed + kBatchIterations) limit"
  have small: "unat completed < unat limit" "unat limit \<le> 100000000"
    using assms(1,2) by (simp_all add: word_less_nat_alt word_le_nat_alt kMaximumIterations_def)
  have batch: "unat (completed + kBatchIterations) = unat completed + 4096"
    using small unat_add_lem [of completed kBatchIterations] by (simp add: kBatchIterations_def)
  have last: "completed < ?last" "?last \<le> limit"
    using assms(1) batch by (auto simp: min_def word_less_nat_alt)
  have "unat ?last \<ge> unat completed" using last(1) by (simp add: word_less_nat_alt)
  then have index: "completed + of_nat (unat ?last - unat completed) = ?last"
    by (simp add: of_nat_diff)
  have "unat completed + (unat ?last - unat completed) = unat ?last" using last(1) by (simp add: word_less_nat_alt)
  moreover have "unat ?last < 2 ^ 64" by (rule unat_less_limit)
  ultimately have "run_batch limit completed acc = (?last, of_nat (reference_sum (unat ?last)))"
    using accumulate_sum [of completed "unat ?last - unat completed" acc] assms(3) index
    by (simp add: run_batch_def expected_sum_reference)
  with last show thesis by (intro that [of ?last]) (simp_all add: expected_sum_reference)
qed

subsection \<open>The loop\<close>

definition never_stopped :: "'w wos \<Rightarrow> bool" where
  "never_stopped os \<longleftrightarrow> (\<forall>w. fst (wo_read os w) \<noteq> Inr [kStopCommand])"

lemma acknowledge_agrees:
  assumes "acknowledge_stop (recording os) completed v dropped (w, l) = Some (code, w', l')"
    and "working limit completed dropped (fold consume l p)" and "completed < limit"
    and "po_stop_requested (fold consume l p)"
  shows "agrees limit code (fold consume l' p)"
proof -
  let ?ack = "make_frame FkStopAcknowledged completed v dropped"
  let ?cancel = "make_frame FkCancelled completed v dropped"
  from assms(1) obtain r u k where first: "send_frame (recording os) ?ack True (w, l) = Some (r, u, k)"
    by (auto simp: acknowledge_stop_def split: option.splits)
  note k = send_frame_records [OF first]
  show ?thesis
  proof (cases "r = SrSent")
    case False
    with assms(1) first have "code = kFailureExitCode" "l' = k" by (simp_all add: acknowledge_stop_def)
    with k False working_fails [OF assms(2)] show ?thesis by simp
  next
    case True
    with assms(1) first obtain s v' m where second: "send_frame (recording os) ?cancel True (u, k) = Some (s, v', m)"
      by (auto simp: acknowledge_stop_def split: option.splits)
    note m = send_frame_records [OF second]
    have code: "code = (if s \<noteq> SrSent then kFailureExitCode else kCancelledExitCode)" "l' = m"
      using assms(1) first True second by (simp_all add: acknowledge_stop_def split: if_split_asm)
    show ?thesis
      using working_cancels [OF assms(2,4,3), of v] k True m code by (cases "s = SrSent") simp_all
  qed
qed

lemma apply_frame_stop: "po_stop_requested (apply_frame k f p) = po_stop_requested p"
  by (cases k) simp_all

lemma work_loop_agrees:
  assumes "work_loop (recording os) limit completed acc dropped wl = Some (code, wl')"
    and "working limit completed dropped (fold consume (snd wl) p)" and "acc = expected_sum completed"
    and "limit \<le> kMaximumIterations" and "never_stopped os \<or> po_stop_requested p"
  shows "agrees limit code (fold consume (snd wl') p)"
  using assms
proof (induction "recording os" limit completed acc dropped wl "(code, wl')" arbitrary: code wl'
    rule: work_loop.raw_induct [rotated, consumes 1])
  case (1 work_loop limit completed acc dropped wl)
  obtain w l where wl: "wl = (w, l)" by (cases wl)
  obtain code_w k where wl': "wl' = (code_w, k)" by (cases wl')
  have stop: "po_stop_requested (fold consume l p) = po_stop_requested p"
    by (rule fold_invariant [where Q = "\<lambda>_. True" and P = "\<lambda>q. po_stop_requested q = po_stop_requested p"])
      (simp_all add: consume_def apply_frame_stop split: option.split)
  show ?case
  proof (cases "completed < limit")
    case False
    then have same: "completed = limit" using "1.prems"(1) by (simp add: working_def wl)
    from "1.hyps"(2) False obtain r where
      sent: "send_frame (recording os) (make_frame FkCompleted completed acc dropped) True (w, l) = Some (r, code_w, k)"
      and code: "code = (if r = SrSent then 0 else kFailureExitCode)"
      by (auto simp: wl wl' split: option.splits)
    show ?thesis
      using send_frame_records [OF sent] "1.prems" working_completes [of limit dropped "fold consume l p" acc]
        working_fails [of limit completed dropped "fold consume l p"]
      by (cases "r = SrSent") (simp_all add: wl wl' code same)
  next
    case True
    obtain received u where read: "wo_read os w = (received, u)" by (cases "wo_read os w")
    consider (stop) "received = Inr [kStopCommand]"
      | (failed) "code = kFailureExitCode" "k = l"
      | (work) "\<not> (\<not> isl received \<and> length (projr received) = 1)" "\<not> (\<not> isl received \<and> projr received = [])"
          "\<not> (isl received \<and> projl received \<noteq> EINTR \<and> projl received \<noteq> EAGAIN)"
      using "1.hyps"(2) True read
      by (cases received) (auto simp: wl wl' split: if_split_asm)
    then show ?thesis
    proof cases
      case stop: stop
      then have "fst (wo_read os w) = Inr [kStopCommand]" using read by simp
      then have "po_stop_requested p" using "1.prems"(4) by (auto simp: never_stopped_def)
      moreover have "acknowledge_stop (recording os) completed acc dropped (u, l) = Some (code, code_w, k)"
        using "1.hyps"(2) True read stop by (simp add: wl wl')
      ultimately show ?thesis
        using acknowledge_agrees [of os completed acc dropped u l code code_w k limit p] "1.prems"(1) True
        by (simp add: wl wl' \<open>po_stop_requested (fold consume l p) = po_stop_requested p\<close>)
    next
      case failed
      with working_fails "1.prems"(1) show ?thesis by (auto simp: wl wl')
    next
      case work
      obtain completed' where batch: "run_batch limit completed acc = (completed', expected_sum completed')"
        and bounds: "completed < completed'" "completed' \<le> limit"
        using run_batch_sum [OF True "1.prems"(3,2)] by blast
      let ?f = "make_frame FkProgress completed' (expected_sum completed') dropped"
      from "1.hyps"(2) True read work batch obtain r v m where
        sent: "send_frame (recording os) ?f False (u, l) = Some (r, v, m)"
        by (auto simp: wl wl' split: option.splits)
      note m = send_frame_records [OF sent]
      have progress: "working limit completed' dropped (consume ?f (fold consume l p))"
        using working_progress "1.prems"(1) bounds by (simp add: wl)
      have wait: "working limit completed' dropped' (fold consume l p)"
        if "dropped \<le> dropped'" "dropped' \<le> completed'" for dropped'
        using working_wait [of limit completed dropped "fold consume l p"] "1.prems"(1) bounds that
        by (simp add: wl)
      show ?thesis
      proof (cases "r = SrFailed")
        case True
        with "1.hyps"(2) \<open>completed < limit\<close> read work batch sent
        have "code = kFailureExitCode" "k = m" by (auto simp: wl wl')
        with m True working_fails "1.prems"(1) show ?thesis by (auto simp: wl wl')
      next
        case False
        let ?d = "if r = SrDropped then dropped + 1 else dropped"
        have rec: "work_loop (recording os) limit completed' (expected_sum completed') ?d (v, m) = Some (code, wl')"
          using "1.hyps"(2) \<open>completed < limit\<close> read work batch sent False
          by (cases received) (auto simp: wl split: if_split_asm)
        have low: "dropped \<le> completed" using "1.prems"(1) by (simp add: working_def)
        have step: "dropped + 1 \<le> completed'" "dropped \<le> dropped + 1"
        proof -
          have less: "dropped < completed'" using low bounds(1) by simp
          then show "dropped + 1 \<le> completed'" by (rule inc_le)
          have "unat dropped + 1 < 2 ^ 64"
            using less unat_less_limit [of completed'] by (simp add: word_less_nat_alt)
          then show "dropped \<le> dropped + 1" by (simp add: word_le_nat_alt unat_word_ariths)
        qed
        have "working limit completed' ?d (fold consume (snd (v, m)) p)"
          using m False progress wait [of "dropped + 1"] step by (cases r) simp_all
        from "1.hyps"(1) [OF rec this refl "1.prems"(3,4)] show ?thesis .
      qed
    qed
  qed
qed

lemma ready_working:
  assumes "p = (make_process e limit g)\<lparr>po_stop_requested := asked\<rparr>"
  shows "working limit 0 0 (consume (make_frame FkReady 0 0 0) p)"
  by (simp add: assms consume_def malformed_frame_def make_process_def working_def)

lemma run_worker_agrees:
  assumes "run_worker (recording os) limit (w, []) = Some (code, w', l)"
    and "limit \<le> kMaximumIterations" and "never_stopped os \<or> asked"
  shows "agrees limit code (fold consume l ((make_process e limit g)\<lparr>po_stop_requested := asked\<rparr>))"
proof -
  let ?p = "(make_process e limit g)\<lparr>po_stop_requested := asked\<rparr>"
  from assms(1) obtain r u k where
    ready: "send_frame (recording os) (make_frame FkReady 0 0 0) True (w, []) = Some (r, u, k)"
    by (auto simp: run_worker_def split: option.splits)
  note k = send_frame_records [OF ready]
  show ?thesis
  proof (cases "r = SrSent")
    case False
    with assms(1) ready have "code = kFailureExitCode" "l = k" by (simp_all add: run_worker_def)
    with k False show ?thesis
      by (simp add: agrees_def make_process_def kFailureExitCode_def kCancelledExitCode_def)
  next
    case True
    with assms(1) ready have rest: "work_loop (recording os) limit 0 0 0 (u, k) = Some (code, w', l)"
      by (simp add: run_worker_def)
    have "expected_sum 0 = 0" by (simp add: expected_sum_reference reference_sum_def)
    with work_loop_agrees [OF rest, of ?p] ready_working [where p = ?p and e = e and limit = limit and g = g and asked = asked, OF refl] k True assms(2,3)
    show ?thesis by simp
  qed
qed

end
