(* ===== verification/Compute_Worker_Properties.thy ===== *)
theory Compute_Worker_Properties
  imports Compute_Conformance
begin

text \<open>
  What the worker promises the host: the value, the frames and the return, with a small
  operating system on which the hypotheses are checked.
\<close>

subsection \<open>Time passes\<close>

text \<open>
  \<open>elapsed\<close> is the time in a world. The clock reads it, no call turns it back, and an
  attempt to write takes time.
\<close>

definition clock_advances :: "('w \<Rightarrow> nat) \<Rightarrow> 'w wos \<Rightarrow> bool" where
  "clock_advances elapsed os \<longleftrightarrow>
     (\<forall>w. fst (wo_now os w) = elapsed w \<and> elapsed w \<le> elapsed (snd (wo_now os w))) \<and>
     (\<forall>bs w. elapsed w < elapsed (snd (wo_write os bs w))) \<and>
     (\<forall>t w. elapsed w \<le> elapsed (snd (wo_poll os t w)))"

lemma clock_advancesD:
  assumes "clock_advances elapsed os"
  shows "wo_now os w = (t, w') \<Longrightarrow> t = elapsed w \<and> elapsed w \<le> elapsed w'"
    and "wo_write os bs w = (a, w') \<Longrightarrow> elapsed w < elapsed w'"
    and "wo_poll os ms w = (b, w') \<Longrightarrow> elapsed w \<le> elapsed w'"
  using assms unfolding clock_advances_def by (metis fst_conv snd_conv)+

lemma send_loop_returns:
  assumes "clock_advances elapsed os"
  shows "\<exists>r w'. send_loop os f required deadline w = Some (r, w')"
proof (induction "deadline - elapsed w" arbitrary: required w rule: less_induct)
  case less
  obtain answer w1 where sent: "wo_write os (encode_frame f) w = (answer, w1)"
    by (cases "wo_write os (encode_frame f) w")
  obtain time w2 where time: "wo_now os w1 = (time, w2)" by (cases "wo_now os w1")
  obtain polled w3 where polled: "wo_poll os (poll_timeout deadline time) w2 = (polled, w3)"
    by (cases "wo_poll os (poll_timeout deadline time) w2")
  have order: "elapsed w < elapsed w1" "time = elapsed w1" "elapsed w1 \<le> elapsed w2" "elapsed w2 \<le> elapsed w3"
    using clock_advancesD [OF assms] sent time polled by blast+
  have again: "\<exists>r w'. send_loop os f must deadline x = Some (r, w')"
    if "time < deadline" "x = w2 \<or> x = w3" for x must
    by (rule less) (use that order in auto)
  show ?case
    unfolding send_loop.simps [of os f required deadline w]
    by (simp add: sent time polled again not_le)
qed

lemma send_frame_returns:
  assumes "clock_advances elapsed os"
  obtains r w' where "send_frame os f required w = Some (r, w')"
proof -
  obtain time u where time: "wo_now os w = (time, u)" by (cases "wo_now os w")
  obtain r w' where "send_loop os f required (time + kRequiredFrameDeadline) u = Some (r, w')"
    using send_loop_returns [OF assms] by blast
  then show thesis by (intro that) (simp add: send_frame_def time)
qed

lemma work_loop_returns:
  assumes "clock_advances elapsed os" and "limit \<le> kMaximumIterations"
  shows "acc = expected_sum completed \<Longrightarrow> completed \<le> limit \<Longrightarrow>
    \<exists>code w'. work_loop os limit completed acc dropped w = Some (code, w') \<and>
      code \<in> {0, kCancelledExitCode, kFailureExitCode}"
proof (induction "unat limit - unat completed" arbitrary: completed acc dropped w rule: less_induct)
  case less
  show ?case
  proof (cases "completed < limit")
    case False
    obtain r w' where "send_frame os (make_frame FkCompleted completed acc dropped) True w = Some (r, w')"
      by (rule send_frame_returns [OF assms(1)])
    with False show ?thesis by (subst work_loop.simps) simp
  next
    case True
    obtain received u where read: "wo_read os w = (received, u)" by (cases "wo_read os w")
    obtain r v where first:
      "send_frame os (make_frame FkStopAcknowledged completed acc dropped) True u = Some (r, v)"
      by (rule send_frame_returns [OF assms(1)])
    obtain s x where second:
      "send_frame os (make_frame FkCancelled completed acc dropped) True v = Some (s, x)"
      by (rule send_frame_returns [OF assms(1)])
    obtain completed' where batch: "run_batch limit completed acc = (completed', expected_sum completed')"
      and bounds: "completed < completed'" "completed' \<le> limit"
      using run_batch_sum [OF True assms(2) less.prems(1)] by blast
    obtain t y where progress:
      "send_frame os (make_frame FkProgress completed' (expected_sum completed') dropped) False u = Some (t, y)"
      by (rule send_frame_returns [OF assms(1)])
    have "unat limit - unat completed' < unat limit - unat completed"
      using bounds by (simp add: word_less_nat_alt word_le_nat_alt)
    note again = less.hyps [OF this refl bounds(2)]
    show ?thesis
      by (subst work_loop.simps)
        (use again True in \<open>simp add: read acknowledge_stop_def first second batch progress\<close>)
  qed
qed

lemma run_worker_returns:
  assumes "clock_advances elapsed os" and "limit \<le> kMaximumIterations"
  shows "\<exists>code w'. run_worker os limit w = Some (code, w') \<and>
    code \<in> {0, kCancelledExitCode, kFailureExitCode}"
proof -
  obtain r u where ready: "send_frame os (make_frame FkReady 0 0 0) True w = Some (r, u)"
    by (rule send_frame_returns [OF assms(1)])
  have "0 = expected_sum 0" by (simp add: expected_sum_reference reference_sum_def)
  then show ?thesis
    using work_loop_returns [OF assms, of 0 0 0 u] by (simp add: run_worker_def ready)
qed

lemma parse_iterations_range:
  "parse_iterations argv = Some n \<Longrightarrow> 0 < n \<and> n \<le> kMaximumIterations"
  by (auto simp: parse_iterations_def Let_def word_less_nat_alt word_le_nat_alt unat_of_nat
      take_bit_nat_eq_self split: if_split_asm)

subsection \<open>A small operating system\<close>

text \<open>The world is the time. The host has asked to stop in one of them and not in the other.\<close>

definition tick_os :: "bool \<Rightarrow> nat wos" where
  "tick_os stop =
    \<lparr>wo_now = (\<lambda>t. (t, t + 1)), wo_write = (\<lambda>bs t. (Inr (length bs), t + 1)),
     wo_read = (\<lambda>t. (if stop then Inr [kStopCommand] else Inl EAGAIN, t + 1)),
     wo_poll = (\<lambda>ms t. (Inr (), t + 1)), wo_ignore_sigpipe = (\<lambda>t. (True, t))\<rparr>"

lemma tick_os_advances: "clock_advances (\<lambda>t. t) (tick_os stop)"
  by (simp add: clock_advances_def tick_os_def)

subsection \<open>Properties\<close>



text \<open>
  C13. The worker speaks the protocol the host enforces: whatever the operating system
  does, when the worker returns, the frames it has written are accepted by \<open>consume\<close> one
  after the other (nothing is malformed or out of place), the exit code says which terminal
  frame was written, a completed worker has delivered the host's expected sum, and a
  cancelled one was asked to stop and did less than the whole work.
\<close>

theorem worker_frames_conform:
  assumes "run_worker (recording os) limit (w, []) = Some (code, w', frames)"
    and "limit \<le> kMaximumIterations" and "never_stopped os \<or> asked"
  shows "let q = fold consume frames ((make_process executable limit grace)\<lparr>po_stop_requested := asked\<rparr>)
    in \<not> po_malformed q \<and> (po_terminal q = TmCompleted \<longleftrightarrow> code = 0) \<and>
      (po_terminal q = TmCancelled \<longleftrightarrow> code = kCancelledExitCode) \<and>
      (code = 0 \<longrightarrow> po_terminal_iterations q = limit \<and> po_terminal_value q = expected_sum limit) \<and>
      (code = kCancelledExitCode \<longrightarrow> po_terminal_iterations q < limit)"
  using run_worker_agrees [OF assms] by (simp add: agrees_def Let_def)

lemma send_frame_tick:
  "send_frame (recording (tick_os stop)) f required (t, l) = Some (SrSent, t + 2, l @ [f])"
  by (simp add: send_frame_def send_loop.simps tick_os_def decode_encode)

lemma read_tick: "wo_read (tick_os True) t = (Inr [kStopCommand], t + 1)"
  by (simp add: tick_os_def)

lemma worker_frames_conform_witness:
  "\<exists>w' frames. run_worker (recording (tick_os True)) 3 (0, []) = Some (kCancelledExitCode, w', frames) \<and>
    po_terminal (fold consume frames ((make_process [] 3 10)\<lparr>po_stop_requested := True\<rparr>)) = TmCancelled"
proof -
  obtain w' frames where result:
    "run_worker (recording (tick_os True)) 3 (0, []) = Some (kCancelledExitCode, w', frames)"
    by (simp add: run_worker_def work_loop.simps send_frame_tick acknowledge_stop_def read_tick)
  have "(3::u64) \<le> kMaximumIterations" by (simp add: kMaximumIterations_def)
  with worker_frames_conform [OF result, where executable = "[]" and grace = 10 and asked = True] result
  show ?thesis by (simp add: Let_def)
qed

text \<open>
  C14. The worker ends: when time passes between its attempts to write, the whole program
  returns, whatever it is given as arguments and whatever its descriptors answer, with one
  of the three exit codes.
\<close>

theorem worker_ends:
  assumes "clock_advances elapsed os"
  shows "\<exists>code w'. worker_main os argv w = Some (code, w') \<and>
    code \<in> {0, kCancelledExitCode, kFailureExitCode}"
proof -
  obtain installed u where sigpipe: "wo_ignore_sigpipe os w = (installed, u)"
    by (cases "wo_ignore_sigpipe os w")
  show ?thesis
    using run_worker_returns [OF assms] parse_iterations_range
    by (cases "parse_iterations argv") (auto simp: worker_main_def sigpipe)
qed

lemma worker_ends_witness:
  "\<exists>code w'. worker_main (tick_os True) [''worker'', ''--iterations'', ''12''] 0 = Some (code, w') \<and>
    code \<in> {0, kCancelledExitCode, kFailureExitCode}"
  by (rule worker_ends [OF tick_os_advances])

end
