(* ===== verification/Program.thy ===== *)
theory Program
  imports Prelude "HOL-Library.State_Monad"
begin

text \<open>
  Programs over a mutable object: the state monad of the library, the handful of
  primitives the host models use, and a weakest precondition calculus for it. A member
  function of a host is a program on the host's fields and the world it calls into;
  \<open>wp m Q s\<close> says that running \<open>m\<close> from \<open>s\<close> ends in an answer and a state that satisfy
  \<open>Q\<close>. Every program here ends by construction.
\<close>

subsection \<open>Primitives\<close>

type_synonym ('s, 'a) program = "('s, 'a) state"

definition answer :: "'a \<Rightarrow> ('s, 'a) program" where
  "answer a = State (\<lambda>s. (a, s))"

definition reads :: "('s \<Rightarrow> 'a) \<Rightarrow> ('s, 'a) program" where
  "reads f = State (\<lambda>s. (f s, s))"

definition changes :: "('s \<Rightarrow> 's) \<Rightarrow> ('s, unit) program" where
  "changes f = State (\<lambda>s. ((), f s))"

definition skip :: "('s, unit) program" where
  "skip = answer ()"

definition on_condition :: "bool \<Rightarrow> ('s, unit) program \<Rightarrow> ('s, unit) program" where
  "on_condition b m = (if b then m else skip)"

subsection \<open>Weakest preconditions\<close>

definition wp :: "('s, 'a) program \<Rightarrow> ('a \<Rightarrow> 's \<Rightarrow> bool) \<Rightarrow> 's \<Rightarrow> bool" where
  "wp m Q s \<longleftrightarrow> (case run_state m s of (a, s') \<Rightarrow> Q a s')"

named_theorems wp_rules \<open>equations for the weakest precondition of each construct\<close>

lemma wp_bind [wp_rules]: "wp (m \<bind> f) Q s = wp m (\<lambda>a. wp (f a) Q) s"
  by (simp add: wp_def split: prod.split)

lemma wp_answer [wp_rules]: "wp (answer a) Q s = Q a s"
  by (simp add: wp_def answer_def)

lemma wp_reads [wp_rules]: "wp (reads f) Q s = Q (f s) s"
  by (simp add: wp_def reads_def)

lemma wp_changes [wp_rules]: "wp (changes f) Q s = Q () (f s)"
  by (simp add: wp_def changes_def)

lemma wp_skip [wp_rules]: "wp skip Q s = Q () s"
  by (simp add: skip_def wp_answer)

lemma wp_on_condition [wp_rules]: "wp (on_condition b m) Q s = (if b then wp m Q s else Q () s)"
  by (simp add: on_condition_def wp_skip)

lemma wp_if [wp_rules]: "wp (if b then m else n) Q s = (if b then wp m Q s else wp n Q s)"
  by simp

lemma wp_case_option [wp_rules]:
  "wp (case x of None \<Rightarrow> m | Some y \<Rightarrow> n y) Q s = (case x of None \<Rightarrow> wp m Q s | Some y \<Rightarrow> wp (n y) Q s)"
  by (simp split: option.split)

lemma wp_let [wp_rules]: "wp (Let x f) Q s = (let y = x in wp (f y) Q s)"
  by (simp add: Let_def)

lemma wp_mono: "wp m Q s \<Longrightarrow> (\<And>a s'. Q a s' \<Longrightarrow> R a s') \<Longrightarrow> wp m R s"
  by (auto simp: wp_def split: prod.splits)

lemma wp_conj: "wp m (\<lambda>a s'. Q a s' \<and> R a s') s \<longleftrightarrow> wp m Q s \<and> wp m R s"
  by (auto simp: wp_def split: prod.split)

lemma wp_result: "wp m Q s \<Longrightarrow> run_state m s = (a, s') \<Longrightarrow> Q a s'"
  by (simp add: wp_def)

lemma wp_run: "wp m Q s \<longleftrightarrow> Q (fst (run_state m s)) (snd (run_state m s))"
  by (simp add: wp_def split: prod.split)

subsection \<open>Relations that a program keeps\<close>

text \<open>
  A program keeps a reflexive and transitive relation between the states before and after
  it when each of its parts does.
\<close>

definition keeps :: "('s \<Rightarrow> 's \<Rightarrow> bool) \<Rightarrow> ('s, 'a) program \<Rightarrow> bool" where
  "keeps R m \<longleftrightarrow> (\<forall>s. wp m (\<lambda>a. R s) s)"

lemma keepsI: "(\<And>s. wp m (\<lambda>a. R s) s) \<Longrightarrow> keeps R m"
  by (simp add: keeps_def)

lemma keepsD: "keeps R m \<Longrightarrow> wp m (\<lambda>a. R s) s"
  by (simp add: keeps_def)

lemma keeps_run: "keeps R m \<Longrightarrow> R s (snd (run_state m s))"
  by (simp add: keeps_def wp_run)

locale kept_relation =
  fixes R :: "'s \<Rightarrow> 's \<Rightarrow> bool"
  assumes kept_refl: "R s s"
    and kept_trans: "R s t \<Longrightarrow> R t u \<Longrightarrow> R s u"
begin

lemma keeps_answer: "keeps R (answer a)"
  by (simp add: keeps_def wp_answer kept_refl)

lemma keeps_reads: "keeps R (reads f)"
  by (simp add: keeps_def wp_reads kept_refl)

lemma keeps_skip: "keeps R skip"
  by (simp add: skip_def keeps_answer)

lemma keeps_bind:
  assumes "keeps R m" and "\<And>a. keeps R (f a)"
  shows "keeps R (m \<bind> f)"
proof (rule keepsI)
  fix s
  have "R s (snd (run_state m s))" by (rule keeps_run [OF assms(1)])
  moreover have "R t (snd (run_state (f a) t))" for a t by (rule keeps_run [OF assms(2)])
  ultimately show "wp (m \<bind> f) (\<lambda>a. R s) s"
    unfolding wp_bind by (simp only: wp_run) (rule kept_trans)
qed

lemma keeps_on_condition: "keeps R m \<Longrightarrow> keeps R (on_condition b m)"
  by (simp add: on_condition_def keeps_skip)

lemma keeps_if: "keeps R m \<Longrightarrow> keeps R n \<Longrightarrow> keeps R (if b then m else n)"
  by simp

lemma keeps_option: "keeps R m \<Longrightarrow> (\<And>x. keeps R (n x)) \<Longrightarrow> keeps R (case v of None \<Rightarrow> m | Some x \<Rightarrow> n x)"
  by (simp split: option.split)

lemma keeps_let: "(\<And>x. keeps R (f x)) \<Longrightarrow> keeps R (let x = v in f x)"
  by simp

text \<open>A value read from the state is known where the program goes on.\<close>

lemma keeps_reads_bind:
  assumes "\<And>s. wp (m (f s)) (\<lambda>a. R s) s"
  shows "keeps R (reads f \<bind> m)"
  using assms by (auto intro: keepsI simp: wp_bind wp_reads)

lemma wp_reads_then: "wp (n (f s)) (\<lambda>_. R s) s \<Longrightarrow> wp (reads f \<bind> n) (\<lambda>_. R s) s"
  by (simp add: wp_bind wp_reads)

lemma wp_then:
  assumes "wp m (\<lambda>a t. R s t \<and> P a t) s" and "\<And>a t. P a t \<Longrightarrow> wp (n a) (\<lambda>b. R t) t"
  shows "wp (m \<bind> n) (\<lambda>b. R s) s"
  unfolding wp_bind
  by (rule wp_mono [OF assms(1)]) (auto intro: wp_mono [OF assms(2)] elim: kept_trans)

lemma wp_keeps_bind: "wp m (\<lambda>a. R s) s \<Longrightarrow> (\<And>a. keeps R (n a)) \<Longrightarrow> wp (m \<bind> n) (\<lambda>b. R s) s"
  by (rule wp_then [where P = "\<lambda>a t. True"]) (simp_all add: keepsD)

lemmas keeps_intros =
  keeps_answer keeps_reads keeps_skip keeps_bind keeps_on_condition keeps_if keeps_option keeps_let

end

text \<open>
  Programs that may throw: the answer is a sum, \<open>Inl\<close> the exception, and the state is
  what the exception leaves behind. \<open>attempt m f\<close> goes on with \<open>f\<close> unless \<open>m\<close> has thrown.
\<close>

type_synonym ('s, 'e, 'a) fallible = "('s, 'e + 'a) program"

definition yields :: "'a \<Rightarrow> ('s, 'e, 'a) fallible" where
  "yields a = answer (Inr a)"

definition fails :: "'e \<Rightarrow> ('s, 'e, 'a) fallible" where
  "fails e = answer (Inl e)"

definition attempt :: "('s, 'e, 'a) fallible \<Rightarrow> ('a \<Rightarrow> ('s, 'e, 'b) fallible) \<Rightarrow> ('s, 'e, 'b) fallible" where
  "attempt m f = do {
     r \<leftarrow> m;
     case r of Inl e \<Rightarrow> fails e | Inr a \<Rightarrow> f a
   }"

definition does :: "('s, 'a) program \<Rightarrow> ('s, 'e, 'a) fallible" where
  "does m = do {
     a \<leftarrow> m;
     yields a
   }"

definition attempt_when :: "bool \<Rightarrow> ('s, 'e, unit) fallible \<Rightarrow> ('s, 'e, unit) fallible" where
  "attempt_when b m = (if b then m else yields ())"

text \<open>What holds after a program that may have thrown.\<close>

lemma wp_yields [wp_rules]: "wp (yields a) Q s = Q (Inr a) s"
  by (simp add: yields_def wp_answer)

lemma wp_fails [wp_rules]: "wp (fails e) Q s = Q (Inl e) s"
  by (simp add: fails_def wp_answer)

lemma wp_attempt [wp_rules]:
  "wp (attempt m f) Q s = wp m (\<lambda>r. case r of Inl e \<Rightarrow> Q (Inl e) | Inr a \<Rightarrow> wp (f a) Q) s"
proof -
  have "(\<lambda>r. wp (case r of Inl e \<Rightarrow> fails e | Inr a \<Rightarrow> f a) Q)
      = (\<lambda>r. case r of Inl e \<Rightarrow> Q (Inl e) | Inr a \<Rightarrow> wp (f a) Q)"
    by (rule ext) (auto simp: wp_fails fun_eq_iff split: sum.split)
  then show ?thesis by (simp add: attempt_def wp_bind)
qed

lemma wp_does [wp_rules]: "wp (does m) Q s = wp m (\<lambda>a. Q (Inr a)) s"
  by (simp add: does_def wp_bind wp_run yields_def answer_def split_beta)

lemma wp_attempt_when [wp_rules]: "wp (attempt_when b m) Q s = (if b then wp m Q s else Q (Inr ()) s)"
  by (simp add: attempt_when_def wp_yields)

context kept_relation
begin

lemma keeps_yields: "keeps R (yields a)"
  by (simp add: yields_def keeps_answer)

lemma keeps_fails: "keeps R (fails e)"
  by (simp add: fails_def keeps_answer)

lemma keeps_attempt:
  assumes "keeps R m" and "\<And>a. keeps R (f a)"
  shows "keeps R (attempt m f)"
  unfolding attempt_def by (rule keeps_bind [OF assms(1)]) (auto simp: assms(2) keeps_fails split: sum.split)

lemma keeps_does: "keeps R m \<Longrightarrow> keeps R (does m)"
  by (simp add: does_def keeps_bind keeps_yields)

lemma keeps_attempt_when: "keeps R m \<Longrightarrow> keeps R (attempt_when b m)"
  by (simp add: attempt_when_def keeps_yields)

lemmas keeps_fallible = keeps_intros keeps_yields keeps_fails keeps_attempt keeps_does keeps_attempt_when

end

end
