(* ===== verification/Compute_Host.thy ===== *)
theory Compute_Host
  imports Gate_Machine Compute_Process Compute_Worker Program
begin

text \<open>
  \<open>ComputeExecutionHost\<close> of \<open>src/compute/compute_execution.cpp\<close>: one host, one gate,
  one worker process at a time. The host's members are programs over its fields, the
  world of the operating system, and a flag that records whether a destructor has called
  \<open>std::terminate\<close> or has not returned. An optional that the code dereferences is read
  with \<open>the\<close>; the invariant shows that it is engaged there.
\<close>

subsection \<open>Configuration, requests and results\<close>

record ComputeHostConfig =
  cc_worker_executable :: string
  cc_maximum_iterations :: u64
  cc_stop_grace_ms :: u64

record ComputeRequest =
  cq_request_reference :: string
  cq_iterations :: u64
  cq_deadline :: "monotonic_time option"
  cq_required_profile_id :: string

record ComputeResult =
  cr_operation_id :: operation_id
  cr_request_reference :: string
  cr_iterations :: u64
  cr_sum :: u64

datatype ComputeSubmissionStatus =
  SbPrepared | SbSubmitted | SbInvalidArgument | SbAdmissionBlocked | SbNotSubmitted

record ComputeSubmission =
  csb_status :: ComputeSubmissionStatus
  csb_admission_status :: AdmissionStatus
  csb_authority :: "OperationAuthority option"

datatype ComputeShutdownStatus = ShOpen | ShClosing | ShClosed | ShUnresolved

record ComputeObservation =
  cob_launched :: bool
  cob_started :: bool
  cob_completed_iterations :: u64
  cob_dropped_progress :: u64
  cob_stop_sent :: bool
  cob_stop_send_error :: int
  cob_stop_requested_at :: "monotonic_time option"
  cob_termination_requested :: bool
  cob_protocol_error :: bool
  cob_ownership_lost :: bool
  cob_launch_error :: int
  cob_system_error :: int
  cob_child_process_id :: int
  cob_exit_code :: "int option"
  cob_terminating_signal :: "int option"
  cob_cleanup_confirmed :: bool

definition kLocalComputeProfile :: string where "kLocalComputeProfile = ''host-polled-local-compute-v1''"
definition kCapability :: string where "kCapability = ''compute.periodic-square-sum''"
definition kObserver :: string where "kObserver = ''compute-adapter''"
definition kSink :: string where "kSink = ''compute-result-sink''"
definition kNative :: string where "kNative = ''compute-process''"
definition kStop :: string where "kStop = ''compute-control''"
definition kScope :: string where "kScope = ''child-exit-output-and-channels''"

text \<open>
  The binding of a new host takes its generation from a counter of the whole program; the
  \<open>std::overflow_error\<close> at its end is \<open>None\<close>.
\<close>

definition make_binding :: "u64 \<Rightarrow> (BindingIdentity \<times> u64) option" where
  "make_binding next_generation =
    (if next_generation = u64_max then None
     else Some (\<lparr>bid_provider_id = ''local-compute-process'',
                 bid_effect_domain = ''local-compute-result-'' @ u64_to_string next_generation,
                 bid_composition_revision = 1, bid_provider_generation = next_generation\<rparr>,
                next_generation + 1))"

definition make_gate_config :: "BindingIdentity \<Rightarrow> monotonic_time \<Rightarrow> AuthorityGateConfig" where
  "make_gate_config binding time =
    \<lparr>cfg_binding = binding, cfg_capability_id = kCapability, cfg_binding_observer = kObserver,
     cfg_worker_observer = kObserver, cfg_result_sink_observer = kSink,
     cfg_native_evidence_source = kNative, cfg_settlement_evidence_source = kObserver,
     cfg_settlement_scope = kScope, cfg_started_at = time, cfg_stop_evidence_source = kStop,
     cfg_readiness_kind = SkAdapterReady, cfg_execution_capability_observer = kObserver\<rparr>"

definition matches :: "OperationAuthority \<Rightarrow> OperationAuthority \<Rightarrow> bool" where
  "matches left right \<longleftrightarrow>
     oa_operation_id left = oa_operation_id right \<and> binding_eq (oa_binding left) (oa_binding right) \<and>
     oa_admitted_at left = oa_admitted_at right"

subsection \<open>The host and its world\<close>

record compute_host =
  ch_config :: ComputeHostConfig
  ch_gate :: gate
  ch_process :: "process option"
  ch_authority :: "OperationAuthority option"
  ch_request :: "ComputeRequest option"
  ch_result :: "ComputeResult option"
  ch_native_identity :: string
  ch_result_reference :: string
  ch_sequence :: u64
  ch_initialized :: bool
  ch_stop_reported :: bool
  ch_outcome_reported :: bool
  ch_evidence_error :: bool
  ch_shutdown :: ComputeShutdownStatus

record 'w running = compute_host +
  rn_world :: 'w
  rn_aborted :: bool

text \<open>The operating system of the process, and the steady clock in milliseconds.\<close>

record 'w env =
  en_os :: "'w os"
  en_now :: "'w \<Rightarrow> monotonic_time \<times> 'w"

definition config_invalid :: "ComputeHostConfig \<Rightarrow> bool" where
  "config_invalid config \<longleftrightarrow>
     cc_worker_executable config = [] \<or> hd (cc_worker_executable config) \<noteq> CHR ''/'' \<or>
     cc_maximum_iterations config = 0 \<or> cc_maximum_iterations config > 100000000 \<or>
     cc_stop_grace_ms config > 60000"

definition new_host :: "ComputeHostConfig \<Rightarrow> gate \<Rightarrow> compute_host" where
  "new_host config g =
    \<lparr>ch_config = config, ch_gate = g, ch_process = None, ch_authority = None, ch_request = None,
     ch_result = None, ch_native_identity = [], ch_result_reference = [], ch_sequence = 0,
     ch_initialized = False, ch_stop_reported = False, ch_outcome_reported = False,
     ch_evidence_error = False, ch_shutdown = ShOpen\<rparr>"

definition make_host :: "ComputeHostConfig \<Rightarrow> u64 \<Rightarrow> monotonic_time \<Rightarrow> compute_host option" where
  "make_host config next_generation time =
    (case make_binding next_generation of
       None \<Rightarrow> None
     | Some (binding, _) \<Rightarrow>
         (case make_gate (make_gate_config binding time) of
            None \<Rightarrow> None
          | Some g \<Rightarrow> if config_invalid config then None else Some (new_host config g)))"

subsection \<open>Primitives\<close>

definition system :: "('w \<Rightarrow> 'a \<times> 'w) \<Rightarrow> ('w running, 'a) program" where
  "system f = State (\<lambda>s. case f (rn_world s) of (a, w) \<Rightarrow> (a, s\<lparr>rn_world := w\<rparr>))"

definition on_gate :: "(gate \<Rightarrow> gate \<times> 'a) \<Rightarrow> ('w running, 'a) program" where
  "on_gate f = State (\<lambda>s. case f (ch_gate s) of (g, a) \<Rightarrow> (a, s\<lparr>ch_gate := g\<rparr>))"

definition on_process :: "(process \<times> 'w \<Rightarrow> 'a \<times> process \<times> 'w) \<Rightarrow> ('w running, 'a) program" where
  "on_process f = State (\<lambda>s. case f (the (ch_process s), rn_world s) of
     (a, p, w) \<Rightarrow> (a, s\<lparr>ch_process := Some p, rn_world := w\<rparr>))"

definition host_now :: "'w env \<Rightarrow> ('w running, monotonic_time) program" where
  "host_now env = system (en_now env)"

text \<open>The member \<open>record\<close>: the next evidence record of a source.\<close>

definition stamp :: "string \<Rightarrow> monotonic_time \<Rightarrow> ('w running, EvidenceRecord) program" where
  "stamp source time = do {
     changes (\<lambda>s. s\<lparr>ch_sequence := ch_sequence s + 1\<rparr>);
     sequence \<leftarrow> reads ch_sequence;
     answer \<lparr>er_source = source, er_observed_at = time, er_sequence = sequence\<rparr>
   }"

definition accept :: "EvidenceDisposition \<Rightarrow> ('w running, unit) program" where
  "accept disposition =
     on_condition (disposition = EvRejected) (changes (\<lambda>s. s\<lparr>ch_evidence_error := True\<rparr>))"

definition evidence_expiry :: "monotonic_time \<Rightarrow> monotonic_time" where
  "evidence_expiry time = (if time > u64_max - 1000 then u64_max else time + 1000)"

text \<open>The receipt of the host's own operation.\<close>

definition own_receipt :: "('w, 'x) running_scheme \<Rightarrow> OperationReceipt option" where
  "own_receipt s =
    (case ch_authority s of None \<Rightarrow> None | Some a \<Rightarrow> gate_receipt (ch_gate s) a)"

definition receipt_is :: "(OperationReceipt \<Rightarrow> bool) \<Rightarrow> OperationReceipt option \<Rightarrow> bool" where
  "receipt_is P r = (case r of None \<Rightarrow> False | Some r \<Rightarrow> P r)"

text \<open>
  The members of \<open>ComputeExecutionHost::Implementation\<close> and of \<open>ComputeExecutionHost\<close>,
  as programs. The order of reads of the clock, of evidence records and of calls to the
  gate and to the process is the code's.
\<close>

abbreviation worker_os :: "'w env \<Rightarrow> 'w os" where "worker_os env \<equiv> en_os env"

abbreviation the_authority :: "('w running, OperationAuthority) program" where
  "the_authority \<equiv> reads (\<lambda>s. the (ch_authority s))"

abbreviation the_process :: "('w running, process) program" where
  "the_process \<equiv> reads (\<lambda>s. the (ch_process s))"

definition on_worker :: "(process \<times> 'w \<Rightarrow> process \<times> 'w) \<Rightarrow> ('w running, unit) program" where
  "on_worker f = on_process (\<lambda>pw. ((), f pw))"

subsection \<open>Stopping\<close>

definition apply_stop :: "'w env \<Rightarrow> ControlDecision \<Rightarrow> monotonic_time \<Rightarrow> ('w running, unit) program" where
  "apply_stop env decision time = do {
     p \<leftarrow> reads ch_process;
     on_condition
       (cd_should_request_native_stop decision \<and>
        (case p of None \<Rightarrow> False | Some p \<Rightarrow> po_launched p))
       (on_worker (request_stop (worker_os env) time))
   }"

definition expire :: "'w env \<Rightarrow> monotonic_time \<Rightarrow> ('w running, unit) program" where
  "expire env time = do {
     a \<leftarrow> reads ch_authority;
     case a of
       None \<Rightarrow> skip
     | Some a \<Rightarrow> do {
         decision \<leftarrow> on_gate (\<lambda>g. observe_time g a time);
         apply_stop env decision time
       }
   }"

subsection \<open>Evidence\<close>

definition native :: "NativeEventKind \<Rightarrow> monotonic_time \<Rightarrow> ('w running, unit) program" where
  "native kind time = do {
     a \<leftarrow> the_authority;
     identity \<leftarrow> reads ch_native_identity;
     stamped \<leftarrow> stamp kNative time;
     disposition \<leftarrow> on_gate (\<lambda>g. observe_native g
       \<lparr>ne_authority = a, ne_native_identity = identity, ne_kind = kind, ne_record = stamped\<rparr>);
     accept disposition
   }"

definition not_delivered ::
  "OutputNonDeliveryReason \<Rightarrow> string \<Rightarrow> string \<Rightarrow> monotonic_time \<Rightarrow> ('w running, unit) program" where
  "not_delivered reason reference source time = do {
     a \<leftarrow> the_authority;
     stamped \<leftarrow> stamp source time;
     disposition \<leftarrow> on_gate (\<lambda>g. observe_output_not_delivered g
       \<lparr>ond_authority = a, ond_reason = reason, ond_result_reference = reference, ond_record = stamped\<rparr>);
     accept disposition
   }"

definition settle :: "monotonic_time \<Rightarrow> ('w running, unit) program" where
  "settle time = do {
     a \<leftarrow> the_authority;
     stamped \<leftarrow> stamp kObserver time;
     disposition \<leftarrow> on_gate (\<lambda>g. observe_settlement g
       \<lparr>ste_authority = a, ste_scope = kScope, ste_permits_same_domain_admission = True,
        ste_record = stamped\<rparr>);
     accept disposition
   }"

text \<open>The two parts of \<open>settle_unsubmitted\<close>, with the one time it reads.\<close>

definition report_unsubmitted :: "'w env \<Rightarrow> ('w running, monotonic_time) program" where
  "report_unsubmitted env = do {
     time \<leftarrow> host_now env;
     a \<leftarrow> the_authority;
     stamped \<leftarrow> stamp kObserver time;
     disposition \<leftarrow> on_gate (\<lambda>g. observe_non_submission g \<lparr>nse_authority = a, nse_record = stamped\<rparr>);
     accept disposition;
     not_delivered NdNoOutputProduced [] kObserver time;
     answer time
   }"

definition settle_unsubmitted :: "'w env \<Rightarrow> bool \<Rightarrow> ('w running, unit) program" where
  "settle_unsubmitted env cleanup_confirmed = do {
     time \<leftarrow> report_unsubmitted env;
     if cleanup_confirmed then settle time
     else changes (\<lambda>s. s\<lparr>ch_evidence_error := True\<rparr>)
   }"

subsection \<open>Binding control\<close>

definition host_withdraw_binding ::
  "'w env \<Rightarrow> BindingIdentity \<Rightarrow> ('w running, BindingDecision) program" where
  "host_withdraw_binding env expected_binding = do {
     time \<leftarrow> host_now env;
     decision \<leftarrow> on_gate (\<lambda>g. withdraw_binding g expected_binding time);
     on_condition (bd_status decision = BcApplied) (do {
       own \<leftarrow> reads ch_authority;
       on_condition
         (case bd_native_stop_authority decision of
            None \<Rightarrow> False
          | Some stopped \<Rightarrow> (case own of None \<Rightarrow> False | Some a \<Rightarrow> matches stopped a))
         (apply_stop env \<lparr>cd_status = CsApplied, cd_should_request_native_stop = True\<rparr> time);
       receipt \<leftarrow> reads own_receipt;
       on_condition (receipt_is (\<lambda>r. rc_dispatch r = DsPending) receipt) (settle_unsubmitted env True)
     });
     answer decision
   }"

definition observe_capabilities :: "'w env \<Rightarrow> monotonic_time \<Rightarrow> ('w running, bool) program" where
  "observe_capabilities env time = do {
     status \<leftarrow> reads (\<lambda>s. binding_status (ch_gate s) time);
     if bs_phase status \<noteq> PhActive then answer False
     else do {
       config \<leftarrow> reads ch_config;
       available \<leftarrow> system (can_launch (worker_os env) (cc_worker_executable config));
       stamped \<leftarrow> stamp kObserver time;
       disposition \<leftarrow> on_gate (\<lambda>g. observe_execution_capabilities g
         \<lparr>xc_binding = bs_active status, xc_capability_id = kCapability,
          xc_profile_id = kLocalComputeProfile, xc_maximum_work_units = cc_maximum_iterations config,
          xc_available = available, xc_record = stamped, xc_valid_until = evidence_expiry time\<rparr>);
       accept disposition;
       initialized \<leftarrow> reads ch_initialized;
       on_condition (initialized \<and> \<not> available) (do {
         host_withdraw_binding env (bs_active status);
         skip
       });
       answer available
     }
   }"

definition old_scope_is_clear :: "('w, 'x) running_scheme \<Rightarrow> bool" where
  "old_scope_is_clear s \<longleftrightarrow>
     \<not> ch_evidence_error s \<and>
     (ch_authority s \<noteq> None \<longrightarrow> receipt_is (\<lambda>r. rc_authority_disposition r = AuReleased) (own_receipt s)) \<and>
     (case ch_process s of
        None \<Rightarrow> True
      | Some p \<Rightarrow>
          \<not> po_ownership_lost p \<and>
          (if po_launched p then po_exit_status p \<noteq> None \<and> po_event_eof p \<and> po_channels_closed p
           else po_io_error p = 0))"

definition binding_answer :: "BindingControlStatus \<Rightarrow> BindingDecision" where
  "binding_answer status = \<lparr>bd_status = status, bd_candidate = None, bd_native_stop_authority = None\<rparr>"

text \<open>
  The evidence about a candidate provider. The code ignores what the gate answers here;
  \<open>commit_rebind\<close> decides.
\<close>

definition readiness :: "StartupEvidenceKind \<Rightarrow> BindingIdentity \<Rightarrow> string \<Rightarrow> monotonic_time \<Rightarrow> bool \<Rightarrow>
    ('w running, unit) program" where
  "readiness kind candidate source time observed = do {
     stamped \<leftarrow> stamp source time;
     on_gate (\<lambda>g. observe_rebind_readiness g
       \<lparr>bre_kind = kind, bre_binding = candidate, bre_record = stamped, bre_observed = observed,
        bre_valid_until = evidence_expiry time\<rparr>);
     skip
   }"

definition qualify_candidate :: "'w env \<Rightarrow> BindingIdentity \<Rightarrow> string \<Rightarrow> ('w running, unit) program" where
  "qualify_candidate env candidate executable = do {
     ready \<leftarrow> system (can_launch (worker_os env) executable);
     time \<leftarrow> host_now env;
     readiness SkBindingIdleAndSettled candidate kObserver time True;
     readiness SkAdapterReady candidate kObserver time ready;
     readiness SkResultSinkReady candidate kSink time True;
     config \<leftarrow> reads ch_config;
     stamped \<leftarrow> stamp kObserver time;
     on_gate (\<lambda>g. observe_execution_capabilities g
       \<lparr>xc_binding = candidate, xc_capability_id = kCapability, xc_profile_id = kLocalComputeProfile,
        xc_maximum_work_units = cc_maximum_iterations config, xc_available = ready,
        xc_record = stamped, xc_valid_until = evidence_expiry time\<rparr>);
     skip
   }"

definition install_provider :: "string \<Rightarrow> ('w, 'x) running_scheme \<Rightarrow> ('w, 'x) running_scheme" where
  "install_provider executable s =
     s\<lparr>ch_config := (ch_config s)\<lparr>cc_worker_executable := executable\<rparr>, ch_initialized := True\<rparr>"

definition begin_candidate ::
  "'w env \<Rightarrow> BindingIdentity \<Rightarrow> string \<Rightarrow> ('w running, BindingDecision) program" where
  "begin_candidate env old provider_id = do {
     time \<leftarrow> host_now env;
     stamped \<leftarrow> stamp kObserver time;
     on_gate (\<lambda>g. begin_rebind g old provider_id
       \<lparr>bre_kind = SkBindingIdleAndSettled, bre_binding = old, bre_record = stamped,
        bre_observed = True, bre_valid_until = evidence_expiry time\<rparr> time)
   }"

definition try_candidate :: "'w env \<Rightarrow> BindingIdentity \<Rightarrow> string \<Rightarrow> ('w running, BindingDecision) program" where
  "try_candidate env candidate executable = do {
     qualify_candidate env candidate executable;
     time \<leftarrow> host_now env;
     committed \<leftarrow> on_gate (\<lambda>g. commit_rebind g candidate time);
     if bd_status committed \<noteq> BcApplied then do {
       time \<leftarrow> host_now env;
       on_gate (\<lambda>g. withdraw_binding g candidate time);
       answer committed
     } else do {
       changes (install_provider executable);
       answer committed
     }
   }"

text \<open>
  The handler of exceptions in \<open>rebind_provider\<close> withdraws the candidate and rethrows; only
  a failed allocation reaches it, which is not modelled.
\<close>

definition rebind_provider ::
  "'w env \<Rightarrow> BindingIdentity \<Rightarrow> string \<Rightarrow> string \<Rightarrow> ('w running, BindingDecision) program" where
  "rebind_provider env expected_old_binding provider_id worker_executable = do {
     time \<leftarrow> host_now env;
     status \<leftarrow> reads (\<lambda>s. binding_status (ch_gate s) time);
     shutdown \<leftarrow> reads ch_shutdown;
     clear \<leftarrow> reads old_scope_is_clear;
     if shutdown \<noteq> ShOpen then answer (binding_answer BcClosed)
     else if \<not> binding_eq expected_old_binding (bs_active status) then answer (binding_answer BcStaleIdentity)
     else if bs_phase status \<noteq> PhWithdrawn then answer (binding_answer BcWrongPhase)
     else if \<not> clear then answer (binding_answer BcUnresolvedWork)
     else if provider_id = [] \<or> worker_executable = [] \<or> hd worker_executable \<noteq> CHR ''/''
     then answer (binding_answer BcInvalidProvider)
     else do {
       begun \<leftarrow> begin_candidate env expected_old_binding provider_id;
       case bd_candidate begun of
         None \<Rightarrow> answer begun
       | Some candidate \<Rightarrow>
           if bd_status begun \<noteq> BcApplied then answer begun
           else try_candidate env candidate worker_executable
     }
   }"

end
