(* ===== verification/Compute_Host_Interface.thy ===== *)
theory Compute_Host_Interface
  imports Compute_Host
begin

text \<open>
  The observation of the worker process, the end of an operation, shutdown, and the
  public members of \<open>ComputeExecutionHost\<close>.
\<close>

subsection \<open>Observing the process\<close>

definition stop_answer :: "process \<Rightarrow> StopAcknowledgement" where
  "stop_answer p =
    (if \<not> po_stop_delivered p then SaUnavailable
     else if po_stop_ignored p then SaRefused else SaAcknowledged)"

definition stop_is_answered :: "process \<Rightarrow> bool" where
  "stop_is_answered p \<longleftrightarrow>
     po_stop_requested p \<and> (\<not> po_stop_delivered p \<or> po_stop_acknowledged p \<or> po_stop_ignored p)"

definition observe_process_events :: "'w env \<Rightarrow> ('w running, unit) program" where
  "observe_process_events env = do {
     observed \<leftarrow> the_process;
     receipt \<leftarrow> reads own_receipt;
     on_condition (po_started observed \<and> receipt_is (\<lambda>r. \<not> rc_native_started r) receipt) (do {
       time \<leftarrow> host_now env;
       native NkStarted time
     });
     reported \<leftarrow> reads ch_stop_reported;
     on_condition (\<not> reported \<and> stop_is_answered observed) (do {
       a \<leftarrow> the_authority;
       time \<leftarrow> host_now env;
       stamped \<leftarrow> stamp kStop time;
       disposition \<leftarrow> on_gate (\<lambda>g. observe_stop_acknowledgement g
         \<lparr>sae_authority = a, sae_acknowledgement = stop_answer observed, sae_record = stamped\<rparr>);
       accept disposition;
       changes (\<lambda>s. s\<lparr>ch_stop_reported := True\<rparr>)
     })
   }"

subsection \<open>The end of an operation\<close>

definition exited_with :: "process \<Rightarrow> int \<Rightarrow> bool" where
  "exited_with p code \<longleftrightarrow>
     \<not> po_malformed p \<and> po_io_error p = 0 \<and>
     WIFEXITED (the (po_exit_status p)) \<and> WEXITSTATUS (the (po_exit_status p)) = code"

definition run_succeeded :: "process \<Rightarrow> ComputeRequest \<Rightarrow> bool" where
  "run_succeeded p q \<longleftrightarrow>
     exited_with p 0 \<and> po_terminal p = TmCompleted \<and>
     po_terminal_iterations p = cq_iterations q \<and>
     po_terminal_value p = expected_sum (cq_iterations q)"

definition run_cancelled :: "process \<Rightarrow> ComputeRequest \<Rightarrow> bool" where
  "run_cancelled p q \<longleftrightarrow>
     exited_with p 20 \<and> po_stop_requested p \<and> po_terminal p = TmCancelled \<and>
     po_terminal_iterations p < cq_iterations q"

definition terminal_event :: "process \<Rightarrow> ComputeRequest \<Rightarrow> NativeEventKind" where
  "terminal_event p q =
    (if run_succeeded p q then NkTerminalSucceeded
     else if run_cancelled p q then NkTerminalCancelled else NkTerminalFailed)"

definition pending_result :: "OperationAuthority \<Rightarrow> ComputeRequest \<Rightarrow> process \<Rightarrow> ComputeResult" where
  "pending_result a q p =
    \<lparr>cr_operation_id = oa_operation_id a, cr_request_reference = cq_request_reference q,
     cr_iterations = cq_iterations q, cr_sum = po_terminal_value p\<rparr>"

definition deliver :: "ComputeResult \<Rightarrow> monotonic_time \<Rightarrow> ('w running, unit) program" where
  "deliver result time = do {
     a \<leftarrow> the_authority;
     changes (\<lambda>s. s\<lparr>ch_result := Some result\<rparr>);
     reference \<leftarrow> reads ch_result_reference;
     stamped \<leftarrow> stamp kSink time;
     disposition \<leftarrow> on_gate (\<lambda>g. observe_output_accepted g
       \<lparr>oe_authority = a, oe_result_reference = reference, oe_record = stamped\<rparr>);
     accept disposition
   }"

definition deliver_or_refuse :: "'w env \<Rightarrow> ComputeResult \<Rightarrow> ('w running, unit) program" where
  "deliver_or_refuse env result = do {
     time \<leftarrow> host_now env;
     expire env time;
     allowed \<leftarrow> reads (\<lambda>s. \<not> ch_evidence_error s \<and> can_deliver_result (ch_gate s) (the (ch_authority s)));
     if allowed then deliver result time
     else do {
       reference \<leftarrow> reads ch_result_reference;
       not_delivered NdAuthorityRevoked reference kSink time
     }
   }"

definition report_outcome :: "'w env \<Rightarrow> ('w running, unit) program" where
  "report_outcome env = do {
     time \<leftarrow> host_now env;
     expire env time;
     observed \<leftarrow> the_process;
     request \<leftarrow> reads (\<lambda>s. the (ch_request s));
     native (terminal_event observed request) time;
     a \<leftarrow> the_authority;
     (if run_succeeded observed request
      then deliver_or_refuse env (pending_result a request observed)
      else not_delivered NdNoOutputProduced [] kObserver time);
     changes (\<lambda>s. s\<lparr>ch_outcome_reported := True\<rparr>)
   }"

definition finish :: "'w env \<Rightarrow> ('w running, unit) program" where
  "finish env = do {
     observed \<leftarrow> the_process;
     on_condition (po_exit_status observed \<noteq> None \<and> po_event_eof observed \<and> \<not> po_ownership_lost observed) (do {
       reported \<leftarrow> reads ch_outcome_reported;
       on_condition (\<not> reported) (report_outcome env);
       closed \<leftarrow> on_process (close_channels (worker_os env));
       on_condition closed (do {
         receipt \<leftarrow> reads own_receipt;
         failed \<leftarrow> reads ch_evidence_error;
         on_condition (\<not> failed \<and> receipt_is (\<lambda>r. rc_settlement r = StPending) receipt) (do {
           time \<leftarrow> host_now env;
           settle time
         })
       })
     })
   }"

definition next_shutdown :: "('w, 'x) running_scheme \<Rightarrow> ComputeShutdownStatus" where
  "next_shutdown s =
    (let settled = (ch_authority s = None \<or> receipt_is (\<lambda>r. rc_settlement r = StSettled) (own_receipt s));
         owned_clear = (case ch_process s of None \<Rightarrow> True | Some p \<Rightarrow> \<not> po_launched p \<or> po_channels_closed p);
         lost = (case ch_process s of None \<Rightarrow> False
                 | Some p \<Rightarrow> po_ownership_lost p \<or>
                     (\<not> owned_clear \<and> (po_io_error p \<noteq> 0 \<or> po_termination_error p \<noteq> 0)))
     in if ch_shutdown s = ShOpen then ShOpen
        else if ch_evidence_error s \<or> lost then ShUnresolved
        else if settled \<and> owned_clear then ShClosed
        else ch_shutdown s)"

definition update_shutdown_status :: "('w running, unit) program" where
  "update_shutdown_status = changes (\<lambda>s. s\<lparr>ch_shutdown := next_shutdown s\<rparr>)"

subsection \<open>The public members\<close>

definition initialize :: "'w env \<Rightarrow> ('w running, StartupStatus) program" where
  "initialize env = do {
     time \<leftarrow> host_now env;
     binding \<leftarrow> reads (\<lambda>s. binding_status (ch_gate s) time);
     shutdown \<leftarrow> reads ch_shutdown;
     on_condition (shutdown = ShOpen \<and> bs_phase binding = PhActive) (do {
       ready \<leftarrow> observe_capabilities env time;
       initialized \<leftarrow> reads ch_initialized;
       on_condition (\<not> initialized) (do {
         e1 \<leftarrow> stamp kObserver time;
         d1 \<leftarrow> on_gate (\<lambda>g. observe_startup g
           \<lparr>se_kind = SkBindingIdleAndSettled, se_binding = bs_active binding, se_record = e1, se_observed = True\<rparr>);
         accept d1;
         e2 \<leftarrow> stamp kObserver time;
         d2 \<leftarrow> on_gate (\<lambda>g. observe_startup g
           \<lparr>se_kind = SkAdapterReady, se_binding = bs_active binding, se_record = e2, se_observed = ready\<rparr>);
         accept d2;
         e3 \<leftarrow> stamp kSink time;
         d3 \<leftarrow> on_gate (\<lambda>g. observe_startup g
           \<lparr>se_kind = SkResultSinkReady, se_binding = bs_active binding, se_record = e3, se_observed = True\<rparr>);
         accept d3;
         changes (\<lambda>s. s\<lparr>ch_initialized := (ready \<and> \<not> ch_evidence_error s)\<rparr>)
       })
     });
     reads (\<lambda>s. startup_status (ch_gate s))
   }"

definition request_invalid :: "ComputeRequest \<Rightarrow> bool" where
  "request_invalid q \<longleftrightarrow>
     cq_request_reference q = [] \<or> length (cq_request_reference q) > 128 \<or>
     cq_iterations q = 0 \<or> cq_iterations q > 100000000 \<or>
     cq_required_profile_id q = [] \<or> length (cq_required_profile_id q) > 128"

definition operation_request :: "ComputeRequest \<Rightarrow> string \<Rightarrow> monotonic_time \<Rightarrow> OperationRequest" where
  "operation_request q domain time =
    \<lparr>oq_capability_id = kCapability, oq_effect_domain = domain,
     oq_opaque_request_reference = cq_request_reference q, oq_target_reference = kSink,
     oq_requested_at = time, oq_deadline = cq_deadline q,
     oq_execution_requirements = Some \<lparr>xr_profile_id = cq_required_profile_id q, xr_work_units = cq_iterations q\<rparr>\<rparr>"

text \<open>
  \<open>process.reset()\<close> runs the destructor of the old process. A destructor that terminates
  the program or does not return sets the flag.
\<close>

definition reset_process :: "'w env \<Rightarrow> ('w running, unit) program" where
  "reset_process env = changes (\<lambda>s.
     case ch_process s of
       None \<Rightarrow> s
     | Some p \<Rightarrow>
         (case cleanup_owned_child (worker_os env) (p, rn_world s) of
            Some (True, _, w) \<Rightarrow> s\<lparr>ch_process := None, rn_world := w\<rparr>
          | _ \<Rightarrow> s\<lparr>ch_process := None, rn_aborted := True\<rparr>))"

definition install_operation :: "ComputeRequest \<Rightarrow> OperationAuthority \<Rightarrow> ('w, 'x) running_scheme \<Rightarrow> ('w, 'x) running_scheme" where
  "install_operation q a s =
     s\<lparr>ch_result := None, ch_authority := Some a, ch_request := Some q,
       ch_native_identity := ''compute-child-'' @ u64_to_string (oa_operation_id a),
       ch_result_reference := ''compute-result-'' @ u64_to_string (oa_operation_id a),
       ch_stop_reported := False, ch_outcome_reported := False\<rparr>"

definition blocked :: "AdmissionStatus \<Rightarrow> ComputeSubmission" where
  "blocked status = \<lparr>csb_status = SbAdmissionBlocked, csb_admission_status = status, csb_authority = None\<rparr>"

definition admit_request :: "'w env \<Rightarrow> ComputeRequest \<Rightarrow> ('w running, ComputeSubmission) program" where
  "admit_request env q = do {
     time \<leftarrow> host_now env;
     observe_capabilities env time;
     status_time \<leftarrow> host_now env;
     domain \<leftarrow> reads (\<lambda>s. bid_effect_domain (bs_active (binding_status (ch_gate s) status_time)));
     requested_at \<leftarrow> host_now env;
     admission \<leftarrow> on_gate (\<lambda>g. admit g (operation_request q domain requested_at));
     case ad_authority admission of
       None \<Rightarrow> answer (blocked (ad_status admission))
     | Some a \<Rightarrow> do {
         reset_process env;
         changes (install_operation q a);
         answer \<lparr>csb_status = SbPrepared, csb_admission_status = ad_status admission, csb_authority = Some a\<rparr>
       }
   }"

definition prepare :: "'w env \<Rightarrow> ComputeRequest \<Rightarrow> ('w running, ComputeSubmission) program" where
  "prepare env q =
    (if request_invalid q
     then answer \<lparr>csb_status = SbInvalidArgument, csb_admission_status = AdInvalidRequest, csb_authority = None\<rparr>
     else do {
       failed \<leftarrow> reads ch_evidence_error;
       shutdown \<leftarrow> reads ch_shutdown;
       if failed then answer (blocked AdRecoveryRequired)
       else if shutdown \<noteq> ShOpen then answer (blocked AdClosed)
       else admit_request env q
     })"

text \<open>
  The process object of a refused dispatch is destroyed before it was launched, which does
  nothing (\<open>cleanup_unlaunched\<close>).
\<close>

definition launch_claimed :: "'w env \<Rightarrow> process \<Rightarrow> ('w running, bool) program" where
  "launch_claimed env p = do {
     changes (\<lambda>s. s\<lparr>ch_process := Some p\<rparr>);
     launched \<leftarrow> on_process (launch (worker_os env));
     if \<not> launched then do {
       observed \<leftarrow> the_process;
       settle_unsubmitted env (po_io_error observed = 0);
       answer False
     } else do {
       time \<leftarrow> host_now env;
       native NkAccepted time;
       answer True
     }
   }"

definition dispatch_pending :: "'w env \<Rightarrow> OperationAuthority \<Rightarrow> ('w running, bool) program" where
  "dispatch_pending env a = do {
     config \<leftarrow> reads ch_config;
     request \<leftarrow> reads (\<lambda>s. the (ch_request s));
     time \<leftarrow> host_now env;
     expire env time;
     failed \<leftarrow> reads ch_evidence_error;
     claimed \<leftarrow> (if failed then answer False else on_gate (\<lambda>g. claim_dispatch g a time));
     if \<not> claimed then do {
       settle_unsubmitted env True;
       answer False
     } else launch_claimed env
         (make_process (cc_worker_executable config) (cq_iterations request) (cc_stop_grace_ms config))
   }"

definition dispatch_prepared :: "'w env \<Rightarrow> OperationAuthority \<Rightarrow> ('w running, bool) program" where
  "dispatch_prepared env a = do {
     own \<leftarrow> reads ch_authority;
     request \<leftarrow> reads ch_request;
     p \<leftarrow> reads ch_process;
     if (case own of None \<Rightarrow> True | Some b \<Rightarrow> \<not> matches b a) \<or> request = None \<or> p \<noteq> None
     then answer False
     else do {
       time \<leftarrow> host_now env;
       observe_capabilities env time;
       receipt \<leftarrow> reads (\<lambda>s. gate_receipt (ch_gate s) a);
       if \<not> receipt_is (\<lambda>r. rc_dispatch r = DsPending) receipt then answer False
       else dispatch_pending env a
     }
   }"

definition submit :: "'w env \<Rightarrow> ComputeRequest \<Rightarrow> ('w running, ComputeSubmission) program" where
  "submit env q = do {
     submission \<leftarrow> prepare env q;
     case csb_authority submission of
       None \<Rightarrow> answer submission
     | Some a \<Rightarrow> do {
         dispatched \<leftarrow> dispatch_prepared env a;
         answer (submission\<lparr>csb_status := (if dispatched then SbSubmitted else SbNotSubmitted)\<rparr>)
       }
   }"

definition host_request_cancel :: "'w env \<Rightarrow> OperationAuthority \<Rightarrow> ('w running, ControlDecision) program" where
  "host_request_cancel env a = do {
     time \<leftarrow> host_now env;
     decision \<leftarrow> on_gate (\<lambda>g. request_cancel g a time);
     apply_stop env decision time;
     receipt \<leftarrow> reads (\<lambda>s. gate_receipt (ch_gate s) a);
     on_condition (cd_status decision = CsApplied \<and> receipt_is (\<lambda>r. rc_dispatch r = DsPending) receipt)
       (settle_unsubmitted env True);
     answer decision
   }"

definition withdraw_unsupported :: "'w env \<Rightarrow> ('w running, unit) program" where
  "withdraw_unsupported env = do {
     time \<leftarrow> host_now env;
     binding \<leftarrow> reads (\<lambda>s. binding_status (ch_gate s) time);
     shutdown \<leftarrow> reads ch_shutdown;
     on_condition (shutdown = ShOpen \<and> bs_phase binding = PhActive) (do {
       request \<leftarrow> reads (\<lambda>s. the (ch_request s));
       at \<leftarrow> host_now env;
       supported \<leftarrow> reads (\<lambda>s. supports_execution (ch_gate s)
         \<lparr>xr_profile_id = cq_required_profile_id request, xr_work_units = cq_iterations request\<rparr> at);
       on_condition (\<not> supported) (do {
         host_withdraw_binding env (bs_active binding);
         skip
       })
     })
   }"

definition poll_process :: "'w env \<Rightarrow> ('w running, unit) program" where
  "poll_process env = do {
     withdraw_unsupported env;
     time \<leftarrow> host_now env;
     on_worker (poll (worker_os env) time);
     observed \<leftarrow> the_process;
     on_condition (po_malformed observed \<or> po_io_error observed \<noteq> 0 \<or> po_ownership_lost observed) (do {
       a \<leftarrow> the_authority;
       host_request_cancel env a;
       skip
     });
     observe_process_events env;
     finish env
   }"

definition settle_revoked :: "'w env \<Rightarrow> ('w running, unit) program" where
  "settle_revoked env = do {
     p \<leftarrow> reads ch_process;
     receipt \<leftarrow> reads own_receipt;
     on_condition
       (p = None \<and> receipt_is (\<lambda>r. rc_dispatch r = DsPending \<and> rc_authority_disposition r = AuRevoked) receipt)
       (settle_unsubmitted env True)
   }"

text \<open>The body of \<open>poll\<close> between its early return and the shutdown status.\<close>

definition advance :: "'w env \<Rightarrow> ComputeShutdownStatus \<Rightarrow> ('w running, unit) program" where
  "advance env shutdown = do {
     initialized \<leftarrow> reads ch_initialized;
     on_condition (shutdown = ShOpen \<and> initialized) (do {
       time \<leftarrow> host_now env;
       observe_capabilities env time;
       skip
     });
     time \<leftarrow> host_now env;
     expire env time;
     settle_revoked env;
     p \<leftarrow> reads ch_process;
     on_condition (case p of None \<Rightarrow> False | Some p \<Rightarrow> po_launched p \<and> \<not> po_channels_closed p)
       (poll_process env)
   }"

definition host_poll :: "'w env \<Rightarrow> ('w running, unit) program" where
  "host_poll env = do {
     shutdown \<leftarrow> reads ch_shutdown;
     on_condition (shutdown \<noteq> ShClosed) (do {
       advance env shutdown;
       update_shutdown_status
     })
   }"

definition begin_shutdown :: "'w env \<Rightarrow> ('w running, unit) program" where
  "begin_shutdown env = do {
     shutdown \<leftarrow> reads ch_shutdown;
     on_condition (shutdown = ShOpen) (do {
       changes (\<lambda>s. s\<lparr>ch_shutdown := ShClosing\<rparr>);
       on_gate (\<lambda>g. (close_admission g, ()));
       own \<leftarrow> reads ch_authority;
       (case own of
          None \<Rightarrow> skip
        | Some a \<Rightarrow> do { host_request_cancel env a; skip });
       host_poll env
     })
   }"

definition host_observation :: "('w, 'x) running_scheme \<Rightarrow> ComputeObservation" where
  "host_observation s =
    (case ch_process s of
       None \<Rightarrow>
         \<lparr>cob_launched = False, cob_started = False, cob_completed_iterations = 0,
          cob_dropped_progress = 0, cob_stop_sent = False, cob_stop_send_error = 0,
          cob_stop_requested_at = None, cob_termination_requested = False, cob_protocol_error = False,
          cob_ownership_lost = False, cob_launch_error = 0, cob_system_error = 0,
          cob_child_process_id = - 1, cob_exit_code = None, cob_terminating_signal = None,
          cob_cleanup_confirmed = False\<rparr>
     | Some p \<Rightarrow>
         \<lparr>cob_launched = po_launched p, cob_started = po_started p,
          cob_completed_iterations = po_progress p, cob_dropped_progress = po_dropped_progress p,
          cob_stop_sent = po_stop_delivered p, cob_stop_send_error = po_stop_error p,
          cob_stop_requested_at = po_stop_requested_at p,
          cob_termination_requested = po_termination_requested p,
          cob_protocol_error = po_malformed p, cob_ownership_lost = po_ownership_lost p,
          cob_launch_error = po_launch_error p,
          cob_system_error = (if po_io_error p \<noteq> 0 then po_io_error p else po_termination_error p),
          cob_child_process_id = po_child_pid p,
          cob_exit_code = (case po_exit_status p of None \<Rightarrow> None
             | Some status \<Rightarrow> if WIFEXITED status then Some (WEXITSTATUS status) else None),
          cob_terminating_signal = (case po_exit_status p of None \<Rightarrow> None
             | Some status \<Rightarrow> if WIFSIGNALED status then Some (WTERMSIG status) else None),
          cob_cleanup_confirmed = po_channels_closed p\<rparr>)"

end
