(* ===== verification/Gate_Client.thy ===== *)
theory Gate_Client
  imports Gate_Order Program
begin

text \<open>
  What an object that owns a gate can rely on: which calls leave the settlement of the
  current operation alone, and, for any object with a gate in it, that a program that
  reaches the gate by its calls only moves it by a sequence of calls, so that every theorem
  about gates and their calls speaks of the object too.
\<close>

subsection \<open>Calls that neither admit nor settle\<close>

interpretation settlement: unsettled_field rc_settlement
  by unfold_locales (simp_all add: mark_stop_acknowledged_def mark_not_submitted_def
      mark_output_accepted_def mark_not_delivered_def)

lemma native_settlement:
  "map_option rc_settlement (g_current_receipt (fst (observe_native g e))) =
    map_option rc_settlement (g_current_receipt g)"
  by (cases rule: observe_native_cases [of g e])
    (auto simp: settle_native_outcome_def native_event_fields)

lemma claim_settlement:
  "map_option rc_settlement (g_current_receipt (fst (claim_dispatch g a t))) =
    map_option rc_settlement (g_current_receipt g)"
  by (cases rule: claim_cases [of g a t]) simp_all

lemma unsettling_settlement:
  assumes "\<not> settles c"
  shows "map_option rc_settlement (g_current_receipt (fst (gate_step g c))) =
    map_option rc_settlement (g_current_receipt g)"
  using settlement.unsettling_step_keeps [of c g] assms
  by (cases c) (simp_all add: native_settlement claim_settlement)

text \<open>The relation between a gate before and after calls that neither admit nor settle.\<close>

definition steady_gate :: "gate \<Rightarrow> gate \<Rightarrow> bool" where
  "steady_gate g g' \<longleftrightarrow>
     (gate_ok g \<longrightarrow>
        gate_ok g' \<and> (g_binding_phase g = PhClosed \<longrightarrow> g_binding_phase g' = PhClosed) \<and>
        (case g_current_receipt g of
           None \<Rightarrow> g_current_receipt g' = None
         | Some r \<Rightarrow> (\<exists>r'. g_current_receipt g' = Some r' \<and> receipt_evolves r r' \<and>
                         rc_settlement r' = rc_settlement r)))"

lemma steady_gate_refl [simp]: "steady_gate g g"
  by (auto simp: steady_gate_def split: option.split)

lemma receipt_evolves_trans:
  assumes "receipt_evolves r s" and "receipt_evolves s u"
  shows "receipt_evolves r u"
  unfolding receipt_evolves_def
proof (intro conjI impI)
  note first = receipt_evolvesD [OF assms(1)] and second = receipt_evolvesD [OF assms(2)]
  show "rc_authority u = rc_authority r" "rc_deadline u = rc_deadline r"
    using first(1,2) second(1,2) by simp_all
  show "is_revoked r \<Longrightarrow> is_revoked u" by (rule second(3)) (rule first(3))
  show "rc_dispatch r \<noteq> DsPending \<Longrightarrow> rc_dispatch u \<noteq> DsPending" by (rule second(4)) (rule first(4))
  show "rc_dispatched_at r \<noteq> None \<Longrightarrow> rc_dispatched_at u = rc_dispatched_at r"
    using first(5) second(5) by simp
  show "rc_native_stop_requested_at r \<noteq> None \<Longrightarrow>
      rc_native_stop_requested_at u = rc_native_stop_requested_at r"
    using first(6) second(6) by simp
  show "rc_output r \<noteq> OdPending \<Longrightarrow> rc_output u = rc_output r" using first(7) second(7) by simp
  show "rc_observed_native_success r \<Longrightarrow> rc_observed_native_success u" by (rule second(8)) (rule first(8))
  show "rc_settlement r = StSettled \<Longrightarrow> rc_settlement u = StSettled" by (rule second(9)) (rule first(9))
  show "rc_native_outcome r = NoUnknown \<Longrightarrow> rc_native_outcome u = NoUnknown" by (rule second(10)) (rule first(10))
  show "has_resolved_closure r \<Longrightarrow> has_resolved_closure u \<or> rc_native_outcome u = NoUnknown"
    using first(11) second(10,11) by blast
qed

lemma steady_gate_trans:
  assumes "steady_gate g h" and "steady_gate h k"
  shows "steady_gate g k"
  unfolding steady_gate_def
proof (intro impI)
  assume g: "gate_ok g"
  with assms(1) have h: "gate_ok h" "g_binding_phase g = PhClosed \<longrightarrow> g_binding_phase h = PhClosed"
    by (simp_all add: steady_gate_def)
  with assms(2) have k: "gate_ok k" "g_binding_phase h = PhClosed \<longrightarrow> g_binding_phase k = PhClosed"
    by (simp_all add: steady_gate_def)
  have "case g_current_receipt g of None \<Rightarrow> g_current_receipt k = None
    | Some r \<Rightarrow> \<exists>r'. g_current_receipt k = Some r' \<and> receipt_evolves r r' \<and> rc_settlement r' = rc_settlement r"
  proof (cases "g_current_receipt g")
    case None
    with assms g h(1) show ?thesis by (simp add: steady_gate_def)
  next
    case (Some r)
    then obtain s where s: "g_current_receipt h = Some s" "receipt_evolves r s" "rc_settlement s = rc_settlement r"
      using assms(1) g by (auto simp: steady_gate_def)
    then obtain u where "g_current_receipt k = Some u" "receipt_evolves s u" "rc_settlement u = rc_settlement s"
      using assms(2) h(1) by (auto simp: steady_gate_def)
    with Some s show ?thesis using receipt_evolves_trans by auto
  qed
  with h k show "gate_ok k \<and> (g_binding_phase g = PhClosed \<longrightarrow> g_binding_phase k = PhClosed) \<and>
      (case g_current_receipt g of None \<Rightarrow> g_current_receipt k = None
       | Some r \<Rightarrow> \<exists>r'. g_current_receipt k = Some r' \<and> receipt_evolves r r' \<and>
           rc_settlement r' = rc_settlement r)" by blast
qed

lemma steady_gate_step:
  assumes "\<not> settles c"
  shows "steady_gate g (fst (gate_step g c))"
  unfolding steady_gate_def
proof (intro impI)
  assume ok: "gate_ok g"
  note same_settlement = unsettling_settlement [OF assms, of g]
  have "case g_current_receipt g of None \<Rightarrow> g_current_receipt (fst (gate_step g c)) = None
    | Some r \<Rightarrow> \<exists>r'. g_current_receipt (fst (gate_step g c)) = Some r' \<and> receipt_evolves r r' \<and>
        rc_settlement r' = rc_settlement r"
    using ok
  proof (cases rule: gate_step_receipt [of g c])
    case same
    then show ?thesis by (auto split: option.split)
  next
    case (evolved r r')
    with same_settlement show ?thesis by simp
  next
    case (admitted q)
    with assms show ?thesis by simp
  qed
  with gate_step_ok [OF ok] closed_step [OF ok]
  show "gate_ok (fst (gate_step g c)) \<and>
      (g_binding_phase g = PhClosed \<longrightarrow> g_binding_phase (fst (gate_step g c)) = PhClosed) \<and>
      (case g_current_receipt g of None \<Rightarrow> g_current_receipt (fst (gate_step g c)) = None
       | Some r \<Rightarrow> \<exists>r'. g_current_receipt (fst (gate_step g c)) = Some r' \<and> receipt_evolves r r' \<and>
           rc_settlement r' = rc_settlement r)" by blast
qed

text \<open>The step, call by call, as the programs of the hosts name the operations.\<close>

lemma steady_calls:
  "steady_gate g (fst (observe_startup g e1))" "steady_gate g (fst (observe_execution_capabilities g x))"
  "steady_gate g (fst (withdraw_binding g b t))" "steady_gate g (fst (begin_rebind g b p e2 t))"
  "steady_gate g (fst (observe_rebind_readiness g e3))" "steady_gate g (fst (commit_rebind g b t))"
  "steady_gate g (fst (claim_dispatch g a t))" "steady_gate g (fst (request_cancel g a t))"
  "steady_gate g (fst (observe_time g a t))" "steady_gate g (fst (observe_stop_acknowledgement g e4))"
  "steady_gate g (fst (observe_non_submission g e5))" "steady_gate g (fst (observe_native g e6))"
  "steady_gate g (fst (observe_output_accepted g e7))"
  "steady_gate g (fst (observe_output_not_delivered g e8))" "steady_gate g (close_admission g)"
  using steady_gate_step [of "CallStartup e1" g] steady_gate_step [of "CallCapabilities x" g]
    steady_gate_step [of "CallWithdraw b t" g] steady_gate_step [of "CallBeginRebind b p e2 t" g]
    steady_gate_step [of "CallReadiness e3" g] steady_gate_step [of "CallCommit b t" g]
    steady_gate_step [of "CallClaim a t" g] steady_gate_step [of "CallCancel a t" g]
    steady_gate_step [of "CallTime a t" g] steady_gate_step [of "CallStopAcknowledgement e4" g]
    steady_gate_step [of "CallNonSubmission e5" g] steady_gate_step [of "CallNative e6" g]
    steady_gate_step [of "CallOutputAccepted e7" g] steady_gate_step [of "CallOutputNotDelivered e8" g]
    steady_gate_step [of CallClose g]
  by simp_all

subsection \<open>Objects that own a gate\<close>

text \<open>
  \<open>calls_gate f\<close>: whatever the gate, \<open>f\<close> moves it by one of its calls. An owner's program
  whose every access to the gate is of this form moves it by a sequence of calls.
\<close>

definition calls_gate :: "(gate \<Rightarrow> gate \<times> 'a) \<Rightarrow> bool" where
  "calls_gate f \<longleftrightarrow> (\<forall>g. \<exists>c. fst (f g) = fst (gate_step g c))"

lemma calls_gateI: "(\<And>g. fst (f g) = fst (gate_step g (c g))) \<Longrightarrow> calls_gate f"
  unfolding calls_gate_def by blast

lemma gate_operations:
  "calls_gate (\<lambda>g. observe_startup g e1)" "calls_gate (\<lambda>g. observe_execution_capabilities g x)"
  "calls_gate (\<lambda>g. withdraw_binding g b t)" "calls_gate (\<lambda>g. begin_rebind g b p e2 t)"
  "calls_gate (\<lambda>g. observe_rebind_readiness g e3)" "calls_gate (\<lambda>g. commit_rebind g b t)"
  "calls_gate (\<lambda>g. claim_dispatch g a t)" "calls_gate (\<lambda>g. request_cancel g a t)"
  "calls_gate (\<lambda>g. observe_time g a t)" "calls_gate (\<lambda>g. observe_stop_acknowledgement g e4)"
  "calls_gate (\<lambda>g. observe_non_submission g e5)" "calls_gate (\<lambda>g. observe_native g e6)"
  "calls_gate (\<lambda>g. observe_output_accepted g e7)" "calls_gate (\<lambda>g. observe_output_not_delivered g e8)"
  "calls_gate (\<lambda>g. observe_settlement g e9)" "calls_gate (\<lambda>g. admit g q)"
  "calls_gate (\<lambda>g. (close_admission g, u))"
  by (rule calls_gateI [where c = "\<lambda>g. CallStartup e1"], simp)
    (rule calls_gateI [where c = "\<lambda>g. CallCapabilities x"], simp,
     rule calls_gateI [where c = "\<lambda>g. CallWithdraw b t"], simp,
     rule calls_gateI [where c = "\<lambda>g. CallBeginRebind b p e2 t"], simp,
     rule calls_gateI [where c = "\<lambda>g. CallReadiness e3"], simp,
     rule calls_gateI [where c = "\<lambda>g. CallCommit b t"], simp,
     rule calls_gateI [where c = "\<lambda>g. CallClaim a t"], simp,
     rule calls_gateI [where c = "\<lambda>g. CallCancel a t"], simp,
     rule calls_gateI [where c = "\<lambda>g. CallTime a t"], simp,
     rule calls_gateI [where c = "\<lambda>g. CallStopAcknowledgement e4"], simp,
     rule calls_gateI [where c = "\<lambda>g. CallNonSubmission e5"], simp,
     rule calls_gateI [where c = "\<lambda>g. CallNative e6"], simp,
     rule calls_gateI [where c = "\<lambda>g. CallOutputAccepted e7"], simp,
     rule calls_gateI [where c = "\<lambda>g. CallOutputNotDelivered e8"], simp,
     rule calls_gateI [where c = "\<lambda>g. CallSettlement e9"], simp,
     rule calls_gateI [where c = "\<lambda>g. CallAdmit q"], simp,
     rule calls_gateI [where c = "\<lambda>g. CallClose"], simp)

locale gate_owner =
  fixes get_gate :: "'s \<Rightarrow> gate" and put_gate :: "gate \<Rightarrow> 's \<Rightarrow> 's"
  assumes get_put: "get_gate (put_gate g s) = g"
begin

definition runs_gate :: "'s \<Rightarrow> 's \<Rightarrow> bool" where
  "runs_gate s t \<longleftrightarrow> (\<exists>cs. get_gate t = gate_run (get_gate s) cs)"

lemma runs_gate_same: "get_gate t = get_gate s \<Longrightarrow> runs_gate s t"
  unfolding runs_gate_def by (rule exI [of _ "[]"]) simp

lemma runs_gate_call: "calls_gate f \<Longrightarrow> runs_gate s (put_gate (fst (f (get_gate s))) s)"
  unfolding runs_gate_def calls_gate_def get_put
  by (metis run.simps(1) run.simps(2))

lemma runs_gate_trans: "runs_gate s t \<Longrightarrow> runs_gate t u \<Longrightarrow> runs_gate s u"
  unfolding runs_gate_def by (metis run_append)

lemma keeps_call:
  assumes "\<And>s. run_state m s = (case f (get_gate s) of (g, a) \<Rightarrow> (a, put_gate g s))" and "calls_gate f"
  shows "keeps runs_gate m"
  using runs_gate_call [OF assms(2)]
  by (auto intro!: keepsI simp: wp_run assms(1) split_beta)

lemma keeps_elsewhere: "(\<And>s. get_gate (snd (run_state m s)) = get_gate s) \<Longrightarrow> keeps runs_gate m"
  by (auto intro!: keepsI runs_gate_same simp: wp_run)

lemma runs_reachable: "gate_reachable (get_gate s) \<Longrightarrow> runs_gate s t \<Longrightarrow> gate_reachable (get_gate t)"
  unfolding runs_gate_def using reachable_run by metis

end

sublocale gate_owner \<subseteq> gate_calls: kept_relation runs_gate
  by unfold_locales (simp add: runs_gate_same, rule runs_gate_trans)

end
