(* ===== verification/Compute_Host_Gate.thy ===== *)
theory Compute_Host_Gate
  imports Compute_Host_Interface Gate_Client
begin

text \<open>
  The compute host as an owner of its gate: every public operation of the host moves the
  gate by a sequence of the gate's calls, whatever the operating system and the clock
  answer.
\<close>

subsection \<open>The host as a machine\<close>

datatype host_call =
    HcInitialize
  | HcWithdraw BindingIdentity
  | HcRebind BindingIdentity string string
  | HcPrepare ComputeRequest
  | HcDispatch OperationAuthority
  | HcSubmit ComputeRequest
  | HcCancel OperationAuthority
  | HcPoll
  | HcShutdown

datatype host_answer =
    HaStartup StartupStatus | HaBinding BindingDecision | HaSubmission ComputeSubmission
  | HaDispatched bool | HaControl ControlDecision | HaDone

definition perform :: "('s, 'a) program \<Rightarrow> ('a \<Rightarrow> 'b) \<Rightarrow> 's \<Rightarrow> 's \<times> 'b" where
  "perform m f s = (case run_state m s of (a, s') \<Rightarrow> (s', f a))"

fun host_step :: "'w env \<Rightarrow> 'w running \<Rightarrow> host_call \<Rightarrow> 'w running \<times> host_answer" where
  "host_step env s HcInitialize = perform (initialize env) HaStartup s"
| "host_step env s (HcWithdraw b) = perform (host_withdraw_binding env b) HaBinding s"
| "host_step env s (HcRebind b p x) = perform (rebind_provider env b p x) HaBinding s"
| "host_step env s (HcPrepare q) = perform (prepare env q) HaSubmission s"
| "host_step env s (HcDispatch a) = perform (dispatch_prepared env a) HaDispatched s"
| "host_step env s (HcSubmit q) = perform (submit env q) HaSubmission s"
| "host_step env s (HcCancel a) = perform (host_request_cancel env a) HaControl s"
| "host_step env s HcPoll = perform (host_poll env) (\<lambda>_. HaDone) s"
| "host_step env s HcShutdown = perform (begin_shutdown env) (\<lambda>_. HaDone) s"

lemma fst_perform: "fst (perform m f s) = snd (run_state m s)"
  by (simp add: perform_def split_beta)

text \<open>A relation that all nine operations keep is kept by every step.\<close>

lemma keeps_host_step:
  assumes "keeps R (initialize env)" and "\<And>b. keeps R (host_withdraw_binding env b)"
    and "\<And>b p x. keeps R (rebind_provider env b p x)" and "\<And>q. keeps R (prepare env q)"
    and "\<And>a. keeps R (dispatch_prepared env a)" and "\<And>q. keeps R (submit env q)"
    and "\<And>a. keeps R (host_request_cancel env a)" and "keeps R (host_poll env)"
    and "keeps R (begin_shutdown env)"
  shows "R s (fst (host_step env s c))"
  by (cases c) (simp_all add: fst_perform keeps_run [OF assms(1)] keeps_run [OF assms(2)]
      keeps_run [OF assms(3)] keeps_run [OF assms(4)] keeps_run [OF assms(5)] keeps_run [OF assms(6)]
      keeps_run [OF assms(7)] keeps_run [OF assms(8)] keeps_run [OF assms(9)])

text \<open>A host starts from its constructor, in any world.\<close>

definition host_initial :: "'w running \<Rightarrow> bool" where
  "host_initial s \<longleftrightarrow>
     \<not> rn_aborted s \<and>
     (\<exists>config generation time. make_host config generation time = Some (compute_host.truncate s))"

abbreviation host_reachable :: "'w env \<Rightarrow> 'w running \<Rightarrow> bool" where
  "host_reachable env \<equiv> reachable (host_step env) host_initial"

lemma make_hostE:
  assumes "make_host config generation time = Some h"
  obtains g binding where "h = new_host config g"
    and "make_gate (make_gate_config binding time) = Some g" and "\<not> config_invalid config"
  using assms by (cases "make_binding generation")
    (auto simp: make_host_def split: option.split_asm if_split_asm)

lemma host_initialE:
  assumes "host_initial s"
  obtains config g binding time where "compute_host.truncate s = new_host config g"
    and "make_gate (make_gate_config binding time) = Some g" and "\<not> config_invalid config"
  using assms by (auto simp: host_initial_def elim: make_hostE)

lemma host_initial_gate:
  assumes "host_initial s"
  shows "gate_initial (ch_gate s)"
  using host_initialE [OF assms]
  by (metis gate_initial_def compute_host.select_convs(2) compute_host.truncate_def new_host_def)

subsection \<open>Relations kept by the members\<close>

text \<open>
  A relation between host states that is reflexive and transitive is kept by a member when
  its parts keep it. The contracts list the parts, each more than the one before: what
  reporting evidence and requesting a stop do, what polling and closing do besides, and
  what admission, dispatch and rebinding do besides.
\<close>

locale host_evidence = kept_relation R for R :: "'w running \<Rightarrow> 'w running \<Rightarrow> bool" +
  fixes env :: "'w env"
  assumes kept_call: "R s (s\<lparr>ch_gate := fst (gate_step (ch_gate s) c)\<rparr>)"
    and kept_world: "R s (s\<lparr>rn_world := w\<rparr>)"
    and kept_sequence: "R s (s\<lparr>ch_sequence := n\<rparr>)"
    and kept_error: "R s (s\<lparr>ch_evidence_error := True\<rparr>)"
    and kept_flags: "R s (s\<lparr>ch_stop_reported := True\<rparr>)" "R s (s\<lparr>ch_outcome_reported := True\<rparr>)"
      "R s (s\<lparr>ch_initialized := b\<rparr>)" "R s (s\<lparr>ch_result := x\<rparr>)"
    and kept_stop: "R s (s\<lparr>ch_process := Some (fst (request_stop (worker_os env) t (the (ch_process s), w))),
      rn_world := w'\<rparr>)"
begin

lemma keeps_gate: "calls_gate f \<Longrightarrow> keeps R (on_gate f)"
  unfolding calls_gate_def
  by (rule keepsI) (simp add: wp_run on_gate_def split_beta, metis kept_call)

lemma keeps_system: "keeps R (system f)"
  by (rule keepsI) (simp add: wp_run system_def split_beta kept_world)

lemma keeps_changes:
  "keeps R (changes (\<lambda>s. s\<lparr>ch_sequence := ch_sequence s + 1\<rparr>))"
  "keeps R (changes (\<lambda>s. s\<lparr>ch_evidence_error := True\<rparr>))"
  "keeps R (changes (\<lambda>s. s\<lparr>ch_stop_reported := True\<rparr>))"
  "keeps R (changes (\<lambda>s. s\<lparr>ch_outcome_reported := True\<rparr>))"
  "keeps R (changes (\<lambda>s. s\<lparr>ch_initialized := (b \<and> \<not> ch_evidence_error s)\<rparr>))"
  "keeps R (changes (\<lambda>s. s\<lparr>ch_result := Some x\<rparr>))"
  by (rule keepsI, simp add: wp_changes kept_sequence kept_error kept_flags)+

lemma keeps_request: "keeps R (on_worker (request_stop (worker_os env) t))"
  unfolding on_worker_def by (rule keepsI) (simp add: wp_run on_process_def split_beta kept_stop)

lemmas atoms = keeps_intros keeps_gate keeps_system keeps_changes keeps_request gate_operations

lemma keeps_small:
  "keeps R (stamp source time)" "keeps R (accept d)" "keeps R (host_now env)" "keeps R (apply_stop env c t)"
  unfolding stamp_def accept_def host_now_def apply_stop_def by (intro atoms)+

lemma keeps_evidence:
  "keeps R (expire env t)" "keeps R (native k t)" "keeps R (not_delivered n r source t)" "keeps R (settle t)"
  unfolding expire_def native_def not_delivered_def settle_def by (intro atoms keeps_small)+

lemma keeps_unsubmitted: "keeps R (settle_unsubmitted env b)"
  unfolding settle_unsubmitted_def report_unsubmitted_def by (intro atoms keeps_small keeps_evidence)

lemma keeps_withdraw: "keeps R (host_withdraw_binding env b)"
  unfolding host_withdraw_binding_def by (intro atoms keeps_small keeps_unsubmitted)

lemma keeps_capabilities: "keeps R (observe_capabilities env t)"
  unfolding observe_capabilities_def by (intro atoms keeps_small keeps_withdraw)

lemma keeps_events: "keeps R (observe_process_events env)"
  unfolding observe_process_events_def by (intro atoms keeps_small keeps_evidence)

lemma keeps_outcome: "keeps R (report_outcome env)"
  unfolding report_outcome_def deliver_or_refuse_def deliver_def by (intro atoms keeps_small keeps_evidence)

lemma keeps_cancel: "keeps R (host_request_cancel env a)"
  unfolding host_request_cancel_def by (intro atoms keeps_small keeps_unsubmitted)

lemma keeps_initialize: "keeps R (initialize env)"
  unfolding initialize_def by (intro atoms keeps_small keeps_capabilities)

lemma keeps_withdraw_unsupported: "keeps R (withdraw_unsupported env)"
  unfolding withdraw_unsupported_def by (intro atoms keeps_small keeps_withdraw)

lemma keeps_settle_revoked: "keeps R (settle_revoked env)"
  unfolding settle_revoked_def by (intro atoms keeps_unsubmitted)

end

locale host_work = host_evidence +
  assumes kept_process_poll: "R s (s\<lparr>ch_process := Some (fst (poll (worker_os env) t (the (ch_process s), w))),
      rn_world := w'\<rparr>)"
    and kept_close: "R s (s\<lparr>ch_process := Some (fst (snd (close_channels (worker_os env) (the (ch_process s), w)))),
      rn_world := w'\<rparr>)"
    and kept_update: "R s (s\<lparr>ch_shutdown := next_shutdown s\<rparr>)"
begin

lemma keeps_worker:
  "keeps R (on_worker (poll (worker_os env) t))" "keeps R (on_process (close_channels (worker_os env)))"
  "keeps R update_shutdown_status"
  unfolding on_worker_def update_shutdown_status_def
  by (rule keepsI, simp add: wp_run on_process_def changes_def split_beta kept_process_poll kept_close kept_update)+

lemma keeps_finish: "keeps R (finish env)"
  unfolding finish_def by (intro atoms keeps_small keeps_evidence keeps_outcome keeps_worker)

lemma keeps_advance: "keeps R (advance env b)"
  unfolding advance_def poll_process_def
  by (intro atoms keeps_small keeps_evidence keeps_capabilities keeps_unsubmitted keeps_withdraw_unsupported
      keeps_cancel keeps_events keeps_finish keeps_settle_revoked keeps_worker)

lemma keeps_poll: "keeps R (host_poll env)"
  unfolding host_poll_def by (intro atoms keeps_advance keeps_worker)

end

locale host_life = host_work +
  assumes kept_closing: "R s (s\<lparr>ch_shutdown := ShClosing\<rparr>)"
    and kept_provider: "x \<noteq> [] \<Longrightarrow> hd x = CHR ''/'' \<Longrightarrow> R s (install_provider x s)"
    and kept_reset: "R s (s\<lparr>ch_process := None, rn_world := w\<rparr>)" "R s (s\<lparr>ch_process := None, rn_aborted := True\<rparr>)"
    and kept_operation: "R s (install_operation q a s)"
    and kept_process: "R s (s\<lparr>ch_process := Some (make_process e n g)\<rparr>)"
    and kept_launch: "R s (s\<lparr>ch_process := Some (fst (snd (launch (worker_os env) (the (ch_process s), w)))),
      rn_world := w'\<rparr>)"
begin

lemma keeps_reset: "keeps R (reset_process env)"
  by (rule keepsI)
    (auto simp: reset_process_def wp_changes kept_refl kept_reset split: option.split prod.split bool.split)

lemma keeps_installs:
  "keeps R (changes (\<lambda>s. s\<lparr>ch_shutdown := ShClosing\<rparr>))" "keeps R (changes (install_operation q a))"
  "x \<noteq> [] \<Longrightarrow> hd x = CHR ''/'' \<Longrightarrow> keeps R (changes (install_provider x))"
  "keeps R (changes (\<lambda>s. s\<lparr>ch_process := Some (make_process e n g)\<rparr>))"
  "keeps R (on_process (launch (worker_os env)))"
  by (rule keepsI, simp add: wp_run changes_def on_process_def split_beta kept_closing kept_operation
      kept_provider kept_process kept_launch)+

lemma keeps_candidate:
  "keeps R (begin_candidate env b p)"
  "x \<noteq> [] \<Longrightarrow> hd x = CHR ''/'' \<Longrightarrow> keeps R (try_candidate env c x)"
  unfolding begin_candidate_def try_candidate_def qualify_candidate_def readiness_def
  by (intro atoms keeps_small keeps_installs; assumption?)+

lemma keeps_rebind: "keeps R (rebind_provider env b p x)"
proof -
  have rest: "keeps R (if p = [] \<or> x = [] \<or> hd x \<noteq> CHR ''/'' then answer y
      else begin_candidate env b p \<bind> (\<lambda>begun. case bd_candidate begun of
        None \<Rightarrow> answer begun
      | Some c \<Rightarrow> if bd_status begun \<noteq> BcApplied then answer begun else try_candidate env c x))" for y
  proof (cases "p = [] \<or> x = [] \<or> hd x \<noteq> CHR ''/''")
    case True
    then show ?thesis by (simp only: if_True simp_thms keeps_answer)
  next
    case False
    then show ?thesis
      by (simp only: if_not_P [OF False]) (intro keeps_intros keeps_candidate; simp)
  qed
  show ?thesis
    unfolding rebind_provider_def
    by (rule keeps_bind [OF keeps_small(3)], rule keeps_bind [OF keeps_reads], rule keeps_bind [OF keeps_reads],
        rule keeps_bind [OF keeps_reads], rule keeps_if [OF keeps_answer], rule keeps_if [OF keeps_answer],
        rule keeps_if [OF keeps_answer], rule keeps_if [OF keeps_answer], rule rest)
qed

lemma keeps_prepare: "keeps R (prepare env q)"
  unfolding prepare_def admit_request_def
  by (intro atoms keeps_small keeps_capabilities keeps_reset keeps_installs)

lemma keeps_dispatch: "keeps R (dispatch_prepared env a)"
  unfolding dispatch_prepared_def dispatch_pending_def launch_claimed_def
  by (intro atoms keeps_small keeps_evidence keeps_capabilities keeps_unsubmitted keeps_installs)

lemma keeps_submit: "keeps R (submit env q)"
  unfolding submit_def by (intro keeps_intros keeps_prepare keeps_dispatch)

lemma keeps_shutdown: "keeps R (begin_shutdown env)"
  unfolding begin_shutdown_def by (intro atoms keeps_installs keeps_cancel keeps_poll)

lemma step_keeps: "R s (fst (host_step env s c))"
  by (rule keeps_host_step)
    (intro keeps_initialize keeps_withdraw keeps_rebind keeps_prepare keeps_dispatch keeps_submit
      keeps_cancel keeps_poll keeps_shutdown)+

lemma run_keeps: "R s (run (host_step env) s cs)"
  by (induction cs arbitrary: s) (auto intro: kept_refl kept_trans step_keeps)

end

subsection \<open>The gate\<close>

interpretation compute_gate: gate_owner ch_gate "\<lambda>g s. s\<lparr>ch_gate := g\<rparr>"
  by unfold_locales simp

abbreviation host_runs_gate :: "'w running \<Rightarrow> 'w running \<Rightarrow> bool" where
  "host_runs_gate \<equiv> compute_gate.runs_gate"

lemma runs_elsewhere: "ch_gate t = ch_gate s \<Longrightarrow> host_runs_gate s t"
  by (rule compute_gate.runs_gate_same)

interpretation gate_life: host_life host_runs_gate env for env :: "'w env"
proof unfold_locales
  fix s :: "'w running" and c
  show "host_runs_gate s (s\<lparr>ch_gate := fst (gate_step (ch_gate s) c)\<rparr>)"
    using compute_gate.runs_gate_call [of "\<lambda>g. gate_step g c" s] by (auto simp: calls_gate_def)
qed (simp_all add: runs_elsewhere install_provider_def install_operation_def)

subsection \<open>The configuration\<close>

definition config_kept :: "'w running \<Rightarrow> 'w running \<Rightarrow> bool" where
  "config_kept s t \<longleftrightarrow>
     cc_maximum_iterations (ch_config t) = cc_maximum_iterations (ch_config s) \<and>
     cc_stop_grace_ms (ch_config t) = cc_stop_grace_ms (ch_config s) \<and>
     (\<not> config_invalid (ch_config s) \<longrightarrow> \<not> config_invalid (ch_config t))"

lemma config_same: "ch_config t = ch_config s \<Longrightarrow> config_kept s t"
  by (simp add: config_kept_def)

interpretation config_life: host_life config_kept env for env :: "'w env"
  by unfold_locales
    (simp_all add: config_same install_operation_def,
     auto simp: config_kept_def install_provider_def config_invalid_def)

end
