(* ===== verification/Recovery_Protocol.thy ===== *)
theory Recovery_Protocol
  imports Compute_Protocol
begin

text \<open>
  \<open>src/compute/recovery_protocol.hpp\<close>: the messages that a recovering host and the owner of
  the supervised compute domain exchange over a local \<open>SOCK_SEQPACKET\<close> socket. The two
  ends are the same build and exchange the struct's memory image, 56 bytes without padding,
  written out here in little-endian order. The socket calls are a record of functions that
  thread the same abstract world as the calls of the compute process.
\<close>

subsection \<open>Messages\<close>

definition kRecoveryMaximumIterations :: u64 where "kRecoveryMaximumIterations = 100000000"
definition kEvidenceLifetimeMs :: u64 where "kEvidenceLifetimeMs = 1000"
definition kMagic :: u32 where "kMagic = 0x52485231"

datatype Kind = KHello | KQuery | KSnapshot | KActivate | KActivated | KSubmit | KAccepted | KResult

text \<open>
  The enum has a fixed underlying type, so a received message can hold any 32-bit value in
  its kind. A message therefore stores the code.
\<close>

fun message_code :: "Kind \<Rightarrow> u32" where
  "message_code KHello = 1"
| "message_code KQuery = 2"
| "message_code KSnapshot = 3"
| "message_code KActivate = 4"
| "message_code KActivated = 5"
| "message_code KSubmit = 6"
| "message_code KAccepted = 7"
| "message_code KResult = 8"

lemma message_code_eq [simp]: "message_code k = message_code l \<longleftrightarrow> k = l"
  by (cases k; cases l) simp_all

definition kClear :: u64 where "kClear = 1"
definition kSucceeded :: u64 where "kSucceeded = 1"
definition kFailed :: u64 where "kFailed = 2"
definition kCancelled :: u64 where "kCancelled = 3"
definition kNotLaunched :: u64 where "kNotLaunched = 4"

lemmas outcome_defs = kClear_def kSucceeded_def kFailed_def kCancelled_def kNotLaunched_def

record message =
  ms_magic :: u32
  ms_kind :: u32
  ms_session :: u64
  ms_request :: u64
  ms_operation :: u64
  ms_amount :: u64
  ms_value :: u64
  ms_flags :: u64

definition new_message :: "Kind \<Rightarrow> message" where
  "new_message kind =
    \<lparr>ms_magic = kMagic, ms_kind = message_code kind, ms_session = 0, ms_request = 0,
     ms_operation = 0, ms_amount = 0, ms_value = 0, ms_flags = 0\<rparr>"

abbreviation message_size :: nat where "message_size \<equiv> 56"

definition encode_message :: "message \<Rightarrow> u8 list" where
  "encode_message m =
     le_bytes 4 (ms_magic m) @ le_bytes 4 (ms_kind m) @ le_bytes 8 (ms_session m) @
     le_bytes 8 (ms_request m) @ le_bytes 8 (ms_operation m) @ le_bytes 8 (ms_amount m) @
     le_bytes 8 (ms_value m) @ le_bytes 8 (ms_flags m)"

definition decode_message :: "u8 list \<Rightarrow> message" where
  "decode_message bs =
    \<lparr>ms_magic = le_word (take 4 bs), ms_kind = le_word (take 4 (drop 4 bs)),
     ms_session = le_word (take 8 (drop 8 bs)), ms_request = le_word (take 8 (drop 16 bs)),
     ms_operation = le_word (take 8 (drop 24 bs)), ms_amount = le_word (take 8 (drop 32 bs)),
     ms_value = le_word (take 8 (drop 40 bs)), ms_flags = le_word (take 8 (drop 48 bs))\<rparr>"

lemma length_encode_message [simp]: "length (encode_message m) = message_size"
  by (simp add: encode_message_def)

lemma decode_encode_message: "decode_message (encode_message m) = m"
  by (simp add: decode_message_def encode_message_def le_word_bytes)

lemma encode_decode_message:
  assumes "length bs = message_size"
  shows "encode_message (decode_message bs) = bs"
proof -
  have join: "take n (drop k bs) @ drop m bs = drop k bs" if "m = n + k" for k n m
    using that by (metis append_take_drop_id drop_drop)
  have joins: "take 8 (drop 40 bs) @ drop 48 bs = drop 40 bs" "take 8 (drop 32 bs) @ drop 40 bs = drop 32 bs"
    "take 8 (drop 24 bs) @ drop 32 bs = drop 24 bs" "take 8 (drop 16 bs) @ drop 24 bs = drop 16 bs"
    "take 8 (drop 8 bs) @ drop 16 bs = drop 8 bs" "take 4 (drop 4 bs) @ drop 8 bs = drop 4 bs"
    "take 4 bs @ drop 4 bs = bs"
    by (rule join, simp)+ (rule append_take_drop_id)
  have last: "take 8 (drop 48 bs) = drop 48 bs" using assms by simp
  have parts: "take 4 bs @ take 4 (drop 4 bs) @ take 8 (drop 8 bs) @ take 8 (drop 16 bs) @
      take 8 (drop 24 bs) @ take 8 (drop 32 bs) @ take 8 (drop 40 bs) @ take 8 (drop 48 bs) = bs"
    unfolding last joins by (rule refl)
  show ?thesis
    using assms by (simp add: encode_message_def decode_message_def le_bytes_word parts [unfolded last])
qed

subsection \<open>Sockets\<close>

text \<open>
  \<open>so_recv\<close> is \<open>recv\<close> with \<open>MSG_TRUNC\<close>: the length of the packet and the bytes of it that
  fit the buffer.
\<close>

record 'w sockets =
  so_type :: "int \<Rightarrow> 'w \<Rightarrow> (int + int) \<times> 'w"  \<comment> \<open>getsockopt SO_TYPE; a wrong size is an error\<close>
  so_family :: "int \<Rightarrow> 'w \<Rightarrow> (int + int) \<times> 'w"  \<comment> \<open>the family that getsockname answers\<close>
  so_peer :: "int \<Rightarrow> 'w \<Rightarrow> (int + unit) \<times> 'w"  \<comment> \<open>getpeername\<close>
  so_getfd :: "int \<Rightarrow> 'w \<Rightarrow> (int + int) \<times> 'w"
  so_setfd :: "int \<Rightarrow> int \<Rightarrow> 'w \<Rightarrow> (int + unit) \<times> 'w"
  so_send :: "int \<Rightarrow> u8 list \<Rightarrow> 'w \<Rightarrow> (int + nat) \<times> 'w"
  so_recv :: "int \<Rightarrow> nat \<Rightarrow> 'w \<Rightarrow> (int + nat \<times> u8 list) \<times> 'w"
  so_close :: "int \<Rightarrow> 'w \<Rightarrow> (int + unit) \<times> 'w"

definition SOCK_SEQPACKET :: int where "SOCK_SEQPACKET = 5"
definition AF_UNIX :: int where "AF_UNIX = 1"
definition FD_CLOEXEC :: int where "FD_CLOEXEC = 1"

datatype Io = IoDone | IoAgain | IoClosed

definition again_errno :: "int \<Rightarrow> bool" where
  "again_errno e \<longleftrightarrow> e = EINTR \<or> e = EAGAIN"

definition send_message :: "'w sockets \<Rightarrow> int \<Rightarrow> message \<Rightarrow> 'w \<Rightarrow> Io \<times> 'w" where
  "send_message so fd m w =
    (case so_send so fd (encode_message m) w of
       (Inr n, w) \<Rightarrow> (if n = message_size then IoDone else IoClosed, w)
     | (Inl e, w) \<Rightarrow> (if again_errno e then IoAgain else IoClosed, w))"

text \<open>
  The message that was received is \<open>Some\<close> with \<open>IoDone\<close> only: the callers do not look at
  it otherwise.
\<close>

definition receive_message :: "'w sockets \<Rightarrow> int \<Rightarrow> 'w \<Rightarrow> (Io \<times> message option) \<times> 'w" where
  "receive_message so fd w =
    (case so_recv so fd message_size w of
       (Inl e, w) \<Rightarrow> ((if again_errno e then IoAgain else IoClosed, None), w)
     | (Inr (n, bs), w) \<Rightarrow>
         (if n = message_size \<and> ms_magic (decode_message bs) = kMagic
          then (IoDone, Some (decode_message bs)) else (IoClosed, None), w))"

lemma receive_messageD:
  assumes "receive_message so fd w = ((r, x), v)"
  shows "r = IoDone \<longleftrightarrow> x \<noteq> None"
  using assms by (auto simp: receive_message_def split: prod.splits sum.splits if_split_asm)

end
