(* ===== verification/Recovery_Client.thy ===== *)
theory Recovery_Client
  imports Recovery_Protocol Gate_Machine Compute_Worker Program Transition_System
begin

text \<open>
  \<open>src/compute/recovery_client.cpp\<close>: the host's end of a recovery session. It waits for the
  owner's greeting, asks whether the compute domain is clear, rebinds a gate of its own over
  the answer, and submits one operation at a time; anything that does not fit the exchange
  it is in closes it for good. A member is a program over the client's fields and the world.
  Failed allocations are not modelled, so no member throws but the constructors.
\<close>

subsection \<open>The gate's configuration\<close>

definition kRecoveryOwner :: string where "kRecoveryOwner = ''recovery-owner''"
definition kRecoverySink :: string where "kRecoverySink = ''recovery-sink''"
definition kRecoveryScope :: string where "kRecoveryScope = ''supervised-compute-domain''"
definition kRecoveryCapability :: string where "kRecoveryCapability = ''compute.periodic-square-sum''"
definition kRecoverySettlement :: string where "kRecoverySettlement = ''owned-child-output-and-channels''"

definition recovery_binding :: "u64 \<Rightarrow> BindingIdentity" where
  "recovery_binding session =
    \<lparr>bid_provider_id = kRecoveryOwner, bid_effect_domain = kRecoveryScope,
     bid_composition_revision = 1, bid_provider_generation = session\<rparr>"

definition recovery_gate_config :: "u64 \<Rightarrow> monotonic_time \<Rightarrow> AuthorityGateConfig" where
  "recovery_gate_config prior_session now =
    \<lparr>cfg_binding = recovery_binding prior_session, cfg_capability_id = kRecoveryCapability,
     cfg_binding_observer = kRecoveryOwner, cfg_worker_observer = kRecoveryOwner,
     cfg_result_sink_observer = kRecoverySink, cfg_native_evidence_source = kRecoveryOwner,
     cfg_settlement_evidence_source = kRecoveryOwner, cfg_settlement_scope = kRecoverySettlement,
     cfg_started_at = now, cfg_stop_evidence_source = ''native-stop'',
     cfg_readiness_kind = SkAdapterReady, cfg_execution_capability_observer = []\<rparr>"

definition recovery_expected_sum :: "u64 \<Rightarrow> u64" where
  "recovery_expected_sum count =
    (let r = count mod 1000
     in count div 1000 * 332833500 + (if r = 0 then 0 else (r - 1) * r * (2 * r - 1) div 6))"

definition empty_payload :: "message \<Rightarrow> bool" where
  "empty_payload m \<longleftrightarrow> ms_operation m = 0 \<and> ms_amount m = 0 \<and> ms_value m = 0 \<and> ms_flags m = 0"

subsection \<open>The client and its world\<close>

datatype ClientState = ClConnecting | ClBlocked | ClRecovering | ClReady | ClClosed

datatype Exchange = ExHello | ExIdle | ExSnapshot | ExActivation | ExAcceptance | ExResult

record recovery_client =
  cl_fd :: int
  cl_state :: ClientState
  cl_exchange :: Exchange
  cl_last_time :: monotonic_time
  cl_issued_at :: monotonic_time
  cl_queued_at :: monotonic_time
  cl_query_at :: monotonic_time
  cl_epoch :: u64
  cl_nonce :: u64
  cl_token :: u64
  cl_sequence :: u64
  cl_iterations :: u64
  cl_gate :: "gate option"
  cl_candidate :: "BindingIdentity option"
  cl_operation :: "OperationAuthority option"
  cl_pending :: "message option"
  cl_value :: "u64 option"

record 'w recovering = recovery_client +
  cl_world :: 'w

text \<open>The constructor takes the descriptor over even when it throws, \<open>Inl\<close>.\<close>

definition new_client :: "int \<Rightarrow> monotonic_time \<Rightarrow> recovery_client" where
  "new_client fd now =
    \<lparr>cl_fd = fd, cl_state = ClConnecting, cl_exchange = ExHello, cl_last_time = now, cl_issued_at = now,
     cl_queued_at = 0, cl_query_at = 0, cl_epoch = 0, cl_nonce = 0, cl_token = 0, cl_sequence = 0,
     cl_iterations = 0, cl_gate = None, cl_candidate = None, cl_operation = None, cl_pending = None,
     cl_value = None\<rparr>"

definition make_client :: "'w sockets \<Rightarrow> int \<Rightarrow> monotonic_time \<Rightarrow> 'w \<Rightarrow> (unit + recovery_client) \<times> 'w" where
  "make_client so fd now w =
    (if fd < 0 then (Inl (), w)
     else case so_setfd so fd FD_CLOEXEC w of
       (Inl _, w) \<Rightarrow> (Inl (), snd (so_close so fd w))
     | (Inr _, w) \<Rightarrow> (Inr (new_client fd now), w))"

subsection \<open>Primitives\<close>

definition client_system :: "('w \<Rightarrow> 'a \<times> 'w) \<Rightarrow> ('w recovering, 'a) program" where
  "client_system f = State (\<lambda>s. case f (cl_world s) of (a, w) \<Rightarrow> (a, s\<lparr>cl_world := w\<rparr>))"

text \<open>A call of the gate, which is there once the owner has greeted.\<close>

definition client_gate :: "(gate \<Rightarrow> gate \<times> 'a) \<Rightarrow> ('w recovering, 'a) program" where
  "client_gate f = State (\<lambda>s. case f (the (cl_gate s)) of (g, a) \<Rightarrow> (a, s\<lparr>cl_gate := Some g\<rparr>))"

definition set_closed :: "('w, 'x) recovering_scheme \<Rightarrow> ('w, 'x) recovering_scheme" where
  "set_closed s = s\<lparr>cl_state := ClClosed, cl_gate := map_option close_admission (cl_gate s), cl_pending := None\<rparr>"

definition close_client :: "'w sockets \<Rightarrow> ('w recovering, unit) program" where
  "close_client so = do {
     changes set_closed;
     fd \<leftarrow> reads cl_fd;
     on_condition (fd \<ge> 0) (do {
       changes (\<lambda>s. s\<lparr>cl_fd := - 1\<rparr>);
       closed \<leftarrow> client_system (so_close so fd);
       skip
     })
   }"

definition client_time :: "'w sockets \<Rightarrow> monotonic_time \<Rightarrow> ('w recovering, bool) program" where
  "client_time so now = do {
     state \<leftarrow> reads cl_state;
     last \<leftarrow> reads cl_last_time;
     if state = ClClosed then answer False
     else if now < last then do {
       close_client so;
       answer False
     }
     else do {
       changes (\<lambda>s. s\<lparr>cl_last_time := now\<rparr>);
       answer True
     }
   }"

definition fresh :: "monotonic_time \<Rightarrow> monotonic_time \<Rightarrow> bool" where
  "fresh start now \<longleftrightarrow> now \<ge> start \<and> now - start < kEvidenceLifetimeMs"

definition queue_request :: "message \<Rightarrow> monotonic_time \<Rightarrow> ('w, 'x) recovering_scheme \<Rightarrow> ('w, 'x) recovering_scheme" where
  "queue_request m now s =
     s\<lparr>cl_nonce := cl_nonce s + 1,
       cl_pending := Some (m\<lparr>ms_session := cl_epoch s, ms_request := cl_nonce s + 1\<rparr>),
       cl_queued_at := now, cl_issued_at := now\<rparr>"

definition client_queue :: "'w sockets \<Rightarrow> message \<Rightarrow> monotonic_time \<Rightarrow> ('w recovering, bool) program" where
  "client_queue so m now = do {
     refused \<leftarrow> reads (\<lambda>s. cl_pending s \<noteq> None \<or> cl_nonce s = u64_max);
     if refused then do {
       close_client so;
       answer False
     }
     else do {
       changes (queue_request m now);
       answer True
     }
   }"

definition client_evidence :: "'w sockets \<Rightarrow> EvidenceDisposition \<Rightarrow> ('w recovering, bool) program" where
  "client_evidence so disposition =
    (if disposition \<noteq> EvAccepted then do {
       close_client so;
       answer False
     }
     else answer True)"

definition client_record :: "string \<Rightarrow> monotonic_time \<Rightarrow> ('w recovering, EvidenceRecord) program" where
  "client_record source now = do {
     changes (\<lambda>s. s\<lparr>cl_sequence := cl_sequence s + 1\<rparr>);
     sequence \<leftarrow> reads cl_sequence;
     answer \<lparr>er_source = source, er_observed_at = now, er_sequence = sequence\<rparr>
   }"

text \<open>\<open>evidence(gate->observe(..., record(source, now)))\<close>, for one of the gate's observations.\<close>

definition client_report ::
  "'w sockets \<Rightarrow> string \<Rightarrow> monotonic_time \<Rightarrow> (EvidenceRecord \<Rightarrow> gate \<Rightarrow> gate \<times> EvidenceDisposition) \<Rightarrow>
    ('w recovering, bool) program"
where
  "client_report so source now observe = do {
     rcd \<leftarrow> client_record source now;
     disposition \<leftarrow> client_gate (observe rcd);
     client_evidence so disposition
   }"

subsection \<open>Handling a message\<close>

definition bad_hello :: "message \<Rightarrow> bool" where
  "bad_hello m \<longleftrightarrow>
     ms_kind m \<noteq> message_code KHello \<or> ms_session m < 2 \<or> ms_request m \<noteq> 0 \<or> \<not> empty_payload m"

definition handle_hello :: "'w sockets \<Rightarrow> message \<Rightarrow> monotonic_time \<Rightarrow> ('w recovering, unit) program" where
  "handle_hello so m now =
    (if bad_hello m then close_client so
     else do {
       changes (\<lambda>s. s\<lparr>cl_epoch := ms_session m\<rparr>);
       let config = recovery_gate_config (ms_session m - 1) now;
       case make_gate config of
         None \<Rightarrow> close_client so
       | Some g \<Rightarrow> do {
           changes (\<lambda>s. s\<lparr>cl_gate := Some g\<rparr>);
           withdrawn \<leftarrow> client_gate (\<lambda>g. withdraw_binding g (cfg_binding config) now);
           if bd_status withdrawn \<noteq> BcApplied then close_client so
           else changes (\<lambda>s. s\<lparr>cl_state := ClBlocked, cl_exchange := ExIdle\<rparr>)
         }
     })"

definition bad_snapshot :: "message \<Rightarrow> monotonic_time \<Rightarrow> ('w, 'x) recovering_scheme \<Rightarrow> bool" where
  "bad_snapshot m now s \<longleftrightarrow>
     ms_kind m \<noteq> message_code KSnapshot \<or> ms_operation m \<noteq> 0 \<or> ms_amount m \<noteq> 0 \<or> ms_value m \<noteq> 0 \<or>
     (ms_flags m \<noteq> 0 \<and> ms_flags m \<noteq> kClear) \<or> \<not> fresh (cl_query_at s) now"

definition begin_recovery :: "'w sockets \<Rightarrow> message \<Rightarrow> monotonic_time \<Rightarrow> ('w recovering, unit) program" where
  "begin_recovery so m now = do {
     query_at \<leftarrow> reads cl_query_at;
     epoch \<leftarrow> reads cl_epoch;
     status \<leftarrow> reads (\<lambda>s. binding_status (the (cl_gate s)) now);
     closure \<leftarrow> client_record kRecoveryOwner now;
     decision \<leftarrow> client_gate (\<lambda>g. begin_rebind g (bs_active status) kRecoveryOwner
       \<lparr>bre_kind = SkBindingIdleAndSettled, bre_binding = bs_active status, bre_record = closure,
        bre_observed = True, bre_valid_until = query_at + kEvidenceLifetimeMs\<rparr> now);
     case bd_candidate decision of
       None \<Rightarrow> close_client so
     | Some candidate \<Rightarrow>
         if bd_status decision \<noteq> BcApplied \<or> bid_provider_generation candidate \<noteq> epoch
         then close_client so
         else do {
           changes (\<lambda>s. s\<lparr>cl_candidate := Some candidate, cl_token := ms_request m\<rparr>);
           queued \<leftarrow> client_queue so ((new_message KActivate)\<lparr>ms_value := ms_request m\<rparr>) now;
           on_condition queued (changes (\<lambda>s. s\<lparr>cl_exchange := ExActivation\<rparr>))
         }
   }"

definition handle_snapshot :: "'w sockets \<Rightarrow> message \<Rightarrow> monotonic_time \<Rightarrow> ('w recovering, unit) program" where
  "handle_snapshot so m now = do {
     bad \<leftarrow> reads (bad_snapshot m now);
     query_at \<leftarrow> reads cl_query_at;
     if bad then close_client so
     else if ms_flags m = 0 then changes (\<lambda>s. s\<lparr>cl_state := ClBlocked, cl_exchange := ExIdle\<rparr>)
     else if query_at > u64_max - kEvidenceLifetimeMs then close_client so
     else begin_recovery so m now
   }"

definition bad_activated :: "message \<Rightarrow> monotonic_time \<Rightarrow> ('w, 'x) recovering_scheme \<Rightarrow> bool" where
  "bad_activated m now s \<longleftrightarrow>
     ms_kind m \<noteq> message_code KActivated \<or> ms_value m \<noteq> cl_token s \<or> ms_operation m \<noteq> 0 \<or>
     ms_amount m \<noteq> 0 \<or> ms_flags m \<noteq> 0 \<or> \<not> fresh (cl_query_at s) now \<or> cl_candidate s = None"

text \<open>The loop over the kinds of readiness, which the first refusal leaves.\<close>

fun observe_kinds ::
  "'w sockets \<Rightarrow> StartupEvidenceKind list \<Rightarrow> BindingIdentity \<Rightarrow> monotonic_time \<Rightarrow> monotonic_time \<Rightarrow>
    ('w recovering, bool) program"
where
  "observe_kinds so [] candidate expires now = answer True"
| "observe_kinds so (kind # kinds) candidate expires now = do {
     accepted \<leftarrow> client_report so (if kind = SkResultSinkReady then kRecoverySink else kRecoveryOwner) now
       (\<lambda>rcd g. observe_rebind_readiness g
         \<lparr>bre_kind = kind, bre_binding = candidate, bre_record = rcd, bre_observed = True,
          bre_valid_until = expires\<rparr>);
     if accepted then observe_kinds so kinds candidate expires now else answer False
   }"

definition handle_activated :: "'w sockets \<Rightarrow> message \<Rightarrow> monotonic_time \<Rightarrow> ('w recovering, unit) program" where
  "handle_activated so m now = do {
     bad \<leftarrow> reads (bad_activated m now);
     if bad then close_client so
     else do {
       candidate \<leftarrow> reads (\<lambda>s. the (cl_candidate s));
       query_at \<leftarrow> reads cl_query_at;
       observed \<leftarrow> observe_kinds so [SkBindingIdleAndSettled, SkAdapterReady, SkResultSinkReady] candidate
         (query_at + kEvidenceLifetimeMs) now;
       on_condition observed (do {
         committed \<leftarrow> client_gate (\<lambda>g. commit_rebind g candidate now);
         if bd_status committed \<noteq> BcApplied then close_client so
         else changes (\<lambda>s. s\<lparr>cl_state := ClReady, cl_exchange := ExIdle\<rparr>)
       })
     }
   }"

subsection \<open>The operation\<close>

definition recovery_identity :: "u64 \<Rightarrow> u64 \<Rightarrow> string" where
  "recovery_identity epoch operation = ''session-'' @ u64_to_string epoch @ ''-op-'' @ u64_to_string operation"

definition bad_result :: "message \<Rightarrow> ('w, 'x) recovering_scheme \<Rightarrow> bool" where
  "bad_result m s \<longleftrightarrow>
     ms_kind m \<noteq> message_code KResult \<or>
     (cl_exchange s \<noteq> ExResult \<and> \<not> (cl_exchange s = ExAcceptance \<and> ms_flags m = kNotLaunched)) \<or>
     ms_flags m < kSucceeded \<or> ms_flags m > kNotLaunched \<or>
     (cl_exchange s = ExResult \<and> ms_flags m = kNotLaunched) \<or>
     (if ms_flags m = kSucceeded then ms_value m \<noteq> recovery_expected_sum (cl_iterations s) else ms_value m \<noteq> 0)"

definition native_outcome_of :: "u64 \<Rightarrow> NativeEventKind" where
  "native_outcome_of flags =
    (if flags = kSucceeded then NkTerminalSucceeded
     else if flags = kCancelled then NkTerminalCancelled
     else if flags = kNotLaunched then NkRejected else NkTerminalFailed)"

definition client_native ::
  "'w sockets \<Rightarrow> OperationAuthority \<Rightarrow> string \<Rightarrow> NativeEventKind \<Rightarrow> monotonic_time \<Rightarrow> ('w recovering, bool) program"
where
  "client_native so authority identity kind now =
     client_report so kRecoveryOwner now (\<lambda>rcd g. observe_native g
       \<lparr>ne_authority = authority, ne_native_identity = identity, ne_kind = kind, ne_record = rcd\<rparr>)"

definition client_accepted_output ::
  "'w sockets \<Rightarrow> OperationAuthority \<Rightarrow> string \<Rightarrow> monotonic_time \<Rightarrow> ('w recovering, bool) program"
where
  "client_accepted_output so authority identity now = do {
     deliverable \<leftarrow> reads (\<lambda>s. can_deliver_result (the (cl_gate s)) authority);
     if \<not> deliverable then do {
       close_client so;
       answer False
     }
     else client_report so kRecoverySink now (\<lambda>rcd g. observe_output_accepted g
       \<lparr>oe_authority = authority, oe_result_reference = identity, oe_record = rcd\<rparr>)
   }"

definition client_no_output :: "'w sockets \<Rightarrow> OperationAuthority \<Rightarrow> monotonic_time \<Rightarrow> ('w recovering, bool) program" where
  "client_no_output so authority now =
     client_report so kRecoveryOwner now (\<lambda>rcd g. observe_output_not_delivered g
       \<lparr>ond_authority = authority, ond_reason = NdNoOutputProduced, ond_result_reference = [], ond_record = rcd\<rparr>)"

definition client_settled :: "'w sockets \<Rightarrow> OperationAuthority \<Rightarrow> monotonic_time \<Rightarrow> ('w recovering, bool) program" where
  "client_settled so authority now =
     client_report so kRecoveryOwner now (\<lambda>rcd g. observe_settlement g
       \<lparr>ste_authority = authority, ste_scope = kRecoverySettlement, ste_permits_same_domain_admission = True,
        ste_record = rcd\<rparr>)"

definition finish_operation ::
  "'w sockets \<Rightarrow> message \<Rightarrow> OperationAuthority \<Rightarrow> string \<Rightarrow> monotonic_time \<Rightarrow> ('w recovering, unit) program"
where
  "finish_operation so m authority identity now = do {
     reported \<leftarrow> client_native so authority identity (native_outcome_of (ms_flags m)) now;
     on_condition reported (do {
       resolved \<leftarrow> (if ms_flags m = kSucceeded then client_accepted_output so authority identity now
                   else client_no_output so authority now);
       on_condition resolved (do {
         settled \<leftarrow> client_settled so authority now;
         on_condition settled (changes (\<lambda>s. s\<lparr>
           cl_value := (if ms_flags m = kSucceeded then Some (ms_value m) else cl_value s),
           cl_exchange := ExIdle\<rparr>))
       })
     })
   }"

definition handle_operation :: "'w sockets \<Rightarrow> message \<Rightarrow> monotonic_time \<Rightarrow> ('w recovering, unit) program" where
  "handle_operation so m now = do {
     operation \<leftarrow> reads cl_operation;
     iterations \<leftarrow> reads cl_iterations;
     epoch \<leftarrow> reads cl_epoch;
     exchange \<leftarrow> reads cl_exchange;
     bad \<leftarrow> reads (bad_result m);
     case operation of
       None \<Rightarrow> close_client so
     | Some authority \<Rightarrow>
         if ms_operation m \<noteq> oa_operation_id authority \<or> ms_amount m \<noteq> iterations then close_client so
         else if exchange = ExAcceptance \<and> ms_kind m = message_code KAccepted \<and> ms_flags m = 0 \<and> ms_value m = 0
         then do {
           accepted \<leftarrow> client_native so authority (recovery_identity epoch (ms_operation m)) NkAccepted now;
           on_condition accepted (changes (\<lambda>s. s\<lparr>cl_exchange := ExResult\<rparr>))
         }
         else if bad then close_client so
         else finish_operation so m authority (recovery_identity epoch (ms_operation m)) now
   }"

definition client_handle :: "'w sockets \<Rightarrow> message \<Rightarrow> monotonic_time \<Rightarrow> ('w recovering, unit) program" where
  "client_handle so m now = do {
     exchange \<leftarrow> reads cl_exchange;
     epoch \<leftarrow> reads cl_epoch;
     nonce \<leftarrow> reads cl_nonce;
     if exchange = ExHello then handle_hello so m now
     else if ms_session m \<noteq> epoch \<or> ms_request m \<noteq> nonce then close_client so
     else if exchange = ExSnapshot then handle_snapshot so m now
     else if exchange = ExActivation then handle_activated so m now
     else handle_operation so m now
   }"

subsection \<open>The public members\<close>

text \<open>Sending what is pending: the answer is whether the poll goes on.\<close>

definition send_pending :: "'w sockets \<Rightarrow> monotonic_time \<Rightarrow> ('w recovering, bool) program" where
  "send_pending so now = do {
     pending \<leftarrow> reads cl_pending;
     queued_at \<leftarrow> reads cl_queued_at;
     fd \<leftarrow> reads cl_fd;
     case pending of
       None \<Rightarrow> answer True
     | Some m \<Rightarrow>
         if \<not> fresh queued_at now then do {
           close_client so;
           answer False
         }
         else do {
           sent \<leftarrow> client_system (send_message so fd m);
           case sent of
             IoClosed \<Rightarrow> do {
               close_client so;
               answer False
             }
           | IoAgain \<Rightarrow> answer False
           | IoDone \<Rightarrow> do {
               changes (\<lambda>s. s\<lparr>cl_pending := None\<rparr>);
               answer True
             }
         }
   }"

definition overdue :: "monotonic_time \<Rightarrow> ('w, 'x) recovering_scheme \<Rightarrow> bool" where
  "overdue now s \<longleftrightarrow> cl_exchange s \<noteq> ExIdle \<and> cl_exchange s \<noteq> ExResult \<and> \<not> fresh (cl_issued_at s) now"

definition client_receive :: "'w sockets \<Rightarrow> monotonic_time \<Rightarrow> ('w recovering, unit) program" where
  "client_receive so now = do {
     late \<leftarrow> reads (overdue now);
     if late then close_client so
     else do {
       fd \<leftarrow> reads cl_fd;
       (received, m) \<leftarrow> client_system (receive_message so fd);
       case received of
         IoClosed \<Rightarrow> close_client so
       | IoDone \<Rightarrow> client_handle so (the m) now
       | IoAgain \<Rightarrow> skip
     }
   }"

definition client_poll :: "'w sockets \<Rightarrow> monotonic_time \<Rightarrow> ('w recovering, unit) program" where
  "client_poll so now = do {
     live \<leftarrow> client_time so now;
     on_condition live (do {
       ready \<leftarrow> send_pending so now;
       on_condition ready (client_receive so now)
     })
   }"

definition client_recover :: "'w sockets \<Rightarrow> monotonic_time \<Rightarrow> ('w recovering, bool) program" where
  "client_recover so now = do {
     live \<leftarrow> client_time so now;
     state \<leftarrow> reads cl_state;
     exchange \<leftarrow> reads cl_exchange;
     if \<not> live \<or> state \<noteq> ClBlocked \<or> exchange \<noteq> ExIdle then answer False
     else do {
       queued \<leftarrow> client_queue so (new_message KQuery) now;
       if \<not> queued then answer False
       else do {
         changes (\<lambda>s. s\<lparr>cl_query_at := now, cl_exchange := ExSnapshot, cl_state := ClRecovering\<rparr>);
         answer True
       }
     }
   }"

definition recovery_request :: "u64 \<Rightarrow> monotonic_time \<Rightarrow> OperationRequest" where
  "recovery_request nonce now =
    \<lparr>oq_capability_id = kRecoveryCapability, oq_effect_domain = kRecoveryScope,
     oq_opaque_request_reference = ''prototype-'' @ u64_to_string (nonce + 1),
     oq_target_reference = kRecoverySink, oq_requested_at = now, oq_deadline = None,
     oq_execution_requirements = None\<rparr>"

definition start_operation ::
  "'w sockets \<Rightarrow> OperationAuthority \<Rightarrow> u64 \<Rightarrow> monotonic_time \<Rightarrow> ('w recovering, bool) program"
where
  "start_operation so authority iterations now = do {
     changes (\<lambda>s. s\<lparr>cl_operation := Some authority, cl_iterations := iterations, cl_value := None\<rparr>);
     claimed \<leftarrow> client_gate (\<lambda>g. claim_dispatch g authority now);
     if \<not> claimed then do {
       close_client so;
       answer False
     }
     else do {
       queued \<leftarrow> client_queue so
         ((new_message KSubmit)\<lparr>ms_operation := oa_operation_id authority, ms_amount := iterations\<rparr>) now;
       if \<not> queued then answer False
       else do {
         changes (\<lambda>s. s\<lparr>cl_exchange := ExAcceptance\<rparr>);
         answer True
       }
     }
   }"

definition client_submit :: "'w sockets \<Rightarrow> u64 \<Rightarrow> monotonic_time \<Rightarrow> ('w recovering, bool) program" where
  "client_submit so iterations now = do {
     live \<leftarrow> client_time so now;
     state \<leftarrow> reads cl_state;
     exchange \<leftarrow> reads cl_exchange;
     nonce \<leftarrow> reads cl_nonce;
     if \<not> live \<or> state \<noteq> ClReady \<or> exchange \<noteq> ExIdle \<or> iterations = 0 \<or> iterations > kRecoveryMaximumIterations
     then answer False
     else do {
       admitted \<leftarrow> client_gate (\<lambda>g. admit g (recovery_request nonce now));
       case ad_authority admitted of
         None \<Rightarrow> answer False
       | Some authority \<Rightarrow>
           if ad_status admitted \<noteq> AdAdmitted then answer False
           else start_operation so authority iterations now
     }
   }"

datatype client_call = RcPoll monotonic_time | RcRecover monotonic_time | RcSubmit u64 monotonic_time | RcClose

datatype client_answer = RaDone | RaFlag bool

fun client_member :: "'w sockets \<Rightarrow> client_call \<Rightarrow> ('w recovering, client_answer) program" where
  "client_member so (RcPoll now) = do {
     client_poll so now;
     answer RaDone
   }"
| "client_member so (RcRecover now) = do {
     begun \<leftarrow> client_recover so now;
     answer (RaFlag begun)
   }"
| "client_member so (RcSubmit iterations now) = do {
     submitted \<leftarrow> client_submit so iterations now;
     answer (RaFlag submitted)
   }"
| "client_member so RcClose = do {
     close_client so;
     answer RaDone
   }"

definition client_step :: "'w sockets \<Rightarrow> 'w recovering \<Rightarrow> client_call \<Rightarrow> 'w recovering \<times> client_answer" where
  "client_step so s c = prod.swap (run_state (client_member so c) s)"

definition client_initial :: "'w recovering \<Rightarrow> bool" where
  "client_initial s \<longleftrightarrow> (\<exists>fd now. fd \<ge> 0 \<and> recovery_client.truncate s = new_client fd now)"

abbreviation client_reachable :: "'w sockets \<Rightarrow> 'w recovering \<Rightarrow> bool" where
  "client_reachable so \<equiv> reachable (client_step so) client_initial"

definition client_receipt :: "('w, 'x) recovering_scheme \<Rightarrow> OperationReceipt option" where
  "client_receipt s =
    (case cl_operation s of None \<Rightarrow> None | Some authority \<Rightarrow> gate_receipt (the (cl_gate s)) authority)"

end
