(* ===== verification/Compute_Task.thy ===== *)
theory Compute_Task
  imports Compute_Host_Gate Recovery_Client Transition_System
begin

text \<open>
  \<open>examples/finite_compute_task.cpp\<close>: the application that computes a goal in two steps, the
  second from the result of the first, over an execution port \<open>TaskExecution\<close>. The task
  drives the port by polling it, keeps at most one operation in its hands, takes a result
  only when the operation is released, and needs attention, for good, when an outcome or a
  clean-up cannot be confirmed in time.
\<close>

subsection \<open>Goals and operations\<close>

record ComputeGoal =
  cg_revision :: u64
  cg_first_iterations :: u64

datatype TaskOutcome = ToPending | ToSucceeded | ToFailed | ToNeedsAttention | ToCancelled

record TaskOperation =
  top_goal_revision :: u64
  top_step :: u32
  top_authority :: OperationAuthority
  top_request_reference :: string
  top_iterations :: u64

text \<open>
  The port: its virtual members, over the state \<open>'h\<close> of the execution behind it. Callers
  also use that execution beside the task (a provider is rebound, a session recovered);
  \<open>tp_outside\<close> are those calls.
\<close>

record ('h, 'c) task_port =
  tp_poll :: "('h, unit) program"
  tp_phase :: "('h, BindingPhase) program"
  tp_submit :: "u64 \<Rightarrow> string \<Rightarrow> ('h, ComputeSubmission) program"
  tp_request_cancel :: "OperationAuthority \<Rightarrow> ('h, bool) program"
  tp_receipt :: "OperationAuthority \<Rightarrow> 'h \<Rightarrow> OperationReceipt option"
  tp_result :: "'h \<Rightarrow> ComputeResult option"
  tp_ownership_lost :: "'h \<Rightarrow> bool"
  tp_begin_shutdown :: "('h, unit) program"
  tp_outside :: "'c \<Rightarrow> ('h, unit) program"

record task =
  tk_budget :: monotonic_time
  tk_goal :: "ComputeGoal option"
  tk_operation :: "TaskOperation option"
  tk_outcome :: TaskOutcome
  tk_detail :: string
  tk_step :: u32
  tk_admitted_steps :: u64
  tk_first_sum :: "u64 option"
  tk_final_sum :: "u64 option"
  tk_waiting_since :: "monotonic_time option"
  tk_last_tick :: "monotonic_time option"
  tk_closing :: bool

record 'h tasked = task +
  tk_host :: 'h

text \<open>The constructor throws, \<open>None\<close>, on a budget of zero.\<close>

definition make_task :: "monotonic_time \<Rightarrow> task option" where
  "make_task budget =
    (if budget = 0 then None
     else Some \<lparr>tk_budget = budget, tk_goal = None, tk_operation = None, tk_outcome = ToPending,
       tk_detail = ''no goal'', tk_step = 1, tk_admitted_steps = 0, tk_first_sum = None,
       tk_final_sum = None, tk_waiting_since = None, tk_last_tick = None, tk_closing = False\<rparr>)"

definition on_port :: "('h, 'a) program \<Rightarrow> ('h tasked, 'a) program" where
  "on_port m = State (\<lambda>s. case run_state m (tk_host s) of (a, h) \<Rightarrow> (a, s\<lparr>tk_host := h\<rparr>))"

definition set_outcome :: "TaskOutcome \<Rightarrow> string \<Rightarrow> ('h tasked, unit) program" where
  "set_outcome outcome detail = changes (\<lambda>s. s\<lparr>tk_outcome := outcome, tk_detail := detail\<rparr>)"

definition set_detail :: "string \<Rightarrow> ('h tasked, unit) program" where
  "set_detail detail = changes (\<lambda>s. s\<lparr>tk_detail := detail\<rparr>)"

subsection \<open>The arithmetic of a step\<close>

text \<open>
  The application's own sum: one period and its remainder, added up term by term, instead
  of the polynomial of the host or the accumulation of the worker.
\<close>

definition sum_term :: "u64 \<Rightarrow> nat \<Rightarrow> u64 \<times> u64 \<Rightarrow> u64 \<times> u64" where
  "sum_term iterations i sums =
    (let x = of_nat i
     in (fst sums + x * x, if x < iterations mod 1000 then snd sums + x * x else snd sums))"

definition application_sum :: "u64 \<Rightarrow> u64" where
  "application_sum iterations =
    (let sums = fold (sum_term iterations) [0..<1000] (0, 0)
     in iterations div 1000 * fst sums + snd sums)"

definition second_iterations :: "u64 \<Rightarrow> u64" where
  "second_iterations first = first mod 8 + 1"

definition step_iterations :: "('h, 'x) tasked_scheme \<Rightarrow> u64" where
  "step_iterations s =
    (if tk_step s = 1 then cg_first_iterations (the (tk_goal s)) else second_iterations (the (tk_first_sum s)))"

definition step_reference :: "u64 \<Rightarrow> u32 \<Rightarrow> string" where
  "step_reference revision step = ''goal-'' @ u64_to_string revision @ ''-step-'' @ decimal (unat step)"

subsection \<open>The members\<close>

definition goal_invalid :: "ComputeGoal \<Rightarrow> bool" where
  "goal_invalid goal \<longleftrightarrow>
     cg_revision goal = 0 \<or> cg_first_iterations goal = 0 \<or> cg_first_iterations goal > 100000000"

definition note_interrupted_goal :: "ComputeGoal \<Rightarrow> ('h tasked, bool) program" where
  "note_interrupted_goal goal = do {
     refused \<leftarrow> reads (\<lambda>s. tk_closing s \<or> tk_goal s \<noteq> None \<or> tk_operation s \<noteq> None \<or> goal_invalid goal);
     if refused then answer False
     else do {
       changes (\<lambda>s. s\<lparr>tk_goal := Some goal\<rparr>);
       set_outcome ToNeedsAttention ''previous Host lost; prior goal outcome unavailable'';
       answer True
     }
   }"

definition needs_attention :: "('h, 'c) task_port \<Rightarrow> string \<Rightarrow> ('h tasked, unit) program" where
  "needs_attention port detail = do {
     set_outcome ToNeedsAttention detail;
     operation \<leftarrow> reads tk_operation;
     case operation of
       None \<Rightarrow> skip
     | Some p \<Rightarrow> do {
         on_port (tp_request_cancel port (top_authority p));
         skip
       }
   }"

definition install_goal :: "ComputeGoal \<Rightarrow> ('h, 'x) tasked_scheme \<Rightarrow> ('h, 'x) tasked_scheme" where
  "install_goal goal s =
     s\<lparr>tk_goal := Some goal, tk_step := 1, tk_first_sum := None, tk_final_sum := None,
       tk_waiting_since := (if tk_operation s = None then None else tk_waiting_since s),
       tk_outcome := ToPending,
       tk_detail := (if tk_operation s = None then ''ready for first step''
                     else ''waiting for previous goal cleanup'')\<rparr>"

definition revise_goal :: "('h, 'c) task_port \<Rightarrow> ComputeGoal \<Rightarrow> ('h tasked, bool) program" where
  "revise_goal port goal = do {
     refused \<leftarrow> reads (\<lambda>s. tk_closing s \<or> tk_outcome s = ToNeedsAttention \<or> goal_invalid goal \<or>
       (case tk_goal s of None \<Rightarrow> False | Some old \<Rightarrow> cg_revision goal \<le> cg_revision old));
     if refused then answer False
     else do {
       changes (install_goal goal);
       operation \<leftarrow> reads tk_operation;
       case operation of
         None \<Rightarrow> answer True
       | Some p \<Rightarrow> do {
           cancelled \<leftarrow> on_port (tp_request_cancel port (top_authority p));
           on_condition (\<not> cancelled) (needs_attention port ''cancellation could not be correlated'');
           answer True
         }
     }
   }"

definition observation_expired :: "monotonic_time \<Rightarrow> ('h, 'x) tasked_scheme \<Rightarrow> bool" where
  "observation_expired time s \<longleftrightarrow>
     (case tk_waiting_since s of
        None \<Rightarrow> False
      | Some since \<Rightarrow> time \<ge> since \<and> time - since \<ge> tk_budget s)"

definition attention_when_expired ::
  "('h, 'c) task_port \<Rightarrow> monotonic_time \<Rightarrow> string \<Rightarrow> ('h tasked, unit) program"
where
  "attention_when_expired port time detail = do {
     expired \<leftarrow> reads (observation_expired time);
     on_condition expired (needs_attention port detail)
   }"

definition take_operation ::
  "OperationAuthority \<Rightarrow> string \<Rightarrow> u64 \<Rightarrow> monotonic_time \<Rightarrow> ('h, 'x) tasked_scheme \<Rightarrow> ('h, 'x) tasked_scheme"
where
  "take_operation a reference iterations time s =
     s\<lparr>tk_operation := Some \<lparr>top_goal_revision = cg_revision (the (tk_goal s)), top_step = tk_step s,
         top_authority = a, top_request_reference = reference, top_iterations = iterations\<rparr>,
       tk_admitted_steps := tk_admitted_steps s + 1, tk_waiting_since := Some time\<rparr>"

definition submit_active :: "('h, 'c) task_port \<Rightarrow> monotonic_time \<Rightarrow> ('h tasked, unit) program" where
  "submit_active port time = do {
     iterations \<leftarrow> reads step_iterations;
     reference \<leftarrow> reads (\<lambda>s. step_reference (cg_revision (the (tk_goal s))) (tk_step s));
     submission \<leftarrow> on_port (tp_submit port iterations reference);
     (case csb_authority submission of
        None \<Rightarrow> skip
      | Some a \<Rightarrow> changes (take_operation a reference iterations time));
     if csb_status submission \<noteq> SbSubmitted
     then (if csb_admission_status submission \<in> {AdRecoveryRequired, AdDomainOccupied}
           then needs_attention port ''admission requires unresolved execution facts''
           else set_outcome ToFailed ''step could not be submitted with the required capability'')
     else set_detail ''observing current step''
   }"

definition submit_step :: "('h, 'c) task_port \<Rightarrow> monotonic_time \<Rightarrow> ('h tasked, unit) program" where
  "submit_step port time = do {
     phase \<leftarrow> on_port (tp_phase port);
     if phase = PhClosed then set_outcome ToFailed ''host is permanently closed''
     else if phase \<noteq> PhActive then do {
       set_detail ''waiting for an explicitly rebound provider'';
       attention_when_expired port time ''provider handoff has not been confirmed''
     }
     else submit_active port time
   }"

text \<open>What \<open>tick\<close> makes of the receipt of the operation it waits for, in the code's order.\<close>

definition unconfirmed :: "OperationReceipt option \<Rightarrow> bool" where
  "unconfirmed r \<longleftrightarrow>
     (case r of
        None \<Rightarrow> True
      | Some r \<Rightarrow> rc_native_outcome r = NoUnknown \<or> rc_authority_disposition r = AuBlockedUnknown)"

definition interrupted :: "OperationReceipt \<Rightarrow> bool" where
  "interrupted r \<longleftrightarrow>
     rc_native_outcome r = NoFailed \<or> rc_native_outcome r = NoCancelled \<or> rc_native_outcome r = NoNotExecuted \<or>
     rc_cancellation_requested_at r \<noteq> None \<or> rc_expiry_observed_at r \<noteq> None \<or> rc_binding_withdrawn_at r \<noteq> None"

definition correlated :: "OperationReceipt \<Rightarrow> TaskOperation \<Rightarrow> ComputeResult option \<Rightarrow> bool" where
  "correlated r p result \<longleftrightarrow>
     rc_native_outcome r = NoSucceeded \<and> rc_output r = OdAccepted \<and>
     (case result of
        None \<Rightarrow> False
      | Some x \<Rightarrow>
          cr_operation_id x = oa_operation_id (top_authority p) \<and>
          cr_request_reference x = top_request_reference p \<and> cr_iterations x = top_iterations p)"

definition next_step :: "monotonic_time \<Rightarrow> u64 \<Rightarrow> ('h, 'x) tasked_scheme \<Rightarrow> ('h, 'x) tasked_scheme" where
  "next_step time v s =
    (if tk_step s = 1
     then s\<lparr>tk_first_sum := Some v, tk_step := 2, tk_operation := None, tk_waiting_since := Some time,
            tk_detail := ''first result accepted and settled; second input selected''\<rparr>
     else s\<lparr>tk_final_sum := Some v, tk_outcome := ToSucceeded,
            tk_detail := ''both accepted results verified and settled''\<rparr>)"

definition take_result ::
  "('h, 'c) task_port \<Rightarrow> TaskOperation \<Rightarrow> OperationReceipt \<Rightarrow> monotonic_time \<Rightarrow> ('h tasked, unit) program"
where
  "take_result port p r time = do {
     result \<leftarrow> reads (\<lambda>s. tp_result port (tk_host s));
     if \<not> correlated r p result
     then needs_attention port ''accepted result cannot be correlated with this goal and step''
     else if cr_sum (the result) \<noteq> application_sum (top_iterations p)
     then set_outcome ToFailed ''application arithmetic check failed''
     else changes (next_step time (cr_sum (the result)))
   }"

definition await_previous ::
  "('h, 'c) task_port \<Rightarrow> OperationReceipt \<Rightarrow> monotonic_time \<Rightarrow> ('h tasked, unit) program"
where
  "await_previous port r time =
    (if rc_authority_disposition r = AuReleased
     then changes (\<lambda>s. s\<lparr>tk_operation := None, tk_waiting_since := Some time,
       tk_detail := ''previous goal settled; new goal may start''\<rparr>)
     else attention_when_expired port time ''previous goal cleanup has not been confirmed'')"

definition await_current ::
  "('h, 'c) task_port \<Rightarrow> TaskOperation \<Rightarrow> OperationReceipt \<Rightarrow> monotonic_time \<Rightarrow> ('h tasked, unit) program"
where
  "await_current port p r time =
    (if interrupted r
     then set_outcome ToFailed ''current goal interrupted or step failed; cleanup still driven''
     else if rc_authority_disposition r \<noteq> AuReleased
     then attention_when_expired port time ''step result and cleanup not confirmed within observation window''
     else take_result port p r time)"

definition observe_operation ::
  "('h, 'c) task_port \<Rightarrow> TaskOperation \<Rightarrow> monotonic_time \<Rightarrow> ('h tasked, unit) program"
where
  "observe_operation port p time = do {
     receipt \<leftarrow> reads (\<lambda>s. tp_receipt port (top_authority p) (tk_host s));
     lost \<leftarrow> reads (\<lambda>s. tp_ownership_lost port (tk_host s));
     current \<leftarrow> reads (\<lambda>s. top_goal_revision p = cg_revision (the (tk_goal s)));
     if unconfirmed receipt \<or> lost
     then needs_attention port ''operation outcome or ownership cannot be confirmed''
     else if \<not> current then await_previous port (the receipt) time
     else await_current port p (the receipt) time
   }"

definition start_waiting :: "monotonic_time \<Rightarrow> ('h, 'x) tasked_scheme \<Rightarrow> ('h, 'x) tasked_scheme" where
  "start_waiting time s =
     s\<lparr>tk_waiting_since := (if tk_waiting_since s = None then Some time else tk_waiting_since s)\<rparr>"

definition proceed :: "('h, 'c) task_port \<Rightarrow> monotonic_time \<Rightarrow> ('h tasked, unit) program" where
  "proceed port time = do {
     changes (start_waiting time);
     operation \<leftarrow> reads tk_operation;
     case operation of
       None \<Rightarrow> submit_step port time
     | Some p \<Rightarrow> observe_operation port p time
   }"

definition open_tick :: "('h, 'c) task_port \<Rightarrow> monotonic_time \<Rightarrow> ('h tasked, unit) program" where
  "open_tick port time = do {
     last \<leftarrow> reads tk_last_tick;
     if (case last of None \<Rightarrow> False | Some t \<Rightarrow> time < t)
     then needs_attention port ''caller observation clock moved backwards''
     else do {
       changes (\<lambda>s. s\<lparr>tk_last_tick := Some time\<rparr>);
       pending \<leftarrow> reads (\<lambda>s. tk_goal s \<noteq> None \<and> tk_outcome s = ToPending);
       on_condition pending (proceed port time)
     }
   }"

definition tick_task :: "('h, 'c) task_port \<Rightarrow> monotonic_time \<Rightarrow> ('h tasked, unit) program" where
  "tick_task port time = do {
     on_port (tp_poll port);
     closing \<leftarrow> reads tk_closing;
     on_condition (\<not> closing) (open_tick port time)
   }"

definition shut_down_task :: "('h, 'c) task_port \<Rightarrow> ('h tasked, unit) program" where
  "shut_down_task port = do {
     closing \<leftarrow> reads tk_closing;
     on_condition (\<not> closing) (do {
       changes (\<lambda>s. s\<lparr>tk_closing := True\<rparr>);
       pending \<leftarrow> reads (\<lambda>s. tk_goal s \<noteq> None \<and> tk_outcome s = ToPending);
       on_condition pending
         (set_outcome ToCancelled ''task cancelled by shutdown; native cleanup remains observable'');
       on_port (tp_begin_shutdown port)
     })
   }"

subsection \<open>The task as a machine\<close>

datatype 'c task_call =
    TcNote ComputeGoal
  | TcRevise ComputeGoal
  | TcTick monotonic_time
  | TcShutdown
  | TcOutside 'c

datatype task_answer = TaTaken bool | TaDone

fun task_member :: "('h, 'c) task_port \<Rightarrow> 'c task_call \<Rightarrow> ('h tasked, task_answer) program" where
  "task_member port (TcNote goal) = do {
     taken \<leftarrow> note_interrupted_goal goal;
     answer (TaTaken taken)
   }"
| "task_member port (TcRevise goal) = do {
     taken \<leftarrow> revise_goal port goal;
     answer (TaTaken taken)
   }"
| "task_member port (TcTick time) = do {
     tick_task port time;
     answer TaDone
   }"
| "task_member port TcShutdown = do {
     shut_down_task port;
     answer TaDone
   }"
| "task_member port (TcOutside c) = do {
     on_port (tp_outside port c);
     answer TaDone
   }"

definition task_step :: "('h, 'c) task_port \<Rightarrow> 'h tasked \<Rightarrow> 'c task_call \<Rightarrow> 'h tasked \<times> task_answer" where
  "task_step port s c = prod.swap (run_state (task_member port c) s)"

definition task_initial :: "('h \<Rightarrow> bool) \<Rightarrow> 'h tasked \<Rightarrow> bool" where
  "task_initial started s \<longleftrightarrow> (\<exists>budget. make_task budget = Some (task.truncate s)) \<and> started (tk_host s)"

abbreviation task_reachable :: "('h, 'c) task_port \<Rightarrow> ('h \<Rightarrow> bool) \<Rightarrow> 'h tasked \<Rightarrow> bool" where
  "task_reachable port started \<equiv> reachable (task_step port) (task_initial started)"

subsection \<open>The local execution\<close>

text \<open>\<open>LocalTaskExecution\<close>: the port over a compute host, with the default profile and no deadline.\<close>

definition local_request :: "u64 \<Rightarrow> string \<Rightarrow> ComputeRequest" where
  "local_request iterations reference =
    \<lparr>cq_request_reference = reference, cq_iterations = iterations, cq_deadline = None,
     cq_required_profile_id = kLocalComputeProfile\<rparr>"

definition local_phase :: "'w env \<Rightarrow> ('w running, BindingPhase) program" where
  "local_phase env = do {
     time \<leftarrow> host_now env;
     reads (\<lambda>s. bs_phase (binding_status (ch_gate s) time))
   }"

definition local_cancel :: "'w env \<Rightarrow> OperationAuthority \<Rightarrow> ('w running, bool) program" where
  "local_cancel env a = do {
     decision \<leftarrow> host_request_cancel env a;
     answer (cd_status decision \<noteq> CsRejected)
   }"

definition local_port :: "'w env \<Rightarrow> ('w running, host_call) task_port" where
  "local_port env =
    \<lparr>tp_poll = host_poll env, tp_phase = local_phase env,
     tp_submit = \<lambda>iterations reference. submit env (local_request iterations reference),
     tp_request_cancel = local_cancel env,
     tp_receipt = \<lambda>a s. gate_receipt (ch_gate s) a, tp_result = ch_result,
     tp_ownership_lost = \<lambda>s. cob_ownership_lost (host_observation s),
     tp_begin_shutdown = begin_shutdown env,
     tp_outside = \<lambda>c. changes (\<lambda>s. fst (host_step env s c))\<rparr>"

subsection \<open>The execution over a recovery session\<close>

text \<open>
  \<open>RecoveryTaskExecution\<close> of \<open>examples/recovery_task_execution.cpp\<close>: the port over a recovery
  client. It keeps the metadata of the submitted operation until the client shows a value,
  knows no cancellation but the end of the session, and is recovered from outside. \<open>time_of\<close>
  is \<open>ComputeExecutionHost::now()\<close>. The handlers of exceptions, which close the client and
  rethrow, are not modelled: no member of the client throws.
\<close>

record 'w bridge =
  br_client :: "'w recovering"
  br_pending :: "ComputeResult option"
  br_result :: "ComputeResult option"

definition on_client :: "('w recovering, 'a) program \<Rightarrow> ('w bridge, 'a) program" where
  "on_client m = State (\<lambda>b. case run_state m (br_client b) of (a, c) \<Rightarrow> (a, b\<lparr>br_client := c\<rparr>))"

definition result_is_for :: "ComputeResult \<Rightarrow> OperationReceipt \<Rightarrow> bool" where
  "result_is_for pending r \<longleftrightarrow>
     oa_operation_id (rc_authority r) = cr_operation_id pending \<and>
     rc_authority_disposition r = AuReleased \<and> rc_output r = OdAccepted \<and> rc_native_outcome r = NoSucceeded"

definition take_value :: "'w sockets \<Rightarrow> ComputeResult \<Rightarrow> u64 \<Rightarrow> ('w bridge, unit) program" where
  "take_value so pending v = do {
     observed \<leftarrow> reads (\<lambda>b. client_receipt (br_client b));
     if \<not> receipt_is (result_is_for pending) observed then on_client (close_client so)
     else changes (\<lambda>b. b\<lparr>br_result := Some (pending\<lparr>cr_sum := v\<rparr>), br_pending := None\<rparr>)
   }"

definition bridge_observe :: "'w sockets \<Rightarrow> ('w bridge, unit) program" where
  "bridge_observe so = do {
     state \<leftarrow> reads (\<lambda>b. cl_state (br_client b));
     if state = ClClosed then changes (\<lambda>b. b\<lparr>br_result := None\<rparr>)
     else do {
       v \<leftarrow> reads (\<lambda>b. cl_value (br_client b));
       pending \<leftarrow> reads br_pending;
       case (pending, v) of
         (Some p, Some v) \<Rightarrow> take_value so p v
       | _ \<Rightarrow> skip
     }
   }"

definition bridge_poll :: "('w \<Rightarrow> monotonic_time \<times> 'w) \<Rightarrow> 'w sockets \<Rightarrow> ('w bridge, unit) program" where
  "bridge_poll time_of so = do {
     now \<leftarrow> on_client (client_system time_of);
     on_client (client_poll so now);
     bridge_observe so
   }"

definition bridge_phase :: "'w bridge \<Rightarrow> BindingPhase" where
  "bridge_phase b =
    (if cl_state (br_client b) = ClClosed then PhClosed
     else if cl_state (br_client b) = ClReady then PhActive else PhWithdrawn)"

definition refused_submission :: "AdmissionStatus \<Rightarrow> ComputeSubmission" where
  "refused_submission status =
    \<lparr>csb_status = SbNotSubmitted, csb_admission_status = status, csb_authority = None\<rparr>"

definition bridge_submit ::
  "('w \<Rightarrow> monotonic_time \<times> 'w) \<Rightarrow> 'w sockets \<Rightarrow> u64 \<Rightarrow> string \<Rightarrow> ('w bridge, ComputeSubmission) program"
where
  "bridge_submit time_of so iterations reference = do {
     now \<leftarrow> on_client (client_system time_of);
     submitted \<leftarrow> on_client (client_submit so iterations now);
     if \<not> submitted then answer (refused_submission AdRecoveryRequired)
     else do {
       observed \<leftarrow> reads (\<lambda>b. client_receipt (br_client b));
       case observed of
         None \<Rightarrow> do {
           on_client (close_client so);
           answer (refused_submission AdClosed)
         }
       | Some r \<Rightarrow> do {
           changes (\<lambda>b. b\<lparr>br_pending := Some \<lparr>cr_operation_id = oa_operation_id (rc_authority r),
               cr_request_reference = reference, cr_iterations = iterations, cr_sum = 0\<rparr>,
             br_result := None\<rparr>);
           answer \<lparr>csb_status = SbSubmitted, csb_admission_status = AdAdmitted,
             csb_authority = Some (rc_authority r)\<rparr>
         }
     }
   }"

definition bridge_receipt :: "OperationAuthority \<Rightarrow> 'w bridge \<Rightarrow> OperationReceipt option" where
  "bridge_receipt a b =
    (case client_receipt (br_client b) of
       None \<Rightarrow> None
     | Some r \<Rightarrow> if matches (rc_authority r) a then Some r else None)"

definition bridge_shutdown :: "'w sockets \<Rightarrow> ('w bridge, unit) program" where
  "bridge_shutdown so = do {
     on_client (close_client so);
     changes (\<lambda>b. b\<lparr>br_result := None\<rparr>)
   }"

definition bridge_cancel :: "'w sockets \<Rightarrow> OperationAuthority \<Rightarrow> ('w bridge, bool) program" where
  "bridge_cancel so a = do {
     known \<leftarrow> reads (\<lambda>b. bridge_receipt a b \<noteq> None);
     on_condition known (bridge_shutdown so);
     answer False
   }"

text \<open>Beside the task, the session is recovered.\<close>

definition bridge_recover :: "'w sockets \<Rightarrow> monotonic_time \<Rightarrow> ('w bridge, unit) program" where
  "bridge_recover so now = do {
     on_client (client_recover so now);
     skip
   }"

definition recovery_port ::
  "('w \<Rightarrow> monotonic_time \<times> 'w) \<Rightarrow> 'w sockets \<Rightarrow> ('w bridge, monotonic_time) task_port"
where
  "recovery_port time_of so =
    \<lparr>tp_poll = bridge_poll time_of so, tp_phase = reads bridge_phase,
     tp_submit = bridge_submit time_of so, tp_request_cancel = bridge_cancel so,
     tp_receipt = bridge_receipt, tp_result = br_result,
     tp_ownership_lost = \<lambda>b. cl_state (br_client b) = ClClosed,
     tp_begin_shutdown = bridge_shutdown so, tp_outside = bridge_recover so\<rparr>"

end
