(* ===== verification/Compute_Task_Invariant.thy ===== *)
theory Compute_Task_Invariant
  imports Compute_Task
begin

text \<open>
  The properties of the two-step task: its own arithmetic agrees with the host's, a task
  that succeeds has verified both results, no step is submitted twice, a task that needs
  attention stays so and submits nothing, and over the two executions of the repository
  the arithmetic check never fails.
\<close>

subsection \<open>The arithmetic\<close>

lemma sum_term_fold:
  "m \<le> 1000 \<Longrightarrow> fold (sum_term n) [0..<m] (0, 0) =
    (of_nat (\<Sum>i<m. i\<^sup>2), of_nat (\<Sum>i<min m (unat (n mod 1000)). i\<^sup>2))"
proof (induction m)
  case (Suc m)
  have "of_nat m < n mod 1000 \<longleftrightarrow> m < unat (n mod 1000)"
    using Suc.prems by (simp add: word_less_nat_alt unsigned_of_nat take_bit_nat_eq_self)
  moreover have "min (Suc m) k = (if m < k then Suc m else min m k)" for k by auto
  ultimately show ?case
    using Suc by (simp add: sum_term_def Let_def power2_eq_square min_def)
qed simp

lemma squares_below_period: "m \<le> 1000 \<Longrightarrow> (\<Sum>i<m. i\<^sup>2) = reference_sum m"
  unfolding reference_sum_def by (intro sum.cong) auto

lemma application_sum_reference: "application_sum n = of_nat (reference_sum (unat n))"
proof -
  let ?r = "unat n mod 1000"
  have split: "reference_sum (unat n) = (unat n div 1000) * reference_sum 1000 + reference_sum ?r"
    using reference_sum_closed [of "unat n"] reference_sum_closed [of 1000] by (simp add: reference_sum_small)
  have "n div 1000 = of_nat (unat n div 1000)" by (simp add: word_arith_nat_div)
  moreover have "unat (n mod 1000) = ?r" by (rule unat_mod_1000)
  ultimately show ?thesis
    unfolding application_sum_def sum_term_fold [OF order_refl] split
    by (simp add: squares_below_period min_absorb2)
qed

lemma application_sum_expected [code]: "application_sum n = expected_sum n"
  by (simp add: application_sum_reference expected_sum_reference)

subsection \<open>Programs of the port\<close>

lemma wp_on_port: "wp (on_port m) Q s = wp m (\<lambda>a h. Q a (s\<lparr>tk_host := h\<rparr>)) (tk_host s)"
  by (simp add: wp_def on_port_def split: prod.split)

lemma wp_free: "(\<And>a h. Q a (s\<lparr>tk_host := h\<rparr>)) \<Longrightarrow> wp (on_port m) Q s"
  unfolding wp_on_port by (simp add: wp_run)

lemma wp_answers: "wp (answer a) Q = Q a"
  by (rule ext) (rule wp_answer)

lemmas task_wp = wp_rules wp_answers set_outcome_def set_detail_def

subsection \<open>The state of a task\<close>

text \<open>
  The first sum is the goal's, an operation in hand belongs to the goal or to an earlier
  one, and a success has both sums.
\<close>

definition task_ok :: "('h, 'x) tasked_scheme \<Rightarrow> bool" where
  "task_ok s \<longleftrightarrow>
     (tk_step s = 1 \<or> tk_step s = 2 \<and> (\<exists>g. tk_goal s = Some g \<and>
        tk_first_sum s = Some (application_sum (cg_first_iterations g)))) \<and>
     (\<forall>p. tk_operation s = Some p \<longrightarrow> (\<exists>g. tk_goal s = Some g \<and>
        top_goal_revision p \<le> cg_revision g \<and>
        (top_goal_revision p = cg_revision g \<longrightarrow>
           top_step p = tk_step s \<and> top_iterations p = step_iterations s))) \<and>
     (tk_outcome s = ToSucceeded \<longrightarrow> tk_step s = 2 \<and>
        tk_final_sum s = Some (application_sum (second_iterations (the (tk_first_sum s)))))"

lemma step_iterations_irrelevant [simp]:
  "step_iterations (s\<lparr>tk_host := h\<rparr>) = step_iterations s" "step_iterations (s\<lparr>tk_detail := d\<rparr>) = step_iterations s"
  "step_iterations (s\<lparr>tk_waiting_since := w\<rparr>) = step_iterations s"
  "step_iterations (s\<lparr>tk_last_tick := w\<rparr>) = step_iterations s"
  "step_iterations (s\<lparr>tk_closing := b\<rparr>) = step_iterations s"
  "step_iterations (s\<lparr>tk_outcome := v\<rparr>) = step_iterations s"
  "step_iterations (s\<lparr>tk_operation := x\<rparr>) = step_iterations s"
  by (simp_all add: step_iterations_def)

lemma task_ok_irrelevant [simp]:
  "task_ok (s\<lparr>tk_host := h\<rparr>) = task_ok s" "task_ok (s\<lparr>tk_detail := d\<rparr>) = task_ok s"
  "task_ok (s\<lparr>tk_waiting_since := w\<rparr>) = task_ok s" "task_ok (s\<lparr>tk_last_tick := w\<rparr>) = task_ok s"
  "task_ok (s\<lparr>tk_closing := b\<rparr>) = task_ok s"
  by (simp_all add: task_ok_def)

lemma task_ok_outcome: "task_ok s \<Longrightarrow> v \<noteq> ToSucceeded \<Longrightarrow> task_ok (s\<lparr>tk_outcome := v\<rparr>)"
  by (simp add: task_ok_def)

lemma task_ok_released: "task_ok s \<Longrightarrow> task_ok (s\<lparr>tk_operation := None\<rparr>)"
  by (simp add: task_ok_def)

lemma task_ok_install:
  assumes "task_ok s" and "\<And>g. tk_goal s = Some g \<Longrightarrow> cg_revision g < cg_revision goal"
  shows "task_ok (install_goal goal s)"
  using assms by (auto simp: task_ok_def install_goal_def dest: order.strict_trans1)

lemma task_ok_taken:
  assumes "task_ok s" and "tk_goal s \<noteq> None"
  shows "task_ok (take_operation a reference (step_iterations s) time s)"
  using assms by (auto simp: task_ok_def take_operation_def step_iterations_def)

lemma task_ok_next:
  assumes "task_ok s" and "tk_operation s = Some p" and "tk_goal s = Some g"
    and "top_goal_revision p = cg_revision g"
  shows "task_ok (next_step time (application_sum (top_iterations p)) s)"
  using assms by (auto simp: task_ok_def next_step_def step_iterations_def)

lemma attention_ok: "task_ok s \<Longrightarrow> wp (needs_attention port d) (\<lambda>_. task_ok) s"
  by (auto simp: needs_attention_def task_wp task_ok_outcome intro!: wp_free split: option.split)

lemma expiry_ok: "task_ok s \<Longrightarrow> wp (attention_when_expired port time d) (\<lambda>_. task_ok) s"
  by (simp add: attention_when_expired_def task_wp attention_ok)

lemma submit_active_ok:
  assumes "task_ok s" and "tk_goal s \<noteq> None"
  shows "wp (submit_active port time) (\<lambda>_. task_ok) s"
proof -
  have "task_ok (take_operation a r (step_iterations s) time (s\<lparr>tk_host := h\<rparr>))" for a r h
    using task_ok_taken [of "s\<lparr>tk_host := h\<rparr>" a r time] assms by simp
  then show ?thesis
    using assms(1)
    by (auto simp: submit_active_def task_wp attention_ok task_ok_outcome intro!: wp_free split: option.split)
qed

lemma submit_step_ok: "task_ok s \<Longrightarrow> tk_goal s \<noteq> None \<Longrightarrow> wp (submit_step port time) (\<lambda>_. task_ok) s"
  by (auto simp: submit_step_def task_wp task_ok_outcome expiry_ok submit_active_ok intro!: wp_free)

lemma take_result_ok:
  assumes "task_ok s" and "tk_operation s = Some p" and "tk_goal s = Some g"
    and "top_goal_revision p = cg_revision g"
  shows "wp (take_result port p r time) (\<lambda>_. task_ok) s"
  using assms(1) task_ok_next [OF assms]
  by (simp add: take_result_def task_wp attention_ok task_ok_outcome)

lemma observe_operation_ok:
  assumes "task_ok s" and "tk_operation s = Some p" and "tk_goal s = Some g"
  shows "wp (observe_operation port p time) (\<lambda>_. task_ok) s"
  using assms
  by (simp add: observe_operation_def await_previous_def await_current_def task_wp attention_ok expiry_ok
      task_ok_outcome task_ok_released take_result_ok)

lemma proceed_ok:
  assumes "task_ok s" and "tk_goal s \<noteq> None"
  shows "wp (proceed port time) (\<lambda>_. task_ok) s"
  using assms
  by (auto simp add: proceed_def task_wp start_waiting_def submit_step_ok observe_operation_ok split: option.split)

lemma task_member_ok:
  assumes "task_ok s"
  shows "wp (task_member port c) (\<lambda>_. task_ok) s"
proof (cases c)
  case (TcNote goal)
  with assms show ?thesis
    by (auto simp: note_interrupted_goal_def task_wp task_ok_def step_iterations_def)
next
  case (TcRevise goal)
  have "task_ok (install_goal goal s)" if "\<And>g. tk_goal s = Some g \<Longrightarrow> cg_revision g < cg_revision goal"
    by (rule task_ok_install [OF assms that])
  with TcRevise assms show ?thesis
    by (auto simp: revise_goal_def task_wp attention_ok not_le intro!: wp_free split: option.splits)
next
  case (TcTick time)
  with assms show ?thesis
    by (auto simp: tick_task_def open_tick_def task_wp attention_ok proceed_ok intro!: wp_free)
qed (use assms in \<open>auto simp: shut_down_task_def task_wp task_ok_outcome intro!: wp_free\<close>)

lemma task_step_run: "fst (task_step port s c) = snd (run_state (task_member port c) s)"
  by (simp add: task_step_def)

lemma task_reachable_ok: "task_reachable port started s \<Longrightarrow> task_ok s"
proof (induction rule: reachable.induct)
  case (reachable_init s)
  then show ?case
    by (auto simp: task_initial_def make_task_def task.truncate_def task_ok_def split: if_splits)
next
  case (reachable_step s c)
  from task_member_ok [OF reachable_step.IH, of port c] show ?case
    by (simp add: task_step_run wp_run)
qed

subsection \<open>What has been submitted\<close>

lemma step_reference_inject:
  assumes "j \<in> {1, 2}" and "k \<in> {1, 2}"
  shows "step_reference q j = step_reference r k \<longleftrightarrow> q = r \<and> j = k"
proof -
  have digits: "decimal 1 = ''1''" "decimal 2 = ''2''" by code_simp+
  have "u64_to_string q @ ''-step-'' @ [x] = u64_to_string r @ ''-step-'' @ [y] \<longleftrightarrow> q = r \<and> x = y" for x y
    by (auto simp: append_eq_append_conv u64_to_string_inject)
  with assms digits show ?thesis by (auto simp: step_reference_def)
qed

text \<open>A step of the current goal that has been submitted, and is not submitted again.\<close>

definition step_used :: "u32 \<Rightarrow> ('h, 'x) tasked_scheme \<Rightarrow> bool" where
  "step_used k s \<longleftrightarrow>
     tk_outcome s \<noteq> ToPending \<or> k = 1 \<and> tk_step s = 2 \<or>
     k = tk_step s \<and> (\<exists>p g. tk_operation s = Some p \<and> tk_goal s = Some g \<and> top_goal_revision p = cg_revision g)"

definition accounted :: "string list \<Rightarrow> ('h, 'x) tasked_scheme \<Rightarrow> bool" where
  "accounted references s \<longleftrightarrow>
     distinct references \<and>
     (\<forall>x \<in> set references. \<exists>r k g. x = step_reference r k \<and> k \<in> {1, 2} \<and> tk_goal s = Some g \<and>
        r \<le> cg_revision g \<and> (r = cg_revision g \<longrightarrow> step_used k s))"

lemma accounted_irrelevant [simp]:
  "accounted l (s\<lparr>tk_host := h\<rparr>) = accounted l s" "accounted l (s\<lparr>tk_detail := d\<rparr>) = accounted l s"
  "accounted l (s\<lparr>tk_waiting_since := w\<rparr>) = accounted l s" "accounted l (s\<lparr>tk_last_tick := w\<rparr>) = accounted l s"
  "accounted l (s\<lparr>tk_closing := b\<rparr>) = accounted l s"
  by (simp_all add: accounted_def step_used_def)

lemma accounted_mono:
  assumes "accounted l s" and "tk_goal t = tk_goal s" and "\<And>k. step_used k s \<Longrightarrow> step_used k t"
  shows "accounted l t"
  using assms unfolding accounted_def by metis

lemma accounted_ended: "accounted l s \<Longrightarrow> v \<noteq> ToPending \<Longrightarrow> accounted l (s\<lparr>tk_outcome := v\<rparr>)"
  by (erule accounted_mono) (simp_all add: step_used_def)

lemma accounted_released:
  assumes "accounted l s" and "tk_operation s = Some p" and "top_goal_revision p \<noteq> cg_revision (the (tk_goal s))"
  shows "accounted l (s\<lparr>tk_operation := None\<rparr>)"
  using assms(1) by (rule accounted_mono) (use assms(2,3) in \<open>auto simp: step_used_def\<close>)

lemma accounted_next: "accounted l s \<Longrightarrow> accounted l (next_step time v s)"
  by (erule accounted_mono) (auto simp: step_used_def next_step_def)

lemma accounted_install:
  assumes "accounted l s" and "\<And>g. tk_goal s = Some g \<Longrightarrow> cg_revision g < cg_revision goal"
  shows "accounted l (install_goal goal s)"
  using assms unfolding accounted_def install_goal_def by fastforce

lemma install_goal_fields [simp]:
  "tk_host (install_goal goal s) = tk_host s" "tk_outcome (install_goal goal s) = ToPending"
  "tk_detail (install_goal goal s) \<noteq> ''application arithmetic check failed''"
  by (simp_all add: install_goal_def)

lemma accounted_noted: "accounted l s \<Longrightarrow> tk_goal s = None \<Longrightarrow> accounted l (s\<lparr>tk_goal := x, tk_outcome := v\<rparr>)"
  by (auto simp: accounted_def)

lemma accounted_submitted:
  assumes "accounted l s" and "task_ok s" and "tk_outcome s = ToPending" and "tk_operation s = None"
    and g: "tk_goal s = Some g" and t: "tk_goal t = Some g" "step_used (tk_step s) t"
    and mono: "\<And>k. step_used k s \<Longrightarrow> step_used k t"
  shows "accounted (l @ [step_reference (cg_revision g) (tk_step s)]) t"
proof -
  let ?x = "step_reference (cg_revision g) (tk_step s)"
  have k: "tk_step s \<in> {1, 2}" using assms(2) by (auto simp: task_ok_def)
  have unused: "\<not> step_used (tk_step s) s" using assms(3,4) by (auto simp: step_used_def)
  have "?x \<notin> set l"
  proof
    assume "?x \<in> set l"
    with assms(1) obtain r j g' where x: "?x = step_reference r j" and j: "j \<in> {1, 2}"
      and used: "tk_goal s = Some g'" "r = cg_revision g' \<longrightarrow> step_used j s"
      unfolding accounted_def by blast
    have "cg_revision g = r \<and> tk_step s = j"
      by (rule iffD1 [OF step_reference_inject [OF k j] x])
    with unused used g show False by simp
  qed
  moreover have "accounted l t"
    by (rule accounted_mono [OF assms(1)]) (simp_all add: t(1) g mono)
  moreover have "\<exists>r j g'. ?x = step_reference r j \<and> j \<in> {1, 2} \<and> tk_goal t = Some g' \<and> r \<le> cg_revision g' \<and>
      (r = cg_revision g' \<longrightarrow> step_used j t)"
    by (rule exI [of _ "cg_revision g"], rule exI [of _ "tk_step s"], rule exI [of _ g]) (use k t in simp)
  ultimately show ?thesis
    unfolding accounted_def set_append ball_Un distinct_append by simp
qed

subsection \<open>The contract of an execution\<close>

text \<open>
  What a task relies on: an execution stays sound under every member of the port and what
  callers do beside the task, a submission that it reports as made has an authority, and a
  result that it shows is the sum of its iterations.
\<close>

definition keeps_sound :: "('h \<Rightarrow> bool) \<Rightarrow> ('h, 'a) program \<Rightarrow> bool" where
  "keeps_sound sound m \<longleftrightarrow> (\<forall>h. sound h \<longrightarrow> wp m (\<lambda>_. sound) h)"

definition submission_made :: "ComputeSubmission \<Rightarrow> bool" where
  "submission_made x \<longleftrightarrow> csb_status x = SbSubmitted \<longrightarrow> csb_authority x \<noteq> None"

text \<open>A port that keeps a record of the references it was asked to submit.\<close>

definition beside :: "('h, 'a) program \<Rightarrow> ('h \<times> 'l, 'a) program" where
  "beside m = State (\<lambda>s. case run_state m (fst s) of (a, h) \<Rightarrow> (a, (h, snd s)))"

definition logged :: "('h, 'c) task_port \<Rightarrow> ('h \<times> string list, 'c) task_port" where
  "logged port =
    \<lparr>tp_poll = beside (tp_poll port), tp_phase = beside (tp_phase port),
     tp_submit = \<lambda>n reference. do {
       changes (\<lambda>s. (fst s, snd s @ [reference]));
       beside (tp_submit port n reference)
     },
     tp_request_cancel = \<lambda>a. beside (tp_request_cancel port a),
     tp_receipt = \<lambda>a s. tp_receipt port a (fst s), tp_result = \<lambda>s. tp_result port (fst s),
     tp_ownership_lost = \<lambda>s. tp_ownership_lost port (fst s),
     tp_begin_shutdown = beside (tp_begin_shutdown port), tp_outside = \<lambda>c. beside (tp_outside port c)\<rparr>"

lemma wp_beside [wp_rules]: "wp (beside m) Q s = wp m (\<lambda>a h. Q a (h, snd s)) (fst s)"
  by (simp add: wp_def beside_def split: prod.split)

lemma logged_simps [simp]:
  "tp_poll (logged port) = beside (tp_poll port)" "tp_phase (logged port) = beside (tp_phase port)"
  "tp_request_cancel (logged port) a = beside (tp_request_cancel port a)"
  "tp_receipt (logged port) a s = tp_receipt port a (fst s)" "tp_result (logged port) s = tp_result port (fst s)"
  "tp_ownership_lost (logged port) s = tp_ownership_lost port (fst s)"
  "tp_begin_shutdown (logged port) = beside (tp_begin_shutdown port)"
  "tp_outside (logged port) c = beside (tp_outside port c)"
  by (simp_all add: logged_def)

text \<open>The arithmetic has not failed, and what was submitted is accounted for.\<close>

definition followed :: "('h \<Rightarrow> bool) \<Rightarrow> ('h \<times> string list) tasked \<Rightarrow> bool" where
  "followed sound s \<longleftrightarrow>
     sound (fst (tk_host s)) \<and> accounted (snd (tk_host s)) s \<and>
     tk_detail s \<noteq> ''application arithmetic check failed''"

lemma followed_irrelevant [simp]:
  "followed sound (s\<lparr>tk_waiting_since := w\<rparr>) = followed sound s"
  "followed sound (s\<lparr>tk_last_tick := t\<rparr>) = followed sound s"
  "followed sound (s\<lparr>tk_closing := b\<rparr>) = followed sound s"
  by (simp_all add: followed_def)

lemma followed_host: "followed sound s \<Longrightarrow> sound h \<Longrightarrow> followed sound (s\<lparr>tk_host := (h, snd (tk_host s))\<rparr>)"
  by (simp add: followed_def)

lemma followed_ended:
  "followed sound s \<Longrightarrow> v \<noteq> ToPending \<Longrightarrow> d \<noteq> ''application arithmetic check failed'' \<Longrightarrow>
    followed sound (s\<lparr>tk_outcome := v, tk_detail := d\<rparr>)"
  by (simp add: followed_def accounted_ended)

lemma followed_detail:
  "followed sound s \<Longrightarrow> d \<noteq> ''application arithmetic check failed'' \<Longrightarrow> followed sound (s\<lparr>tk_detail := d\<rparr>)"
  by (simp add: followed_def)

locale task_execution =
  fixes port :: "('h, 'c) task_port" and sound :: "'h \<Rightarrow> bool"
  assumes poll_law: "keeps_sound sound (tp_poll port)"
    and phase_law: "keeps_sound sound (tp_phase port)"
    and cancel_law: "keeps_sound sound (tp_request_cancel port a)"
    and shutdown_law: "keeps_sound sound (tp_begin_shutdown port)"
    and outside_law: "keeps_sound sound (tp_outside port c)"
    and submit_law: "sound h \<Longrightarrow> wp (tp_submit port n r) (\<lambda>x h'. sound h' \<and> submission_made x) h"
    and sum_law: "sound h \<Longrightarrow> tp_result port h = Some x \<Longrightarrow> cr_sum x = expected_sum (cr_iterations x)"
begin

lemma wp_port:
  assumes "keeps_sound sound m" and "followed sound s"
    and "\<And>a h. followed sound (s\<lparr>tk_host := (h, snd (tk_host s))\<rparr>) \<Longrightarrow> Q a (s\<lparr>tk_host := (h, snd (tk_host s))\<rparr>)"
  shows "wp (on_port (beside m)) Q s"
proof -
  have "wp m (\<lambda>_. sound) (fst (tk_host s))"
    using assms(1,2) by (simp add: keeps_sound_def followed_def)
  then show ?thesis
    unfolding wp_on_port wp_beside
    by (rule wp_mono) (use assms(2,3) in \<open>auto intro: followed_host\<close>)
qed

lemma follow_attention:
  assumes "followed sound s" and "d \<noteq> ''application arithmetic check failed''"
  shows "wp (needs_attention (logged port) d) (\<lambda>_. followed sound) s"
proof -
  have "followed sound (s\<lparr>tk_outcome := ToNeedsAttention, tk_detail := d\<rparr>)"
    by (rule followed_ended [OF assms(1) _ assms(2)]) simp
  then show ?thesis
    by (auto simp: needs_attention_def set_outcome_def wp_rules intro!: wp_port [OF cancel_law] split: option.split)
qed

lemma follow_expiry:
  "followed sound s \<Longrightarrow> d \<noteq> ''application arithmetic check failed'' \<Longrightarrow>
    wp (attention_when_expired (logged port) time d) (\<lambda>_. followed sound) s"
  by (simp add: attention_when_expired_def wp_rules follow_attention)

lemma follow_submit_active:
  assumes f: "followed sound s" and ok: "task_ok s" and g: "tk_goal s = Some g"
    and idle: "tk_outcome s = ToPending" "tk_operation s = None"
  shows "wp (submit_active (logged port) time) (\<lambda>_. followed sound) s"
proof -
  let ?ref = "step_reference (cg_revision g) (tk_step s)" and ?n = "step_iterations s"
  let ?log = "snd (tk_host s) @ [?ref]"
  note submitted = accounted_submitted [OF _ ok idle g]
  have log: "accounted (snd (tk_host s)) s" and sound: "sound (fst (tk_host s))"
    and detail: "tk_detail s \<noteq> ''application arithmetic check failed''"
    using f by (simp_all add: followed_def)
  have taken: "followed sound (take_operation a ?ref ?n time (s\<lparr>tk_host := (h, ?log)\<rparr>))" if "sound h" for a h
    using that detail g
    by (auto simp: followed_def take_operation_def intro!: submitted [OF log] simp: step_used_def)
  have refused: "followed sound (s\<lparr>tk_host := (h, ?log), tk_outcome := v, tk_detail := d\<rparr>)"
    if "sound h" "v \<noteq> ToPending" "d \<noteq> ''application arithmetic check failed''" for h v d
    using that g by (auto simp: followed_def intro!: submitted [OF log] simp: step_used_def)
  have attention: "wp (needs_attention (logged port) d) (\<lambda>_. followed sound) (s\<lparr>tk_host := (h, ?log)\<rparr>)"
    if "sound h" "d \<noteq> ''application arithmetic check failed''" for h d
    using refused [OF that(1) _ that(2)] idle(2) by (simp add: needs_attention_def set_outcome_def wp_rules)
  have rest: "wp (case csb_authority x of None \<Rightarrow> skip | Some a \<Rightarrow> changes (take_operation a ?ref ?n time))
      (\<lambda>_. wp (if csb_status x \<noteq> SbSubmitted
          then (if csb_admission_status x \<in> {AdRecoveryRequired, AdDomainOccupied}
                then needs_attention (logged port) ''admission requires unresolved execution facts''
                else set_outcome ToFailed ''step could not be submitted with the required capability'')
          else set_detail ''observing current step'') (\<lambda>_. followed sound)) (s\<lparr>tk_host := (h, ?log)\<rparr>)"
    if "sound h" "submission_made x" for x h
  proof (cases "csb_authority x")
    case None
    with that attention [OF that(1)] refused [OF that(1)] show ?thesis
      by (simp add: wp_rules set_outcome_def submission_made_def)
  next
    case (Some a)
    with taken [OF that(1), of a] show ?thesis
      by (simp add: wp_rules set_outcome_def set_detail_def follow_attention followed_ended followed_detail)
  qed
  have "wp (tp_submit port ?n ?ref) (\<lambda>x h. sound h \<and> submission_made x) (fst (tk_host s))"
    by (rule submit_law [OF sound])
  then have "wp (tp_submit (logged port) ?n ?ref) (\<lambda>x h. sound (fst h) \<and> snd h = ?log \<and> submission_made x) (tk_host s)"
    by (simp add: logged_def wp_rules)
  then show ?thesis
    unfolding submit_active_def wp_bind wp_reads wp_on_port g option.sel
  proof (rule wp_mono)
    fix x h
    assume "sound (fst h) \<and> snd h = ?log \<and> submission_made x"
    then have "h = (fst h, ?log)" and h: "sound (fst h)" "submission_made x" by (auto simp: prod_eq_iff)
    then show "wp (case csb_authority x of None \<Rightarrow> skip | Some a \<Rightarrow> changes (take_operation a ?ref ?n time))
      (\<lambda>_. wp (if csb_status x \<noteq> SbSubmitted
          then (if csb_admission_status x \<in> {AdRecoveryRequired, AdDomainOccupied}
                then needs_attention (logged port) ''admission requires unresolved execution facts''
                else set_outcome ToFailed ''step could not be submitted with the required capability'')
          else set_detail ''observing current step'') (\<lambda>_. followed sound)) (s\<lparr>tk_host := h\<rparr>)"
      using rest [OF h] by metis
  qed
qed

lemma follow_submit_step:
  assumes f: "followed sound s" and ok: "task_ok s" and g: "tk_goal s = Some g"
    and idle: "tk_outcome s = ToPending" "tk_operation s = None"
  shows "wp (submit_step (logged port) time) (\<lambda>_. followed sound) s"
  unfolding submit_step_def wp_bind logged_simps
  by (rule wp_port [OF phase_law f])
    (use ok g idle in \<open>simp add: wp_rules set_outcome_def set_detail_def followed_ended followed_detail follow_expiry
      follow_submit_active\<close>)

lemma follow_result:
  assumes "followed sound s"
  shows "wp (take_result (logged port) p r time) (\<lambda>_. followed sound) s"
proof -
  have next_ok: "followed sound (next_step time v s)" for v
    using assms accounted_next [of "snd (tk_host s)" s time v]
    by (auto simp: followed_def) (auto simp: next_step_def split: if_splits)
  have "cr_sum x = application_sum (top_iterations p)"
    if "correlated r p (tp_result port (fst (tk_host s)))" "tp_result port (fst (tk_host s)) = Some x" for x
    using that assms sum_law by (auto simp: correlated_def followed_def application_sum_expected)
  then have "correlated r p (tp_result port (fst (tk_host s))) \<Longrightarrow>
      cr_sum (the (tp_result port (fst (tk_host s)))) = application_sum (top_iterations p)"
    by (auto simp: correlated_def split: option.splits)
  then show ?thesis
    using assms next_ok by (auto simp: take_result_def wp_rules intro: follow_attention)
qed

lemma follow_observe:
  assumes f: "followed sound s" and p: "tk_operation s = Some p" and g: "tk_goal s = Some g"
  shows "wp (observe_operation (logged port) p time) (\<lambda>_. followed sound) s"
proof -
  have released: "followed sound (s\<lparr>tk_operation := None, tk_detail := ''previous goal settled; new goal may start''\<rparr>)"
    if "top_goal_revision p \<noteq> cg_revision g"
    using f accounted_released [of "snd (tk_host s)" s p] p g that by (simp add: followed_def)
  have swap: "s\<lparr>tk_operation := x, tk_waiting_since := w, tk_detail := d\<rparr>
      = s\<lparr>tk_operation := x, tk_detail := d, tk_waiting_since := w\<rparr>" for x w d
    by simp
  show ?thesis
    using f g released
    by (auto simp: observe_operation_def await_previous_def await_current_def set_outcome_def wp_rules swap
        intro!: follow_attention follow_expiry follow_result followed_ended)
qed

lemma follow_proceed:
  assumes "followed sound s" and "task_ok s" and "tk_goal s = Some g" and "tk_outcome s = ToPending"
  shows "wp (proceed (logged port) time) (\<lambda>_. followed sound) s"
  using assms
  by (simp add: proceed_def wp_rules start_waiting_def follow_submit_step follow_observe split: option.split)

lemma follow_tick:
  assumes "followed sound s" and "task_ok s"
  shows "wp (tick_task (logged port) time) (\<lambda>_. followed sound) s"
  unfolding tick_task_def wp_bind logged_simps
  by (rule wp_port [OF poll_law assms(1)])
    (use assms(2) in \<open>auto simp: wp_rules open_tick_def intro: follow_attention follow_proceed\<close>)

lemma follow_revise:
  assumes "followed sound s"
  shows "wp (revise_goal (logged port) goal) (\<lambda>_. followed sound) s"
proof -
  have installed: "followed sound (install_goal goal s)"
    if "\<And>g. tk_goal s = Some g \<Longrightarrow> cg_revision g < cg_revision goal"
    using assms accounted_install [of "snd (tk_host s)" s goal] that by (simp add: followed_def)
  show ?thesis
    using installed assms
    by (auto simp: revise_goal_def wp_rules wp_answers not_le follow_attention intro!: wp_port [OF cancel_law]
        split: option.splits)
qed

lemma follow_member:
  assumes "followed sound s" and "task_ok s"
  shows "wp (task_member (logged port) c) (\<lambda>_. followed sound) s"
proof (cases c)
  case (TcNote goal)
  with assms(1) show ?thesis
    by (auto simp: note_interrupted_goal_def set_outcome_def wp_rules followed_def accounted_noted)
next
  case (TcRevise goal)
  with follow_revise [OF assms(1)] show ?thesis by (simp add: wp_rules wp_answers)
next
  case (TcTick time)
  with follow_tick [OF assms] show ?thesis by (simp add: wp_rules wp_answers)
next
  case TcShutdown
  with assms(1) show ?thesis
    by (auto simp: shut_down_task_def set_outcome_def wp_rules followed_ended intro!: wp_port [OF shutdown_law])
next
  case (TcOutside c)
  with assms(1) show ?thesis by (auto simp: wp_rules intro!: wp_port [OF outside_law])
qed

lemma task_followed:
  assumes "task_reachable (logged port) (\<lambda>h. sound (fst h) \<and> snd h = []) s"
  shows "followed sound s"
  using assms
proof (induction rule: reachable.induct)
  case (reachable_init s)
  then show ?case
    by (auto simp: task_initial_def make_task_def task.truncate_def followed_def accounted_def split: if_splits)
next
  case (reachable_step s c)
  from follow_member [OF reachable_step.IH task_reachable_ok [OF reachable_step.hyps], of c] show ?case
    by (simp add: task_step_run wp_run)
qed

end

end
