(* ===== verification/Compute_Host_Invariant.thy ===== *)
theory Compute_Host_Invariant
  imports Compute_Host_Gate Compute_Process_Machine
begin

text \<open>
  The invariant of the compute host and the programs that preserve it. The steady programs
  neither admit, settle, launch nor deliver; the invariant follows for them from one lemma
  about what they leave alone.
\<close>

subsection \<open>The invariant\<close>

text \<open>The receipt in the gate is the one of the authority that the host holds.\<close>

definition tied :: "'w running \<Rightarrow> bool" where
  "tied s \<longleftrightarrow> ch_authority s = map_option rc_authority (g_current_receipt (ch_gate s))"

definition current_is :: "(OperationReceipt \<Rightarrow> bool) \<Rightarrow> 'w running \<Rightarrow> bool" where
  "current_is P s \<longleftrightarrow> (\<exists>r. g_current_receipt (ch_gate s) = Some r \<and> P r)"

definition clear_process :: "'w running \<Rightarrow> bool" where
  "clear_process s \<longleftrightarrow> (\<forall>p. ch_process s = Some p \<longrightarrow> clear p)"

definition process_sound :: "'w running \<Rightarrow> bool" where
  "process_sound s \<longleftrightarrow>
     (\<forall>p. ch_process s = Some p \<longrightarrow>
        process_ok p \<and> cleanup_ok p \<and> current_is (\<lambda>r. rc_dispatch r \<noteq> DsPending) s)"

definition settled_clear :: "'w running \<Rightarrow> bool" where
  "settled_clear s \<longleftrightarrow> (current_is (\<lambda>r. rc_settlement r = StSettled) s \<longrightarrow> clear_process s)"

definition shutdown_sound :: "'w running \<Rightarrow> bool" where
  "shutdown_sound s \<longleftrightarrow>
     (ch_shutdown s \<noteq> ShOpen \<longrightarrow> g_binding_phase (ch_gate s) = PhClosed) \<and>
     (ch_shutdown s = ShClosed \<longrightarrow>
        ch_authority s = None \<or> current_is (\<lambda>r. rc_settlement r = StSettled) s)"

definition expected_result :: "OperationAuthority \<Rightarrow> ComputeRequest \<Rightarrow> ComputeResult" where
  "expected_result a q =
    \<lparr>cr_operation_id = oa_operation_id a, cr_request_reference = cq_request_reference q,
     cr_iterations = cq_iterations q, cr_sum = expected_sum (cq_iterations q)\<rparr>"

definition result_sound :: "'w running \<Rightarrow> bool" where
  "result_sound s \<longleftrightarrow>
     (\<forall>x. ch_result s = Some x \<longrightarrow>
        (\<exists>a q. ch_authority s = Some a \<and> ch_request s = Some q \<and> x = expected_result a q) \<and>
        (ch_evidence_error s \<or> current_is (\<lambda>r. rc_output r = OdAccepted) s))"

definition host_ok :: "'w running \<Rightarrow> bool" where
  "host_ok s \<longleftrightarrow>
     gate_ok (ch_gate s) \<and> tied s \<and> (ch_authority s = None \<longleftrightarrow> ch_request s = None) \<and>
     \<not> rn_aborted s \<and> process_sound s \<and> settled_clear s \<and> shutdown_sound s \<and> result_sound s"

lemma host_okD:
  assumes "host_ok s"
  shows "gate_ok (ch_gate s)" "tied s" "ch_authority s = None \<longleftrightarrow> ch_request s = None"
    "\<not> rn_aborted s" "process_sound s" "settled_clear s" "shutdown_sound s" "result_sound s"
  using assms by (simp_all add: host_ok_def)

lemma own_receipt_current: "tied s \<Longrightarrow> own_receipt s = g_current_receipt (ch_gate s)"
proof (cases "g_current_receipt (ch_gate s)")
  case None
  then show "tied s \<Longrightarrow> ?thesis" by (simp add: tied_def own_receipt_def)
next
  case (Some r)
  then have "tied s \<Longrightarrow> ch_authority s = Some (rc_authority r)" by (simp add: tied_def)
  with Some show "tied s \<Longrightarrow> ?thesis" by (simp add: own_receipt_def gate_receipt_def)
qed

lemma receipt_is_current: "tied s \<Longrightarrow> receipt_is P (own_receipt s) = current_is P s"
  by (auto simp: own_receipt_current receipt_is_def current_is_def split: option.split)

lemma no_pending_process: "host_ok s \<Longrightarrow> current_is (\<lambda>r. rc_dispatch r = DsPending) s \<Longrightarrow> ch_process s = None"
  by (cases "ch_process s") (auto simp: current_is_def process_sound_def dest: host_okD(5))

subsection \<open>Steady programs\<close>

text \<open>What a steady program leaves alone.\<close>

definition steady :: "'w running \<Rightarrow> 'w running \<Rightarrow> bool" where
  "steady s t \<longleftrightarrow>
     steady_gate (ch_gate s) (ch_gate t) \<and>
     ch_authority t = ch_authority s \<and> ch_request t = ch_request s \<and> ch_result t = ch_result s \<and>
     ch_shutdown t = ch_shutdown s \<and> rn_aborted t = rn_aborted s \<and>
     (ch_evidence_error s \<longrightarrow> ch_evidence_error t) \<and>
     rel_option process_moves (ch_process s) (ch_process t)"

lemma steady_refl: "steady s s"
  by (simp add: steady_def option.rel_refl process_moves_refl)

lemma steady_trans: "steady s t \<Longrightarrow> steady t u \<Longrightarrow> steady s u"
  unfolding steady_def
  by (auto intro: steady_gate_trans process_moves_trans elim!: option.rel_cases)

interpretation steady: kept_relation steady
  by unfold_locales (rule steady_refl, rule steady_trans)

lemma steady_receipt:
  assumes "steady s t" and "gate_ok (ch_gate s)"
  shows "g_current_receipt (ch_gate s) = None \<Longrightarrow> g_current_receipt (ch_gate t) = None"
    and "g_current_receipt (ch_gate s) = Some r \<Longrightarrow>
      \<exists>r'. g_current_receipt (ch_gate t) = Some r' \<and> receipt_evolves r r' \<and> rc_settlement r' = rc_settlement r"
  using assms by (simp_all add: steady_def steady_gate_def)

lemma steady_current:
  assumes "steady s t" and "gate_ok (ch_gate s)"
    and "\<And>r r'. receipt_evolves r r' \<Longrightarrow> rc_settlement r' = rc_settlement r \<Longrightarrow> P r \<Longrightarrow> Q r'"
    and "current_is P s"
  shows "current_is Q t"
  using assms(4) steady_receipt(2) [OF assms(1,2)] assms(3) unfolding current_is_def by blast

lemma steady_current_back:
  assumes "steady s t" and "gate_ok (ch_gate s)"
    and "\<And>r r'. receipt_evolves r r' \<Longrightarrow> rc_settlement r' = rc_settlement r \<Longrightarrow> Q r' \<Longrightarrow> P r"
    and "current_is Q t"
  shows "current_is P s"
proof (cases "g_current_receipt (ch_gate s)")
  case None
  with steady_receipt(1) [OF assms(1,2)] assms(4) show ?thesis by (simp add: current_is_def)
next
  case (Some r)
  with steady_receipt(2) [OF assms(1,2) Some] assms(3,4) show ?thesis by (auto simp: current_is_def)
qed

lemma steady_tied:
  assumes "steady s t" and "gate_ok (ch_gate s)" and "tied s"
  shows "tied t"
proof (cases "g_current_receipt (ch_gate s)")
  case None
  with steady_receipt(1) [OF assms(1,2)] assms(1,3) show ?thesis by (simp add: tied_def steady_def)
next
  case (Some r)
  with steady_receipt(2) [OF assms(1,2) Some] assms(1,3) show ?thesis
    by (auto simp: tied_def steady_def receipt_evolvesD(1))
qed

lemma steady_ok:
  assumes st: "steady s t" and ok: "host_ok s"
  shows "host_ok t"
proof -
  note parts = host_okD [OF ok] and g = host_okD(1) [OF ok]
  have gate: "gate_ok (ch_gate t)" "g_binding_phase (ch_gate s) = PhClosed \<longrightarrow> g_binding_phase (ch_gate t) = PhClosed"
    using st g by (simp_all add: steady_def steady_gate_def)
  have "process_sound t"
    unfolding process_sound_def
  proof (intro allI impI)
    fix q
    assume q: "ch_process t = Some q"
    then obtain p where p: "ch_process s = Some p" "process_moves p q"
      using st by (auto simp: steady_def option_rel_Some2)
    with parts(5) have "process_ok q \<and> cleanup_ok q" "current_is (\<lambda>r. rc_dispatch r \<noteq> DsPending) s"
      by (auto simp: process_sound_def process_moves_def)
    then have "current_is (\<lambda>r. rc_dispatch r \<noteq> DsPending) t"
      by (elim steady_current [OF st g, rotated]) (rule receipt_evolvesD(4))
    with \<open>process_ok q \<and> cleanup_ok q\<close>
    show "process_ok q \<and> cleanup_ok q \<and> current_is (\<lambda>r. rc_dispatch r \<noteq> DsPending) t" by simp
  qed
  moreover have "settled_clear t"
    unfolding settled_clear_def
  proof
    assume "current_is (\<lambda>r. rc_settlement r = StSettled) t"
    then have "current_is (\<lambda>r. rc_settlement r = StSettled) s"
      by (rule steady_current_back [OF st g, rotated]) simp
    with parts(6) have "clear_process s" by (simp add: settled_clear_def)
    then show "clear_process t"
      using st parts(5)
      by (auto simp: clear_process_def steady_def option_rel_Some2 process_sound_def process_moves_def)
  qed
  moreover have "current_is (\<lambda>r. rc_settlement r = StSettled) s \<Longrightarrow> current_is (\<lambda>r. rc_settlement r = StSettled) t"
    by (erule steady_current [OF st g, rotated]) simp
  then have "shutdown_sound t"
    using parts(7) gate(2) st by (auto simp: shutdown_sound_def steady_def)
  moreover have "current_is (\<lambda>r. rc_output r = OdAccepted) s \<Longrightarrow> current_is (\<lambda>r. rc_output r = OdAccepted) t"
    by (erule steady_current [OF st g, rotated]) (simp add: receipt_evolvesD(7))
  then have "result_sound t"
    using parts(8) st by (auto simp: result_sound_def steady_def)
  ultimately show ?thesis
    using gate(1) steady_tied [OF st g parts(2)] parts(3,4) st
    by (simp add: host_ok_def steady_def)
qed

end
