(* ===== verification/Compute_Host_Steps.thy ===== *)
theory Compute_Host_Steps
  imports Compute_Host_Invariant
begin

text \<open>
  The members of the compute host preserve its invariant: the steady ones because of what
  they leave alone, the others (settling, delivering, launching, admitting, closing) by the
  conditions the code has established where it calls them.
\<close>

subsection \<open>Weakest preconditions of the primitives\<close>

lemma wp_system [wp_rules]: "wp (system f) Q s = (case f (rn_world s) of (a, w) \<Rightarrow> Q a (s\<lparr>rn_world := w\<rparr>))"
  by (simp add: wp_def system_def split: prod.split)

lemma wp_on_gate [wp_rules]: "wp (on_gate f) Q s = (case f (ch_gate s) of (g, a) \<Rightarrow> Q a (s\<lparr>ch_gate := g\<rparr>))"
  by (simp add: wp_def on_gate_def split: prod.split)

lemma wp_on_process [wp_rules]:
  "wp (on_process f) Q s = (case f (the (ch_process s), rn_world s) of
     (a, p, w) \<Rightarrow> Q a (s\<lparr>ch_process := Some p, rn_world := w\<rparr>))"
  by (simp add: wp_def on_process_def split: prod.split)

lemma wp_stamp [wp_rules]:
  "wp (stamp source time) Q s =
    Q \<lparr>er_source = source, er_observed_at = time, er_sequence = ch_sequence s + 1\<rparr>
      (s\<lparr>ch_sequence := ch_sequence s + 1\<rparr>)"
  by (simp add: stamp_def wp_rules)

lemma wp_accept [wp_rules]:
  "wp (accept d) Q s = (if d = EvRejected then Q () (s\<lparr>ch_evidence_error := True\<rparr>) else Q () s)"
  by (simp add: accept_def wp_rules)

subsection \<open>Steady programs\<close>

named_theorems steady_rules \<open>programs that are steady\<close>

declare steady.keeps_intros [steady_rules]

lemma steadyI:
  assumes "steady_gate (ch_gate s) (ch_gate t)" and "ch_authority t = ch_authority s"
    and "ch_request t = ch_request s" and "ch_result t = ch_result s" and "ch_shutdown t = ch_shutdown s"
    and "rn_aborted t = rn_aborted s" and "ch_evidence_error s \<Longrightarrow> ch_evidence_error t"
    and "ch_process t = ch_process s"
  shows "steady s t"
  using assms by (simp add: steady_def option.rel_refl process_moves_refl)

lemma steady_on_gate [steady_rules]: "(\<And>g. steady_gate g (fst (f g))) \<Longrightarrow> keeps steady (on_gate f)"
  by (rule keepsI) (simp add: wp_rules split_beta steadyI)

lemma steady_system [steady_rules]: "keeps steady (system f)"
  by (rule keepsI) (simp add: wp_rules split_beta steadyI)

lemma steady_stamp [steady_rules]: "keeps steady (stamp source time)"
  by (rule keepsI) (simp add: wp_rules steadyI)

lemma steady_accept [steady_rules]: "keeps steady (accept d)"
  by (rule keepsI) (simp add: wp_rules steadyI)

lemma steady_now [steady_rules]: "keeps steady (host_now env)"
  by (simp add: host_now_def steady_system)

lemma steady_on_worker:
  assumes "ch_process s = Some p" and "\<And>w. process_moves p (fst (f (p, w)))"
  shows "wp (on_worker f) (\<lambda>_. steady s) s"
  using assms(2) [of "rn_world s"] assms(1)
  by (simp add: on_worker_def wp_rules split_beta steady_def)

lemma steady_apply_stop [steady_rules]: "keeps steady (apply_stop env d t)"
  unfolding apply_stop_def
proof (rule steady.keeps_reads_bind)
  fix s
  show "wp (on_condition (cd_should_request_native_stop d \<and>
      (case ch_process s of None \<Rightarrow> False | Some p \<Rightarrow> po_launched p))
      (on_worker (request_stop (worker_os env) t))) (\<lambda>_. steady s) s"
    by (cases "ch_process s") (simp_all add: wp_rules steady_refl steady_on_worker request_stop_moves)
qed

lemma steady_evidence [steady_rules]:
  "keeps steady (expire env t)" "keeps steady (native k t)" "keeps steady (not_delivered n r source t)"
  unfolding expire_def native_def not_delivered_def by (intro steady_rules; rule steady_calls)+

lemma steady_flag [steady_rules]:
  "keeps steady (changes (\<lambda>s. s\<lparr>ch_evidence_error := True\<rparr>))"
  "keeps steady (changes (\<lambda>s. s\<lparr>ch_stop_reported := b\<rparr>))"
  "keeps steady (changes (\<lambda>s. s\<lparr>ch_outcome_reported := b\<rparr>))"
  "keeps steady (changes (install_provider x))"
  by (rule keepsI, simp add: wp_rules steadyI install_provider_def)+

lemma steady_events [steady_rules]: "keeps steady (observe_process_events env)"
  unfolding observe_process_events_def by (intro steady_rules; rule steady_calls)

lemma steady_rebind [steady_rules]: "keeps steady (rebind_provider env b p x)"
  unfolding rebind_provider_def begin_candidate_def try_candidate_def qualify_candidate_def readiness_def
  by (intro steady_rules; rule steady_calls)

subsection \<open>Programs that keep the invariant\<close>

definition moves :: "'w running \<Rightarrow> 'w running \<Rightarrow> bool" where
  "moves s t \<longleftrightarrow> (host_ok s \<longrightarrow>
     host_ok t \<and> ch_authority t = ch_authority s \<and> ch_request t = ch_request s \<and>
     ch_shutdown t = ch_shutdown s \<and> (ch_evidence_error s \<longrightarrow> ch_evidence_error t) \<and>
     (ch_process t = None \<longleftrightarrow> ch_process s = None))"

interpretation moves: kept_relation moves
  by unfold_locales (auto simp: moves_def)

named_theorems moves_rules \<open>programs that keep the invariant of the host\<close>

declare moves.keeps_intros [moves_rules]

lemma steady_moves: "steady s t \<Longrightarrow> moves s t"
  by (auto simp: moves_def steady_ok) (auto simp: steady_def)

lemma keeps_steady_moves [moves_rules]: "keeps steady m \<Longrightarrow> keeps moves m"
  by (auto simp: keeps_def wp_run steady_moves)

lemma wp_steady_moves: "wp m (\<lambda>_. steady s) s \<Longrightarrow> wp m (\<lambda>_. moves s) s"
  by (erule wp_mono) (rule steady_moves)

text \<open>A move out of a state that satisfies the invariant.\<close>

lemma moves_from: "(host_ok s \<Longrightarrow> moves s t) \<Longrightarrow> moves s t"
  by (simp add: moves_def)

lemma wp_moves_from: "(host_ok s \<Longrightarrow> wp m (\<lambda>_. moves s) s) \<Longrightarrow> wp m (\<lambda>_. moves s) s"
  by (cases "host_ok s") (simp_all add: wp_run moves_def)

subsection \<open>Settling\<close>

lemma host_ok_frame:
  fixes s t :: "'w running"
  assumes "host_ok s" and "ch_gate t = ch_gate s" and "ch_authority t = ch_authority s"
    and "ch_request t = ch_request s" and "ch_result t = ch_result s" and "ch_shutdown t = ch_shutdown s"
    and "rn_aborted t = rn_aborted s" and "ch_evidence_error s \<Longrightarrow> ch_evidence_error t"
    and "ch_process t = ch_process s"
  shows "host_ok t"
proof -
  have "steady s t" by (rule steadyI) (use assms in simp_all)
  then show ?thesis using assms(1) by (rule steady_ok)
qed

lemma settlement_ok:
  assumes ok: "host_ok s" and clear: "clear_process s"
  shows "host_ok (s\<lparr>ch_gate := fst (observe_settlement (ch_gate s) e)\<rparr>)" (is "host_ok ?t")
proof -
  note parts = host_okD [OF ok] and g = host_okD(1) [OF ok]
  have gate: "gate_ok (fst (observe_settlement (ch_gate s) e))"
    "g_binding_phase (ch_gate s) = PhClosed \<Longrightarrow> g_binding_phase (fst (observe_settlement (ch_gate s) e)) = PhClosed"
    using gate_step_ok [OF g, of "CallSettlement e"] closed_step [OF g, of "CallSettlement e"] by simp_all
  have clear': "clear_process ?t" using clear by (simp add: clear_process_def)
  from g show ?thesis
  proof (cases rule: gate_step_receipt [of _ "CallSettlement e"])
    case same
    then show ?thesis
      using parts gate clear'
      by (simp add: host_ok_def tied_def process_sound_def settled_clear_def shutdown_sound_def
          result_sound_def current_is_def)
  next
    case (evolved r r')
    then show ?thesis
      using parts gate clear' receipt_evolvesD [OF evolved(4)]
      by (auto simp: host_ok_def tied_def process_sound_def settled_clear_def shutdown_sound_def
          result_sound_def current_is_def)
  qed simp
qed

lemma wp_settle: "clear_process s \<Longrightarrow> wp (settle time) (\<lambda>_. moves s) s"
proof (rule wp_moves_from)
  assume clear: "clear_process s" and ok: "host_ok s"
  let ?s = "s\<lparr>ch_sequence := ch_sequence s + 1\<rparr>"
  have "host_ok ?s" by (rule host_ok_frame [OF ok]) simp_all
  moreover have "clear_process ?s" using clear by (simp add: clear_process_def)
  ultimately have settled: "host_ok (?s\<lparr>ch_gate := fst (observe_settlement (ch_gate ?s) e)\<rparr>)" for e
    by (rule settlement_ok)
  have failed: "host_ok (?s\<lparr>ch_gate := fst (observe_settlement (ch_gate ?s) e), ch_evidence_error := True\<rparr>)" for e
    by (rule host_ok_frame [OF settled]) simp_all
  show "wp (settle time) (\<lambda>_. moves s) s"
    unfolding settle_def
    using settled failed by (simp add: wp_rules split_beta moves_def)
qed

lemma steady_clear: "steady s t \<Longrightarrow> ch_process s = None \<Longrightarrow> clear_process t"
  by (simp add: steady_def clear_process_def)

lemma steady_report_unsubmitted [steady_rules]: "keeps steady (report_unsubmitted env)"
  unfolding report_unsubmitted_def by (intro steady_rules; rule steady_calls)

lemma clear_steady:
  assumes "host_ok s" and "steady s t" and "clear_process s"
  shows "clear_process t"
  using assms(2,3) host_okD(5) [OF assms(1)]
  by (auto simp: clear_process_def steady_def option_rel_Some2 process_sound_def process_moves_def)

lemma wp_settle_unsubmitted:
  assumes "b \<Longrightarrow> clear_process s"
  shows "wp (settle_unsubmitted env b) (\<lambda>_. moves s) s"
proof (rule wp_moves_from)
  assume ok: "host_ok s"
  show ?thesis
    unfolding settle_unsubmitted_def
  proof (rule moves.wp_then [where P = "\<lambda>time t. b \<longrightarrow> clear_process t"])
    show "wp (report_unsubmitted env) (\<lambda>time t. moves s t \<and> (b \<longrightarrow> clear_process t)) s"
      using keepsD [OF steady_report_unsubmitted, of env s]
      by (rule wp_mono) (use clear_steady [OF ok] assms in \<open>auto intro: steady_moves\<close>)
  qed (simp add: wp_if wp_settle keepsD [OF keeps_steady_moves] steady_rules)
qed

lemma receipt_readers:
  "own_receipt s = Some r \<Longrightarrow> g_current_receipt (ch_gate s) = Some r"
  "gate_receipt (ch_gate s) a = Some r \<Longrightarrow> g_current_receipt (ch_gate s) = Some r"
  by (auto simp: own_receipt_def gate_receipt_def split: option.splits if_split_asm)

text \<open>The places that settle an operation that is still pending: it has no process.\<close>

lemma moves_settle_pending:
  fixes env :: "'w env"
  assumes "\<And>s r. f s = Some r \<Longrightarrow> g_current_receipt (ch_gate s) = Some r"
    and "\<And>r. P r \<Longrightarrow> rc_dispatch r = DsPending"
  shows "keeps moves (do {
     receipt \<leftarrow> reads f;
     on_condition (b \<and> receipt_is P receipt) (settle_unsubmitted env c)
   })"
proof (rule moves.keeps_reads_bind, rule wp_moves_from)
  fix s :: "'w running"
  assume ok: "host_ok s"
  have "clear_process s" if "receipt_is P (f s)"
  proof -
    from that obtain r where "f s = Some r" "P r" by (auto simp: receipt_is_def split: option.splits)
    with assms have "current_is (\<lambda>r. rc_dispatch r = DsPending) s" by (auto simp: current_is_def)
    with no_pending_process [OF ok] show ?thesis by (simp add: clear_process_def)
  qed
  then show "wp (on_condition (b \<and> receipt_is P (f s)) (settle_unsubmitted env c)) (\<lambda>_. moves s) s"
    by (auto simp: wp_on_condition wp_settle_unsubmitted moves.kept_refl)
qed

lemmas moves_settle_own = moves_settle_pending [OF receipt_readers(1)]

lemma moves_withdraw [moves_rules]: "keeps moves (host_withdraw_binding env b)"
proof -
  note settle = moves_settle_own [where b = True, simplified]
  show ?thesis
    unfolding host_withdraw_binding_def
    by (intro moves.keeps_intros settle keeps_steady_moves steady_rules) (rule steady_calls, simp)
qed

lemma moves_capabilities [moves_rules]: "keeps moves (observe_capabilities env t)"
  unfolding observe_capabilities_def
  by (intro moves.keeps_intros moves_withdraw; intro keeps_steady_moves steady_rules; rule steady_calls)

lemma moves_initialize [moves_rules]: "keeps moves (initialize env)"
  unfolding initialize_def
  by (intro moves.keeps_intros moves_capabilities; intro keeps_steady_moves steady_rules;
      (rule steady_calls | rule keepsI, simp add: wp_rules steadyI))

lemma moves_cancel [moves_rules]: "keeps moves (host_request_cancel env a)"
proof -
  note settle = moves_settle_pending [OF receipt_readers(2) [of _ a]]
  have reassoc: "host_request_cancel env a = do {
     time \<leftarrow> host_now env;
     decision \<leftarrow> on_gate (\<lambda>g. request_cancel g a time);
     apply_stop env decision time;
     do {
       receipt \<leftarrow> reads (\<lambda>s. gate_receipt (ch_gate s) a);
       on_condition (cd_status decision = CsApplied \<and> receipt_is (\<lambda>r. rc_dispatch r = DsPending) receipt)
         (settle_unsubmitted env True)
     };
     answer decision
   }"
    by (simp add: host_request_cancel_def)
  show ?thesis
    unfolding reassoc
    by (intro moves.keeps_intros settle keeps_steady_moves steady_rules) (rule steady_calls, simp)
qed

lemma moves_settle_revoked [moves_rules]: "keeps moves (settle_revoked env)"
  unfolding settle_revoked_def
  by (rule moves.keeps_bind, rule moves.keeps_reads, rule moves_settle_own) (assumption, erule conjunct1)

lemma moves_withdraw_unsupported [moves_rules]: "keeps moves (withdraw_unsupported env)"
  unfolding withdraw_unsupported_def
  by (intro moves.keeps_intros moves_withdraw; intro keeps_steady_moves steady_rules)

subsection \<open>The end of an operation\<close>

lemma deliver_ok:
  assumes ok: "host_ok s" and a: "ch_authority s = Some a" and q: "ch_request s = Some q"
    and deliverable: "can_deliver_result (ch_gate s) a"
  shows "wp (deliver (expected_result a q) time) (\<lambda>_. moves s) s"
proof -
  obtain r where r: "g_current_receipt (ch_gate s) = Some r" "rc_authority r = a" "rc_output r = OdPending"
    using deliverable by (auto simp: can_deliver_result_def current_authority_matches_iff split: option.splits)
  define e where "e = \<lparr>oe_authority = a, oe_result_reference = ch_result_reference s,
    oe_record = \<lparr>er_source = kSink, er_observed_at = time, er_sequence = ch_sequence s + 1\<rparr>\<rparr>"
  define t where "t = s\<lparr>ch_sequence := ch_sequence s + 1, ch_gate := fst (observe_output_accepted (ch_gate s) e),
    ch_evidence_error := (ch_evidence_error s \<or> snd (observe_output_accepted (ch_gate s) e) = EvRejected)\<rparr>"
  let ?x = "expected_result a q"
  have "steady s t" by (rule steadyI) (simp_all add: t_def steady_calls)
  then have t: "host_ok t" by (rule steady_ok [OF _ ok])
  have "snd (observe_output_accepted (ch_gate s) e) \<noteq> EvRejected \<Longrightarrow>
      current_is (\<lambda>r. rc_output r = OdAccepted) (t\<lparr>ch_result := Some ?x\<rparr>)"
  proof (cases "snd (observe_output_accepted (ch_gate s) e)")
    case EvAccepted
    then obtain r' where "g_current_receipt (ch_gate s) = Some r'"
      "snd (receipt_output_accepted (ch_gate s) e r') = EvAccepted"
      "fst (observe_output_accepted (ch_gate s) e) =
        (ch_gate s)\<lparr>g_current_receipt := Some (fst (receipt_output_accepted (ch_gate s) e r'))\<rparr>"
      unfolding observe_output_accepted_def by (rule on_current_acceptedE)
    then show ?thesis by (simp add: t_def current_is_def output_accepted_accepted(1))
  next
    case EvDuplicate
    with r show ?thesis
      by (auto simp: observe_output_accepted_def on_current_def receipt_output_accepted_def
          split: if_split_asm option.split_asm)
  qed simp
  then have "result_sound (t\<lparr>ch_result := Some ?x\<rparr>)"
    using a q by (auto simp: result_sound_def) (auto simp: t_def)
  with t have "host_ok (t\<lparr>ch_result := Some ?x\<rparr>)"
    by (auto simp: host_ok_def tied_def process_sound_def settled_clear_def shutdown_sound_def current_is_def
        clear_process_def)
  then have "moves s (t\<lparr>ch_result := Some ?x\<rparr>)" by (simp add: moves_def t_def)
  moreover have "s\<lparr>ch_result := Some ?x, ch_sequence := ch_sequence s + 1,
      ch_gate := fst (observe_output_accepted (ch_gate s) e), ch_evidence_error := True\<rparr> = t\<lparr>ch_result := Some ?x\<rparr>"
    if "snd (observe_output_accepted (ch_gate s) e) = EvRejected"
    using that by (cases s) (simp add: t_def)
  moreover have "s\<lparr>ch_result := Some ?x, ch_sequence := ch_sequence s + 1,
      ch_gate := fst (observe_output_accepted (ch_gate s) e)\<rparr> = t\<lparr>ch_result := Some ?x\<rparr>"
    if "snd (observe_output_accepted (ch_gate s) e) \<noteq> EvRejected"
    using that by (cases s) (simp add: t_def)
  ultimately show ?thesis
    using a by (simp add: deliver_def wp_rules split_beta e_def [symmetric])
qed

text \<open>The host while it serves one operation.\<close>

definition serving :: "OperationAuthority \<Rightarrow> ComputeRequest \<Rightarrow> 'w running \<Rightarrow> bool" where
  "serving a q s \<longleftrightarrow> host_ok s \<and> ch_authority s = Some a \<and> ch_request s = Some q"

lemma serving_then:
  assumes "keeps moves m" and "serving a q s" and "\<And>x t. serving a q t \<Longrightarrow> wp (n x) (\<lambda>_. moves t) t"
  shows "wp (m \<bind> n) (\<lambda>_. moves s) s"
proof (rule moves.wp_then [where P = "\<lambda>_. serving a q"])
  show "wp m (\<lambda>_ t. moves s t \<and> serving a q t) s"
    using keepsD [OF assms(1), of s]
    by (rule wp_mono) (use assms(2) in \<open>auto simp: moves_def serving_def\<close>)
qed (rule assms(3))

lemma process_serving:
  assumes "host_ok s" and "ch_process s \<noteq> None"
  obtains a q where "serving a q s"
proof -
  have "ch_authority s \<noteq> None"
    using assms host_okD(2,5) [OF assms(1)]
    by (auto simp: process_sound_def current_is_def tied_def)
  with host_okD(3) [OF assms(1)] assms(1) that show thesis by (auto simp: serving_def)
qed

lemma deliver_or_refuse_ok:
  assumes "serving a q s"
  shows "wp (deliver_or_refuse env (expected_result a q)) (\<lambda>_. moves s) s"
  unfolding deliver_or_refuse_def
proof (rule serving_then [OF keeps_steady_moves [OF steady_now] assms],
    rule serving_then [OF keeps_steady_moves [OF steady_evidence(1)]], assumption, rule moves.wp_reads_then)
  fix time and u :: "'a running"
  assume u: "serving a q u"
  have refuse: "wp (not_delivered NdAuthorityRevoked x kSink time) (\<lambda>_. moves u) u" for x
    by (rule keepsD [OF keeps_steady_moves [OF steady_evidence(3)]])
  show "wp (if \<not> ch_evidence_error u \<and> can_deliver_result (ch_gate u) (the (ch_authority u))
      then deliver (expected_result a q) time
      else reads ch_result_reference \<bind> (\<lambda>reference. not_delivered NdAuthorityRevoked reference kSink time))
      (\<lambda>_. moves u) u"
    using u deliver_ok [of u a q time] refuse by (simp add: serving_def wp_bind wp_reads)
qed

lemma expected_pending: "run_succeeded p q \<Longrightarrow> pending_result a q p = expected_result a q"
  by (simp add: run_succeeded_def pending_result_def expected_result_def)

lemma report_outcome_ok:
  assumes "serving a q s"
  shows "wp (report_outcome env) (\<lambda>_. moves s) s"
  unfolding report_outcome_def
proof (rule serving_then [OF keeps_steady_moves [OF steady_now] assms],
    rule serving_then [OF keeps_steady_moves [OF steady_evidence(1)]], assumption,
    rule moves.wp_reads_then, rule moves.wp_reads_then,
    rule serving_then [OF keeps_steady_moves [OF steady_evidence(2)]], assumption, rule moves.wp_reads_then)
  fix time and t and u :: "'a running"
  assume "serving a q t" and u: "serving a q u"
  then have q: "the (ch_request t) = q" and a: "the (ch_authority u) = a" by (simp_all add: serving_def)
  have refuse: "wp (not_delivered NdNoOutputProduced [] kObserver time) (\<lambda>_. moves u) u"
    by (rule keepsD [OF keeps_steady_moves [OF steady_evidence(3)]])
  have "wp (if run_succeeded p q then deliver_or_refuse env (pending_result a q p)
      else not_delivered NdNoOutputProduced [] kObserver time) (\<lambda>_. moves u) u" for p
    using deliver_or_refuse_ok [OF u] refuse by (simp add: expected_pending)
  then show "wp ((if run_succeeded (the (ch_process t)) (the (ch_request t))
      then deliver_or_refuse env
        (pending_result (the (ch_authority u)) (the (ch_request t)) (the (ch_process t)))
      else not_delivered NdNoOutputProduced [] kObserver time) \<bind>
      (\<lambda>_. changes (\<lambda>s. s\<lparr>ch_outcome_reported := True\<rparr>))) (\<lambda>_. moves u) u"
    unfolding q a by (rule moves.wp_keeps_bind) (rule keeps_steady_moves [OF steady_flag(3)])
qed

end
