(* ===== verification/Compute_Host_Safety.thy ===== *)
theory Compute_Host_Safety
  imports Compute_Host_Steps
begin

text \<open>
  The rest of the host's members: closing the channels, polling, shutdown, admission and
  dispatch; and the invariant of the host as a machine.
\<close>

subsection \<open>Closing and polling\<close>

text \<open>What is known about the state while a program goes on, from a state that satisfies the invariant.\<close>

lemma ok_then:
  assumes "host_ok s" and "wp m (\<lambda>a t. moves s t \<and> P a t) s"
    and "\<And>x t. host_ok t \<Longrightarrow> P x t \<Longrightarrow> wp (n x) (\<lambda>_. moves t) t"
  shows "wp (m \<bind> n) (\<lambda>_. moves s) s"
proof (rule moves.wp_then [where P = "\<lambda>x t. host_ok t \<and> P x t"])
  show "wp m (\<lambda>a t. moves s t \<and> host_ok t \<and> P a t) s"
    using assms(2) by (rule wp_mono) (use assms(1) in \<open>auto simp: moves_def\<close>)
qed (use assms(3) in blast)

lemma close_channels_ok':
  assumes ok: "host_ok s" and p: "ch_process s = Some p"
  shows "wp (on_process (close_channels os)) (\<lambda>closed t. moves s t \<and> (closed \<longrightarrow> clear_process t)) s"
proof -
  obtain b q w where closed: "close_channels os (p, rn_world s) = (b, q, w)"
    by (cases "close_channels os (p, rn_world s)") auto
  have "steady s (s\<lparr>ch_process := Some q, rn_world := w\<rparr>)"
    using close_channels_moves [of p os "rn_world s"] closed p by (simp add: steady_def)
  moreover have "b \<Longrightarrow> clear q" using close_channels_cleanup(3) [OF closed] by (simp add: clear_def)
  ultimately show ?thesis
    using p closed by (simp add: wp_on_process steady_moves) (simp add: clear_process_def)
qed

lemma settle_closed_ok:
  fixes env :: "'w env"
  assumes ok: "host_ok s" and clear: "clear_process s"
  shows "wp (do { time \<leftarrow> host_now env; settle time }) (\<lambda>_. moves s) s"
proof (rule ok_then [OF ok, where P = "\<lambda>_. clear_process"])
  show "wp (host_now env) (\<lambda>a t. moves s t \<and> clear_process t) s"
    using keepsD [OF steady_now, of env s]
    by (rule wp_mono) (use clear_steady [OF ok] clear in \<open>auto intro: steady_moves\<close>)
qed (rule wp_settle)

lemma wp_guard: "(b \<Longrightarrow> wp m (\<lambda>_. moves s) s) \<Longrightarrow> wp (on_condition b m) (\<lambda>_. moves s) s"
  by (simp add: wp_on_condition moves.kept_refl)

lemma finish_ok:
  fixes env :: "'w env"
  assumes ok: "host_ok s" and p: "ch_process s = Some p"
  shows "wp (finish env) (\<lambda>_. moves s) s"
  unfolding finish_def
proof (rule moves.wp_reads_then, rule wp_guard, rule moves.wp_reads_then)
  obtain a q where serving: "serving a q s" by (rule process_serving [OF ok]) (simp add: p)
  have report: "wp (on_condition b (report_outcome env)) (\<lambda>_ t. moves s t \<and> ch_process t \<noteq> None) s" for b
  proof -
    have "wp (on_condition b (report_outcome env)) (\<lambda>_. moves s) s"
      by (rule wp_guard) (rule report_outcome_ok [OF serving])
    then show ?thesis by (rule wp_mono) (use ok p in \<open>simp add: moves_def\<close>)
  qed
  show "wp (on_condition (\<not> ch_outcome_reported s) (report_outcome env) \<bind> (\<lambda>_.
      on_process (close_channels (worker_os env)) \<bind> (\<lambda>closed. on_condition closed (
        reads own_receipt \<bind> (\<lambda>receipt. reads ch_evidence_error \<bind> (\<lambda>failed.
          on_condition (\<not> failed \<and> receipt_is (\<lambda>r. rc_settlement r = StPending) receipt)
            (host_now env \<bind> settle))))))) (\<lambda>_. moves s) s"
  proof (rule ok_then [OF ok report])
    fix t :: "'w running"
    assume t: "host_ok t" "ch_process t \<noteq> None"
    then obtain p' where p': "ch_process t = Some p'" by auto
    show "wp (on_process (close_channels (worker_os env)) \<bind> (\<lambda>closed. on_condition closed (
        reads own_receipt \<bind> (\<lambda>receipt. reads ch_evidence_error \<bind> (\<lambda>failed.
          on_condition (\<not> failed \<and> receipt_is (\<lambda>r. rc_settlement r = StPending) receipt)
            (host_now env \<bind> settle)))))) (\<lambda>_. moves t) t"
      by (rule ok_then [OF t(1) close_channels_ok' [OF t(1) p']], rule wp_guard,
          rule moves.wp_reads_then, rule moves.wp_reads_then, rule wp_guard, rule settle_closed_ok) simp_all
  qed
qed

lemma moves_then:
  assumes "host_ok s" and "keeps moves m" and "ch_process s \<noteq> None"
    and "\<And>x t. host_ok t \<Longrightarrow> ch_process t \<noteq> None \<Longrightarrow> wp (n x) (\<lambda>_. moves t) t"
  shows "wp (m \<bind> n) (\<lambda>_. moves s) s"
proof (rule ok_then [OF assms(1), where P = "\<lambda>_ t. ch_process t \<noteq> None"])
  show "wp m (\<lambda>_ t. moves s t \<and> ch_process t \<noteq> None) s"
    using keepsD [OF assms(2), of s] by (rule wp_mono) (use assms(1,3) in \<open>auto simp: moves_def\<close>)
qed (rule assms(4))

lemma poll_process_ok:
  fixes env :: "'w env"
  assumes os: "reads_bounded (worker_os env)" and ok: "host_ok s" and p: "ch_process s \<noteq> None"
  shows "wp (poll_process env) (\<lambda>_. moves s) s"
  unfolding poll_process_def
proof (rule moves_then [OF ok moves_withdraw_unsupported p],
    rule moves_then [OF _ keeps_steady_moves [OF steady_now]])
  fix time and t :: "'w running"
  assume t: "host_ok t" "ch_process t \<noteq> None"
  have polled: "wp (on_worker (poll (worker_os env) time)) (\<lambda>_ u. moves t u \<and> ch_process u \<noteq> None) t"
  proof -
    from t(2) obtain p' where p': "ch_process t = Some p'" by auto
    have "wp (on_worker (poll (worker_os env) time)) (\<lambda>_. moves t) t"
      by (rule wp_steady_moves, rule steady_on_worker [OF p'], rule poll_moves [OF os])
    then show ?thesis by (rule wp_mono) (use t in \<open>auto simp: moves_def\<close>)
  qed
  have cancel: "keeps moves (on_condition b (the_authority \<bind> (\<lambda>a. host_request_cancel env a \<bind> (\<lambda>_. skip))))" for b
    by (intro moves.keeps_intros moves_cancel)
  show "wp (on_worker (poll (worker_os env) time) \<bind> (\<lambda>_. the_process \<bind> (\<lambda>observed.
      on_condition (po_malformed observed \<or> po_io_error observed \<noteq> 0 \<or> po_ownership_lost observed)
        (the_authority \<bind> (\<lambda>a. host_request_cancel env a \<bind> (\<lambda>_. skip))) \<bind> (\<lambda>_.
      observe_process_events env \<bind> (\<lambda>_. finish env))))) (\<lambda>_. moves t) t"
    by (rule ok_then [OF t(1) polled], rule moves.wp_reads_then, rule moves_then [OF _ cancel], assumption+,
        rule moves_then [OF _ keeps_steady_moves [OF steady_events]], assumption+)
      (auto intro: finish_ok)
qed assumption+

lemma host_ok_shutdown:
  assumes "host_ok s" and "shutdown_sound (s\<lparr>ch_shutdown := x\<rparr>)"
  shows "host_ok (s\<lparr>ch_shutdown := x\<rparr>)"
  using host_okD [OF assms(1)] assms(2)
  by (simp add: host_ok_def tied_def process_sound_def settled_clear_def result_sound_def
      current_is_def clear_process_def)

lemma shutdown_ok:
  assumes ok: "host_ok s"
  shows "host_ok (s\<lparr>ch_shutdown := next_shutdown s\<rparr>)"
proof -
  note parts = host_okD [OF ok]
  have "next_shutdown s \<noteq> ShOpen \<Longrightarrow> ch_shutdown s \<noteq> ShOpen"
    by (auto simp: next_shutdown_def Let_def)
  moreover have "ch_authority s = None \<or> current_is (\<lambda>r. rc_settlement r = StSettled) s"
    if "next_shutdown s = ShClosed"
  proof (cases "ch_shutdown s = ShClosed")
    case True
    with parts(7) show ?thesis by (simp add: shutdown_sound_def)
  next
    case False
    with that show ?thesis
      by (simp add: next_shutdown_def Let_def receipt_is_current [OF parts(2)] split: if_split_asm)
  qed
  ultimately show ?thesis
    using parts(7) by (intro host_ok_shutdown [OF ok]) (simp add: shutdown_sound_def current_is_def)
qed

subsection \<open>What the public members keep\<close>

text \<open>
  A public member keeps the invariant, does not take back an evidence error, and once the
  host is closed leaves the operation and the presence of its process as they are.
\<close>

definition safe :: "'w running \<Rightarrow> 'w running \<Rightarrow> bool" where
  "safe s t \<longleftrightarrow> (host_ok s \<longrightarrow>
     host_ok t \<and> (ch_evidence_error s \<longrightarrow> ch_evidence_error t) \<and>
     (ch_shutdown s \<noteq> ShOpen \<longrightarrow> ch_shutdown t \<noteq> ShOpen) \<and>
     (ch_shutdown s \<noteq> ShOpen \<or> ch_evidence_error s \<longrightarrow>
        ch_authority t = ch_authority s \<and> ch_request t = ch_request s) \<and>
     (ch_shutdown s = ShClosed \<longrightarrow> ch_shutdown t = ShClosed))"

interpretation safe: kept_relation safe
  by unfold_locales (auto simp: safe_def)

lemma moves_safe: "moves s t \<Longrightarrow> safe s t"
  by (auto simp: moves_def safe_def)

lemma keeps_moves_safe: "keeps moves m \<Longrightarrow> keeps safe m"
  by (auto simp: keeps_def wp_run moves_safe)

lemma wp_moves_safe: "wp m (\<lambda>_. moves s) s \<Longrightarrow> wp m (\<lambda>_. safe s) s"
  by (erule wp_mono) (rule moves_safe)

lemma safe_then:
  assumes "host_ok s \<Longrightarrow> wp m (\<lambda>a t. safe s t \<and> P a t) s"
    and "\<And>x t. host_ok t \<Longrightarrow> P x t \<Longrightarrow> wp (n x) (\<lambda>_. safe t) t"
  shows "wp (m \<bind> n) (\<lambda>_. safe s) s"
proof (cases "host_ok s")
  case True
  show ?thesis
  proof (rule safe.wp_then [where P = "\<lambda>x t. host_ok t \<and> P x t"])
    show "wp m (\<lambda>a t. safe s t \<and> host_ok t \<and> P a t) s"
      using assms(1) [OF True] by (rule wp_mono) (use True in \<open>auto simp: safe_def\<close>)
  qed (use assms(2) in blast)
qed (simp add: wp_run safe_def)

lemma update_ok:
  assumes "host_ok s" and "ch_shutdown s \<noteq> ShClosed"
  shows "wp update_shutdown_status (\<lambda>_. safe s) s"
proof -
  have "ch_shutdown s \<noteq> ShOpen \<Longrightarrow> next_shutdown s \<noteq> ShOpen"
    by (simp add: next_shutdown_def Let_def)
  then show ?thesis
    using shutdown_ok [OF assms(1)] assms(2)
    by (simp add: update_shutdown_status_def wp_changes safe_def)
qed

lemma moves_advance:
  assumes os: "reads_bounded (worker_os env)"
  shows "keeps moves (advance env shutdown)"
proof -
  have poll: "keeps moves (reads ch_process \<bind> (\<lambda>p.
      on_condition (case p of None \<Rightarrow> False | Some p \<Rightarrow> po_launched p \<and> \<not> po_channels_closed p)
        (poll_process env)))"
    by (rule moves.keeps_reads_bind, rule wp_moves_from, rule wp_guard, rule poll_process_ok [OF os])
      (auto split: option.splits)
  show ?thesis
    unfolding advance_def
    by (intro moves.keeps_bind moves.keeps_reads moves.keeps_on_condition moves.keeps_skip
        moves_capabilities moves_settle_revoked poll keeps_steady_moves [OF steady_now]
        keeps_steady_moves [OF steady_evidence(1)])
qed

lemma safe_poll:
  fixes env :: "'w env"
  assumes os: "reads_bounded (worker_os env)"
  shows "keeps safe (host_poll env)"
  unfolding host_poll_def
proof (rule safe.keeps_reads_bind)
  fix s :: "'w running"
  show "wp (on_condition (ch_shutdown s \<noteq> ShClosed)
      (advance env (ch_shutdown s) \<bind> (\<lambda>_. update_shutdown_status))) (\<lambda>_. safe s) s"
  proof (cases "ch_shutdown s = ShClosed")
    case True
    then show ?thesis by (simp add: wp_on_condition safe.kept_refl)
  next
    case False
    have "wp (advance env (ch_shutdown s) \<bind> (\<lambda>_. update_shutdown_status)) (\<lambda>_. safe s) s"
    proof (rule safe_then [where P = "\<lambda>_ t. ch_shutdown t \<noteq> ShClosed"])
      assume ok: "host_ok s"
      show "wp (advance env (ch_shutdown s)) (\<lambda>_ t. safe s t \<and> ch_shutdown t \<noteq> ShClosed) s"
        using keepsD [OF moves_advance [OF os]]
        by (rule wp_mono) (use ok False in \<open>auto simp: moves_safe\<close>, auto simp: moves_def)
    qed (rule update_ok)
    with False show ?thesis by (simp add: wp_on_condition)
  qed
qed

lemma closing_ok:
  assumes ok: "host_ok s" and "ch_shutdown s = ShOpen"
  shows "host_ok (s\<lparr>ch_shutdown := ShClosing, ch_gate := close_admission (ch_gate s)\<rparr>)"
proof -
  let ?t = "s\<lparr>ch_gate := close_admission (ch_gate s)\<rparr>"
  have "host_ok ?t" by (rule steady_ok [OF steadyI ok]) (simp_all add: steady_calls)
  then have "host_ok (?t\<lparr>ch_shutdown := ShClosing\<rparr>)"
    by (rule host_ok_shutdown) (simp add: shutdown_sound_def close_admission_def)
  moreover have "?t\<lparr>ch_shutdown := ShClosing\<rparr> =
      s\<lparr>ch_shutdown := ShClosing, ch_gate := close_admission (ch_gate s)\<rparr>" by simp
  ultimately show ?thesis by simp
qed

lemma safe_shutdown:
  fixes env :: "'w env"
  assumes os: "reads_bounded (worker_os env)"
  shows "keeps safe (begin_shutdown env)"
  unfolding begin_shutdown_def
proof (rule safe.keeps_reads_bind)
  fix s :: "'w running"
  let ?rest = "reads ch_authority \<bind> (\<lambda>own.
    (case own of None \<Rightarrow> skip | Some a \<Rightarrow> host_request_cancel env a \<bind> (\<lambda>_. skip)) \<bind> (\<lambda>_. host_poll env))"
  have rest: "keeps safe ?rest"
    by (intro safe.keeps_bind safe.keeps_reads safe.keeps_option safe.keeps_skip safe_poll [OF os]
        keeps_moves_safe [OF moves_cancel])
  show "wp (on_condition (ch_shutdown s = ShOpen) (changes (\<lambda>s. s\<lparr>ch_shutdown := ShClosing\<rparr>) \<bind> (\<lambda>_.
      on_gate (\<lambda>g. (close_admission g, ())) \<bind> (\<lambda>_. ?rest)))) (\<lambda>_. safe s) s"
  proof (cases "ch_shutdown s = ShOpen \<and> host_ok s")
    case True
    let ?t = "s\<lparr>ch_shutdown := ShClosing, ch_gate := close_admission (ch_gate s)\<rparr>"
    have "safe s ?t" using True closing_ok [of s] by (simp add: safe_def)
    with keepsD [OF rest, of ?t] have "wp ?rest (\<lambda>_. safe s) ?t"
      by (auto elim: wp_mono intro: safe.kept_trans)
    with True show ?thesis by (simp add: wp_on_condition wp_bind wp_changes wp_on_gate)
  next
    case False
    then show ?thesis by (cases "host_ok s") (simp_all add: wp_on_condition safe.kept_refl, simp add: wp_run safe_def)
  qed
qed

end
