(* ===== verification/Compute_Host_Machine.thy ===== *)
theory Compute_Host_Machine
  imports Compute_Host_Safety
begin

text \<open>
  Admission and dispatch keep the invariant of the compute host, which therefore holds in
  every state that a host can reach by calls of its public members.
\<close>

subsection \<open>Dispatch\<close>

lemma pending_unsettled:
  assumes "gate_ok g" and "g_current_receipt g = Some r" and "rc_dispatch r = DsPending"
  shows "rc_settlement r \<noteq> StSettled"
  using gate_ok_receipt [OF assms(1,2)] receipt_okD(2,4) settled_dispatched assms(3) by blast

lemma launched_ok:
  assumes ok: "host_ok s" and none: "ch_process s = None" and a: "ch_authority s \<noteq> None"
    and now: "current_is (\<lambda>r. rc_dispatch r \<noteq> DsPending \<and> rc_settlement r \<noteq> StSettled) s"
    and p: "process_ok p" "cleanup_ok p"
  shows "host_ok (s\<lparr>ch_process := Some p, rn_world := w\<rparr>)"
  using host_okD [OF ok] now p
  by (simp add: host_ok_def tied_def process_sound_def settled_clear_def result_sound_def
      shutdown_sound_def current_is_def clear_process_def) auto

lemma launch_claimed_ok:
  fixes env :: "'w env"
  assumes ok: "host_ok s" and none: "ch_process s = None" and a: "ch_authority s \<noteq> None"
    and now: "current_is (\<lambda>r. rc_dispatch r \<noteq> DsPending \<and> rc_settlement r \<noteq> StSettled) s"
  shows "wp (launch_claimed env (make_process e n g)) (\<lambda>_. safe s) s"
proof -
  let ?p = "make_process e n g"
  obtain b q w where launch: "launch (worker_os env) (?p, rn_world s) = (b, q, w)"
    by (cases "launch (worker_os env) (?p, rn_world s)") auto
  have fresh: "cleanup_ok ?p" "\<not> po_channels_closed ?p" by (simp_all add: make_process_def cleanup_ok_def)
  note cleanup = launch_cleanup [OF launch fresh]
  have q: "process_ok q" using launch_ok [OF make_process_ok, of "worker_os env" e n g "rn_world s"] launch by simp
  let ?t = "s\<lparr>ch_process := Some q, rn_world := w\<rparr>"
  have t: "host_ok ?t" by (rule launched_ok [OF ok none a now q cleanup(1)])
  have safe: "safe s ?t" using t by (simp add: safe_def)
  have clear: "\<not> b \<and> po_io_error q = 0 \<Longrightarrow> clear_process ?t"
    using cleanup by (auto simp: clear_process_def clear_def cleanup_ok_def)
  have failed: "wp (settle_unsubmitted env (po_io_error q = 0) \<bind> (\<lambda>_. answer False)) (\<lambda>_. safe s) ?t" if "\<not> b"
  proof -
    have "wp (settle_unsubmitted env (po_io_error q = 0)) (\<lambda>_. safe ?t) ?t"
      by (rule wp_moves_safe, rule wp_settle_unsubmitted) (use that clear in blast)
    then have "wp (settle_unsubmitted env (po_io_error q = 0) \<bind> (\<lambda>_. answer False)) (\<lambda>_. safe ?t) ?t"
      by (rule safe.wp_keeps_bind) (rule safe.keeps_answer)
    then show ?thesis by (rule wp_mono) (rule safe.kept_trans [OF safe])
  qed
  have accepted: "wp (host_now env \<bind> (\<lambda>time. native NkAccepted time \<bind> (\<lambda>_. answer True))) (\<lambda>_. safe s) ?t"
  proof -
    have "keeps safe (host_now env \<bind> (\<lambda>time. native NkAccepted time \<bind> (\<lambda>_. answer True)))"
      by (rule keeps_moves_safe, rule keeps_steady_moves) (intro steady_rules)
    from keepsD [OF this, of ?t] show ?thesis
      by (rule wp_mono) (rule safe.kept_trans [OF safe])
  qed
  have unfolded: "wp (launch_claimed env ?p) Q s = wp (if \<not> b
      then the_process \<bind> (\<lambda>observed. settle_unsubmitted env (po_io_error observed = 0) \<bind> (\<lambda>_. answer False))
      else host_now env \<bind> (\<lambda>time. native NkAccepted time \<bind> (\<lambda>_. answer True))) Q ?t" for Q
    by (simp only: launch_claimed_def wp_bind wp_changes wp_on_process) (simp add: launch)
  show ?thesis
    unfolding unfolded using failed accepted by (cases b) (simp_all add: wp_bind [of "reads _"] wp_reads)
qed

text \<open>A host whose prepared operation has no process yet.\<close>

abbreviation idle :: "'w running \<Rightarrow> bool" where
  "idle s \<equiv> ch_process s = None \<and> ch_authority s \<noteq> None"

lemma idle_kept:
  assumes "keeps moves m" and "host_ok s" and "idle s"
  shows "wp m (\<lambda>_ t. safe s t \<and> idle t) s"
  using keepsD [OF assms(1), of s]
  by (rule wp_mono) (use assms(2,3) in \<open>auto simp: moves_safe\<close>, auto simp: moves_def)

lemma dispatch_pending_ok:
  fixes env :: "'w env"
  assumes ok: "host_ok s" and none: "ch_process s = None" and a: "ch_authority s \<noteq> None"
  shows "wp (dispatch_pending env b) (\<lambda>_. safe s) s"
proof -
  have claim: "wp (if failed then answer False else on_gate (\<lambda>g. claim_dispatch g b time))
      (\<lambda>claimed u. safe t u \<and> ch_process u = None \<and> ch_authority u \<noteq> None \<and>
        (claimed \<longrightarrow> current_is (\<lambda>r. rc_dispatch r \<noteq> DsPending \<and> rc_settlement r \<noteq> StSettled) u)) t"
    if t: "host_ok t" "idle t" for failed time and t :: "'w running"
  proof -
    have steady: "steady t (t\<lparr>ch_gate := fst (claim_dispatch (ch_gate t) b time)\<rparr>)"
      by (rule steadyI) (simp_all add: steady_calls)
    have "current_is (\<lambda>r. rc_dispatch r \<noteq> DsPending \<and> rc_settlement r \<noteq> StSettled)
        (t\<lparr>ch_gate := fst (claim_dispatch (ch_gate t) b time)\<rparr>)" if "snd (claim_dispatch (ch_gate t) b time)"
    proof (cases rule: claim_cases [of "ch_gate t" b time])
      case (claimed r)
      with pending_unsettled [OF host_okD(1) [OF t(1)] claimed(1)] claim_acceptedD(3) [OF claimed(2,1)]
      show ?thesis by (simp add: current_is_def)
    qed (use that in simp)
    with steady t show ?thesis
      by (simp add: wp_answer wp_on_gate split_beta safe.kept_refl moves_safe steady_moves)
  qed
  show ?thesis
    unfolding dispatch_pending_def
  proof (rule safe.wp_reads_then, rule safe.wp_reads_then,
      rule safe_then [OF idle_kept [OF keeps_steady_moves [OF steady_now]]], assumption, simp add: none a,
      rule safe_then [OF idle_kept [OF keeps_steady_moves [OF steady_evidence(1)]]], assumption, assumption,
      rule safe.wp_reads_then, rule safe_then [OF claim], assumption, assumption)
    fix claimed and u :: "'w running" and p
    assume u: "host_ok u" "ch_process u = None \<and> ch_authority u \<noteq> None \<and>
      (claimed \<longrightarrow> current_is (\<lambda>r. rc_dispatch r \<noteq> DsPending \<and> rc_settlement r \<noteq> StSettled) u)"
    have "wp (settle_unsubmitted env True) (\<lambda>_. safe u) u"
      by (rule wp_moves_safe, rule wp_settle_unsubmitted) (use u in \<open>simp add: clear_process_def\<close>)
    then have "wp (settle_unsubmitted env True \<bind> (\<lambda>_. answer False)) (\<lambda>_. safe u) u"
      by (rule safe.wp_keeps_bind) (rule safe.keeps_answer)
    with u show "wp (if \<not> claimed then settle_unsubmitted env True \<bind> (\<lambda>_. answer False)
        else launch_claimed env (make_process (cc_worker_executable (ch_config s))
          (cq_iterations (the (ch_request s))) (cc_stop_grace_ms (ch_config s)))) (\<lambda>_. safe u) u"
      by (simp add: launch_claimed_ok)
  qed
qed

lemma safe_dispatch: "keeps safe (dispatch_prepared env b)"
  unfolding dispatch_prepared_def
proof (rule safe.keeps_reads_bind, rule safe.wp_reads_then, rule safe.wp_reads_then)
  fix s :: "'a running"
  let ?go = "host_now env \<bind> (\<lambda>time. observe_capabilities env time \<bind> (\<lambda>_.
    reads (\<lambda>s. gate_receipt (ch_gate s) b) \<bind> (\<lambda>receipt.
      if \<not> receipt_is (\<lambda>r. rc_dispatch r = DsPending) receipt then answer False else dispatch_pending env b)))"
  have go: "wp ?go (\<lambda>_. safe s) s" if own: "ch_authority s \<noteq> None" and none: "ch_process s = None"
  proof -
    show ?thesis
      by (rule safe_then [OF idle_kept [OF keeps_steady_moves [OF steady_now]]], assumption, simp add: none own,
          rule safe_then [OF idle_kept [OF moves_capabilities]], assumption, assumption, rule safe.wp_reads_then)
        (simp add: wp_if wp_answer safe.kept_refl dispatch_pending_ok)
  qed
  show "wp (if (case ch_authority s of None \<Rightarrow> True | Some a \<Rightarrow> \<not> matches a b) \<or> ch_request s = None \<or>
      ch_process s \<noteq> None then answer False else ?go) (\<lambda>_. safe s) s"
    using go by (cases "ch_authority s") (auto simp: wp_answer safe.kept_refl)
qed

subsection \<open>Admission\<close>

lemma closed_work_clear:
  assumes ok: "host_ok s" and closed: "old_work_closed (ch_gate s)"
  shows "clear_process s"
proof (cases "g_current_receipt (ch_gate s)")
  case None
  with host_okD(5) [OF ok] show ?thesis by (auto simp: process_sound_def current_is_def clear_process_def)
next
  case (Some r)
  with closed have "rc_settlement r = StSettled"
    by (auto simp: old_work_closed_def current_is_releasable_iff has_resolved_closure_def)
  with Some host_okD(6) [OF ok] show ?thesis by (auto simp: settled_clear_def current_is_def)
qed

lemma installed_ok:
  assumes ok: "host_ok s" and admitted: "admission_refusal (ch_gate s) x = None"
  shows "host_ok (install_operation q (admitted_authority (ch_gate s) x)
    (s\<lparr>ch_gate := admitted_gate (ch_gate s) x, ch_process := None\<rparr>))"
proof -
  have "gate_ok (admitted_gate (ch_gate s) x)"
    using admit_ok [OF host_okD(1) [OF ok], of x] admitted
    by (cases rule: admit_cases [of "ch_gate s" x]) simp_all
  moreover have "ch_shutdown s = ShOpen"
    using host_okD(7) [OF ok] admission_granted(2) [OF admitted] by (auto simp: shutdown_sound_def)
  moreover have "rc_authority (new_receipt a d e) = a" for a d e by simp
  ultimately show ?thesis
    using host_okD(4) [OF ok]
    by (simp add: host_ok_def install_operation_def tied_def process_sound_def settled_clear_def
        clear_process_def shutdown_sound_def result_sound_def current_is_def)
qed

text \<open>
  An admission replaces the operation. \<open>prepare\<close> tests for an evidence error before it
  observes its capabilities, which may be refused: the operation is then admitted and its
  dispatch refused.
\<close>

definition admits :: "'w running \<Rightarrow> 'w running \<Rightarrow> bool" where
  "admits s t \<longleftrightarrow> (host_ok s \<longrightarrow>
     host_ok t \<and> (ch_evidence_error s \<longrightarrow> ch_evidence_error t) \<and> ch_shutdown t = ch_shutdown s)"

interpretation admits: kept_relation admits
  by unfold_locales (auto simp: admits_def)

lemma keeps_moves_admits: "keeps moves m \<Longrightarrow> keeps admits m"
  by (auto simp: keeps_def wp_run moves_def admits_def)

lemma admit_and_install_ok:
  fixes env :: "'w env"
  assumes ok: "host_ok s"
  shows "wp (on_gate (\<lambda>g. admit g x) \<bind> (\<lambda>admission.
     case ad_authority admission of
       None \<Rightarrow> answer (blocked (ad_status admission))
     | Some a \<Rightarrow> reset_process env \<bind> (\<lambda>_. changes (install_operation q a) \<bind> (\<lambda>_.
         answer \<lparr>csb_status = SbPrepared, csb_admission_status = ad_status admission, csb_authority = Some a\<rparr>))))
     (\<lambda>_. admits s) s"
proof (cases rule: admit_cases [of "ch_gate s" x])
  case (refused status)
  then show ?thesis by (simp add: wp_bind wp_on_gate wp_answer admits.kept_refl)
next
  case admitted
  let ?g = "admitted_gate (ch_gate s) x" and ?a = "admitted_authority (ch_gate s) x"
  let ?t = "s\<lparr>ch_gate := ?g\<rparr>"
  have clear: "clear_process s"
    by (rule closed_work_clear [OF ok admission_granted(4) [OF admitted(1)]])
  have reset: "wp (reset_process env) (\<lambda>_ t. t = ?t\<lparr>ch_process := None\<rparr>) ?t"
  proof (cases "ch_process s")
    case None
    then show ?thesis by (simp add: reset_process_def wp_changes)
  next
    case (Some p)
    with host_okD(5) [OF ok] clear have "process_ok p" "cleanup_ok p" "clear p"
      by (auto simp: process_sound_def clear_process_def)
    from clear_cleanup [OF this, of "worker_os env" "rn_world s"] Some
    show ?thesis by (auto simp: reset_process_def wp_changes)
  qed
  have "admits s (install_operation q ?a (?t\<lparr>ch_process := None\<rparr>))"
    using installed_ok [OF ok admitted(1), of q] by (simp add: admits_def) (simp add: install_operation_def)
  then have "wp (reset_process env \<bind> (\<lambda>_. changes (install_operation q ?a) \<bind> (\<lambda>_. answer y)))
      (\<lambda>_. admits s) ?t" for y
    unfolding wp_bind by (intro wp_mono [OF reset]) (simp add: wp_changes wp_answer)
  then show ?thesis
    by (simp add: wp_bind [of "on_gate _"] wp_on_gate admitted(2))
qed

lemma admits_from: "(host_ok s \<Longrightarrow> wp m (\<lambda>_. admits s) s) \<Longrightarrow> wp m (\<lambda>_. admits s) s"
  by (cases "host_ok s") (simp_all add: wp_run admits_def)

lemma admits_request: "keeps admits (admit_request env q)"
proof -
  note moved = keeps_moves_admits and still = keeps_steady_moves
  have "keeps admits (on_gate (\<lambda>g. admit g x) \<bind> (\<lambda>admission.
     case ad_authority admission of
       None \<Rightarrow> answer (blocked (ad_status admission))
     | Some a \<Rightarrow> reset_process env \<bind> (\<lambda>_. changes (install_operation q a) \<bind> (\<lambda>_.
         answer \<lparr>csb_status = SbPrepared, csb_admission_status = ad_status admission, csb_authority = Some a\<rparr>))))"
    for x
    by (rule keepsI, rule admits_from, rule admit_and_install_ok)
  then show ?thesis
    unfolding admit_request_def
    by (intro admits.keeps_bind [OF moved [OF still [OF steady_now]]]
        admits.keeps_bind [OF moved [OF moves_capabilities]] admits.keeps_bind [OF admits.keeps_reads])
qed

lemma safe_prepare: "keeps safe (prepare env q)"
proof (cases "request_invalid q")
  case True
  then show ?thesis by (simp add: prepare_def safe.keeps_answer)
next
  case False
  have "wp (if ch_evidence_error s then answer (blocked AdRecoveryRequired)
      else if ch_shutdown s \<noteq> ShOpen then answer (blocked AdClosed) else admit_request env q) (\<lambda>_. safe s) s" for s
  proof (cases "ch_evidence_error s \<or> ch_shutdown s \<noteq> ShOpen")
    case True
    then show ?thesis by (auto simp: wp_answer safe.kept_refl)
  next
    case False
    have "wp (admit_request env q) (\<lambda>_. safe s) s"
      using keepsD [OF admits_request] by (rule wp_mono) (use False in \<open>auto simp: admits_def safe_def\<close>)
    with False show ?thesis by simp
  qed
  with False show ?thesis
    unfolding prepare_def
    by (simp only: if_False) (intro safe.keeps_reads_bind safe.wp_reads_then)
qed

lemma safe_submit: "keeps safe (submit env q)"
  unfolding submit_def
  by (intro safe.keeps_bind safe_prepare safe.keeps_option safe.keeps_answer safe_dispatch)

subsection \<open>The machine\<close>

lemma host_step_safe:
  assumes "reads_bounded (worker_os env)"
  shows "safe s (fst (host_step env s c))"
  by (rule keeps_host_step)
    (intro keeps_moves_safe moves_initialize moves_withdraw keeps_steady_moves steady_rebind safe_prepare
      safe_dispatch safe_submit moves_cancel safe_poll [OF assms] safe_shutdown [OF assms])+

lemma host_step_ok:
  "reads_bounded (worker_os env) \<Longrightarrow> host_ok s \<Longrightarrow> host_ok (fst (host_step env s c))"
  using host_step_safe [of env s c] by (simp add: safe_def)

lemma host_run_safe:
  assumes "reads_bounded (worker_os env)"
  shows "safe s (run (host_step env) s cs)"
  by (induction cs arbitrary: s) (auto intro: safe.kept_refl safe.kept_trans host_step_safe [OF assms])

lemma host_initial_ok: "host_initial s \<Longrightarrow> host_ok s"
proof -
  assume init: "host_initial s"
  then obtain config g where new: "compute_host.truncate s = new_host config g"
    by (rule host_initialE)
  then have fields: "ch_gate s = g" "ch_authority s = None" "ch_request s = None" "ch_process s = None"
    "ch_result s = None" "ch_shutdown s = ShOpen"
    by (cases s; simp add: new_host_def compute_host.truncate_def)+
  have g: "gate_initial g" using host_initial_gate [OF init] fields(1) by simp
  then have "g_current_receipt g = None"
    by (auto simp: gate_initial_def make_gate_def implementation_init_def split: if_split_asm)
  with fields g gate_initial_ok [OF g] init show "host_ok s"
    by (simp add: host_ok_def tied_def process_sound_def settled_clear_def clear_process_def
        shutdown_sound_def result_sound_def current_is_def host_initial_def)
qed

lemma host_reachable_ok:
  assumes "reads_bounded (worker_os env)" and "host_reachable env s"
  shows "host_ok s"
  using assms(2) by (induction rule: reachable.induct) (auto intro: host_initial_ok host_step_ok [OF assms(1)])

end
