(* ===== verification/Compute_Host_Progress.thy ===== *)
theory Compute_Host_Progress
  imports Compute_Host_Machine
begin

text \<open>
  What the members of the host bring about. The end of a shutdown: once the worker of a
  closing host has exited and its events have been read to the end, the next poll decides
  the shutdown. And the replacement of a provider: what an applied rebind has installed.
\<close>

subsection \<open>A worker that has ended\<close>

definition ended :: "process \<Rightarrow> bool" where
  "ended p \<longleftrightarrow> po_launched p \<and> po_exit_status p \<noteq> None \<and> po_event_eof p"

lemma close_once_ended:
  "close_once os fd (p, w) = (b, q, v) \<Longrightarrow> ended q = ended p \<and> (\<not> b \<longrightarrow> pr_channel_cleanup_unknown q) \<and>
    (pr_channel_cleanup_unknown p \<longrightarrow> pr_channel_cleanup_unknown q)"
  by (auto simp: close_once_def ended_def remember_io_error_def split: prod.splits sum.splits if_split_asm)

lemma close_ended:
  assumes "close_channels os (p, w) = (b, q, v)" and "ended p"
  shows "ended q" and "\<not> b \<Longrightarrow> po_ownership_lost q \<or> pr_channel_cleanup_unknown q"
proof -
  have "ended q \<and> (\<not> b \<longrightarrow> po_ownership_lost q \<or> pr_channel_cleanup_unknown q)"
  proof (cases "po_channels_closed p \<or> po_ownership_lost p \<or> pr_channel_cleanup_unknown p")
    case True
    with assms show ?thesis by (auto simp: close_channels_def ended_def split: if_split_asm)
  next
    case False
    obtain b1 q1 v1 where one: "close_once os (pr_control_descriptor p) (p\<lparr>pr_control_descriptor := - 1\<rparr>, w) = (b1, q1, v1)"
      by (cases "close_once os (pr_control_descriptor p) (p\<lparr>pr_control_descriptor := - 1\<rparr>, w)") auto
    obtain b2 q2 v2 where two: "close_once os (pr_event_descriptor q1) (q1\<lparr>pr_event_descriptor := - 1\<rparr>, v1) = (b2, q2, v2)"
      by (cases "close_once os (pr_event_descriptor q1) (q1\<lparr>pr_event_descriptor := - 1\<rparr>, v1)") auto
    from False assms one two have "b = (b1 \<and> b2)" "q = q2\<lparr>po_channels_closed := (b1 \<and> b2)\<rparr>"
      by (auto simp: close_channels_def ended_def)
    with close_once_ended [OF one] close_once_ended [OF two] assms(2) show ?thesis
      by (auto simp: ended_def)
  qed
  then show "ended q" "\<not> b \<Longrightarrow> po_ownership_lost q \<or> pr_channel_cleanup_unknown q" by auto
qed

text \<open>Reporting evidence and requesting a stop leave the end of the worker as it is.\<close>

definition same_end :: "process \<Rightarrow> process \<Rightarrow> bool" where
  "same_end p q \<longleftrightarrow>
     po_launched q = po_launched p \<and> po_exit_status q = po_exit_status p \<and>
     po_event_eof q = po_event_eof p \<and> po_channels_closed q = po_channels_closed p"

definition end_kept :: "'w running \<Rightarrow> 'w running \<Rightarrow> bool" where
  "end_kept s t \<longleftrightarrow> (\<forall>p. ch_process s = Some p \<longrightarrow> (\<exists>q. ch_process t = Some q \<and> same_end p q))"

interpretation end_kept: host_evidence end_kept env for env :: "'w env"
  by unfold_locales (auto simp: end_kept_def same_end_def request_stop_fields request_stop_keeps)

subsection \<open>The last poll decides\<close>

text \<open>A state in which \<open>update_shutdown_status\<close> ends a shutdown.\<close>

definition decided :: "'w running \<Rightarrow> bool" where
  "decided s \<longleftrightarrow> ch_evidence_error s \<or>
     (\<exists>p. ch_process s = Some p \<and>
        (po_ownership_lost p \<or> po_launched p \<and> \<not> po_channels_closed p \<and> po_io_error p \<noteq> 0 \<or>
         po_channels_closed p \<and> receipt_is (\<lambda>r. rc_settlement r = StSettled) (own_receipt s)))"

lemma decided_update:
  "decided s \<Longrightarrow> ch_shutdown s = ShClosing \<Longrightarrow> next_shutdown s = ShClosed \<or> next_shutdown s = ShUnresolved"
  by (auto simp: decided_def next_shutdown_def Let_def receipt_is_def split: option.splits)

text \<open>A host whose worker satisfies a condition that only its end decides.\<close>

definition holding :: "(process \<Rightarrow> bool) \<Rightarrow> 'w running \<Rightarrow> bool" where
  "holding P s \<longleftrightarrow> host_ok s \<and> (\<exists>p. ch_process s = Some p \<and> P p)"

lemma holding_then:
  assumes "holding P s" and "wp m (\<lambda>_. moves s) s" and "keeps end_kept m"
    and "\<And>p q. same_end p q \<Longrightarrow> P p \<Longrightarrow> P q" and "\<And>x t. holding P t \<Longrightarrow> wp (n x) Q t"
  shows "wp (m \<bind> n) Q s"
proof -
  have "wp m (\<lambda>_ t. moves s t \<and> end_kept s t) s"
    using assms(2) keepsD [OF assms(3)] by (simp add: wp_conj)
  moreover have "holding P t" if "moves s t \<and> end_kept s t" for t
    using assms(1,4) that by (auto simp: holding_def moves_def end_kept_def)
  ultimately show ?thesis
    unfolding wp_bind by (elim wp_mono) (rule assms(5))
qed

lemma settlement_settles:
  assumes "snd (observe_settlement g e) \<noteq> EvRejected"
  shows "\<exists>r. gate_receipt (fst (observe_settlement g e)) (ste_authority e) = Some r \<and> rc_settlement r = StSettled"
  using assms
  by (auto simp: observe_settlement_def on_current_def receipt_settlement_def mark_settled_def gate_receipt_def
      current_authority_matches_iff split: option.splits if_split_asm)

lemma settle_decides:
  assumes "ch_authority s = Some a" and "ch_process s = Some p" and "po_channels_closed p"
  shows "wp (settle time) (\<lambda>_. decided) s"
proof -
  define e where "e = \<lparr>ste_authority = a, ste_scope = kScope, ste_permits_same_domain_admission = True,
    ste_record = \<lparr>er_source = kObserver, er_observed_at = time, er_sequence = ch_sequence s + 1\<rparr>\<rparr>"
  let ?d = "observe_settlement (ch_gate s) e"
  have "\<exists>r. gate_receipt (fst ?d) a = Some r \<and> rc_settlement r = StSettled" if "snd ?d \<noteq> EvRejected"
    using settlement_settles [OF that] by (simp add: e_def)
  with assms show ?thesis
    by (auto simp: settle_def wp_rules split_beta e_def [symmetric] decided_def own_receipt_def receipt_is_def)
qed

lemma closing_decides:
  fixes env :: "'w env"
  assumes "holding ended s"
  shows "wp (on_process (close_channels (worker_os env)) \<bind> (\<lambda>closed. on_condition closed (
    reads own_receipt \<bind> (\<lambda>receipt. reads ch_evidence_error \<bind> (\<lambda>failed.
      on_condition (\<not> failed \<and> receipt_is (\<lambda>r. rc_settlement r = StPending) receipt)
        (host_now env \<bind> settle)))))) (\<lambda>_. decided) s"
proof -
  obtain p where ok: "host_ok s" and p: "ch_process s = Some p" "ended p"
    using assms by (auto simp: holding_def)
  obtain b q w where closed: "close_channels (worker_os env) (p, rn_world s) = (b, q, w)"
    by (cases "close_channels (worker_os env) (p, rn_world s)") auto
  note kept = close_channels_cleanup [OF closed]
  let ?t = "s\<lparr>ch_process := Some q, rn_world := w\<rparr>"
  have "cleanup_ok q" using kept(2) host_okD(5) [OF ok] p(1) by (simp add: process_sound_def)
  then have open_decided: "\<not> b \<Longrightarrow> decided ?t"
    using close_ended [OF closed p(2)] kept(3) by (auto simp: decided_def cleanup_ok_def ended_def)
  obtain a where a: "ch_authority s = Some a"
    using process_serving [OF ok] p(1) by (auto simp: serving_def)
  have "own_receipt s \<noteq> None"
    using host_okD(2) [OF ok] a own_receipt_current [of s]
    by (cases "g_current_receipt (ch_gate s)") (simp_all add: tied_def)
  moreover have "own_receipt ?t = own_receipt s" using a by (simp add: own_receipt_def)
  ultimately obtain r where r: "own_receipt ?t = Some r" by auto
  have now: "wp (host_now env \<bind> settle) (\<lambda>_. decided) ?t" if b
    using that a kept(3) by (simp add: host_now_def wp_rules split_beta settle_decides)
  have over: "decided ?t" if b "ch_evidence_error s \<or> rc_settlement r \<noteq> StPending"
    using that r kept(3) by (cases "rc_settlement r") (auto simp: decided_def receipt_is_def)
  show ?thesis
    using p(1) closed open_decided now over r
    by (cases b) (auto simp: wp_rules receipt_is_def)
qed

lemma finish_decides:
  fixes env :: "'w env"
  assumes "holding ended s"
  shows "wp (finish env) (\<lambda>_. decided) s"
proof -
  obtain p where ok: "host_ok s" and p: "ch_process s = Some p" "ended p"
    using assms by (auto simp: holding_def)
  obtain a q where serving: "serving a q s" by (rule process_serving [OF ok]) (simp add: p)
  let ?rest = "on_condition (\<not> ch_outcome_reported s) (report_outcome env) \<bind> (\<lambda>_.
    on_process (close_channels (worker_os env)) \<bind> (\<lambda>closed. on_condition closed (
      reads own_receipt \<bind> (\<lambda>receipt. reads ch_evidence_error \<bind> (\<lambda>failed.
        on_condition (\<not> failed \<and> receipt_is (\<lambda>r. rc_settlement r = StPending) receipt)
          (host_now env \<bind> settle))))))"
  have "wp ?rest (\<lambda>_. decided) s"
    by (rule holding_then [OF assms wp_guard end_kept.keeps_on_condition [OF end_kept.keeps_outcome] _ closing_decides],
        rule report_outcome_ok [OF serving])
      (auto simp: same_end_def ended_def)
  moreover have "decided s" if "po_ownership_lost p" using that p(1) by (auto simp: decided_def)
  ultimately show ?thesis
    using p by (auto simp: finish_def wp_bind [of "reads _"] wp_reads wp_on_condition ended_def)
qed

definition end_decided :: "'w running \<Rightarrow> bool" where
  "end_decided t \<longleftrightarrow> (\<forall>q. ch_process t = Some q \<and> ended q \<longrightarrow> decided t)"

lemma finish_end_decided:
  fixes env :: "'w env"
  assumes "host_ok s" and "ch_process s = Some p" and "po_launched p"
  shows "wp (finish env) (\<lambda>_. end_decided) s"
proof (cases "ended p")
  case True
  with assms have "holding ended s" by (simp add: holding_def)
  from finish_decides [OF this] show ?thesis by (rule wp_mono) (simp add: end_decided_def)
next
  case False
  with assms(2,3) show ?thesis
    by (auto simp: finish_def wp_bind [of "reads _"] wp_reads wp_on_condition ended_def end_decided_def)
qed

abbreviation open_worker :: "process \<Rightarrow> bool" where
  "open_worker p \<equiv> po_launched p \<and> \<not> po_channels_closed p"

lemma same_end_open: "same_end p q \<Longrightarrow> open_worker p \<Longrightarrow> open_worker q"
  "same_end p q \<Longrightarrow> po_launched p \<Longrightarrow> po_launched q"
  by (simp_all add: same_end_def)

lemma poll_process_decides:
  fixes env :: "'w env"
  assumes os: "reads_bounded (worker_os env)" and s: "holding po_launched s"
  shows "wp (poll_process env) (\<lambda>_. end_decided) s"
  unfolding poll_process_def
proof (rule holding_then [OF s keepsD [OF moves_withdraw_unsupported] end_kept.keeps_withdraw_unsupported same_end_open(2)],
    assumption+,
    rule holding_then [OF _ keepsD [OF keeps_steady_moves [OF steady_now]] end_kept.keeps_small(3) same_end_open(2)],
    assumption+)
  fix time and t :: "'w running"
  assume t: "holding po_launched t"
  then obtain p where p: "ch_process t = Some p" "po_launched p" "host_ok t" by (auto simp: holding_def)
  let ?u = "t\<lparr>ch_process := Some (fst (poll (worker_os env) time (p, rn_world t))),
    rn_world := snd (poll (worker_os env) time (p, rn_world t))\<rparr>"
  have "wp (on_worker (poll (worker_os env) time)) (\<lambda>_. moves t) t"
    by (rule wp_steady_moves, rule steady_on_worker [OF p(1)], rule poll_moves [OF os])
  then have "holding po_launched ?u"
    using p poll_fields(1) [of "worker_os env" time p "rn_world t"]
    by (simp add: on_worker_def wp_on_process split_beta moves_def holding_def)
  then have polled: "wp (on_worker (poll (worker_os env) time)) (\<lambda>_. holding po_launched) t"
    using p(1) by (simp add: on_worker_def wp_on_process split_beta)
  have cancel: "keeps moves (on_condition b (the_authority \<bind> (\<lambda>a. host_request_cancel env a \<bind> (\<lambda>_. skip))))"
    "keeps end_kept (on_condition b (the_authority \<bind> (\<lambda>a. host_request_cancel env a \<bind> (\<lambda>_. skip))))" for b
    by (intro moves.keeps_intros moves_cancel) (intro end_kept.atoms end_kept.keeps_cancel)
  have rest: "wp (the_process \<bind> (\<lambda>observed.
      on_condition (po_malformed observed \<or> po_io_error observed \<noteq> 0 \<or> po_ownership_lost observed)
        (the_authority \<bind> (\<lambda>a. host_request_cancel env a \<bind> (\<lambda>_. skip))) \<bind> (\<lambda>_.
      observe_process_events env \<bind> (\<lambda>_. finish env)))) (\<lambda>_. end_decided) u" if "holding po_launched u" for u
    by (rule holding_then [OF that keepsD [OF moves.keeps_reads] end_kept.keeps_reads same_end_open(2)], assumption+,
        rule holding_then [OF _ keepsD [OF cancel(1)] cancel(2) same_end_open(2)], assumption+,
        rule holding_then [OF _ keepsD [OF keeps_steady_moves [OF steady_events]] end_kept.keeps_events same_end_open(2)],
        assumption+)
      (auto simp: holding_def intro: finish_end_decided)
  show "wp (on_worker (poll (worker_os env) time) \<bind> (\<lambda>_. the_process \<bind> (\<lambda>observed.
      on_condition (po_malformed observed \<or> po_io_error observed \<noteq> 0 \<or> po_ownership_lost observed)
        (the_authority \<bind> (\<lambda>a. host_request_cancel env a \<bind> (\<lambda>_. skip))) \<bind> (\<lambda>_.
      observe_process_events env \<bind> (\<lambda>_. finish env))))) (\<lambda>_. end_decided) t"
    unfolding wp_bind [of "on_worker _"] by (rule wp_mono [OF polled]) (rule rest)
qed

lemma advance_decides:
  fixes env :: "'w env"
  assumes os: "reads_bounded (worker_os env)" and s: "holding open_worker s" and closing: "x \<noteq> ShOpen"
  shows "wp (advance env x) (\<lambda>_. end_decided) s"
proof -
  have poll: "wp (reads ch_process \<bind> (\<lambda>p.
      on_condition (case p of None \<Rightarrow> False | Some p \<Rightarrow> po_launched p \<and> \<not> po_channels_closed p)
        (poll_process env))) (\<lambda>_. end_decided) t" if "holding open_worker t" for t
    using that poll_process_decides [OF os, of t] by (auto simp: wp_rules holding_def)
  have skipped: "keeps R (on_condition (x = ShOpen \<and> b) m)" if "kept_relation R"
    for R :: "'w running \<Rightarrow> 'w running \<Rightarrow> bool" and b and m :: "('w running, unit) program"
    using closing kept_relation.keeps_skip [OF that] by (simp add: on_condition_def)
  note then_open = holding_then [where P = open_worker, OF _ _ _ same_end_open(1)]
  show ?thesis
    unfolding advance_def
    by (rule then_open [OF s keepsD [OF moves.keeps_reads] end_kept.keeps_reads], assumption+,
        rule then_open [OF _ keepsD [OF skipped [OF moves.kept_relation_axioms]]
          skipped [OF end_kept.kept_relation_axioms]], assumption+,
        rule then_open [OF _ keepsD [OF keeps_steady_moves [OF steady_now]] end_kept.keeps_small(3)], assumption+,
        rule then_open [OF _ keepsD [OF keeps_steady_moves [OF steady_evidence(1)]] end_kept.keeps_evidence(1)],
        assumption+,
        rule then_open [OF _ keepsD [OF moves_settle_revoked] end_kept.keeps_settle_revoked], assumption+,
        rule poll)
qed

lemma poll_decides:
  fixes env :: "'w env"
  assumes os: "reads_bounded (worker_os env)" and s: "holding open_worker s" and closing: "ch_shutdown s = ShClosing"
  shows "wp (host_poll env) (\<lambda>_ t. \<forall>q. ch_process t = Some q \<and> ended q \<longrightarrow>
    ch_shutdown t = ShClosed \<or> ch_shutdown t = ShUnresolved) s" (is "wp _ ?Q s")
proof -
  have "wp (advance env ShClosing) (\<lambda>_ t. end_decided t \<and> moves s t) s"
    using advance_decides [OF os s] keepsD [OF moves_advance [OF os]] by (simp add: wp_conj)
  then have "wp (advance env ShClosing \<bind> (\<lambda>_. update_shutdown_status)) ?Q s"
    unfolding wp_bind
  proof (rule wp_mono)
    fix t
    assume "end_decided t \<and> moves s t"
    moreover from this have "ch_shutdown t = ShClosing" using s closing by (simp add: moves_def holding_def)
    ultimately show "wp update_shutdown_status ?Q t"
      using decided_update [of t] by (auto simp: update_shutdown_status_def wp_changes end_decided_def)
  qed
  with closing show ?thesis by (simp add: host_poll_def wp_bind [of "reads _"] wp_reads wp_on_condition)
qed

subsection \<open>Replacing the provider\<close>

definition same_provider :: "'w running \<Rightarrow> 'w running \<Rightarrow> bool" where
  "same_provider s t \<longleftrightarrow> ch_config t = ch_config s \<and> ch_initialized t = ch_initialized s"

interpretation same_provider: kept_relation same_provider
  by unfold_locales (simp_all add: same_provider_def)

named_theorems provider_rules \<open>programs that leave the provider alone\<close>

declare same_provider.keeps_intros [provider_rules]

lemma same_provider_primitives [provider_rules]:
  "keeps same_provider (system f)" "keeps same_provider (on_gate h)" "keeps same_provider (stamp source time)"
  "keeps same_provider (host_now env)"
  by (rule keepsI, simp add: host_now_def wp_rules split_beta same_provider_def)+

lemma same_provider_candidate [provider_rules]:
  "keeps same_provider (qualify_candidate env c x)" "keeps same_provider (begin_candidate env b p)"
  unfolding qualify_candidate_def readiness_def begin_candidate_def by (intro provider_rules)+

definition provider_installed :: "BindingIdentity \<Rightarrow> string \<Rightarrow> 'w running \<Rightarrow> bool" where
  "provider_installed c x t \<longleftrightarrow>
     cc_worker_executable (ch_config t) = x \<and> ch_initialized t \<and>
     active_binding (ch_gate t) = c \<and> g_binding_phase (ch_gate t) = PhActive"

definition provider_decided :: "BindingIdentity \<Rightarrow> string \<Rightarrow> 'w running \<Rightarrow> BindingDecision \<Rightarrow> 'w running \<Rightarrow> bool" where
  "provider_decided c x s d t \<longleftrightarrow>
     (if bd_status d = BcApplied then provider_installed c x t else same_provider s t)"

lemma provider_kept: "same_provider s t \<Longrightarrow> provider_decided c x t d u \<Longrightarrow> provider_decided c x s d u"
  by (auto simp: provider_decided_def elim: same_provider.kept_trans split: if_splits)

lemma provider_then:
  assumes "keeps same_provider m" and "\<And>a t. wp (n a) (provider_decided c x t) t"
  shows "wp (m \<bind> n) (provider_decided c x s) s"
  unfolding wp_bind
  by (rule wp_mono [OF keepsD [OF assms(1)]]) (rule wp_mono [OF assms(2)], rule provider_kept)

lemma try_candidate_decides: "wp (try_candidate env c x) (provider_decided c x s) s"
  unfolding try_candidate_def
proof (rule provider_then [OF same_provider_candidate(1)], rule provider_then [OF same_provider_primitives(4)])
  fix time and t :: "'a running"
  obtain g d where commit: "commit_rebind (ch_gate t) c time = (g, d)"
    by (cases "commit_rebind (ch_gate t) c time")
  have "active_binding g = c \<and> g_binding_phase g = PhActive" if "bd_status d = BcApplied"
    using that commit
    by (cases rule: commit_cases [of "ch_gate t" c time])
      auto
  then show "wp (on_gate (\<lambda>g. commit_rebind g c time) \<bind> (\<lambda>committed.
      if bd_status committed \<noteq> BcApplied
      then host_now env \<bind> (\<lambda>time. on_gate (\<lambda>g. withdraw_binding g c time) \<bind> (\<lambda>_. answer committed))
      else changes (install_provider x) \<bind> (\<lambda>_. answer committed))) (provider_decided c x t) t"
    using commit
    by (simp add: wp_rules host_now_def split_beta provider_decided_def provider_installed_def
        same_provider_def install_provider_def)
qed

definition begun_with :: "string \<Rightarrow> BindingDecision \<Rightarrow> bool" where
  "begun_with p d \<longleftrightarrow> (bd_status d = BcApplied \<longrightarrow> (\<exists>c. bd_candidate d = Some c \<and> bid_provider_id c = p))"

lemma begin_rebind_with: "begun_with p (snd (begin_rebind g b p e t))"
  by (auto simp: begun_with_def begin_rebind_def Let_def new_candidate_def split: option.split)

lemma wp_begin_candidate: "wp (begin_candidate env b p) (\<lambda>d t. same_provider s t \<and> begun_with p d) s"
proof -
  have "wp (begin_candidate env b p) (\<lambda>d t. begun_with p d) s"
    by (simp add: begin_candidate_def host_now_def wp_rules split_beta begin_rebind_with)
  with keepsD [OF same_provider_candidate(2)] show ?thesis by (simp add: wp_conj)
qed

definition rebound :: "string \<Rightarrow> string \<Rightarrow> 'w running \<Rightarrow> BindingDecision \<Rightarrow> 'w running \<Rightarrow> bool" where
  "rebound p x s d t \<longleftrightarrow>
     (if bd_status d = BcApplied then (\<exists>c. bid_provider_id c = p \<and> provider_installed c x t)
      else same_provider s t)"

lemma candidate_decides:
  assumes "same_provider s t" and "begun_with p d"
  shows "wp (case bd_candidate d of
      None \<Rightarrow> answer d
    | Some c \<Rightarrow> if bd_status d \<noteq> BcApplied then answer d else try_candidate env c x) (rebound p x s) t"
proof (cases "bd_status d = BcApplied")
  case False
  with assms show ?thesis by (cases "bd_candidate d") (simp_all add: wp_answer rebound_def)
next
  case True
  with assms(2) obtain c where c: "bd_candidate d = Some c" "bid_provider_id c = p"
    by (auto simp: begun_with_def)
  have "wp (try_candidate env c x) (rebound p x s) t"
    by (rule wp_mono [OF try_candidate_decides])
      (use c(2) assms(1) in \<open>auto simp: rebound_def provider_decided_def elim: same_provider.kept_trans split: if_splits\<close>)
  with True c(1) show ?thesis by simp
qed

definition rebind_granted :: "BindingIdentity \<Rightarrow> string \<Rightarrow> string \<Rightarrow> 'w running \<Rightarrow> bool" where
  "rebind_granted b p x s \<longleftrightarrow>
     ch_shutdown s = ShOpen \<and> active_binding (ch_gate s) = b \<and> g_binding_phase (ch_gate s) = PhWithdrawn \<and>
     old_scope_is_clear s \<and> p \<noteq> [] \<and> x \<noteq> [] \<and> hd x = CHR ''/''"

lemma rebind_decides:
  "wp (rebind_provider env b p x) (\<lambda>d t. (bd_status d = BcApplied \<longrightarrow> rebind_granted b p x s) \<and> rebound p x s d t) s"
proof -
  let ?go = "begin_candidate env b p \<bind> (\<lambda>d. case bd_candidate d of
      None \<Rightarrow> answer d
    | Some c \<Rightarrow> if bd_status d \<noteq> BcApplied then answer d else try_candidate env c x)"
  have go: "wp ?go (rebound p x s) u" if "same_provider s u" for u
    unfolding wp_bind
    by (rule wp_mono [OF wp_begin_candidate [of env b p u]], rule candidate_decides)
      (use that in \<open>auto elim: same_provider.kept_trans\<close>)
  define Q where "Q = (\<lambda>d t. (bd_status d = BcApplied \<longrightarrow> rebind_granted b p x s) \<and> rebound p x s d t)"
  obtain now w where now: "en_now env (rn_world s) = (now, w)" by (cases "en_now env (rn_world s)")
  let ?u = "s\<lparr>rn_world := w\<rparr>"
  have u: "same_provider s ?u" "old_scope_is_clear ?u = old_scope_is_clear s"
    by (simp_all add: same_provider_def old_scope_is_clear_def own_receipt_def cong: option.case_cong)
  have granted: "wp ?go Q ?u" if "rebind_granted b p x s"
    by (rule wp_mono [OF go [OF u(1)]]) (simp add: that Q_def)
  have refused: "wp (answer (binding_answer y)) Q ?u" if "y \<noteq> BcApplied" for y
    using that u(1) by (simp add: wp_answer Q_def rebound_def binding_answer_def)
  have "wp (rebind_provider env b p x) Q s = wp (
      if ch_shutdown s \<noteq> ShOpen then answer (binding_answer BcClosed)
      else if b \<noteq> active_binding (ch_gate s) then answer (binding_answer BcStaleIdentity)
      else if g_binding_phase (ch_gate s) \<noteq> PhWithdrawn then answer (binding_answer BcWrongPhase)
      else if \<not> old_scope_is_clear s then answer (binding_answer BcUnresolvedWork)
      else if p = [] \<or> x = [] \<or> hd x \<noteq> CHR ''/'' then answer (binding_answer BcInvalidProvider)
      else ?go) Q ?u"
    by (simp add: rebind_provider_def host_now_def wp_bind [of "system _"] wp_bind [of "reads _"] wp_system
        wp_reads now u(2) binding_status_def)
  moreover have "\<dots>"
    using refused granted unfolding rebind_granted_def by (simp cong: if_cong) (metis refused)
  ultimately show ?thesis unfolding Q_def by blast
qed

end
