(* ===== verification/Gate_Properties.thy ===== *)
theory Gate_Properties
  imports Gate_Order
begin

text \<open>
  The properties of the authority gate: what every reachable gate satisfies, and what
  every sequence of calls on a constructed gate satisfies.
\<close>

lemma made_initial: "make_gate config = Some g \<Longrightarrow> gate_initial g"
  by (auto simp: gate_initial_def)

lemma made_ok: "make_gate config = Some g \<Longrightarrow> gate_ok g"
  by (rule gate_initial_ok [OF made_initial])


text \<open>
  C1. Every gate that a sequence of calls can reach from a successful construction is
  well formed: the phases, the initialization state, the candidate, the generation
  counters and the receipt (dispatch, native execution, output, settlement, control)
  are consistent with each other.
\<close>

theorem gate_invariant:
  assumes "gate_reachable g"
  shows "gate_ok g"
  by (rule gate_reachable_ok [OF assms])

lemma gate_invariant_witness: "gate_ok (gate_run demo_gate demo_life)"
  by (rule gate_invariant [OF demo_reachable])

text \<open>
  C2. One operation obtains the right to dispatch at most once: in any sequence of calls,
  \<open>claim_dispatch\<close> answers true at most once for an authority.
\<close>

theorem claim_at_most_once:
  assumes "make_gate config = Some g"
  shows "occurrences (claims a) (gate_trace g cs) \<le> 1"
  by (rule claim.at_most_once [OF made_ok [OF assms]])

lemma claim_at_most_once_witness:
  "occurrences (claims demo_authority) (gate_trace demo_gate demo_life) \<le> 1 \<and>
   occurrences (claims demo_authority) (gate_trace demo_gate demo_life) \<noteq> 0"
proof
  show "occurrences (claims demo_authority) (gate_trace demo_gate demo_life) \<le> 1"
    by (rule claim_at_most_once [OF demo_make])
  show "occurrences (claims demo_authority) (gate_trace demo_gate demo_life) \<noteq> 0" by code_simp
qed

text \<open>
  A result is delivered at most once: in any sequence of calls, an accepted delivery is
  recorded at most once for an authority (repetitions are answered as duplicates).
\<close>

theorem delivery_at_most_once:
  assumes "make_gate config = Some g"
  shows "occurrences (accepts_output a) (gate_trace g cs) \<le> 1"
  by (rule delivery.at_most_once [OF made_ok [OF assms]])

lemma delivery_at_most_once_witness:
  "occurrences (accepts_output demo_authority) (gate_trace demo_gate demo_life) \<le> 1 \<and>
   occurrences (accepts_output demo_authority) (gate_trace demo_gate demo_life) \<noteq> 0"
proof
  show "occurrences (accepts_output demo_authority) (gate_trace demo_gate demo_life) \<le> 1"
    by (rule delivery_at_most_once [OF demo_make])
  show "occurrences (accepts_output demo_authority) (gate_trace demo_gate demo_life) \<noteq> 0" by code_simp
qed

text \<open>
  C3. The events of a delivered operation come in order: before a delivery is accepted the
  native side reported success, before that it reported acceptance of the submission, and
  before that the operation had claimed its dispatch.
\<close>

theorem delivery_order:
  assumes "make_gate config = Some g" and "i < length cs"
    and "case_prod (accepts_output a) (gate_trace g cs ! i)"
  shows "\<exists>c n s. c < n \<and> n < s \<and> s < i \<and> case_prod (claims a) (gate_trace g cs ! c) \<and>
    case_prod (native_accepts a NkAccepted) (gate_trace g cs ! n) \<and>
    case_prod (native_accepts a NkTerminalSucceeded) (gate_trace g cs ! s)"
proof -
  note ok = made_ok [OF assms(1)] and none = initial_current_has [OF made_initial [OF assms(1)]]
  have "\<exists>s < i. case_prod (native_accepts a NkTerminalSucceeded) (gate_trace g cs ! s)"
    by (rule success_order.effect_needs_cause [OF ok none assms(2,3)])
  then obtain s where s: "s < i" "case_prod (native_accepts a NkTerminalSucceeded) (gate_trace g cs ! s)"
    by (elim exE conjE)
  have "s < length cs" using s(1) assms(2) by simp
  have "\<exists>n < s. case_prod (native_accepts a NkAccepted) (gate_trace g cs ! n)"
    by (rule acceptance_order.effect_needs_cause [OF ok none \<open>s < length cs\<close> s(2)])
  then obtain n where n: "n < s" "case_prod (native_accepts a NkAccepted) (gate_trace g cs ! n)"
    by (elim exE conjE)
  have "n < length cs" using n(1) \<open>s < length cs\<close> by simp
  have "\<exists>c < n. case_prod (claims a) (gate_trace g cs ! c)"
    by (rule claim_order.effect_needs_cause [OF ok none \<open>n < length cs\<close> n(2)])
  then obtain c where c: "c < n" "case_prod (claims a) (gate_trace g cs ! c)" by (elim exE conjE)
  show ?thesis
    by (intro exI [of _ c] exI [of _ n] exI [of _ s] conjI c n s)
qed

lemma delivery_order_witness:
  "\<exists>c n s. c < n \<and> n < s \<and> s < 8 \<and>
    case_prod (claims demo_authority) (gate_trace demo_gate demo_delivered ! c) \<and>
    case_prod (native_accepts demo_authority NkAccepted) (gate_trace demo_gate demo_delivered ! n) \<and>
    case_prod (native_accepts demo_authority NkTerminalSucceeded) (gate_trace demo_gate demo_delivered ! s)"
proof (rule delivery_order [OF demo_make])
  have "map (case_prod (accepts_output demo_authority)) (gate_trace demo_gate demo_delivered) =
    [False, False, False, False, False, False, False, False, True]" by code_simp
  moreover show length: "8 < length demo_delivered" by (simp add: demo_defs)
  ultimately show "case_prod (accepts_output demo_authority) (gate_trace demo_gate demo_delivered ! 8)"
    using nth_map [of 8 "gate_trace demo_gate demo_delivered" "case_prod (accepts_output demo_authority)"]
    by simp
qed

text \<open>
  C4. After an operation is revoked (cancelled, expired or its binding withdrawn) no
  sequence of calls grants it a dispatch claim or a delivery.
\<close>

theorem revocation_is_final:
  assumes "gate_reachable g" and "g_current_receipt g = Some r" and "is_revoked r"
  shows "occurrences (grants (rc_authority r)) (gate_trace g cs) = 0"
  by (rule revocation.blocked_trace [OF gate_reachable_ok [OF assms(1)]])
    (use assms in \<open>auto intro: operation_hasI gate_reachable_ok\<close>)

definition demo_cancelled :: gate where
  "demo_cancelled = gate_run demo_gate (demo_dispatched @ [CallCancel demo_authority 5])"

lemma demo_cancelled_receipt:
  "g_current_receipt demo_cancelled \<noteq> None"
  "is_revoked (the (g_current_receipt demo_cancelled))"
  "rc_authority (the (g_current_receipt demo_cancelled)) = demo_authority"
  by code_simp+

lemma revocation_is_final_witness:
  "occurrences (grants demo_authority) (gate_trace demo_cancelled
     [demo_native NkAccepted 1 5, demo_native NkTerminalSucceeded 3 7, demo_output]) = 0"
proof -
  obtain r where r: "g_current_receipt demo_cancelled = Some r" using demo_cancelled_receipt(1) by blast
  with demo_cancelled_receipt have "is_revoked r" "rc_authority r = demo_authority" by simp_all
  with revocation_is_final [OF _ r, of "[demo_native NkAccepted 1 5, demo_native NkTerminalSucceeded 3 7,
    demo_output]"] demo_reachable show ?thesis
    by (simp add: demo_cancelled_def)
qed

text \<open>
  The native side is asked to stop an operation at most once, whichever of
  cancellation, expiry and withdrawal come and in whatever order.
\<close>

theorem stop_requested_at_most_once:
  assumes "make_gate config = Some g"
  shows "occurrences (requests_stop a) (gate_trace g cs) \<le> 1"
  by (rule stop_request.at_most_once [OF made_ok [OF assms]])

lemma stop_requested_at_most_once_witness:
  "occurrences (requests_stop demo_authority) (gate_trace demo_gate
     (demo_dispatched @ [CallCancel demo_authority 5, CallTime demo_authority 21,
        CallWithdraw demo_binding 22])) \<le> 1"
  by (rule stop_requested_at_most_once [OF demo_make])

text \<open>
  Operation ids are never reused: an id is admitted at most once in the life of a
  gate, even when the 64-bit counter reaches its end.
\<close>

theorem operation_ids_unique:
  assumes "make_gate config = Some g"
  shows "occurrences (admits_id i) (gate_trace g cs) \<le> 1"
  by (rule ids.at_most_once [OF made_ok [OF assms]])

lemma operation_ids_unique_witness:
  "occurrences (admits_id 1) (gate_trace demo_gate (demo_life @ [CallAdmit demo_request])) \<le> 1"
  by (rule operation_ids_unique [OF demo_make])

text \<open>
  C5. Contradictory native outcomes block the effect domain for good: from then on no call
  admits an operation, begins a rebind or commits one, and the outcome stays unknown.
\<close>

theorem unknown_outcome_is_final:
  assumes "gate_reachable g" and "outcome_unknown g"
  shows "occurrences grants_domain (gate_trace g cs) = 0 \<and> outcome_unknown (gate_run g cs)"
  using unknown.blocked_trace [OF gate_reachable_ok [OF assms(1)] assms(2)]
    unknown.latch_run [OF gate_reachable_ok [OF assms(1)] assms(2)] by blast

definition demo_contradicted :: gate where
  "demo_contradicted = gate_run demo_gate (demo_dispatched @
     [demo_native NkAccepted 1 5, demo_native NkTerminalSucceeded 2 6, demo_native NkTerminalFailed 3 7])"

lemma demo_contradicted_unknown: "outcome_unknown demo_contradicted"
proof -
  have "g_current_receipt demo_contradicted \<noteq> None \<and>
    rc_native_outcome (the (g_current_receipt demo_contradicted)) = NoUnknown" by code_simp
  then show ?thesis by (auto simp: outcome_unknown_def)
qed

lemma unknown_outcome_is_final_witness:
  "occurrences grants_domain (gate_trace demo_contradicted [demo_settlement, CallAdmit demo_request]) = 0 \<and>
   outcome_unknown (gate_run demo_contradicted [demo_settlement, CallAdmit demo_request])"
  by (rule unknown_outcome_is_final)
    (simp_all add: demo_contradicted_unknown, simp add: demo_contradicted_def demo_reachable)

text \<open>
  Closing admission is final: afterwards no call admits, claims, withdraws, begins or
  commits anything, and no startup evidence is accepted.
\<close>

theorem closing_is_final:
  assumes "gate_reachable g"
  shows "occurrences grants_effects (gate_trace (close_admission g) cs) = 0"
proof (rule closed.blocked_trace)
  show "gate_ok (close_admission g)" by (rule close_ok [OF gate_reachable_ok [OF assms]])
  show "admission_closed (close_admission g)" by (simp add: admission_closed_def close_admission_def)
qed

lemma closing_is_final_witness:
  "occurrences grants_effects (gate_trace (close_admission (gate_run demo_gate demo_start))
     [CallAdmit demo_request, CallClaim demo_authority 4]) = 0"
  by (rule closing_is_final [OF demo_reachable])



end
