(* ===== verification/Compute_Host_Properties.thy ===== *)
theory Compute_Host_Properties
  imports Compute_Host_Machine Compute_Process_Machine Compute_Host_Progress Gate_Properties
begin

text \<open>A concrete host on the concrete operating system, and the life of one request on it.\<close>

definition demo_env :: "u8 list list env" where
  "demo_env = \<lparr>en_os = demo_os, en_now = (\<lambda>w. (5, w))\<rparr>"

definition demo_host_config :: ComputeHostConfig where
  "demo_host_config = \<lparr>cc_worker_executable = ''/worker'', cc_maximum_iterations = 1000, cc_stop_grace_ms = 100\<rparr>"

definition demo_compute_request :: ComputeRequest where
  "demo_compute_request = \<lparr>cq_request_reference = ''q'', cq_iterations = 5, cq_deadline = None,
     cq_required_profile_id = kLocalComputeProfile\<rparr>"

definition demo_host :: "u8 list list running" where
  "demo_host = compute_host.extend (the (make_host demo_host_config 1 5))
     (running.fields demo_chunks False)"

definition demo_host_calls :: "host_call list" where
  "demo_host_calls = [HcInitialize, HcSubmit demo_compute_request, HcPoll]"

definition host_summary ::
  "'w running \<Rightarrow> (operation_id \<times> u64 \<times> u64) option \<times> bool \<times> SettlementStatus option \<times> bool option" where
  "host_summary s =
    (map_option (\<lambda>x. (cr_operation_id x, cr_iterations x, cr_sum x)) (ch_result s), ch_evidence_error s,
     map_option rc_settlement (own_receipt s), map_option po_channels_closed (ch_process s))"

lemma demo_host_run:
  "host_summary (run (host_step demo_env) demo_host demo_host_calls)
    = (Some (1, 5, 30), False, Some StSettled, Some True)"
  by code_simp

text \<open>
  A slower worker: an empty chunk in the script is a read that finds nothing yet. The host
  is shut down after the worker's first frame, and polled once more.
\<close>

definition slow_os :: "u8 list list os" where
  "slow_os = demo_os\<lparr>os_read := (\<lambda>_ n w. case w of [] \<Rightarrow> (Inr [], [])
     | c # cs \<Rightarrow> (if c = [] then Inl EAGAIN else Inr (take n c), cs))\<rparr>"

lemma slow_os_bounded: "reads_bounded slow_os"
  by (auto simp: reads_bounded_def slow_os_def split: list.split)

definition slow_env :: "u8 list list env" where
  "slow_env = \<lparr>en_os = slow_os, en_now = (\<lambda>w. (5, w))\<rparr>"

definition slow_host :: "u8 list list running" where
  "slow_host = demo_host\<lparr>rn_world := encode_frame (demo_frames ! 0) # [] #
     [encode_frame (demo_frames ! 1), encode_frame (demo_frames ! 2)]\<rparr>"

definition slow_host_calls :: "host_call list" where
  "slow_host_calls = [HcInitialize, HcSubmit demo_compute_request, HcShutdown]"

text \<open>What the two states show: the shutdown and whether the worker has exited, its events ended, its channels closed.\<close>

definition end_summary :: "'w running \<Rightarrow> ComputeShutdownStatus \<times> (bool \<times> bool \<times> bool \<times> bool) option" where
  "end_summary s = (ch_shutdown s,
     map_option (\<lambda>p. (po_launched p, po_exit_status p \<noteq> None, po_event_eof p, po_channels_closed p)) (ch_process s))"

lemma slow_host_run:
  "end_summary (run (host_step slow_env) slow_host slow_host_calls) = (ShClosing, Some (True, True, False, False))"
  by code_simp

lemma slow_host_end:
  "end_summary (run (host_step slow_env) slow_host (slow_host_calls @ [HcPoll])) = (ShClosed, Some (True, True, True, True))"
  by code_simp

text \<open>A provider replaced by another.\<close>

definition rebind_binding :: BindingIdentity where
  "rebind_binding = active_binding (ch_gate demo_host)"

definition rebind_calls :: "host_call list" where
  "rebind_calls = [HcInitialize, HcWithdraw rebind_binding]"

definition rebind_summary :: "'w running \<times> host_answer \<Rightarrow> BindingControlStatus option \<times> string" where
  "rebind_summary x = (case x of (t, HaBinding d) \<Rightarrow> (Some (bd_status d), cc_worker_executable (ch_config t))
     | (t, _) \<Rightarrow> (None, cc_worker_executable (ch_config t)))"

lemma rebind_run:
  "rebind_summary (host_step demo_env (run (host_step demo_env) demo_host rebind_calls)
     (HcRebind rebind_binding ''q'' ''/x'')) = (Some BcApplied, ''/x'')"
  by code_simp

text \<open>A clock that runs behind the host's construction: the evidence is refused.\<close>

definition early_env :: "u8 list list env" where
  "early_env = \<lparr>en_os = demo_os, en_now = (\<lambda>w. (3, w))\<rparr>"

lemma early_run: "ch_evidence_error (run (host_step early_env) demo_host [HcInitialize])"
  by code_simp

text \<open>
  The properties of the compute execution host: what every host satisfies that calls of
  its public members can reach, whatever the operating system and the clock answer.
\<close>

subsection \<open>The demonstration\<close>

lemma demo_host_initial: "host_initial demo_host"
proof -
  have "make_host demo_host_config 1 5 \<noteq> None" by code_simp
  then obtain h where h: "make_host demo_host_config 1 5 = Some h" by blast
  moreover have "compute_host.truncate (compute_host.extend h (running.fields w b)) = h" for w :: "u8 list list" and b
    by (cases h) (simp add: compute_host.defs running.defs)
  ultimately have "make_host demo_host_config 1 5 = Some (compute_host.truncate demo_host)"
    by (simp add: demo_host_def)
  moreover have "\<not> rn_aborted demo_host"
    by (simp add: demo_host_def compute_host.defs running.defs)
  ultimately show ?thesis by (auto simp: host_initial_def)
qed

abbreviation demo_served :: "u8 list list running" where
  "demo_served \<equiv> run (host_step demo_env) demo_host demo_host_calls"

lemma demo_env_bounded: "reads_bounded (worker_os demo_env)"
  by (simp add: demo_env_def demo_os_bounded)

lemma demo_served_reachable: "host_reachable demo_env demo_served"
  by (rule reachable_run [OF reachable_init [where s = demo_host]]) (rule demo_host_initial)

lemmas demo_hyps = demo_env_bounded demo_served_reachable

lemma demo_served_fields:
  "ch_result demo_served \<noteq> None" "\<not> ch_evidence_error demo_served"
  "map_option rc_settlement (own_receipt demo_served) = Some StSettled"
  "map_option po_channels_closed (ch_process demo_served) = Some True"
  using demo_host_run by (auto simp: host_summary_def)

lemma reachable_parts:
  assumes "reads_bounded (worker_os env)" and "host_reachable env s"
  shows "gate_ok (ch_gate s)" "tied s" "ch_authority s = None \<longleftrightarrow> ch_request s = None"
    "\<not> rn_aborted s" "process_sound s" "settled_clear s" "shutdown_sound s" "result_sound s"
  by (rule host_okD [OF host_reachable_ok [OF assms]])+

subsection \<open>The process and its operation\<close>

text \<open>What the invariant says of a process, and of a settled operation.\<close>

lemma serving_operation:
  assumes "reads_bounded (worker_os env)" and "host_reachable env s" and "ch_process s = Some p"
  shows "\<exists>a q r. ch_authority s = Some a \<and> ch_request s = Some q \<and> own_receipt s = Some r \<and>
    rc_authority r = a \<and> rc_dispatch r \<noteq> DsPending \<and> process_ok p"
proof -
  note parts = reachable_parts [OF assms(1,2)]
  from parts(5) assms(3) obtain r where r: "g_current_receipt (ch_gate s) = Some r"
    "rc_dispatch r \<noteq> DsPending" "process_ok p"
    by (auto simp: process_sound_def current_is_def)
  with parts(2) have a: "ch_authority s = Some (rc_authority r)" by (simp add: tied_def)
  with parts(3) obtain q where "ch_request s = Some q" by auto
  with a r own_receipt_current [OF parts(2)] show ?thesis by auto
qed

lemma settled_exit:
  assumes "reads_bounded (worker_os env)" and "host_reachable env s"
    and "own_receipt s = Some r" and "rc_settlement r = StSettled"
    and "ch_process s = Some p" and "po_launched p"
  shows "po_exit_status p \<noteq> None \<and> po_event_eof p \<and> po_channels_closed p \<and> \<not> po_ownership_lost p"
proof -
  note parts = reachable_parts [OF assms(1,2)]
  have "current_is (\<lambda>r. rc_settlement r = StSettled) s"
    using assms(3,4) by (auto simp: own_receipt_current [OF parts(2)] current_is_def)
  with parts(6) assms(5,6) have "po_channels_closed p"
    by (simp add: settled_clear_def clear_process_def clear_def)
  moreover have "ownership_ok p" using parts(5) assms(5) by (auto simp: process_sound_def process_ok_def)
  ultimately show ?thesis by (auto simp: ownership_ok_def)
qed

text \<open>
  C15. A worker process belongs to an operation: whenever the host holds a process, it
  holds an authority and a request, the gate's receipt of that authority has left the
  pending dispatch, and the process is well formed. The optionals that the code
  dereferences while it serves a process are engaged.
\<close>

theorem process_has_operation:
  assumes "reads_bounded (worker_os env)" and "host_reachable env s" and "ch_process s = Some p"
  shows "\<exists>a q r. ch_authority s = Some a \<and> ch_request s = Some q \<and> own_receipt s = Some r \<and>
    rc_authority r = a \<and> rc_dispatch r \<noteq> DsPending \<and> process_ok p"
  by (rule serving_operation [OF assms])

lemma process_has_operation_witness:
  "\<exists>p a q r. ch_process demo_served = Some p \<and> ch_authority demo_served = Some a \<and>
    ch_request demo_served = Some q \<and> own_receipt demo_served = Some r \<and>
    rc_authority r = a \<and> rc_dispatch r \<noteq> DsPending \<and> process_ok p"
proof -
  from demo_served_fields(4) obtain p where "ch_process demo_served = Some p" by auto
  with process_has_operation [OF demo_hyps this] show ?thesis by blast
qed

text \<open>
  A live worker is never dropped: in no sequence of calls does replacing the process
  of an operation run a destructor that has to kill a child, cannot release it and
  terminates the program, or does not return. The admission of the next operation comes
  only after the exit status, the end of the events and the channels of the last one.
\<close>

theorem replacement_is_clean:
  assumes "reads_bounded (worker_os env)" and "host_reachable env s"
  shows "\<not> rn_aborted (run (host_step env) s cs)"
  by (rule reachable_parts(4) [OF assms(1) reachable_run [OF assms(2)]])

lemma replacement_is_clean_witness:
  "\<not> rn_aborted (run (host_step demo_env) demo_served [HcSubmit demo_compute_request, HcPoll])"
  by (rule replacement_is_clean [OF demo_hyps])

subsection \<open>Results\<close>



text \<open>
  The host settles an operation only when its worker is gone: once the receipt of the
  host's operation is settled, a launched process has a recorded exit status, the end of
  its events was read, its channels are closed and the host still owns what it reaped.
\<close>

theorem settled_after_exit:
  assumes "reads_bounded (worker_os env)" and "host_reachable env s"
    and "own_receipt s = Some r" and "rc_settlement r = StSettled"
    and "ch_process s = Some p" and "po_launched p"
  shows "po_exit_status p \<noteq> None \<and> po_event_eof p \<and> po_channels_closed p \<and> \<not> po_ownership_lost p"
  by (rule settled_exit [OF assms])

lemma settled_after_exit_witness:
  "\<exists>p. ch_process demo_served = Some p \<and>
    (po_launched p \<longrightarrow> po_exit_status p \<noteq> None \<and> po_event_eof p \<and> po_channels_closed p \<and> \<not> po_ownership_lost p)"
proof -
  from demo_served_fields(3,4) obtain p r where "ch_process demo_served = Some p"
    "own_receipt demo_served = Some r" "rc_settlement r = StSettled" by auto
  with settled_after_exit [OF demo_hyps] show ?thesis by blast
qed

subsection \<open>Shutdown and errors\<close>

text \<open>
  A closed host stays closed: after the shutdown has ended, no sequence of calls
  reopens the host or installs an operation, what operation there is stays settled, and a
  process that was launched has exited with its channels closed.
\<close>

theorem closed_is_final:
  assumes "reads_bounded (worker_os env)" and "host_reachable env s" and "ch_shutdown s = ShClosed"
    and "t = run (host_step env) s cs"
  shows "ch_shutdown t = ShClosed \<and> ch_authority t = ch_authority s \<and>
    (ch_authority t \<noteq> None \<longrightarrow> (\<exists>r. own_receipt t = Some r \<and> rc_settlement r = StSettled)) \<and>
    (\<forall>p. ch_process t = Some p \<and> po_launched p \<longrightarrow> po_exit_status p \<noteq> None \<and> po_channels_closed p)"
proof -
  have t: "host_reachable env t" unfolding assms(4) by (rule reachable_run [OF assms(2)])
  note parts = reachable_parts [OF assms(1) t]
  have final: "ch_shutdown t = ShClosed" "ch_authority t = ch_authority s"
    using host_run_safe [OF assms(1), of s cs] host_reachable_ok [OF assms(1,2)] assms(3,4)
    by (simp_all add: safe_def)
  have settled: "ch_authority t = None \<or> current_is (\<lambda>r. rc_settlement r = StSettled) t"
    using parts(7) final(1) by (simp add: shutdown_sound_def)
  have gone: "po_exit_status p \<noteq> None \<and> po_channels_closed p" if p: "ch_process t = Some p" "po_launched p" for p
  proof -
    from serving_operation [OF assms(1) t p(1)] settled
    have "current_is (\<lambda>r. rc_settlement r = StSettled) t" by auto
    then obtain r where "own_receipt t = Some r" "rc_settlement r = StSettled"
      by (auto simp: own_receipt_current [OF parts(2)] current_is_def)
    from settled_exit [OF assms(1) t this p] show ?thesis by blast
  qed
  from settled final gone show ?thesis
    by (auto simp: own_receipt_current [OF parts(2)] current_is_def)
qed

text \<open>The demonstration of a shutdown whose worker is still running.\<close>

lemma slow_host_initial: "host_initial slow_host"
  using demo_host_initial by (simp add: slow_host_def host_initial_def compute_host.truncate_def)

abbreviation slow_closing :: "u8 list list running" where
  "slow_closing \<equiv> run (host_step slow_env) slow_host slow_host_calls"

lemma slow_env_bounded: "reads_bounded (worker_os slow_env)"
  by (simp add: slow_env_def slow_os_bounded)

lemma slow_reachable: "host_reachable slow_env (run (host_step slow_env) slow_host cs)"
  by (rule reachable_run [OF reachable_init [where s = slow_host]]) (rule slow_host_initial)

lemma slow_closed: "ch_shutdown (run (host_step slow_env) slow_host (slow_host_calls @ [HcPoll])) = ShClosed"
  using slow_host_end by (simp add: end_summary_def)

lemma closed_is_final_witness:
  "ch_shutdown (run (host_step slow_env) slow_host (slow_host_calls @ [HcPoll, HcSubmit demo_compute_request])) = ShClosed"
  using closed_is_final [OF slow_env_bounded slow_reachable slow_closed refl, of "[HcSubmit demo_compute_request]"]
  by (simp only: run_append run.simps simp_thms)

text \<open>
  An evidence error is latched: once the gate has refused a record of the host's own
  evidence, no sequence of calls clears the error or installs another operation, and a
  result, if one is shown, is still the installed operation's.
\<close>

theorem evidence_error_is_final:
  assumes "reads_bounded (worker_os env)" and "host_reachable env s" and "ch_evidence_error s"
    and "t = run (host_step env) s cs"
  shows "ch_evidence_error t \<and> ch_authority t = ch_authority s \<and> ch_request t = ch_request s \<and>
    (\<forall>x. ch_result t = Some x \<longrightarrow> (\<exists>a q. ch_authority s = Some a \<and> ch_request s = Some q \<and> x = expected_result a q))"
proof -
  have kept: "ch_evidence_error t" "ch_authority t = ch_authority s" "ch_request t = ch_request s"
    using host_run_safe [OF assms(1), of s cs] host_reachable_ok [OF assms(1,2)] assms(3,4)
    by (simp_all add: safe_def)
  have "host_reachable env t" unfolding assms(4) by (rule reachable_run [OF assms(2)])
  from reachable_parts(8) [OF assms(1) this] kept show ?thesis by (simp add: result_sound_def)
qed

lemma evidence_error_is_final_witness:
  "ch_evidence_error (run (host_step early_env) (run (host_step early_env) demo_host [HcInitialize])
     [HcSubmit demo_compute_request, HcPoll])"
proof -
  have "host_reachable early_env (run (host_step early_env) demo_host [HcInitialize])"
    by (rule reachable_run [OF reachable_init [where s = demo_host]]) (rule demo_host_initial)
  moreover have "reads_bounded (worker_os early_env)" by (simp add: early_env_def demo_os_bounded)
  ultimately show ?thesis using evidence_error_is_final [OF _ _ early_run refl] by blast
qed

text \<open>
  C17. The poll that sees the end of the worker ends the shutdown: when a closing host
  whose launched worker has not ended is polled and the worker has then exited and its
  events have been read to the end, the host is closed, or the shutdown is unresolved; it
  does not go on waiting.
\<close>

theorem shutdown_ends_with_worker:
  assumes "reads_bounded (worker_os env)" and "host_reachable env s" and "ch_shutdown s = ShClosing"
    and "ch_process s = Some p" and "po_launched p" and "po_exit_status p = None \<or> \<not> po_event_eof p"
    and "t = fst (host_step env s HcPoll)"
    and "ch_process t = Some q" and "po_launched q" and "po_exit_status q \<noteq> None" and "po_event_eof q"
  shows "ch_shutdown t = ShClosed \<or> ch_shutdown t = ShUnresolved"
proof -
  note ok = host_reachable_ok [OF assms(1,2)]
  have "ownership_ok p" using host_okD(5) [OF ok] assms(4) by (auto simp: process_sound_def process_ok_def)
  with assms(6) have "\<not> po_channels_closed p" by (auto simp: ownership_ok_def)
  with ok assms(4,5) have "holding open_worker s" by (simp add: holding_def)
  from poll_decides [OF assms(1) this assms(3)] assms(7-11) show ?thesis
    by (simp add: fst_perform wp_run ended_def)
qed

lemma shutdown_ends_with_worker_witness:
  "ch_shutdown (fst (host_step slow_env slow_closing HcPoll)) = ShClosed \<or>
   ch_shutdown (fst (host_step slow_env slow_closing HcPoll)) = ShUnresolved"
proof -
  have t: "fst (host_step slow_env slow_closing HcPoll) = run (host_step slow_env) slow_host (slow_host_calls @ [HcPoll])"
    by (simp only: run_append run.simps)
  from slow_host_run obtain p where p: "ch_shutdown slow_closing = ShClosing" "ch_process slow_closing = Some p"
    "po_launched p" "\<not> po_event_eof p" by (auto simp: end_summary_def)
  from slow_host_end obtain q where q: "ch_process (fst (host_step slow_env slow_closing HcPoll)) = Some q"
    "po_launched q" "po_exit_status q \<noteq> None" "po_event_eof q" unfolding t by (auto simp: end_summary_def)
  show ?thesis
    by (rule shutdown_ends_with_worker [OF slow_env_bounded slow_reachable p(1,2,3) _ refl q]) (simp add: p(4))
qed

subsection \<open>The binding and the gate\<close>

text \<open>
  A provider is replaced only over a scope that is clear: a rebind that is answered as
  applied found the host open, the old binding withdrawn, no evidence error, the old
  operation released and its worker gone; afterwards the new executable and the new
  provider's binding are the active ones. A rebind answered otherwise leaves the provider
  as it was.
\<close>

theorem rebind_over_clear_scope:
  assumes "host_step env s (HcRebind b p x) = (t, HaBinding d)"
  shows "if bd_status d = BcApplied
    then ch_shutdown s = ShOpen \<and> active_binding (ch_gate s) = b \<and> g_binding_phase (ch_gate s) = PhWithdrawn \<and>
      old_scope_is_clear s \<and> x \<noteq> [] \<and> hd x = CHR ''/'' \<and> cc_worker_executable (ch_config t) = x \<and>
      bid_provider_id (active_binding (ch_gate t)) = p \<and> g_binding_phase (ch_gate t) = PhActive \<and> ch_initialized t
    else ch_config t = ch_config s \<and> ch_initialized t = ch_initialized s"
proof -
  have "run_state (rebind_provider env b p x) s = (d, t)"
    using assms by (auto simp: perform_def split: prod.splits)
  from wp_result [OF rebind_decides this] show ?thesis
    by (auto simp: rebound_def rebind_granted_def provider_installed_def same_provider_def)
qed

lemma rebind_over_clear_scope_witness:
  "\<exists>t d. host_step demo_env (run (host_step demo_env) demo_host rebind_calls) (HcRebind rebind_binding ''q'' ''/x'')
      = (t, HaBinding d) \<and> bd_status d = BcApplied \<and> bid_provider_id (active_binding (ch_gate t)) = ''q''"
proof -
  let ?s = "run (host_step demo_env) demo_host rebind_calls"
  obtain t y where step: "host_step demo_env ?s (HcRebind rebind_binding ''q'' ''/x'') = (t, y)"
    by (cases "host_step demo_env ?s (HcRebind rebind_binding ''q'' ''/x'')")
  then obtain d where d: "y = HaBinding d" by (auto simp: perform_def split: prod.splits)
  have "bd_status d = BcApplied" using rebind_run unfolding step d by (simp add: rebind_summary_def)
  with rebind_over_clear_scope [OF step [unfolded d]] step d show ?thesis by auto
qed



text \<open>
  A host keeps its configuration valid: in every state that calls can reach, the path
  of the worker executable is absolute, the iterations are between one and a hundred
  million and the grace time is at most a minute, whatever providers have been bound.
\<close>

theorem configuration_stays_valid:
  assumes "host_reachable env s"
  shows "\<not> config_invalid (ch_config s) \<and>
    cc_maximum_iterations (ch_config (run (host_step env) s cs)) = cc_maximum_iterations (ch_config s) \<and>
    cc_stop_grace_ms (ch_config (run (host_step env) s cs)) = cc_stop_grace_ms (ch_config s)"
proof -
  have "\<not> config_invalid (ch_config s)"
    using assms
  proof (induction rule: reachable.induct)
    case (reachable_init s)
    then obtain config g where "compute_host.truncate s = new_host config g" "\<not> config_invalid config"
      by (auto elim: host_initialE)
    then show ?case by (cases s) (auto simp: compute_host.truncate_def new_host_def)
  next
    case (reachable_step s c)
    then show ?case using config_life.step_keeps [of s env c] by (simp add: config_kept_def)
  qed
  with config_life.run_keeps [of s env cs] show ?thesis by (simp add: config_kept_def)
qed

lemma configuration_stays_valid_witness:
  "\<not> config_invalid (ch_config (run (host_step demo_env) demo_host (rebind_calls @ [HcRebind rebind_binding ''q'' ''/x''])))"
proof (rule conjunct1 [OF configuration_stays_valid [where env = demo_env and cs = "[]"]])
  show "host_reachable demo_env (run (host_step demo_env) demo_host (rebind_calls @ [HcRebind rebind_binding ''q'' ''/x'']))"
    by (rule reachable_run [OF reachable_init [where s = demo_host]]) (rule demo_host_initial)
qed

end
