(* ===== verification/Recovery_Client_Invariant.thy ===== *)
theory Recovery_Client_Invariant
  imports Recovery_Client Gate_Client
begin

text \<open>
  The invariant of the recovery client: its gate is a reachable one, a client that is ready
  has committed the binding of its session, a result it shows is the expected sum of a
  delivered and settled operation, and a closed client holds no descriptor. Every member
  keeps it, whatever the socket answers.
\<close>

subsection \<open>The invariant\<close>

definition session_gate :: "u64 \<Rightarrow> gate \<Rightarrow> bool" where
  "session_gate epoch g \<longleftrightarrow> g_binding_phase g = PhActive \<and> active_binding g = recovery_binding epoch"

definition delivered :: "OperationAuthority \<Rightarrow> gate \<Rightarrow> bool" where
  "delivered a g \<longleftrightarrow>
     (\<exists>r. g_current_receipt g = Some r \<and> rc_authority r = a \<and> rc_output r = OdAccepted \<and> rc_settlement r = StSettled)"

definition gate_sound :: "('w, 'x) recovering_scheme \<Rightarrow> bool" where
  "gate_sound s \<longleftrightarrow> (\<forall>g. cl_gate s = Some g \<longrightarrow> gate_reachable g)"

definition value_sound :: "('w, 'x) recovering_scheme \<Rightarrow> bool" where
  "value_sound s \<longleftrightarrow>
     (\<forall>v. cl_value s = Some v \<longrightarrow> v = recovery_expected_sum (cl_iterations s) \<and>
        (\<exists>a g. cl_operation s = Some a \<and> cl_gate s = Some g \<and> delivered a g))"

definition exchange_sound :: "('w, 'x) recovering_scheme \<Rightarrow> bool" where
  "exchange_sound s \<longleftrightarrow>
     (case cl_gate s of
        None \<Rightarrow> cl_state s = ClConnecting \<and> cl_exchange s = ExHello
      | Some g \<Rightarrow>
          if cl_state s = ClReady
          then cl_exchange s \<in> {ExIdle, ExAcceptance, ExResult} \<and> session_gate (cl_epoch s) g
          else cl_state s \<noteq> ClConnecting \<and> cl_exchange s \<in> {ExIdle, ExSnapshot, ExActivation} \<and>
            active_binding g = recovery_binding (cl_epoch s - 1) \<and>
            (cl_exchange s = ExActivation \<longrightarrow> cl_candidate s = Some (recovery_binding (cl_epoch s))))"

definition client_ok :: "('w, 'x) recovering_scheme \<Rightarrow> bool" where
  "client_ok s \<longleftrightarrow>
     gate_sound s \<and> value_sound s \<and>
     (if cl_state s = ClClosed then cl_fd s < 0 \<and> cl_pending s = None else cl_fd s \<ge> 0 \<and> exchange_sound s)"

lemma client_okD:
  assumes "client_ok s"
  shows "gate_sound s" "value_sound s" "cl_state s \<noteq> ClClosed \<Longrightarrow> cl_fd s \<ge> 0"
    "cl_state s \<noteq> ClClosed \<Longrightarrow> exchange_sound s"
  using assms by (simp_all add: client_ok_def)

lemma client_okI:
  "gate_sound s \<Longrightarrow> value_sound s \<Longrightarrow> cl_state s \<noteq> ClClosed \<Longrightarrow> cl_fd s \<ge> 0 \<Longrightarrow> exchange_sound s \<Longrightarrow> client_ok s"
  by (simp add: client_ok_def)

subsection \<open>Calls of the gate\<close>

lemma delivered_step:
  assumes "gate_reachable g" and "delivered a g" and "\<not> settles c"
  shows "delivered a (fst (gate_step g c))"
proof -
  have ok: "gate_ok g" by (rule gate_reachable_ok [OF assms(1)])
  obtain r where r: "g_current_receipt g = Some r" "rc_authority r = a" "rc_output r = OdAccepted"
    "rc_settlement r = StSettled" using assms(2) by (auto simp: delivered_def)
  then obtain r' where r': "g_current_receipt (fst (gate_step g c)) = Some r'" "receipt_evolves r r'"
    "rc_settlement r' = rc_settlement r"
    using steady_gate_step [OF assms(3), of g] ok by (auto simp: steady_gate_def)
  with r receipt_evolvesD(1,7) [OF r'(2)] show ?thesis by (simp add: delivered_def)
qed

lemma delivered_settlement:
  assumes "gate_reachable g" and "delivered a g"
  shows "delivered a (fst (observe_settlement g e))"
proof -
  have ok: "gate_ok g" by (rule gate_reachable_ok [OF assms(1)])
  obtain r where r: "g_current_receipt g = Some r" "rc_authority r = a" "rc_output r = OdAccepted"
    "rc_settlement r = StSettled" using assms(2) by (auto simp: delivered_def)
  from ok show ?thesis
  proof (cases rule: gate_step_receipt [of g "CallSettlement e"])
    case (evolved q q')
    with r receipt_evolvesD(1,7,9) [OF evolved(4)] show ?thesis by (simp add: delivered_def)
  qed (use r in \<open>simp_all add: delivered_def\<close>)
qed

lemma close_sound: "delivered a (close_admission g) = delivered a g"
  by (simp add: delivered_def close_admission_def)

lemma reachable_calls:
  "gate_reachable g \<Longrightarrow> gate_reachable (close_admission g)"
  "gate_reachable g \<Longrightarrow> gate_reachable (fst (observe_settlement g e))"
  "gate_reachable g \<Longrightarrow> gate_reachable (fst (admit g q))"
  using reachable_step [of gate_step gate_initial g CallClose]
    reachable_step [of gate_step gate_initial g "CallSettlement e"]
    reachable_step [of gate_step gate_initial g "CallAdmit q"]
  by simp_all

lemma work_kept_session: "work_kept g g' \<Longrightarrow> session_gate e g \<Longrightarrow> session_gate e g'"
  by (auto simp: work_kept_def receipt_update_def session_gate_def)

lemma session_calls:
  assumes "gate_reachable g" and "session_gate e g"
  shows "session_gate e (fst (observe_native g x1))" "session_gate e (fst (observe_output_accepted g x2))"
    "session_gate e (fst (observe_output_not_delivered g x3))" "session_gate e (fst (observe_settlement g x4))"
    "session_gate e (fst (claim_dispatch g a t))" "session_gate e (fst (admit g q))"
proof -
  have ok: "gate_ok g" by (rule gate_reachable_ok [OF assms(1)])
  show "session_gate e (fst (admit g q))"
    using assms(2) by (cases rule: admit_cases [of g q]) (simp_all add: session_gate_def admitted_gate_def)
qed (rule work_kept_session [OF _ assms(2)], rule work_calls_kept, rule gate_reachable_ok [OF assms(1)])+

subsection \<open>The primitives\<close>

lemma wp_client_system [wp_rules]:
  "wp (client_system f) Q s = (case f (cl_world s) of (a, w) \<Rightarrow> Q a (s\<lparr>cl_world := w\<rparr>))"
  by (simp add: wp_def client_system_def split: prod.split)

lemma wp_client_gate [wp_rules]:
  "wp (client_gate f) Q s = (case f (the (cl_gate s)) of (g, a) \<Rightarrow> Q a (s\<lparr>cl_gate := Some g\<rparr>))"
  by (simp add: wp_def client_gate_def split: prod.split)

lemma wp_client_record [wp_rules]:
  "wp (client_record source now) Q s =
    Q \<lparr>er_source = source, er_observed_at = now, er_sequence = cl_sequence s + 1\<rparr>
      (s\<lparr>cl_sequence := cl_sequence s + 1\<rparr>)"
  by (simp add: client_record_def wp_bind wp_changes wp_reads wp_answer)

lemma client_ok_world [simp]: "client_ok (s\<lparr>cl_world := w\<rparr>) = client_ok s"
  by (simp add: client_ok_def gate_sound_def value_sound_def exchange_sound_def split: option.split)

lemma wp_close_client:
  assumes "gate_sound s" and "value_sound s"
  shows "wp (close_client so) (\<lambda>_. client_ok) s"
proof -
  have "gate_sound (set_closed s)"
    using assms(1) reachable_calls(1) by (auto simp: gate_sound_def set_closed_def)
  moreover have "value_sound (set_closed s)"
    using assms(2) by (auto simp: value_sound_def set_closed_def close_sound)
  ultimately have "client_ok ((set_closed s)\<lparr>cl_fd := fd, cl_world := w\<rparr>)" if "fd < 0" for fd w
    using that by (simp add: client_ok_def gate_sound_def value_sound_def) (simp add: set_closed_def)
  from this [of "- 1"] this [of "cl_fd s" "cl_world s"] show ?thesis
    by (simp add: close_client_def wp_rules split: prod.split) (simp add: set_closed_def not_le)
qed

lemma wp_close_answer:
  assumes "gate_sound s" and "value_sound s"
  shows "wp (close_client so) (\<lambda>_. wp (answer a) (\<lambda>b t. b = a \<and> client_ok t)) s"
  using wp_close_client [OF assms] by (rule wp_mono) (simp add: wp_answer)

text \<open>One piece of evidence: accepted, or the client closes.\<close>

lemma wp_observe:
  assumes gate: "cl_gate s = Some g" and sound: "gate_sound s" "value_sound s"
    and call: "fst (F rcd g) = fst (gate_step g c)"
    and kept: "\<And>a. delivered a g \<Longrightarrow> delivered a (fst (gate_step g c))"
    and rcd: "rcd = \<lparr>er_source = source, er_observed_at = now, er_sequence = cl_sequence s + 1\<rparr>"
  shows "wp (client_report so source now F)
    (\<lambda>b t. (b \<longrightarrow> snd (F rcd g) = EvAccepted \<and>
        t = s\<lparr>cl_sequence := cl_sequence s + 1, cl_gate := Some (fst (F rcd g))\<rparr> \<and> gate_sound t \<and> value_sound t) \<and>
      (\<not> b \<longrightarrow> client_ok t)) s"
proof -
  let ?t = "s\<lparr>cl_sequence := cl_sequence s + 1, cl_gate := Some (fst (F rcd g))\<rparr>"
  have sounds: "gate_sound ?t" "value_sound ?t"
    using sound gate kept reachable_step [of gate_step gate_initial g c]
    by (auto simp: gate_sound_def value_sound_def call)
  obtain h d where F: "F rcd g = (h, d)" by (cases "F rcd g")
  show ?thesis
  proof (cases "d = EvAccepted")
    case True
    with F sounds gate show ?thesis
      by (simp add: client_report_def wp_bind wp_client_record wp_client_gate rcd [symmetric] client_evidence_def wp_answer)
  next
    case False
    have "wp (close_client so) (\<lambda>_. wp (answer False) (\<lambda>b t. b = False \<and> client_ok t)) ?t"
      by (rule wp_close_answer [OF sounds])
    then have "wp (close_client so \<bind> (\<lambda>_. answer False))
        (\<lambda>b t. (b \<longrightarrow> d = EvAccepted \<and> t = ?t \<and> gate_sound t \<and> value_sound t) \<and> (\<not> b \<longrightarrow> client_ok t)) ?t"
      unfolding wp_bind by (rule wp_mono) (auto simp: wp_answer)
    with F gate False show ?thesis
      by (simp add: client_report_def wp_bind [of "client_record _ _"] wp_bind [of "client_gate _"] wp_client_record
          wp_client_gate rcd [symmetric] client_evidence_def)
  qed
qed

end
