(* ===== verification/Recovery_Client_Steps.thy ===== *)
theory Recovery_Client_Steps
  imports Recovery_Client_Invariant
begin

text \<open>Every handler and member of the recovery client keeps its invariant.\<close>

lemmas sound_defs = gate_sound_def value_sound_def

lemma wp_close_any:
  assumes "gate_sound s" and "value_sound s" and "\<And>t. client_ok t \<Longrightarrow> Q t"
  shows "wp (close_client so) (\<lambda>_. Q) s"
  using wp_close_client [OF assms(1,2)] by (rule wp_mono) (rule assms(3))

text \<open>What a program that may close the client leaves when it goes on.\<close>

definition unless_closed :: "('w recovering \<Rightarrow> bool) \<Rightarrow> bool \<Rightarrow> 'w recovering \<Rightarrow> bool" where
  "unless_closed P b t \<longleftrightarrow> (b \<longrightarrow> P t) \<and> (\<not> b \<longrightarrow> client_ok t)"

lemma wp_close_false:
  assumes "gate_sound s" and "value_sound s"
  shows "wp (close_client so \<bind> (\<lambda>_. answer False)) (unless_closed P) s"
  unfolding wp_bind by (rule wp_close_any [OF assms]) (simp add: wp_answer unless_closed_def)

lemma wp_unless_closed:
  assumes "wp m (unless_closed P) s" and "\<And>t. P t \<Longrightarrow> wp n (\<lambda>_. client_ok) t"
  shows "wp (m \<bind> (\<lambda>b. on_condition b n)) (\<lambda>_. client_ok) s"
  unfolding wp_bind by (rule wp_mono [OF assms(1)]) (auto simp: unless_closed_def wp_on_condition assms(2))

lemma wp_observe_unless:
  assumes "cl_gate s = Some g" and "gate_sound s" and "value_sound s"
    and "\<And>r. fst (F r g) = fst (gate_step g (c r))"
    and "\<And>a r. delivered a g \<Longrightarrow> delivered a (fst (gate_step g (c r)))"
    and "\<And>r t. snd (F r g) = EvAccepted \<Longrightarrow> gate_sound t \<Longrightarrow> value_sound t \<Longrightarrow>
      t = s\<lparr>cl_sequence := cl_sequence s + 1, cl_gate := Some (fst (F r g))\<rparr> \<Longrightarrow> P t"
  shows "wp (client_report so source now F) (unless_closed P) s"
proof -
  let ?r = "\<lparr>er_source = source, er_observed_at = now, er_sequence = cl_sequence s + 1\<rparr>"
  note observed = wp_observe [where F = F and rcd = ?r and c = "c ?r" and so = so, OF assms(1-4) assms(5) refl]
  show ?thesis
    by (rule wp_mono [OF observed]) (use assms(6) [of ?r] in \<open>auto simp: unless_closed_def\<close>)
qed

lemma wp_client_queue:
  assumes "gate_sound s" and "value_sound s"
  shows "wp (client_queue so m now) (unless_closed (\<lambda>t. t = queue_request m now s)) s"
proof (cases "cl_pending s \<noteq> None \<or> cl_nonce s = u64_max")
  case True
  with wp_close_false [OF assms] show ?thesis by (simp add: client_queue_def wp_bind wp_reads)
next
  case False
  then show ?thesis by (simp add: client_queue_def wp_bind wp_reads wp_changes wp_answer unless_closed_def)
qed

lemma queue_request_fields [simp]:
  "cl_gate (queue_request m now s) = cl_gate s" "cl_value (queue_request m now s) = cl_value s"
  "cl_iterations (queue_request m now s) = cl_iterations s" "cl_operation (queue_request m now s) = cl_operation s"
  "cl_state (queue_request m now s) = cl_state s" "cl_fd (queue_request m now s) = cl_fd s"
  "cl_epoch (queue_request m now s) = cl_epoch s" "cl_exchange (queue_request m now s) = cl_exchange s"
  "cl_candidate (queue_request m now s) = cl_candidate s" "cl_query_at (queue_request m now s) = cl_query_at s"
  by (simp_all add: queue_request_def)

lemma live_ok:
  assumes "client_ok s" and "cl_state s \<noteq> ClClosed"
  shows "gate_sound s" "value_sound s" "cl_fd s \<ge> 0" "exchange_sound s"
  using assms by (simp_all add: client_ok_def)

lemma live_gate:
  assumes "client_ok s" and "cl_state s \<noteq> ClClosed" and "cl_exchange s \<noteq> ExHello"
  obtains g where "cl_gate s = Some g" and "gate_reachable g"
  using assms by (cases "cl_gate s") (auto simp: client_ok_def exchange_sound_def gate_sound_def)

subsection \<open>The greeting\<close>

lemma withdraw_active: "active_binding (fst (withdraw_binding g b t)) = active_binding g"
  by (cases rule: withdraw_cases [of g b t]) (simp_all add: withdrawn_gate_def)

lemma wp_handle_hello:
  assumes ok: "client_ok s" and live: "cl_state s \<noteq> ClClosed" and hello: "cl_exchange s = ExHello"
  shows "wp (handle_hello so m now) (\<lambda>_. client_ok) s"
proof -
  note parts = live_ok [OF ok live]
  have none: "cl_gate s = None"
    using parts(4) hello by (auto simp: exchange_sound_def split: option.splits if_split_asm)
  then have novalue: "cl_value s = None" using parts(2) by (auto simp: value_sound_def)
  let ?config = "recovery_gate_config (ms_session m - 1) now"
  let ?s = "s\<lparr>cl_epoch := ms_session m\<rparr>"
  show ?thesis
  proof (cases "make_gate ?config")
    case None
    have "wp (close_client so) (\<lambda>_. client_ok) ?s"
      by (rule wp_close_client) (simp_all add: sound_defs none novalue)
    with None wp_close_client [OF parts(1,2)] show ?thesis by (simp add: handle_hello_def wp_rules)
  next
    case (Some g)
    then have "gate_initial g" unfolding gate_initial_def by blast
    then have init: "gate_reachable g" by (rule reachable_init)
    have active: "active_binding g = recovery_binding (ms_session m - 1)"
      using Some by (auto simp: make_gate_def implementation_init_def recovery_gate_config_def split: if_split_asm)
    obtain h d where withdrawn: "withdraw_binding g (cfg_binding ?config) now = (h, d)"
      by (cases "withdraw_binding g (cfg_binding ?config) now")
    have h: "gate_reachable h" "active_binding h = active_binding g"
      using reachable_step [OF init, of "CallWithdraw (cfg_binding ?config) now"]
        withdraw_active [of g "cfg_binding ?config" now] withdrawn by simp_all
    let ?t = "s\<lparr>cl_epoch := ms_session m, cl_gate := Some h\<rparr>"
    have "wp (close_client so) (\<lambda>_. client_ok) ?t"
      by (rule wp_close_client) (simp_all add: sound_defs novalue h)
    moreover have "client_ok (?t\<lparr>cl_state := ClBlocked, cl_exchange := ExIdle\<rparr>)"
      by (rule client_okI) (simp_all add: sound_defs novalue h parts(3) exchange_sound_def active)
    ultimately show ?thesis
      using wp_close_client [OF parts(1,2)] Some withdrawn
      by (simp add: handle_hello_def wp_rules)
  qed
qed

subsection \<open>The snapshot\<close>

lemma begin_recovery_candidate:
  assumes "begin_rebind g (active_binding g) kRecoveryOwner e now = (h, d)" and "bd_status d = BcApplied"
    and "bd_candidate d = Some c" and "bid_provider_generation c = epoch"
    and "active_binding g = recovery_binding e'"
  shows "c = recovery_binding epoch" "active_binding h = active_binding g"
  using assms
  by (cases rule: begin_rebind_cases [of g "active_binding g" kRecoveryOwner e now];
      auto simp: new_candidate_def preparing_gate_def recovery_binding_def)+

lemma wp_begin_recovery:
  assumes ok: "client_ok s" and live: "cl_state s \<noteq> ClClosed" and snap: "cl_exchange s = ExSnapshot"
  shows "wp (begin_recovery so m now) (\<lambda>_. client_ok) s"
proof -
  note parts = live_ok [OF ok live]
  obtain g where g: "cl_gate s = Some g" "gate_reachable g"
    by (rule live_gate [OF ok live]) (simp add: snap)
  have blocked: "cl_state s \<noteq> ClReady" "cl_state s \<noteq> ClConnecting" "active_binding g = recovery_binding (cl_epoch s - 1)"
    using parts(4) g(1) snap by (auto simp: exchange_sound_def split: if_split_asm)
  define e where "e = \<lparr>bre_kind = SkBindingIdleAndSettled, bre_binding = active_binding g,
    bre_record = \<lparr>er_source = kRecoveryOwner, er_observed_at = now, er_sequence = cl_sequence s + 1\<rparr>,
    bre_observed = True, bre_valid_until = cl_query_at s + kEvidenceLifetimeMs\<rparr>"
  obtain h d where begun: "begin_rebind g (active_binding g) kRecoveryOwner e now = (h, d)"
    by (cases "begin_rebind g (active_binding g) kRecoveryOwner e now")
  have h: "gate_reachable h" "\<And>a. delivered a g \<Longrightarrow> delivered a h"
    using reachable_step [OF g(2), of "CallBeginRebind (active_binding g) kRecoveryOwner e now"]
      delivered_step [OF g(2), of _ "CallBeginRebind (active_binding g) kRecoveryOwner e now"] begun by simp_all
  let ?t = "s\<lparr>cl_sequence := cl_sequence s + 1, cl_gate := Some h\<rparr>"
  have t: "gate_sound ?t" "value_sound ?t"
    using parts(2) g(1) h by (auto simp: sound_defs)
  have closed: "wp (close_client so) (\<lambda>_. client_ok) ?t" by (rule wp_close_client [OF t])
  have goes_on: "wp (client_queue so a now \<bind> (\<lambda>queued. on_condition queued (changes (\<lambda>s. s\<lparr>cl_exchange := ExActivation\<rparr>))))
      (\<lambda>_. client_ok) (?t\<lparr>cl_candidate := Some c, cl_token := ms_request m\<rparr>)"
    if d: "bd_candidate d = Some c" "bd_status d = BcApplied" "bid_provider_generation c = cl_epoch s" for a c
  proof (rule wp_unless_closed [OF wp_client_queue])
    let ?u = "?t\<lparr>cl_candidate := Some c, cl_token := ms_request m\<rparr>"
    show u: "gate_sound ?u" "value_sound ?u" using t by (simp_all add: sound_defs)
    note c = begin_recovery_candidate [OF begun d(2,1,3) blocked(3)]
    fix v
    assume v: "v = queue_request a now ?u"
    have "client_ok (v\<lparr>cl_exchange := ExActivation\<rparr>)"
      by (rule client_okI)
        (use u blocked parts(3) live c in \<open>simp_all add: v sound_defs exchange_sound_def\<close>)
    then show "wp (changes (\<lambda>s. s\<lparr>cl_exchange := ExActivation\<rparr>)) (\<lambda>_. client_ok) v"
      by (simp add: wp_changes)
  qed
  have status: "bs_active (binding_status g now) = active_binding g" by (simp add: binding_status_def)
  show ?thesis
    using begun closed goes_on g(1)
    by (cases "bd_candidate d") (simp_all add: begin_recovery_def wp_bind [of "reads _"] wp_bind [of "client_record _ _"]
        wp_bind [of "client_gate _"] wp_bind [of "changes _"] wp_reads wp_client_record wp_client_gate wp_changes
        status e_def)
qed

lemma wp_handle_snapshot:
  assumes ok: "client_ok s" and live: "cl_state s \<noteq> ClClosed" and snap: "cl_exchange s = ExSnapshot"
  shows "wp (handle_snapshot so m now) (\<lambda>_. client_ok) s"
proof -
  note parts = live_ok [OF ok live]
  obtain g where g: "cl_gate s = Some g" "gate_reachable g"
    by (rule live_gate [OF ok live]) (simp add: snap)
  have "active_binding g = recovery_binding (cl_epoch s - 1)"
    using parts(4) g(1) snap by (auto simp: exchange_sound_def split: if_split_asm)
  then have "client_ok (s\<lparr>cl_state := ClBlocked, cl_exchange := ExIdle\<rparr>)"
    by (intro client_okI) (use parts g(1) in \<open>simp_all add: sound_defs exchange_sound_def\<close>)
  with wp_close_client [OF parts(1,2)] wp_begin_recovery [OF assms] show ?thesis
    by (simp add: handle_snapshot_def wp_bind wp_reads wp_changes)
qed

subsection \<open>The activation\<close>

lemma readiness_active: "active_binding (fst (observe_rebind_readiness g e)) = active_binding g"
  by (auto simp: observe_rebind_readiness_def split: option.split prod.split)

text \<open>The gate has moved and so has the sequence of records; the rest is as it was.\<close>

definition gate_moved :: "(gate \<Rightarrow> bool) \<Rightarrow> 'w recovering \<Rightarrow> 'w recovering \<Rightarrow> bool" where
  "gate_moved P s t \<longleftrightarrow>
     (\<exists>g n. t = s\<lparr>cl_sequence := n, cl_gate := Some g\<rparr> \<and> P g) \<and> gate_sound t \<and> value_sound t"

lemma gate_movedI:
  "t = s\<lparr>cl_sequence := n, cl_gate := Some g\<rparr> \<Longrightarrow> P g \<Longrightarrow> gate_sound t \<Longrightarrow> value_sound t \<Longrightarrow> gate_moved P s t"
  unfolding gate_moved_def by blast

lemma gate_movedE:
  assumes "gate_moved P s t"
  obtains g n where "t = s\<lparr>cl_sequence := n, cl_gate := Some g\<rparr>" and "P g" and "gate_sound t"
    and "value_sound t" and "gate_reachable g"
  using assms unfolding gate_moved_def by (auto simp: gate_sound_def)

lemma gate_moved_trans:
  assumes "gate_moved P s t" and "gate_moved Q t u"
  shows "gate_moved Q s u"
proof -
  obtain g n where t: "t = s\<lparr>cl_sequence := n, cl_gate := Some g\<rparr>" using assms(1) by (rule gate_movedE)
  obtain h k where u: "u = t\<lparr>cl_sequence := k, cl_gate := Some h\<rparr>" "Q h" "gate_sound u" "value_sound u"
    using assms(2) by (rule gate_movedE)
  from u(2-4) show ?thesis by (intro gate_movedI [where n = k and g = h]) (simp_all add: u(1) t)
qed

lemma unless_closed_mono: "unless_closed P b t \<Longrightarrow> (\<And>t. P t \<Longrightarrow> Q t) \<Longrightarrow> unless_closed Q b t"
  by (auto simp: unless_closed_def)

lemma wp_observe_kinds:
  assumes "cl_gate s = Some g" and "active_binding g = b" and "gate_sound s" and "value_sound s"
  shows "wp (observe_kinds so kinds candidate expires now)
    (unless_closed (gate_moved (\<lambda>h. active_binding h = b) s)) s"
  using assms
proof (induction kinds arbitrary: s g)
  case Nil
  have "s = s\<lparr>cl_sequence := cl_sequence s, cl_gate := Some g\<rparr>" by (simp add: Nil(1) [symmetric])
  then have "gate_moved (\<lambda>h. active_binding h = b) s s" using Nil(2-4) by (rule gate_movedI)
  then show ?case by (simp add: wp_answer unless_closed_def)
next
  case (Cons kind kinds)
  have reach: "gate_reachable g" using Cons.prems(1,3) by (simp add: gate_sound_def)
  define F where "F = (\<lambda>r g. observe_rebind_readiness g
    \<lparr>bre_kind = kind, bre_binding = candidate, bre_record = r, bre_observed = True, bre_valid_until = expires\<rparr>)"
  define C where "C = (\<lambda>r. CallReadiness
    \<lparr>bre_kind = kind, bre_binding = candidate, bre_record = r, bre_observed = True, bre_valid_until = expires\<rparr>)"
  have step: "wp (client_report so src now F) (unless_closed (gate_moved (\<lambda>h. active_binding h = b) s)) s" for src
  proof (rule wp_observe_unless [where c = C, OF Cons.prems(1,3,4)])
    show "fst (F r g) = fst (gate_step g (C r))" for r by (simp add: F_def C_def)
    show "delivered a g \<Longrightarrow> delivered a (fst (gate_step g (C r)))" for a r
      by (rule delivered_step [OF reach]) (simp_all add: C_def)
    fix r t
    assume t: "gate_sound t" "value_sound t"
      "t = s\<lparr>cl_sequence := cl_sequence s + 1, cl_gate := Some (fst (F r g))\<rparr>"
    have "active_binding (fst (F r g)) = b" using Cons.prems(2) by (simp add: F_def readiness_active)
    then show "gate_moved (\<lambda>h. active_binding h = b) s t"
      by (intro gate_movedI [where n = "cl_sequence s + 1" and g = "fst (F r g)", OF t(3) _ t(1,2)])
  qed
  have rest: "wp (if accepted then observe_kinds so kinds candidate expires now else answer False)
      (unless_closed (gate_moved (\<lambda>h. active_binding h = b) s)) t"
    if u: "unless_closed (gate_moved (\<lambda>h. active_binding h = b) s) accepted t" for accepted t
  proof (cases accepted)
    case True
    with u have moved: "gate_moved (\<lambda>h. active_binding h = b) s t" by (simp add: unless_closed_def)
    then obtain h n where h: "t = s\<lparr>cl_sequence := n, cl_gate := Some h\<rparr>" "active_binding h = b"
      "gate_sound t" "value_sound t" by (elim gate_movedE)
    then have "cl_gate t = Some h" by simp
    from Cons.IH [OF this h(2-4)] True show ?thesis
      by (auto elim!: wp_mono unless_closed_mono intro: gate_moved_trans [OF moved])
  next
    case False
    with u show ?thesis by (simp add: wp_answer unless_closed_def)
  qed
  show ?case
    unfolding observe_kinds.simps wp_bind F_def [symmetric] by (rule wp_mono [OF step]) (rule rest)
qed

lemma wp_handle_activated:
  assumes ok: "client_ok s" and live: "cl_state s \<noteq> ClClosed" and act: "cl_exchange s = ExActivation"
  shows "wp (handle_activated so m now) (\<lambda>_. client_ok) s"
proof -
  note parts = live_ok [OF ok live]
  obtain g where g: "cl_gate s = Some g" "gate_reachable g"
    by (rule live_gate [OF ok live]) (simp add: act)
  have cand: "cl_candidate s = Some (recovery_binding (cl_epoch s))"
    using parts(4) g(1) act by (auto simp: exchange_sound_def split: if_split_asm)
  let ?b = "recovery_binding (cl_epoch s)"
  have commit: "wp (client_gate (\<lambda>g. commit_rebind g ?b now) \<bind>
      (\<lambda>committed. if bd_status committed \<noteq> BcApplied then close_client so
        else changes (\<lambda>s. s\<lparr>cl_state := ClReady, cl_exchange := ExIdle\<rparr>))) (\<lambda>_. client_ok) t"
    if moved: "gate_moved (\<lambda>h. active_binding h = active_binding g) s t" for t
  proof -
    obtain h n where h: "t = s\<lparr>cl_sequence := n, cl_gate := Some h\<rparr>" "gate_sound t" "value_sound t" "gate_reachable h"
      using moved by (elim gate_movedE)
    obtain k d where committed: "commit_rebind h ?b now = (k, d)" by (cases "commit_rebind h ?b now")
    have k: "gate_reachable k" "\<And>a. delivered a h \<Longrightarrow> delivered a k"
      using reachable_step [OF h(4), of "CallCommit ?b now"] delivered_step [OF h(4), of _ "CallCommit ?b now"] committed
      by simp_all
    let ?u = "t\<lparr>cl_gate := Some k\<rparr>"
    have u: "gate_sound ?u" "value_sound ?u" using h k by (auto simp: sound_defs)
    have "session_gate (cl_epoch s) k" if "bd_status d = BcApplied"
      using committed that by (cases rule: commit_cases [of h ?b now]) (auto simp: session_gate_def)
    then have "client_ok (?u\<lparr>cl_state := ClReady, cl_exchange := ExIdle\<rparr>)" if "bd_status d = BcApplied"
      using that u parts(3) by (intro client_okI) (simp_all add: sound_defs exchange_sound_def h(1))
    moreover have "wp (close_client so) (\<lambda>_. client_ok) ?u" by (rule wp_close_client [OF u])
    ultimately show ?thesis using committed h(1) by (simp add: wp_bind wp_client_gate wp_changes)
  qed
  have "wp (observe_kinds so kinds ?b expires now \<bind> (\<lambda>observed. on_condition observed
      (client_gate (\<lambda>g. commit_rebind g ?b now) \<bind>
        (\<lambda>committed. if bd_status committed \<noteq> BcApplied then close_client so
          else changes (\<lambda>s. s\<lparr>cl_state := ClReady, cl_exchange := ExIdle\<rparr>))))) (\<lambda>_. client_ok) s" for kinds expires
    by (rule wp_unless_closed [OF wp_observe_kinds [OF g(1) refl parts(1,2)] commit])
  with wp_close_client [OF parts(1,2)] cand show ?thesis
    by (simp add: handle_activated_def wp_bind [of "reads _"] wp_reads del: observe_kinds.simps)
qed

end
