(* ===== verification/Recovery_Client_Members.thy ===== *)
theory Recovery_Client_Members
  imports Recovery_Client_Steps
begin

text \<open>The operation's messages and the public members keep the client's invariant.\<close>

subsection \<open>Evidence about the operation\<close>

definition output_is_accepted :: "OperationAuthority \<Rightarrow> gate \<Rightarrow> bool" where
  "output_is_accepted a g \<longleftrightarrow>
     (\<exists>r. g_current_receipt g = Some r \<and> rc_authority r = a \<and> rc_output r = OdAccepted)"

lemma accepted_output:
  assumes "snd (observe_output_accepted g e) = EvAccepted" and "oe_authority e = a"
  shows "output_is_accepted a (fst (observe_output_accepted g e))"
proof -
  obtain r where "g_current_receipt g = Some r" "rc_authority r = a"
    "snd (receipt_output_accepted g e r) = EvAccepted"
    "fst (observe_output_accepted g e) = g\<lparr>g_current_receipt := Some (fst (receipt_output_accepted g e r))\<rparr>"
    using assms unfolding observe_output_accepted_def by (metis on_current_acceptedE)
  then show ?thesis by (simp add: output_is_accepted_def output_accepted_accepted(1))
qed

lemma accepted_settlement:
  assumes "gate_reachable g" and "snd (observe_settlement g e) = EvAccepted" and "output_is_accepted a g"
  shows "delivered a (fst (observe_settlement g e))"
proof -
  obtain r where r: "g_current_receipt g = Some r" "rc_authority r = a" "rc_output r = OdAccepted"
    using assms(3) by (auto simp: output_is_accepted_def)
  obtain q where q: "g_current_receipt g = Some q" "snd (receipt_settlement (g_config g) e q) = EvAccepted"
    "fst (observe_settlement g e) = g\<lparr>g_current_receipt := Some (fst (receipt_settlement (g_config g) e q))\<rparr>"
    using assms(2) unfolding observe_settlement_def by (metis on_current_acceptedE)
  have "q = r" using q(1) r(1) by simp
  with r q(3) settlement_accepted(1) [OF q(2)] show ?thesis
    by (simp add: delivered_def mark_settled_def)
qed

text \<open>A client in an active session: what it reports leaves the session as it is.\<close>

definition active_session :: "'w recovering \<Rightarrow> bool" where
  "active_session s \<longleftrightarrow>
     gate_sound s \<and> value_sound s \<and> (\<exists>g. cl_gate s = Some g \<and> session_gate (cl_epoch s) g)"

lemma active_sessionE:
  assumes "active_session s"
  obtains g where "cl_gate s = Some g" and "gate_reachable g" and "session_gate (cl_epoch s) g"
    and "gate_sound s" and "value_sound s"
  using assms by (auto simp: active_session_def gate_sound_def)

lemma moved_session:
  assumes "gate_moved (\<lambda>h. session_gate (cl_epoch s) h \<and> P h) s t"
  shows "active_session t" "cl_epoch t = cl_epoch s"
  using assms by (auto simp: gate_moved_def active_session_def)

lemma wp_report:
  assumes s: "active_session s" and g: "cl_gate s = Some g"
    and call: "\<And>r. fst (F r g) = fst (gate_step g (c r))"
    and kept: "\<And>a r. delivered a g \<Longrightarrow> delivered a (fst (F r g))"
    and session: "\<And>r. session_gate (cl_epoch s) (fst (F r g))"
    and accepted: "\<And>r. snd (F r g) = EvAccepted \<Longrightarrow> P (fst (F r g))"
  shows "wp (client_report so source now F)
    (unless_closed (gate_moved (\<lambda>h. session_gate (cl_epoch s) h \<and> P h) s)) s"
proof -
  have sound: "gate_sound s" "value_sound s" using s by (simp_all add: active_session_def)
  show ?thesis
  proof (rule wp_observe_unless [where c = c and F = F, OF g sound call])
    show "delivered a g \<Longrightarrow> delivered a (fst (gate_step g (c r)))" for a r
      using kept [of a r] by (simp add: call)
    fix r t
    assume acc: "snd (F r g) = EvAccepted" and t: "gate_sound t" "value_sound t"
      "t = s\<lparr>cl_sequence := cl_sequence s + 1, cl_gate := Some (fst (F r g))\<rparr>"
    show "gate_moved (\<lambda>h. session_gate (cl_epoch s) h \<and> P h) s t"
      by (rule gate_movedI [where n = "cl_sequence s + 1" and g = "fst (F r g)", OF t(3) _ t(1,2)])
        (simp add: session accepted [OF acc])
  qed
qed

lemma wp_client_native:
  assumes "active_session s"
  shows "wp (client_native so a i k now)
    (unless_closed (gate_moved (\<lambda>h. session_gate (cl_epoch s) h \<and> True) s)) s"
proof -
  obtain g where g: "cl_gate s = Some g" "gate_reachable g" "session_gate (cl_epoch s) g"
    using assms by (rule active_sessionE)
  show ?thesis
    unfolding client_native_def
    by (rule wp_report [OF assms g(1), where
          c = "\<lambda>r. CallNative \<lparr>ne_authority = a, ne_native_identity = i, ne_kind = k, ne_record = r\<rparr>"])
      (simp_all add: session_calls [OF g(2,3)] delivered_step [OF g(2), of _ "CallNative _", simplified])
qed

lemma wp_client_no_output:
  assumes "active_session s"
  shows "wp (client_no_output so a now)
    (unless_closed (gate_moved (\<lambda>h. session_gate (cl_epoch s) h \<and> True) s)) s"
proof -
  obtain g where g: "cl_gate s = Some g" "gate_reachable g" "session_gate (cl_epoch s) g"
    using assms by (rule active_sessionE)
  show ?thesis
    unfolding client_no_output_def
    by (rule wp_report [OF assms g(1), where c = "\<lambda>r. CallOutputNotDelivered
          \<lparr>ond_authority = a, ond_reason = NdNoOutputProduced, ond_result_reference = [], ond_record = r\<rparr>"])
      (simp_all add: session_calls [OF g(2,3)] delivered_step [OF g(2), of _ "CallOutputNotDelivered _", simplified])
qed

lemma wp_client_accepted_output:
  assumes "active_session s"
  shows "wp (client_accepted_output so a i now)
    (unless_closed (gate_moved (\<lambda>h. session_gate (cl_epoch s) h \<and> output_is_accepted a h) s)) s"
proof -
  obtain g where g: "cl_gate s = Some g" "gate_reachable g" "session_gate (cl_epoch s) g"
    and sound: "gate_sound s" "value_sound s"
    using assms by (rule active_sessionE)
  have "wp (client_report so kRecoverySink now (\<lambda>rcd g. observe_output_accepted g
      \<lparr>oe_authority = a, oe_result_reference = i, oe_record = rcd\<rparr>))
    (unless_closed (gate_moved (\<lambda>h. session_gate (cl_epoch s) h \<and> output_is_accepted a h) s)) s"
    by (rule wp_report [OF assms g(1), where
          c = "\<lambda>r. CallOutputAccepted \<lparr>oe_authority = a, oe_result_reference = i, oe_record = r\<rparr>"])
      (simp_all add: session_calls [OF g(2,3)] delivered_step [OF g(2), of _ "CallOutputAccepted _", simplified]
        accepted_output)
  with wp_close_false [OF sound] show ?thesis
    by (simp add: client_accepted_output_def wp_bind [of "reads _"] wp_reads)
qed

lemma wp_client_settled:
  assumes "active_session s" and "\<And>g. cl_gate s = Some g \<Longrightarrow> P \<Longrightarrow> output_is_accepted a g"
  shows "wp (client_settled so a now)
    (unless_closed (gate_moved (\<lambda>h. session_gate (cl_epoch s) h \<and> (P \<longrightarrow> delivered a h)) s)) s"
proof -
  obtain g where g: "cl_gate s = Some g" "gate_reachable g" "session_gate (cl_epoch s) g"
    using assms(1) by (rule active_sessionE)
  show ?thesis
    unfolding client_settled_def
    by (rule wp_report [OF assms(1) g(1), where c = "\<lambda>r. CallSettlement
          \<lparr>ste_authority = a, ste_scope = kRecoverySettlement, ste_permits_same_domain_admission = True, ste_record = r\<rparr>"])
      (simp_all add: session_calls [OF g(2,3)] delivered_settlement [OF g(2)] accepted_settlement [OF g(2)] assms(2) g(1))
qed

subsection \<open>The operation's messages\<close>

text \<open>What a ready client still has after its reports.\<close>

lemma ready_session_client:
  assumes "client_ok s" and "cl_state s = ClReady"
  shows "active_session s" "cl_fd s \<ge> 0"
proof -
  have parts: "gate_sound s" "value_sound s" "exchange_sound s" "cl_fd s \<ge> 0"
    using live_ok [of s] assms by simp_all
  then show "active_session s" "cl_fd s \<ge> 0"
    using assms(2) by (auto simp: active_session_def exchange_sound_def split: option.splits)
qed

lemma moved_ready:
  assumes moved: "gate_moved (\<lambda>h. session_gate (cl_epoch s) h \<and> P h) s t" and ready: "cl_state s = ClReady"
    and fd: "cl_fd s \<ge> 0" and x: "x \<in> {ExIdle, ExAcceptance, ExResult}"
  shows "client_ok (t\<lparr>cl_exchange := x\<rparr>)"
proof -
  obtain g n where t: "t = s\<lparr>cl_sequence := n, cl_gate := Some g\<rparr>" "session_gate (cl_epoch s) g \<and> P g"
    "gate_sound t" "value_sound t" using moved by (rule gate_movedE)
  from t(3,4) have "gate_sound (t\<lparr>cl_exchange := x\<rparr>)" "value_sound (t\<lparr>cl_exchange := x\<rparr>)"
    by (simp_all add: sound_defs)
  then show ?thesis
    by (rule client_okI) (use ready fd x t(2) in \<open>simp_all add: t(1) exchange_sound_def\<close>)
qed

lemma wp_finish_operation:
  assumes ok: "client_ok s" and ready: "cl_state s = ClReady" and a: "cl_operation s = Some a"
    and good: "\<not> bad_result m s"
  shows "wp (finish_operation so m a i now) (\<lambda>_. client_ok) s"
proof -
  note session = ready_session_client [OF ok ready]
  let ?P = "ms_flags m = kSucceeded"
  let ?settled = "\<lambda>s t. gate_moved (\<lambda>h. session_gate (cl_epoch s) h \<and> (?P \<longrightarrow> delivered a h)) s t"
  have finished: "wp (changes (\<lambda>s. s\<lparr>cl_value := (if ?P then Some (ms_value m) else cl_value s), cl_exchange := ExIdle\<rparr>))
      (\<lambda>_. client_ok) t" if t: "?settled s t" for t
  proof -
    obtain g n where t': "t = s\<lparr>cl_sequence := n, cl_gate := Some g\<rparr>" "session_gate (cl_epoch s) g"
      "?P \<longrightarrow> delivered a g" using t by (elim gate_movedE) simp
    have sum: "ms_value m = recovery_expected_sum (cl_iterations s)" if ?P
      using good that by (simp add: bad_result_def split: if_split_asm)
    have idle: "client_ok (t\<lparr>cl_exchange := ExIdle\<rparr>)" by (rule moved_ready [OF t ready session(2)]) simp
    show ?thesis
    proof (cases ?P)
      case True
      have "client_ok (t\<lparr>cl_value := Some (ms_value m), cl_exchange := ExIdle\<rparr>)"
        using idle True t' a sum ready
        by (auto simp: client_ok_def gate_sound_def value_sound_def exchange_sound_def)
      with True show ?thesis by (simp add: wp_changes)
    next
      case False
      have "t\<lparr>cl_value := cl_value t, cl_exchange := ExIdle\<rparr> = t\<lparr>cl_exchange := ExIdle\<rparr>" by simp
      with False idle show ?thesis by (simp add: wp_changes)
    qed
  qed
  have settled: "wp (client_settled so a now \<bind> (\<lambda>settled. on_condition settled
      (changes (\<lambda>s. s\<lparr>cl_value := (if ?P then Some (ms_value m) else cl_value s), cl_exchange := ExIdle\<rparr>))))
      (\<lambda>_. client_ok) t"
    if t: "gate_moved (\<lambda>h. session_gate (cl_epoch s) h \<and> (?P \<longrightarrow> output_is_accepted a h)) s t" for t
  proof (rule wp_unless_closed)
    show "wp (client_settled so a now) (unless_closed (?settled t)) t"
      by (rule wp_client_settled [OF moved_session(1) [OF t]]) (use t in \<open>auto elim: gate_movedE\<close>)
    fix u
    assume u: "?settled t u"
    have "?settled s u"
      using gate_moved_trans [OF t] u moved_session(2) [OF t] by auto
    then show "wp (changes (\<lambda>s. s\<lparr>cl_value := (if ?P then Some (ms_value m) else cl_value s), cl_exchange := ExIdle\<rparr>))
        (\<lambda>_. client_ok) u" by (rule finished)
  qed
  show ?thesis
    unfolding finish_operation_def
  proof (rule wp_unless_closed [OF wp_client_native [OF session(1)]])
    fix t
    assume t: "gate_moved (\<lambda>h. session_gate (cl_epoch s) h \<and> True) s t"
    note t_session = moved_session [OF t]
    have "wp (if ?P then client_accepted_output so a i now else client_no_output so a now)
      (unless_closed (gate_moved (\<lambda>h. session_gate (cl_epoch t) h \<and> (?P \<longrightarrow> output_is_accepted a h)) t)) t"
      using wp_client_accepted_output [OF t_session(1), of so a i now] wp_client_no_output [OF t_session(1), of so a now]
      by (cases ?P) simp_all
    then show "wp ((if ?P then client_accepted_output so a i now else client_no_output so a now) \<bind>
        (\<lambda>resolved. on_condition resolved (client_settled so a now \<bind> (\<lambda>settled. on_condition settled
          (changes (\<lambda>s. s\<lparr>cl_value := (if ?P then Some (ms_value m) else cl_value s), cl_exchange := ExIdle\<rparr>))))))
        (\<lambda>_. client_ok) t"
      by (rule wp_unless_closed) (rule settled, use gate_moved_trans [OF t] t_session(2) in auto)
  qed
qed

lemma wp_handle_operation:
  assumes ok: "client_ok s" and live: "cl_state s \<noteq> ClClosed"
    and here: "cl_exchange s \<notin> {ExHello, ExSnapshot, ExActivation}"
  shows "wp (handle_operation so m now) (\<lambda>_. client_ok) s"
proof -
  note parts = live_ok [OF ok live]
  have closed: "wp (close_client so) (\<lambda>_. client_ok) s" by (rule wp_close_client [OF parts(1,2)])
  show ?thesis
  proof (cases "cl_operation s")
    case None
    with closed show ?thesis by (simp add: handle_operation_def wp_bind wp_reads)
  next
    case (Some a)
    have ready: "cl_state s = ClReady" if "cl_exchange s \<noteq> ExIdle"
      using parts(4) here that by (auto simp: exchange_sound_def split: option.splits if_split_asm)
    have accepted: "wp (client_native so a i NkAccepted now \<bind>
        (\<lambda>accepted. on_condition accepted (changes (\<lambda>s. s\<lparr>cl_exchange := ExResult\<rparr>)))) (\<lambda>_. client_ok) s"
      if "cl_exchange s = ExAcceptance" for i
    proof -
      have "cl_exchange s \<noteq> ExIdle" using that by simp
      from ready [OF this] have r: "cl_state s = ClReady" .
      note session = ready_session_client [OF ok r]
      show ?thesis
        by (rule wp_unless_closed [OF wp_client_native [OF session(1)]])
          (simp add: wp_changes moved_ready [OF _ r session(2), where P = "\<lambda>_. True"])
    qed
    have finished: "wp (finish_operation so m a i now) (\<lambda>_. client_ok) s" if "\<not> bad_result m s" for i
    proof -
      have "cl_exchange s \<noteq> ExIdle" using that by (auto simp: bad_result_def)
      from wp_finish_operation [OF ok ready [OF this] Some that] show ?thesis .
    qed
    show ?thesis
      using closed accepted finished Some by (simp add: handle_operation_def wp_bind [of "reads _"] wp_reads)
  qed
qed

lemma wp_client_handle:
  assumes ok: "client_ok s" and live: "cl_state s \<noteq> ClClosed"
  shows "wp (client_handle so m now) (\<lambda>_. client_ok) s"
  using wp_handle_hello [OF assms] wp_handle_snapshot [OF assms] wp_handle_activated [OF assms]
    wp_handle_operation [OF assms] wp_close_client [OF live_ok(1,2) [OF assms]]
  by (simp add: client_handle_def wp_bind wp_reads)

subsection \<open>The public members\<close>

lemma wp_close_ok: "client_ok s \<Longrightarrow> wp (close_client so) (\<lambda>_. client_ok) s"
  by (rule wp_close_client) (simp_all add: client_ok_def)

text \<open>A member that the clock lets go on starts from a client that is not closed.\<close>

definition live :: "'w recovering \<Rightarrow> bool" where
  "live s \<longleftrightarrow> client_ok s \<and> cl_state s \<noteq> ClClosed"

lemma wp_client_time:
  assumes "client_ok s"
  shows "wp (client_time so now) (\<lambda>b t. (b \<longrightarrow> live t \<and> t = s\<lparr>cl_last_time := now\<rparr> \<and> cl_last_time s \<le> now) \<and>
    (\<not> b \<longrightarrow> client_ok t)) s"
proof -
  have "exchange_sound (s\<lparr>cl_last_time := now\<rparr>) = exchange_sound s"
    by (simp add: exchange_sound_def split: option.split)
  then have timed: "client_ok (s\<lparr>cl_last_time := now\<rparr>)"
    using assms by (simp add: client_ok_def gate_sound_def value_sound_def)
  have "wp (close_client so \<bind> (\<lambda>_. answer False)) (\<lambda>b t. (b \<longrightarrow> live t \<and> t = s\<lparr>cl_last_time := now\<rparr> \<and>
      cl_last_time s \<le> now) \<and> (\<not> b \<longrightarrow> client_ok t)) s"
    unfolding wp_bind using wp_close_ok [OF assms] by (rule wp_mono) (simp add: wp_answer)
  with assms timed show ?thesis
    by (simp add: client_time_def wp_bind [of "reads _"] wp_bind [of "changes _"] wp_reads wp_changes wp_answer
        live_def not_less)
qed

lemma wp_live_member:
  assumes "client_ok s" and "\<And>t. live t \<Longrightarrow> t = s\<lparr>cl_last_time := now\<rparr> \<Longrightarrow> wp (m True) Q t"
    and "\<And>t. client_ok t \<Longrightarrow> wp (m False) Q t"
  shows "wp (client_time so now \<bind> m) Q s"
  unfolding wp_bind by (rule wp_mono [OF wp_client_time [OF assms(1)]]) (case_tac a; simp add: assms(2,3))

lemma queue_ok:
  assumes "live s" and "cl_state s = st" and "x \<noteq> ExHello"
    and "\<And>g. cl_gate s = Some g \<Longrightarrow> exchange_sound ((queue_request m now s)\<lparr>cl_exchange := x\<rparr>)" and "cl_gate s \<noteq> None"
  shows "client_ok ((queue_request m now s)\<lparr>cl_exchange := x\<rparr>)"
  using assms by (auto simp: live_def client_ok_def gate_sound_def value_sound_def)

lemma send_pending_ok:
  assumes "live s"
  shows "wp (send_pending so now) (\<lambda>b t. (b \<longrightarrow> live t) \<and> client_ok t) s"
proof -
  have ok: "client_ok s" "cl_state s \<noteq> ClClosed" using assms by (simp_all add: live_def)
  have closed: "wp (close_client so \<bind> (\<lambda>_. answer False)) (\<lambda>b t. (b \<longrightarrow> live t) \<and> client_ok t) t"
    if "client_ok t" for t
    unfolding wp_bind using wp_close_ok [OF that] by (rule wp_mono) (simp add: wp_answer)
  have sent: "live (s\<lparr>cl_world := w, cl_pending := None\<rparr>)" for w
    using ok by (auto simp: live_def client_ok_def gate_sound_def value_sound_def exchange_sound_def split: option.splits)
  show ?thesis
  proof (cases "cl_pending s")
    case None
    with assms ok show ?thesis by (simp add: send_pending_def wp_bind wp_reads wp_answer)
  next
    case (Some m)
    obtain r w where send: "send_message so (cl_fd s) m (cl_world s) = (r, w)"
      by (cases "send_message so (cl_fd s) m (cl_world s)")
    from closed [of s] closed [of "s\<lparr>cl_world := w\<rparr>"] sent [of w] ok Some send show ?thesis
      by (cases r) (simp_all add: send_pending_def wp_bind [of "reads _"] wp_bind [of "client_system _"]
          wp_bind [of "changes _"] wp_reads wp_client_system wp_changes wp_answer live_def)
  qed
qed

lemma client_receive_ok:
  assumes "live s"
  shows "wp (client_receive so now) (\<lambda>_. client_ok) s"
proof -
  have ok: "client_ok s" "cl_state s \<noteq> ClClosed" using assms by (simp_all add: live_def)
  obtain r x w where received: "receive_message so (cl_fd s) (cl_world s) = ((r, x), w)"
    by (cases "receive_message so (cl_fd s) (cl_world s)") auto
  let ?t = "s\<lparr>cl_world := w\<rparr>"
  have "wp (client_handle so (the x) now) (\<lambda>_. client_ok) ?t"
    by (rule wp_client_handle) (simp_all add: ok)
  with wp_close_ok [of ?t] wp_close_ok [of s] ok received show ?thesis
    by (cases r) (simp_all add: client_receive_def wp_bind wp_reads wp_client_system wp_skip)
qed

lemma client_poll_ok:
  assumes "client_ok s"
  shows "wp (client_poll so now) (\<lambda>_. client_ok) s"
  unfolding client_poll_def
proof (rule wp_live_member [OF assms])
  fix t :: "'a recovering"
  assume t: "live t"
  show "wp (on_condition True (send_pending so now \<bind> (\<lambda>ready. on_condition ready (client_receive so now))))
      (\<lambda>_. client_ok) t"
    unfolding on_condition_def [of True] if_True wp_bind
    by (rule wp_mono [OF send_pending_ok [OF t]]) (simp add: wp_on_condition client_receive_ok)
qed (simp add: wp_on_condition)

lemma client_recover_ok:
  assumes "client_ok s"
  shows "wp (client_recover so now) (\<lambda>_. client_ok) s"
  unfolding client_recover_def
proof (rule wp_live_member [OF assms])
  fix t :: "'a recovering"
  assume t: "live t"
  then have ok: "client_ok t" "gate_sound t" "value_sound t" "cl_fd t \<ge> 0" "exchange_sound t"
    using live_ok [of t] by (simp_all add: live_def)
  let ?q = "queue_request (new_message KQuery) now t"
  let ?u = "?q\<lparr>cl_query_at := now, cl_exchange := ExSnapshot, cl_state := ClRecovering\<rparr>"
  have begun: "client_ok ?u" if "cl_state t = ClBlocked"
    by (rule client_okI)
      (use ok that in \<open>auto simp: gate_sound_def value_sound_def exchange_sound_def split: option.splits\<close>)
  have "wp (client_queue so (new_message KQuery) now) (\<lambda>b. wp (if \<not> b then answer False
      else changes (\<lambda>s. s\<lparr>cl_query_at := now, cl_exchange := ExSnapshot, cl_state := ClRecovering\<rparr>) \<bind>
        (\<lambda>_. answer True)) (\<lambda>_. client_ok)) t" if "cl_state t = ClBlocked"
    by (rule wp_mono [OF wp_client_queue [OF ok(2,3)]])
      (auto simp: unless_closed_def wp_bind wp_changes wp_answer begun [OF that])
  with ok(1) show "wp (reads cl_state \<bind> (\<lambda>state. reads cl_exchange \<bind> (\<lambda>exchange.
      if \<not> True \<or> state \<noteq> ClBlocked \<or> exchange \<noteq> ExIdle then answer False
      else client_queue so (new_message KQuery) now \<bind> (\<lambda>queued. if \<not> queued then answer False
        else changes (\<lambda>s. s\<lparr>cl_query_at := now, cl_exchange := ExSnapshot, cl_state := ClRecovering\<rparr>) \<bind>
          (\<lambda>_. answer True))))) (\<lambda>_. client_ok) t"
    by (simp add: wp_bind [of "reads _"] wp_bind [of "client_queue _ _ _"] wp_reads wp_answer)
qed (simp add: wp_bind wp_reads wp_answer)

text \<open>A submission: the admission replaces the receipt, and with it any result shown is dropped.\<close>

lemma start_operation_ok:
  assumes ok: "client_ok s" and ready: "cl_state s = ClReady" and g: "cl_gate s = Some g"
  shows "wp (start_operation so a n now) (\<lambda>_. client_ok) (s\<lparr>cl_gate := Some (fst (admit g q))\<rparr>)"
proof -
  note session = ready_session_client [OF ok ready]
  have reach: "gate_reachable g" and here: "session_gate (cl_epoch s) g"
    using session(1) g by (auto simp: active_session_def gate_sound_def)
  let ?g = "fst (admit g q)"
  have admitted: "gate_reachable ?g" "session_gate (cl_epoch s) ?g"
    by (rule reachable_calls [OF reach], rule session_calls [OF reach here])
  obtain h b where claimed: "claim_dispatch ?g a now = (h, b)" by (cases "claim_dispatch ?g a now")
  have h: "gate_reachable h" "session_gate (cl_epoch s) h"
    using reachable_step [OF admitted(1), of "CallClaim a now"] session_calls(5) [OF admitted, of a now] claimed
    by simp_all
  let ?t = "s\<lparr>cl_operation := Some a, cl_iterations := n, cl_value := None, cl_gate := Some h\<rparr>"
  have t: "gate_sound ?t" "value_sound ?t" using h(1) by (simp_all add: sound_defs)
  have closed: "wp (close_client so \<bind> (\<lambda>_. answer False)) (\<lambda>_. client_ok) ?t"
    unfolding wp_bind by (rule wp_close_any [OF t]) (simp add: wp_answer)
  let ?m = "(new_message KSubmit)\<lparr>ms_operation := oa_operation_id a, ms_amount := n\<rparr>"
  have "client_ok ((queue_request ?m now ?t)\<lparr>cl_exchange := ExAcceptance\<rparr>)"
    by (rule client_okI) (use t ready session(2) h(2) in \<open>simp_all add: sound_defs exchange_sound_def\<close>)
  then have "wp (client_queue so ?m now \<bind> (\<lambda>queued. if \<not> queued then answer False
      else changes (\<lambda>s. s\<lparr>cl_exchange := ExAcceptance\<rparr>) \<bind> (\<lambda>_. answer True))) (\<lambda>_. client_ok) ?t"
    unfolding wp_bind [of "client_queue _ _ _"]
    by (intro wp_mono [OF wp_client_queue [OF t]]) (auto simp: unless_closed_def wp_bind wp_changes wp_answer)
  with closed claimed show ?thesis
    by (simp add: start_operation_def wp_bind [of "changes _"] wp_bind [of "client_gate _"] wp_changes wp_client_gate)
qed

lemma client_submit_ok:
  assumes "client_ok s"
  shows "wp (client_submit so n now) (\<lambda>_. client_ok) s"
  unfolding client_submit_def
proof (rule wp_live_member [OF assms])
  fix t :: "'a recovering"
  assume t: "live t"
  then have ok: "client_ok t" by (simp add: live_def)
  have "wp (client_gate (\<lambda>g. admit g q) \<bind> (\<lambda>admitted. case ad_authority admitted of None \<Rightarrow> answer False
      | Some authority \<Rightarrow> if ad_status admitted \<noteq> AdAdmitted then answer False
          else start_operation so authority n now)) (\<lambda>_. client_ok) t" if ready: "cl_state t = ClReady" for q
  proof -
    obtain g where g: "cl_gate t = Some g" using ready_session_client(1) [OF ok ready] by (rule active_sessionE)
    have same: "t\<lparr>cl_gate := Some g\<rparr> = t" by (simp add: g [symmetric])
    have same_ok: "client_ok (t\<lparr>cl_gate := Some g\<rparr>)" by (simp only: same ok)
    show ?thesis
      by (cases rule: admit_cases [of g q])
        (use start_operation_ok [OF ok ready g, of so _ n now q] same_ok g in
          \<open>simp_all add: wp_bind wp_client_gate wp_answer\<close>)
  qed
  with ok show "wp (reads cl_state \<bind> (\<lambda>state. reads cl_exchange \<bind> (\<lambda>exchange. reads cl_nonce \<bind> (\<lambda>nonce.
      if \<not> True \<or> state \<noteq> ClReady \<or> exchange \<noteq> ExIdle \<or> n = 0 \<or> n > kRecoveryMaximumIterations
      then answer False
      else client_gate (\<lambda>g. admit g (recovery_request nonce now)) \<bind> (\<lambda>admitted. case ad_authority admitted of
          None \<Rightarrow> answer False
        | Some authority \<Rightarrow> if ad_status admitted \<noteq> AdAdmitted then answer False
            else start_operation so authority n now))))) (\<lambda>_. client_ok) t"
    by (simp add: wp_bind [of "reads _"] wp_reads wp_answer)
qed (simp add: wp_bind wp_reads wp_answer)

lemma wp_then_answer: "wp m (\<lambda>_. Q) s \<Longrightarrow> wp (m \<bind> (\<lambda>x. answer (f x))) (\<lambda>_. Q) s"
  unfolding wp_bind by (erule wp_mono) (simp add: wp_answer)

lemma client_step_ok:
  assumes "client_ok s"
  shows "client_ok (fst (client_step so s c))"
proof -
  have "wp (client_member so c) (\<lambda>_. client_ok) s"
    by (cases c) (simp_all add: wp_then_answer client_poll_ok [OF assms] client_recover_ok [OF assms]
        client_submit_ok [OF assms] wp_close_ok [OF assms])
  then show ?thesis by (simp add: wp_run client_step_def)
qed

lemma client_initial_ok:
  assumes "client_initial s"
  shows "client_ok s"
proof -
  obtain fd now where "fd \<ge> 0" "recovery_client.truncate s = new_client fd now"
    using assms by (auto simp: client_initial_def)
  then have "cl_gate s = None" "cl_value s = None" "cl_state s = ClConnecting" "cl_fd s \<ge> 0"
    "cl_exchange s = ExHello"
    by (simp_all add: recovery_client.truncate_def new_client_def)
  then show ?thesis by (simp add: client_ok_def gate_sound_def value_sound_def exchange_sound_def)
qed

lemma client_reachable_ok: "client_reachable so s \<Longrightarrow> client_ok s"
  by (induction rule: reachable.induct) (simp_all add: client_initial_ok client_step_ok)

end
