(* ===== verification/Recovery_Client_Properties.thy ===== *)
theory Recovery_Client_Properties
  imports Recovery_Client_Members
begin

text \<open>A concrete client on a socket with a script of the owner's messages.\<close>

type_synonym client_world = "u8 list list \<times> u8 list list"

definition client_sockets :: "client_world sockets" where
  "client_sockets =
    \<lparr>so_type = \<lambda>_ w. (Inr SOCK_SEQPACKET, w), so_family = \<lambda>_ w. (Inr AF_UNIX, w),
     so_peer = \<lambda>_ w. (Inr (), w), so_getfd = \<lambda>_ w. (Inr 0, w), so_setfd = \<lambda>_ _ w. (Inr (), w),
     so_send = \<lambda>_ bs w. (Inr (length bs), fst w, snd w @ [bs]),
     so_recv = \<lambda>_ n w. (case fst w of [] \<Rightarrow> (Inl EAGAIN, w)
       | p # ps \<Rightarrow> (Inr (length p, take n p), ps, snd w)),
     so_close = \<lambda>_ w. (Inr (), w)\<rparr>"

text \<open>The owner's side of session 2: greeting, clear, activated, accepted, the sum of five squares.\<close>

definition owner_answers :: "message list" where
  "owner_answers =
    [new_message KHello\<lparr>ms_session := 2\<rparr>,
     new_message KSnapshot\<lparr>ms_session := 2, ms_request := 1, ms_flags := kClear\<rparr>,
     new_message KActivated\<lparr>ms_session := 2, ms_request := 2, ms_value := 1\<rparr>,
     new_message KAccepted\<lparr>ms_session := 2, ms_request := 3, ms_operation := 1, ms_amount := 5\<rparr>,
     new_message KResult\<lparr>ms_session := 2, ms_request := 3, ms_operation := 1, ms_amount := 5,
       ms_value := 30, ms_flags := kSucceeded\<rparr>]"

definition demo_client :: "client_world recovering" where
  "demo_client = recovery_client.extend (new_client 5 0) (recovering.fields (map encode_message owner_answers, []))"

lemma demo_client_initial: "client_initial demo_client"
proof -
  have "recovery_client.truncate demo_client = new_client 5 0"
    by (simp add: demo_client_def recovery_client.truncate_def recovery_client.extend_def new_client_def
        recovering.fields_def)
  then show ?thesis unfolding client_initial_def by (intro exI [of _ 5] exI [of _ 0]) simp
qed

definition recover_calls :: "client_call list" where
  "recover_calls = [RcPoll 1, RcRecover 2, RcPoll 3, RcPoll 4]"

definition work_calls :: "client_call list" where
  "work_calls = [RcSubmit 5 5, RcPoll 6, RcPoll 7]"

definition ready_client :: "client_world recovering" where
  "ready_client = run (client_step client_sockets) demo_client recover_calls"

definition served_client :: "client_world recovering" where
  "served_client = run (client_step client_sockets) ready_client work_calls"

lemma ready_client_reachable: "client_reachable client_sockets ready_client"
  unfolding ready_client_def by (rule reachable_run) (rule reachable_init, rule demo_client_initial)

lemma served_client_reachable: "client_reachable client_sockets served_client"
  unfolding served_client_def by (rule reachable_run) (rule ready_client_reachable)

definition client_summary ::
  "'w recovering \<Rightarrow> ClientState \<times> Exchange \<times> u64 \<times> bool \<times> u64 option \<times> u64" where
  "client_summary s =
    (cl_state s, cl_exchange s, cl_epoch s, cl_pending s = None, cl_value s, cl_iterations s)"

lemma ready_client_summary: "client_summary ready_client = (ClReady, ExIdle, 2, True, None, 0)"
  by code_simp

lemma served_client_summary: "client_summary served_client = (ClReady, ExIdle, 2, True, Some 30, 5)"
  by code_simp

text \<open>A session whose owner is silent.\<close>

definition waiting_client :: "client_world recovering" where
  "waiting_client = recovery_client.extend (new_client 5 0) (recovering.fields ([], []))"

lemma waiting_client_initial: "client_initial waiting_client"
proof -
  have "recovery_client.truncate waiting_client = new_client 5 0"
    by (simp add: waiting_client_def recovery_client.truncate_def recovery_client.extend_def new_client_def
        recovering.fields_def)
  then show ?thesis unfolding client_initial_def by (intro exI [of _ 5] exI [of _ 0]) simp
qed

text \<open>The properties of the recovery client.\<close>

subsection \<open>A closed client\<close>

definition at_rest :: "'w recovering \<Rightarrow> 'w recovering \<Rightarrow> bool" where
  "at_rest s t \<longleftrightarrow> cl_state t = ClClosed \<and> cl_fd t < 0 \<and> cl_pending t = None \<and> cl_world t = cl_world s \<and>
     cl_value t = cl_value s"

lemma closed_client_step:
  assumes "cl_state s = ClClosed" and "cl_fd s < 0" and "cl_pending s = None"
  shows "at_rest s (fst (client_step so s c))" "snd (client_step so s c) \<noteq> RaFlag True"
proof -
  have "at_rest s s" using assms by (simp add: at_rest_def)
  moreover have "at_rest s (set_closed s)" using assms by (simp add: at_rest_def set_closed_def)
  ultimately have "wp (client_member so c) (\<lambda>a t. at_rest s t \<and> a \<noteq> RaFlag True) s"
    using assms
    by (cases c) (simp_all add: wp_rules client_poll_def client_recover_def client_submit_def client_time_def
        close_client_def, simp_all add: set_closed_def)
  then show "at_rest s (fst (client_step so s c))" "snd (client_step so s c) \<noteq> RaFlag True"
    by (simp_all add: wp_run client_step_def)
qed

lemma closed_client_run:
  assumes "cl_state s = ClClosed" and "cl_fd s < 0" and "cl_pending s = None"
  shows "at_rest s (run (client_step so) s cs) \<and> (\<forall>a\<in>set (trace (client_step so) s cs). snd a \<noteq> RaFlag True)"
  using assms
proof (induction cs arbitrary: s)
  case Nil
  then show ?case by (simp add: at_rest_def)
next
  case (Cons c cs)
  note step = closed_client_step [OF Cons.prems, of so c]
  let ?t = "fst (client_step so s c)"
  have t: "cl_state ?t = ClClosed" "cl_fd ?t < 0" "cl_pending ?t = None"
    using step(1) by (simp_all add: at_rest_def)
  from Cons.IH [OF t] step show ?case by (simp add: at_rest_def)
qed

text \<open>
  Closing is final: whatever is called on a closed client afterwards, it stays closed,
  makes no system call, shows the result it had and answers that it did nothing.
\<close>

theorem client_closed_is_final:
  assumes "client_reachable so s" and "cl_state s = ClClosed"
  shows "cl_state (run (client_step so) s cs) = ClClosed \<and>
    cl_world (run (client_step so) s cs) = cl_world s \<and>
    cl_value (run (client_step so) s cs) = cl_value s \<and>
    (\<forall>a\<in>set (trace (client_step so) s cs). snd a \<noteq> RaFlag True)"
proof -
  have "cl_fd s < 0" "cl_pending s = None"
    using client_reachable_ok [OF assms(1)] assms(2) by (simp_all add: client_ok_def)
  from closed_client_run [OF assms(2) this] show ?thesis by (simp add: at_rest_def)
qed

theorem client_closed_is_final_witness:
  "cl_state (run (client_step client_sockets) (fst (client_step client_sockets served_client RcClose)) [RcRecover 8, RcPoll 9]) = ClClosed"
proof -
  let ?s = "fst (client_step client_sockets served_client RcClose)"
  have "client_reachable client_sockets ?s" by (rule reachable_step [OF served_client_reachable])
  moreover have "cl_state ?s = ClClosed"
    by (simp add: client_step_def close_client_def run_state_bind changes_def reads_def on_condition_def skip_def
        answer_def client_system_def set_closed_def split: prod.split)
  ultimately show ?thesis using client_closed_is_final [of client_sockets ?s "[RcRecover 8, RcPoll 9]"] by simp
qed

subsection \<open>A ready client\<close>

text \<open>
  C23. A client that is ready holds a gate that was reached by the gate's own calls alone, in
  its active phase, and the binding that it has committed there is the owner's under the
  number of the session: no evidence of an earlier session fits it.
\<close>

theorem client_ready_is_committed:
  assumes "client_reachable so s" and "cl_state s = ClReady"
  shows "\<exists>g. cl_gate s = Some g \<and> gate_reachable g \<and> g_binding_phase g = PhActive \<and>
    active_binding g = recovery_binding (cl_epoch s)"
proof -
  have "active_session s"
    by (rule ready_session_client [OF client_reachable_ok [OF assms(1)] assms(2)])
  then show ?thesis by (elim active_sessionE) (auto simp: session_gate_def)
qed

theorem client_ready_is_committed_witness:
  "\<exists>g. cl_gate ready_client = Some g \<and> active_binding g = recovery_binding 2"
proof -
  have "cl_state ready_client = ClReady" "cl_epoch ready_client = 2"
    using ready_client_summary by (simp_all add: client_summary_def)
  then show ?thesis using client_ready_is_committed [OF ready_client_reachable] by auto
qed

subsection \<open>A shown result\<close>

text \<open>
  C24. A result that the client shows is the sum of the squares of its last operation's
  iterations, and the receipt of that operation says that its output was accepted and that
  the operation is settled.
\<close>

theorem client_value_is_delivered:
  assumes "client_reachable so s" and "cl_value s = Some v"
  shows "v = recovery_expected_sum (cl_iterations s) \<and>
    (\<exists>a g r. cl_operation s = Some a \<and> cl_gate s = Some g \<and> g_current_receipt g = Some r \<and>
       rc_authority r = a \<and> rc_output r = OdAccepted \<and> rc_settlement r = StSettled)"
  using client_reachable_ok [OF assms(1)] assms(2)
  by (auto simp: client_ok_def value_sound_def delivered_def)

theorem client_value_is_delivered_witness:
  "cl_value served_client = Some 30 \<and> 30 = recovery_expected_sum 5"
proof -
  have "cl_value served_client = Some 30" "cl_iterations served_client = 5"
    using served_client_summary by (simp_all add: client_summary_def)
  then show ?thesis using client_value_is_delivered [OF served_client_reachable] by auto
qed

lemma recovery_sum_is_expected: "recovery_expected_sum n = expected_sum n"
  by (simp add: recovery_expected_sum_def expected_sum_def Let_def)

subsection \<open>Waiting\<close>

text \<open>What the client waits for is overdue: its message has not left, or the answer has not come.\<close>

definition late :: "monotonic_time \<Rightarrow> ('w, 'x) recovering_scheme \<Rightarrow> bool" where
  "late now s \<longleftrightarrow> (if cl_pending s = None then overdue now s else \<not> fresh (cl_queued_at s) now)"

lemma wp_close_state: "wp (close_client so) (\<lambda>_ t. cl_state t = ClClosed) s"
  by (simp add: close_client_def wp_rules split: prod.split) (simp add: set_closed_def)

text \<open>
  No exchange outlives the 1000 ms of its evidence: a poll that finds the client's own
  message still unsent, or the owner's answer still missing, after that time closes it.
\<close>

theorem client_exchange_is_bounded:
  assumes "late now s"
  shows "cl_state (fst (client_step so s (RcPoll now))) = ClClosed"
proof -
  let ?Q = "\<lambda>_ t. cl_state t = ClClosed"
  have closed: "wp (close_client so \<bind> (\<lambda>_. answer False)) (\<lambda>b t. \<not> b \<and> cl_state t = ClClosed) t" for t
    unfolding wp_bind using wp_close_state by (rule wp_mono) (simp add: wp_answer)
  have timed: "wp (client_time so now) (\<lambda>b t. (b \<longrightarrow> t = s\<lparr>cl_last_time := now\<rparr>) \<and> (\<not> b \<longrightarrow> cl_state t = ClClosed)) s"
    using closed [of s]
    by (simp add: client_time_def wp_bind [of "reads _"] wp_bind [of "changes _"] wp_reads wp_changes wp_answer)
      (auto elim: wp_mono)
  have sent: "wp (send_pending so now \<bind> (\<lambda>ready. on_condition ready (client_receive so now))) ?Q (s\<lparr>cl_last_time := now\<rparr>)"
  proof (cases "cl_pending s")
    case None
    with assms wp_close_state [of so "s\<lparr>cl_last_time := now\<rparr>"] show ?thesis
      by (simp add: send_pending_def wp_rules client_receive_def late_def overdue_def)
  next
    case (Some m)
    with assms have "\<not> fresh (cl_queued_at s) now" by (simp add: late_def)
    with Some closed [of "s\<lparr>cl_last_time := now\<rparr>"] have
      "wp (send_pending so now) (\<lambda>b t. \<not> b \<and> cl_state t = ClClosed) (s\<lparr>cl_last_time := now\<rparr>)"
      by (simp add: send_pending_def wp_bind [of "reads _"] wp_reads)
    then show ?thesis unfolding wp_bind by (rule wp_mono) (simp add: wp_on_condition)
  qed
  have "wp (client_poll so now) ?Q s"
    unfolding client_poll_def wp_bind [of "client_time _ _"]
    by (rule wp_mono [OF timed]) (use sent in \<open>auto simp: wp_on_condition\<close>)
  then show ?thesis by (simp add: client_step_def wp_def answer_def split: prod.splits)
qed

theorem client_exchange_is_bounded_witness:
  "cl_state (fst (client_step client_sockets waiting_client (RcPoll 1000))) = ClClosed"
proof -
  have "late 1000 waiting_client"
    by (simp add: late_def overdue_def fresh_def waiting_client_def new_client_def recovery_client.extend_def
        recovering.fields_def kEvidenceLifetimeMs_def)
  then show ?thesis by (rule client_exchange_is_bounded)
qed

end
