(* ===== verification/Compute_Task_Ports.thy ===== *)
theory Compute_Task_Ports
  imports Compute_Task_Invariant Compute_Host_Properties Recovery_Client_Properties
begin

text \<open>
  The two executions of a task, the compute host and the recovery session, keep the
  contract of \<open>task_execution\<close>; and the properties of tasks over them.
\<close>

subsection \<open>The compute host\<close>

definition local_sound :: "'w env \<Rightarrow> 'w running \<Rightarrow> bool" where
  "local_sound env s \<longleftrightarrow> reads_bounded (worker_os env) \<and> host_ok s"

lemma local_keeps: "(reads_bounded (worker_os env) \<Longrightarrow> keeps safe m) \<Longrightarrow> keeps_sound (local_sound env) m"
  by (auto simp: keeps_sound_def local_sound_def wp_run safe_def keeps_def)

lemma local_cancel_safe: "keeps safe (local_cancel env a)"
  unfolding local_cancel_def
  by (rule safe.keeps_bind [OF keeps_moves_safe [OF moves_cancel]]) (rule safe.keeps_answer)

lemma local_phase_safe: "keeps safe (local_phase env)"
  unfolding local_phase_def
  by (rule safe.keeps_bind [OF keeps_moves_safe [OF keeps_steady_moves [OF steady_now]]]) (rule safe.keeps_reads)

lemma wp_last: "(\<And>a t. wp (n a) Q t) \<Longrightarrow> wp (m \<bind> n) Q s"
  unfolding wp_bind by (simp add: wp_run)

lemma prepare_not_submitted: "wp (prepare env q) (\<lambda>x _. csb_status x \<noteq> SbSubmitted) s"
proof -
  have "wp (admit_request env q) (\<lambda>x _. csb_status x \<noteq> SbSubmitted) t" for t
    unfolding admit_request_def
    by (intro wp_last) (auto simp: wp_answer blocked_def intro!: wp_last split: option.split)
  then show ?thesis by (simp add: prepare_def wp_rules blocked_def)
qed

lemma submit_made: "wp (submit env q) (\<lambda>x _. submission_made x) s"
  unfolding submit_def wp_bind
  by (rule wp_mono [OF prepare_not_submitted])
    (auto simp: wp_answer submission_made_def intro!: wp_last split: option.split)

lemma submit_local: "local_sound env s \<Longrightarrow> wp (submit env q) (\<lambda>x t. local_sound env t \<and> submission_made x) s"
  using keepsD [OF safe_submit, of env q s] submit_made [of env q s]
  by (auto simp: local_sound_def wp_run safe_def)

lemma local_laws:
  "keeps_sound (local_sound env) (host_poll env)" "keeps_sound (local_sound env) (local_phase env)"
  "keeps_sound (local_sound env) (local_cancel env a)" "keeps_sound (local_sound env) (begin_shutdown env)"
  "keeps_sound (local_sound env) (changes (\<lambda>s. fst (host_step env s c)))"
  by (rule local_keeps, rule safe_poll local_phase_safe local_cancel_safe safe_shutdown, assumption?)+
    (auto simp: keeps_sound_def wp_changes local_sound_def host_step_ok)

interpretation local: task_execution "local_port env" "local_sound env" for env :: "'w env"
proof
  fix h :: "'w running" and x
  assume "local_sound env h" and "tp_result (local_port env) h = Some x"
  then have "result_sound h" and "ch_result h = Some x"
    by (simp_all add: local_sound_def host_okD local_port_def)
  then show "cr_sum x = expected_sum (cr_iterations x)"
    by (auto simp: result_sound_def expected_result_def)
qed (simp_all add: local_port_def local_laws submit_local)

subsection \<open>The recovery session\<close>

definition same_iterations :: "'w recovering \<Rightarrow> 'w recovering \<Rightarrow> bool" where
  "same_iterations s t \<longleftrightarrow> cl_iterations t = cl_iterations s"

interpretation same_iterations: kept_relation same_iterations
  by unfold_locales (simp_all add: same_iterations_def)

lemma same_primitives:
  "keeps same_iterations (client_system f)" "keeps same_iterations (client_gate g)"
  "(\<And>s. cl_iterations (c s) = cl_iterations s) \<Longrightarrow> keeps same_iterations (changes c)"
  by (auto intro!: keepsI simp: wp_rules same_iterations_def split: prod.split)

lemma same_close: "keeps same_iterations (close_client so)"
  unfolding close_client_def
  by (intro same_iterations.keeps_intros same_primitives) (simp_all add: set_closed_def)

lemma same_record: "keeps same_iterations (client_record source now)"
  unfolding client_record_def by (intro same_iterations.keeps_intros same_primitives) simp

lemma same_queue: "keeps same_iterations (client_queue so m now)"
  unfolding client_queue_def
  by (intro same_iterations.keeps_intros same_primitives same_close) (simp add: queue_request_def)

lemma same_report: "keeps same_iterations (client_report so source now f)"
  unfolding client_report_def client_evidence_def
  by (intro same_iterations.keeps_intros same_primitives same_close same_record)

lemmas same_rules = same_iterations.keeps_intros same_primitives same_close same_record same_queue same_report

lemma same_kinds: "keeps same_iterations (observe_kinds so kinds candidate expires now)"
  by (induction kinds) (auto intro!: same_rules)

lemma same_operation: "keeps same_iterations (handle_operation so m now)"
  unfolding handle_operation_def finish_operation_def client_native_def client_accepted_output_def
    client_no_output_def client_settled_def
  by (intro same_rules) simp_all

lemma same_recovering:
  "keeps same_iterations (handle_hello so m now)" "keeps same_iterations (handle_snapshot so m now)"
  "keeps same_iterations (handle_activated so m now)"
  unfolding handle_hello_def handle_snapshot_def begin_recovery_def handle_activated_def
  by (intro same_rules same_kinds; simp)+

lemma same_time: "keeps same_iterations (client_time so now)"
  unfolding client_time_def by (intro same_rules) simp

lemma same_cases:
  "(\<And>a b. keeps same_iterations (f a b)) \<Longrightarrow> keeps same_iterations (case_prod f x)"
  "keeps same_iterations m1 \<Longrightarrow> keeps same_iterations m2 \<Longrightarrow> keeps same_iterations m3 \<Longrightarrow>
    keeps same_iterations (case io of IoDone \<Rightarrow> m1 | IoAgain \<Rightarrow> m2 | IoClosed \<Rightarrow> m3)"
  by (cases x, simp, cases io, simp_all)

lemma same_poll: "keeps same_iterations (client_poll so now)"
  unfolding client_poll_def send_pending_def client_receive_def client_handle_def
  by (intro same_rules same_cases same_time same_recovering same_operation) simp_all

lemma same_recover: "keeps same_iterations (client_recover so now)"
  unfolding client_recover_def by (intro same_rules same_time) simp

lemma closed_stays:
  assumes "cl_state s = ClClosed"
  shows "wp (client_poll so now) (\<lambda>_ t. cl_state t = ClClosed) s"
    and "wp (client_recover so now) (\<lambda>_ t. cl_state t = ClClosed) s"
    and "wp (client_submit so n now) (\<lambda>b t. \<not> b \<and> cl_state t = ClClosed) s"
  using assms
  by (simp_all add: client_poll_def client_recover_def client_submit_def client_time_def wp_rules)

text \<open>What a submission leaves of the iterations: the submitted ones, the old ones, or a closed client.\<close>

definition submitted_as :: "'w recovering \<Rightarrow> u64 \<Rightarrow> bool \<Rightarrow> 'w recovering \<Rightarrow> bool" where
  "submitted_as s n b t \<longleftrightarrow> (if b then cl_iterations t = n else cl_iterations t = cl_iterations s \<or> cl_state t = ClClosed)"

lemma close_submission: "wp (close_client so \<bind> (\<lambda>_. answer False)) (submitted_as s n) t"
  unfolding wp_bind
  by (rule wp_mono [OF wp_close_state]) (simp add: wp_answer submitted_as_def)

lemma queue_submission:
  "cl_iterations t = n \<Longrightarrow>
    wp (client_queue so m now) (\<lambda>b u. (b \<longrightarrow> cl_iterations u = n) \<and> (\<not> b \<longrightarrow> cl_state u = ClClosed)) t"
  using wp_close_state [of so t]
  by (auto simp: client_queue_def wp_rules queue_request_def elim!: wp_mono)

lemma start_submission: "wp (start_operation so a n now) (submitted_as s n) t"
proof -
  have "wp (client_queue so m now \<bind> (\<lambda>queued. if \<not> queued then answer False else do {
      changes (\<lambda>s. s\<lparr>cl_exchange := ExAcceptance\<rparr>);
      answer True
    })) (submitted_as s n) u" if "cl_iterations u = n" for m u
    unfolding wp_bind
    by (rule wp_mono [OF queue_submission [OF that]]) (auto simp: wp_rules submitted_as_def)
  then show ?thesis
    by (simp add: start_operation_def wp_bind [of "changes _"] wp_bind [of "client_gate _"] wp_changes
        wp_client_gate close_submission split: prod.split)
qed

lemma client_submission: "wp (client_submit so n now) (submitted_as s n) s"
proof -
  have "wp (client_time so now) (\<lambda>_ t. same_iterations s t) s" by (rule keepsD [OF same_time])
  then show ?thesis
    unfolding client_submit_def wp_bind [of "client_time _ _"]
    by (rule wp_mono)
      (auto simp: wp_bind [of "reads _"] wp_bind [of "client_gate _"] wp_reads wp_client_gate wp_answer
        start_submission submitted_as_def same_iterations_def split: prod.split option.split)
qed

definition bridge_sound :: "'w bridge \<Rightarrow> bool" where
  "bridge_sound b \<longleftrightarrow>
     client_ok (br_client b) \<and>
     (\<forall>x. br_result b = Some x \<longrightarrow> cr_sum x = expected_sum (cr_iterations x)) \<and>
     (cl_state (br_client b) \<noteq> ClClosed \<longrightarrow>
       (\<forall>p. br_pending b = Some p \<longrightarrow> cr_iterations p = cl_iterations (br_client b)))"

lemma wp_on_client [wp_rules]: "wp (on_client m) Q b = wp m (\<lambda>a c. Q a (b\<lparr>br_client := c\<rparr>)) (br_client b)"
  by (simp add: wp_def on_client_def split: prod.split)

text \<open>A client that keeps its iterations, unless it closes, keeps the session sound.\<close>

definition client_goes_on :: "'w recovering \<Rightarrow> 'w recovering \<Rightarrow> bool" where
  "client_goes_on s t \<longleftrightarrow> client_ok t \<and>
     (cl_state t \<noteq> ClClosed \<longrightarrow> cl_state s \<noteq> ClClosed \<and> cl_iterations t = cl_iterations s)"

lemma bridge_goes_on:
  "bridge_sound b \<Longrightarrow> client_goes_on (br_client b) t \<Longrightarrow> bridge_sound (b\<lparr>br_client := t\<rparr>)"
  by (auto simp: bridge_sound_def client_goes_on_def)

lemma poll_goes_on:
  assumes "client_ok s"
  shows "wp (client_poll so now) (\<lambda>_. client_goes_on s) s"
  using keepsD [OF same_poll, of so now s] client_poll_ok [OF assms, of so now] closed_stays(1) [of s so now]
  by (auto simp: wp_run client_goes_on_def same_iterations_def)

lemma recover_goes_on:
  assumes "client_ok s"
  shows "wp (client_recover so now) (\<lambda>_. client_goes_on s) s"
  using keepsD [OF same_recover, of so now s] client_recover_ok [OF assms, of so now] closed_stays(2) [of s so now]
  by (auto simp: wp_run client_goes_on_def same_iterations_def)

lemma close_goes_on:
  assumes "client_ok s"
  shows "wp (close_client so) (\<lambda>_. client_goes_on s) s"
  using wp_close_ok [OF assms, of so] wp_close_state [of so s]
  by (auto simp: wp_run client_goes_on_def)

lemma bridge_client: "bridge_sound b \<Longrightarrow> client_ok (br_client b)"
  by (simp add: bridge_sound_def)

lemma bridge_cleared: "bridge_sound b \<Longrightarrow> bridge_sound (b\<lparr>br_result := None\<rparr>)"
  by (simp add: bridge_sound_def)

lemma bridge_world: "bridge_sound b \<Longrightarrow> bridge_sound (b\<lparr>br_client := (br_client b)\<lparr>cl_world := w\<rparr>\<rparr>)"
  by (simp add: bridge_sound_def)

lemma close_bridge: "bridge_sound b \<Longrightarrow> wp (on_client (close_client so)) (\<lambda>_. bridge_sound) b"
  unfolding wp_on_client
  by (rule wp_mono [OF close_goes_on [OF bridge_client]]) (auto intro: bridge_goes_on)

lemma take_value_sound:
  assumes "bridge_sound b" and "cl_state (br_client b) \<noteq> ClClosed" and "br_pending b = Some p"
    and "cl_value (br_client b) = Some v"
  shows "wp (take_value so p v) (\<lambda>_. bridge_sound) b"
proof -
  have "v = expected_sum (cr_iterations p)"
    using assms by (simp add: bridge_sound_def client_ok_def value_sound_def recovery_sum_is_expected)
  then have "bridge_sound (b\<lparr>br_result := Some (p\<lparr>cr_sum := v\<rparr>), br_pending := None\<rparr>)"
    using assms(1) by (simp add: bridge_sound_def)
  then show ?thesis
    by (simp add: take_value_def wp_bind [of "reads _"] wp_reads wp_changes close_bridge [OF assms(1)])
qed

lemma bridge_poll_sound: "keeps_sound bridge_sound (bridge_poll time_of so)"
proof -
  have rest: "wp (bridge_observe so) (\<lambda>_. bridge_sound) b" if "bridge_sound b" for b :: "'a bridge"
    using that
    by (auto simp: bridge_observe_def wp_bind wp_reads wp_changes wp_skip bridge_cleared take_value_sound
        split: option.split)
  have "wp (on_client (client_poll so now)) (\<lambda>_. bridge_sound) b" if "bridge_sound b" for b :: "'a bridge" and now
    unfolding wp_on_client
    by (rule wp_mono [OF poll_goes_on [OF bridge_client [OF that]]]) (auto intro: bridge_goes_on [OF that])
  note polled = wp_mono [OF this rest]
  show ?thesis
    unfolding keeps_sound_def bridge_poll_def wp_bind [of "on_client _"]
    by (auto simp: wp_on_client [of "client_system _"] wp_client_system split: prod.split intro!: polled bridge_world)
qed

lemma bridge_submit_sound:
  assumes "bridge_sound b"
  shows "wp (bridge_submit time_of so n r) (\<lambda>x b'. bridge_sound b' \<and> submission_made x) b"
proof -
  let ?rest = "\<lambda>submitted. if \<not> submitted then answer (refused_submission AdRecoveryRequired)
     else reads (\<lambda>b. client_receipt (br_client b)) \<bind> (\<lambda>observed.
       case observed of
         None \<Rightarrow> on_client (close_client so) \<bind> (\<lambda>_. answer (refused_submission AdClosed))
       | Some rc \<Rightarrow> changes (\<lambda>b. b\<lparr>br_pending := Some \<lparr>cr_operation_id = oa_operation_id (rc_authority rc),
               cr_request_reference = r, cr_iterations = n, cr_sum = 0\<rparr>, br_result := None\<rparr>) \<bind> (\<lambda>_.
           answer \<lparr>csb_status = SbSubmitted, csb_admission_status = AdAdmitted,
             csb_authority = Some (rc_authority rc)\<rparr>))"
  have rest: "wp (?rest submitted) (\<lambda>x b'. bridge_sound b' \<and> submission_made x) (c\<lparr>br_client := t\<rparr>)"
    if c: "bridge_sound c" and t: "client_ok t" "submitted_as (br_client c) n submitted t"
      "cl_state (br_client c) = ClClosed \<Longrightarrow> \<not> submitted \<and> cl_state t = ClClosed" for c submitted t
  proof (cases submitted)
    case False
    with that show ?thesis
      by (auto simp: wp_answer submitted_as_def refused_submission_def submission_made_def bridge_sound_def)
  next
    case True
    have "wp (close_client so) (\<lambda>_ u. client_ok u \<and> cl_state u = ClClosed) t"
      using wp_close_ok [OF t(1), of so] wp_close_state [of so t] by (simp add: wp_conj)
    then have closed: "wp (close_client so) (\<lambda>_ u. bridge_sound (c\<lparr>br_client := u\<rparr>)) t"
      by (rule wp_mono) (use c in \<open>simp add: bridge_sound_def\<close>)
    show ?thesis
    proof (cases "client_receipt t")
      case None
      with True closed show ?thesis
        by (simp add: wp_bind wp_reads wp_on_client wp_answer refused_submission_def submission_made_def)
    next
      case (Some rc)
      with True t c show ?thesis
        by (simp add: wp_bind wp_reads wp_changes wp_answer submission_made_def submitted_as_def bridge_sound_def)
    qed
  qed
  have submitted: "wp (on_client (client_submit so n now)) (\<lambda>x. wp (?rest x) (\<lambda>x b'. bridge_sound b' \<and> submission_made x)) c"
    if c: "bridge_sound c" for c now
    using client_submit_ok [OF bridge_client [OF c], of so n now] client_submission [of so n now "br_client c"]
      closed_stays(3) [of "br_client c" so n now] rest [OF c]
    unfolding wp_on_client by (simp add: wp_run)
  show ?thesis
    unfolding bridge_submit_def wp_bind [of "on_client _"]
    using submitted [OF bridge_world [OF assms]]
    by (simp add: wp_on_client [of "client_system _"] wp_client_system split: prod.split)
qed

lemma bridge_shutdown_sound: "keeps_sound bridge_sound (bridge_shutdown so)"
  unfolding keeps_sound_def bridge_shutdown_def wp_bind
  by (auto simp: wp_changes bridge_cleared intro!: wp_mono [OF close_bridge])

lemma bridge_cancel_sound: "keeps_sound bridge_sound (bridge_cancel so a)"
  using bridge_shutdown_sound [of so]
  unfolding keeps_sound_def bridge_cancel_def
  by (auto simp: wp_bind wp_reads wp_on_condition wp_answers)

lemma bridge_recover_sound: "keeps_sound bridge_sound (bridge_recover so now)"
  unfolding keeps_sound_def bridge_recover_def wp_bind wp_on_client
  by (auto simp: wp_skip intro!: wp_mono [OF recover_goes_on [OF bridge_client]] intro: bridge_goes_on)

interpretation recovery: task_execution "recovery_port time_of so" bridge_sound
  for time_of :: "'w \<Rightarrow> monotonic_time \<times> 'w" and so :: "'w sockets"
proof
  fix b :: "'w bridge" and x
  assume "bridge_sound b" and "tp_result (recovery_port time_of so) b = Some x"
  then show "cr_sum x = expected_sum (cr_iterations x)"
    by (simp add: recovery_port_def bridge_sound_def)
qed (simp_all add: recovery_port_def bridge_poll_sound bridge_cancel_sound bridge_shutdown_sound
  bridge_recover_sound bridge_submit_sound, simp add: keeps_sound_def wp_reads)

end
