(* ===== verification/Compute_Task_Properties.thy ===== *)
theory Compute_Task_Properties
  imports Compute_Task_Ports
begin

text \<open>
  The properties of the two-step task, with a task over a concrete compute host and one
  over a concrete recovery session.
\<close>

subsection \<open>A task over the compute host\<close>

definition task_chunks :: "u8 list list" where
  "task_chunks = demo_chunks @ [[]] @
     map encode_frame [make_frame FkReady 0 0 0, make_frame FkProgress 7 91 0, make_frame FkCompleted 7 91 0]"

definition demo_task :: "(u8 list list running \<times> string list) tasked" where
  "demo_task = task.extend (the (make_task 7000)) (tasked.fields (demo_host\<lparr>rn_world := task_chunks\<rparr>, []))"

definition demo_goal_set :: ComputeGoal where
  "demo_goal_set = \<lparr>cg_revision = 1, cg_first_iterations = 5\<rparr>"

definition task_demo_calls :: "host_call task_call list" where
  "task_demo_calls = [TcOutside HcInitialize, TcRevise demo_goal_set, TcTick 1, TcTick 2, TcTick 3, TcTick 4]"

definition task_summary ::
  "('h \<times> string list) tasked \<Rightarrow> TaskOutcome \<times> u64 option \<times> u64 option \<times> u64 \<times> string list"
where
  "task_summary s = (tk_outcome s, tk_first_sum s, tk_final_sum s, tk_admitted_steps s, snd (tk_host s))"

lemma demo_task_run:
  "task_summary (run (task_step (logged (local_port demo_env))) demo_task task_demo_calls)
    = (ToSucceeded, Some 30, Some 91, 2, [''goal-1-step-1'', ''goal-1-step-2''])"
  by code_simp

lemma demo_task_initial: "task_initial (\<lambda>h. host_reachable demo_env (fst h) \<and> snd h = []) demo_task"
proof -
  let ?h = "demo_host\<lparr>rn_world := task_chunks\<rparr>"
  have fields: "tk_host demo_task = (?h, [])" "make_task 7000 = Some (task.truncate demo_task)"
    by (simp_all add: demo_task_def make_task_def task.defs tasked.defs)
  have "host_initial ?h" using demo_host_initial by (auto simp: host_initial_def compute_host.truncate_def)
  then have "host_reachable demo_env ?h" by (rule reachable_init)
  with fields show ?thesis by (auto simp: task_initial_def)
qed

abbreviation demo_task_done :: "(u8 list list running \<times> string list) tasked" where
  "demo_task_done \<equiv> run (task_step (logged (local_port demo_env))) demo_task task_demo_calls"

lemma demo_task_reachable:
  "task_reachable (logged (local_port demo_env)) (\<lambda>h. host_reachable demo_env (fst h) \<and> snd h = []) demo_task_done"
  by (rule reachable_run) (rule reachable_init, rule demo_task_initial)

lemma demo_task_fields:
  "tk_outcome demo_task_done = ToSucceeded" "tk_first_sum demo_task_done = Some 30"
  "tk_final_sum demo_task_done = Some 91" "snd (tk_host demo_task_done) = [''goal-1-step-1'', ''goal-1-step-2'']"
  using demo_task_run by (simp_all add: task_summary_def)

text \<open>What is reachable from fewer starts is reachable from more.\<close>

lemma task_reachable_mono:
  assumes "task_reachable port started s" and "\<And>h. started h \<Longrightarrow> begun h"
  shows "task_reachable port begun s"
  using assms(1)
  by (induction rule: reachable.induct) (auto intro: reachable.intros simp: task_initial_def assms(2))

lemma local_task_followed:
  assumes "reads_bounded (worker_os env)"
    and "task_reachable (logged (local_port env)) (\<lambda>h. host_reachable env (fst h) \<and> snd h = []) s"
  shows "followed (local_sound env) s"
proof (rule local.task_followed, rule task_reachable_mono [OF assms(2)])
  fix h :: "'a running \<times> string list"
  show "host_reachable env (fst h) \<and> snd h = [] \<Longrightarrow> local_sound env (fst h) \<and> snd h = []"
    using assms(1) host_reachable_ok [OF assms(1)] by (simp add: local_sound_def)
qed

subsection \<open>Success\<close>

text \<open>
  C37. A task that has succeeded has verified both steps, whatever the execution behind its
  port did: its first sum is the sum of the squares of \<open>i mod 1000\<close> over the iterations of
  its goal, and its final sum is that sum over the iterations that the first result selects.
\<close>

theorem succeeded_task_is_verified:
  assumes "task_reachable port started s" and "tk_outcome s = ToSucceeded"
  shows "\<exists>g first. tk_goal s = Some g \<and> tk_first_sum s = Some first \<and>
    first = of_nat (\<Sum>i<unat (cg_first_iterations g). (i mod 1000)\<^sup>2) \<and>
    tk_final_sum s = Some (of_nat (\<Sum>i<unat (first mod 8 + 1). (i mod 1000)\<^sup>2))"
  using task_reachable_ok [OF assms(1)] assms(2)
  by (auto simp: task_ok_def application_sum_reference reference_sum_def second_iterations_def)

theorem succeeded_task_is_verified_witness:
  "\<exists>g first. tk_goal demo_task_done = Some g \<and> tk_first_sum demo_task_done = Some first \<and>
    first = of_nat (\<Sum>i<unat (cg_first_iterations g). (i mod 1000)\<^sup>2) \<and>
    tk_final_sum demo_task_done = Some (of_nat (\<Sum>i<unat (first mod 8 + 1). (i mod 1000)\<^sup>2))"
  by (rule succeeded_task_is_verified [OF demo_task_reachable demo_task_fields(1)])

subsection \<open>Submissions\<close>

text \<open>
  C38. No step is submitted twice: over the compute host, whatever the operating system, the
  clock, the caller and the callers of the host beside the task do, all references that the
  task has ever submitted are different. A step that failed, was refused or was cancelled is
  not retried, and a goal that was replaced is not resumed.
\<close>

theorem steps_are_submitted_once:
  assumes "reads_bounded (worker_os env)"
    and "task_reachable (logged (local_port env)) (\<lambda>h. host_reachable env (fst h) \<and> snd h = []) s"
  shows "distinct (snd (tk_host s))"
  using local_task_followed [OF assms] by (simp add: followed_def accounted_def)

theorem steps_are_submitted_once_witness:
  "distinct (snd (tk_host demo_task_done)) \<and> length (snd (tk_host demo_task_done)) = 2"
  using steps_are_submitted_once [OF demo_env_bounded demo_task_reachable] demo_task_fields(4) by simp

text \<open>
  The application's arithmetic check never fails over the compute host: the closed form
  of the host, the accumulation of the worker and the term by term sum of the task agree.
\<close>

theorem arithmetic_check_holds:
  assumes "reads_bounded (worker_os env)"
    and "task_reachable (logged (local_port env)) (\<lambda>h. host_reachable env (fst h) \<and> snd h = []) s"
  shows "tk_detail s \<noteq> ''application arithmetic check failed''"
  using local_task_followed [OF assms] by (simp add: followed_def)

theorem arithmetic_check_holds_witness:
  "tk_detail demo_task_done \<noteq> ''application arithmetic check failed''"
  by (rule arithmetic_check_holds [OF demo_env_bounded demo_task_reachable])

subsection \<open>Over a recovery session\<close>

definition bridge_started :: "'w sockets \<Rightarrow> 'w bridge \<Rightarrow> bool" where
  "bridge_started so b \<longleftrightarrow> client_reachable so (br_client b) \<and> br_pending b = None \<and> br_result b = None"

definition demo_session :: "(client_world bridge \<times> string list) tasked" where
  "demo_session = task.extend (the (make_task 7000))
     (tasked.fields (\<lparr>br_client = ready_client, br_pending = None, br_result = None\<rparr>, []))"

lemma demo_session_initial: "task_initial (\<lambda>h. bridge_started client_sockets (fst h) \<and> snd h = []) demo_session"
proof -
  have "make_task 7000 = Some (task.truncate demo_session)"
    by (simp add: demo_session_def make_task_def task.defs tasked.defs)
  moreover have "tk_host demo_session = (\<lparr>br_client = ready_client, br_pending = None, br_result = None\<rparr>, [])"
    by (simp add: demo_session_def make_task_def task.defs tasked.defs)
  ultimately show ?thesis
    by (auto simp: task_initial_def bridge_started_def ready_client_reachable)
qed

abbreviation demo_session_run :: "(client_world bridge \<times> string list) tasked" where
  "demo_session_run \<equiv> run (task_step (logged (recovery_port (\<lambda>w. (5, w)) client_sockets))) demo_session
     [TcRevise demo_goal_set, TcTick 1]"

lemma demo_session_reachable:
  "task_reachable (logged (recovery_port (\<lambda>w. (5, w)) client_sockets))
    (\<lambda>h. bridge_started client_sockets (fst h) \<and> snd h = []) demo_session_run"
  by (rule reachable_run) (rule reachable_init, rule demo_session_initial)

text \<open>
  C39. Over a recovery session, too, no step is submitted twice and the arithmetic check
  never fails: the sum that the owner reports is the one that the client expects, and the
  metadata that the port keeps is that of the operation the sum belongs to.
\<close>

theorem recovered_results_are_correct:
  assumes "task_reachable (logged (recovery_port time_of so)) (\<lambda>h. bridge_started so (fst h) \<and> snd h = []) s"
  shows "distinct (snd (tk_host s)) \<and> tk_detail s \<noteq> ''application arithmetic check failed''"
proof -
  have "bridge_sound b" if "bridge_started so b" for b
    using that by (auto simp: bridge_started_def bridge_sound_def intro: client_reachable_ok)
  note sound = this
  have "followed bridge_sound s"
    by (rule recovery.task_followed, rule task_reachable_mono [OF assms]) (use sound in auto)
  then show ?thesis by (simp add: followed_def accounted_def)
qed

theorem recovered_results_are_correct_witness:
  "distinct (snd (tk_host demo_session_run)) \<and> tk_detail demo_session_run \<noteq> ''application arithmetic check failed''"
  by (rule recovered_results_are_correct [OF demo_session_reachable])

subsection \<open>Attention and patience\<close>

lemma wp_true [simp]: "wp m (\<lambda>a t. True) s"
  by (simp add: wp_run)

lemma attentive_member:
  assumes "tk_outcome s = ToNeedsAttention"
  shows "wp (task_member (logged port) c) (\<lambda>_ t. tk_outcome t = ToNeedsAttention \<and> snd (tk_host t) = snd (tk_host s)) s"
  using assms
  by (cases c) (simp_all add: note_interrupted_goal_def revise_goal_def tick_task_def open_tick_def shut_down_task_def
      needs_attention_def task_wp wp_on_port wp_beside split: option.split)

text \<open>
  Attention is final. A task that needs attention stays so and submits nothing more,
  whatever is called afterwards, over every execution.
\<close>

theorem attention_is_final:
  assumes "tk_outcome s = ToNeedsAttention"
  shows "tk_outcome (run (task_step (logged port)) s cs) = ToNeedsAttention \<and>
    snd (tk_host (run (task_step (logged port)) s cs)) = snd (tk_host s)"
  using assms
proof (induction cs arbitrary: s)
  case (Cons c cs)
  from attentive_member [OF Cons.prems, of port c] Cons.IH [of "fst (task_step (logged port) s c)"]
  show ?case by (simp add: task_step_run wp_run)
qed simp

abbreviation demo_interrupted :: "(u8 list list running \<times> string list) tasked" where
  "demo_interrupted \<equiv> fst (task_step (logged (local_port demo_env)) demo_task (TcNote demo_goal_set))"

lemma demo_interrupted_outcome: "tk_outcome demo_interrupted = ToNeedsAttention"
proof -
  have "wp (task_member (logged (local_port demo_env)) (TcNote demo_goal_set)) (\<lambda>_ t. tk_outcome t = ToNeedsAttention)
      demo_task"
    by (simp add: note_interrupted_goal_def task_wp demo_task_def make_task_def task.defs tasked.defs
        goal_invalid_def demo_goal_set_def)
  then show ?thesis by (simp add: task_step_run wp_run)
qed

theorem attention_is_final_witness:
  "tk_outcome (run (task_step (logged (local_port demo_env))) demo_interrupted [TcRevise demo_goal_set, TcTick 1])
    = ToNeedsAttention"
  using attention_is_final [OF demo_interrupted_outcome] by blast









end
