(* ===== verification/Sample_Host.thy ===== *)
theory Sample_Host
  imports Gate_Machine Program
begin

text \<open>
  The deterministic sample host of \<open>src/sample/sample_execution.cpp\<close>: its data, the
  worker and result sink that it simulates (\<open>DeterministicSampleAdapter\<close>), and the events
  that the adapter's callback stages. The host and its adapter call each other, so their
  members are programs over one state, the host with its adapter and the world of the
  caller's clock. The clock is \<open>'w \<Rightarrow> monotonic_time \<times> 'w\<close>; an empty \<open>std::function\<close> is
  \<open>None\<close>, and a callback is the flag \<open>sa_has_callback\<close>, since it is always the host's.
\<close>

subsection \<open>Requests and results\<close>

type_synonym i32 = "32 word"
type_synonym i64 = "64 word"

record SampleRequest =
  sq_request_reference :: string
  sq_values :: "i32 list"
  sq_deadline :: "monotonic_time option"

record SampleResult =
  sr_operation_id :: operation_id
  sr_request_reference :: string
  sr_squared_values :: "i64 list"
  sr_sum_of_squares :: i64

datatype CompletionMode = CmSynchronous | CmDeferred
datatype CancellationMode = CnCooperative | CnIgnore | CnRefuse | CnUnavailable | CnNoAcknowledgement

datatype SampleSubmissionStatus =
  SsPrepared | SsSubmitted | SsInvalidArgument | SsAdmissionBlocked | SsDispatchBlocked

record SampleSubmission =
  ssb_status :: SampleSubmissionStatus
  ssb_admission_status :: AdmissionStatus
  ssb_authority :: "OperationAuthority option"

definition kMaximumSampleValues :: nat where "kMaximumSampleValues = 16"
definition kMaximumAbsoluteSampleValue :: int where "kMaximumAbsoluteSampleValue = 10000"

definition kSampleBinding :: BindingIdentity where
  "kSampleBinding = \<lparr>bid_provider_id = ''deterministic-sample-worker'', bid_effect_domain = ''managed-sample-result'',
     bid_composition_revision = 1, bid_provider_generation = 1\<rparr>"

definition kCapabilityId :: string where "kCapabilityId = ''sample.square''"
definition kBindingObserver :: string where "kBindingObserver = ''deterministic-sample-adapter''"
definition kWorkerObserver :: string where "kWorkerObserver = ''deterministic-sample-worker''"
definition kResultSinkObserver :: string where "kResultSinkObserver = ''managed-sample-result-sink''"
definition kNativeEvidenceSource :: string where "kNativeEvidenceSource = ''deterministic-sample-worker''"
definition kSettlementEvidenceSource :: string where "kSettlementEvidenceSource = ''deterministic-sample-adapter''"
definition kTargetReference :: string where "kTargetReference = ''managed-sample-result-sink''"
definition kSettlementScope :: string where "kSettlementScope = ''worker-callbacks-and-managed-result''"

definition sample_request_valid :: "SampleRequest \<Rightarrow> bool" where
  "sample_request_valid q \<longleftrightarrow>
     sq_request_reference q \<noteq> [] \<and> sq_values q \<noteq> [] \<and> length (sq_values q) \<le> kMaximumSampleValues \<and>
     list_all (\<lambda>v. \<not> (sint v < - kMaximumAbsoluteSampleValue \<or> sint v > kMaximumAbsoluteSampleValue)) (sq_values q)"

subsection \<open>The adapter\<close>

datatype CallbackKind =
    CkNotSubmitted | CkAccepted | CkRejected | CkStarted | CkTerminalSucceeded | CkTerminalFailed
  | CkTerminalCancelled | CkNoOutputProduced | CkResult | CkSettled

datatype ResultAcceptance = RaAccepted | RaSinkUnavailable | RaInvalid | RaPermissionDenied

record NativeCallback =
  nc_kind :: CallbackKind
  nc_authority :: OperationAuthority
  nc_native_identity :: string
  nc_sequence :: u64
  nc_result :: "SampleResult option"

record StagedEvent =
  st_callback :: NativeCallback
  st_observed_at :: monotonic_time

record WorkItem =
  wi_authority :: OperationAuthority
  wi_request :: SampleRequest
  wi_native_identity :: string
  wi_is_cancelled :: bool

record sample_adapter =
  sa_completion_mode :: CompletionMode
  sa_has_callback :: bool
  sa_worker_ready :: bool
  sa_result_sink_ready :: bool
  sa_is_closed :: bool
  sa_reject_next :: bool
  sa_fail_next :: bool
  sa_cancellation_mode :: CancellationMode
  sa_settlement_reporting :: bool
  sa_result_replay :: bool
  sa_replay_result :: "NativeCallback option"
  sa_denial_count :: u64
  sa_stop_request_count :: u64
  sa_pending_work :: "WorkItem option"
  sa_results :: "SampleResult list"
  sa_submission_count :: u64
  sa_execution_count :: u64

text \<open>An adapter with the host's callback set.\<close>

definition new_adapter :: "CompletionMode \<Rightarrow> sample_adapter" where
  "new_adapter mode =
    \<lparr>sa_completion_mode = mode, sa_has_callback = True, sa_worker_ready = True,
     sa_result_sink_ready = True, sa_is_closed = False, sa_reject_next = False, sa_fail_next = False,
     sa_cancellation_mode = CnCooperative, sa_settlement_reporting = True, sa_result_replay = False,
     sa_replay_result = None, sa_denial_count = 0, sa_stop_request_count = 0, sa_pending_work = None,
     sa_results = [], sa_submission_count = 0, sa_execution_count = 0\<rparr>"

definition is_idle_and_settled :: "sample_adapter \<Rightarrow> bool" where
  "is_idle_and_settled a \<longleftrightarrow> sa_pending_work a = None"

definition is_worker_ready :: "sample_adapter \<Rightarrow> bool" where
  "is_worker_ready a \<longleftrightarrow> sa_worker_ready a \<and> \<not> sa_is_closed a"

definition is_result_sink_ready :: "sample_adapter \<Rightarrow> bool" where
  "is_result_sink_ready a \<longleftrightarrow> sa_result_sink_ready a \<and> \<not> sa_is_closed a"

definition retained_result :: "sample_adapter \<Rightarrow> NativeCallback option" where
  "retained_result a = (if sa_is_closed a then None else sa_replay_result a)"

definition close_adapter :: "sample_adapter \<Rightarrow> sample_adapter" where
  "close_adapter a =
    (if sa_is_closed a then a
     else a\<lparr>sa_worker_ready := False, sa_result_sink_ready := False, sa_replay_result := None,
            sa_result_replay := False, sa_is_closed := True\<rparr>)"

definition inherit_observations :: "sample_adapter \<Rightarrow> sample_adapter \<Rightarrow> sample_adapter" where
  "inherit_observations old a =
     a\<lparr>sa_results := sa_results old, sa_replay_result := sa_replay_result old,
       sa_result_replay := sa_result_replay old, sa_denial_count := sa_denial_count old,
       sa_stop_request_count := sa_stop_request_count old,
       sa_submission_count := sa_submission_count old, sa_execution_count := sa_execution_count old\<rparr>"

text \<open>
  \<open>request_stop\<close>: the answer \<open>None\<close> is the fixture that never acknowledges. The counter is
  a \<open>std::size_t\<close>.
\<close>

definition adapter_request_stop ::
  "OperationAuthority \<Rightarrow> sample_adapter \<Rightarrow> sample_adapter \<times> StopAcknowledgement option" where
  "adapter_request_stop authority a =
    (let a = a\<lparr>sa_stop_request_count := sa_stop_request_count a + 1\<rparr>
     in case sa_pending_work a of
       None \<Rightarrow> (a, Some SaUnavailable)
     | Some work \<Rightarrow>
         if oa_operation_id (wi_authority work) \<noteq> oa_operation_id authority \<or>
            \<not> binding_eq (oa_binding (wi_authority work)) (oa_binding authority) \<or>
            oa_admitted_at (wi_authority work) \<noteq> oa_admitted_at authority
         then (a, Some SaUnavailable)
         else case sa_cancellation_mode a of
           CnCooperative \<Rightarrow> (a\<lparr>sa_pending_work := Some (work\<lparr>wi_is_cancelled := True\<rparr>)\<rparr>, Some SaAcknowledged)
         | CnIgnore \<Rightarrow> (a, Some SaAcknowledged)
         | CnRefuse \<Rightarrow> (a, Some SaRefused)
         | CnUnavailable \<Rightarrow> (a, Some SaUnavailable)
         | CnNoAcknowledgement \<Rightarrow> (a, None))"

subsection \<open>The worker's computation\<close>

definition square_value :: "i32 \<Rightarrow> i64" where
  "square_value value = (let wide_value = scast value :: i64 in wide_value * wide_value)"

definition square_result :: "WorkItem \<Rightarrow> SampleResult" where
  "square_result work =
     fold (\<lambda>value result. let square = square_value value
           in result\<lparr>sr_squared_values := sr_squared_values result @ [square],
                     sr_sum_of_squares := sr_sum_of_squares result + square\<rparr>)
       (sq_values (wi_request work))
       \<lparr>sr_operation_id = oa_operation_id (wi_authority work),
        sr_request_reference = sq_request_reference (wi_request work),
        sr_squared_values = [], sr_sum_of_squares = 0\<rparr>"

text \<open>
  The state of the sample host and the members of its implementation: reading the clock,
  the adapter's emission of events, control, polling and the event loop. A member that
  reads the clock may throw, \<open>FaultClock\<close>, when the clock has moved backwards.
\<close>

record sample_host =
  sh_started_at :: monotonic_time
  sh_last_time :: monotonic_time
  sh_has_read_time :: bool
  sh_gate :: gate
  sh_adapter :: sample_adapter
  sh_staged_events :: "StagedEvent list"
  sh_current_authority :: "OperationAuthority option"
  sh_prepared_authority :: "OperationAuthority option"
  sh_prepared_request :: "SampleRequest option"
  sh_binding_sequence :: u64
  sh_worker_sequence :: u64
  sh_sink_sequence :: u64
  sh_is_shutdown :: bool

record 'w sampling = sample_host +
  sh_world :: 'w

type_synonym 'w clock = "'w \<Rightarrow> monotonic_time \<times> 'w"

text \<open>\<open>std::logic_error\<close> of a member, \<open>std::invalid_argument\<close> of the constructor.\<close>

datatype SampleFault = FaultClock | FaultArgument

type_synonym ('w, 'a) sample_member = "('w sampling, SampleFault, 'a) fallible"

subsection \<open>Primitives\<close>

definition sample_gate_call :: "(gate \<Rightarrow> gate \<times> 'a) \<Rightarrow> ('w sampling, 'a) program" where
  "sample_gate_call f = State (\<lambda>s. case f (sh_gate s) of (g, a) \<Rightarrow> (a, s\<lparr>sh_gate := g\<rparr>))"

definition on_adapter :: "(sample_adapter \<Rightarrow> sample_adapter \<times> 'a) \<Rightarrow> ('w sampling, 'a) program" where
  "on_adapter f = State (\<lambda>s. case f (sh_adapter s) of (d, a) \<Rightarrow> (a, s\<lparr>sh_adapter := d\<rparr>))"

definition adapter_changes :: "(sample_adapter \<Rightarrow> sample_adapter) \<Rightarrow> ('w sampling, unit) program" where
  "adapter_changes f = changes (\<lambda>s. s\<lparr>sh_adapter := f (sh_adapter s)\<rparr>)"

definition sample_tick :: "'w clock \<Rightarrow> ('w sampling, monotonic_time) program" where
  "sample_tick clock = State (\<lambda>s. case clock (sh_world s) of (t, w) \<Rightarrow> (t, s\<lparr>sh_world := w\<rparr>))"

definition read_time :: "'w clock \<Rightarrow> ('w, monotonic_time) sample_member" where
  "read_time clock = do {
     current \<leftarrow> sample_tick clock;
     has_read \<leftarrow> reads sh_has_read_time;
     last \<leftarrow> reads sh_last_time;
     if has_read \<and> current < last then fails FaultClock
     else do {
       changes (\<lambda>s. s\<lparr>sh_has_read_time := True, sh_last_time := current\<rparr>);
       yields current
     }
   }"

text \<open>The callback that the host gives its adapter.\<close>

definition stage_event :: "'w clock \<Rightarrow> NativeCallback \<Rightarrow> ('w, unit) sample_member" where
  "stage_event clock callback =
     attempt (read_time clock) (\<lambda>time.
       does (changes (\<lambda>s. s\<lparr>sh_staged_events := sh_staged_events s @
         [\<lparr>st_callback = callback, st_observed_at = time\<rparr>]\<rparr>)))"

subsection \<open>The adapter's events\<close>

definition retain_result :: "NativeCallback \<Rightarrow> sample_adapter \<Rightarrow> sample_adapter" where
  "retain_result callback a =
    (if nc_kind callback = CkResult \<and> sa_result_replay a \<and> sa_replay_result a = None
     then a\<lparr>sa_replay_result := Some callback\<rparr> else a)"

definition emit ::
  "'w clock \<Rightarrow> WorkItem \<Rightarrow> CallbackKind \<Rightarrow> u64 \<Rightarrow> SampleResult option \<Rightarrow> ('w, unit) sample_member" where
  "emit clock work kind sequence result = do {
     a \<leftarrow> reads sh_adapter;
     if kind = CkSettled \<and> \<not> sa_settlement_reporting a then yields ()
     else if sa_has_callback a then do {
       let callback = \<lparr>nc_kind = kind, nc_authority = wi_authority work,
         nc_native_identity = wi_native_identity work, nc_sequence = sequence, nc_result = result\<rparr>;
       adapter_changes (retain_result callback);
       stage_event clock callback
     }
     else yields ()
   }"

text \<open>Emissions in a row; an exception of one skips the rest.\<close>

fun emit_all ::
  "'w clock \<Rightarrow> WorkItem \<Rightarrow> (CallbackKind \<times> u64 \<times> SampleResult option) list \<Rightarrow> ('w, unit) sample_member" where
  "emit_all clock work [] = yields ()"
| "emit_all clock work ((kind, sequence, result) # rest) =
     attempt (emit clock work kind sequence result) (\<lambda>_. emit_all clock work rest)"

definition finish_work :: "'w clock \<Rightarrow> WorkItem \<Rightarrow> ('w, unit) sample_member" where
  "finish_work clock work =
    (if wi_is_cancelled work
     then emit_all clock work
       [(CkTerminalCancelled, 2, None), (CkNoOutputProduced, 1, None), (CkSettled, 2, None)]
     else do {
       adapter_changes (\<lambda>a. a\<lparr>sa_execution_count := sa_execution_count a + 1\<rparr>);
       attempt (emit clock work CkStarted 2 None) (\<lambda>_. do {
         failing \<leftarrow> reads (\<lambda>s. sa_fail_next (sh_adapter s));
         if failing then do {
           adapter_changes (\<lambda>a. a\<lparr>sa_fail_next := False\<rparr>);
           emit_all clock work
             [(CkTerminalFailed, 3, None), (CkNoOutputProduced, 1, None), (CkSettled, 2, None)]
         }
         else emit_all clock work
           [(CkTerminalSucceeded, 3, None), (CkResult, 4, Some (square_result work)), (CkSettled, 5, None)]
       })
     })"

definition new_work :: "OperationAuthority \<Rightarrow> SampleRequest \<Rightarrow> WorkItem" where
  "new_work authority request =
    \<lparr>wi_authority = authority, wi_request = request,
     wi_native_identity = ''native-sample-'' @ u64_to_string (oa_operation_id authority),
     wi_is_cancelled = False\<rparr>"

text \<open>The work that the adapter does with a permitted dispatch.\<close>

definition submit_work :: "'w clock \<Rightarrow> WorkItem \<Rightarrow> ('w, bool) sample_member" where
  "submit_work clock work = do {
     adapter_changes (\<lambda>a. a\<lparr>sa_submission_count := sa_submission_count a + 1\<rparr>);
     a \<leftarrow> reads sh_adapter;
     if sa_reject_next a then do {
       adapter_changes (\<lambda>a. a\<lparr>sa_reject_next := False\<rparr>);
       attempt (emit_all clock work [(CkRejected, 1, None), (CkNoOutputProduced, 1, None), (CkSettled, 2, None)])
         (\<lambda>_. yields True)
     }
     else attempt (emit clock work CkAccepted 1 None) (\<lambda>_. do {
       mode \<leftarrow> reads (\<lambda>s. sa_completion_mode (sh_adapter s));
       if mode = CmSynchronous then attempt (finish_work clock work) (\<lambda>_. yields True)
       else do {
         adapter_changes (\<lambda>a. a\<lparr>sa_pending_work := Some work\<rparr>);
         yields True
       }
     })
   }"

definition not_submitted :: "'w clock \<Rightarrow> WorkItem \<Rightarrow> ('w, unit) sample_member" where
  "not_submitted clock work =
     emit_all clock work [(CkNotSubmitted, 1, None), (CkNoOutputProduced, 2, None), (CkSettled, 3, None)]"

definition adapter_dispatch ::
  "'w clock \<Rightarrow> OperationAuthority \<Rightarrow> SampleRequest \<Rightarrow> ('w, bool) sample_member \<Rightarrow> ('w, bool) sample_member" where
  "adapter_dispatch clock authority request permission = do {
     a \<leftarrow> reads sh_adapter;
     attempt (if \<not> is_worker_ready a \<or> \<not> is_result_sink_ready a \<or> sa_pending_work a \<noteq> None
              then yields False else permission) (\<lambda>permitted.
       if \<not> permitted
       then attempt (not_submitted clock (new_work authority request)) (\<lambda>_. yields False)
       else submit_work clock (new_work authority request))
   }"

text \<open>The work item of \<open>confirm_non_submission\<close> carries only its authority.\<close>

definition confirm_non_submission :: "'w clock \<Rightarrow> OperationAuthority \<Rightarrow> ('w, unit) sample_member" where
  "confirm_non_submission clock authority =
     not_submitted clock \<lparr>wi_authority = authority,
       wi_request = \<lparr>sq_request_reference = [], sq_values = [], sq_deadline = None\<rparr>,
       wi_native_identity = [], wi_is_cancelled = False\<rparr>"

text \<open>\<open>drain_pending\<close>: the pending work, if any, is taken and finished.\<close>

definition take_pending :: "sample_adapter \<Rightarrow> sample_adapter \<times> WorkItem option" where
  "take_pending a = (a\<lparr>sa_pending_work := None\<rparr>, sa_pending_work a)"

definition drain_pending :: "'w clock \<Rightarrow> ('w, unit) sample_member" where
  "drain_pending clock = do {
     pending \<leftarrow> on_adapter take_pending;
     case pending of None \<Rightarrow> yields () | Some work \<Rightarrow> finish_work clock work
   }"

definition complete_pending :: "'w clock \<Rightarrow> ('w, bool) sample_member" where
  "complete_pending clock = do {
     a \<leftarrow> reads sh_adapter;
     if sa_pending_work a = None \<or> sa_is_closed a then yields False
     else attempt (drain_pending clock) (\<lambda>_. yields True)
   }"

definition accept_result ::
  "OperationAuthority \<Rightarrow> SampleResult \<Rightarrow> (gate \<Rightarrow> bool) \<Rightarrow> ('w sampling, ResultAcceptance) program" where
  "accept_result authority result permission = do {
     g \<leftarrow> reads sh_gate;
     a \<leftarrow> reads sh_adapter;
     if sr_operation_id result \<noteq> oa_operation_id authority then answer RaInvalid
     else if \<not> permission g then do {
       adapter_changes (\<lambda>a. a\<lparr>sa_denial_count := sa_denial_count a + 1\<rparr>);
       answer RaPermissionDenied
     }
     else if \<not> is_result_sink_ready a then answer RaSinkUnavailable
     else do {
       adapter_changes (\<lambda>a. a\<lparr>sa_results := sa_results a @ [result]\<rparr>);
       answer RaAccepted
     }
   }"

subsection \<open>Control\<close>

definition discard_prepared :: "'w clock \<Rightarrow> ('w, unit) sample_member" where
  "discard_prepared clock = do {
     prepared \<leftarrow> reads sh_prepared_authority;
     case prepared of
       None \<Rightarrow> yields ()
     | Some authority \<Rightarrow> do {
         changes (\<lambda>s. s\<lparr>sh_prepared_request := None, sh_prepared_authority := None\<rparr>);
         confirm_non_submission clock authority
       }
   }"

definition stop_native :: "'w clock \<Rightarrow> OperationAuthority \<Rightarrow> ('w, unit) sample_member" where
  "stop_native clock authority = do {
     acknowledgement \<leftarrow> on_adapter (adapter_request_stop authority);
     case acknowledgement of
       None \<Rightarrow> yields ()
     | Some acknowledged \<Rightarrow>
         attempt (read_time clock) (\<lambda>time. do {
           sample_gate_call (\<lambda>g. observe_stop_acknowledgement g
             \<lparr>sae_authority = authority, sae_acknowledgement = acknowledged,
              sae_record = \<lparr>er_source = ''native-stop'', er_observed_at = time, er_sequence = 1\<rparr>\<rparr>);
           yields ()
         })
   }"

definition apply_control :: "'w clock \<Rightarrow> OperationAuthority \<Rightarrow> ControlDecision \<Rightarrow> ('w, unit) sample_member" where
  "apply_control clock authority decision =
     attempt_when (cd_status decision = CsApplied) (do {
       prepared \<leftarrow> reads sh_prepared_authority;
       attempt (attempt_when
           (case prepared of None \<Rightarrow> False | Some p \<Rightarrow> oa_operation_id p = oa_operation_id authority)
           (discard_prepared clock))
         (\<lambda>_. attempt_when (cd_should_request_native_stop decision) (stop_native clock authority))
     })"

definition sample_observe_time :: "'w clock \<Rightarrow> monotonic_time \<Rightarrow> ('w, ControlDecision) sample_member" where
  "sample_observe_time clock now = do {
     current \<leftarrow> reads sh_current_authority;
     case current of
       None \<Rightarrow> yields \<lparr>cd_status = CsNoActiveOperation, cd_should_request_native_stop = False\<rparr>
     | Some authority \<Rightarrow> do {
         decision \<leftarrow> sample_gate_call (\<lambda>g. observe_time g authority now);
         attempt (apply_control clock authority decision) (\<lambda>_. yields decision)
       }
   }"

definition sample_withdraw :: "'w clock \<Rightarrow> BindingIdentity \<Rightarrow> ('w, BindingDecision) sample_member" where
  "sample_withdraw clock expected_binding =
     attempt (read_time clock) (\<lambda>time. do {
       decision \<leftarrow> sample_gate_call (\<lambda>g. withdraw_binding g expected_binding time);
       attempt (attempt_when (bd_status decision = BcApplied)
           (attempt (discard_prepared clock) (\<lambda>_.
             case bd_native_stop_authority decision of
               None \<Rightarrow> yields ()
             | Some authority \<Rightarrow> apply_control clock authority
                 \<lparr>cd_status = CsApplied, cd_should_request_native_stop = True\<rparr>)))
         (\<lambda>_. yields decision)
     })"

definition sample_poll :: "'w clock \<Rightarrow> ('w, ControlDecision) sample_member" where
  "sample_poll clock =
     attempt (read_time clock) (\<lambda>now. do {
       g \<leftarrow> reads sh_gate;
       a \<leftarrow> reads sh_adapter;
       attempt (attempt_when
           (ss_state (startup_status g) = IsReady \<and> (\<not> is_worker_ready a \<or> \<not> is_result_sink_ready a))
           (attempt (sample_withdraw clock (bs_active (binding_status g now))) (\<lambda>_. yields ())))
         (\<lambda>_. do {
           last \<leftarrow> reads sh_last_time;
           sample_observe_time clock last
         })
     })"

definition sample_cancel :: "'w clock \<Rightarrow> OperationAuthority \<Rightarrow> ('w, ControlDecision) sample_member" where
  "sample_cancel clock authority =
     attempt (sample_poll clock) (\<lambda>_. attempt (read_time clock) (\<lambda>time. do {
       decision \<leftarrow> sample_gate_call (\<lambda>g. request_cancel g authority time);
       attempt (apply_control clock authority decision) (\<lambda>_. yields decision)
     }))"

end
