(* ===== verification/Sample_Interface.thy ===== *)
theory Sample_Interface
  imports Sample_Host
begin

text \<open>
  The event loop, rebinding, shutdown and the public members of \<open>SampleExecutionHost\<close>,
  and the host as a machine.
\<close>

subsection \<open>Processing staged events\<close>

definition native_kind :: "CallbackKind \<Rightarrow> NativeEventKind option" where
  "native_kind kind =
    (case kind of
       CkAccepted \<Rightarrow> Some NkAccepted
     | CkRejected \<Rightarrow> Some NkRejected
     | CkStarted \<Rightarrow> Some NkStarted
     | CkTerminalSucceeded \<Rightarrow> Some NkTerminalSucceeded
     | CkTerminalFailed \<Rightarrow> Some NkTerminalFailed
     | CkTerminalCancelled \<Rightarrow> Some NkTerminalCancelled
     | _ \<Rightarrow> None)"

definition evidence_of :: "string \<Rightarrow> StagedEvent \<Rightarrow> EvidenceRecord" where
  "evidence_of source event =
    \<lparr>er_source = source, er_observed_at = st_observed_at event, er_sequence = nc_sequence (st_callback event)\<rparr>"

definition process_native :: "StagedEvent \<Rightarrow> NativeEventKind \<Rightarrow> ('w, unit) sample_member" where
  "process_native event kind = do {
     sample_gate_call (\<lambda>g. observe_native g
       \<lparr>ne_authority = nc_authority (st_callback event), ne_native_identity = nc_native_identity (st_callback event),
        ne_kind = kind, ne_record = evidence_of kNativeEvidenceSource event\<rparr>);
     yields ()
   }"

definition sample_result_reference :: "OperationAuthority \<Rightarrow> string" where
  "sample_result_reference authority = ''managed-result-'' @ u64_to_string (oa_operation_id authority)"

definition report_acceptance ::
  "OperationAuthority \<Rightarrow> monotonic_time \<Rightarrow> ResultAcceptance \<Rightarrow> ('w, unit) sample_member" where
  "report_acceptance authority time acceptance =
    (let stamped = \<lparr>er_source = kResultSinkObserver, er_observed_at = time, er_sequence = 1\<rparr>
     in case acceptance of
       RaAccepted \<Rightarrow> do {
         sample_gate_call (\<lambda>g. observe_output_accepted g
           \<lparr>oe_authority = authority, oe_result_reference = sample_result_reference authority, oe_record = stamped\<rparr>);
         yields ()
       }
     | RaInvalid \<Rightarrow> yields ()
     | _ \<Rightarrow> do {
         sample_gate_call (\<lambda>g. observe_output_not_delivered g
           \<lparr>ond_authority = authority,
            ond_reason = (if acceptance = RaPermissionDenied then NdAuthorityRevoked else NdSinkRejected),
            ond_result_reference = sample_result_reference authority, ond_record = stamped\<rparr>);
         yields ()
       })"

definition process_result :: "'w clock \<Rightarrow> StagedEvent \<Rightarrow> ('w, unit) sample_member" where
  "process_result clock event =
    (case nc_result (st_callback event) of
       None \<Rightarrow> yields ()
     | Some result \<Rightarrow>
         attempt (read_time clock) (\<lambda>time. attempt (sample_observe_time clock time) (\<lambda>_. do {
           acceptance \<leftarrow> accept_result (nc_authority (st_callback event)) result
             (\<lambda>g. can_deliver_result g (nc_authority (st_callback event)));
           report_acceptance (nc_authority (st_callback event)) time acceptance
         })))"

definition process_settled :: "'w clock \<Rightarrow> StagedEvent \<Rightarrow> ('w, unit) sample_member" where
  "process_settled clock event =
     attempt (read_time clock) (\<lambda>time. attempt (sample_observe_time clock time) (\<lambda>_. do {
       sample_gate_call (\<lambda>g. observe_settlement g
         \<lparr>ste_authority = nc_authority (st_callback event), ste_scope = kSettlementScope,
          ste_permits_same_domain_admission = True,
          ste_record = \<lparr>er_source = kSettlementEvidenceSource, er_observed_at = time,
            er_sequence = nc_sequence (st_callback event)\<rparr>\<rparr>);
       yields ()
     }))"

definition process_event :: "'w clock \<Rightarrow> StagedEvent \<Rightarrow> ('w, unit) sample_member" where
  "process_event clock event =
    (case nc_kind (st_callback event) of
       CkNotSubmitted \<Rightarrow> do {
         sample_gate_call (\<lambda>g. observe_non_submission g
           \<lparr>nse_authority = nc_authority (st_callback event),
            nse_record = evidence_of kSettlementEvidenceSource event\<rparr>);
         yields ()
       }
     | CkNoOutputProduced \<Rightarrow> do {
         sample_gate_call (\<lambda>g. observe_output_not_delivered g
           \<lparr>ond_authority = nc_authority (st_callback event), ond_reason = NdNoOutputProduced,
            ond_result_reference = [], ond_record = evidence_of kSettlementEvidenceSource event\<rparr>);
         yields ()
       }
     | CkResult \<Rightarrow> process_result clock event
     | CkSettled \<Rightarrow> process_settled clock event
     | kind \<Rightarrow> process_native event (the (native_kind kind)))"

definition process_next :: "'w clock \<Rightarrow> ('w, bool) sample_member" where
  "process_next clock =
     attempt (sample_poll clock) (\<lambda>_. do {
       staged \<leftarrow> reads sh_staged_events;
       case staged of
         [] \<Rightarrow> yields False
       | event # rest \<Rightarrow> do {
           changes (\<lambda>s. s\<lparr>sh_staged_events := rest\<rparr>);
           attempt (process_event clock event) (\<lambda>_. yields True)
         }
     })"

text \<open>
  The loop \<open>while (process_next())\<close>. A turn takes one event; polling may stage the three
  events of a discarded preparation, once. So the work left bounds the turns
  (\<open>sample_turns_enough\<close>).
\<close>

fun sample_turns :: "'w clock \<Rightarrow> nat \<Rightarrow> ('w, unit) sample_member" where
  "sample_turns clock 0 = yields ()"
| "sample_turns clock (Suc fuel) =
     attempt (process_next clock) (\<lambda>more. if more then sample_turns clock fuel else yields ())"

definition sample_work :: "('w, 'x) sampling_scheme \<Rightarrow> nat" where
  "sample_work s = length (sh_staged_events s) + (if sh_prepared_authority s = None then 0 else 3)"

definition process_all :: "'w clock \<Rightarrow> ('w, unit) sample_member" where
  "process_all clock = do {
     work \<leftarrow> reads sample_work;
     sample_turns clock (work + 1)
   }"

subsection \<open>Construction, rebinding and shutdown\<close>

definition sample_gate_config :: "monotonic_time \<Rightarrow> AuthorityGateConfig" where
  "sample_gate_config started_at =
    \<lparr>cfg_binding = kSampleBinding, cfg_capability_id = kCapabilityId,
     cfg_binding_observer = kBindingObserver, cfg_worker_observer = kWorkerObserver,
     cfg_result_sink_observer = kResultSinkObserver, cfg_native_evidence_source = kNativeEvidenceSource,
     cfg_settlement_evidence_source = kSettlementEvidenceSource, cfg_settlement_scope = kSettlementScope,
     cfg_started_at = started_at, cfg_stop_evidence_source = ''native-stop'',
     cfg_readiness_kind = SkWorkerReady, cfg_execution_capability_observer = []\<rparr>"

definition make_sample_host ::
  "CompletionMode \<Rightarrow> 'w clock option \<Rightarrow> 'w \<Rightarrow> SampleFault + 'w sampling" where
  "make_sample_host mode supplied w =
    (case supplied of
       None \<Rightarrow> Inl FaultArgument
     | Some clock \<Rightarrow>
         (case clock w of (started_at, w) \<Rightarrow>
            (case make_gate (sample_gate_config started_at) of
               None \<Rightarrow> Inl FaultArgument
             | Some g \<Rightarrow> Inr
                 \<lparr>sh_started_at = started_at, sh_last_time = started_at, sh_has_read_time = True, sh_gate = g,
                  sh_adapter = new_adapter mode, sh_staged_events = [], sh_current_authority = None,
                  sh_prepared_authority = None, sh_prepared_request = None, sh_binding_sequence = 0,
                  sh_worker_sequence = 0, sh_sink_sequence = 0, sh_is_shutdown = False, sh_world = w\<rparr>)))"

definition next_binding_sequence :: "('w sampling, u64) program" where
  "next_binding_sequence = do {
     changes (\<lambda>s. s\<lparr>sh_binding_sequence := sh_binding_sequence s + 1\<rparr>);
     reads sh_binding_sequence
   }"

definition next_worker_sequence :: "('w sampling, u64) program" where
  "next_worker_sequence = do {
     changes (\<lambda>s. s\<lparr>sh_worker_sequence := sh_worker_sequence s + 1\<rparr>);
     reads sh_worker_sequence
   }"

definition next_sink_sequence :: "('w sampling, u64) program" where
  "next_sink_sequence = do {
     changes (\<lambda>s. s\<lparr>sh_sink_sequence := sh_sink_sequence s + 1\<rparr>);
     reads sh_sink_sequence
   }"

definition rebind_evidence ::
  "StartupEvidenceKind \<Rightarrow> BindingIdentity \<Rightarrow> string \<Rightarrow> u64 \<Rightarrow> bool \<Rightarrow> monotonic_time \<Rightarrow> BindingReadinessEvidence" where
  "rebind_evidence kind binding source sequence observed now =
    \<lparr>bre_kind = kind, bre_binding = binding,
     bre_record = \<lparr>er_source = source, er_observed_at = now, er_sequence = sequence\<rparr>,
     bre_observed = observed, bre_valid_until = now + 1\<rparr>"

text \<open>The replacement adapter is new, so it is idle and ready.\<close>

definition offer_replacement ::
  "BindingIdentity \<Rightarrow> sample_adapter \<Rightarrow> monotonic_time \<Rightarrow> ('w sampling, unit) program" where
  "offer_replacement candidate replacement now = do {
     n1 \<leftarrow> next_binding_sequence;
     sample_gate_call (\<lambda>g. observe_rebind_readiness g
       (rebind_evidence SkBindingIdleAndSettled candidate kBindingObserver n1 (is_idle_and_settled replacement) now));
     n2 \<leftarrow> next_worker_sequence;
     sample_gate_call (\<lambda>g. observe_rebind_readiness g
       (rebind_evidence SkWorkerReady candidate kWorkerObserver n2 (is_worker_ready replacement) now));
     n3 \<leftarrow> next_sink_sequence;
     sample_gate_call (\<lambda>g. observe_rebind_readiness g
       (rebind_evidence SkResultSinkReady candidate kResultSinkObserver n3 (is_result_sink_ready replacement) now));
     skip
   }"

text \<open>
  The handler of exceptions between beginning and committing is reached only by a failed
  allocation, which is not modelled: no call in between reads the clock.
\<close>

definition replace_adapter ::
  "BindingIdentity \<Rightarrow> sample_adapter \<Rightarrow> monotonic_time \<Rightarrow> ('w sampling, BindingDecision) program" where
  "replace_adapter candidate replacement now = do {
     offer_replacement candidate replacement now;
     committed \<leftarrow> sample_gate_call (\<lambda>g. commit_rebind g candidate now);
     if bd_status committed \<noteq> BcApplied then do {
       sample_gate_call (\<lambda>g. withdraw_binding g candidate now);
       answer committed
     }
     else do {
       adapter_changes (\<lambda>old. inherit_observations old replacement);
       answer committed
     }
   }"

definition sample_binding_answer :: "BindingControlStatus \<Rightarrow> BindingDecision" where
  "sample_binding_answer status = \<lparr>bd_status = status, bd_candidate = None, bd_native_stop_authority = None\<rparr>"

definition sample_begin_rebind ::
  "BindingIdentity \<Rightarrow> string \<Rightarrow> CompletionMode \<Rightarrow> monotonic_time \<Rightarrow> ('w sampling, BindingDecision) program" where
  "sample_begin_rebind old provider_id mode now = do {
     n \<leftarrow> next_binding_sequence;
     begun \<leftarrow> sample_gate_call (\<lambda>g. begin_rebind g old provider_id
       (rebind_evidence SkBindingIdleAndSettled old kBindingObserver n True now) now);
     case bd_candidate begun of
       None \<Rightarrow> answer begun
     | Some candidate \<Rightarrow>
         if bd_status begun \<noteq> BcApplied then answer begun
         else replace_adapter candidate (new_adapter mode) now
   }"

definition sample_rebind ::
  "'w clock \<Rightarrow> BindingIdentity \<Rightarrow> string \<Rightarrow> CompletionMode \<Rightarrow> ('w, BindingDecision) sample_member" where
  "sample_rebind clock expected_old_binding provider_id mode =
     attempt (sample_poll clock) (\<lambda>_. attempt (read_time clock) (\<lambda>now. do {
       closed \<leftarrow> reads sh_is_shutdown;
       a \<leftarrow> reads sh_adapter;
       prepared \<leftarrow> reads sh_prepared_authority;
       staged \<leftarrow> reads sh_staged_events;
       if closed then yields (sample_binding_answer BcClosed)
       else if \<not> is_idle_and_settled a \<or> prepared \<noteq> None \<or> staged \<noteq> []
       then yields (sample_binding_answer BcUnresolvedWork)
       else if now = u64_max then yields (sample_binding_answer BcInvalidTime)
       else does (sample_begin_rebind expected_old_binding provider_id mode now)
     }))"

definition clear_callback :: "sample_adapter \<Rightarrow> sample_adapter" where
  "clear_callback a = a\<lparr>sa_has_callback := False\<rparr>"

definition sample_shutdown :: "'w clock \<Rightarrow> ('w, unit) sample_member" where
  "sample_shutdown clock = do {
     closed \<leftarrow> reads sh_is_shutdown;
     if closed then yields ()
     else attempt (sample_poll clock) (\<lambda>_. do {
       sample_gate_call (\<lambda>g. (close_admission g, ()));
       attempt (discard_prepared clock) (\<lambda>_. attempt (drain_pending clock) (\<lambda>_.
         attempt (process_all clock) (\<lambda>_. do {
           adapter_changes (\<lambda>a. clear_callback (close_adapter a));
           changes (\<lambda>s. s\<lparr>sh_is_shutdown := True\<rparr>);
           yields ()
         })))
     })
   }"

definition sample_destroy :: "'w clock \<Rightarrow> ('w sampling, unit) program" where
  "sample_destroy clock = do {
     result \<leftarrow> sample_shutdown clock;
     case result of
       Inl _ \<Rightarrow> adapter_changes (\<lambda>a. close_adapter (clear_callback a))
     | Inr _ \<Rightarrow> skip
   }"

end
