(* ===== verification/Sample_Machine.thy ===== *)
theory Sample_Machine
  imports Sample_Interface
begin

text \<open>The public members of \<open>SampleExecutionHost\<close>, and the host as a machine of their calls.\<close>

subsection \<open>Startup\<close>

definition sample_observe_startup ::
  "'w clock \<Rightarrow> StartupEvidenceKind \<Rightarrow> string \<Rightarrow> (sample_adapter \<Rightarrow> bool) \<Rightarrow>
   ('w sampling, u64) program \<Rightarrow> ('w, unit) sample_member" where
  "sample_observe_startup clock kind source observe next_sequence = do {
     observed \<leftarrow> reads (\<lambda>s. observe (sh_adapter s));
     sequence \<leftarrow> next_sequence;
     active \<leftarrow> reads (\<lambda>s. bs_active (binding_status (sh_gate s) (sh_last_time s)));
     attempt (read_time clock) (\<lambda>time. do {
       sample_gate_call (\<lambda>g. observe_startup g
         \<lparr>se_kind = kind, se_binding = active,
          se_record = \<lparr>er_source = source, er_observed_at = time, er_sequence = sequence\<rparr>,
          se_observed = observed\<rparr>);
       yields ()
     })
   }"

definition sample_initialize :: "'w clock \<Rightarrow> ('w, StartupStatus) sample_member" where
  "sample_initialize clock = do {
     g \<leftarrow> reads sh_gate;
     a \<leftarrow> reads sh_adapter;
     attempt (attempt_when
         (ss_state (startup_status g) = IsReady \<and> (\<not> is_worker_ready a \<or> \<not> is_result_sink_ready a))
         (attempt (sample_poll clock) (\<lambda>_. yields ())))
       (\<lambda>_. attempt (sample_observe_startup clock SkBindingIdleAndSettled kBindingObserver
           is_idle_and_settled next_binding_sequence)
         (\<lambda>_. attempt (sample_observe_startup clock SkWorkerReady kWorkerObserver
             is_worker_ready next_worker_sequence)
           (\<lambda>_. attempt (sample_observe_startup clock SkResultSinkReady kResultSinkObserver
               is_result_sink_ready next_sink_sequence)
             (\<lambda>_. does (reads (\<lambda>s. startup_status (sh_gate s)))))))
   }"

definition sample_binding_status :: "'w clock \<Rightarrow> ('w, BindingStatus) sample_member" where
  "sample_binding_status clock =
     attempt (read_time clock) (\<lambda>time. does (reads (\<lambda>s. binding_status (sh_gate s) time)))"

subsection \<open>Submission\<close>

definition sample_submission ::
  "SampleSubmissionStatus \<Rightarrow> AdmissionStatus \<Rightarrow> OperationAuthority option \<Rightarrow> SampleSubmission" where
  "sample_submission status admission authority =
    \<lparr>ssb_status = status, ssb_admission_status = admission, ssb_authority = authority\<rparr>"

definition sample_operation_request :: "SampleRequest \<Rightarrow> monotonic_time \<Rightarrow> OperationRequest" where
  "sample_operation_request q time =
    \<lparr>oq_capability_id = kCapabilityId, oq_effect_domain = bid_effect_domain kSampleBinding,
     oq_opaque_request_reference = sq_request_reference q, oq_target_reference = kTargetReference,
     oq_requested_at = time, oq_deadline = sq_deadline q, oq_execution_requirements = None\<rparr>"

definition install_prepared :: "OperationAuthority \<Rightarrow> SampleRequest \<Rightarrow> ('w, 'x) sampling_scheme \<Rightarrow> ('w, 'x) sampling_scheme" where
  "install_prepared authority q s =
     s\<lparr>sh_current_authority := Some authority, sh_prepared_authority := Some authority,
       sh_prepared_request := Some q\<rparr>"

definition sample_prepare :: "'w clock \<Rightarrow> SampleRequest \<Rightarrow> ('w, SampleSubmission) sample_member" where
  "sample_prepare clock q =
     attempt (sample_poll clock) (\<lambda>_.
       if \<not> sample_request_valid q then yields (sample_submission SsInvalidArgument AdInvalidRequest None)
       else attempt (read_time clock) (\<lambda>time. attempt (sample_observe_time clock time) (\<lambda>_. do {
         admission \<leftarrow> sample_gate_call (\<lambda>g. admit g (sample_operation_request q time));
         case ad_authority admission of
           None \<Rightarrow> yields (sample_submission SsAdmissionBlocked (ad_status admission) None)
         | Some authority \<Rightarrow>
             if ad_status admission \<noteq> AdAdmitted
             then yields (sample_submission SsAdmissionBlocked (ad_status admission) (Some authority))
             else do {
               changes (install_prepared authority q);
               yields (sample_submission SsPrepared (ad_status admission) (Some authority))
             }
       })))"

definition is_prepared_for :: "OperationAuthority \<Rightarrow> ('w, 'x) sampling_scheme \<Rightarrow> bool" where
  "is_prepared_for authority s \<longleftrightarrow>
    (case sh_prepared_authority s of
       None \<Rightarrow> False
     | Some p \<Rightarrow> oa_operation_id p = oa_operation_id authority \<and> binding_eq (oa_binding p) (oa_binding authority) \<and>
         oa_admitted_at p = oa_admitted_at authority)"

text \<open>What a dispatch processes at once: one event when completion is deferred, else all.\<close>

definition process_dispatched :: "'w clock \<Rightarrow> ('w, unit) sample_member" where
  "process_dispatched clock = do {
     mode \<leftarrow> reads (\<lambda>s. sa_completion_mode (sh_adapter s));
     if mode = CmDeferred then attempt (process_next clock) (\<lambda>_. yields ()) else process_all clock
   }"

definition dispatch_permission :: "'w clock \<Rightarrow> OperationAuthority \<Rightarrow> ('w, bool) sample_member" where
  "dispatch_permission clock authority =
     attempt (read_time clock) (\<lambda>time. attempt (sample_observe_time clock time) (\<lambda>_.
       does (sample_gate_call (\<lambda>g. claim_dispatch g authority time))))"

definition sample_dispatch_prepared :: "'w clock \<Rightarrow> OperationAuthority \<Rightarrow> ('w, bool) sample_member" where
  "sample_dispatch_prepared clock authority = do {
     was_prepared \<leftarrow> reads (is_prepared_for authority);
     attempt (sample_poll clock) (\<lambda>_. do {
       prepared \<leftarrow> reads sh_prepared_authority;
       request \<leftarrow> reads sh_prepared_request;
       closed \<leftarrow> reads sh_is_shutdown;
       matching \<leftarrow> reads (is_prepared_for authority);
       if was_prepared \<and> prepared = None
       then attempt (process_dispatched clock) (\<lambda>_. yields False)
       else if prepared = None \<or> request = None \<or> closed \<or> \<not> matching then yields False
       else do {
         changes (\<lambda>s. s\<lparr>sh_prepared_request := None, sh_prepared_authority := None\<rparr>);
         attempt (adapter_dispatch clock authority (the request) (dispatch_permission clock authority))
           (\<lambda>dispatched. attempt (process_dispatched clock) (\<lambda>_. yields dispatched))
       }
     })
   }"

definition sample_submit :: "'w clock \<Rightarrow> SampleRequest \<Rightarrow> ('w, SampleSubmission) sample_member" where
  "sample_submit clock q =
     attempt (sample_prepare clock q) (\<lambda>submission.
       if ssb_status submission = SsPrepared
       then attempt (sample_dispatch_prepared clock (the (ssb_authority submission))) (\<lambda>dispatched.
         yields (submission\<lparr>ssb_status := (if dispatched then SsSubmitted else SsDispatchBlocked)\<rparr>))
       else yields submission)"

subsection \<open>The fixture's other members\<close>

definition set_result_replay :: "bool \<Rightarrow> sample_adapter \<Rightarrow> sample_adapter" where
  "set_result_replay enabled a = a\<lparr>sa_result_replay := enabled, sa_replay_result := None\<rparr>"

definition replay_retained_result :: "'w clock \<Rightarrow> ('w, bool) sample_member" where
  "replay_retained_result clock = do {
     retained \<leftarrow> reads (\<lambda>s. retained_result (sh_adapter s));
     case retained of
       None \<Rightarrow> yields False
     | Some callback \<Rightarrow> attempt (read_time clock) (\<lambda>time. do {
         changes (\<lambda>s. s\<lparr>sh_staged_events :=
           \<lparr>st_callback = callback, st_observed_at = time\<rparr> # sh_staged_events s\<rparr>);
         yields True
       })
   }"

definition complete_deferred :: "'w clock \<Rightarrow> ('w, bool) sample_member" where
  "complete_deferred clock = attempt (sample_poll clock) (\<lambda>_. complete_pending clock)"

subsection \<open>The machine\<close>

datatype sample_call =
    ScInitialize | ScBindingStatus | ScWithdraw BindingIdentity | ScRebind BindingIdentity string CompletionMode
  | ScWorkerReady bool | ScSinkReady bool | ScRejectNext | ScFailNext | ScCancellationMode CancellationMode
  | ScSettlementReporting bool | ScResultReplay bool | ScReplay | ScPrepare SampleRequest
  | ScDispatch OperationAuthority | ScSubmit SampleRequest | ScCancel OperationAuthority | ScPoll
  | ScComplete | ScProcessNext | ScProcessAll | ScShutdown

datatype sample_answer =
    SaStartup StartupStatus | SaStatus BindingStatus | SaBinding BindingDecision | SaControl ControlDecision
  | SaSubmission SampleSubmission | SaFlag bool | SaDone

definition answers :: "('a \<Rightarrow> sample_answer) \<Rightarrow> ('w, 'a) sample_member \<Rightarrow> ('w, sample_answer) sample_member" where
  "answers f m = attempt m (\<lambda>a. yields (f a))"

definition sets :: "(sample_adapter \<Rightarrow> sample_adapter) \<Rightarrow> ('w, sample_answer) sample_member" where
  "sets f = do {
     adapter_changes f;
     yields SaDone
   }"

fun sample_member_of :: "'w clock \<Rightarrow> sample_call \<Rightarrow> ('w, sample_answer) sample_member" where
  "sample_member_of clock ScInitialize = answers SaStartup (sample_initialize clock)"
| "sample_member_of clock ScBindingStatus = answers SaStatus (sample_binding_status clock)"
| "sample_member_of clock (ScWithdraw b) = answers SaBinding (sample_withdraw clock b)"
| "sample_member_of clock (ScRebind b p mode) = answers SaBinding (sample_rebind clock b p mode)"
| "sample_member_of clock (ScWorkerReady b) = sets (\<lambda>a. a\<lparr>sa_worker_ready := b\<rparr>)"
| "sample_member_of clock (ScSinkReady b) = sets (\<lambda>a. a\<lparr>sa_result_sink_ready := b\<rparr>)"
| "sample_member_of clock ScRejectNext = sets (\<lambda>a. a\<lparr>sa_reject_next := True\<rparr>)"
| "sample_member_of clock ScFailNext = sets (\<lambda>a. a\<lparr>sa_fail_next := True\<rparr>)"
| "sample_member_of clock (ScCancellationMode m) = sets (\<lambda>a. a\<lparr>sa_cancellation_mode := m\<rparr>)"
| "sample_member_of clock (ScSettlementReporting b) = sets (\<lambda>a. a\<lparr>sa_settlement_reporting := b\<rparr>)"
| "sample_member_of clock (ScResultReplay b) = sets (set_result_replay b)"
| "sample_member_of clock ScReplay = answers SaFlag (replay_retained_result clock)"
| "sample_member_of clock (ScPrepare q) = answers SaSubmission (sample_prepare clock q)"
| "sample_member_of clock (ScDispatch a) = answers SaFlag (sample_dispatch_prepared clock a)"
| "sample_member_of clock (ScSubmit q) = answers SaSubmission (sample_submit clock q)"
| "sample_member_of clock (ScCancel a) = answers SaControl (sample_cancel clock a)"
| "sample_member_of clock ScPoll = answers SaControl (sample_poll clock)"
| "sample_member_of clock ScComplete = answers SaFlag (complete_deferred clock)"
| "sample_member_of clock ScProcessNext = answers SaFlag (process_next clock)"
| "sample_member_of clock ScProcessAll = answers (\<lambda>_. SaDone) (process_all clock)"
| "sample_member_of clock ScShutdown = answers (\<lambda>_. SaDone) (sample_shutdown clock)"

definition sample_step ::
  "'w clock \<Rightarrow> 'w sampling \<Rightarrow> sample_call \<Rightarrow> 'w sampling \<times> (SampleFault + sample_answer)" where
  "sample_step clock s c = prod.swap (run_state (sample_member_of clock c) s)"

definition sample_initial :: "'w sampling \<Rightarrow> bool" where
  "sample_initial s \<longleftrightarrow> (\<exists>mode clock w. make_sample_host mode (Some clock) w = Inr s)"

abbreviation sample_reachable :: "'w clock \<Rightarrow> 'w sampling \<Rightarrow> bool" where
  "sample_reachable clock \<equiv> reachable (sample_step clock) sample_initial"

end
