(* ===== verification/Gate_Times.thy ===== *)
theory Gate_Times
  imports Gate_Client
begin

text \<open>
  What an owner with a monotonic clock can rely on besides: no time in the current receipt
  is later than the calls made so far, the configured sources never change, and only one
  call records an accepted delivery.
\<close>

subsection \<open>The latest time of a receipt\<close>

definition by_time :: "monotonic_time \<Rightarrow> monotonic_time option \<Rightarrow> bool" where
  "by_time t x \<longleftrightarrow> (\<forall>y. x = Some y \<longrightarrow> y \<le> t)"

lemma by_time_simps [simp]: "by_time t None" "by_time t (Some x) \<longleftrightarrow> x \<le> t"
  by (simp_all add: by_time_def)

lemma by_time_mono: "by_time t x \<Longrightarrow> t \<le> u \<Longrightarrow> by_time u x"
  by (auto simp: by_time_def)

definition record_by :: "monotonic_time \<Rightarrow> EvidenceRecord option \<Rightarrow> bool" where
  "record_by t x \<longleftrightarrow> by_time t (map_option er_observed_at x)"

lemma record_by_simps [simp]: "record_by t None" "record_by t (Some e) \<longleftrightarrow> er_observed_at e \<le> t"
  by (simp_all add: record_by_def)

lemma latest_time_le_iff:
  "latest_time r \<le> t \<longleftrightarrow>
     oa_admitted_at (rc_authority r) \<le> t \<and> by_time t (rc_dispatched_at r) \<and>
     record_by t (rc_native_acceptance_evidence r) \<and> record_by t (rc_native_rejection_evidence r) \<and>
     record_by t (rc_native_started_evidence r) \<and> record_by t (rc_native_success_evidence r) \<and>
     record_by t (rc_native_failure_evidence r) \<and> record_by t (rc_output_evidence r) \<and>
     record_by t (rc_non_submission_evidence r) \<and> record_by t (rc_output_non_delivery_evidence r) \<and>
     record_by t (rc_settlement_evidence r) \<and> record_by t (rc_native_cancellation_evidence r) \<and>
     record_by t (rc_stop_acknowledgement_evidence r) \<and> by_time t (rc_cancellation_requested_at r) \<and>
     by_time t (rc_expiry_observed_at r) \<and> by_time t (rc_binding_withdrawn_at r)"
  by (simp add: latest_time_def latest_effect_time_def raise_over_def effect_records_def Let_def
      raise_to_le_iff record_by_def by_time_def conj_ac)

lemma latest_time_refresh [simp]: "latest_time (refresh_receipt r) \<le> t \<longleftrightarrow> latest_time r \<le> t"
  by (simp add: latest_time_le_iff)

lemma latest_time_revoke [simp]: "latest_time (fst (revoke r x)) \<le> t \<longleftrightarrow> latest_time r \<le> t"
  by (simp add: latest_time_le_iff)

text \<open>The time that a call writes into the receipt.\<close>

fun call_time :: "gate_call \<Rightarrow> monotonic_time" where
  "call_time (CallWithdraw b t) = t"
| "call_time (CallAdmit q) = oq_requested_at q"
| "call_time (CallClaim a t) = t"
| "call_time (CallCancel a t) = t"
| "call_time (CallTime a t) = t"
| "call_time (CallStopAcknowledgement e) = er_observed_at (sae_record e)"
| "call_time (CallNonSubmission e) = er_observed_at (nse_record e)"
| "call_time (CallNative e) = er_observed_at (ne_record e)"
| "call_time (CallOutputAccepted e) = er_observed_at (oe_record e)"
| "call_time (CallOutputNotDelivered e) = er_observed_at (ond_record e)"
| "call_time (CallSettlement e) = er_observed_at (ste_record e)"
| "call_time _ = 0"

definition receipt_by :: "monotonic_time \<Rightarrow> gate \<Rightarrow> bool" where
  "receipt_by t g \<longleftrightarrow> (\<forall>r. g_current_receipt g = Some r \<longrightarrow> latest_time r \<le> t)"

lemma receipt_by_mono: "receipt_by t g \<Longrightarrow> t \<le> u \<Longrightarrow> receipt_by u g"
  by (auto simp: receipt_by_def)

lemma evidence_by:
  assumes "latest_time r \<le> t"
  shows "er_observed_at (sae_record e1) \<le> t \<Longrightarrow> latest_time (fst (receipt_stop_acknowledgement config e1 r)) \<le> t"
    and "er_observed_at (nse_record e2) \<le> t \<Longrightarrow> latest_time (fst (receipt_non_submission config e2 r)) \<le> t"
    and "er_observed_at (oe_record e3) \<le> t \<Longrightarrow> latest_time (fst (receipt_output_accepted g e3 r)) \<le> t"
    and "er_observed_at (ond_record e4) \<le> t \<Longrightarrow> latest_time (fst (receipt_not_delivered config e4 r)) \<le> t"
    and "er_observed_at (ste_record e5) \<le> t \<Longrightarrow> latest_time (fst (receipt_settlement config e5 r)) \<le> t"
proof -
  have "er_observed_at (sae_record e1) \<le> t \<Longrightarrow> latest_time (mark_stop_acknowledged e1 r) \<le> t"
    "er_observed_at (nse_record e2) \<le> t \<Longrightarrow> latest_time (mark_not_submitted e2 r) \<le> t"
    "er_observed_at (oe_record e3) \<le> t \<Longrightarrow> latest_time (mark_output_accepted e3 r) \<le> t"
    "er_observed_at (ond_record e4) \<le> t \<Longrightarrow> latest_time (mark_not_delivered e4 r) \<le> t"
    "er_observed_at (ste_record e5) \<le> t \<Longrightarrow> latest_time (mark_settled e5 r) \<le> t"
    using assms
    by (simp_all add: mark_stop_acknowledged_def mark_not_submitted_def mark_output_accepted_def
        mark_not_delivered_def mark_settled_def)
      (simp_all add: latest_time_le_iff)
  with assms
  show "er_observed_at (sae_record e1) \<le> t \<Longrightarrow> latest_time (fst (receipt_stop_acknowledgement config e1 r)) \<le> t"
    "er_observed_at (nse_record e2) \<le> t \<Longrightarrow> latest_time (fst (receipt_non_submission config e2 r)) \<le> t"
    "er_observed_at (oe_record e3) \<le> t \<Longrightarrow> latest_time (fst (receipt_output_accepted g e3 r)) \<le> t"
    "er_observed_at (ond_record e4) \<le> t \<Longrightarrow> latest_time (fst (receipt_not_delivered config e4 r)) \<le> t"
    "er_observed_at (ste_record e5) \<le> t \<Longrightarrow> latest_time (fst (receipt_settlement config e5 r)) \<le> t"
    using stop_acknowledgement_unchanged [of config e1 r] stop_acknowledgement_accepted(1) [of config e1 r]
      non_submission_unchanged [of config e2 r] non_submission_accepted(1) [of config e2 r]
      output_accepted_unchanged [of g e3 r] output_accepted_accepted(1) [of g e3 r]
      not_delivered_unchanged [of config e4 r] not_delivered_accepted(1) [of config e4 r]
      settlement_unchanged [of config e5 r] settlement_accepted(1) [of config e5 r]
    by metis+
qed

lemma on_current_by:
  assumes "receipt_by t g" and "\<And>r. latest_time r \<le> t \<Longrightarrow> latest_time (fst (f r)) \<le> t"
  shows "receipt_by t (fst (on_current g a f))"
  using assms
  by (cases "current_authority_matches g a")
    (auto simp: receipt_by_def current_authority_matches_iff on_current_matched on_current_unmatched)

lemma native_by:
  assumes "receipt_by t g" and "er_observed_at (ne_record e) \<le> t"
  shows "receipt_by t (fst (observe_native g e))"
proof (cases rule: observe_native_cases [of g e])
  case (unchanged v)
  with assms show ?thesis by simp
next
  case (observed r r' v)
  have "latest_time (note_native e r) \<le> t"
    using assms observed(1)
    by (cases "ne_kind e") (auto simp: receipt_by_def note_native_def latest_time_le_iff)
  then have "latest_time r' \<le> t"
    using assms(1) observed(1,5) by (auto simp: native_event_def receipt_by_def split: if_split_asm)
  then have "latest_time (settle_native_outcome r') \<le> t"
    by (auto simp: settle_native_outcome_def latest_time_le_iff)
  then show ?thesis by (simp add: observed(2) receipt_by_def)
qed

lemma control_by:
  assumes "receipt_by t g" and "x \<le> t"
  shows "receipt_by t (fst (request_cancel g a x))" "receipt_by t (fst (observe_time g a x))"
    "receipt_by t (fst (withdraw_binding g b x))" "receipt_by t (fst (claim_dispatch g a x))"
proof -
  show "receipt_by t (fst (request_cancel g a x))"
    using assms by (cases rule: cancel_cases [of g a x]) (simp_all add: receipt_by_def, simp add: latest_time_le_iff)
  show "receipt_by t (fst (observe_time g a x))"
    using assms by (cases rule: time_cases [of g a x]) (simp_all add: receipt_by_def, simp add: latest_time_le_iff)
  show "receipt_by t (fst (withdraw_binding g b x))"
    using assms by (cases rule: withdraw_cases [of g b x]) (simp_all add: receipt_by_def, simp add: latest_time_le_iff)
  show "receipt_by t (fst (claim_dispatch g a x))"
    using assms by (cases rule: claim_cases [of g a x]) (simp_all add: receipt_by_def, simp add: latest_time_le_iff)
qed

lemma gate_step_by:
  assumes "receipt_by t g" and "call_time c \<le> t"
  shows "receipt_by t (fst (gate_step g c))"
proof (cases c)
  case (CallAdmit q)
  then show ?thesis
    using assms
    by (cases rule: admit_cases [of g q])
      (auto simp: receipt_by_def admitted_gate_def new_receipt_def latest_time_le_iff admitted_authority_def)
qed (use assms in \<open>simp_all add: binding_calls_work control_by native_by on_current_by evidence_by
      observe_stop_acknowledgement_def observe_non_submission_def observe_output_accepted_def
      observe_output_not_delivered_def observe_settlement_def receipt_by_def [of _ "fst (begin_rebind _ _ _ _ _)"]
      receipt_by_def [of _ "fst (commit_rebind _ _ _)"] receipt_by_def [of _ "fst (observe_startup _ _)"]
      receipt_by_def [of _ "fst (observe_execution_capabilities _ _)"]
      receipt_by_def [of _ "fst (observe_rebind_readiness _ _)"] receipt_by_def [of _ "close_admission _"]\<close>,
    simp_all add: receipt_by_def)

subsection \<open>The configuration\<close>

text \<open>The configuration without the binding, which a commit replaces.\<close>

definition sources :: "gate \<Rightarrow> AuthorityGateConfig" where
  "sources g = (g_config g)\<lparr>cfg_binding := \<lparr>bid_provider_id = [], bid_effect_domain = [],
     bid_composition_revision = 0, bid_provider_generation = 0\<rparr>\<rparr>"

lemma sources_on_current [simp]: "sources (fst (on_current g a f)) = sources g"
  by (cases "current_authority_matches g a")
    (auto simp: current_authority_matches_iff on_current_matched on_current_unmatched sources_def)

lemma gate_step_sources: "sources (fst (gate_step g c)) = sources g"
proof (cases c)
  case (CallStartup e)
  then show ?thesis
    by (cases rule: observe_startup_cases [of g e]) (simp_all add: sources_def)
next
  case (CallCapabilities x)
  then show ?thesis
    by (cases rule: observe_capabilities_cases [of g x]) (simp_all add: sources_def)
next
  case (CallWithdraw b t)
  then show ?thesis
    by (cases rule: withdraw_cases [of g b t]) (simp_all add: sources_def)
next
  case (CallBeginRebind b p e t)
  then show ?thesis
    by (cases rule: begin_rebind_cases [of g b p e t]) (simp_all add: sources_def preparing_gate_def)
next
  case (CallReadiness e)
  then show ?thesis
    by (cases rule: observe_readiness_cases [of g e]) (simp_all add: sources_def)
next
  case (CallCommit b t)
  then show ?thesis
    by (cases rule: commit_cases [of g b t]) (simp_all add: sources_def install_candidate_def)
next
  case (CallAdmit q)
  then show ?thesis
    by (cases rule: admit_cases [of g q]) (simp_all add: sources_def admitted_gate_def)
next
  case (CallClaim a t)
  then show ?thesis
    by (cases rule: claim_cases [of g a t]) (simp_all add: sources_def)
next
  case (CallCancel a t)
  then show ?thesis
    by (cases rule: cancel_cases [of g a t]) (simp_all add: sources_def)
next
  case (CallTime a t)
  then show ?thesis
    by (cases rule: time_cases [of g a t]) (simp_all add: sources_def)
next
  case (CallNative e)
  then show ?thesis
    by (cases rule: observe_native_cases [of g e]) (simp_all add: sources_def)
next
  case CallClose
  then show ?thesis by (simp add: sources_def close_admission_def)
qed (simp_all add: observe_stop_acknowledgement_def observe_non_submission_def observe_output_accepted_def
      observe_output_not_delivered_def observe_settlement_def)

subsection \<open>Recorded deliveries\<close>

fun delivers :: "gate_call \<Rightarrow> bool" where
  "delivers (CallOutputAccepted e) \<longleftrightarrow> True"
| "delivers (CallAdmit q) \<longleftrightarrow> True"
| "delivers c \<longleftrightarrow> False"

definition output_accepted :: "gate \<Rightarrow> bool option" where
  "output_accepted g = map_option (\<lambda>r. rc_output r = OdAccepted) (g_current_receipt g)"

lemma on_current_output:
  assumes "\<And>r. rc_output (fst (f r)) = OdAccepted \<longleftrightarrow> rc_output r = OdAccepted"
  shows "output_accepted (fst (on_current g a f)) = output_accepted g"
  using assms
  by (cases "current_authority_matches g a")
    (auto simp: output_accepted_def current_authority_matches_iff on_current_matched on_current_unmatched)

lemma evidence_output:
  "rc_output (fst (receipt_stop_acknowledgement config e1 r)) = rc_output r"
  "rc_output (fst (receipt_non_submission config e2 r)) = rc_output r"
  "rc_output (fst (receipt_settlement config e5 r)) = rc_output r"
  "rc_output (fst (receipt_not_delivered config e4 r)) = OdAccepted \<longleftrightarrow> rc_output r = OdAccepted"
proof -
  have "rc_output (mark_stop_acknowledged e1 r) = rc_output r" "rc_output (mark_not_submitted e2 r) = rc_output r"
    "rc_output (mark_settled e5 r) = rc_output r"
    by (simp_all add: mark_stop_acknowledged_def mark_not_submitted_def mark_settled_def)
  then show "rc_output (fst (receipt_stop_acknowledgement config e1 r)) = rc_output r"
    "rc_output (fst (receipt_non_submission config e2 r)) = rc_output r"
    "rc_output (fst (receipt_settlement config e5 r)) = rc_output r"
    using stop_acknowledgement_unchanged [of config e1 r] stop_acknowledgement_accepted(1) [of config e1 r]
      non_submission_unchanged [of config e2 r] non_submission_accepted(1) [of config e2 r]
      settlement_unchanged [of config e5 r] settlement_accepted(1) [of config e5 r]
    by metis+
  show "rc_output (fst (receipt_not_delivered config e4 r)) = OdAccepted \<longleftrightarrow> rc_output r = OdAccepted"
    by (auto simp: receipt_not_delivered_def mark_not_delivered_def split: option.split)
qed

lemma gate_step_output:
  assumes "\<not> delivers c"
  shows "output_accepted (fst (gate_step g c)) = output_accepted g"
proof (cases c)
  case (CallNative e)
  then show ?thesis
    by (cases rule: observe_native_cases [of g e])
      (auto simp: output_accepted_def settle_native_outcome_def native_event_fields)
next
  case (CallWithdraw b t)
  then show ?thesis
    by (cases rule: withdraw_cases [of g b t]) (simp_all add: output_accepted_def)
next
  case (CallClaim a t)
  then show ?thesis
    by (cases rule: claim_cases [of g a t]) (simp_all add: output_accepted_def)
next
  case (CallCancel a t)
  then show ?thesis
    by (cases rule: cancel_cases [of g a t]) (simp_all add: output_accepted_def)
next
  case (CallTime a t)
  then show ?thesis
    by (cases rule: time_cases [of g a t]) (simp_all add: output_accepted_def)
qed (use assms in \<open>simp_all add: on_current_output evidence_output observe_stop_acknowledgement_def
      observe_non_submission_def observe_output_not_delivered_def observe_settlement_def\<close>,
    simp_all add: output_accepted_def binding_calls_work)

text \<open>
  Where the gate would deliver at the time of an expiry check that was not refused, the
  deadline has not been reached, and the delivery is recorded.
\<close>

lemma deliverable_receipt:
  assumes "gate_ok g" and "can_deliver_result g a"
  obtains r x where "g_current_receipt g = Some r" and "rc_authority r = a" and "current_authority_matches g a"
    and "\<not> is_revoked r" and "rc_output r = OdPending" and "rc_native_success_evidence r = Some x"
proof -
  obtain r where r: "g_current_receipt g = Some r" "current_authority_matches g a" "\<not> is_revoked r"
    "rc_native_outcome r = NoSucceeded" "rc_output r = OdPending"
    using assms(2) by (auto simp: can_deliver_result_def split: option.splits)
  have "rc_observed_native_success r" "rc_native_success_evidence r \<noteq> None"
    using receipt_okD(2) [of r] gate_ok_receipt [OF assms(1) r(1)] r(4)
    by (auto simp: native_ok_def expected_outcome_def split: if_split_asm)
  with r that show thesis by (auto simp: current_authority_matches_iff)
qed

lemma observe_time_deliverable:
  assumes ok: "gate_ok g" and by_now: "receipt_by t g"
    and own: "map_option rc_authority (g_current_receipt g) = Some a"
    and deliverable: "can_deliver_result (fst (observe_time g a t)) b"
  shows "fst (observe_time g a t) = g" and "cd_status (snd (observe_time g a t)) \<noteq> CsApplied"
    and "\<exists>r. g_current_receipt g = Some r \<and> rc_authority r = b \<and> \<not> has_reached_deadline r t"
proof -
  have unrevoked: "\<not> is_revoked (fst (revoke (r\<lparr>rc_expiry_observed_at := Some t\<rparr>) t)) \<Longrightarrow> False" for r
    by (simp add: is_revoked_def)
  have "fst (observe_time g a t) = g \<and> cd_status (snd (observe_time g a t)) \<noteq> CsApplied \<and>
    (\<exists>r. g_current_receipt g = Some r \<and> rc_authority r = b \<and> \<not> has_reached_deadline r t)"
  proof (cases rule: time_cases [of g a t])
    case (expired r)
    with deliverable have False
      by (simp add: can_deliver_result_def is_revoked_def split: if_split_asm)
    then show ?thesis ..
  next
    case (refused s)
    with deliverable have del: "can_deliver_result g b" by simp
    from deliverable_receipt [OF ok this] obtain r x where r: "g_current_receipt g = Some r" "rc_authority r = b"
      "current_authority_matches g b" "\<not> is_revoked r" "rc_output r = OdPending" by metis
    then have ab: "a = b" using own by simp
    have "rc_authority_disposition r \<noteq> AuReleased"
      using r(5) pending_output_unresolved [OF r(5)] gate_ok_receipt [OF ok r(1)]
      by (auto simp: receipt_ok_def control_ok_def disposition_of_def split: if_split_asm)
    moreover have live: "\<not> t < latest_time r" "rc_expiry_observed_at r = None" "current_authority_matches g a"
      using r(1,3,4) by_now ab by (simp_all add: receipt_by_def is_revoked_def not_less)
    ultimately have answer: "observe_time g a t =
        (if \<not> has_reached_deadline r t then (g, control_decision CsNotDue)
         else case revoke (r\<lparr>rc_expiry_observed_at := Some t\<rparr>) t of
           (r', decision) \<Rightarrow> (g\<lparr>g_current_receipt := Some r'\<rparr>, decision))"
      using r(1) by (simp add: observe_time_def)
    have "\<not> has_reached_deadline r t"
    proof
      assume "has_reached_deadline r t"
      with answer refused have "g = g\<lparr>g_current_receipt := Some (fst (revoke (r\<lparr>rc_expiry_observed_at := Some t\<rparr>) t))\<rparr>"
        by (simp add: split_beta)
      from arg_cong [OF this, of g_current_receipt]
      have "g_current_receipt g = Some (fst (revoke (r\<lparr>rc_expiry_observed_at := Some t\<rparr>) t))" by simp
      with r(1,4) unrevoked [of r] show False by simp
    qed
    with answer refused have "\<not> has_reached_deadline r t \<and> s \<noteq> CsApplied" by simp
    with refused r(1,2) show ?thesis by simp
  qed
  then show "fst (observe_time g a t) = g" "cd_status (snd (observe_time g a t)) \<noteq> CsApplied"
    "\<exists>r. g_current_receipt g = Some r \<and> rc_authority r = b \<and> \<not> has_reached_deadline r t" by blast+
qed

lemma deliverable_accepted:
  assumes ok: "gate_ok g" and deliverable: "can_deliver_result g a" and r: "g_current_receipt g = Some r"
    and fresh: "\<not> has_reached_deadline r t" and by_now: "latest_time r \<le> t"
    and source: "cfg_result_sink_observer (g_config g) = source" "source \<noteq> []"
    and "reference \<noteq> []" and "sequence \<noteq> 0"
  shows "output_accepted (fst (observe_output_accepted g \<lparr>oe_authority = a, oe_result_reference = reference,
    oe_record = \<lparr>er_source = source, er_observed_at = t, er_sequence = sequence\<rparr>\<rparr>)) = Some True"
proof -
  from deliverable_receipt [OF ok deliverable] r obtain x where x: "rc_authority r = a"
    "current_authority_matches g a" "rc_output r = OdPending" "rc_native_success_evidence r = Some x"
    by (metis option.inject)
  have "er_observed_at x \<le> t" "oa_admitted_at a \<le> t"
    using by_now x(1,4) by (simp_all add: latest_time_le_iff)
  with x fresh source deliverable assms(8,9) show ?thesis
    by (simp add: observe_output_accepted_def on_current_matched [OF x(2) r] receipt_output_accepted_def
        is_record_well_formed_def output_accepted_def mark_output_accepted_def)
qed

end
