(* ===== verification/Sample_Parts.thy ===== *)
theory Sample_Parts
  imports Sample_Machine Gate_Times
begin

text \<open>
  What the members of the sample host keep, whatever the clock answers and wherever an
  exception ends them. The contracts are those of the host's layers: the clock, the
  emission of events, and control. A client of a layer is a relation between host states,
  and each layer's lemmas say that its members keep it.
\<close>

subsection \<open>Weakest preconditions of the primitives\<close>

lemma wp_sample_gate_call [wp_rules]:
  "wp (sample_gate_call f) Q s = (case f (sh_gate s) of (g, a) \<Rightarrow> Q a (s\<lparr>sh_gate := g\<rparr>))"
  by (simp add: wp_def sample_gate_call_def split: prod.split)

lemma wp_on_adapter [wp_rules]:
  "wp (on_adapter f) Q s = (case f (sh_adapter s) of (d, a) \<Rightarrow> Q a (s\<lparr>sh_adapter := d\<rparr>))"
  by (simp add: wp_def on_adapter_def split: prod.split)

lemma wp_adapter_changes [wp_rules]:
  "wp (adapter_changes f) Q s = Q () (s\<lparr>sh_adapter := f (sh_adapter s)\<rparr>)"
  by (simp add: adapter_changes_def wp_changes)

lemma wp_sample_tick [wp_rules]:
  "wp (sample_tick clock) Q s = (case clock (sh_world s) of (t, w) \<Rightarrow> Q t (s\<lparr>sh_world := w\<rparr>))"
  by (simp add: wp_def sample_tick_def split: prod.split)

lemma wp_read_time:
  "wp (read_time clock) Q s = (case clock (sh_world s) of (t, w) \<Rightarrow>
     if sh_has_read_time s \<and> t < sh_last_time s then Q (Inl FaultClock) (s\<lparr>sh_world := w\<rparr>)
     else Q (Inr t) (s\<lparr>sh_world := w, sh_has_read_time := True, sh_last_time := t\<rparr>))"
  by (simp add: read_time_def wp_rules split: prod.split)

text \<open>Where a fallible program goes on, what it has established is known.\<close>

lemma wp_attempt_then:
  assumes "wp m (\<lambda>r t. R t \<and> (\<forall>x. r = Inr x \<longrightarrow> A x t)) s"
    and "\<And>e t. R t \<Longrightarrow> Q (Inl e) t" and "\<And>x t. R t \<Longrightarrow> A x t \<Longrightarrow> wp (f x) Q t"
  shows "wp (attempt m f) Q s"
  unfolding wp_attempt by (rule wp_mono [OF assms(1)]) (auto simp: assms(2,3) split: sum.split)

context kept_relation
begin

lemma attempt_then:
  assumes "wp m (\<lambda>r t. R s t \<and> (\<forall>x. r = Inr x \<longrightarrow> A x t)) s" and "\<And>x t. A x t \<Longrightarrow> wp (f x) (\<lambda>_. R t) t"
  shows "wp (attempt m f) (\<lambda>_. R s) s"
  by (rule wp_attempt_then [OF assms(1)]) (auto intro: wp_mono [OF assms(2)] elim: kept_trans)

lemma attempt_keeps: "wp m (\<lambda>_. R s) s \<Longrightarrow> (\<And>x. keeps R (f x)) \<Longrightarrow> wp (attempt m f) (\<lambda>_. R s) s"
  by (rule attempt_then [where A = "\<lambda>_ _. True"]) (simp_all add: keepsD)

end

subsection \<open>The clock\<close>

definition timely :: "('w sampling \<Rightarrow> 'w sampling \<Rightarrow> bool) \<Rightarrow> 'w sampling \<Rightarrow> 'w sampling \<Rightarrow> bool" where
  "timely P s t \<longleftrightarrow>
     (sh_has_read_time s \<longrightarrow> sh_has_read_time t \<and> sh_last_time s \<le> sh_last_time t \<and> P s t)"

lemma timely_same:
  "sh_has_read_time t = sh_has_read_time s \<Longrightarrow> sh_last_time t = sh_last_time s \<Longrightarrow> P s t \<Longrightarrow> timely P s t"
  by (simp add: timely_def)

locale sample_timed =
  fixes P :: "'w sampling \<Rightarrow> 'w sampling \<Rightarrow> bool" and clock :: "'w clock"
  assumes p_refl: "P s s"
    and p_trans: "P s t \<Longrightarrow> P t u \<Longrightarrow> P s u"
    and p_world: "P s (s\<lparr>sh_world := w\<rparr>)"
    and p_time: "sh_last_time s \<le> x \<Longrightarrow> P s (s\<lparr>sh_world := w, sh_has_read_time := True, sh_last_time := x\<rparr>)"

sublocale sample_timed \<subseteq> timed: kept_relation "timely P"
  by unfold_locales (auto simp: timely_def p_refl intro: p_trans)

context sample_timed
begin

lemma read_time_kept:
  "wp (read_time clock) (\<lambda>r t. timely P s t \<and> (\<forall>x. r = Inr x \<longrightarrow>
     sh_last_time t = x \<and> sh_has_read_time t)) s"
  by (auto simp: wp_read_time timely_def p_world p_time split: prod.split)

lemma keeps_timed:
  assumes "\<And>x t. sh_last_time t = x \<Longrightarrow> wp (f x) (\<lambda>_. timely P t) t"
  shows "keeps (timely P) (attempt (read_time clock) f)"
  by (rule keepsI, rule timed.attempt_then [OF read_time_kept]) (use assms in blast)

lemma keeps_read_time: "keeps (timely P) (read_time clock)"
  by (rule keepsI, rule wp_mono [OF read_time_kept]) blast

end

subsection \<open>Events\<close>

text \<open>A result is sound when it is the square result of a valid request, under its operation's id.\<close>

definition sound_result :: "OperationAuthority \<Rightarrow> SampleResult \<Rightarrow> bool" where
  "sound_result a x \<longleftrightarrow>
     (\<exists>q. sample_request_valid q \<and> x = square_result (new_work a q))"

definition sound_callback :: "NativeCallback \<Rightarrow> bool" where
  "sound_callback cb \<longleftrightarrow> (\<forall>x. nc_result cb = Some x \<longrightarrow> sound_result (nc_authority cb) x)"

definition adapter_ok :: "sample_adapter \<Rightarrow> bool" where
  "adapter_ok a \<longleftrightarrow>
     (\<forall>cb. sa_replay_result a = Some cb \<longrightarrow> sound_callback cb) \<and>
     (\<forall>w. sa_pending_work a = Some w \<longrightarrow> sample_request_valid (wi_request w))"

definition adapter_moves :: "sample_adapter \<Rightarrow> sample_adapter \<Rightarrow> bool" where
  "adapter_moves a b \<longleftrightarrow> sa_results b = sa_results a \<and> (adapter_ok a \<longrightarrow> adapter_ok b)"

lemma adapter_moves_fields [simp]:
  "adapter_moves a (a\<lparr>sa_execution_count := n\<rparr>)" "adapter_moves a (a\<lparr>sa_submission_count := n\<rparr>)"
  "adapter_moves a (a\<lparr>sa_fail_next := b\<rparr>)" "adapter_moves a (a\<lparr>sa_reject_next := b\<rparr>)"
  "adapter_moves a (a\<lparr>sa_worker_ready := b\<rparr>)" "adapter_moves a (a\<lparr>sa_result_sink_ready := b\<rparr>)"
  "adapter_moves a (a\<lparr>sa_cancellation_mode := m\<rparr>)" "adapter_moves a (a\<lparr>sa_settlement_reporting := b\<rparr>)"
  "adapter_moves a (a\<lparr>sa_denial_count := n\<rparr>)" "adapter_moves a (a\<lparr>sa_pending_work := None\<rparr>)"
  "adapter_moves a (set_result_replay b a)" "adapter_moves a (close_adapter a)"
  "adapter_moves a (clear_callback a)"
  by (simp_all add: adapter_moves_def adapter_ok_def set_result_replay_def close_adapter_def clear_callback_def)

lemma adapter_moves_retain: "sound_callback cb \<Longrightarrow> adapter_moves a (retain_result cb a)"
  by (auto simp: adapter_moves_def adapter_ok_def retain_result_def)

lemma adapter_moves_pending:
  "sample_request_valid (wi_request w) \<Longrightarrow> adapter_moves a (a\<lparr>sa_pending_work := Some w\<rparr>)"
  by (auto simp: adapter_moves_def adapter_ok_def)

lemma adapter_moves_stop: "adapter_moves a (fst (adapter_request_stop x a))"
  by (auto simp: adapter_moves_def adapter_ok_def adapter_request_stop_def Let_def
      split: option.split CancellationMode.split)

lemma square_result_new:
  "square_result w = square_result (new_work (wi_authority w) (wi_request w))"
  by (simp add: square_result_def new_work_def)

locale sample_emission = sample_timed +
  assumes p_stage: "sound_callback cb \<Longrightarrow> x \<le> sh_last_time s \<Longrightarrow>
      P s (s\<lparr>sh_staged_events := sh_staged_events s @ [\<lparr>st_callback = cb, st_observed_at = x\<rparr>]\<rparr>)"
    and p_adapter: "adapter_moves (sh_adapter s) a \<Longrightarrow> P s (s\<lparr>sh_adapter := a\<rparr>)"
    and p_unprepared: "P s (s\<lparr>sh_prepared_request := None, sh_prepared_authority := None\<rparr>)"
begin

lemma keeps_adapter: "(\<And>a. adapter_moves a (f a)) \<Longrightarrow> keeps (timely P) (adapter_changes f)"
  by (rule keepsI) (simp add: wp_adapter_changes timely_same p_adapter)

lemma keeps_unprepared:
  "keeps (timely P) (changes (\<lambda>s. s\<lparr>sh_prepared_request := None, sh_prepared_authority := None\<rparr>))"
  by (rule keepsI) (simp add: wp_changes timely_same p_unprepared)

lemma keeps_stage: "sound_callback cb \<Longrightarrow> keeps (timely P) (stage_event clock cb)"
  unfolding stage_event_def
  by (rule keeps_timed) (simp add: wp_rules timely_same p_stage)

lemma keeps_emit:
  assumes "\<And>x. result = Some x \<Longrightarrow> sound_result (wi_authority work) x"
  shows "keeps (timely P) (emit clock work kind sequence result)"
proof -
  have "sound_callback \<lparr>nc_kind = kind, nc_authority = wi_authority work,
      nc_native_identity = wi_native_identity work, nc_sequence = sequence, nc_result = result\<rparr>"
    using assms by (simp add: sound_callback_def)
  then show ?thesis
    unfolding emit_def Let_def
    by (intro timed.keeps_fallible keeps_adapter keeps_stage adapter_moves_retain)
qed

lemma keeps_emit_all:
  "(\<And>k n x. (k, n, Some x) \<in> set events \<Longrightarrow> sound_result (wi_authority work) x) \<Longrightarrow>
    keeps (timely P) (emit_all clock work events)"
proof (induction events)
  case (Cons e events)
  obtain k n r where e: "e = (k, n, r)" by (cases e)
  from Cons show ?case unfolding e by (auto intro!: timed.keeps_attempt keeps_emit)
qed (simp add: timed.keeps_yields)

lemma keeps_finish_work:
  assumes "sample_request_valid (wi_request work)"
  shows "keeps (timely P) (finish_work clock work)"
proof -
  have "sound_result (wi_authority work) (square_result work)"
    using assms square_result_new [of work] by (auto simp: sound_result_def)
  then show ?thesis
    unfolding finish_work_def
    by (intro timed.keeps_fallible keeps_adapter keeps_emit keeps_emit_all) auto
qed

lemma keeps_not_submitted: "keeps (timely P) (not_submitted clock work)"
  unfolding not_submitted_def by (rule keeps_emit_all) simp

lemma keeps_submit_work:
  assumes "sample_request_valid (wi_request work)"
  shows "keeps (timely P) (submit_work clock work)"
  unfolding submit_work_def
  by (intro timed.keeps_fallible keeps_adapter keeps_emit keeps_emit_all keeps_finish_work [OF assms]
      adapter_moves_pending [OF assms]) auto

lemma keeps_dispatch:
  assumes "sample_request_valid q" and "keeps (timely P) permission"
  shows "keeps (timely P) (adapter_dispatch clock a q permission)"
  unfolding adapter_dispatch_def
  by (intro timed.keeps_fallible assms(2) keeps_not_submitted keeps_submit_work)
    (simp add: new_work_def assms(1))

lemma keeps_discard: "keeps (timely P) (discard_prepared clock)"
  unfolding discard_prepared_def confirm_non_submission_def
  by (intro timed.keeps_fallible keeps_unprepared keeps_not_submitted)

end

subsection \<open>Control\<close>

fun control_call :: "gate_call \<Rightarrow> bool" where
  "control_call (CallWithdraw b t) \<longleftrightarrow> True"
| "control_call (CallCancel a t) \<longleftrightarrow> True"
| "control_call (CallTime a t) \<longleftrightarrow> True"
| "control_call (CallStopAcknowledgement e) \<longleftrightarrow> True"
| "control_call _ \<longleftrightarrow> False"

locale sample_control = sample_timed +
  assumes p_control: "control_call c \<Longrightarrow> call_time c \<le> sh_last_time s \<Longrightarrow>
      P s (s\<lparr>sh_gate := fst (gate_step (sh_gate s) c)\<rparr>)"
    and p_stop: "P s (s\<lparr>sh_adapter := fst (adapter_request_stop a (sh_adapter s))\<rparr>)"
    and p_discard: "keeps (timely P) (discard_prepared clock)"
begin

lemma control_calls:
  "x \<le> sh_last_time s \<Longrightarrow> wp (sample_gate_call (\<lambda>g. withdraw_binding g b x)) (\<lambda>_. timely P s) s"
  "x \<le> sh_last_time s \<Longrightarrow> wp (sample_gate_call (\<lambda>g. request_cancel g a x)) (\<lambda>_. timely P s) s"
  "x \<le> sh_last_time s \<Longrightarrow> wp (sample_gate_call (\<lambda>g. observe_time g a x)) (\<lambda>_. timely P s) s"
  "er_observed_at (sae_record e) \<le> sh_last_time s \<Longrightarrow>
    wp (sample_gate_call (\<lambda>g. observe_stop_acknowledgement g e)) (\<lambda>_. timely P s) s"
  using p_control [of "CallWithdraw b x" s] p_control [of "CallCancel a x" s] p_control [of "CallTime a x" s]
    p_control [of "CallStopAcknowledgement e" s]
  by (simp_all add: wp_sample_gate_call split_beta timely_same)

lemma keeps_stop: "keeps (timely P) (stop_native clock a)"
proof -
  have stop: "keeps (timely P) (on_adapter (adapter_request_stop a))"
    by (rule keepsI) (simp add: wp_on_adapter split_beta timely_same p_stop)
  show ?thesis
    unfolding stop_native_def
    by (intro timed.keeps_bind [OF stop] timed.keeps_option timed.keeps_yields keeps_timed
        timed.wp_keeps_bind control_calls) simp
qed

lemma keeps_apply: "keeps (timely P) (apply_control clock a d)"
  unfolding apply_control_def by (intro timed.keeps_fallible p_discard keeps_stop)

lemma observe_time_kept:
  "x \<le> sh_last_time s \<Longrightarrow> wp (sample_observe_time clock x) (\<lambda>_. timely P s) s"
  unfolding sample_observe_time_def
  by (rule timed.wp_reads_then)
    (auto simp: wp_yields timed.kept_refl split: option.split
      intro!: timed.wp_keeps_bind control_calls timed.keeps_attempt keeps_apply timed.keeps_yields)

lemma keeps_withdraw: "keeps (timely P) (sample_withdraw clock b)"
  unfolding sample_withdraw_def
  by (rule keeps_timed, rule timed.wp_keeps_bind [OF control_calls(1)])
    (simp, intro timed.keeps_fallible p_discard keeps_apply)

lemma keeps_poll: "keeps (timely P) (sample_poll clock)"
proof -
  have last: "keeps (timely P) (reads sh_last_time \<bind> sample_observe_time clock)"
    by (rule timed.keeps_reads_bind) (simp add: observe_time_kept)
  show ?thesis
    unfolding sample_poll_def
    by (rule keeps_timed, rule keepsD) (intro timed.keeps_fallible keeps_withdraw last)
qed

lemma keeps_cancel: "keeps (timely P) (sample_cancel clock a)"
  unfolding sample_cancel_def
  by (rule timed.keeps_attempt [OF keeps_poll], rule keeps_timed, rule timed.wp_keeps_bind [OF control_calls(2)])
    (simp, intro timed.keeps_fallible keeps_apply)

end

end
