(* ===== verification/Sample_Safety.thy ===== *)
theory Sample_Safety
  imports Sample_Parts
begin

text \<open>
  The invariant of the sample host: its gate's, the authority the host holds is the current
  receipt's, no time in the receipt or in a staged event is ahead of the clock, and the
  ledger of results agrees with the gate's record of the current operation's output.
\<close>

subsection \<open>The ledger\<close>

definition ledger_ok :: "gate \<Rightarrow> SampleResult list \<Rightarrow> bool" where
  "ledger_ok g results \<longleftrightarrow>
     distinct (map sr_operation_id results) \<and>
     (\<forall>x\<in>set results. id_spent g (sr_operation_id x) \<and> (\<exists>a. sound_result a x)) \<and>
     (\<forall>r. g_current_receipt g = Some r \<longrightarrow>
        (rc_output r = OdAccepted \<longleftrightarrow> oa_operation_id (rc_authority r) \<in> sr_operation_id ` set results))"

definition staged_ok :: "monotonic_time \<Rightarrow> StagedEvent \<Rightarrow> bool" where
  "staged_ok t e \<longleftrightarrow> sound_callback (st_callback e) \<and> st_observed_at e \<le> t"

lemma staged_ok_mono: "staged_ok t e \<Longrightarrow> t \<le> u \<Longrightarrow> staged_ok u e"
  by (auto simp: staged_ok_def)

definition owned_ok :: "gate \<Rightarrow> OperationAuthority option \<Rightarrow> monotonic_time \<Rightarrow> bool" where
  "owned_ok g own t \<longleftrightarrow> gate_ok g \<and> cfg_result_sink_observer (g_config g) = kResultSinkObserver \<and>
     own = map_option rc_authority (g_current_receipt g) \<and> receipt_by t g"

definition sample_ok :: "'w sampling \<Rightarrow> bool" where
  "sample_ok s \<longleftrightarrow>
     owned_ok (sh_gate s) (sh_current_authority s) (sh_last_time s) \<and> sh_has_read_time s \<and>
     ledger_ok (sh_gate s) (sa_results (sh_adapter s)) \<and> adapter_ok (sh_adapter s) \<and>
     (\<forall>e\<in>set (sh_staged_events s). staged_ok (sh_last_time s) e) \<and>
     (\<forall>q. sh_prepared_request s = Some q \<longrightarrow> sample_request_valid q)"

lemma sample_okD:
  assumes "sample_ok s"
  shows "gate_ok (sh_gate s)" "cfg_result_sink_observer (g_config (sh_gate s)) = kResultSinkObserver"
    "sh_current_authority s = map_option rc_authority (g_current_receipt (sh_gate s))"
    "receipt_by (sh_last_time s) (sh_gate s)" "sh_has_read_time s"
    "ledger_ok (sh_gate s) (sa_results (sh_adapter s))" "adapter_ok (sh_adapter s)"
    "\<And>e. e \<in> set (sh_staged_events s) \<Longrightarrow> staged_ok (sh_last_time s) e"
    "\<And>q. sh_prepared_request s = Some q \<Longrightarrow> sample_request_valid q"
  using assms by (simp_all add: sample_ok_def owned_ok_def)

subsection \<open>Calls of the gate\<close>

lemma sink_observer_step: "cfg_result_sink_observer (g_config (fst (gate_step g c))) = cfg_result_sink_observer (g_config g)"
  using arg_cong [OF gate_step_sources [of g c], of cfg_result_sink_observer] by (simp add: sources_def)

lemma authority_step:
  assumes "gate_ok g" and "\<not> delivers c"
  shows "map_option rc_authority (g_current_receipt (fst (gate_step g c))) = map_option rc_authority (g_current_receipt g)"
  using assms(1)
proof (cases rule: gate_step_receipt [of g c])
  case (evolved r r')
  with receipt_evolvesD(1) [OF evolved(4)] show ?thesis by simp
qed (use assms(2) in simp_all)

lemma ledger_step:
  assumes "gate_ok g" and "\<not> delivers c" and "ledger_ok g results"
  shows "ledger_ok (fst (gate_step g c)) results"
proof -
  let ?g = "fst (gate_step g c)"
  have same: "output_accepted ?g = output_accepted g" by (rule gate_step_output [OF assms(2)])
  have "rc_output r = OdAccepted \<longleftrightarrow> oa_operation_id (rc_authority r) \<in> sr_operation_id ` set results"
    if r: "g_current_receipt ?g = Some r" for r
  proof -
    from authority_step [OF assms(1,2)] r obtain q where q: "g_current_receipt g = Some q"
      "rc_authority q = rc_authority r" by (cases "g_current_receipt g") auto
    with same r have "rc_output q = OdAccepted \<longleftrightarrow> rc_output r = OdAccepted" by (simp add: output_accepted_def)
    with assms(3) q show ?thesis by (auto simp: ledger_ok_def)
  qed
  with assms(3) id_spent_step [OF assms(1)] show ?thesis by (simp add: ledger_ok_def)
qed

lemma owned_step:
  assumes "owned_ok g own t" and "\<not> delivers c" and "call_time c \<le> t"
  shows "owned_ok (fst (gate_step g c)) own t"
  using assms gate_step_ok [of g c] sink_observer_step [of g c] authority_step [of g c] gate_step_by [of t g c]
  by (simp add: owned_ok_def)

lemma sample_ok_call:
  assumes "sample_ok s" and "\<not> delivers c" and "call_time c \<le> sh_last_time s"
  shows "sample_ok (s\<lparr>sh_gate := fst (gate_step (sh_gate s) c)\<rparr>)"
  using assms owned_step [of "sh_gate s"] ledger_step [OF sample_okD(1) [OF assms(1)]]
  by (simp add: sample_ok_def)

text \<open>A new receipt has a fresh identity and no output.\<close>

lemma admitted_ok:
  assumes ok: "sample_ok s" and valid: "sample_request_valid q" and by_now: "oq_requested_at x \<le> sh_last_time s"
    and granted: "admission_refusal (sh_gate s) x = None"
  shows "sample_ok (install_prepared (admitted_authority (sh_gate s) x) q
    (s\<lparr>sh_gate := admitted_gate (sh_gate s) x\<rparr>))"
proof -
  let ?g = "sh_gate s" and ?h = "admitted_gate (sh_gate s) x"
  note parts = sample_okD [OF ok]
  have step: "?h = fst (gate_step ?g (CallAdmit x))"
    using granted by (cases rule: admit_cases [of ?g x]) auto
  have fresh: "\<not> id_spent ?g (g_next_operation_id ?g)"
    using admission_granted(3) [OF granted] by (simp add: id_spent_def)
  have "gate_ok ?h" "cfg_result_sink_observer (g_config ?h) = kResultSinkObserver"
    "receipt_by (sh_last_time s) ?h"
    using gate_step_ok [OF parts(1)] sink_observer_step parts(2) gate_step_by [OF parts(4)] by_now
    by (simp_all only: step call_time.simps)
  moreover have receipt: "g_current_receipt ?h = Some r \<Longrightarrow>
      rc_authority r = admitted_authority ?g x \<and> rc_output r = OdPending" for r
    by (auto simp: admitted_gate_def new_receipt_def)
  moreover have "ledger_ok ?h (sa_results (sh_adapter s))"
    unfolding ledger_ok_def
  proof (intro conjI allI impI ballI)
    show "distinct (map sr_operation_id (sa_results (sh_adapter s)))"
      using parts(6) by (simp add: ledger_ok_def)
    fix y assume "y \<in> set (sa_results (sh_adapter s))"
    with parts(6) id_spent_step [OF parts(1), of _ "CallAdmit x"]
    show "id_spent ?h (sr_operation_id y)" "\<exists>a. sound_result a y" by (auto simp: ledger_ok_def step)
  next
    fix r assume "g_current_receipt ?h = Some r"
    from receipt [OF this] have "oa_operation_id (rc_authority r) = g_next_operation_id ?g" "rc_output r = OdPending"
      by (simp_all add: admitted_authority_def)
    with fresh parts(6) show "rc_output r = OdAccepted \<longleftrightarrow>
        oa_operation_id (rc_authority r) \<in> sr_operation_id ` set (sa_results (sh_adapter s))"
      by (auto simp: ledger_ok_def)
  qed
  moreover have "map_option rc_authority (g_current_receipt ?h) = Some (admitted_authority ?g x)"
    using receipt by (auto simp: admitted_gate_def)
  ultimately show ?thesis
    using ok valid by (simp add: sample_ok_def owned_ok_def install_prepared_def)
qed

subsection \<open>Acceptance of a result\<close>

definition acceptance_evidence :: "OperationAuthority \<Rightarrow> monotonic_time \<Rightarrow> OutputEvidence" where
  "acceptance_evidence a t =
    \<lparr>oe_authority = a, oe_result_reference = sample_result_reference a,
     oe_record = \<lparr>er_source = kResultSinkObserver, er_observed_at = t, er_sequence = 1\<rparr>\<rparr>"

lemma accepted_ok:
  assumes ok: "sample_ok s" and deliverable: "can_deliver_result (sh_gate s) a"
    and own: "sr_operation_id x = oa_operation_id a" and sound: "sound_result a x"
    and r: "g_current_receipt (sh_gate s) = Some r" "\<not> has_reached_deadline r t" "latest_time r \<le> t"
    and by_now: "t \<le> sh_last_time s"
  shows "sample_ok (s\<lparr>sh_adapter := (sh_adapter s)\<lparr>sa_results := sa_results (sh_adapter s) @ [x]\<rparr>,
    sh_gate := fst (observe_output_accepted (sh_gate s) (acceptance_evidence a t))\<rparr>)"
proof -
  let ?g = "sh_gate s" and ?h = "fst (observe_output_accepted (sh_gate s) (acceptance_evidence a t))"
    and ?old = "sa_results (sh_adapter s)"
  note parts = sample_okD [OF ok]
  have step: "?h = fst (gate_step ?g (CallOutputAccepted (acceptance_evidence a t)))" by simp
  from deliverable_receipt [OF parts(1) deliverable] r(1) have a: "rc_authority r = a" "rc_output r = OdPending"
    by auto
  have delivered: "output_accepted ?h = Some True"
    unfolding acceptance_evidence_def
    by (rule deliverable_accepted [OF parts(1) deliverable r(1,2,3) parts(2)])
      (simp_all add: kResultSinkObserver_def sample_result_reference_def)
  then obtain r' where r': "g_current_receipt ?h = Some r'" "rc_output r' = OdAccepted"
    by (auto simp: output_accepted_def)
  have a': "rc_authority r' = a"
    using parts(1)
  proof (cases rule: gate_step_receipt [of ?g "CallOutputAccepted (acceptance_evidence a t)"])
    case (evolved q q')
    with receipt_evolvesD(1) [OF evolved(4)] r(1) r'(1) a(1) show ?thesis by simp
  qed (use r(1) r'(1) a(1) in simp_all)
  have "owned_ok ?h (sh_current_authority s) (sh_last_time s)"
    using gate_step_ok [OF parts(1), of "CallOutputAccepted (acceptance_evidence a t)"]
      sink_observer_step [of ?g "CallOutputAccepted (acceptance_evidence a t)"]
      gate_step_by [OF parts(4), of "CallOutputAccepted (acceptance_evidence a t)"] parts(2,3) r(1) r'(1) a(1) a' by_now
    by (simp add: owned_ok_def acceptance_evidence_def)
  moreover have "ledger_ok ?h (?old @ [x])"
  proof -
    have "oa_operation_id a \<notin> sr_operation_id ` set ?old"
      using parts(6) r(1) a by (auto simp: ledger_ok_def)
    moreover have "id_spent ?h i" if "id_spent ?g i" for i
      using id_spent_step [OF parts(1) that, of "CallOutputAccepted (acceptance_evidence a t)"] by simp
    moreover have "id_spent ?g (oa_operation_id a)"
      using current_id_spent [OF parts(1) r(1)] a(1) by simp
    ultimately show ?thesis
      using parts(6) own sound r' a' by (auto simp: ledger_ok_def)
  qed
  ultimately show ?thesis
    using ok by (simp add: sample_ok_def adapter_ok_def)
qed

subsection \<open>What the layers keep\<close>

definition sound :: "'w sampling \<Rightarrow> 'w sampling \<Rightarrow> bool" where
  "sound s t \<longleftrightarrow> (sample_ok s \<longrightarrow> sample_ok t)"

lemma soundI: "(sample_ok s \<Longrightarrow> sample_ok t) \<Longrightarrow> sound s t"
  by (simp add: sound_def)

lemma sample_ok_world [simp]: "sample_ok (s\<lparr>sh_world := w\<rparr>) \<longleftrightarrow> sample_ok s"
  by (simp add: sample_ok_def)

lemma sample_ok_later:
  "sample_ok s \<Longrightarrow> sh_last_time s \<le> x \<Longrightarrow>
    sample_ok (s\<lparr>sh_world := w, sh_has_read_time := True, sh_last_time := x\<rparr>)"
  by (auto simp: sample_ok_def owned_ok_def intro: receipt_by_mono staged_ok_mono)

lemma sample_ok_adapter:
  "sample_ok s \<Longrightarrow> adapter_moves (sh_adapter s) a \<Longrightarrow> sample_ok (s\<lparr>sh_adapter := a\<rparr>)"
  by (simp add: sample_ok_def adapter_moves_def)

interpretation sound: sample_emission sound clock for clock :: "'w clock"
proof unfold_locales
  fix s :: "'w sampling" and cb x
  show "sound s (s\<lparr>sh_staged_events := sh_staged_events s @ [\<lparr>st_callback = cb, st_observed_at = x\<rparr>]\<rparr>)"
    if "sound_callback cb" "x \<le> sh_last_time s"
    using that by (auto simp: sound_def sample_ok_def staged_ok_def)
  show "sound s (s\<lparr>sh_prepared_request := None, sh_prepared_authority := None\<rparr>)"
    by (simp add: sound_def sample_ok_def)
qed (auto simp: sound_def sample_ok_later sample_ok_adapter)

lemma control_call_kind: "control_call c \<Longrightarrow> \<not> delivers c \<and> \<not> settles c"
  by (cases c) simp_all

interpretation sound: sample_control sound clock for clock :: "'w clock"
proof unfold_locales
  fix s :: "'w sampling" and c a
  show "sound s (s\<lparr>sh_gate := fst (gate_step (sh_gate s) c)\<rparr>)" if "control_call c" "call_time c \<le> sh_last_time s"
    using control_call_kind [OF that(1)] that(2) by (auto intro: soundI sample_ok_call)
  show "sound s (s\<lparr>sh_adapter := fst (adapter_request_stop a (sh_adapter s))\<rparr>)"
    by (auto intro: soundI sample_ok_adapter adapter_moves_stop)
  show "keeps (timely sound) (discard_prepared clock)" by (rule sound.keeps_discard)
qed

text \<open>The gate of a host under control moves without admission or settlement.\<close>

definition steadily :: "'w sampling \<Rightarrow> 'w sampling \<Rightarrow> bool" where
  "steadily s t \<longleftrightarrow> steady_gate (sh_gate s) (sh_gate t)"

interpretation steadily: sample_emission steadily clock for clock :: "'w clock"
  by unfold_locales (auto simp: steadily_def intro: steady_gate_trans)

interpretation steadily: sample_control steadily clock for clock :: "'w clock"
  by unfold_locales (simp_all add: steadily_def steady_gate_step control_call_kind steadily.keeps_discard)

text \<open>
  The members of the sample host keep the invariant: the event loop, with the acceptance of
  a result between an expiry check and its record; startup, rebinding and shutdown; and
  admission and dispatch.
\<close>

subsection \<open>Programs from a state that satisfies the invariant\<close>

definition kept_ok :: "'w sampling \<Rightarrow> 'w sampling \<Rightarrow> bool" where
  "kept_ok s t \<longleftrightarrow> (sample_ok s \<longrightarrow> sample_ok t \<and> sh_last_time s \<le> sh_last_time t)"

interpretation kept: kept_relation kept_ok
  by unfold_locales (auto simp: kept_ok_def)

lemma timely_kept: "timely sound s t \<Longrightarrow> kept_ok s t"
  by (simp add: timely_def sound_def kept_ok_def sample_ok_def)

lemma keeps_timely_kept: "keeps (timely sound) m \<Longrightarrow> keeps kept_ok m"
  by (auto simp: keeps_def wp_run timely_kept)

lemma ok_case: "(sample_ok s \<Longrightarrow> wp m (\<lambda>_. kept_ok s) s) \<Longrightarrow> wp m (\<lambda>_. kept_ok s) s"
  by (cases "sample_ok s") (simp_all add: wp_run kept_ok_def)

lemma keeps_okI: "(\<And>s. sample_ok s \<Longrightarrow> wp m (\<lambda>_. kept_ok s) s) \<Longrightarrow> keeps kept_ok m"
  by (rule keepsI, rule ok_case)

lemma ok_change: "(sample_ok s \<Longrightarrow> sample_ok (f s)) \<Longrightarrow> sh_last_time (f s) = sh_last_time s \<Longrightarrow>
    wp (changes f) (\<lambda>_. kept_ok s) s"
  by (simp add: wp_changes kept_ok_def)

lemma adapter_ok_keeps: "(\<And>a. adapter_moves a (f a)) \<Longrightarrow> keeps kept_ok (adapter_changes f)"
  by (rule keeps_timely_kept, rule sound.keeps_adapter)

lemma call_ok:
  assumes "\<And>g. fst (f g) = fst (gate_step g c)" and "\<not> delivers c" and "call_time c \<le> sh_last_time s"
  shows "wp (sample_gate_call f) (\<lambda>_. kept_ok s) s"
  using sample_ok_call [of s c] assms(2,3) assms(1) [of "sh_gate s"]
  by (simp add: wp_sample_gate_call split_beta kept_ok_def)

lemma calls_ok:
  "er_observed_at (ne_record e1) \<le> sh_last_time s \<Longrightarrow>
    wp (sample_gate_call (\<lambda>g. observe_native g e1)) (\<lambda>_. kept_ok s) s"
  "er_observed_at (nse_record e2) \<le> sh_last_time s \<Longrightarrow>
    wp (sample_gate_call (\<lambda>g. observe_non_submission g e2)) (\<lambda>_. kept_ok s) s"
  "er_observed_at (ond_record e3) \<le> sh_last_time s \<Longrightarrow>
    wp (sample_gate_call (\<lambda>g. observe_output_not_delivered g e3)) (\<lambda>_. kept_ok s) s"
  "er_observed_at (ste_record e4) \<le> sh_last_time s \<Longrightarrow>
    wp (sample_gate_call (\<lambda>g. observe_settlement g e4)) (\<lambda>_. kept_ok s) s"
  "x \<le> sh_last_time s \<Longrightarrow> wp (sample_gate_call (\<lambda>g. claim_dispatch g a x)) (\<lambda>_. kept_ok s) s"
  "x \<le> sh_last_time s \<Longrightarrow> wp (sample_gate_call (\<lambda>g. withdraw_binding g b x)) (\<lambda>_. kept_ok s) s"
  "wp (sample_gate_call (\<lambda>g. observe_startup g e5)) (\<lambda>_. kept_ok s) s"
  "wp (sample_gate_call (\<lambda>g. observe_rebind_readiness g e6)) (\<lambda>_. kept_ok s) s"
  "wp (sample_gate_call (\<lambda>g. begin_rebind g b p e7 x)) (\<lambda>_. kept_ok s) s"
  "wp (sample_gate_call (\<lambda>g. commit_rebind g b x)) (\<lambda>_. kept_ok s) s"
  "wp (sample_gate_call (\<lambda>g. (close_admission g, ()))) (\<lambda>_. kept_ok s) s"
  by (rule call_ok [where c = "CallNative e1"], simp_all)
    (rule call_ok [where c = "CallNonSubmission e2"], simp_all,
     rule call_ok [where c = "CallOutputNotDelivered e3"], simp_all,
     rule call_ok [where c = "CallSettlement e4"], simp_all,
     rule call_ok [where c = "CallClaim a x"], simp_all,
     rule call_ok [where c = "CallWithdraw b x"], simp_all,
     rule call_ok [where c = "CallStartup e5"], simp_all,
     rule call_ok [where c = "CallReadiness e6"], simp_all,
     rule call_ok [where c = "CallBeginRebind b p e7 x"], simp_all,
     rule call_ok [where c = "CallCommit b x"], simp_all,
     rule call_ok [where c = CallClose], simp_all)

lemma timed_ok:
  assumes "\<And>x t. sample_ok t \<Longrightarrow> sh_last_time t = x \<Longrightarrow> wp (f x) (\<lambda>_. kept_ok t) t"
  shows "keeps kept_ok (attempt (read_time clock) f)"
  by (rule keepsI, rule kept.attempt_then [where A = "\<lambda>x t. sh_last_time t = x"],
      rule wp_mono [OF sound.read_time_kept], use timely_kept in blast) (use assms ok_case in blast)

text \<open>Where the loop has checked for expiry, a result that the gate would deliver is in time.\<close>

definition in_time :: "monotonic_time \<Rightarrow> 'w sampling \<Rightarrow> bool" where
  "in_time x t \<longleftrightarrow> (\<forall>b. can_deliver_result (sh_gate t) b \<longrightarrow>
     (\<exists>r. g_current_receipt (sh_gate t) = Some r \<and> \<not> has_reached_deadline r x \<and> latest_time r \<le> x))"

lemma revoked_in_time:
  assumes "steady_gate g (sh_gate t)" and "gate_ok g" and "g_current_receipt g = Some r" and "is_revoked r"
  shows "in_time x t"
proof -
  from assms obtain r' where "g_current_receipt (sh_gate t) = Some r'" "receipt_evolves r r'"
    by (auto simp: steady_gate_def)
  with receipt_evolvesD(3) assms(4) show ?thesis by (auto simp: in_time_def can_deliver_result_def)
qed

lemma time_applied:
  assumes "observe_time g a t = (h, d)" and "cd_status d = CsApplied"
  shows "\<exists>r. g_current_receipt h = Some r \<and> is_revoked r"
proof -
  have "is_revoked (fst (revoke (r\<lparr>rc_expiry_observed_at := Some t\<rparr>) t))" for r
    by (simp add: is_revoked_def)
  with assms show ?thesis
    by (auto simp: observe_time_def split_beta split: option.splits if_split_asm)
qed

lemma observed_in_time:
  fixes s :: "'w sampling"
  assumes ok: "sample_ok s" and now: "sh_last_time s = x"
  shows "wp (sample_observe_time clock x) (\<lambda>_. in_time x) s"
proof (cases "sh_current_authority s")
  case None
  with sample_okD(3) [OF ok] have "in_time x s"
    by (simp add: in_time_def can_deliver_result_def)
  with None show ?thesis by (simp add: sample_observe_time_def wp_rules)
next
  case (Some a)
  note parts = sample_okD [OF ok]
  obtain g d where g: "observe_time (sh_gate s) a x = (g, d)" by (cases "observe_time (sh_gate s) a x")
  let ?s = "s\<lparr>sh_gate := g\<rparr>"
  have "wp (apply_control clock a d) (\<lambda>_. in_time x) ?s"
  proof (cases "cd_status d = CsApplied")
    case True
    from time_applied [OF g True] obtain r where r: "g_current_receipt g = Some r" "is_revoked r" by blast
    have "gate_ok g" using gate_step_ok [OF parts(1), of "CallTime a x"] g by simp
    with r have "in_time x u" if "timely steadily ?s u" for u
      using that parts(5) revoked_in_time [of g u r x] by (simp add: timely_def steadily_def)
    then show ?thesis by (rule wp_mono [OF keepsD [OF steadily.keeps_apply]])
  next
    case False
    have "in_time x ?s"
      unfolding in_time_def
    proof (intro allI impI)
      fix b assume "can_deliver_result (sh_gate ?s) b"
      then have "can_deliver_result (fst (observe_time (sh_gate s) a x)) b" using g by simp
      note due = observe_time_deliverable [OF parts(1) _ _ this]
      have "receipt_by x (sh_gate s)" "map_option rc_authority (g_current_receipt (sh_gate s)) = Some a"
        using parts(3,4) now Some by simp_all
      with due(1,3) g show "\<exists>r. g_current_receipt (sh_gate ?s) = Some r \<and> \<not> has_reached_deadline r x \<and> latest_time r \<le> x"
        by (auto simp: receipt_by_def)
    qed
    with False show ?thesis by (simp add: apply_control_def wp_rules)
  qed
  then have "wp (attempt (apply_control clock a d) (\<lambda>_. yields d)) (\<lambda>_. in_time x) ?s"
    by (rule wp_attempt_then [where R = "in_time x" and A = "\<lambda>_ _. True", OF wp_mono]) (simp_all add: wp_yields)
  with Some g show ?thesis by (simp add: sample_observe_time_def wp_rules)
qed

lemma observed_ok:
  assumes "\<And>x t. sample_ok t \<Longrightarrow> x \<le> sh_last_time t \<Longrightarrow> in_time x t \<Longrightarrow> wp (f x) (\<lambda>_. kept_ok t) t"
  shows "keeps kept_ok (attempt (read_time clock) (\<lambda>x. attempt (sample_observe_time clock x) (\<lambda>_. f x)))"
proof (rule timed_ok, rule kept.attempt_then)
  fix x and t :: "'a sampling"
  assume t: "sample_ok t" "sh_last_time t = x"
  then have "wp (sample_observe_time clock x) (\<lambda>r u. timely sound t u \<and> in_time x u) t"
    by (simp add: wp_conj sound.observe_time_kept observed_in_time)
  then show "wp (sample_observe_time clock x)
      (\<lambda>r u. kept_ok t u \<and> (\<forall>d. r = Inr d \<longrightarrow> x \<le> sh_last_time u \<and> in_time x u)) t"
    by (rule wp_mono) (use t timely_kept in \<open>auto simp: timely_def sample_ok_def\<close>)
qed (use assms ok_case in blast)

subsection \<open>The event loop\<close>

lemma refused_ok:
  assumes "r \<noteq> RaAccepted" and "x \<le> sh_last_time s"
  shows "wp (report_acceptance a x r) (\<lambda>_. kept_ok s) s"
  using assms unfolding report_acceptance_def Let_def
  by (cases r) (auto simp: wp_yields kept.kept_refl
      intro!: kept.wp_keeps_bind calls_ok kept.keeps_yields)

lemma delivery_ok:
  assumes ok: "sample_ok s" and now: "x \<le> sh_last_time s" "in_time x s" and sound: "sound_result a y"
  shows "wp (accept_result a y (\<lambda>g. can_deliver_result g a) \<bind> report_acceptance a x) (\<lambda>_. kept_ok s) s"
proof -
  have after: "wp (adapter_changes f \<bind> (\<lambda>_. report_acceptance a x RaPermissionDenied)) (\<lambda>_. kept_ok s) s"
    if "\<And>d. adapter_moves d (f d)" for f
  proof (rule kept.wp_then [where P = "\<lambda>_ t. x \<le> sh_last_time t"])
    show "wp (adapter_changes f) (\<lambda>_ t. kept_ok s t \<and> x \<le> sh_last_time t) s"
      using keepsD [OF adapter_ok_keeps [OF that]] by (rule wp_mono) (use ok now(1) in \<open>auto simp: kept_ok_def\<close>)
  qed (simp add: refused_ok)
  consider (invalid) "sr_operation_id y \<noteq> oa_operation_id a"
    | (denied) "sr_operation_id y = oa_operation_id a" "\<not> can_deliver_result (sh_gate s) a"
    | (unready) "sr_operation_id y = oa_operation_id a" "can_deliver_result (sh_gate s) a"
        "\<not> is_result_sink_ready (sh_adapter s)"
    | (accepted) "sr_operation_id y = oa_operation_id a" "can_deliver_result (sh_gate s) a"
        "is_result_sink_ready (sh_adapter s)" by blast
  then show ?thesis
  proof cases
    case accepted
    with now(2) obtain r where r: "g_current_receipt (sh_gate s) = Some r" "\<not> has_reached_deadline r x" "latest_time r \<le> x"
      by (auto simp: in_time_def)
    from accepted_ok [OF ok accepted(2,1) sound r now(1)] accepted show ?thesis
      by (simp add: accept_result_def report_acceptance_def acceptance_evidence_def wp_rules split_beta kept_ok_def)
  next
    case denied
    with after [of "\<lambda>d. d\<lparr>sa_denial_count := sa_denial_count d + 1\<rparr>"] show ?thesis
      by (simp add: accept_result_def wp_rules)
  qed (simp_all add: accept_result_def wp_rules refused_ok now(1))
qed

lemma native_ok:
  assumes "st_observed_at e \<le> sh_last_time s"
  shows "wp (process_native e k) (\<lambda>_. kept_ok s) s"
  unfolding process_native_def
  by (rule kept.wp_keeps_bind, rule calls_ok) (simp_all add: evidence_of_def assms kept.keeps_yields)

lemma result_ok:
  assumes "sound_callback (st_callback e)"
  shows "keeps kept_ok (process_result clock e)"
  unfolding process_result_def
  by (cases "nc_result (st_callback e)")
    (use assms in \<open>auto simp: sound_callback_def kept.keeps_yields intro!: observed_ok delivery_ok\<close>)

lemma settled_ok: "keeps kept_ok (process_settled clock e)"
  unfolding process_settled_def
  by (rule observed_ok, rule kept.wp_keeps_bind, rule calls_ok) (simp_all add: kept.keeps_yields)

lemma event_ok:
  assumes "staged_ok (sh_last_time s) e"
  shows "wp (process_event clock e) (\<lambda>_. kept_ok s) s"
proof -
  have e: "sound_callback (st_callback e)" "st_observed_at e \<le> sh_last_time s"
    using assms by (simp_all add: staged_ok_def)
  show ?thesis
    unfolding process_event_def
    by (cases "nc_kind (st_callback e)")
      (auto simp: native_ok e keepsD [OF result_ok] keepsD [OF settled_ok] evidence_of_def
        intro!: kept.wp_keeps_bind calls_ok kept.keeps_yields)
qed

lemma poll_keeps: "keeps kept_ok (sample_poll clock)"
  by (rule keeps_timely_kept, rule sound.keeps_poll)

lemma keeps_process_next: "keeps kept_ok (process_next clock)"
proof -
  have "wp (changes (\<lambda>s. s\<lparr>sh_staged_events := rest\<rparr>) \<bind>
      (\<lambda>_. attempt (process_event clock e) (\<lambda>_. yields True))) (\<lambda>_. kept_ok s) s"
    if ok: "sample_ok s" and staged: "sh_staged_events s = e # rest" for s :: "'a sampling" and e rest
  proof (rule kept.wp_then [where P = "\<lambda>_ t. staged_ok (sh_last_time t) e"])
    show "wp (changes (\<lambda>s. s\<lparr>sh_staged_events := rest\<rparr>))
        (\<lambda>_ t. kept_ok s t \<and> staged_ok (sh_last_time t) e) s"
      using ok staged by (simp add: wp_changes kept_ok_def sample_ok_def)
    show "wp (attempt (process_event clock e) (\<lambda>_. yields True)) (\<lambda>_. kept_ok t) t"
      if "staged_ok (sh_last_time t) e" for t
      by (rule kept.attempt_then [where A = "\<lambda>_ _. True"])
        (simp_all add: event_ok [OF that] wp_yields kept.kept_refl)
  qed
  then have "keeps kept_ok (reads sh_staged_events \<bind> (\<lambda>staged. case staged of [] \<Rightarrow> yields False
      | e # rest \<Rightarrow> changes (\<lambda>s. s\<lparr>sh_staged_events := rest\<rparr>) \<bind>
          (\<lambda>_. attempt (process_event clock e) (\<lambda>_. yields True))))"
    by (intro keeps_okI kept.wp_reads_then) (auto simp: wp_yields kept.kept_refl split: list.split)
  then show ?thesis
    unfolding process_next_def by (intro kept.keeps_attempt poll_keeps)
qed

lemma keeps_turns: "keeps kept_ok (sample_turns clock fuel)"
  by (induction fuel) (auto intro!: kept.keeps_fallible keeps_process_next)

lemma keeps_process_all: "keeps kept_ok (process_all clock)"
  unfolding process_all_def by (intro kept.keeps_bind kept.keeps_reads keeps_turns)

end
