(* ===== verification/Sample_Members.thy ===== *)
theory Sample_Members
  imports Sample_Safety
begin

text \<open>
  The public members of the sample host keep its invariant, and so every state that calls
  of them can reach satisfies it.
\<close>

subsection \<open>Startup and rebinding\<close>

text \<open>What holds of a program once the clock has reached a time.\<close>

definition kept_from :: "monotonic_time \<Rightarrow> 'w sampling \<Rightarrow> 'w sampling \<Rightarrow> bool" where
  "kept_from x s t \<longleftrightarrow> (x \<le> sh_last_time s \<longrightarrow> kept_ok s t \<and> sh_last_time s \<le> sh_last_time t)"

interpretation kept_from: kept_relation "kept_from x" for x
  by unfold_locales (auto simp: kept_from_def intro: kept.kept_refl kept.kept_trans)

lemma kept_fromD:
  "keeps (kept_from x) m \<Longrightarrow> x \<le> sh_last_time s \<Longrightarrow> wp m (\<lambda>_. kept_ok s) s"
  by (rule wp_mono [OF keepsD [where R = "kept_from x"]]) (auto simp: kept_from_def)

lemma from_gate:
  assumes "\<And>s :: 'w sampling. x \<le> sh_last_time s \<Longrightarrow> wp (sample_gate_call f) (\<lambda>_. kept_ok s) s"
  shows "keeps (kept_from x :: 'w sampling \<Rightarrow> 'w sampling \<Rightarrow> bool) (sample_gate_call f)"
  using assms by (intro keepsI) (simp add: wp_sample_gate_call kept_from_def split_beta)

lemma from_adapter: "(\<And>a. adapter_moves a (f a)) \<Longrightarrow> keeps (kept_from x) (adapter_changes f)"
  by (rule keepsI) (simp add: wp_adapter_changes kept_from_def kept_ok_def sample_ok_adapter)

lemma from_change:
  assumes "\<And>s. sh_last_time (f s) = sh_last_time s" and "\<And>s. sample_ok s \<Longrightarrow> sample_ok (f s)"
  shows "keeps (kept_from x) (changes f)"
  by (rule keepsI) (simp add: wp_changes kept_from_def kept_ok_def assms)

lemma from_sequences:
  "keeps (kept_from x) next_binding_sequence" "keeps (kept_from x) next_worker_sequence"
  "keeps (kept_from x) next_sink_sequence"
  unfolding next_binding_sequence_def next_worker_sequence_def next_sink_sequence_def
  by (intro kept_from.keeps_bind kept_from.keeps_reads from_change; simp add: sample_ok_def)+

lemma inherit_moves: "adapter_moves a (inherit_observations a (new_adapter m))"
  by (simp add: adapter_moves_def adapter_ok_def inherit_observations_def new_adapter_def)

lemma from_replace: "keeps (kept_from x) (replace_adapter c (new_adapter m) x)"
  unfolding replace_adapter_def offer_replacement_def
  by (intro kept_from.keeps_intros from_sequences from_gate calls_ok from_adapter inherit_moves)

lemma from_begin: "keeps (kept_from x) (sample_begin_rebind b p m x)"
  unfolding sample_begin_rebind_def
  by (intro kept_from.keeps_intros from_sequences from_gate calls_ok from_replace)

lemma wp_does_ok: "wp m (\<lambda>_. kept_ok s) s \<Longrightarrow> wp (does m) (\<lambda>_. kept_ok s) s"
  by (simp add: wp_does)

lemma rebind_keeps: "keeps kept_ok (sample_rebind clock b p m)"
  unfolding sample_rebind_def
  by (intro kept.keeps_attempt poll_keeps timed_ok kept.wp_reads_then)
    (auto simp: wp_yields kept.kept_refl intro!: wp_does_ok kept_fromD [OF from_begin])

lemma keeps_startup:
  assumes "\<And>x. keeps (kept_from x) next_sequence"
  shows "keeps kept_ok (sample_observe_startup clock k source observe next_sequence)"
proof -
  have "keeps kept_ok next_sequence"
    by (rule keepsI, rule kept_fromD [OF assms order_refl])
  then show ?thesis
    unfolding sample_observe_startup_def
    by (intro kept.keeps_bind kept.keeps_reads timed_ok kept.wp_keeps_bind calls_ok kept.keeps_yields)
qed

lemma initialize_keeps: "keeps kept_ok (sample_initialize clock)"
  unfolding sample_initialize_def
  by (intro kept.keeps_fallible poll_keeps keeps_startup from_sequences)

lemma keeps_binding_status: "keeps kept_ok (sample_binding_status clock)"
  unfolding sample_binding_status_def
  by (intro timed_ok wp_does_ok keepsD [OF kept.keeps_reads])

subsection \<open>Submission\<close>

lemma prepare_keeps: "keeps kept_ok (sample_prepare clock q)"
proof -
  have "wp (sample_gate_call (\<lambda>g. admit g (sample_operation_request q x)) \<bind> (\<lambda>admission.
      case ad_authority admission of
        None \<Rightarrow> yields (sample_submission SsAdmissionBlocked (ad_status admission) None)
      | Some authority \<Rightarrow>
          if ad_status admission \<noteq> AdAdmitted
          then yields (sample_submission SsAdmissionBlocked (ad_status admission) (Some authority))
          else changes (install_prepared authority q) \<bind>
            (\<lambda>_. yields (sample_submission SsPrepared (ad_status admission) (Some authority)))))
      (\<lambda>_. kept_ok s) s"
    if "sample_ok s" "x \<le> sh_last_time s" "sample_request_valid q" for x and s :: "'a sampling"
  proof (cases rule: admit_cases [of "sh_gate s" "sample_operation_request q x"])
    case (refused status)
    then show ?thesis by (simp add: wp_rules kept.kept_refl)
  next
    case admitted
    with admitted_ok [OF that(1,3) _ admitted(1)] that(2) show ?thesis
      by (simp add: wp_rules kept_ok_def sample_operation_request_def)
        (simp add: install_prepared_def)
  qed
  then show ?thesis
    unfolding sample_prepare_def
    by (intro kept.keeps_attempt poll_keeps) (auto simp: kept.keeps_yields intro!: observed_ok)
qed

lemma permission_sound: "keeps (timely sound) (dispatch_permission clock a)"
  unfolding dispatch_permission_def
proof (rule keepsI, rule sound.timed.attempt_then [OF sound.read_time_kept])
  fix x and t :: "'a sampling"
  assume t: "sh_last_time t = x \<and> sh_has_read_time t"
  have claim: "wp (does (sample_gate_call (\<lambda>g. claim_dispatch g a x))) (\<lambda>_. timely sound u) u"
    if "x \<le> sh_last_time u" for u :: "'a sampling"
    using sample_ok_call [of u "CallClaim a x"] that
    by (simp add: wp_rules split_beta timely_same soundI)
  show "wp (attempt (sample_observe_time clock x) (\<lambda>_. does (sample_gate_call (\<lambda>g. claim_dispatch g a x))))
      (\<lambda>_. timely sound t) t"
    by (rule sound.timed.attempt_then [where A = "\<lambda>_ u. x \<le> sh_last_time u"],
        rule wp_mono [OF sound.observe_time_kept]) (use t claim in \<open>auto simp: timely_def\<close>)
qed

lemma keeps_dispatched: "keeps kept_ok (process_dispatched clock)"
  unfolding process_dispatched_def by (intro kept.keeps_fallible keeps_process_next keeps_process_all)

lemma keeps_dispatch_prepared: "keeps kept_ok (sample_dispatch_prepared clock a)"
proof -
  let ?dispatch = "\<lambda>q. changes (\<lambda>s. s\<lparr>sh_prepared_request := None, sh_prepared_authority := None\<rparr>) \<bind>
      (\<lambda>_. attempt (adapter_dispatch clock a q (dispatch_permission clock a))
        (\<lambda>dispatched. attempt (process_dispatched clock) (\<lambda>_. yields dispatched)))"
  have "keeps kept_ok (?dispatch q)" if "sample_request_valid q" for q
    by (intro kept.keeps_fallible keeps_dispatched keeps_timely_kept sound.keeps_dispatch that permission_sound
        sound.keeps_unprepared)
  then have "wp (?dispatch (the (sh_prepared_request s))) (\<lambda>_. kept_ok s) s"
    if "sample_ok s" "sh_prepared_request s \<noteq> None" for s
    using sample_okD(9) [OF that(1)] that(2) by (auto intro: keepsD)
  moreover have "keeps kept_ok (attempt (process_dispatched clock) (\<lambda>_. yields False))"
    by (intro kept.keeps_fallible keeps_dispatched)
  ultimately show ?thesis
    unfolding sample_dispatch_prepared_def
    by (intro kept.keeps_bind kept.keeps_reads kept.keeps_attempt poll_keeps keeps_okI kept.wp_reads_then)
      (auto simp: wp_yields kept.kept_refl keepsD)
qed

lemma submit_keeps: "keeps kept_ok (sample_submit clock q)"
  unfolding sample_submit_def
  by (intro kept.keeps_fallible prepare_keeps keeps_dispatch_prepared)

subsection \<open>Completion, replay and shutdown\<close>

lemma keeps_drain: "keeps kept_ok (drain_pending clock)"
proof (unfold drain_pending_def, rule keeps_okI)
  fix s :: "'a sampling"
  assume ok: "sample_ok s"
  show "wp (on_adapter take_pending \<bind> (\<lambda>pending. case pending of None \<Rightarrow> yields ()
      | Some work \<Rightarrow> finish_work clock work)) (\<lambda>_. kept_ok s) s"
  proof (rule kept.wp_then [where P = "\<lambda>p _. \<forall>w. p = Some w \<longrightarrow> sample_request_valid (wi_request w)"])
    show "wp (on_adapter take_pending)
        (\<lambda>p t. kept_ok s t \<and> (\<forall>w. p = Some w \<longrightarrow> sample_request_valid (wi_request w))) s"
      using sample_okD(7) [OF ok] sample_ok_adapter [OF ok, of "(sh_adapter s)\<lparr>sa_pending_work := None\<rparr>"]
      by (simp add: wp_on_adapter take_pending_def kept_ok_def adapter_ok_def)
  qed (auto simp: wp_yields kept.kept_refl split: option.split
      intro!: keepsD [OF keeps_timely_kept [OF sound.keeps_finish_work]])
qed

lemma keeps_complete: "keeps kept_ok (complete_deferred clock)"
  unfolding complete_deferred_def complete_pending_def
  by (intro kept.keeps_fallible poll_keeps keeps_drain)

lemma keeps_replay: "keeps kept_ok (replay_retained_result clock)"
proof (unfold replay_retained_result_def, rule keeps_okI, rule kept.wp_reads_then)
  fix s :: "'a sampling"
  assume "sample_ok s"
  then have sound: "retained_result (sh_adapter s) = Some cb \<Longrightarrow> sound_callback cb" for cb
    using sample_okD(7) [of s] by (simp add: retained_result_def adapter_ok_def split: if_split_asm)
  show "wp (case retained_result (sh_adapter s) of None \<Rightarrow> yields False
      | Some callback \<Rightarrow> attempt (read_time clock) (\<lambda>time.
          changes (\<lambda>s. s\<lparr>sh_staged_events := \<lparr>st_callback = callback, st_observed_at = time\<rparr> # sh_staged_events s\<rparr>) \<bind>
            (\<lambda>_. yields True))) (\<lambda>_. kept_ok s) s"
    by (auto simp: wp_yields kept.kept_refl split: option.split intro!: keepsD [OF timed_ok])
      (simp add: wp_rules kept_ok_def sample_ok_def staged_ok_def sound)
qed

lemma shutdown_keeps: "keeps kept_ok (sample_shutdown clock)"
proof -
  have "keeps kept_ok (sample_gate_call (\<lambda>g. (close_admission g, ())))" by (rule keepsI, rule calls_ok)
  moreover have "adapter_moves a (clear_callback (close_adapter a))" for a
    by (simp add: adapter_moves_def adapter_ok_def close_adapter_def clear_callback_def)
  moreover have "keeps kept_ok (changes (\<lambda>s. s\<lparr>sh_is_shutdown := True\<rparr>))"
    by (rule keepsI, rule ok_change) (simp_all add: sample_ok_def)
  ultimately show ?thesis
    unfolding sample_shutdown_def
    by (intro kept.keeps_fallible poll_keeps keeps_drain keeps_process_all
        keeps_timely_kept [OF sound.keeps_discard] adapter_ok_keeps)
qed

subsection \<open>The machine\<close>

lemma keeps_answers: "keeps kept_ok m \<Longrightarrow> keeps kept_ok (answers f m)"
  unfolding answers_def by (intro kept.keeps_fallible)

lemma keeps_sets: "(\<And>a. adapter_moves a (f a)) \<Longrightarrow> keeps kept_ok (sets f)"
  unfolding sets_def by (intro kept.keeps_fallible adapter_ok_keeps)

lemma keeps_member: "keeps kept_ok (sample_member_of clock c)"
  by (cases c)
    (simp_all add: keeps_sets keeps_answers initialize_keeps keeps_binding_status rebind_keeps keeps_replay
      prepare_keeps keeps_dispatch_prepared submit_keeps keeps_complete keeps_process_next keeps_process_all
      shutdown_keeps poll_keeps keeps_timely_kept [OF sound.keeps_withdraw] keeps_timely_kept [OF sound.keeps_cancel])

interpretation samples: inv_machine "sample_step clock" sample_ok for clock :: "'w clock"
proof unfold_locales
  fix s :: "'w sampling" and c
  assume "sample_ok s"
  with keeps_run [OF keeps_member [of clock c], of s] show "sample_ok (fst (sample_step clock s c))"
    by (simp add: sample_step_def kept_ok_def)
qed

lemma sample_initial_ok:
  fixes s :: "'a sampling"
  assumes "sample_initial s"
  shows "sample_ok s"
proof -
  obtain mode and clock :: "'a clock" and w where made: "make_sample_host mode (Some clock) w = Inr s"
    using assms by (auto simp: sample_initial_def)
  obtain t v where "clock w = (t, v)" by (cases "clock w")
  with made obtain g where g: "make_gate (sample_gate_config t) = Some g"
    and s: "sh_gate s = g" "sh_current_authority s = None" "sh_has_read_time s"
      "sh_adapter s = new_adapter mode" "sh_staged_events s = []" "sh_prepared_request s = None"
    by (auto simp: make_sample_host_def split: option.split_asm)
  then have "g = implementation_init (sample_gate_config t)" by (simp add: make_gate_def split: if_split_asm)
  moreover have "gate_ok g" using g by (auto intro!: gate_initial_ok simp: gate_initial_def)
  ultimately show ?thesis
    using s by (simp add: sample_ok_def owned_ok_def ledger_ok_def adapter_ok_def receipt_by_def
        implementation_init_def sample_gate_config_def new_adapter_def)
qed

lemma sample_reachable_ok: "sample_reachable clock s \<Longrightarrow> sample_ok s"
  by (erule samples.inv_reachable) (rule sample_initial_ok)

end
