(* ===== verification/Sample_Loop.thy ===== *)
theory Sample_Loop
  imports Sample_Parts
begin

text \<open>
  The event loop of the sample host ends. The work left is the number of staged events and
  the three events that discarding a preparation stages; no control member raises it, and
  each turn that has taken an event lowers it.
\<close>

subsection \<open>How much a member stages\<close>

definition grows :: "nat \<Rightarrow> 'w sampling \<Rightarrow> 'w sampling \<Rightarrow> bool" where
  "grows n = timely (\<lambda>s t. length (sh_staged_events t) \<le> length (sh_staged_events s) + n \<and>
     sh_prepared_authority t = sh_prepared_authority s)"

lemma grows_refl: "grows 0 s s"
  by (simp add: grows_def timely_def)

lemma grows_trans: "grows m s t \<Longrightarrow> grows n t u \<Longrightarrow> grows (m + n) s u"
  by (auto simp: grows_def timely_def)

lemma emit_grows: "wp (emit clock work kind sequence result) (\<lambda>_. grows 1 s) s"
  by (auto simp: emit_def stage_event_def wp_rules wp_read_time Let_def grows_def timely_def
      split: prod.split)

lemma emit_all_grows: "wp (emit_all clock work events) (\<lambda>_. grows (length events) s) s"
proof (induction events arbitrary: s)
  case Nil
  show ?case by (simp add: wp_yields grows_refl)
next
  case (Cons e events)
  obtain k n r where e: "e = (k, n, r)" by (cases e)
  have "grows (Suc (length events)) s t" if "grows 1 s t" for t
    using grows_trans [OF that, of "length events" t] by (simp add: grows_def timely_def)
  moreover have "wp (emit_all clock work events) (\<lambda>_. grows (Suc (length events)) s) t" if "grows 1 s t" for t
    using Cons.IH [of t] by (rule wp_mono) (use grows_trans [OF that] in simp)
  ultimately show ?case
    unfolding e emit_all.simps by (intro wp_attempt_then [OF wp_mono [OF emit_grows], where R = "grows 1 s"
      and A = "\<lambda>_ _. True"]) simp_all
qed

subsection \<open>Members that leave no more work\<close>

definition lighter :: "'w sampling \<Rightarrow> 'w sampling \<Rightarrow> bool" where
  "lighter s t \<longleftrightarrow> sample_work t \<le> sample_work s"

lemma lighter_fields [simp]:
  "lighter s (s\<lparr>sh_gate := g\<rparr>)" "lighter s (s\<lparr>sh_adapter := a\<rparr>)" "lighter s (s\<lparr>sh_world := w\<rparr>)"
  "lighter s (s\<lparr>sh_world := w, sh_has_read_time := b, sh_last_time := x\<rparr>)"
  by (simp_all add: lighter_def sample_work_def)

interpretation lighter: sample_timed lighter clock for clock :: "'w clock"
  by unfold_locales (auto simp: lighter_def sample_work_def)

lemma discard_lighter: "keeps (timely lighter) (discard_prepared clock)"
proof (rule keepsI, unfold discard_prepared_def, rule lighter.timed.wp_reads_then)
  fix s :: "'a sampling"
  let ?t = "s\<lparr>sh_prepared_request := None, sh_prepared_authority := None\<rparr>"
  have "timely lighter s u" if "grows 3 ?t u" "sh_prepared_authority s \<noteq> None" for u
    using that by (auto simp: grows_def timely_def lighter_def sample_work_def)
  then have "wp (not_submitted clock work) (\<lambda>_. timely lighter s) ?t" if "sh_prepared_authority s \<noteq> None" for work
    unfolding not_submitted_def
    by (intro wp_mono [OF emit_all_grows [where s = ?t]]) (simp add: that numeral_3_eq_3)
  then show "wp (case sh_prepared_authority s of None \<Rightarrow> yields ()
      | Some authority \<Rightarrow> changes (\<lambda>s. s\<lparr>sh_prepared_request := None, sh_prepared_authority := None\<rparr>) \<bind>
          (\<lambda>_. confirm_non_submission clock authority)) (\<lambda>_. timely lighter s) s"
    by (auto simp: wp_rules confirm_non_submission_def lighter.timed.kept_refl split: option.split)
qed

interpretation lighter: sample_control lighter clock for clock :: "'w clock"
  by unfold_locales (simp_all add: discard_lighter)

lemma gate_lighter: "keeps (timely lighter) (sample_gate_call f)"
  by (rule keepsI) (simp add: wp_sample_gate_call timely_same split: prod.split)

lemma adapter_lighter: "keeps (timely lighter) (adapter_changes f)"
  by (rule keepsI) (simp add: wp_adapter_changes timely_same)

lemma observe_lighter:
  assumes "\<And>x. keeps (timely lighter) (f x)"
  shows "keeps (timely lighter) (attempt (read_time clock) (\<lambda>x. attempt (sample_observe_time clock x) (\<lambda>_. f x)))"
  by (rule lighter.keeps_timed, rule lighter.timed.attempt_keeps [OF lighter.observe_time_kept])
    (simp_all add: assms)

lemma accept_lighter: "keeps (timely lighter) (accept_result a x permission)"
  unfolding accept_result_def by (intro lighter.timed.keeps_fallible adapter_lighter)

lemma report_lighter: "keeps (timely lighter) (report_acceptance a x r)"
  unfolding report_acceptance_def Let_def
  by (cases r) (auto intro!: lighter.timed.keeps_fallible gate_lighter)

lemma event_lighter: "keeps (timely lighter) (process_event clock event)"
proof -
  have "keeps (timely lighter) (process_native event k)" for k
    unfolding process_native_def by (intro lighter.timed.keeps_fallible gate_lighter)
  moreover have "keeps (timely lighter) (process_result clock event)"
    unfolding process_result_def
    by (intro lighter.timed.keeps_option lighter.timed.keeps_yields observe_lighter
        lighter.timed.keeps_bind accept_lighter report_lighter)
  moreover have "keeps (timely lighter) (process_settled clock event)"
    unfolding process_settled_def
    by (intro observe_lighter lighter.timed.keeps_fallible gate_lighter)
  ultimately show ?thesis
    unfolding process_event_def
    by (cases "nc_kind (st_callback event)") (auto intro!: lighter.timed.keeps_fallible gate_lighter)
qed

subsection \<open>The loop\<close>

text \<open>A turn that has taken an event has lowered the work; one that found none leaves none.\<close>

definition turned :: "'w sampling \<Rightarrow> SampleFault + bool \<Rightarrow> 'w sampling \<Rightarrow> bool" where
  "turned s r t \<longleftrightarrow> sh_has_read_time t \<and>
     (r = Inr True \<longrightarrow> sample_work t < sample_work s) \<and> (r = Inr False \<longrightarrow> sh_staged_events t = [])"

lemma process_next_turns:
  assumes "sh_has_read_time s"
  shows "wp (process_next clock) (turned s) s"
  unfolding process_next_def
proof (rule wp_attempt_then [where R = "timely lighter s" and A = "\<lambda>_ _. True"])
  show "wp (sample_poll clock) (\<lambda>r t. timely lighter s t \<and> (\<forall>x. r = Inr x \<longrightarrow> True)) s"
    using keepsD [OF lighter.keeps_poll] by simp
  fix e and t :: "'a sampling"
  assume "timely lighter s t"
  with assms show "turned s (Inl e) t" by (simp add: turned_def timely_def)
next
  fix t :: "'a sampling"
  assume t: "timely lighter s t"
  have after: "turned s r u" if "timely lighter (t\<lparr>sh_staged_events := rest\<rparr>) u" "sh_staged_events t = event # rest"
    "r \<noteq> Inr False" for event rest r u
    using that t assms by (auto simp: timely_def lighter_def sample_work_def turned_def split: if_splits)
  have "wp (attempt (process_event clock event) (\<lambda>_. yields True)) (turned s) (t\<lparr>sh_staged_events := rest\<rparr>)"
    if "sh_staged_events t = event # rest" for event rest
    by (rule wp_attempt_then [where A = "\<lambda>_ _. True" and R = "timely lighter (t\<lparr>sh_staged_events := rest\<rparr>)"],
        simp add: keepsD [OF event_lighter]) (simp_all add: wp_yields after [OF _ that])
  with t assms show "wp (reads sh_staged_events \<bind> (\<lambda>staged. case staged of [] \<Rightarrow> yields False
      | event # rest \<Rightarrow> changes (\<lambda>s. s\<lparr>sh_staged_events := rest\<rparr>) \<bind>
          (\<lambda>_. attempt (process_event clock event) (\<lambda>_. yields True)))) (turned s) t"
    by (auto simp: wp_rules turned_def timely_def split: list.split)
qed

lemma run_attempt:
  "run_state (attempt m f) s = (case run_state m s of
     (Inl e, t) \<Rightarrow> (Inl e, t) | (Inr a, t) \<Rightarrow> run_state (f a) t)"
  by (simp add: attempt_def fails_def answer_def split_beta run_state_bind split: sum.split)

lemma turns_run:
  "run_state (sample_turns clock (Suc fuel)) s = (case run_state (process_next clock) s of
     (Inl e, t) \<Rightarrow> (Inl e, t)
   | (Inr found, t) \<Rightarrow> if found then run_state (sample_turns clock fuel) t else (Inr (), t))"
  by (auto simp: run_attempt yields_def answer_def split: prod.split sum.split)

lemma turns_enough:
  assumes "sh_has_read_time s" and "sample_work s < m" and "sample_work s < n"
  shows "run_state (sample_turns clock m) s = run_state (sample_turns clock n) s"
    and "run_state (sample_turns clock m) s = (Inr (), t) \<Longrightarrow> sh_staged_events t = []"
proof -
  have "run_state (sample_turns clock m) s = run_state (sample_turns clock n) s \<and>
    (\<forall>t. run_state (sample_turns clock m) s = (Inr (), t) \<longrightarrow> sh_staged_events t = [])"
    using assms
  proof (induction m arbitrary: s n)
    case 0
    then show ?case by simp
  next
    case (Suc m)
    then obtain k where n: "n = Suc k" by (cases n) auto
    obtain r t where r: "run_state (process_next clock) s = (r, t)" by (cases "run_state (process_next clock) s")
    have turn: "turned s r t" by (rule wp_result [OF process_next_turns [OF Suc.prems(1)] r])
    show ?case
    proof (cases r)
      case (Inl e)
      with r show ?thesis by (simp add: turns_run n del: sample_turns.simps)
    next
      case (Inr found)
      show ?thesis
      proof (cases found)
        case True
        with turn Inr Suc.prems n have "sh_has_read_time t" "sample_work t < m" "sample_work t < k"
          by (simp_all add: turned_def)
        from Suc.IH [OF this] r Inr True show ?thesis by (simp add: turns_run n del: sample_turns.simps)
      next
        case False
        with turn Inr r show ?thesis by (simp add: turned_def turns_run n del: sample_turns.simps)
      qed
    qed
  qed
  then show "run_state (sample_turns clock m) s = run_state (sample_turns clock n) s"
    "run_state (sample_turns clock m) s = (Inr (), t) \<Longrightarrow> sh_staged_events t = []" by simp_all
qed

lemma process_all_run: "run_state (process_all clock) s = run_state (sample_turns clock (sample_work s + 1)) s"
  by (simp add: process_all_def reads_def run_state_bind del: sample_turns.simps)

text \<open>
  The worker's arithmetic: on valid requests neither the 64-bit products nor their 64-bit
  sum wraps, so that a result holds the squares and their sum over the integers.
\<close>

lemma square_value_exact:
  assumes "\<bar>sint v\<bar> \<le> 10000"
  shows "sint (square_value v) = (sint v)\<^sup>2"
proof -
  have "\<bar>sint v\<bar>\<^sup>2 \<le> 10000\<^sup>2" using assms by (intro power_mono) simp_all
  then have "(sint v)\<^sup>2 \<le> 100000000" by simp
  then have "signed_take_bit 63 ((sint v)\<^sup>2) = (sint v)\<^sup>2"
    by (intro signed_take_bit_int_eq_self) (simp_all add: order_trans [OF _ zero_le_power2])
  moreover have "sint (scast v :: i64) = sint v"
    by (rule sint_up_scast) (simp add: is_up)
  ultimately show ?thesis
    by (simp add: square_value_def Let_def sint_word_ariths(3) power2_eq_square)
qed

lemma square_result_fields:
  "sr_operation_id (square_result w) = oa_operation_id (wi_authority w)"
  "sr_request_reference (square_result w) = sq_request_reference (wi_request w)"
  "sr_squared_values (square_result w) = map square_value (sq_values (wi_request w))"
  "sr_sum_of_squares (square_result w) = (\<Sum>v\<leftarrow>sq_values (wi_request w). square_value v)"
proof -
  let ?f = "\<lambda>value result. let square = square_value value
    in result\<lparr>sr_squared_values := sr_squared_values result @ [square],
              sr_sum_of_squares := sr_sum_of_squares result + square\<rparr>"
  have "sr_operation_id (fold ?f vs r) = sr_operation_id r \<and>
    sr_request_reference (fold ?f vs r) = sr_request_reference r \<and>
    sr_squared_values (fold ?f vs r) = sr_squared_values r @ map square_value vs \<and>
    sr_sum_of_squares (fold ?f vs r) = sr_sum_of_squares r + (\<Sum>v\<leftarrow>vs. square_value v)" for vs and r :: SampleResult
    by (induction vs arbitrary: r) (simp_all add: Let_def add.assoc)
  then show "sr_operation_id (square_result w) = oa_operation_id (wi_authority w)"
    "sr_request_reference (square_result w) = sq_request_reference (wi_request w)"
    "sr_squared_values (square_result w) = map square_value (sq_values (wi_request w))"
    "sr_sum_of_squares (square_result w) = (\<Sum>v\<leftarrow>sq_values (wi_request w). square_value v)"
    by (simp_all add: square_result_def Let_def)
qed

lemma sum_of_squares_exact:
  assumes "list_all (\<lambda>v. \<bar>sint v\<bar> \<le> 10000) vs" and "length vs \<le> 16"
  shows "sint (\<Sum>v\<leftarrow>vs. square_value v) = (\<Sum>v\<leftarrow>vs. (sint v)\<^sup>2)"
proof -
  have "sint (\<Sum>v\<leftarrow>vs. square_value v) = (\<Sum>v\<leftarrow>vs. (sint v)\<^sup>2) \<and>
    0 \<le> (\<Sum>v\<leftarrow>vs. (sint v)\<^sup>2) \<and> (\<Sum>v\<leftarrow>vs. (sint v)\<^sup>2) \<le> 100000000 * int (length vs)"
    using assms
  proof (induction vs)
    case (Cons v vs)
    then have v: "\<bar>sint v\<bar> \<le> 10000" and vs: "sint (\<Sum>v\<leftarrow>vs. square_value v) = (\<Sum>v\<leftarrow>vs. (sint v)\<^sup>2)"
      "0 \<le> (\<Sum>v\<leftarrow>vs. (sint v)\<^sup>2)" "(\<Sum>v\<leftarrow>vs. (sint v)\<^sup>2) \<le> 100000000 * int (length vs)"
      and len: "int (length vs) \<le> 15" by simp_all
    have "\<bar>sint v\<bar>\<^sup>2 \<le> 10000\<^sup>2" using v by (intro power_mono) simp_all
    then have bound: "(sint v)\<^sup>2 \<le> 100000000" "0 \<le> (sint v)\<^sup>2" by simp_all
    with vs len have "0 \<le> (sint v)\<^sup>2 + (\<Sum>v\<leftarrow>vs. (sint v)\<^sup>2)"
      "(sint v)\<^sup>2 + (\<Sum>v\<leftarrow>vs. (sint v)\<^sup>2) \<le> 1600000000" by linarith+
    then have "signed_take_bit 63 ((sint v)\<^sup>2 + (\<Sum>v\<leftarrow>vs. (sint v)\<^sup>2)) = (sint v)\<^sup>2 + (\<Sum>v\<leftarrow>vs. (sint v)\<^sup>2)"
      by (intro signed_take_bit_int_eq_self) simp_all
    with vs bound len show ?case
      by (simp add: sint_word_ariths(1) square_value_exact [OF v])
  qed simp
  then show ?thesis by blast
qed

lemma sound_result_exact:
  assumes "sound_result a x"
  shows "\<exists>q. sample_request_valid q \<and> sr_request_reference x = sq_request_reference q \<and>
    map sint (sr_squared_values x) = map (\<lambda>v. (sint v)\<^sup>2) (sq_values q) \<and>
    sint (sr_sum_of_squares x) = (\<Sum>v\<leftarrow>sq_values q. (sint v)\<^sup>2)"
proof -
  from assms obtain q where q: "sample_request_valid q" "x = square_result (new_work a q)"
    by (auto simp: sound_result_def)
  then have vs: "list_all (\<lambda>v. \<bar>sint v\<bar> \<le> 10000) (sq_values q)" "length (sq_values q) \<le> 16"
    by (auto simp: sample_request_valid_def kMaximumSampleValues_def kMaximumAbsoluteSampleValue_def list_all_iff)
  have "map sint (sr_squared_values x) = map (\<lambda>v. (sint v)\<^sup>2) (sq_values q)"
    using vs(1) by (simp add: q(2) square_result_fields new_work_def list_all_iff square_value_exact)
  then show ?thesis
    using q(1) sum_of_squares_exact [OF vs]
    by (auto simp: q(2) square_result_fields new_work_def)
qed

end
