(* ===== verification/Sample_Properties.thy ===== *)
theory Sample_Properties
  imports Sample_Machine Sample_Members Sample_Loop
begin

text \<open>
  A sample host with a deferred adapter and a clock that counts its readings, for the
  witnesses of the host's properties.
\<close>

definition demo_clock :: "u64 clock" where
  "demo_clock w = (w, w + 1)"

definition demo_sample :: "u64 sampling" where
  "demo_sample = projr (make_sample_host CmDeferred (Some demo_clock) 5)"

definition demo_sample_request :: SampleRequest where
  "demo_sample_request = \<lparr>sq_request_reference = ''squares'', sq_values = [3, - 4, 10000], sq_deadline = None\<rparr>"

text \<open>Submission and completion: the events of the result are staged but not processed.\<close>

definition demo_sample_staged :: "u64 sampling" where
  "demo_sample_staged = run (sample_step demo_clock) demo_sample
     [ScInitialize, ScSubmit demo_sample_request, ScComplete]"

definition demo_sample_done :: "u64 sampling" where
  "demo_sample_done = run (sample_step demo_clock) demo_sample_staged [ScProcessAll]"

definition sample_summary :: "u64 sampling \<Rightarrow> nat \<times> (operation_id \<times> int) list \<times> OutputDisposition option" where
  "sample_summary s =
    (length (sh_staged_events s),
     map (\<lambda>x. (sr_operation_id x, sint (sr_sum_of_squares x))) (sa_results (sh_adapter s)),
     map_option rc_output (g_current_receipt (sh_gate s)))"

lemma demo_sample_made: "make_sample_host CmDeferred (Some demo_clock) 5 = Inr demo_sample"
proof -
  have "isl (make_sample_host CmDeferred (Some demo_clock) 5) = False" by code_simp
  then show ?thesis by (cases "make_sample_host CmDeferred (Some demo_clock) 5") (simp_all add: demo_sample_def)
qed

lemma demo_staged_run: "sample_summary demo_sample_staged = (4, [], Some OdPending)"
  by code_simp

lemma demo_done_run: "sample_summary demo_sample_done = (0, [(1, 100000025)], Some OdAccepted)"
  by code_simp

lemma demo_processed: "isl (fst (run_state (process_all demo_clock) demo_sample_staged)) = False"
  by code_simp

text \<open>
  The properties of the sample host: what every host satisfies that calls of its public
  members can reach, whatever the clock answers and wherever it makes a member throw.
\<close>

lemma demo_sample_reachable:
  "sample_reachable demo_clock demo_sample_staged" "sample_reachable demo_clock demo_sample_done"
proof -
  have "sample_initial demo_sample" using demo_sample_made by (auto simp: sample_initial_def)
  then show "sample_reachable demo_clock demo_sample_staged"
    unfolding demo_sample_staged_def by (intro reachable_run reachable_init)
  then show "sample_reachable demo_clock demo_sample_done"
    unfolding demo_sample_done_def by (rule reachable_run)
qed

text \<open>
  C19. The event loop ends: \<open>process_all\<close> stops within as many turns as the work left, which
  is the number of staged events and three more for a preparation that polling may
  discard, so that any larger bound on the turns gives the same answer and state; and
  unless the clock made it throw, no staged event remains.
\<close>

theorem event_loop_ends:
  assumes "sample_reachable clock s" and "sample_work s < fuel"
  shows "run_state (sample_turns clock fuel) s = run_state (process_all clock) s \<and>
    (\<forall>t. run_state (process_all clock) s = (Inr (), t) \<longrightarrow> sh_staged_events t = [])"
proof -
  have "sh_has_read_time s" by (rule sample_okD(5) [OF sample_reachable_ok [OF assms(1)]])
  note enough = turns_enough [OF this, where clock = clock]
  show ?thesis
    using enough [OF assms(2), of "sample_work s + 1"] enough(2) [of "sample_work s + 1"]
    by (simp add: process_all_run del: sample_turns.simps)
qed

lemma event_loop_ends_witness:
  "\<exists>t. run_state (sample_turns demo_clock 40) demo_sample_staged = (Inr (), t) \<and> sh_staged_events t = [] \<and>
    0 < sample_work demo_sample_staged"
proof -
  have work: "0 < sample_work demo_sample_staged" "sample_work demo_sample_staged < 40"
    using demo_staged_run by (simp_all add: sample_work_def sample_summary_def)
  obtain r t where r: "run_state (process_all demo_clock) demo_sample_staged = (r, t)"
    by (cases "run_state (process_all demo_clock) demo_sample_staged")
  with demo_processed have "r = Inr ()" by (cases r) simp_all
  with r event_loop_ends [OF demo_sample_reachable(1) work(2)] work(1) show ?thesis by simp
qed

text \<open>
  C20. Results: the sink holds at most one result per operation, and each is what its
  request asked for: for some valid request with the result's reference, the squares of
  its values and their sum, over the integers. So no product and no sum has wrapped.
\<close>

theorem results_are_squares:
  assumes "sample_reachable clock s" and "x \<in> set (sa_results (sh_adapter s))"
  shows "distinct (map sr_operation_id (sa_results (sh_adapter s))) \<and>
    (\<exists>q. sample_request_valid q \<and> sr_request_reference x = sq_request_reference q \<and>
      map sint (sr_squared_values x) = map (\<lambda>v. (sint v)\<^sup>2) (sq_values q) \<and>
      sint (sr_sum_of_squares x) = (\<Sum>v\<leftarrow>sq_values q. (sint v)\<^sup>2))"
proof -
  note ledger = sample_okD(6) [OF sample_reachable_ok [OF assms(1)]]
  then obtain a where "sound_result a x" using assms(2) by (auto simp: ledger_ok_def)
  from sound_result_exact [OF this] ledger show ?thesis by (simp add: ledger_ok_def)
qed

lemma results_are_squares_witness:
  "\<exists>x q. x \<in> set (sa_results (sh_adapter demo_sample_done)) \<and> sint (sr_sum_of_squares x) = 100000025 \<and>
    sample_request_valid q \<and> (\<Sum>v\<leftarrow>sq_values q. (sint v)\<^sup>2) = 100000025"
proof -
  from demo_done_run obtain x where x: "x \<in> set (sa_results (sh_adapter demo_sample_done))"
    "sint (sr_sum_of_squares x) = 100000025"
    by (cases "sa_results (sh_adapter demo_sample_done)") (auto simp: sample_summary_def)
  from results_are_squares [OF demo_sample_reachable(2) x(1)] x show ?thesis by auto
qed

text \<open>
  C21. The sink's ledger and the gate's receipt agree: in every reachable state the host's
  authority is that of the gate's current receipt, and the sink holds a result of that
  operation exactly when the receipt records the delivery as accepted. No call, expiry,
  cancellation, withdrawal or exception leaves one without the other.
\<close>

theorem ledger_agrees:
  assumes "sample_reachable clock s" and "g_current_receipt (sh_gate s) = Some r"
  shows "sh_current_authority s = Some (rc_authority r) \<and>
    (rc_output r = OdAccepted \<longleftrightarrow>
      (\<exists>x\<in>set (sa_results (sh_adapter s)). sr_operation_id x = oa_operation_id (rc_authority r)))"
proof -
  have "i \<in> sr_operation_id ` xs \<longleftrightarrow> (\<exists>x\<in>xs. sr_operation_id x = i)" for i and xs :: "SampleResult set" by auto
  with sample_okD(3,6) [OF sample_reachable_ok [OF assms(1)]] assms(2) show ?thesis
    by (simp add: ledger_ok_def)
qed

lemma ledger_agrees_witness:
  "\<exists>r. g_current_receipt (sh_gate demo_sample_done) = Some r \<and> rc_output r = OdAccepted \<and>
    (\<exists>x\<in>set (sa_results (sh_adapter demo_sample_done)). sr_operation_id x = oa_operation_id (rc_authority r))"
proof -
  from demo_done_run obtain r where r: "g_current_receipt (sh_gate demo_sample_done) = Some r"
    "rc_output r = OdAccepted" by (auto simp: sample_summary_def)
  with ledger_agrees [OF demo_sample_reachable(2) r(1)] show ?thesis by auto
qed

end
