(* ===== verification/Recovery_Owner.thy ===== *)
theory Recovery_Owner
  imports Recovery_Protocol Compute_Process_Machine Program Transition_System
begin

text \<open>
  \<open>src/compute/recovery_owner.cpp\<close>: the owner of the supervised compute domain. It
  outlives the hosts that connect to it, one session at a time, runs at most one worker,
  and tells a host that the domain is clear only when no worker of an earlier session is
  left. A member is a program over the owner's fields and the world. The destruction of a
  process that would terminate the program, or not return, sets \<open>on_aborted\<close>, and the
  destruction of one that still owns a child, which kills it, sets \<open>on_killed\<close>; no
  program reads the two.
\<close>

record owner =
  ow_worker :: string
  ow_stop_grace_ms :: u64
  ow_process :: "process option"
  ow_last_observation :: ProcessObservation
  ow_fd :: int
  ow_epoch :: u64
  ow_last_now :: u64
  ow_clock_seen :: bool
  ow_fault :: bool
  ow_active :: bool
  ow_last_request :: u64
  ow_last_operation :: u64
  ow_clear_token :: u64
  ow_clear_token_at :: u64
  ow_pending :: message
  ow_has_pending :: bool
  ow_pending_at :: u64
  ow_operation :: u64
  ow_operation_session :: u64
  ow_operation_request :: u64
  ow_amount :: u64
  ow_operation_handed_off :: bool
  ow_operation_discarded :: bool
  ow_result :: message
  ow_result_ready :: bool
  ow_launches :: u64
  ow_discarded_results :: u64

record 'w owning = owner +
  on_world :: 'w
  on_aborted :: bool
  on_killed :: bool

text \<open>The system calls of the worker process and of the socket.\<close>

record 'w owner_env =
  oe_os :: "'w os"
  oe_sockets :: "'w sockets"

definition empty_observation :: ProcessObservation where
  "empty_observation = observation (make_process [] 0 0)"

definition make_owner :: "string \<Rightarrow> u64 \<Rightarrow> owner" where
  "make_owner worker stop_grace_ms =
    \<lparr>ow_worker = worker, ow_stop_grace_ms = stop_grace_ms, ow_process = None,
     ow_last_observation = empty_observation, ow_fd = - 1, ow_epoch = 1, ow_last_now = 0,
     ow_clock_seen = False, ow_fault = False, ow_active = False, ow_last_request = 0,
     ow_last_operation = 0, ow_clear_token = 0, ow_clear_token_at = 0, ow_pending = new_message KHello,
     ow_has_pending = False, ow_pending_at = 0, ow_operation = 0, ow_operation_session = 0,
     ow_operation_request = 0, ow_amount = 0, ow_operation_handed_off = False,
     ow_operation_discarded = False, ow_result = new_message KHello, ow_result_ready = False,
     ow_launches = 0, ow_discarded_results = 0\<rparr>"

subsection \<open>Primitives\<close>

definition owner_system :: "('w \<Rightarrow> 'a \<times> 'w) \<Rightarrow> ('w owning, 'a) program" where
  "owner_system f = State (\<lambda>s. case f (on_world s) of (a, w) \<Rightarrow> (a, s\<lparr>on_world := w\<rparr>))"

text \<open>A call of a member of the process, which is there where the code dereferences it.\<close>

definition owner_process :: "(process \<times> 'w \<Rightarrow> 'a \<times> process \<times> 'w) \<Rightarrow> ('w owning, 'a) program" where
  "owner_process f = State (\<lambda>s. case f (the (ow_process s), on_world s) of
     (a, p, w) \<Rightarrow> (a, s\<lparr>ow_process := Some p, on_world := w\<rparr>))"

text \<open>The destruction of a process.\<close>

definition destroy_process :: "'w os \<Rightarrow> process \<Rightarrow> 'w owning \<Rightarrow> 'w owning" where
  "destroy_process os p s =
    (case cleanup_owned_child os (p, on_world s) of
       Some (True, _, w) \<Rightarrow> s\<lparr>on_world := w, on_killed := on_killed s \<or> pr_owned_pid p > 0\<rparr>
     | _ \<Rightarrow> s\<lparr>on_aborted := True, on_killed := on_killed s \<or> pr_owned_pid p > 0\<rparr>)"

definition drop_process :: "'w owner_env \<Rightarrow> ('w owning, unit) program" where
  "drop_process env = changes (\<lambda>s. case ow_process s of
     None \<Rightarrow> s
   | Some p \<Rightarrow> (destroy_process (oe_os env) p s)\<lparr>ow_process := None\<rparr>)"

subsection \<open>Messages and sessions\<close>

definition reply :: "Kind \<Rightarrow> u64 \<Rightarrow> u64 \<Rightarrow> message" where
  "reply kind session request = (new_message kind)\<lparr>ms_session := session, ms_request := request\<rparr>"

definition is_socketpair_endpoint :: "'w sockets \<Rightarrow> int \<Rightarrow> 'w \<Rightarrow> bool \<times> 'w" where
  "is_socketpair_endpoint so fd w =
    (if fd < 0 then (False, w)
     else case so_type so fd w of
       (Inl _, w) \<Rightarrow> (False, w)
     | (Inr kind, w) \<Rightarrow>
         if kind \<noteq> SOCK_SEQPACKET then (False, w)
         else case so_family so fd w of
           (Inl _, w) \<Rightarrow> (False, w)
         | (Inr family, w) \<Rightarrow>
             if family \<noteq> AF_UNIX then (False, w)
             else case so_peer so fd w of
               (r, w) \<Rightarrow> (r = Inr (), w))"

definition process_clear :: "process \<Rightarrow> bool" where
  "process_clear p \<longleftrightarrow>
     po_exit_status p \<noteq> None \<and> po_event_eof p \<and> po_channels_closed p \<and>
     \<not> po_ownership_lost p \<and> \<not> po_malformed p \<and> po_io_error p = 0"

definition owner_clear :: "'w owner_env \<Rightarrow> ('w owning, bool) program" where
  "owner_clear env = do {
     fault \<leftarrow> reads ow_fault;
     worker \<leftarrow> reads ow_worker;
     if fault then answer False
     else do {
       launchable \<leftarrow> owner_system (can_launch (oe_os env) worker);
       held \<leftarrow> reads ow_process;
       answer (launchable \<and> (case held of None \<Rightarrow> True | Some p \<Rightarrow> process_clear p))
     }
   }"

text \<open>\<open>disconnect\<close>: the worker is asked to stop, and a result not handed off is discarded.\<close>

definition stop_worker :: "'w owner_env \<Rightarrow> u64 \<Rightarrow> ('w owning, unit) program" where
  "stop_worker env now = do {
     held \<leftarrow> reads ow_process;
     on_condition (case held of None \<Rightarrow> False | Some p \<Rightarrow> po_launched p \<and> po_exit_status p = None)
       (owner_process (\<lambda>pw. ((), request_stop (oe_os env) now pw)))
   }"

definition discard_operation :: "('w, 'x) owning_scheme \<Rightarrow> ('w, 'x) owning_scheme" where
  "discard_operation s =
    (if ow_operation s \<noteq> 0 \<and> \<not> ow_operation_handed_off s \<and> \<not> ow_operation_discarded s
     then s\<lparr>ow_discarded_results := ow_discarded_results s + 1, ow_operation_discarded := True\<rparr> else s)"

definition end_session :: "('w, 'x) owning_scheme \<Rightarrow> ('w, 'x) owning_scheme" where
  "end_session s =
     (discard_operation s)\<lparr>ow_operation := 0, ow_operation_handed_off := False, ow_result_ready := False,
       ow_active := False, ow_clear_token := 0, ow_has_pending := False\<rparr>"

definition close_session :: "'w owner_env \<Rightarrow> ('w owning, unit) program" where
  "close_session env = do {
     fd \<leftarrow> reads ow_fd;
     on_condition (fd \<ge> 0) (do {
       changes (\<lambda>s. s\<lparr>ow_fd := - 1\<rparr>);
       closed \<leftarrow> owner_system (so_close (oe_sockets env) fd);
       on_condition (closed \<noteq> Inr ()) (changes (\<lambda>s. s\<lparr>ow_fault := True\<rparr>))
     })
   }"

definition disconnect :: "'w owner_env \<Rightarrow> u64 \<Rightarrow> ('w owning, unit) program" where
  "disconnect env now = do {
     stop_worker env now;
     changes end_session;
     close_session env
   }"

definition set_fault :: "('w, 'x) owning_scheme \<Rightarrow> ('w, 'x) owning_scheme" where
  "set_fault s = s\<lparr>ow_fault := True\<rparr>"

definition fail_session :: "'w owner_env \<Rightarrow> u64 \<Rightarrow> ('w owning, unit) program" where
  "fail_session env now = do {
     changes set_fault;
     disconnect env now
   }"

subsection \<open>Attaching a session\<close>

definition clock_backwards :: "u64 \<Rightarrow> ('w, 'x) owning_scheme \<Rightarrow> bool" where
  "clock_backwards now s \<longleftrightarrow> ow_clock_seen s \<and> now < ow_last_now s"

definition session_refused :: "u64 \<Rightarrow> ('w, 'x) owning_scheme \<Rightarrow> bool" where
  "session_refused now s \<longleftrightarrow>
     ow_fd s \<ge> 0 \<or> ow_fault s \<or> ow_epoch s = u64_max \<or> clock_backwards now s"

text \<open>The descriptor gets its close-on-exec flag, unless it has it.\<close>

definition protect_descriptor :: "'w sockets \<Rightarrow> int \<Rightarrow> 'w \<Rightarrow> bool \<times> 'w" where
  "protect_descriptor so fd w =
    (case so_getfd so fd w of
       (Inl _, w) \<Rightarrow> (False, w)
     | (Inr flags, w) \<Rightarrow>
         if flags < 0 then (False, w)
         else if flags AND FD_CLOEXEC = 0
         then (case so_setfd so fd (flags OR FD_CLOEXEC) w of (r, w) \<Rightarrow> (r = Inr (), w))
         else (True, w))"

definition open_session :: "int \<Rightarrow> u64 \<Rightarrow> ('w, 'x) owning_scheme \<Rightarrow> ('w, 'x) owning_scheme" where
  "open_session fd now s =
     s\<lparr>ow_fd := fd, ow_epoch := ow_epoch s + 1, ow_last_now := now, ow_clock_seen := True,
       ow_active := False, ow_last_request := 0, ow_last_operation := 0, ow_clear_token := 0,
       ow_clear_token_at := 0, ow_pending := reply KHello (ow_epoch s + 1) 0, ow_has_pending := True,
       ow_pending_at := now\<rparr>"

definition refuse_session :: "'w owner_env \<Rightarrow> u64 \<Rightarrow> ('w owning, bool) program" where
  "refuse_session env now = do {
     backwards \<leftarrow> reads (clock_backwards now);
     last \<leftarrow> reads ow_last_now;
     on_condition backwards (fail_session env last);
     epoch \<leftarrow> reads ow_epoch;
     on_condition (epoch = u64_max) (fail_session env last);
     answer False
   }"

definition attach_session :: "'w owner_env \<Rightarrow> int \<Rightarrow> u64 \<Rightarrow> ('w owning, bool) program" where
  "attach_session env candidate now = do {
     refused \<leftarrow> reads (session_refused now);
     worker \<leftarrow> reads ow_worker;
     if refused then refuse_session env now
     else do {
       endpoint \<leftarrow> owner_system (is_socketpair_endpoint (oe_sockets env) candidate);
       if \<not> endpoint then refuse_session env now
       else do {
         launchable \<leftarrow> owner_system (can_launch (oe_os env) worker);
         if \<not> launchable then refuse_session env now
         else do {
           protected \<leftarrow> owner_system (protect_descriptor (oe_sockets env) candidate);
           if \<not> protected then answer False
           else do {
             changes (open_session candidate now);
             answer True
           }
         }
       }
     }
   }"

subsection \<open>Sending\<close>

definition queue_message :: "message \<Rightarrow> u64 \<Rightarrow> ('w, 'x) owning_scheme \<Rightarrow> ('w, 'x) owning_scheme" where
  "queue_message m now s = s\<lparr>ow_pending := m, ow_pending_at := now, ow_has_pending := True\<rparr>"

definition sent_message :: "('w, 'x) owning_scheme \<Rightarrow> ('w, 'x) owning_scheme" where
  "sent_message s =
    (if ms_kind (ow_pending s) = message_code KResult
     then s\<lparr>ow_operation_handed_off := True, ow_operation := 0, ow_result_ready := False\<rparr> else s)
      \<lparr>ow_has_pending := False\<rparr>"

definition flush_pending :: "'w owner_env \<Rightarrow> u64 \<Rightarrow> ('w owning, unit) program" where
  "flush_pending env now = do {
     has_pending \<leftarrow> reads ow_has_pending;
     fd \<leftarrow> reads ow_fd;
     pending \<leftarrow> reads ow_pending;
     pending_at \<leftarrow> reads ow_pending_at;
     on_condition (has_pending \<and> fd \<ge> 0)
       (if now - pending_at \<ge> kEvidenceLifetimeMs then disconnect env now
        else do {
          sent \<leftarrow> owner_system (send_message (oe_sockets env) fd pending);
          case sent of
            IoClosed \<Rightarrow> disconnect env now
          | IoDone \<Rightarrow> changes sent_message
          | IoAgain \<Rightarrow> skip
        })
   }"

subsection \<open>The worker's end\<close>

definition outcome_flags :: "'x ProcessObservation_scheme \<Rightarrow> u64 \<Rightarrow> u64 \<times> u64" where
  "outcome_flags p amount =
    (case po_exit_status p of
       None \<Rightarrow> (kFailed, 0)
     | Some status \<Rightarrow>
         if WIFEXITED status then
           (if WEXITSTATUS status = 0 \<and> po_terminal p = TmCompleted \<and> po_terminal_iterations p = amount
            then (kSucceeded, po_terminal_value p)
            else if WEXITSTATUS status = 20 \<and> po_stop_requested p \<and> po_terminal p = TmCancelled \<and>
                    po_terminal_iterations p \<le> amount
            then (kCancelled, 0) else (kFailed, 0))
         else (kFailed, 0))"

definition operation_result :: "('w, 'x) owning_scheme \<Rightarrow> message" where
  "operation_result s =
     (reply KResult (ow_operation_session s) (ow_operation_request s))
       \<lparr>ms_operation := ow_operation s, ms_amount := ow_amount s,
        ms_flags := fst (outcome_flags (ow_last_observation s) (ow_amount s)), ms_value := snd (outcome_flags (ow_last_observation s) (ow_amount s))\<rparr>"

definition process_broken :: "'x ProcessObservation_scheme \<Rightarrow> bool" where
  "process_broken p \<longleftrightarrow> po_ownership_lost p \<or> po_malformed p \<or> po_io_error p \<noteq> 0"

definition report_result :: "('w, 'x) owning_scheme \<Rightarrow> ('w, 'x) owning_scheme" where
  "report_result s =
    (if ow_operation s = 0 \<or> ow_fd s < 0 then s
     else s\<lparr>ow_result := operation_result s, ow_result_ready := True\<rparr>)"

definition reap_worker :: "'w owner_env \<Rightarrow> u64 \<Rightarrow> ('w owning, unit) program" where
  "reap_worker env now = do {
     closed \<leftarrow> owner_process (close_channels (oe_os env));
     if \<not> closed then fail_session env now
     else do {
       p \<leftarrow> reads (\<lambda>s. the (ow_process s));
       changes (\<lambda>s. s\<lparr>ow_last_observation := observation p\<rparr>);
       drop_process env;
       changes report_result
     }
   }"

definition observe_worker :: "'w owner_env \<Rightarrow> u64 \<Rightarrow> ('w owning, unit) program" where
  "observe_worker env now = do {
     held \<leftarrow> reads ow_process;
     on_condition (held \<noteq> None) (do {
       owner_process (\<lambda>pw. ((), poll (oe_os env) now pw));
       broken \<leftarrow> reads (\<lambda>s. process_broken (the (ow_process s)));
       on_condition broken (fail_session env now);
       p \<leftarrow> reads (\<lambda>s. the (ow_process s));
       on_condition (po_exit_status p \<noteq> None \<and> po_event_eof p) (reap_worker env now)
     })
   }"

subsection \<open>Receiving\<close>

definition stale_message :: "message \<Rightarrow> ('w, 'x) owning_scheme \<Rightarrow> bool" where
  "stale_message m s \<longleftrightarrow>
     ms_session m \<noteq> ow_epoch s \<or> ms_request m = 0 \<or> ms_request m \<le> ow_last_request s"

definition is_query :: "message \<Rightarrow> ('w, 'x) owning_scheme \<Rightarrow> bool" where
  "is_query m s \<longleftrightarrow>
     ms_kind m = message_code KQuery \<and> \<not> ow_active s \<and> ms_operation m = 0 \<and> ms_amount m = 0 \<and>
     ms_value m = 0 \<and> ms_flags m = 0"

definition may_activate :: "message \<Rightarrow> u64 \<Rightarrow> ('w, 'x) owning_scheme \<Rightarrow> bool" where
  "may_activate m now s \<longleftrightarrow>
     ms_kind m = message_code KActivate \<and> \<not> ow_active s \<and> ms_operation m = 0 \<and> ms_amount m = 0 \<and>
     ms_flags m = 0 \<and> ow_clear_token s \<noteq> 0 \<and> ms_value m = ow_clear_token s \<and>
     now - ow_clear_token_at s < kEvidenceLifetimeMs"

definition may_submit :: "message \<Rightarrow> ('w, 'x) owning_scheme \<Rightarrow> bool" where
  "may_submit m s \<longleftrightarrow>
     ms_kind m = message_code KSubmit \<and> ow_active s \<and> ow_operation s = 0 \<and>
     ms_operation m > ow_last_operation s \<and> ms_amount m > 0 \<and>
     ms_amount m \<le> kRecoveryMaximumIterations \<and> ms_value m = 0 \<and> ms_flags m = 0"

definition answer_query :: "'w owner_env \<Rightarrow> message \<Rightarrow> u64 \<Rightarrow> ('w owning, unit) program" where
  "answer_query env m now = do {
     changes (\<lambda>s. s\<lparr>ow_last_request := ms_request m\<rparr>);
     clear \<leftarrow> owner_clear env;
     epoch \<leftarrow> reads ow_epoch;
     if clear then do {
       changes (\<lambda>s. s\<lparr>ow_clear_token := ms_request m, ow_clear_token_at := now\<rparr>);
       changes (queue_message ((reply KSnapshot epoch (ms_request m))\<lparr>ms_flags := kClear\<rparr>) now)
     }
     else do {
       changes (\<lambda>s. s\<lparr>ow_clear_token := 0\<rparr>);
       changes (queue_message (reply KSnapshot epoch (ms_request m)) now)
     }
   }"

definition activate_session :: "message \<Rightarrow> u64 \<Rightarrow> ('w, 'x) owning_scheme \<Rightarrow> ('w, 'x) owning_scheme" where
  "activate_session m now s =
     queue_message ((reply KActivated (ow_epoch s) (ms_request m))\<lparr>ms_value := ms_value m\<rparr>) now
       (s\<lparr>ow_last_request := ms_request m, ow_active := True, ow_clear_token := 0\<rparr>)"

text \<open>
  Submission. The worker is launched before the owner holds it; on the returns that do not
  install it, the local that owns it is destroyed. The handler for a failed allocation is
  not modelled.
\<close>

definition install_worker :: "process \<Rightarrow> message \<Rightarrow> u64 \<Rightarrow> ('w, 'x) owning_scheme \<Rightarrow> ('w, 'x) owning_scheme" where
  "install_worker p m now s =
     queue_message ((reply KAccepted (ow_epoch s) (ms_request m))
         \<lparr>ms_operation := ms_operation m, ms_amount := ms_amount m\<rparr>) now
       (s\<lparr>ow_operation := ms_operation m, ow_operation_session := ow_epoch s,
          ow_operation_request := ms_request m, ow_amount := ms_amount m,
          ow_operation_handed_off := False, ow_operation_discarded := False,
          ow_process := Some p, ow_launches := ow_launches s + 1\<rparr>)"

definition reject_operation :: "message \<Rightarrow> u64 \<Rightarrow> ('w, 'x) owning_scheme \<Rightarrow> ('w, 'x) owning_scheme" where
  "reject_operation m now s =
     queue_message ((reply KResult (ow_epoch s) (ms_request m))
         \<lparr>ms_operation := ms_operation m, ms_amount := ms_amount m, ms_flags := kNotLaunched\<rparr>) now s"

definition submit_operation :: "'w owner_env \<Rightarrow> message \<Rightarrow> u64 \<Rightarrow> ('w owning, unit) program" where
  "submit_operation env m now = do {
     worker \<leftarrow> reads ow_worker;
     grace \<leftarrow> reads ow_stop_grace_ms;
     (launched, p) \<leftarrow> owner_system (\<lambda>w. case launch (oe_os env) (make_process worker (ms_amount m) grace, w) of
       (launched, p, w) \<Rightarrow> ((launched, p), w));
     changes (\<lambda>s. s\<lparr>ow_last_request := ms_request m, ow_last_operation := ms_operation m,
       ow_last_observation := observation p\<rparr>);
     if process_broken p then do {
       fail_session env now;
       changes (destroy_process (oe_os env) p)
     }
     else if \<not> launched then do {
       changes (reject_operation m now);
       changes (destroy_process (oe_os env) p)
     }
     else do {
       drop_process env;
       changes (install_worker p m now)
     }
   }"

definition handle_message :: "'w owner_env \<Rightarrow> message \<Rightarrow> u64 \<Rightarrow> ('w owning, unit) program" where
  "handle_message env m now = do {
     stale \<leftarrow> reads (stale_message m);
     query \<leftarrow> reads (is_query m);
     activation \<leftarrow> reads (may_activate m now);
     submission \<leftarrow> reads (may_submit m);
     if stale then disconnect env now
     else if query then answer_query env m now
     else if activation then do {
       clear \<leftarrow> owner_clear env;
       if clear then changes (activate_session m now) else disconnect env now
     }
     else if submission then do {
       clear \<leftarrow> owner_clear env;
       if clear then submit_operation env m now else disconnect env now
     }
     else disconnect env now
   }"

definition owner_receive :: "'w owner_env \<Rightarrow> u64 \<Rightarrow> ('w owning, unit) program" where
  "owner_receive env now = do {
     fd \<leftarrow> reads ow_fd;
     (received, m) \<leftarrow> owner_system (receive_message (oe_sockets env) fd);
     case received of
       IoAgain \<Rightarrow> skip
     | IoClosed \<Rightarrow> disconnect env now
     | IoDone \<Rightarrow> handle_message env (the m) now
   }"

subsection \<open>The public members\<close>

text \<open>The time that a poll goes on with: a clock that moved backwards is a fault.\<close>

definition accept_time :: "'w owner_env \<Rightarrow> u64 \<Rightarrow> ('w owning, u64) program" where
  "accept_time env now = do {
     backwards \<leftarrow> reads (clock_backwards now);
     last \<leftarrow> reads ow_last_now;
     if backwards then do {
       fail_session env last;
       answer last
     }
     else do {
       changes (\<lambda>s. s\<lparr>ow_last_now := now, ow_clock_seen := True\<rparr>);
       answer now
     }
   }"

definition queue_result :: "u64 \<Rightarrow> ('w, 'x) owning_scheme \<Rightarrow> ('w, 'x) owning_scheme" where
  "queue_result now s =
    (if \<not> ow_has_pending s \<and> ow_result_ready s then queue_message (ow_result s) now s else s)"

definition serve_session :: "'w owner_env \<Rightarrow> u64 \<Rightarrow> ('w owning, unit) program" where
  "serve_session env now = do {
     changes (queue_result now);
     flush_pending env now;
     fd \<leftarrow> reads ow_fd;
     on_condition (fd \<ge> 0) (do {
       changes (queue_result now);
       has_pending \<leftarrow> reads ow_has_pending;
       on_condition (\<not> has_pending) (owner_receive env now)
     })
   }"

definition owner_poll :: "'w owner_env \<Rightarrow> u64 \<Rightarrow> ('w owning, unit) program" where
  "owner_poll env now = do {
     time \<leftarrow> accept_time env now;
     observe_worker env time;
     fd \<leftarrow> reads ow_fd;
     on_condition (fd \<ge> 0) (serve_session env time)
   }"

definition owner_destroy :: "'w owner_env \<Rightarrow> ('w owning, unit) program" where
  "owner_destroy env = do {
     last \<leftarrow> reads ow_last_now;
     disconnect env last;
     drop_process env
   }"

datatype owner_call = OcAttach int u64 | OcPoll u64 | OcClear

datatype owner_answer = OaFlag bool | OaDone

fun owner_member :: "'w owner_env \<Rightarrow> owner_call \<Rightarrow> ('w owning, owner_answer) program" where
  "owner_member env (OcAttach fd now) = do {
     attached \<leftarrow> attach_session env fd now;
     answer (OaFlag attached)
   }"
| "owner_member env (OcPoll now) = do {
     owner_poll env now;
     answer OaDone
   }"
| "owner_member env OcClear = do {
     clear \<leftarrow> owner_clear env;
     answer (OaFlag clear)
   }"

definition owner_step :: "'w owner_env \<Rightarrow> 'w owning \<Rightarrow> owner_call \<Rightarrow> 'w owning \<times> owner_answer" where
  "owner_step env s c = prod.swap (run_state (owner_member env c) s)"

definition owner_initial :: "'w owning \<Rightarrow> bool" where
  "owner_initial s \<longleftrightarrow> (\<exists>worker grace. owner.truncate s = make_owner worker grace) \<and> \<not> on_aborted s \<and> \<not> on_killed s"

abbreviation owner_reachable :: "'w owner_env \<Rightarrow> 'w owning \<Rightarrow> bool" where
  "owner_reachable env \<equiv> reachable (owner_step env) owner_initial"

end
