(* ===== verification/Recovery_Owner_Invariant.thy ===== *)
theory Recovery_Owner_Invariant
  imports Recovery_Owner
begin

text \<open>
  The invariant of the recovery owner and the abstract machine that it follows: which
  session is served, how far its one operation is, and whether a worker is left. Each
  program of the owner keeps both; the proofs are over the weakest preconditions of the
  programs, one per operation of the code.
\<close>

subsection \<open>The invariant\<close>

definition worker_good :: "process \<Rightarrow> bool" where
  "worker_good p \<longleftrightarrow> process_ok p \<and> cleanup_ok p \<and> po_launched p \<and> \<not> po_channels_closed p"

definition worker_ok :: "('w, 'x) owning_scheme \<Rightarrow> bool" where
  "worker_ok s \<longleftrightarrow>
     (\<forall>p. ow_process s = Some p \<longrightarrow> worker_good p) \<and> (on_aborted s \<or> on_killed s \<longrightarrow> ow_fault s)"

definition operation_ok :: "('w, 'x) owning_scheme \<Rightarrow> bool" where
  "operation_ok s \<longleftrightarrow>
     (ow_operation s \<noteq> 0 \<longrightarrow> ow_active s \<and> ow_operation_session s = ow_epoch s \<and>
        \<not> ow_operation_handed_off s \<and> \<not> ow_operation_discarded s) \<and>
     (ow_active s \<longrightarrow> (ow_operation s \<noteq> 0 \<and> \<not> ow_result_ready s \<longleftrightarrow> ow_process s \<noteq> None)) \<and>
     (ow_result_ready s \<longrightarrow> ow_operation s \<noteq> 0 \<and> ow_result s = operation_result s)"

definition session_ok :: "('w, 'x) owning_scheme \<Rightarrow> bool" where
  "session_ok s \<longleftrightarrow>
     (ow_active s \<or> ow_has_pending s \<or> ow_clear_token s \<noteq> 0 \<longrightarrow> ow_fd s \<ge> 0) \<and>
     (ow_fault s \<longrightarrow> ow_fd s < 0) \<and>
     (ow_has_pending s \<longrightarrow> ms_session (ow_pending s) = ow_epoch s \<and>
        (ms_kind (ow_pending s) = message_code KResult \<longrightarrow>
           ow_operation s = 0 \<or> ow_result_ready s \<and> ow_pending s = ow_result s))"

definition owner_ok :: "('w, 'x) owning_scheme \<Rightarrow> bool" where
  "owner_ok s \<longleftrightarrow> worker_ok s \<and> operation_ok s \<and> session_ok s"

lemmas owner_ok_defs = owner_ok_def worker_ok_def operation_ok_def session_ok_def

lemma operation_result_world [simp]:
  "operation_result (s\<lparr>on_world := w\<rparr>) = operation_result s"
  "operation_result (s\<lparr>ow_process := p\<rparr>) = operation_result s"
  by (simp_all add: operation_result_def)

subsection \<open>The abstract machine\<close>

datatype phase = Detached | Blocked | Active | Running u64 | Finished u64

type_synonym session_view = "bool \<times> u64 \<times> phase \<times> bool"  \<comment> \<open>fault, session, phase, worker left\<close>

definition phase_of :: "('w, 'x) owning_scheme \<Rightarrow> phase" where
  "phase_of s =
    (if ow_fd s < 0 then Detached else if \<not> ow_active s then Blocked
     else if ow_operation s = 0 then Active
     else if ow_result_ready s then Finished (ow_operation s) else Running (ow_operation s))"

definition owner_view :: "('w, 'x) owning_scheme \<Rightarrow> session_view" where
  "owner_view s = (ow_fault s, ow_epoch s, phase_of s, ow_process s \<noteq> None)"

text \<open>
  A session that has begun stays blocked until no worker is left; it then runs one worker at
  a time and reports each, and it may end at any time. A fault ends it for good.
\<close>

inductive owner_moves :: "session_view \<Rightarrow> session_view \<Rightarrow> bool" where
  move_attach: "e \<noteq> u64_max \<Longrightarrow> owner_moves (False, e, Detached, b) (False, e + 1, Blocked, b)"
| move_activate: "owner_moves (False, e, Blocked, False) (False, e, Active, False)"
| move_launch: "n \<noteq> 0 \<Longrightarrow> owner_moves (False, e, Active, False) (False, e, Running n, True)"
| move_finish: "owner_moves (False, e, Running n, True) (False, e, Finished n, False)"
| move_report: "owner_moves (False, e, Finished n, False) (False, e, Active, False)"
| move_leave: "x = Detached \<or> x = Blocked \<Longrightarrow> owner_moves (f, e, x, True) (f, e, x, False)"
| move_disconnect: "f \<longrightarrow> f' \<Longrightarrow> owner_moves (f, e, x, b) (f', e, Detached, b)"

definition owner_keeps :: "'w owning \<Rightarrow> 'w owning \<Rightarrow> bool" where
  "owner_keeps s t \<longleftrightarrow> (owner_ok s \<longrightarrow> owner_ok t \<and> owner_moves\<^sup>*\<^sup>* (owner_view s) (owner_view t))"

interpretation owner: kept_relation owner_keeps
  by unfold_locales (auto simp: owner_keeps_def)

lemma owner_keeps_same: "owner_ok t \<Longrightarrow> owner_view t = owner_view s \<Longrightarrow> owner_keeps s t"
  by (simp add: owner_keeps_def)

lemma owner_keeps_move: "owner_ok t \<Longrightarrow> owner_moves (owner_view s) (owner_view t) \<Longrightarrow> owner_keeps s t"
  by (simp add: owner_keeps_def r_into_rtranclp)

subsection \<open>The primitives\<close>

lemma wp_owner_system [wp_rules]:
  "wp (owner_system f) Q s = (case f (on_world s) of (a, w) \<Rightarrow> Q a (s\<lparr>on_world := w\<rparr>))"
  by (simp add: wp_def owner_system_def split: prod.split)

lemma wp_owner_process [wp_rules]:
  "wp (owner_process f) Q s =
    (case f (the (ow_process s), on_world s) of (a, p, w) \<Rightarrow> Q a (s\<lparr>ow_process := Some p, on_world := w\<rparr>))"
  by (simp add: wp_def owner_process_def split: prod.split)

lemma owner_ok_world [simp]: "owner_ok (s\<lparr>on_world := w\<rparr>) = owner_ok s"
  by (simp add: owner_ok_defs)

lemma owner_view_world [simp]: "owner_view (s\<lparr>on_world := w\<rparr>) = owner_view s"
  by (simp add: owner_view_def phase_of_def)

lemma keeps_owner_system: "keeps owner_keeps (owner_system f)"
  by (rule keepsI) (simp add: wp_rules owner_keeps_def split: prod.split)

lemma worker_good_stop:
  assumes "worker_good p"
  shows "worker_good (fst (request_stop os now (p, w)))"
  using assms request_stop_moves [of p os now w]
  by (simp add: worker_good_def process_moves_def request_stop_fields)

lemma worker_good_poll:
  assumes "reads_bounded os" and "worker_good p"
  shows "worker_good (fst (poll os now (p, w)))"
  using assms poll_moves [of os p now w] by (simp add: worker_good_def process_moves_def poll_fields)

text \<open>A worker's process that moves leaves the rest as it is.\<close>

lemma session_ok_process [simp]: "session_ok (s\<lparr>ow_process := p\<rparr>) = session_ok s"
  by (simp add: session_ok_def)

lemma operation_ok_process: "(p = None) = (ow_process s = None) \<Longrightarrow> operation_ok (s\<lparr>ow_process := p\<rparr>) = operation_ok s"
  by (simp add: operation_ok_def)

lemma worker_ok_process: "worker_ok s \<Longrightarrow> worker_good q \<Longrightarrow> worker_ok (s\<lparr>ow_process := Some q\<rparr>)"
  by (simp add: worker_ok_def)

lemma owner_ok_process:
  assumes "owner_ok s" and "ow_process s = Some p" and "worker_good q"
  shows "owner_ok (s\<lparr>ow_process := Some q, on_world := w\<rparr>)"
proof -
  have "operation_ok (s\<lparr>ow_process := Some q\<rparr>) = operation_ok s"
    by (rule operation_ok_process) (simp add: assms(2))
  with assms worker_ok_process [of s q] have "owner_ok (s\<lparr>ow_process := Some q\<rparr>)" by (simp add: owner_ok_def)
  then show ?thesis by (simp only: owner_ok_world)
qed

lemma owner_view_process:
  assumes "ow_process s = Some p"
  shows "owner_view (s\<lparr>ow_process := Some q, on_world := w\<rparr>) = owner_view s"
  by (simp add: owner_view_def phase_of_def assms)

lemma owner_ok_worker: "owner_ok s \<Longrightarrow> ow_process s = Some p \<Longrightarrow> worker_good p"
  by (simp add: owner_ok_def worker_ok_def)

lemma owner_keeps_process:
  assumes "ow_process s = Some p" and "worker_good p \<Longrightarrow> worker_good q"
  shows "owner_keeps s (s\<lparr>ow_process := Some q, on_world := w\<rparr>)"
proof -
  have "owner_ok (s\<lparr>ow_process := Some q, on_world := w\<rparr>)" if "owner_ok s"
    by (rule owner_ok_process [OF that assms(1) assms(2) [OF owner_ok_worker [OF that assms(1)]]])
  then show ?thesis by (simp only: owner_keeps_def owner_view_process [OF assms(1)]) simp
qed

subsection \<open>Ending a session\<close>

text \<open>What \<open>disconnect\<close> leaves: \<open>keep\<close> collects the fields that it does not touch.\<close>

definition disconnected :: "'w owning \<Rightarrow> 'w owning \<Rightarrow> bool" where
  "disconnected s t \<longleftrightarrow>
     ow_fd t < 0 \<and> \<not> ow_active t \<and> \<not> ow_has_pending t \<and> ow_clear_token t = 0 \<and> ow_operation t = 0 \<and>
     \<not> ow_result_ready t \<and> (ow_fault s \<longrightarrow> ow_fault t) \<and> ow_epoch t = ow_epoch s \<and>
     ow_launches t = ow_launches s \<and> ow_last_now t = ow_last_now s \<and> ow_clock_seen t = ow_clock_seen s \<and>
     ow_last_observation t = ow_last_observation s \<and> on_aborted t = on_aborted s \<and> on_killed t = on_killed s \<and>
     rel_option (\<lambda>p q. worker_good p \<longrightarrow> worker_good q) (ow_process s) (ow_process t)"

lemma discard_operation_fields [simp]:
  "ow_fd (discard_operation s) = ow_fd s" "ow_fault (discard_operation s) = ow_fault s"
  "ow_epoch (discard_operation s) = ow_epoch s" "ow_launches (discard_operation s) = ow_launches s"
  "ow_last_now (discard_operation s) = ow_last_now s" "ow_clock_seen (discard_operation s) = ow_clock_seen s"
  "ow_last_observation (discard_operation s) = ow_last_observation s"
  "on_aborted (discard_operation s) = on_aborted s" "on_killed (discard_operation s) = on_killed s"
  "ow_process (discard_operation s) = ow_process s" "on_world (discard_operation s) = on_world s"
  by (simp_all add: discard_operation_def)

lemma end_session_fields [simp]:
  "ow_fd (end_session s) = ow_fd s" "ow_fault (end_session s) = ow_fault s"
  "ow_epoch (end_session s) = ow_epoch s" "ow_launches (end_session s) = ow_launches s"
  "ow_last_now (end_session s) = ow_last_now s" "ow_clock_seen (end_session s) = ow_clock_seen s"
  "ow_last_observation (end_session s) = ow_last_observation s"
  "on_aborted (end_session s) = on_aborted s" "on_killed (end_session s) = on_killed s"
  "ow_process (end_session s) = ow_process s" "on_world (end_session s) = on_world s"
  "\<not> ow_active (end_session s)" "\<not> ow_has_pending (end_session s)" "\<not> ow_result_ready (end_session s)"
  "ow_clear_token (end_session s) = 0" "ow_operation (end_session s) = 0"
  by (simp_all add: end_session_def)

definition process_changed :: "'w owning \<Rightarrow> 'w owning \<Rightarrow> bool" where
  "process_changed s t \<longleftrightarrow>
     (\<exists>p w. t = s\<lparr>ow_process := p, on_world := w\<rparr> \<and>
        rel_option (\<lambda>p q. worker_good p \<longrightarrow> worker_good q) (ow_process s) p)"

lemma process_changed_refl: "process_changed s s"
proof -
  have "s = s\<lparr>ow_process := ow_process s, on_world := on_world s\<rparr>" by simp
  then show ?thesis unfolding process_changed_def by (blast intro: option.rel_refl)
qed

lemma wp_stop_worker: "wp (stop_worker env now) (\<lambda>_. process_changed s) s"
proof (cases "\<exists>p. ow_process s = Some p \<and> po_launched p \<and> po_exit_status p = None")
  case True
  then obtain p where p: "ow_process s = Some p" "po_launched p" "po_exit_status p = None" by blast
  obtain q w where stop: "request_stop (oe_os env) now (p, on_world s) = (q, w)"
    by (cases "request_stop (oe_os env) now (p, on_world s)")
  have "worker_good p \<longrightarrow> worker_good q"
    using worker_good_stop [of p "oe_os env" now "on_world s"] stop by simp
  then have "process_changed s (s\<lparr>ow_process := Some q, on_world := w\<rparr>)"
    unfolding process_changed_def using p(1) by (intro exI [of _ "Some q"] exI [of _ w]) simp
  with p stop show ?thesis by (simp add: stop_worker_def wp_rules)
next
  case False
  then have "\<not> (case ow_process s of None \<Rightarrow> False | Some p \<Rightarrow> po_launched p \<and> po_exit_status p = None)"
    by (simp split: option.split)
  then show ?thesis by (simp add: stop_worker_def wp_rules process_changed_refl)
qed

lemma wp_disconnect:
  assumes "\<And>t. disconnected s t \<Longrightarrow> Q t"
  shows "wp (disconnect env now) (\<lambda>_. Q) s"
  unfolding disconnect_def wp_bind
proof (rule wp_mono [OF wp_stop_worker])
  fix a t
  assume "process_changed s t"
  then obtain p w where t: "t = s\<lparr>ow_process := p, on_world := w\<rparr>"
    and p: "rel_option (\<lambda>p q. worker_good p \<longrightarrow> worker_good q) (ow_process s) p"
    unfolding process_changed_def by blast
  note simps = t p disconnected_def
  have closed_ok: "disconnected s ((end_session t)\<lparr>ow_fd := - 1, on_world := v\<rparr>)" for v
    by (simp add: simps)
  have close_failed: "disconnected s ((end_session t)\<lparr>ow_fd := - 1, on_world := v, ow_fault := True\<rparr>)" for v
    by (simp add: simps)
  show "wp (changes end_session) (\<lambda>a. wp (close_session env) (\<lambda>_. Q)) t"
  proof (cases "ow_fd s \<ge> 0")
    case True
    obtain r v where closed: "so_close (oe_sockets env) (ow_fd s) w = (r, v)"
      by (cases "so_close (oe_sockets env) (ow_fd s) w")
    from assms [OF closed_ok [of v]] assms [OF close_failed [of v]] True closed show ?thesis
      by (simp add: close_session_def wp_rules t)
  next
    case False
    then have "disconnected s (end_session t)" by (simp add: simps)
    from assms [OF this] False show ?thesis by (simp add: close_session_def wp_rules t)
  qed
qed

lemma disconnected_ok:
  assumes "disconnected s t" and "owner_ok s"
  shows "owner_ok t"
proof -
  have "worker_good q" if "ow_process t = Some q" for q
  proof -
    from assms(1) that obtain p where "ow_process s = Some p" "worker_good p \<longrightarrow> worker_good q"
      by (auto simp: disconnected_def option_rel_Some2)
    with owner_ok_worker [OF assms(2)] show ?thesis by blast
  qed
  with assms show ?thesis by (simp add: disconnected_def owner_ok_defs)
qed

lemma disconnected_moves:
  assumes "disconnected s t"
  shows "owner_moves (owner_view s) (owner_view t)"
proof -
  have "ow_process t \<noteq> None \<longleftrightarrow> ow_process s \<noteq> None"
    using assms by (auto simp: disconnected_def elim: option.rel_cases)
  with assms have "owner_view t = (ow_fault t, ow_epoch s, Detached, ow_process s \<noteq> None)"
    by (simp add: disconnected_def owner_view_def phase_of_def)
  moreover have "ow_fault s \<longrightarrow> ow_fault t" using assms by (simp add: disconnected_def)
  ultimately show ?thesis by (simp only: owner_view_def [of s]) (rule move_disconnect)
qed

lemma disconnected_keeps: "disconnected s t \<Longrightarrow> owner_keeps s t"
  by (simp add: owner_keeps_def disconnected_ok disconnected_moves r_into_rtranclp)

lemma disconnected_set_fault: "disconnected (set_fault s) t \<Longrightarrow> disconnected s t \<and> ow_fault t"
  by (simp add: disconnected_def set_fault_def)

lemma wp_fail_session:
  assumes "\<And>t. disconnected s t \<Longrightarrow> ow_fault t \<Longrightarrow> Q t"
  shows "wp (fail_session env now) (\<lambda>_. Q) s"
  unfolding fail_session_def wp_bind wp_changes
  by (rule wp_disconnect) (auto dest: disconnected_set_fault intro: assms)

lemma keeps_disconnect: "keeps owner_keeps (disconnect env now)"
  by (rule keepsI, rule wp_disconnect) (rule disconnected_keeps)

lemma keeps_fail_session: "keeps owner_keeps (fail_session env now)"
  by (rule keepsI, rule wp_fail_session) (rule disconnected_keeps)

text \<open>
  Every program of the recovery owner keeps its invariant and moves as the abstract machine
  allows.
\<close>

subsection \<open>Destroying a process\<close>

lemma destroy_clear:
  assumes "process_ok p" and "cleanup_ok p" and "clear p"
  shows "\<exists>w. destroy_process os p s = s\<lparr>on_world := w\<rparr>"
proof -
  obtain q w where "cleanup_owned_child os (p, on_world s) = Some (True, q, w)"
    using clear_cleanup [OF assms, of os "on_world s"] by blast
  moreover have "\<not> pr_owned_pid p > 0"
    using assms(1,3) by (auto simp: process_ok_def ownership_ok_def clear_def)
  ultimately have "destroy_process os p s = s\<lparr>on_world := w\<rparr>" by (simp add: destroy_process_def)
  then show ?thesis by blast
qed

lemma destroy_faulted:
  assumes "owner_ok s" and "ow_fault s"
  shows "owner_ok (destroy_process os p s)" "owner_view (destroy_process os p s) = owner_view s"
proof -
  obtain w a k where t: "destroy_process os p s = s\<lparr>on_world := w, on_aborted := a, on_killed := k\<rparr>"
  proof (cases "cleanup_owned_child os (p, on_world s)")
    case None
    then show thesis by (intro that [where w = "on_world s" and a = True and k = "on_killed s \<or> pr_owned_pid p > 0"]) (simp add: destroy_process_def)
  next
    case (Some r)
    obtain b q w where "r = (b, q, w)" by (cases r) auto
    with Some show thesis
      by (intro that [where w = "if b then w else on_world s" and a = "if b then on_aborted s else True"
          and k = "on_killed s \<or> pr_owned_pid p > 0"])
        (simp add: destroy_process_def)
  qed
  have "operation_ok (s\<lparr>on_world := w, on_aborted := a, on_killed := k\<rparr>) = operation_ok s"
    "session_ok (s\<lparr>on_world := w, on_aborted := a, on_killed := k\<rparr>) = session_ok s"
    by (simp_all add: operation_ok_def session_ok_def operation_result_def)
  with assms show "owner_ok (destroy_process os p s)"
    by (simp add: t owner_ok_def worker_ok_def)
  show "owner_view (destroy_process os p s) = owner_view s"
    by (simp add: t owner_view_def phase_of_def)
qed

subsection \<open>Reaping the worker\<close>

lemma report_result_ok:
  assumes ok: "owner_ok s" and p: "ow_process s = Some p"
  shows "owner_keeps s (report_result (s\<lparr>ow_last_observation := obs, on_world := w, ow_process := None\<rparr>))"
    (is "owner_keeps s (report_result ?t)")
proof (cases "ow_active s")
  case True
  with ok p have run: "ow_operation s \<noteq> 0" "\<not> ow_result_ready s" "ow_operation_session s = ow_epoch s"
    "\<not> ow_operation_handed_off s" "\<not> ow_operation_discarded s" "ow_fd s \<ge> 0" "\<not> ow_fault s"
    "\<not> (ow_has_pending s \<and> ms_kind (ow_pending s) = message_code KResult)"
    by (auto simp: owner_ok_defs)
  let ?u = "?t\<lparr>ow_result := operation_result ?t, ow_result_ready := True\<rparr>"
  have u: "report_result ?t = ?u" using run by (simp add: report_result_def)
  have "worker_ok ?u" using ok by (simp add: owner_ok_def worker_ok_def)
  moreover have "operation_result ?u = operation_result ?t" by (simp add: operation_result_def)
  then have "operation_ok ?u" using run True by (simp add: operation_ok_def)
  moreover have "session_ok ?u" using ok run by (simp add: owner_ok_def session_ok_def)
  ultimately have "owner_ok ?u" by (simp only: owner_ok_def simp_thms)
  moreover have "owner_moves (owner_view s) (owner_view ?u)"
    using run True p move_finish [of "ow_epoch s" "ow_operation s"] by (simp add: owner_view_def phase_of_def)
  ultimately show ?thesis unfolding u by (rule owner_keeps_move)
next
  case False
  with ok have idle: "ow_operation s = 0" "\<not> ow_result_ready s"
    by (auto simp: owner_ok_def operation_ok_def)
  then have t: "report_result ?t = ?t" by (simp add: report_result_def)
  have "worker_ok ?t" "session_ok ?t" using ok by (simp_all add: owner_ok_def worker_ok_def session_ok_def)
  moreover have "operation_ok ?t" using idle False by (simp add: operation_ok_def)
  ultimately have "owner_ok ?t" by (simp only: owner_ok_def simp_thms)
  moreover have "owner_moves (owner_view s) (owner_view ?t)"
    using False p by (simp add: owner_view_def phase_of_def move_leave)
  ultimately show ?thesis unfolding t by (rule owner_keeps_move)
qed

lemma wp_reap_worker:
  assumes p: "ow_process s = Some p"
  shows "wp (reap_worker env now) (\<lambda>_. owner_keeps s) s"
proof (cases "owner_ok s")
  case False
  then show ?thesis by (simp add: wp_run owner_keeps_def)
next
  case ok: True
  have good: "worker_good p" by (rule owner_ok_worker [OF ok p])
  obtain b q w where closed: "close_channels (oe_os env) (p, on_world s) = (b, q, w)"
    by (cases "close_channels (oe_os env) (p, on_world s)") auto
  note fields = close_channels_cleanup [OF closed]
  have q: "process_ok q" "cleanup_ok q" "po_channels_closed q = b" "po_launched q"
    using good fields close_channels_ok [of p "oe_os env" "on_world s"] closed
    by (simp_all add: worker_good_def)
  let ?s = "s\<lparr>ow_process := Some q, on_world := w\<rparr>"
  show ?thesis
  proof (cases b)
    case False
    with q have "owner_keeps s ?s" by (intro owner_keeps_process [OF p]) (simp add: worker_good_def)
    then have "wp (fail_session env now) (\<lambda>_. owner_keeps s) ?s"
      by (intro wp_fail_session) (blast intro: owner.kept_trans disconnected_keeps)
    with False closed p show ?thesis by (simp add: reap_worker_def wp_bind wp_owner_process)
  next
    case True
    with q have "clear q" by (simp add: clear_def)
    from destroy_clear [OF q(1,2) this, where os = "oe_os env" and s = "?s\<lparr>ow_last_observation := observation q\<rparr>"]
    obtain v where v: "destroy_process (oe_os env) q (?s\<lparr>ow_last_observation := observation q\<rparr>)
      = ?s\<lparr>ow_last_observation := observation q, on_world := v\<rparr>" by auto
    from report_result_ok [OF ok p, where obs = "observation q" and w = v] True closed p v show ?thesis
      by (simp add: reap_worker_def wp_rules drop_process_def)
  qed
qed

lemma keeps_observe_worker:
  assumes "reads_bounded (oe_os env)"
  shows "keeps owner_keeps (observe_worker env now)"
  unfolding observe_worker_def
proof (rule owner.keeps_reads_bind)
  fix s :: "'a owning"
  let ?observe = "do {
     owner_process (\<lambda>pw. ((), poll (oe_os env) now pw));
     broken \<leftarrow> reads (\<lambda>s. process_broken (the (ow_process s)));
     on_condition broken (fail_session env now);
     p \<leftarrow> reads (\<lambda>s. the (ow_process s));
     on_condition (po_exit_status p \<noteq> None \<and> po_event_eof p) (reap_worker env now)
   }"
  have "wp ?observe (\<lambda>_. owner_keeps s) s" if p: "ow_process s = Some p" for p
  proof (rule owner.wp_then [where P = "\<lambda>_ t. ow_process t \<noteq> None"])
    obtain q w where poll: "poll (oe_os env) now (p, on_world s) = (q, w)"
      by (cases "poll (oe_os env) now (p, on_world s)")
    have "owner_keeps s (s\<lparr>ow_process := Some q, on_world := w\<rparr>)"
      using owner_keeps_process [OF p, of q w] worker_good_poll [OF assms, of p now "on_world s"] poll by simp
    with p poll show "wp (owner_process (\<lambda>pw. ((), poll (oe_os env) now pw)))
        (\<lambda>_ t. owner_keeps s t \<and> ow_process t \<noteq> None) s"
      by (simp add: wp_owner_process)
  next
    fix t :: "'a owning"
    assume t: "ow_process t \<noteq> None"
    let ?reap = "reads (\<lambda>s. the (ow_process s)) \<bind>
      (\<lambda>p. on_condition (po_exit_status p \<noteq> None \<and> po_event_eof p) (reap_worker env now))"
    have reap: "wp ?reap (\<lambda>_. owner_keeps u) u" if "ow_process u \<noteq> None" for u
      using wp_reap_worker [of u _ env now] that by (auto simp: wp_bind wp_reads wp_on_condition owner.kept_refl)
    have "wp (on_condition b (fail_session env now)) (\<lambda>_ u. owner_keeps t u \<and> ow_process u \<noteq> None) t" for b
    proof (cases b)
      case True
      have "owner_keeps t u \<and> ow_process u \<noteq> None" if "disconnected t u" for u
        using disconnected_keeps [OF that] that t by (auto simp: disconnected_def elim: option.rel_cases)
      then have "wp (fail_session env now) (\<lambda>_ u. owner_keeps t u \<and> ow_process u \<noteq> None) t"
        by (intro wp_fail_session) blast
      with True show ?thesis by (simp add: wp_on_condition)
    qed (use t in \<open>simp add: wp_on_condition owner.kept_refl\<close>)
    then show "wp (reads (\<lambda>s. process_broken (the (ow_process s))) \<bind>
        (\<lambda>broken. on_condition broken (fail_session env now) \<bind> (\<lambda>_. ?reap))) (\<lambda>_. owner_keeps t) t"
      by (intro owner.wp_reads_then owner.wp_then [where P = "\<lambda>_ u. ow_process u \<noteq> None"] reap)
  qed
  then show "wp (on_condition (ow_process s \<noteq> None) ?observe) (\<lambda>_. owner_keeps s) s"
    by (cases "ow_process s") (simp_all add: wp_on_condition owner.kept_refl)
qed

end
