(* ===== verification/Recovery_Owner_Session.thy ===== *)
theory Recovery_Owner_Session
  imports Recovery_Owner_Invariant
begin

text \<open>
  The session's half of the recovery owner: what it sends and how it handles the host's
  messages, up to the public members, their machine and its simulation of the abstract one.
\<close>

subsection \<open>Sending\<close>

lemma queue_message_ok:
  assumes "owner_ok s" and "ow_fd s \<ge> 0" and "ms_session m = ow_epoch s"
    and "ms_kind m = message_code KResult \<Longrightarrow> ow_operation s = 0 \<or> ow_result_ready s \<and> m = ow_result s"
  shows "owner_ok (queue_message m now s)" "owner_view (queue_message m now s) = owner_view s"
proof -
  have "operation_result (queue_message m now s) = operation_result s"
    by (simp add: queue_message_def operation_result_def)
  then have "operation_ok (queue_message m now s)" "worker_ok (queue_message m now s)"
    using assms(1) by (simp_all add: owner_ok_def operation_ok_def worker_ok_def queue_message_def)
  moreover have "session_ok (queue_message m now s)"
    using assms by (auto simp: owner_ok_def session_ok_def queue_message_def)
  ultimately show "owner_ok (queue_message m now s)" by (simp only: owner_ok_def simp_thms)
  show "owner_view (queue_message m now s) = owner_view s"
    by (simp add: queue_message_def owner_view_def phase_of_def)
qed

lemma reply_fields [simp]:
  "ms_kind (reply k e n) = message_code k" "ms_session (reply k e n) = e" "ms_request (reply k e n) = n"
  "ms_magic (reply k e n) = kMagic" "ms_operation (reply k e n) = 0" "ms_amount (reply k e n) = 0"
  "ms_value (reply k e n) = 0" "ms_flags (reply k e n) = 0"
  by (simp_all add: reply_def new_message_def)

lemma operation_result_fields [simp]:
  "ms_session (operation_result s) = ow_operation_session s" "ms_kind (operation_result s) = message_code KResult"
  "ms_operation (operation_result s) = ow_operation s" "ms_amount (operation_result s) = ow_amount s"
  "ms_request (operation_result s) = ow_operation_request s"
  by (simp_all add: operation_result_def)

lemma ready_session:
  assumes "owner_ok s" and "ow_result_ready s"
  shows "ow_fd s \<ge> 0" "ms_session (ow_result s) = ow_epoch s" "ow_operation s \<noteq> 0" "ow_active s"
proof -
  have facts: "ow_operation s \<noteq> 0" "ow_result s = operation_result s" "ow_active s"
    "ow_operation_session s = ow_epoch s"
    using assms by (simp_all add: owner_ok_def operation_ok_def)
  then show "ow_operation s \<noteq> 0" "ow_active s" "ms_session (ow_result s) = ow_epoch s" by simp_all
  show "ow_fd s \<ge> 0" using assms(1) facts(3) by (simp add: owner_ok_def session_ok_def)
qed

lemma queue_result_keeps: "owner_keeps s (queue_result now s)"
proof (cases "owner_ok s \<and> \<not> ow_has_pending s \<and> ow_result_ready s")
  case True
  with ready_session [of s] queue_message_ok [of s "ow_result s" now] show ?thesis
    by (intro owner_keeps_same) (simp_all add: queue_result_def)
next
  case False
  then show ?thesis by (auto simp: queue_result_def owner_keeps_def)
qed

lemma sent_message_keeps:
  assumes "ow_has_pending s"
  shows "owner_keeps s (sent_message s)"
proof (cases "owner_ok s")
  case ok: True
  show ?thesis
  proof (cases "ms_kind (ow_pending s) = message_code KResult")
    case True
    let ?t = "s\<lparr>ow_operation_handed_off := True, ow_operation := 0, ow_result_ready := False, ow_has_pending := False\<rparr>"
    have t: "sent_message s = ?t" using True by (simp add: sent_message_def)
    have cases: "ow_operation s = 0 \<or> ow_result_ready s"
      using ok assms True by (auto simp: owner_ok_def session_ok_def)
    then have clear: "ow_active s \<Longrightarrow> ow_process s = None"
      using ok by (auto simp: owner_ok_def operation_ok_def)
    have "worker_ok ?t" "session_ok ?t" using ok by (simp_all add: owner_ok_def worker_ok_def session_ok_def)
    moreover have "operation_ok ?t" using clear by (simp add: operation_ok_def)
    ultimately have "owner_ok ?t" by (simp only: owner_ok_def simp_thms)
    moreover have "owner_view ?t = owner_view s" if "ow_operation s = 0"
      using that by (simp add: owner_view_def phase_of_def)
    moreover have "owner_moves (owner_view s) (owner_view ?t)" if "ow_operation s \<noteq> 0"
    proof -
      have ready: "ow_result_ready s" using that cases by simp
      note session = ready_session [OF ok ready]
      have "\<not> ow_fault s" using ok session(1) by (auto simp: owner_ok_def session_ok_def)
      with session ready clear show ?thesis by (simp add: owner_view_def phase_of_def move_report)
    qed
    ultimately show ?thesis
      unfolding t by (cases "ow_operation s = 0") (auto intro: owner_keeps_same owner_keeps_move)
  next
    case False
    then have t: "sent_message s = s\<lparr>ow_has_pending := False\<rparr>" by (simp add: sent_message_def)
    have "operation_result (s\<lparr>ow_has_pending := False\<rparr>) = operation_result s" by (simp add: operation_result_def)
    then have "owner_ok (sent_message s)"
      using ok by (simp add: t owner_ok_def worker_ok_def session_ok_def operation_ok_def)
    then show ?thesis by (rule owner_keeps_same) (simp add: t owner_view_def phase_of_def)
  qed
qed (simp add: owner_keeps_def)

lemma keeps_flush_pending: "keeps owner_keeps (flush_pending env now)"
proof (rule keepsI)
  fix s :: "'a owning"
  let ?send = "owner_system (send_message (oe_sockets env) (ow_fd s) (ow_pending s)) \<bind>
    (\<lambda>sent. case sent of IoClosed \<Rightarrow> disconnect env now | IoDone \<Rightarrow> changes sent_message | IoAgain \<Rightarrow> skip)"
  have send: "wp ?send (\<lambda>_. owner_keeps s) s" if pending: "ow_has_pending s"
  proof -
    obtain r w where sent: "send_message (oe_sockets env) (ow_fd s) (ow_pending s) (on_world s) = (r, w)"
      by (cases "send_message (oe_sockets env) (ow_fd s) (ow_pending s) (on_world s)")
    let ?t = "s\<lparr>on_world := w\<rparr>"
    have world: "owner_keeps s ?t" by (simp add: owner_keeps_def)
    have "wp (disconnect env now) (\<lambda>_. owner_keeps s) ?t"
      by (rule wp_disconnect) (blast intro: owner.kept_trans world disconnected_keeps)
    moreover have "owner_keeps s (sent_message ?t)"
      by (rule owner.kept_trans [OF world sent_message_keeps]) (simp add: pending)
    ultimately show ?thesis
      using sent world by (cases r) (simp_all add: wp_bind wp_owner_system wp_changes wp_skip)
  qed
  have "wp (disconnect env now) (\<lambda>_. owner_keeps s) s" by (rule keepsD [OF keeps_disconnect])
  with send show "wp (flush_pending env now) (\<lambda>_. owner_keeps s) s"
    by (simp add: flush_pending_def wp_bind wp_reads wp_on_condition owner.kept_refl)
qed

subsection \<open>Whether the domain is clear\<close>

lemma wp_owner_clear:
  "wp (owner_clear env) (\<lambda>b t. \<exists>w. t = s\<lparr>on_world := w\<rparr> \<and>
     (b \<longrightarrow> \<not> ow_fault s \<and> (\<forall>p. ow_process s = Some p \<longrightarrow> process_clear p))) s"
proof (cases "ow_fault s")
  case True
  have "s = s\<lparr>on_world := on_world s\<rparr>" by simp
  then have "\<exists>w. s = s\<lparr>on_world := w\<rparr>" by blast
  with True show ?thesis by (simp add: owner_clear_def wp_rules)
next
  case False
  obtain b w where "can_launch (oe_os env) (ow_worker s) (on_world s) = (b, w)"
    by (cases "can_launch (oe_os env) (ow_worker s) (on_world s)")
  moreover have "\<exists>w'. s\<lparr>on_world := w\<rparr> = s\<lparr>on_world := w'\<rparr>" by blast
  ultimately show ?thesis
    using False by (cases "ow_process s") (simp_all add: owner_clear_def wp_rules)
qed

text \<open>A worker that the owner still holds has open channels: the domain is not clear.\<close>

lemma wp_clear_then:
  assumes "owner_ok s"
    and "\<And>w. \<not> ow_fault s \<Longrightarrow> ow_process s = None \<Longrightarrow> wp (m True) Q (s\<lparr>on_world := w\<rparr>)"
    and "\<And>w. wp (m False) Q (s\<lparr>on_world := w\<rparr>)"
  shows "wp (owner_clear env \<bind> m) Q s"
  unfolding wp_bind
proof (rule wp_mono [OF wp_owner_clear])
  fix b t
  assume "\<exists>w. t = s\<lparr>on_world := w\<rparr> \<and> (b \<longrightarrow> \<not> ow_fault s \<and> (\<forall>p. ow_process s = Some p \<longrightarrow> process_clear p))"
  then obtain w where t: "t = s\<lparr>on_world := w\<rparr>"
    and b: "b \<Longrightarrow> \<not> ow_fault s" "\<And>p. b \<Longrightarrow> ow_process s = Some p \<Longrightarrow> process_clear p" by blast
  show "wp (m b) Q t"
  proof (cases b)
    case True
    have "ow_process s = None"
    proof (rule ccontr)
      assume "ow_process s \<noteq> None"
      then obtain p where p: "ow_process s = Some p" by blast
      from b(2) [OF True p] owner_ok_worker [OF assms(1) p]
      show False by (simp add: process_clear_def worker_good_def)
    qed
    with True b(1) assms(2) show ?thesis by (simp add: t)
  next
    case False
    with assms(3) show ?thesis by (simp add: t)
  qed
qed

subsection \<open>The handlers\<close>

lemma wp_answer_query:
  assumes ok: "owner_ok s" and fd: "ow_fd s \<ge> 0"
  shows "wp (answer_query env m now) (\<lambda>_. owner_keeps s) s"
proof -
  define u where "u = s\<lparr>ow_last_request := ms_request m\<rparr>"
  have u: "owner_ok u" "owner_view u = owner_view s" "ow_fd u = ow_fd s"
    using ok by (simp_all add: u_def owner_ok_defs operation_result_def owner_view_def phase_of_def)
  have noted: "owner_keeps s (queue_message x now (v\<lparr>ow_clear_token := c, ow_clear_token_at := d\<rparr>))"
    if v: "owner_ok v" "owner_view v = owner_view s" "ow_fd v \<ge> 0"
      and x: "ms_session x = ow_epoch v" "ms_kind x = message_code KSnapshot" for v x c d
  proof -
    let ?v = "v\<lparr>ow_clear_token := c, ow_clear_token_at := d\<rparr>"
    have "operation_result ?v = operation_result v" by (simp add: operation_result_def)
    then have "worker_ok ?v" "operation_ok ?v" using v(1) by (simp_all add: owner_ok_def worker_ok_def operation_ok_def)
    moreover have "session_ok ?v" using v(1,3) by (simp add: owner_ok_def session_ok_def)
    ultimately have "owner_ok ?v" by (simp only: owner_ok_def simp_thms)
    moreover have "owner_view ?v = owner_view v" by (simp add: owner_view_def phase_of_def)
    ultimately show ?thesis
      using queue_message_ok [of ?v x now] v(2,3) x by (simp add: owner_keeps_same)
  qed
  have unclear: "owner_keeps s (queue_message x now (v\<lparr>ow_clear_token := c\<rparr>))"
    if "owner_ok v" "owner_view v = owner_view s" "ow_fd v \<ge> 0" "ms_session x = ow_epoch v"
      "ms_kind x = message_code KSnapshot" for v x c
    using noted [OF that, where c = c and d = "ow_clear_token_at v"] by simp
  show ?thesis
    unfolding answer_query_def wp_bind [of "changes _"] wp_changes u_def [symmetric]
    by (rule wp_clear_then [OF u(1)])
      (simp_all add: wp_bind wp_reads wp_changes noted unclear u fd)
qed

lemma activate_keeps:
  assumes ok: "owner_ok s" and fd: "ow_fd s \<ge> 0" and blocked: "\<not> ow_active s"
    and clear: "\<not> ow_fault s" "ow_process s = None"
  shows "owner_keeps s (activate_session m now s)"
proof -
  let ?t = "s\<lparr>ow_last_request := ms_request m, ow_active := True, ow_clear_token := 0\<rparr>"
  have idle: "ow_operation s = 0" "\<not> ow_result_ready s"
    using ok blocked by (auto simp: owner_ok_def operation_ok_def)
  have "worker_ok ?t" using ok by (simp add: owner_ok_def worker_ok_def)
  moreover have "session_ok ?t" using ok fd by (simp add: owner_ok_def session_ok_def)
  moreover have "operation_ok ?t" using idle clear by (simp add: operation_ok_def)
  ultimately have t: "owner_ok ?t" by (simp only: owner_ok_def simp_thms)
  have "owner_moves (owner_view s) (owner_view ?t)"
    using fd blocked clear idle by (simp add: owner_view_def phase_of_def move_activate)
  with queue_message_ok [OF t, of "(reply KActivated (ow_epoch s) (ms_request m))\<lparr>ms_value := ms_value m\<rparr>" now] fd
  show ?thesis by (intro owner_keeps_move) (simp_all add: activate_session_def)
qed

subsection \<open>Submitting\<close>

text \<open>What launching a new process leaves: a good worker, or one with nothing to clean up.\<close>

lemma launched_candidate:
  assumes "launch os (make_process e n g, w) = (b, p, v)" and "\<not> process_broken p"
  shows "b \<Longrightarrow> worker_good p" "\<not> b \<Longrightarrow> process_ok p \<and> cleanup_ok p \<and> clear p"
proof -
  have new: "process_ok (make_process e n g)" "cleanup_ok (make_process e n g)"
    "\<not> po_channels_closed (make_process e n g)"
    by (simp_all add: make_process_ok) (simp_all add: make_process_def cleanup_ok_def)
  have p: "process_ok p" "cleanup_ok p" "\<not> po_channels_closed p" "po_launched p = b"
    using launch_ok [OF new(1), of os w] launch_cleanup [OF assms(1) new(2,3)] assms(1) by simp_all
  then show "b \<Longrightarrow> worker_good p" by (simp add: worker_good_def)
  show "\<not> b \<Longrightarrow> process_ok p \<and> cleanup_ok p \<and> clear p"
    using p assms(2) by (auto simp: clear_def cleanup_ok_def process_broken_def)
qed

lemma install_keeps:
  assumes ok: "owner_ok s" and fd: "ow_fd s \<ge> 0" and active: "ow_active s" "ow_operation s = 0"
    and clear: "\<not> ow_fault s" "ow_process s = None" and p: "worker_good p" and m: "ms_operation m \<noteq> 0"
  shows "owner_keeps s (install_worker p m now s)"
proof -
  let ?t = "s\<lparr>ow_operation := ms_operation m, ow_operation_session := ow_epoch s,
    ow_operation_request := ms_request m, ow_amount := ms_amount m, ow_operation_handed_off := False,
    ow_operation_discarded := False, ow_process := Some p, ow_launches := ow_launches s + 1\<rparr>"
  have idle: "\<not> ow_result_ready s"
    using ok active by (auto simp: owner_ok_def operation_ok_def)
  let ?m = "(reply KAccepted (ow_epoch s) (ms_request m))\<lparr>ms_operation := ms_operation m, ms_amount := ms_amount m\<rparr>"
  let ?u = "queue_message ?m now ?t"
  have "worker_ok ?u" using ok p by (simp add: owner_ok_def worker_ok_def queue_message_def)
  moreover have "session_ok ?u" using ok fd by (simp add: owner_ok_def session_ok_def queue_message_def)
  moreover have "operation_ok ?u" using idle active m by (simp add: operation_ok_def queue_message_def)
  ultimately have "owner_ok ?u" by (simp only: owner_ok_def simp_thms)
  moreover have "owner_moves (owner_view s) (owner_view ?u)"
    using fd active clear idle m by (simp add: owner_view_def phase_of_def queue_message_def move_launch)
  ultimately show ?thesis by (intro owner_keeps_move) (simp_all add: install_worker_def)
qed

lemma wp_submit_operation:
  assumes ok: "owner_ok s" and fd: "ow_fd s \<ge> 0" and active: "ow_active s" "ow_operation s = 0"
    and clear: "\<not> ow_fault s" "ow_process s = None" and m: "ms_operation m \<noteq> 0"
  shows "wp (submit_operation env m now) (\<lambda>_. owner_keeps s) s"
proof -
  obtain b p w where launched: "launch (oe_os env) (make_process (ow_worker s) (ms_amount m) (ow_stop_grace_ms s), on_world s) = (b, p, w)"
    by (cases "launch (oe_os env) (make_process (ow_worker s) (ms_amount m) (ow_stop_grace_ms s), on_world s)") auto
  define u where "u = s\<lparr>on_world := w, ow_last_request := ms_request m, ow_last_operation := ms_operation m,
    ow_last_observation := observation p\<rparr>"
  have idle: "\<not> ow_result_ready s" using ok active by (auto simp: owner_ok_def operation_ok_def)
  have u_fields: "ow_fd u = ow_fd s" "ow_active u" "ow_operation u = 0" "\<not> ow_fault u" "ow_process u = None"
    using active clear by (simp_all add: u_def)
  have "worker_ok u" "session_ok u" using ok by (simp_all add: u_def owner_ok_def worker_ok_def session_ok_def)
  moreover have "operation_ok u" using active clear idle by (simp add: u_def operation_ok_def)
  ultimately have u: "owner_ok u" by (simp only: owner_ok_def simp_thms)
  have same: "owner_keeps s u"
    by (rule owner_keeps_same [OF u]) (simp add: u_def owner_view_def phase_of_def)
  have broken: "wp (fail_session env now) (\<lambda>_. wp (changes (destroy_process (oe_os env) p)) (\<lambda>_. owner_keeps s)) u"
  proof (rule wp_fail_session, unfold wp_changes)
    fix t
    assume t: "disconnected u t" "ow_fault t"
    have "owner_ok t" by (rule disconnected_ok [OF t(1) u])
    from destroy_faulted [OF this t(2)] have "owner_keeps t (destroy_process (oe_os env) p t)"
      by (intro owner_keeps_same)
    then show "owner_keeps s (destroy_process (oe_os env) p t)"
      by (blast intro: owner.kept_trans same disconnected_keeps t)
  qed
  have rejected: "owner_keeps s (destroy_process (oe_os env) p (reject_operation m now u))"
    if "\<not> process_broken p" "\<not> b"
  proof -
    from launched_candidate(2) [OF launched that] obtain v
      where v: "destroy_process (oe_os env) p (reject_operation m now u) = (reject_operation m now u)\<lparr>on_world := v\<rparr>"
      using destroy_clear [of p "oe_os env" "reject_operation m now u"] by blast
    have "owner_ok (reject_operation m now u)" "owner_view (reject_operation m now u) = owner_view u"
      unfolding reject_operation_def by (rule queue_message_ok [OF u]; simp add: u_fields fd)+
    then have "owner_keeps u ((reject_operation m now u)\<lparr>on_world := v\<rparr>)" by (intro owner_keeps_same) simp_all
    then show ?thesis unfolding v by (rule owner.kept_trans [OF same])
  qed
  have installed: "owner_keeps s (install_worker p m now u)" if "\<not> process_broken p" "b"
    by (rule owner.kept_trans [OF same])
      (rule install_keeps [OF u _ u_fields(2-5) launched_candidate(1) [OF launched that] m], simp add: u_fields fd)
  show ?thesis
    using broken rejected installed u_fields(5)
    by (simp add: submit_operation_def wp_rules launched u_def [symmetric] drop_process_def)
qed

lemma wp_handle_message:
  assumes ok: "owner_ok s" and fd: "ow_fd s \<ge> 0"
  shows "wp (handle_message env m now) (\<lambda>_. owner_keeps s) s"
proof -
  have ended: "wp (disconnect env now) (\<lambda>_. owner_keeps s) (s\<lparr>on_world := w\<rparr>)" for w
    by (rule wp_disconnect) (rule owner.kept_trans [OF _ disconnected_keeps], simp_all add: owner_keeps_def)
  have ended_now: "wp (disconnect env now) (\<lambda>_. owner_keeps s) s" by (rule keepsD [OF keeps_disconnect])
  have world: "owner_keeps (s\<lparr>on_world := w\<rparr>) t \<Longrightarrow> owner_keeps s t" for w t
    by (simp add: owner_keeps_def)
  have activated: "wp (owner_clear env \<bind> (\<lambda>clear. if clear then changes (activate_session m now) else disconnect env now))
      (\<lambda>_. owner_keeps s) s" if "may_activate m now s"
  proof (rule wp_clear_then [OF ok])
    fix w
    assume clear: "\<not> ow_fault s" "ow_process s = None"
    have "owner_keeps (s\<lparr>on_world := w\<rparr>) (activate_session m now (s\<lparr>on_world := w\<rparr>))"
      by (rule activate_keeps) (use ok fd clear that in \<open>simp_all add: may_activate_def\<close>)
    then show "wp (if True then changes (activate_session m now) else disconnect env now)
        (\<lambda>_. owner_keeps s) (s\<lparr>on_world := w\<rparr>)"
      by (simp add: wp_changes world)
  qed (simp add: ended)
  have submitted: "wp (owner_clear env \<bind> (\<lambda>clear. if clear then submit_operation env m now else disconnect env now))
      (\<lambda>_. owner_keeps s) s" if sub: "may_submit m s"
  proof (rule wp_clear_then [OF ok])
    fix w
    assume clear: "\<not> ow_fault s" "ow_process s = None"
    have "ms_operation m \<noteq> 0" using sub by (auto simp: may_submit_def)
    then have "wp (submit_operation env m now) (\<lambda>_. owner_keeps (s\<lparr>on_world := w\<rparr>)) (s\<lparr>on_world := w\<rparr>)"
      by (intro wp_submit_operation) (use ok fd clear sub in \<open>simp_all add: may_submit_def\<close>)
    then have "wp (submit_operation env m now) (\<lambda>_. owner_keeps s) (s\<lparr>on_world := w\<rparr>)"
      by (rule wp_mono) (rule world)
    then show "wp (if True then submit_operation env m now else disconnect env now)
        (\<lambda>_. owner_keeps s) (s\<lparr>on_world := w\<rparr>)"
      by simp
  qed (simp add: ended)
  show ?thesis
    using activated submitted ended_now wp_answer_query [OF ok fd, of env m now]
    by (simp add: handle_message_def wp_bind wp_reads)
qed

subsection \<open>The public members\<close>

lemma wp_owner_receive:
  assumes ok: "owner_ok s" and fd: "ow_fd s \<ge> 0"
  shows "wp (owner_receive env now) (\<lambda>_. owner_keeps s) s"
proof -
  obtain r x w where received: "receive_message (oe_sockets env) (ow_fd s) (on_world s) = ((r, x), w)"
    by (cases "receive_message (oe_sockets env) (ow_fd s) (on_world s)") auto
  let ?t = "s\<lparr>on_world := w\<rparr>"
  have world: "owner_keeps s ?t" by (simp add: owner_keeps_def)
  have "wp (handle_message env (the x) now) (\<lambda>_. owner_keeps ?t) ?t"
    by (rule wp_handle_message) (simp_all add: ok fd)
  then have "wp (handle_message env (the x) now) (\<lambda>_. owner_keeps s) ?t"
    by (rule wp_mono) (rule owner.kept_trans [OF world])
  moreover have "wp (disconnect env now) (\<lambda>_. owner_keeps s) ?t"
    by (rule wp_disconnect) (rule owner.kept_trans [OF world disconnected_keeps])
  ultimately show ?thesis
    using received world by (cases r) (simp_all add: owner_receive_def wp_bind wp_reads wp_owner_system wp_skip)
qed

lemma keeps_serve_session: "keeps owner_keeps (serve_session env now)"
proof (rule keepsI)
  fix s :: "'a owning"
  have queued: "keeps owner_keeps (changes (queue_result now))"
    by (rule keepsI) (simp add: wp_changes queue_result_keeps)
  have receive: "wp (owner_receive env now) (\<lambda>_. owner_keeps t) t" if "ow_fd t \<ge> 0" for t
    using wp_owner_receive [of t env now] that by (cases "owner_ok t") (simp_all add: wp_run owner_keeps_def)
  have "wp (changes (queue_result now) \<bind> (\<lambda>_. reads ow_has_pending \<bind>
      (\<lambda>has_pending. on_condition (\<not> has_pending) (owner_receive env now)))) (\<lambda>_. owner_keeps t) t"
    if fd: "ow_fd t \<ge> 0" for t
  proof (rule owner.wp_then [where P = "\<lambda>_ u. ow_fd u \<ge> 0"])
    show "wp (changes (queue_result now)) (\<lambda>_ u. owner_keeps t u \<and> ow_fd u \<ge> 0) t"
      using fd by (simp add: wp_changes queue_result_keeps) (simp add: queue_result_def queue_message_def)
  qed (simp add: wp_bind wp_reads wp_on_condition receive owner.kept_refl)
  then have serve: "keeps owner_keeps (reads ow_fd \<bind> (\<lambda>fd. on_condition (fd \<ge> 0)
      (changes (queue_result now) \<bind> (\<lambda>_. reads ow_has_pending \<bind>
        (\<lambda>has_pending. on_condition (\<not> has_pending) (owner_receive env now))))))"
    by (intro keepsI) (simp only: wp_bind wp_reads wp_on_condition, simp add: owner.kept_refl)
  show "wp (serve_session env now) (\<lambda>_. owner_keeps s) s"
    unfolding serve_session_def
    by (rule keepsD) (intro owner.keeps_bind queued keeps_flush_pending serve)
qed

lemma keeps_accept_time: "keeps owner_keeps (accept_time env now)"
proof (rule keepsI)
  fix s :: "'a owning"
  have "operation_result (s\<lparr>ow_last_now := now, ow_clock_seen := True\<rparr>) = operation_result s"
    by (simp add: operation_result_def)
  then have "owner_ok (s\<lparr>ow_last_now := now, ow_clock_seen := True\<rparr>) = owner_ok s"
    by (simp add: owner_ok_def worker_ok_def operation_ok_def session_ok_def)
  then have "owner_keeps s (s\<lparr>ow_last_now := now, ow_clock_seen := True\<rparr>)"
    by (simp add: owner_keeps_def owner_view_def phase_of_def)
  moreover have "wp (fail_session env t) (\<lambda>_. wp (answer t) (\<lambda>_. owner_keeps s)) s" for t
    by (rule wp_mono [OF keepsD [OF keeps_fail_session]]) (simp add: wp_answer)
  ultimately show "wp (accept_time env now) (\<lambda>_. owner_keeps s) s"
    by (simp add: accept_time_def wp_rules)
qed

lemma keeps_owner_poll:
  assumes "reads_bounded (oe_os env)"
  shows "keeps owner_keeps (owner_poll env now)"
  unfolding owner_poll_def
  by (intro owner.keeps_bind owner.keeps_reads owner.keeps_on_condition keeps_accept_time
      keeps_observe_worker [OF assms] keeps_serve_session)

lemma keeps_owner_clear: "keeps owner_keeps (owner_clear env)"
proof (rule keepsI, rule wp_mono [OF wp_owner_clear])
  fix s t :: "'a owning" and b
  assume "\<exists>w. t = s\<lparr>on_world := w\<rparr> \<and> (b \<longrightarrow> \<not> ow_fault s \<and> (\<forall>p. ow_process s = Some p \<longrightarrow> process_clear p))"
  then show "owner_keeps s t" by (auto simp: owner_keeps_def)
qed

lemma open_session_keeps:
  assumes free: "\<not> session_refused now s" and fd: "fd \<ge> 0"
  shows "owner_keeps s (open_session fd now s)"
proof (cases "owner_ok s")
  case ok: True
  let ?t = "open_session fd now s"
  have s: "ow_fd s < 0" "\<not> ow_fault s" "ow_epoch s \<noteq> u64_max" using free by (auto simp: session_refused_def)
  have idle: "ow_operation s = 0" "\<not> ow_result_ready s"
    using ok s(1) by (auto simp: owner_ok_def operation_ok_def session_ok_def)
  have "worker_ok ?t" using ok by (simp add: owner_ok_def worker_ok_def open_session_def)
  moreover have "operation_ok ?t" using idle by (simp add: operation_ok_def open_session_def)
  moreover have "session_ok ?t" using s fd by (simp add: session_ok_def open_session_def)
  ultimately have "owner_ok ?t" by (simp only: owner_ok_def simp_thms)
  moreover have "owner_moves (owner_view s) (owner_view ?t)"
    using s fd by (simp add: owner_view_def phase_of_def open_session_def move_attach)
  ultimately show ?thesis by (rule owner_keeps_move)
qed (simp add: owner_keeps_def)

lemma keeps_refuse_session: "keeps owner_keeps (refuse_session env now)"
  unfolding refuse_session_def by (intro owner.keeps_intros keeps_fail_session)

lemma keeps_attach_session: "keeps owner_keeps (attach_session env fd now)"
proof (rule keepsI)
  fix s :: "'a owning"
  have refused: "wp (refuse_session env now) (\<lambda>_. owner_keeps s) t" if "owner_keeps s t" for t
    by (rule wp_mono [OF keepsD [OF keeps_refuse_session]]) (rule owner.kept_trans [OF that])
  have world: "owner_keeps s (s\<lparr>on_world := w\<rparr>)" for w by (simp add: owner_keeps_def)
  have opened: "owner_keeps s (open_session fd now (s\<lparr>on_world := w\<rparr>))"
    if "\<not> session_refused now s" "fd \<ge> 0" for w
    by (rule owner.kept_trans [OF world open_session_keeps])
      (use that in \<open>simp_all add: session_refused_def clock_backwards_def\<close>)
  show "wp (attach_session env fd now) (\<lambda>_. owner_keeps s) s"
  proof (cases "session_refused now s")
    case True
    with refused [of s] show ?thesis
      by (simp add: attach_session_def wp_bind wp_reads owner.kept_refl)
  next
    case False
    obtain b w where endpoint: "is_socketpair_endpoint (oe_sockets env) fd (on_world s) = (b, w)"
      by (cases "is_socketpair_endpoint (oe_sockets env) fd (on_world s)")
    obtain c v where launchable: "can_launch (oe_os env) (ow_worker s) w = (c, v)"
      by (cases "can_launch (oe_os env) (ow_worker s) w")
    obtain d u where protected: "protect_descriptor (oe_sockets env) fd v = (d, u)"
      by (cases "protect_descriptor (oe_sockets env) fd v")
    have "fd \<ge> 0" if b using endpoint that by (auto simp: is_socketpair_endpoint_def split: if_splits)
    with False opened refused world show ?thesis
      by (cases b; cases c; cases d)
        (simp_all add: attach_session_def wp_bind wp_reads wp_owner_system endpoint launchable protected wp_answer wp_changes)
  qed
qed

subsection \<open>The machine\<close>

lemma keeps_owner_member:
  assumes "reads_bounded (oe_os env)"
  shows "keeps owner_keeps (owner_member env c)"
  by (cases c) (simp_all add: owner.keeps_bind owner.keeps_answer keeps_attach_session keeps_owner_clear keeps_owner_poll [OF assms])

lemma owner_step_keeps:
  assumes "reads_bounded (oe_os env)" and "owner_ok s"
  shows "owner_ok (fst (owner_step env s c))"
    and "owner_moves\<^sup>*\<^sup>* (owner_view s) (owner_view (fst (owner_step env s c)))"
  using keeps_run [OF keeps_owner_member [OF assms(1), of c], of s] assms(2)
  by (simp_all add: owner_keeps_def owner_step_def)

lemma owner_initial_ok:
  assumes "owner_initial s"
  shows "owner_ok s" "owner_view s = (False, 1, Detached, False)"
proof -
  obtain worker grace where "owner.truncate s = make_owner worker grace" "\<not> on_aborted s" "\<not> on_killed s"
    using assms by (auto simp: owner_initial_def)
  then have "ow_process s = None" "ow_operation s = 0" "\<not> ow_active s" "\<not> ow_result_ready s"
    "\<not> ow_has_pending s" "ow_clear_token s = 0" "ow_fd s < 0" "\<not> ow_fault s" "ow_epoch s = 1"
    "\<not> on_aborted s" "\<not> on_killed s"
    by (simp_all add: owner.truncate_def make_owner_def)
  then show "owner_ok s" "owner_view s = (False, 1, Detached, False)"
    by (simp_all add: owner_ok_defs owner_view_def phase_of_def)
qed

lemma owner_reachable_ok:
  assumes "owner_reachable env s" and "reads_bounded (oe_os env)"
  shows "owner_ok s"
  using assms(1) by (induction rule: reachable.induct) (simp_all add: owner_initial_ok owner_step_keeps assms(2))

end
