(* ===== verification/Recovery_Owner_Properties.thy ===== *)
theory Recovery_Owner_Properties
  imports Recovery_Owner_Session Compute_Process_Machine
begin

text \<open>
  A concrete owner: the operating system of the process demonstration beside a socket with
  a script of packets still to be received and the packets sent so far.
\<close>

type_synonym owner_world = "u8 list list \<times> u8 list list \<times> u8 list list"

definition on_pipe :: "(u8 list list \<Rightarrow> 'a \<times> u8 list list) \<Rightarrow> owner_world \<Rightarrow> 'a \<times> owner_world" where
  "on_pipe f w = (case f (fst w) of (a, chunks) \<Rightarrow> (a, chunks, snd w))"

definition owner_os :: "owner_world os" where
  "owner_os =
    \<lparr>os_stat = \<lambda>x. on_pipe (os_stat demo_os x), os_access_x = \<lambda>x. on_pipe (os_access_x demo_os x),
     os_sigchld = on_pipe (os_sigchld demo_os), os_socketpair = on_pipe (os_socketpair demo_os),
     os_pipe = on_pipe (os_pipe demo_os), os_dupfd = \<lambda>x y. on_pipe (os_dupfd demo_os x y),
     os_getfl = \<lambda>x. on_pipe (os_getfl demo_os x), os_setfl = \<lambda>x y. on_pipe (os_setfl demo_os x y),
     os_close = \<lambda>x. on_pipe (os_close demo_os x), os_actions_init = on_pipe (os_actions_init demo_os),
     os_adddup2 = \<lambda>x y. on_pipe (os_adddup2 demo_os x y), os_spawn = \<lambda>x y z. on_pipe (os_spawn demo_os x y z),
     os_send = \<lambda>x y. on_pipe (os_send demo_os x y), os_read = \<lambda>x y. on_pipe (os_read demo_os x y),
     os_waitpid = \<lambda>x. on_pipe (os_waitpid demo_os x), os_wait = \<lambda>x. on_pipe (os_wait demo_os x),
     os_kill = \<lambda>x. on_pipe (os_kill demo_os x)\<rparr>"

lemma owner_os_bounded: "reads_bounded owner_os"
  by (auto simp: reads_bounded_def owner_os_def on_pipe_def split: prod.splits sum.splits
      dest: reads_boundedD [OF demo_os_bounded])

definition script_sockets :: "owner_world sockets" where
  "script_sockets =
    \<lparr>so_type = \<lambda>_ w. (Inr SOCK_SEQPACKET, w), so_family = \<lambda>_ w. (Inr AF_UNIX, w),
     so_peer = \<lambda>_ w. (Inr (), w), so_getfd = \<lambda>_ w. (Inr 0, w), so_setfd = \<lambda>_ _ w. (Inr (), w),
     so_send = \<lambda>_ bs w. (case w of (chunks, inbox, sent) \<Rightarrow> (Inr (length bs), chunks, inbox, sent @ [bs])),
     so_recv = \<lambda>_ n w. (case w of (chunks, inbox, sent) \<Rightarrow>
       (case inbox of [] \<Rightarrow> (Inl EAGAIN, w) | p # ps \<Rightarrow> (Inr (length p, take n p), chunks, ps, sent))),
     so_close = \<lambda>_ w. (Inr (), w)\<rparr>"

definition script_env :: "owner_world owner_env" where
  "script_env = \<lparr>oe_os = owner_os, oe_sockets = script_sockets\<rparr>"

text \<open>The host's side of one session: it asks, activates and submits five iterations.\<close>

definition host_script :: "message list" where
  "host_script =
    [reply KQuery 2 1, (reply KActivate 2 2)\<lparr>ms_value := 1\<rparr>,
     (reply KSubmit 2 3)\<lparr>ms_operation := 1, ms_amount := 5\<rparr>]"

definition demo_owner :: "owner_world owning" where
  "demo_owner = owner.extend (make_owner ''/worker'' 100)
     (owning.fields (demo_chunks, map encode_message host_script, []) False False)"

lemma demo_owner_initial: "owner_initial demo_owner"
proof -
  have "owner.truncate demo_owner = make_owner ''/worker'' 100"
    by (simp add: demo_owner_def owner.truncate_def owner.extend_def make_owner_def owning.fields_def)
  moreover have "\<not> on_aborted demo_owner" "\<not> on_killed demo_owner"
    by (simp_all add: demo_owner_def owner.extend_def owning.fields_def)
  ultimately show ?thesis by (auto simp: owner_initial_def)
qed

definition demo_owner_calls :: "owner_call list" where
  "demo_owner_calls = [OcAttach 5 0, OcPoll 1, OcPoll 2, OcPoll 3, OcPoll 4]"

definition demo_owner_end :: "owner_world owning" where
  "demo_owner_end = run (owner_step script_env) demo_owner demo_owner_calls"

definition owner_summary :: "'w owning \<Rightarrow> session_view \<times> u64 \<times> u64 \<times> u64 \<times> bool" where
  "owner_summary s = (owner_view s, ms_flags (ow_result s), ms_value (ow_result s), ow_launches s, ow_result_ready s)"

lemma demo_owner_result: "owner_summary demo_owner_end = ((False, 2, Finished 1, False), kSucceeded, 30, 1, True)"
  by code_simp

text \<open>The clock of the next poll is behind: the owner faults.\<close>

lemma demo_owner_fault:
  "owner_summary (run (owner_step script_env) demo_owner_end [OcPoll 3]) = ((True, 2, Detached, False), kSucceeded, 30, 1, False)"
  by code_simp

lemma demo_owner_reachable: "owner_reachable script_env demo_owner_end"
  unfolding demo_owner_end_def by (rule reachable_run) (rule reachable_init, rule demo_owner_initial)

text \<open>The properties of the recovery owner.\<close>

subsection \<open>Runs\<close>

lemma owner_run_moves:
  assumes "reads_bounded (oe_os env)" and "owner_ok s"
  shows "owner_moves\<^sup>*\<^sup>* (owner_view s) (owner_view (run (owner_step env) s cs)) \<and>
    owner_ok (run (owner_step env) s cs)"
  using assms(2)
proof (induction cs arbitrary: s)
  case (Cons c cs)
  note step = owner_step_keeps [OF assms(1) Cons.prems, of c]
  from rtranclp_trans [OF step(2)] Cons.IH [OF step(1)] show ?case by simp
qed simp

text \<open>
  Once faulted the abstract machine only loses what it has: its session, then its worker.
\<close>

lemma fault_moves:
  assumes "owner_moves\<^sup>*\<^sup>* v v'" and "v = (True, e, Detached, b)"
  shows "\<exists>b'. v' = (True, e, Detached, b') \<and> (b' \<longrightarrow> b)"
  using assms by (induction rule: rtranclp_induct) (auto elim!: owner_moves.cases)

lemma faulted_view:
  assumes "owner_ok s" and "ow_fault s"
  shows "owner_view s = (True, ow_epoch s, Detached, ow_process s \<noteq> None)"
  using assms by (simp add: owner_view_def phase_of_def owner_ok_def session_ok_def)

lemma view_faulted: "owner_view t = (True, e, Detached, b) \<Longrightarrow> ow_fault t \<and> ow_epoch t = e \<and> ow_fd t < 0 \<and> (ow_process t \<noteq> None) = b"
  by (simp add: owner_view_def phase_of_def split: if_split_asm)

subsection \<open>The properties\<close>



text \<open>
  A fault is final: whatever is called afterwards, the owner stays faulted, serves no
  session, begins none and starts no worker.
\<close>

theorem owner_fault_is_final:
  assumes "owner_reachable env s" and "reads_bounded (oe_os env)" and "ow_fault s"
  shows "ow_fault (run (owner_step env) s cs) \<and> ow_fd (run (owner_step env) s cs) < 0 \<and>
    ow_epoch (run (owner_step env) s cs) = ow_epoch s \<and>
    (ow_process s = None \<longrightarrow> ow_process (run (owner_step env) s cs) = None)"
proof -
  have ok: "owner_ok s" by (rule owner_reachable_ok [OF assms(1,2)])
  from fault_moves [OF conjunct1 [OF owner_run_moves [OF assms(2) ok]] faulted_view [OF ok assms(3)], of cs]
  obtain b where "owner_view (run (owner_step env) s cs) = (True, ow_epoch s, Detached, b)"
    and "b \<longrightarrow> ow_process s \<noteq> None" by blast
  then show ?thesis by (auto dest: view_faulted)
qed

theorem owner_fault_is_final_witness:
  "ow_fault (run (owner_step script_env) (run (owner_step script_env) demo_owner_end [OcPoll 3]) [OcAttach 6 9, OcPoll 10]) \<and>
   ow_epoch (run (owner_step script_env) (run (owner_step script_env) demo_owner_end [OcPoll 3]) [OcAttach 6 9, OcPoll 10]) = 2"
proof -
  let ?s = "run (owner_step script_env) demo_owner_end [OcPoll 3]"
  have "owner_reachable script_env ?s" by (rule reachable_run [OF demo_owner_reachable])
  moreover have "ow_fault ?s" "ow_epoch ?s = 2"
    using demo_owner_fault by (simp_all add: owner_summary_def owner_view_def)
  moreover have "reads_bounded (oe_os script_env)" by (simp add: script_env_def owner_os_bounded)
  ultimately show ?thesis
    using owner_fault_is_final [of script_env ?s "[OcAttach 6 9, OcPoll 10]"] by simp
qed

text \<open>
  An owner that tells its caller that the domain is clear holds no worker, and has
  neither killed one nor left one behind a failed clean-up.
\<close>

theorem clear_owner_has_no_worker:
  assumes "owner_reachable env s" and "reads_bounded (oe_os env)"
    and "snd (owner_step env s OcClear) = OaFlag True"
  shows "ow_process s = None \<and> \<not> ow_fault s \<and> \<not> on_killed s \<and> \<not> on_aborted s"
proof -
  have ok: "owner_ok s" by (rule owner_reachable_ok [OF assms(1,2)])
  have member: "wp (owner_clear env) (\<lambda>b t. b \<longrightarrow> \<not> ow_fault s \<and> ow_process s = None) s"
    using wp_clear_then [OF ok, of answer "\<lambda>b t. b \<longrightarrow> \<not> ow_fault s \<and> ow_process s = None" env]
    by (simp add: wp_bind wp_answer wp_run [of "answer _"]) (simp add: wp_run answer_def)
  have "fst (run_state (owner_clear env) s)"
    using assms(3) by (simp add: owner_step_def answer_def split: prod.splits)
  with member have "\<not> ow_fault s" "ow_process s = None" by (simp_all add: wp_run)
  with ok show ?thesis by (auto simp: owner_ok_def worker_ok_def)
qed

text \<open>
  A result that is ready to be sent is about the operation of the current session, and
  says what the worker's end was: success only for a worker that exited with 0 after its
  report of all iterations, with that report's value, and otherwise no value.
\<close>

theorem owner_results_are_the_workers:
  assumes "owner_reachable env s" and "reads_bounded (oe_os env)" and "ow_result_ready s"
  shows "ms_session (ow_result s) = ow_epoch s \<and> ms_operation (ow_result s) = ow_operation s \<and>
    ms_amount (ow_result s) = ow_amount s \<and> ow_process s = None \<and>
    (ms_flags (ow_result s) = kSucceeded \<longleftrightarrow>
       (\<exists>status. po_exit_status (ow_last_observation s) = Some status \<and> WIFEXITED status \<and>
          WEXITSTATUS status = 0 \<and> po_terminal (ow_last_observation s) = TmCompleted \<and>
          po_terminal_iterations (ow_last_observation s) = ow_amount s)) \<and>
    ms_value (ow_result s) =
      (if ms_flags (ow_result s) = kSucceeded then po_terminal_value (ow_last_observation s) else 0)"
proof -
  have ok: "owner_ok s" by (rule owner_reachable_ok [OF assms(1,2)])
  note session = ready_session [OF ok assms(3)]
  have result: "ow_result s = operation_result s" "ow_process s = None"
    using ok assms(3) session(4) by (auto simp: owner_ok_def operation_ok_def)
  have flags: "ms_flags (ow_result s) = fst (outcome_flags (ow_last_observation s) (ow_amount s))"
    "ms_value (ow_result s) = snd (outcome_flags (ow_last_observation s) (ow_amount s))"
    by (simp_all add: result operation_result_def)
  show ?thesis
    unfolding flags using session(2) result
    by (auto simp: outcome_flags_def outcome_defs split: option.splits)
qed

theorem owner_results_are_the_workers_witness:
  "ow_result_ready demo_owner_end \<and> ms_flags (ow_result demo_owner_end) = kSucceeded \<and>
   ms_value (ow_result demo_owner_end) = po_terminal_value (ow_last_observation demo_owner_end) \<and>
   ms_value (ow_result demo_owner_end) = 30"
proof -
  have "ow_result_ready demo_owner_end" "ms_flags (ow_result demo_owner_end) = kSucceeded"
    "ms_value (ow_result demo_owner_end) = 30"
    using demo_owner_result by (simp_all add: owner_summary_def)
  moreover have "reads_bounded (oe_os script_env)" by (simp add: script_env_def owner_os_bounded)
  ultimately show ?thesis
    using owner_results_are_the_workers [OF demo_owner_reachable] by simp
qed

text \<open>An owner that is waiting for its first host is clear, on a system that can launch.\<close>

lemma demo_owner_clear: "snd (owner_step script_env demo_owner OcClear) = OaFlag True"
  by code_simp

theorem clear_owner_has_no_worker_witness:
  "snd (owner_step script_env demo_owner OcClear) = OaFlag True \<and> ow_process demo_owner = None \<and> \<not> on_killed demo_owner"
proof -
  have "owner_reachable script_env demo_owner" by (rule reachable_init) (rule demo_owner_initial)
  moreover have "reads_bounded (oe_os script_env)" by (simp add: script_env_def owner_os_bounded)
  ultimately show ?thesis
    using clear_owner_has_no_worker [OF _ _ demo_owner_clear] demo_owner_clear by simp
qed

end
