(* ===== verification/Motion_Permission.thy ===== *)
theory Motion_Permission
  imports Transition_System "HOL-Library.Char_ord"
begin

text \<open>
  \<open>integrations/ros2/simulation/native_drive/motion_permission.hpp\<close>: the lease under which
  the simulated drive may move. A permission is opened for one scope, generation and
  operation, lives for a fixed time after the stamp of its last renewal, and is checked
  against the clock immediately before every wheel write.
\<close>

subsection \<open>Identities\<close>

record MotionPermitIdentity =
  mi_scope_id :: string
  mi_generation :: u64
  mi_operation_id :: u64

definition same_identity :: "MotionPermitIdentity \<Rightarrow> MotionPermitIdentity \<Rightarrow> bool" where
  "same_identity left right \<longleftrightarrow>
    mi_scope_id left = mi_scope_id right \<and> mi_generation left = mi_generation right \<and>
    mi_operation_id left = mi_operation_id right"

lemma same_identity_iff [simp]: "same_identity left right \<longleftrightarrow> left = right"
  by (cases left; cases right) (simp add: same_identity_def)

text \<open>Thirty-two lower-case hexadecimal digits, not all of them zero.\<close>

definition hex_digit :: "char \<Rightarrow> bool" where
  "hex_digit c \<longleftrightarrow>
    (CHR ''0'' \<le> c \<and> c \<le> CHR ''9'') \<or> (CHR ''a'' \<le> c \<and> c \<le> CHR ''f'')"

definition valid_scope :: "string \<Rightarrow> bool" where
  "valid_scope scope \<longleftrightarrow>
    length scope = 32 \<and> scope \<noteq> replicate 32 (CHR ''0'') \<and> list_all hex_digit scope"

definition valid_identity :: "MotionPermitIdentity \<Rightarrow> bool" where
  "valid_identity i \<longleftrightarrow> mi_generation i > 0 \<and> mi_operation_id i > 0 \<and> valid_scope (mi_scope_id i)"

subsection \<open>The permission\<close>

datatype PermissionState = PsBootClosed | PsActive | PsNormalClosed | PsFaultClosed

record permission =
  mp_lifetime :: u64
  mp_identity :: MotionPermitIdentity
  mp_state :: PermissionState
  mp_opened :: u64
  mp_issued :: u64
  mp_deadline :: u64
  mp_observed :: u64

definition no_identity :: MotionPermitIdentity where
  "no_identity = \<lparr>mi_scope_id = [], mi_generation = 0, mi_operation_id = 0\<rparr>"

text \<open>The constructor throws, \<open>None\<close>, on a lifetime of zero.\<close>

definition make_permission :: "u64 \<Rightarrow> permission option" where
  "make_permission lifetime =
    (if lifetime = 0 then None
     else Some \<lparr>mp_lifetime = lifetime, mp_identity = no_identity, mp_state = PsBootClosed,
       mp_opened = 0, mp_issued = 0, mp_deadline = 0, mp_observed = 0\<rparr>)"

definition valid_stamp :: "permission \<Rightarrow> u64 \<Rightarrow> u64 \<Rightarrow> bool" where
  "valid_stamp p issued now \<longleftrightarrow>
    issued > 0 \<and> issued \<le> now \<and> issued \<le> u64_max - mp_lifetime p \<and> now < issued + mp_lifetime p"

definition observe_permit_time :: "u64 \<Rightarrow> permission \<Rightarrow> permission" where
  "observe_permit_time now p =
    (let p = (if now < mp_observed p \<or> mp_state p = PsActive \<and> now \<ge> mp_deadline p
              then p\<lparr>mp_state := PsFaultClosed\<rparr> else p)
     in p\<lparr>mp_observed := now\<rparr>)"

definition permission_open ::
  "MotionPermitIdentity \<Rightarrow> u64 \<Rightarrow> u64 \<Rightarrow> u64 \<Rightarrow> bool \<Rightarrow> permission \<Rightarrow> permission \<times> bool" where
  "permission_open identity expected issued now prior_zero_applied p =
    (let p = observe_permit_time now p
     in if mp_state p = PsFaultClosed \<or> \<not> valid_identity identity \<or> \<not> valid_stamp p issued now \<or>
           expected = u64_max \<or> mi_generation identity \<noteq> expected + 1
        then (p, False)
        else if mp_state p = PsActive
        then (p, same_identity (mp_identity p) identity \<and> issued = mp_opened p)
        else if \<not> prior_zero_applied \<or> mi_generation (mp_identity p) \<noteq> expected \<or>
           mi_scope_id identity = mi_scope_id (mp_identity p) \<or>
           mi_operation_id identity = mi_operation_id (mp_identity p)
        then (p, False)
        else (p\<lparr>mp_identity := identity, mp_opened := issued, mp_issued := issued,
               mp_deadline := issued + mp_lifetime p, mp_state := PsActive\<rparr>, True))"

definition permission_renew ::
  "MotionPermitIdentity \<Rightarrow> u64 \<Rightarrow> u64 \<Rightarrow> permission \<Rightarrow> permission \<times> bool" where
  "permission_renew identity issued now p =
    (let p = observe_permit_time now p
     in if mp_state p \<noteq> PsActive \<or> \<not> same_identity (mp_identity p) identity \<or>
           issued \<le> mp_issued p \<or> \<not> valid_stamp p issued now
        then (p, False)
        else (p\<lparr>mp_issued := issued, mp_deadline := issued + mp_lifetime p\<rparr>, True))"

definition can_consume :: "MotionPermitIdentity \<Rightarrow> u64 \<Rightarrow> permission \<Rightarrow> permission \<times> bool" where
  "can_consume identity now p =
    (let p = observe_permit_time now p
     in (p, mp_state p = PsActive \<and> same_identity (mp_identity p) identity))"

definition permission_close :: "MotionPermitIdentity \<Rightarrow> u64 \<Rightarrow> permission \<Rightarrow> permission \<times> bool" where
  "permission_close identity now p =
    (let p = observe_permit_time now p
     in if \<not> same_identity (mp_identity p) identity \<or> mi_generation (mp_identity p) = 0
        then (p, False)
        else (if mp_state p = PsActive then p\<lparr>mp_state := PsNormalClosed\<rparr> else p, True))"

subsection \<open>Its calls, in any order\<close>

datatype permission_call =
    McOpen MotionPermitIdentity u64 u64 u64 bool
  | McRenew MotionPermitIdentity u64 u64
  | McConsume MotionPermitIdentity u64
  | McClose MotionPermitIdentity u64

fun permission_step :: "permission \<Rightarrow> permission_call \<Rightarrow> permission \<times> bool" where
  "permission_step p (McOpen i e t now z) = permission_open i e t now z p"
| "permission_step p (McRenew i t now) = permission_renew i t now p"
| "permission_step p (McConsume i now) = can_consume i now p"
| "permission_step p (McClose i now) = permission_close i now p"

fun call_now :: "permission_call \<Rightarrow> u64" where
  "call_now (McOpen i e t now z) = now"
| "call_now (McRenew i t now) = now"
| "call_now (McConsume i now) = now"
| "call_now (McClose i now) = now"

definition permission_initial :: "permission \<Rightarrow> bool" where
  "permission_initial p \<longleftrightarrow> (\<exists>lifetime. make_permission lifetime = Some p)"

abbreviation permission_reachable :: "permission \<Rightarrow> bool" where
  "permission_reachable \<equiv> reachable permission_step permission_initial"

subsection \<open>Invariant\<close>

text \<open>
  A permission is at boot exactly while its generation is zero and it has no fault; the
  deadline is the lifetime after the last stamp, without wrapping around; an active
  permission was before its deadline when the clock was last read.
\<close>

definition permission_ok :: "permission \<Rightarrow> bool" where
  "permission_ok p \<longleftrightarrow>
    mp_lifetime p \<noteq> 0 \<and>
    (mp_state p = PsBootClosed \<longrightarrow> mi_generation (mp_identity p) = 0) \<and>
    (mi_generation (mp_identity p) = 0 \<longrightarrow>
      mp_state p \<in> {PsBootClosed, PsFaultClosed} \<and> mp_identity p = no_identity) \<and>
    (mi_generation (mp_identity p) \<noteq> 0 \<longrightarrow>
      valid_identity (mp_identity p) \<and> mp_opened p > 0 \<and> mp_opened p \<le> mp_issued p \<and>
      mp_issued p \<le> u64_max - mp_lifetime p \<and> mp_deadline p = mp_issued p + mp_lifetime p) \<and>
    (mp_state p = PsActive \<longrightarrow> mp_issued p \<le> mp_observed p \<and> mp_observed p < mp_deadline p)"

lemma permission_initial_ok: "permission_initial p \<Longrightarrow> permission_ok p"
  by (auto simp: permission_initial_def make_permission_def permission_ok_def no_identity_def
      split: if_splits)

lemma observe_permit_time_fields [simp]:
  "mp_lifetime (observe_permit_time now p) = mp_lifetime p"
  "mp_identity (observe_permit_time now p) = mp_identity p"
  "mp_opened (observe_permit_time now p) = mp_opened p"
  "mp_issued (observe_permit_time now p) = mp_issued p"
  "mp_deadline (observe_permit_time now p) = mp_deadline p"
  "mp_observed (observe_permit_time now p) = now"
  by (simp_all add: observe_permit_time_def Let_def)

lemma observe_permit_time_state:
  "mp_state (observe_permit_time now p) =
    (if now < mp_observed p \<or> mp_state p = PsActive \<and> now \<ge> mp_deadline p then PsFaultClosed else mp_state p)"
  by (simp add: observe_permit_time_def Let_def)

lemma observe_permit_time_fault [simp]: "mp_state p = PsFaultClosed \<Longrightarrow> mp_state (observe_permit_time now p) = PsFaultClosed"
  by (simp add: observe_permit_time_state)

lemma observe_permit_time_active:
  "mp_state (observe_permit_time now p) = PsActive \<longleftrightarrow>
    mp_state p = PsActive \<and> mp_observed p \<le> now \<and> now < mp_deadline p"
  by (auto simp: observe_permit_time_state not_less not_le)

lemma observe_permit_time_ok: "permission_ok p \<Longrightarrow> permission_ok (observe_permit_time now p)"
  by (auto simp: permission_ok_def observe_permit_time_state not_less not_le)

lemma stamp_deadline:
  assumes "valid_stamp p issued now"
  shows "issued \<le> now" and "now < issued + mp_lifetime p" and "issued > 0" and "issued \<le> u64_max - mp_lifetime p"
  using assms by (simp_all add: valid_stamp_def)

text \<open>What each call leaves of the permission whose clock has been read.\<close>

lemma permission_open_cases:
  fixes p now
  defines "q \<equiv> observe_permit_time now p"
  obtains (refused) "permission_open i e t now z p = (q, False)"
  | (retried) "permission_open i e t now z p = (q, True)" "mp_state q = PsActive" "mp_identity q = i"
      "t = mp_opened q" "mi_generation i = e + 1"
  | (opened) "permission_open i e t now z p =
        (q\<lparr>mp_identity := i, mp_opened := t, mp_issued := t, mp_deadline := t + mp_lifetime q,
          mp_state := PsActive\<rparr>, True)"
      "mp_state q = PsBootClosed \<or> mp_state q = PsNormalClosed" "valid_identity i" "valid_stamp q t now"
      "e \<noteq> u64_max" "mi_generation i = e + 1" "z" "mi_generation (mp_identity q) = e"
      "mi_scope_id i \<noteq> mi_scope_id (mp_identity q)" "mi_operation_id i \<noteq> mi_operation_id (mp_identity q)"
proof -
  let ?bad = "mp_state q = PsFaultClosed \<or> \<not> valid_identity i \<or> \<not> valid_stamp q t now \<or>
      e = u64_max \<or> mi_generation i \<noteq> e + 1"
  let ?retry = "mp_identity q = i \<and> t = mp_opened q"
  let ?busy = "\<not> z \<or> mi_generation (mp_identity q) \<noteq> e \<or> mi_scope_id i = mi_scope_id (mp_identity q) \<or>
      mi_operation_id i = mi_operation_id (mp_identity q)"
  have eq: "permission_open i e t now z p =
      (if ?bad then (q, False) else if mp_state q = PsActive then (q, ?retry) else if ?busy then (q, False)
       else (q\<lparr>mp_identity := i, mp_opened := t, mp_issued := t, mp_deadline := t + mp_lifetime q,
         mp_state := PsActive\<rparr>, True))"
    unfolding permission_open_def Let_def q_def same_identity_iff by simp
  consider "?bad" | "\<not> ?bad" "mp_state q = PsActive" "\<not> ?retry" | "\<not> ?bad" "mp_state q = PsActive" "?retry"
    | "\<not> ?bad" "mp_state q \<noteq> PsActive" "?busy" | "\<not> ?bad" "mp_state q \<noteq> PsActive" "\<not> ?busy"
    by blast
  then show thesis
  proof cases
    case 1
    show thesis by (rule refused) (simp only: eq if_P [OF 1])
  next
    case 2
    show thesis by (rule refused) (simp only: eq if_not_P [OF 2(1)] if_P [OF 2(2)] 2(3))
  next
    case 3
    have "permission_open i e t now z p = (q, True)"
      unfolding eq if_not_P [OF 3(1)] if_P [OF 3(2)] using 3(3) by simp
    with 3 show thesis by (intro retried) simp_all
  next
    case 4
    show thesis by (rule refused) (simp only: eq if_not_P [OF 4(1)] if_not_P [OF 4(2)] if_P [OF 4(3)])
  next
    case 5
    then have "mp_state q = PsBootClosed \<or> mp_state q = PsNormalClosed" by (cases "mp_state q") auto
    with 5 show thesis
      by (intro opened) (simp_all only: eq if_not_P [OF 5(1)] if_not_P [OF 5(2)] if_not_P [OF 5(3)], simp_all)
  qed
qed

lemma permission_renew_cases:
  fixes p now
  defines "q \<equiv> observe_permit_time now p"
  obtains (refused) "permission_renew i t now p = (q, False)"
  | (renewed) "permission_renew i t now p = (q\<lparr>mp_issued := t, mp_deadline := t + mp_lifetime q\<rparr>, True)"
      "mp_state q = PsActive" "mp_identity q = i" "mp_issued q < t" "valid_stamp q t now"
proof (cases "mp_state q \<noteq> PsActive \<or> mp_identity q \<noteq> i \<or> t \<le> mp_issued q \<or> \<not> valid_stamp q t now")
  case True
  then show thesis by (intro refused) (auto simp: permission_renew_def Let_def q_def)
next
  case False
  then show thesis by (intro renewed) (auto simp: permission_renew_def Let_def q_def)
qed

lemma permission_close_cases:
  fixes p now
  defines "q \<equiv> observe_permit_time now p"
  obtains (refused) "permission_close i now p = (q, False)"
  | (closed) "permission_close i now p = (q\<lparr>mp_state := PsNormalClosed\<rparr>, True)" "mp_state q = PsActive"
      "mp_identity q = i" "mi_generation i \<noteq> 0"
  | (kept) "permission_close i now p = (q, True)" "mp_state q \<noteq> PsActive" "mp_identity q = i" "mi_generation i \<noteq> 0"
proof (cases "mp_identity q \<noteq> i \<or> mi_generation (mp_identity q) = 0")
  case True
  then show thesis by (intro refused) (auto simp: permission_close_def Let_def q_def)
next
  case False
  then show thesis
    by (cases "mp_state q = PsActive"; intro closed kept) (auto simp: permission_close_def Let_def q_def)
qed

lemma permission_step_ok:
  assumes "permission_ok p"
  shows "permission_ok (fst (permission_step p c))"
proof -
  note ok = observe_permit_time_ok [OF assms]
  show ?thesis
  proof (cases c)
    case (McOpen i e t now z)
    show ?thesis
    proof (cases rule: permission_open_cases [of i e t now z p])
      case opened
      with ok [of now] show ?thesis
        by (auto simp: McOpen permission_ok_def valid_stamp_def valid_identity_def)
    qed (use ok McOpen in simp_all)
  next
    case (McRenew i t now)
    show ?thesis
    proof (cases rule: permission_renew_cases [of i t now p])
      case renewed
      with ok [of now] show ?thesis by (auto simp: McRenew permission_ok_def valid_stamp_def)
    qed (use ok McRenew in simp_all)
  next
    case (McConsume i now)
    with ok show ?thesis by (simp add: can_consume_def Let_def)
  next
    case (McClose i now)
    show ?thesis
    proof (cases rule: permission_close_cases [of i now p])
      case closed
      with ok [of now] show ?thesis by (auto simp: McClose permission_ok_def)
    qed (use ok McClose in simp_all)
  qed
qed

interpretation permission_inv: inv_machine permission_step permission_ok
  by unfold_locales (rule permission_step_ok)

lemma permission_reachable_ok: "permission_reachable p \<Longrightarrow> permission_ok p"
  by (erule permission_inv.inv_reachable) (rule permission_initial_ok)

lemma step_lifetime [simp]: "mp_lifetime (fst (permission_step p c)) = mp_lifetime p"
  by (cases c)
    (auto simp: permission_open_def permission_renew_def permission_close_def can_consume_def Let_def)

lemma run_lifetime: "mp_lifetime (run permission_step p cs) = mp_lifetime p"
  by (induction cs arbitrary: p) simp_all

end
