(* ===== verification/Scoped_Drive.thy ===== *)
theory Scoped_Drive
  imports Motion_Permission Program
begin

text \<open>
  \<open>integrations/ros2/simulation/native_drive/scoped_diff_drive.cpp\<close>: the simulated
  differential drive that consumes motion commands. It has three modes, fixed at load: the
  plain drive with a one-shot seal, the generation mode with scoped commands, and the owner
  mode, whose every wheel write needs a current permission. A handler is a program over the
  drive's fields and the simulator; it runs under the drive's mutex, so that handlers and
  updates interleave as wholes. The floating-point operations and the simulator are
  arguments.
\<close>

subsection \<open>Floating point and the simulator\<close>

text \<open>\<open>fl_lit m k\<close> is the literal \<open>m / 10 ^ k\<close>.\<close>

record 'd floating =
  fl_lit :: "int \<Rightarrow> nat \<Rightarrow> 'd"
  fl_add :: "'d \<Rightarrow> 'd \<Rightarrow> 'd"
  fl_sub :: "'d \<Rightarrow> 'd \<Rightarrow> 'd"
  fl_mul :: "'d \<Rightarrow> 'd \<Rightarrow> 'd"
  fl_div :: "'d \<Rightarrow> 'd \<Rightarrow> 'd"
  fl_neg :: "'d \<Rightarrow> 'd"
  fl_abs :: "'d \<Rightarrow> 'd"
  fl_min :: "'d \<Rightarrow> 'd \<Rightarrow> 'd"
  fl_max :: "'d \<Rightarrow> 'd \<Rightarrow> 'd"
  fl_less :: "'d \<Rightarrow> 'd \<Rightarrow> bool"
  fl_leq :: "'d \<Rightarrow> 'd \<Rightarrow> bool"
  fl_eq :: "'d \<Rightarrow> 'd \<Rightarrow> bool"
  fl_finite :: "'d \<Rightarrow> bool"
  fl_sin :: "'d \<Rightarrow> 'd"
  fl_cos :: "'d \<Rightarrow> 'd"
  fl_sqrt :: "'d \<Rightarrow> 'd"

abbreviation fl_zero :: "('d, 'x) floating_scheme \<Rightarrow> 'd" where
  "fl_zero fl \<equiv> fl_lit fl 0 0"

abbreviation fl_two :: "('d, 'x) floating_scheme \<Rightarrow> 'd" where
  "fl_two fl \<equiv> fl_lit fl 2 0"

text \<open>\<open>gazebo::common::Time\<close>: two signed 32-bit fields.\<close>

record sim_time =
  st_sec :: u32
  st_nsec :: u32

definition sim_ns :: "sim_time \<Rightarrow> int" where
  "sim_ns t = sint (st_sec t) * 1000000000 + sint (st_nsec t)"

text \<open>The messages of the odometry.\<close>

type_synonym 'd point = "'d \<times> 'd \<times> 'd"
type_synonym 'd quaternion = "'d \<times> 'd \<times> 'd \<times> 'd"

record 'd odometry =
  od_position :: "'d point"
  od_orientation :: "'d quaternion"
  od_angular_z :: 'd
  od_linear_x :: 'd
  od_linear_y :: 'd
  od_pose_covariance :: "'d list"
  od_twist_covariance :: "'d list"
  od_frame :: string
  od_child :: string
  od_stamp :: sim_time

record 'd transform =
  tf_stamp :: sim_time
  tf_frame :: string
  tf_child :: string
  tf_translation :: "'d point"
  tf_rotation :: "'d quaternion"

text \<open>
  The simulator and the libraries as the drive sees them. \<open>da_yaw_rotation\<close> is the quaternion
  of a rotation by a yaw, \<open>da_yaw\<close> its yaw as a single-precision number, on which
  \<open>da_sinf\<close> and \<open>da_cosf\<close> compute.
\<close>

record ('d, 'w) drive_api = "'d floating" +
  da_gettime :: "'w \<Rightarrow> (u64 \<times> u64) option \<times> 'w"
  da_steady :: "'w \<Rightarrow> u64 \<times> 'w"
  da_set_velocity :: "nat \<Rightarrow> 'd \<Rightarrow> 'w \<Rightarrow> bool \<times> 'w"
  da_set_torque :: "nat \<Rightarrow> 'd \<Rightarrow> 'w \<Rightarrow> unit \<times> 'w"
  da_velocity :: "nat \<Rightarrow> 'w \<Rightarrow> 'd \<times> 'w"
  da_joint :: "string \<Rightarrow> 'w \<Rightarrow> nat option \<times> 'w"
  da_sim_time :: "'w \<Rightarrow> sim_time \<times> 'w"
  da_elapsed :: "sim_time \<Rightarrow> sim_time \<Rightarrow> 'd"
  da_log :: "string \<Rightarrow> 'w \<Rightarrow> unit \<times> 'w"
  da_publish :: "string \<Rightarrow> 'w \<Rightarrow> unit \<times> 'w"
  da_yaw_rotation :: "'d \<Rightarrow> 'd quaternion"
  da_yaw :: "'d quaternion \<Rightarrow> 'd"
  da_sinf :: "'d \<Rightarrow> 'd"
  da_cosf :: "'d \<Rightarrow> 'd"
  da_world_pose :: "'w \<Rightarrow> ('d point \<times> 'd quaternion) \<times> 'w"
  da_world_linear :: "'w \<Rightarrow> 'd point \<times> 'w"
  da_world_angular :: "'w \<Rightarrow> 'd point \<times> 'w"
  da_wheel_link :: "nat \<Rightarrow> 'w \<Rightarrow> (string \<times> string \<times> 'd point \<times> 'd quaternion) \<times> 'w"
  da_send_transform :: "'d transform \<Rightarrow> 'w \<Rightarrow> unit \<times> 'w"
  da_publish_odometry :: "'d odometry \<Rightarrow> 'w \<Rightarrow> unit \<times> 'w"

subsection \<open>The drive\<close>

text \<open>
  The last field is not in the program: the velocities written to the wheels, the latest
  first, each motion with the permission at that moment.
\<close>

datatype 'd wheel_write = ZeroWrite nat bool | MotionWrite nat 'd permission

record 'd scoped_drive =
  dv_owner_mode :: bool
  dv_permission :: permission
  dv_operation :: u64
  dv_reason :: string
  dv_scope :: string
  dv_generation_mode :: bool
  dv_generation :: u64
  dv_sealed :: bool
  dv_applied :: bool
  dv_sequence :: u64
  dv_separation :: "'d list"
  dv_diameter :: "'d list"
  dv_torque :: 'd
  dv_accel :: 'd
  dv_desired :: "'d list"
  dv_instr :: "'d list"
  dv_joints :: "nat list"
  dv_target_x :: 'd
  dv_target_rot :: 'd
  dv_period :: 'd
  dv_last_update :: sim_time
  dv_pose :: "'d point"
  dv_encoder_update :: sim_time
  dv_odom_source :: u32
  dv_odometry :: "'d odometry"
  dv_odometry_frame :: string
  dv_base_frame :: string
  dv_publish_odom :: bool
  dv_publish_wheel_tf :: bool
  dv_publish_odom_tf :: bool
  dv_covariance :: "'d point"
  dv_pairs :: nat
  dv_writes :: "'d wheel_write list"

record ('d, 'w) driving = "'d scoped_drive" +
  dv_world :: 'w

text \<open>The only exception of a handler: the permission's clock cannot be read.\<close>

datatype drive_error = ClockUnavailable

type_synonym ('d, 'w, 'a) drives = "(('d, 'w) driving, drive_error, 'a) fallible"

subsection \<open>Primitives\<close>

definition simulator :: "('w \<Rightarrow> 'a \<times> 'w) \<Rightarrow> (('d, 'w) driving, 'a) program" where
  "simulator f = State (\<lambda>s. case f (dv_world s) of (a, w) \<Rightarrow> (a, s\<lparr>dv_world := w\<rparr>))"

definition permit :: "(permission \<Rightarrow> permission \<times> bool) \<Rightarrow> (('d, 'w) driving, bool) program" where
  "permit f = State (\<lambda>s. case f (dv_permission s) of (p, r) \<Rightarrow> (r, s\<lparr>dv_permission := p\<rparr>))"

definition permit_now :: "('d, 'w) drive_api \<Rightarrow> ('d, 'w, u64) drives" where
  "permit_now da = do {
     stamp \<leftarrow> simulator (da_gettime da);
     case stamp of None \<Rightarrow> fails ClockUnavailable | Some (sec, nsec) \<Rightarrow> yields (sec * 1000000000 + nsec)
   }"

definition motion_now :: "('d, 'w) drive_api \<Rightarrow> ('d, 'w, u64) drives" where
  "motion_now da = do {
     owner \<leftarrow> reads dv_owner_mode;
     if owner then permit_now da else does (simulator (da_steady da))
   }"

definition permit_identity :: "('d, 'w) driving \<Rightarrow> MotionPermitIdentity" where
  "permit_identity s =
    \<lparr>mi_scope_id = dv_scope s, mi_generation = dv_generation s, mi_operation_id = dv_operation s\<rparr>"

subsection \<open>The log\<close>

definition json_key :: "string \<Rightarrow> string" where
  "json_key k = [CHR 0x22] @ k @ [CHR 0x22] @ '':''"

definition json_string :: "string \<Rightarrow> string" where
  "json_string v = [CHR 0x22] @ v @ [CHR 0x22]"

definition int_to_string :: "int \<Rightarrow> string" where
  "int_to_string x = (if x < 0 then ''-'' @ decimal (nat (- x)) else decimal (nat x))"

definition record_text :: "string \<Rightarrow> u64 option \<Rightarrow> u64 \<Rightarrow> ('d, 'w) driving \<Rightarrow> string" where
  "record_text event command_generation ns s =
    ''{'' @ json_key ''event'' @ json_string event @
    '','' @ json_key ''scope_id'' @ json_string (dv_scope s) @
    '','' @ json_key ''steady_ns'' @ u64_to_string ns @
    (if dv_generation_mode s then '','' @ json_key ''generation'' @ u64_to_string (dv_generation s) else []) @
    (if dv_owner_mode s
     then '','' @ json_key ''operation_id'' @ u64_to_string (dv_operation s) @
       '','' @ json_key ''permission_deadline_ns'' @ u64_to_string (mp_deadline (dv_permission s))
     else []) @
    (case command_generation of None \<Rightarrow> []
     | Some g \<Rightarrow> '','' @ json_key ''command_generation'' @ u64_to_string g) @ ''}''"

definition record_command ::
  "('d, 'w) drive_api \<Rightarrow> string \<Rightarrow> u64 option \<Rightarrow> ('d, 'w, unit) drives" where
  "record_command da event command_generation = attempt (motion_now da) (\<lambda>ns. does (do {
     text \<leftarrow> reads (record_text event command_generation ns);
     simulator (da_log da text)
   }))"

abbreviation record_event :: "('d, 'w) drive_api \<Rightarrow> string \<Rightarrow> ('d, 'w, unit) drives" where
  "record_event da event \<equiv> record_command da event None"

definition applied_text :: "sim_time \<Rightarrow> u64 \<Rightarrow> ('d, 'w) driving \<Rightarrow> string" where
  "applied_text t ns s =
    ''{'' @ json_key ''event'' @ json_string ''motion_scope_applied'' @
    '','' @ json_key ''scope_id'' @ json_string (dv_scope s) @
    '','' @ json_key ''sealed'' @ ''true'' @
    '','' @ json_key ''wheel_targets_zero'' @ ''true'' @
    '','' @ json_key ''update_sequence'' @ u64_to_string (dv_sequence s) @
    '','' @ json_key ''sim_ns'' @ int_to_string (sim_ns t) @
    '','' @ json_key ''steady_ns'' @ u64_to_string ns @
    (if dv_generation_mode s then '','' @ json_key ''generation'' @ u64_to_string (dv_generation s) else []) @
    (if dv_owner_mode s
     then '','' @ json_key ''operation_id'' @ u64_to_string (dv_operation s) @
       '','' @ json_key ''permission_deadline_ns'' @ u64_to_string (mp_deadline (dv_permission s)) @
       '','' @ json_key ''closure_reason'' @ json_string (dv_reason s)
     else []) @ ''}''"

subsection \<open>Wheel writes\<close>

definition set_wheel :: "('d, 'w) drive_api \<Rightarrow> nat \<Rightarrow> 'd \<Rightarrow> (('d, 'w) driving, bool) program" where
  "set_wheel da wheel v = do {
     joint \<leftarrow> reads (\<lambda>s. dv_joints s ! wheel);
     simulator (da_set_velocity da joint v)
   }"

definition zero_wheel :: "('d, 'w) drive_api \<Rightarrow> nat \<Rightarrow> (('d, 'w) driving, bool) program" where
  "zero_wheel da wheel = do {
     wrote \<leftarrow> set_wheel da wheel (fl_zero da);
     changes (\<lambda>s. s\<lparr>dv_desired := (dv_desired s)[wheel := fl_zero da],
       dv_instr := (dv_instr s)[wheel := fl_zero da],
       dv_writes := ZeroWrite wheel wrote # dv_writes s\<rparr>);
     answer wrote
   }"

fun zero_wheels :: "('d, 'w) drive_api \<Rightarrow> nat list \<Rightarrow> bool \<Rightarrow> (('d, 'w) driving, bool) program" where
  "zero_wheels da [] accepted = answer accepted"
| "zero_wheels da (wheel # wheels) accepted = do {
     wrote \<leftarrow> zero_wheel da wheel;
     zero_wheels da wheels (wrote \<and> accepted)
   }"

definition report_applied :: "('d, 'w) drive_api \<Rightarrow> sim_time \<Rightarrow> ('d, 'w, unit) drives" where
  "report_applied da t = do {
     boot \<leftarrow> reads (\<lambda>s. dv_generation_mode s \<and> dv_generation s = 0);
     if boot then record_event da ''drive_boot_zero_applied''
     else attempt (motion_now da) (\<lambda>ns. does (do {
       text \<leftarrow> reads (applied_text t ns);
       logged \<leftarrow> simulator (da_log da text);
       simulator (da_publish da text)
     }))
   }"

definition apply_zero :: "('d, 'w) drive_api \<Rightarrow> sim_time \<Rightarrow> ('d, 'w, unit) drives" where
  "apply_zero da t = do {
     wheels \<leftarrow> reads (\<lambda>s. [0 ..< 2 * dv_pairs s]);
     accepted \<leftarrow> zero_wheels da wheels True;
     applied \<leftarrow> reads dv_applied;
     attempt (attempt_when (accepted \<and> \<not> applied) (do {
         changes (\<lambda>s. s\<lparr>dv_applied := True\<rparr>);
         report_applied da t
       })) (\<lambda>_. does (changes (\<lambda>s. s\<lparr>dv_last_update := t\<rparr>)))
   }"

definition motion_write :: "('d, 'w) drive_api \<Rightarrow> nat \<Rightarrow> 'd \<Rightarrow> (('d, 'w) driving, unit) program" where
  "motion_write da wheel v = do {
     wrote \<leftarrow> set_wheel da wheel v;
     changes (\<lambda>s. s\<lparr>dv_writes := MotionWrite wheel v (dv_permission s) # dv_writes s\<rparr>)
   }"

subsection \<open>Closing by the permission\<close>

definition seal_drive :: "('d, 'x) floating_scheme \<Rightarrow> string \<Rightarrow> ('d, 'w) driving \<Rightarrow> ('d, 'w) driving" where
  "seal_drive fl reason s =
     s\<lparr>dv_sealed := True, dv_applied := False, dv_target_x := fl_zero fl, dv_target_rot := fl_zero fl,
       dv_desired := replicate (length (dv_desired s)) (fl_zero fl),
       dv_instr := replicate (length (dv_instr s)) (fl_zero fl), dv_reason := reason\<rparr>"

definition sync_permission :: "('d, 'w) drive_api \<Rightarrow> u64 \<Rightarrow> ('d, 'w, unit) drives" where
  "sync_permission da now = do {
     faulted \<leftarrow> reads (\<lambda>s. mp_state (dv_permission s) = PsFaultClosed \<and> \<not> dv_sealed s);
     attempt_when faulted (do {
       changes (\<lambda>s. seal_drive da
         (if now \<ge> mp_deadline (dv_permission s) then ''permission_expired'' else ''clock_invalid'') s);
       record_event da ''permission_fault_sealed''
     })
   }"

text \<open>\<open>write_current\<close>, with the drive's own permission.\<close>

definition write_current ::
  "MotionPermitIdentity \<Rightarrow> ('d, 'w, u64) drives \<Rightarrow> (u64 \<Rightarrow> ('d, 'w, unit) drives) \<Rightarrow>
   (('d, 'w) driving, unit) program \<Rightarrow> ('d, 'w, bool) drives" where
  "write_current identity clock zero write = attempt clock (\<lambda>now. do {
     allowed \<leftarrow> permit (can_consume identity now);
     if \<not> allowed then attempt (zero now) (\<lambda>_. yields False)
     else do {
       write;
       yields True
     }
   })"

definition write_permitted :: "('d, 'w) drive_api \<Rightarrow> sim_time \<Rightarrow> nat \<Rightarrow> 'd \<Rightarrow> ('d, 'w, bool) drives" where
  "write_permitted da t wheel target = do {
     owner \<leftarrow> reads dv_owner_mode;
     if \<not> owner then do {
       motion_write da wheel target;
       yields True
     }
     else do {
       identity \<leftarrow> reads permit_identity;
       write_current identity (permit_now da)
         (\<lambda>now. attempt (sync_permission da now) (\<lambda>_. apply_zero da t))
         (motion_write da wheel target)
     }
   }"

subsection \<open>Odometry\<close>

text \<open>
  The pose integrated from the wheel encoders, the pose
  read from the simulation, and the messages and transforms published from them. None of it
  touches a target, the seal or the permission.
\<close>

abbreviation (input) RIGHT :: nat where "RIGHT \<equiv> 0"
abbreviation (input) LEFT :: nat where "LEFT \<equiv> 1"

abbreviation (input) ENCODER :: u32 where "ENCODER \<equiv> 0"
abbreviation (input) WORLD :: u32 where "WORLD \<equiv> 1"

subsection \<open>The encoders\<close>

text \<open>The distances that the two wheels of the first pair have rolled, and the pose they give.\<close>

definition encoder_travel ::
  "('d, 'x) floating_scheme \<Rightarrow> 'd \<Rightarrow> 'd \<Rightarrow> 'd \<Rightarrow> 'd \<Rightarrow> 'd \<times> 'd" where
  "encoder_travel fl diameter seconds vl vr =
    (fl_mul fl (fl_mul fl vl (fl_div fl diameter (fl_two fl))) seconds,
     fl_mul fl (fl_mul fl vr (fl_div fl diameter (fl_two fl))) seconds)"

definition encoder_delta :: "('d, 'x) floating_scheme \<Rightarrow> 'd \<Rightarrow> 'd \<Rightarrow> 'd \<times> 'd \<Rightarrow> 'd point" where
  "encoder_delta fl b theta travel = (case travel of (sl, sr) \<Rightarrow>
    (let ssum = fl_add fl sl sr; sdiff = fl_sub fl sr sl;
         angle = fl_add fl theta (fl_div fl sdiff (fl_mul fl (fl_two fl) b))
     in (fl_mul fl (fl_div fl ssum (fl_two fl)) (fl_cos fl angle),
         fl_mul fl (fl_div fl ssum (fl_two fl)) (fl_sin fl angle),
         fl_div fl sdiff b)))"

definition move_encoder ::
  "('d, 'w) drive_api \<Rightarrow> 'd \<Rightarrow> 'd \<Rightarrow> 'd \<Rightarrow> ('d, 'w) driving \<Rightarrow> ('d, 'w) driving" where
  "move_encoder da seconds vl vr s = (case dv_pose s of (x, y, theta) \<Rightarrow>
     (case encoder_delta da (dv_separation s ! 0) theta (encoder_travel da (dv_diameter s ! 0) seconds vl vr) of
        (dx, dy, dtheta) \<Rightarrow>
        (let px = fl_add da x dx; py = fl_add da y dy; yaw = fl_add da theta dtheta in
         s\<lparr>dv_pose := (px, py, yaw),
           dv_odometry := (dv_odometry s)\<lparr>od_position := (px, py, fl_zero da), od_orientation := da_yaw_rotation da yaw,
             od_angular_z := fl_div da dtheta seconds,
             od_linear_x := fl_div da (fl_sqrt da (fl_add da (fl_mul da dx dx) (fl_mul da dy dy))) seconds,
             od_linear_y := fl_zero da\<rparr>\<rparr>)))"

definition update_odometry_encoder :: "('d, 'w) drive_api \<Rightarrow> sim_time \<Rightarrow> (('d, 'w) driving, unit) program" where
  "update_odometry_encoder da t = do {
     joints \<leftarrow> reads dv_joints;
     vl \<leftarrow> simulator (da_velocity da (joints ! LEFT));
     vr \<leftarrow> simulator (da_velocity da (joints ! RIGHT));
     seconds \<leftarrow> reads (\<lambda>s. da_elapsed da t (dv_encoder_update s));
     changes (\<lambda>s. move_encoder da seconds vl vr (s\<lparr>dv_encoder_update := t\<rparr>))
   }"

subsection \<open>The simulation\<close>

definition world_odometry ::
  "('d, 'w) drive_api \<Rightarrow> 'd point \<times> 'd quaternion \<Rightarrow> 'd point \<Rightarrow> 'd point \<Rightarrow> 'd odometry \<Rightarrow> 'd odometry" where
  "world_odometry da pose linear angular m = (case linear of (lx, ly, lz) \<Rightarrow>
     (let yaw = da_yaw da (snd pose) in
      m\<lparr>od_position := fst pose, od_orientation := snd pose, od_angular_z := snd (snd angular),
        od_linear_x := fl_add da (fl_mul da (da_cosf da yaw) lx) (fl_mul da (da_sinf da yaw) ly),
        od_linear_y := fl_sub da (fl_mul da (da_cosf da yaw) ly) (fl_mul da (da_sinf da yaw) lx)\<rparr>))"

definition update_odometry_world :: "('d, 'w) drive_api \<Rightarrow> (('d, 'w) driving, unit) program" where
  "update_odometry_world da = do {
     pose \<leftarrow> simulator (da_world_pose da);
     linear \<leftarrow> simulator (da_world_linear da);
     angular \<leftarrow> simulator (da_world_angular da);
     changes (\<lambda>s. s\<lparr>dv_odometry := world_odometry da pose linear angular (dv_odometry s)\<rparr>)
   }"

subsection \<open>Publishing\<close>

definition covariance_matrix :: "('d, 'x) floating_scheme \<Rightarrow> 'd point \<Rightarrow> 'd list \<Rightarrow> 'd list" where
  "covariance_matrix fl c m = (case c of (x, y, yaw) \<Rightarrow>
    m[0 := x, 7 := y, 14 := fl_lit fl 1000000000000 0, 21 := fl_lit fl 1000000000000 0,
      28 := fl_lit fl 1000000000000 0, 35 := yaw])"

definition publish_odometry_msg :: "('d, 'w) drive_api \<Rightarrow> sim_time \<Rightarrow> (('d, 'w) driving, unit) program" where
  "publish_odometry_msg da t = do {
     changes (\<lambda>s. s\<lparr>dv_odometry := (dv_odometry s)\<lparr>
       od_pose_covariance := covariance_matrix da (dv_covariance s) (od_pose_covariance (dv_odometry s)),
       od_twist_covariance := covariance_matrix da (dv_covariance s) (od_twist_covariance (dv_odometry s)),
       od_frame := dv_odometry_frame s, od_child := dv_base_frame s, od_stamp := t\<rparr>\<rparr>);
     message \<leftarrow> reads dv_odometry;
     simulator (da_publish_odometry da message)
   }"

definition publish_odometry_tf :: "('d, 'w) drive_api \<Rightarrow> sim_time \<Rightarrow> (('d, 'w) driving, unit) program" where
  "publish_odometry_tf da t = do {
     message \<leftarrow> reads (\<lambda>s. \<lparr>tf_stamp = t, tf_frame = dv_odometry_frame s, tf_child = dv_base_frame s,
       tf_translation = od_position (dv_odometry s), tf_rotation = od_orientation (dv_odometry s)\<rparr>);
     simulator (da_send_transform da message)
   }"

fun publish_wheels_tf :: "('d, 'w) drive_api \<Rightarrow> sim_time \<Rightarrow> nat list \<Rightarrow> (('d, 'w) driving, unit) program" where
  "publish_wheels_tf da t [] = skip"
| "publish_wheels_tf da t (i # is) = do {
     joint \<leftarrow> reads (\<lambda>s. dv_joints s ! i);
     link \<leftarrow> simulator (da_wheel_link da joint);
     sent \<leftarrow> simulator (da_send_transform da (case link of (parent, child, position, rotation) \<Rightarrow>
       \<lparr>tf_stamp = t, tf_frame = parent, tf_child = child, tf_translation = position, tf_rotation = rotation\<rparr>));
     publish_wheels_tf da t is
   }"

text \<open>What an update does before it takes the mutex.\<close>

definition update_encoder :: "('d, 'w) drive_api \<Rightarrow> sim_time \<Rightarrow> (('d, 'w) driving, unit) program" where
  "update_encoder da t = do {
     encoder \<leftarrow> reads (\<lambda>s. dv_odom_source s = ENCODER);
     on_condition encoder (update_odometry_encoder da t)
   }"

definition report_odometry :: "('d, 'w) drive_api \<Rightarrow> sim_time \<Rightarrow> (('d, 'w) driving, unit) program" where
  "report_odometry da t = do {
     world \<leftarrow> reads (\<lambda>s. dv_odom_source s = WORLD);
     on_condition world (update_odometry_world da);
     odom \<leftarrow> reads dv_publish_odom;
     on_condition odom (publish_odometry_msg da t);
     wheel_tf \<leftarrow> reads dv_publish_wheel_tf;
     wheels \<leftarrow> reads (\<lambda>s. [0 ..< 2 * dv_pairs s]);
     on_condition wheel_tf (publish_wheels_tf da t wheels);
     odom_tf \<leftarrow> reads dv_publish_odom_tf;
     on_condition odom_tf (publish_odometry_tf da t)
   }"

end
