(* ===== verification/Observation_Watches.thy ===== *)
theory Observation_Watches
  imports Receipt Scoped_Drive Transition_System
begin

text \<open>
  The caller-side monitors of \<open>integrations/ros2/nav2_observation/\<close>: the progress watch of
  the clock and odometry streams (\<open>runtime_observation_watch.hpp\<close>), the corridor watch over
  laser scans and a cost map (\<open>obstacle_watch.hpp\<close>), the window in which a robot is seen at
  rest (\<open>motion_window.hpp\<close>), and the reading of a cancel response
  (\<open>cancel_response.hpp\<close>). None grants authority. Stamps are signed 64-bit nanoseconds
  whose overflow the language leaves undefined: they are integers here.
\<close>

subsection \<open>Progress of the clock and of the odometry\<close>

datatype StaleObservation = StaleClock | StaleOdometry

definition kBudgetMs :: u64 where
  "kBudgetMs = 2000"

record stream =
  sm_stamp :: int
  sm_advanced_at :: u64

definition stream_observe :: "int \<Rightarrow> u64 \<Rightarrow> stream \<Rightarrow> stream" where
  "stream_observe v t s =
    (if v > sm_stamp s \<and> t \<ge> sm_advanced_at s then s\<lparr>sm_stamp := v, sm_advanced_at := t\<rparr> else s)"

definition stream_expired :: "u64 \<Rightarrow> stream \<Rightarrow> bool" where
  "stream_expired t s \<longleftrightarrow> t \<ge> sm_advanced_at s \<and> t - sm_advanced_at s \<ge> kBudgetMs"

record runtime_watch =
  rw_lost :: "StaleObservation option"
  rw_active :: bool
  rw_clock :: stream
  rw_odometry :: stream

definition new_runtime_watch :: runtime_watch where
  "new_runtime_watch = \<lparr>rw_lost = None, rw_active = False, rw_clock = \<lparr>sm_stamp = 0, sm_advanced_at = 0\<rparr>,
     rw_odometry = \<lparr>sm_stamp = 0, sm_advanced_at = 0\<rparr>\<rparr>"

definition stale :: "u64 \<Rightarrow> runtime_watch \<Rightarrow> StaleObservation option" where
  "stale t w =
    (if rw_lost w \<noteq> None then rw_lost w
     else if rw_active w \<and> stream_expired t (rw_clock w) then Some StaleClock
     else if rw_active w \<and> stream_expired t (rw_odometry w) then Some StaleOdometry
     else None)"

definition latch_expiry :: "u64 \<Rightarrow> runtime_watch \<Rightarrow> runtime_watch" where
  "latch_expiry t w = (if rw_lost w = None then w\<lparr>rw_lost := stale t w\<rparr> else w)"

definition start_watch :: "u64 \<Rightarrow> runtime_watch \<Rightarrow> runtime_watch" where
  "start_watch t w = w\<lparr>rw_lost := None, rw_active := True, rw_clock := (rw_clock w)\<lparr>sm_advanced_at := t\<rparr>,
     rw_odometry := (rw_odometry w)\<lparr>sm_advanced_at := t\<rparr>\<rparr>"

definition observe_clock :: "int \<Rightarrow> u64 \<Rightarrow> runtime_watch \<Rightarrow> runtime_watch" where
  "observe_clock stamp t w =
    (let w = latch_expiry t w in w\<lparr>rw_clock := stream_observe stamp t (rw_clock w)\<rparr>)"

definition observe_odometry :: "int \<Rightarrow> u64 \<Rightarrow> bool \<Rightarrow> runtime_watch \<Rightarrow> runtime_watch" where
  "observe_odometry stamp t valid w =
    (let w = latch_expiry t w
     in if valid then w\<lparr>rw_odometry := stream_observe stamp t (rw_odometry w)\<rparr> else w)"

datatype watch_call = WcStart u64 | WcClock int u64 | WcOdometry int u64 bool

fun watch_step :: "runtime_watch \<Rightarrow> watch_call \<Rightarrow> runtime_watch \<times> unit" where
  "watch_step w (WcStart t) = (start_watch t w, ())"
| "watch_step w (WcClock stamp t) = (observe_clock stamp t w, ())"
| "watch_step w (WcOdometry stamp t valid) = (observe_odometry stamp t valid w, ())"

subsection \<open>The corridor\<close>

datatype ObstacleDecision = ObContinue | ObBlocked | ObUnknown

record Sample =
  sp_stamp :: int
  sp_received :: int
  sp_valid :: bool

definition no_sample :: Sample where
  "no_sample = \<lparr>sp_stamp = 0, sp_received = 0, sp_valid = False\<rparr>"

text \<open>A window of three samples, the oldest first.\<close>

type_synonym window = "Sample \<times> Sample \<times> Sample"

definition no_window :: window where
  "no_window = (no_sample, no_sample, no_sample)"

fun shift_window :: "Sample \<Rightarrow> window \<Rightarrow> window" where
  "shift_window s (a, b, c) = (b, c, s)"

fun window_samples :: "window \<Rightarrow> Sample list" where
  "window_samples (a, b, c) = [a, b, c]"

record 'd obstacle_watch =
  ow_scan :: Sample
  ow_costmap :: Sample
  ow_clearance :: 'd
  ow_occupied :: bool
  ow_close :: window
  ow_clear :: window

definition new_obstacle_watch :: "('d, 'x) floating_scheme \<Rightarrow> 'd obstacle_watch" where
  "new_obstacle_watch fl =
    \<lparr>ow_scan = no_sample, ow_costmap = no_sample, ow_clearance = fl_zero fl, ow_occupied = False,
     ow_close = no_window, ow_clear = no_window\<rparr>"

definition clear_distance :: "('d, 'x) floating_scheme \<Rightarrow> 'd \<Rightarrow> bool" where
  "clear_distance fl d \<longleftrightarrow> fl_less fl (fl_lit fl 13 1) d"

definition close_distance :: "('d, 'x) floating_scheme \<Rightarrow> 'd \<Rightarrow> bool" where
  "close_distance fl d \<longleftrightarrow> fl_leq fl d (fl_lit fl 105 2)"

definition observe_scan ::
  "('d, 'x) floating_scheme \<Rightarrow> int \<Rightarrow> int \<Rightarrow> 'd \<Rightarrow> bool \<Rightarrow> 'd obstacle_watch \<Rightarrow> 'd obstacle_watch" where
  "observe_scan fl stamp received clearance valid w =
    (if stamp \<le> sp_stamp (ow_scan w) then w
     else let s = \<lparr>sp_stamp = stamp, sp_received = received,
         sp_valid = valid \<and> fl_finite fl clearance \<and> fl_leq fl (fl_zero fl) clearance\<rparr>
       in w\<lparr>ow_scan := s, ow_clearance := clearance,
         ow_clear := (if sp_valid s \<and> clear_distance fl clearance then shift_window s (ow_clear w) else no_window),
         ow_close := (if sp_valid s \<and> close_distance fl clearance then shift_window s (ow_close w) else no_window)\<rparr>)"

definition observe_costmap :: "int \<Rightarrow> int \<Rightarrow> bool \<Rightarrow> bool \<Rightarrow> 'd obstacle_watch \<Rightarrow> 'd obstacle_watch" where
  "observe_costmap stamp received occupied valid w =
    (if stamp \<le> sp_stamp (ow_costmap w) then w
     else w\<lparr>ow_costmap := \<lparr>sp_stamp = stamp, sp_received = received, sp_valid = valid\<rparr>, ow_occupied := occupied\<rparr>)"

definition sample_fresh :: "Sample \<Rightarrow> int \<Rightarrow> int \<Rightarrow> int \<Rightarrow> bool" where
  "sample_fresh s now clock limit_ms \<longleftrightarrow>
    sp_valid s \<and> sp_stamp s > 0 \<and> now \<ge> sp_received s \<and> now - sp_received s < limit_ms \<and> clock > 0 \<and>
    sp_stamp s \<le> clock + 250000000 \<and> clock - sp_stamp s < limit_ms * 1000000"

definition scan_fresh :: "int \<Rightarrow> int \<Rightarrow> 'd obstacle_watch \<Rightarrow> bool" where
  "scan_fresh now clock w \<longleftrightarrow> sample_fresh (ow_scan w) now clock 1500"

definition costmap_fresh :: "int \<Rightarrow> int \<Rightarrow> 'd obstacle_watch \<Rightarrow> bool" where
  "costmap_fresh now clock w \<longleftrightarrow> sample_fresh (ow_costmap w) now clock 3000"

definition corridor_ready :: "('d, 'x) floating_scheme \<Rightarrow> int \<Rightarrow> int \<Rightarrow> 'd obstacle_watch \<Rightarrow> bool" where
  "corridor_ready fl now clock w \<longleftrightarrow>
    scan_fresh now clock w \<and> costmap_fresh now clock w \<and> clear_distance fl (ow_clearance w) \<and> \<not> ow_occupied w"

definition can_resume :: "('d, 'x) floating_scheme \<Rightarrow> int \<Rightarrow> int \<Rightarrow> int \<Rightarrow> int \<Rightarrow> 'd obstacle_watch \<Rightarrow> bool" where
  "can_resume fl now clock after_ms after_ns w \<longleftrightarrow>
    corridor_ready fl now clock w \<and> sp_stamp (ow_costmap w) > after_ns \<and> sp_received (ow_costmap w) > after_ms \<and>
    list_all (\<lambda>s. sample_fresh s now clock 1500 \<and> sp_stamp s > after_ns \<and> sp_received s > after_ms)
      (window_samples (ow_clear w))"

definition decision :: "int \<Rightarrow> int \<Rightarrow> 'd obstacle_watch \<Rightarrow> ObstacleDecision" where
  "decision now clock w =
    (if \<not> scan_fresh now clock w \<or> \<not> costmap_fresh now clock w then ObUnknown
     else if list_ex (\<lambda>s. \<not> sample_fresh s now clock 1500) (window_samples (ow_close w)) then ObContinue
     else if ow_occupied w then ObBlocked else ObContinue)"

datatype 'd corridor_call = ObScan int int 'd bool | ObCostmap int int bool bool

fun corridor_step ::
  "('d, 'x) floating_scheme \<Rightarrow> 'd obstacle_watch \<Rightarrow> 'd corridor_call \<Rightarrow> 'd obstacle_watch \<times> unit" where
  "corridor_step fl w (ObScan stamp received clearance valid) = (observe_scan fl stamp received clearance valid w, ())"
| "corridor_step fl w (ObCostmap stamp received occupied valid) = (observe_costmap stamp received occupied valid w, ())"

subsection \<open>Rest\<close>

record 'd trigonometry = "'d floating" +
  fl_atan2 :: "'d \<Rightarrow> 'd \<Rightarrow> 'd"
  fl_hypot :: "'d \<Rightarrow> 'd \<Rightarrow> 'd"

record 'd MotionSample =
  ms_stamp_ns :: int
  ms_x :: 'd
  ms_y :: 'd
  ms_yaw :: 'd
  ms_speed :: 'd
  ms_angular_speed :: 'd

datatype MotionStatus = MsPending | MsObserved | MsRejected

record 'd motion_window =
  mw_after :: int
  mw_status :: MotionStatus
  mw_first :: "'d MotionSample option"
  mw_previous :: "'d MotionSample option"
  mw_count :: nat
  mw_settling :: nat
  mw_max_speed :: 'd

definition new_motion_window :: "('d, 'x) floating_scheme \<Rightarrow> int \<Rightarrow> 'd motion_window" where
  "new_motion_window fl after =
    \<lparr>mw_after = after, mw_status = MsPending, mw_first = None, mw_previous = None, mw_count = 0, mw_settling = 0,
     mw_max_speed = fl_zero fl\<rparr>"

definition moving :: "('d, 'x) floating_scheme \<Rightarrow> 'd MotionSample \<Rightarrow> bool" where
  "moving fl m \<longleftrightarrow>
    fl_less fl (fl_lit fl 1 2) (ms_speed m) \<or> fl_less fl (fl_lit fl 2 2) (fl_abs fl (ms_angular_speed m))"

definition invalid_sample :: "('d, 'x) floating_scheme \<Rightarrow> 'd MotionSample \<Rightarrow> int \<Rightarrow> int \<Rightarrow> int \<Rightarrow> bool" where
  "invalid_sample fl m clock clock_age after \<longleftrightarrow>
    \<not> fl_finite fl (ms_x m) \<or> \<not> fl_finite fl (ms_y m) \<or> \<not> fl_finite fl (ms_yaw m) \<or> \<not> fl_finite fl (ms_speed m) \<or>
    \<not> fl_finite fl (ms_angular_speed m) \<or> fl_less fl (ms_speed m) (fl_zero fl) \<or> clock_age < 0 \<or> clock_age > 1000 \<or>
    clock < after \<or> \<bar>ms_stamp_ns m - clock\<bar> > 250000000"

definition out_of_step :: "'d MotionSample option \<Rightarrow> 'd MotionSample \<Rightarrow> bool" where
  "out_of_step previous m \<longleftrightarrow> (case previous of None \<Rightarrow> False
     | Some p \<Rightarrow> ms_stamp_ns m \<le> ms_stamp_ns p \<or> ms_stamp_ns m - ms_stamp_ns p > 250000000)"

definition moved_from :: "('d, 'x) trigonometry_scheme \<Rightarrow> 'd MotionSample \<Rightarrow> 'd MotionSample \<Rightarrow> bool" where
  "moved_from fl first m \<longleftrightarrow>
    fl_less fl (fl_lit fl 1 2) (fl_hypot fl (fl_sub fl (ms_x m) (ms_x first)) (fl_sub fl (ms_y m) (ms_y first))) \<or>
    fl_less fl (fl_lit fl 2 2) (fl_abs fl (fl_atan2 fl (fl_sin fl (fl_sub fl (ms_yaw m) (ms_yaw first)))
      (fl_cos fl (fl_sub fl (ms_yaw m) (ms_yaw first))))) \<or> moving fl m"

definition rest_sample :: "('d, 'x) trigonometry_scheme \<Rightarrow> 'd MotionSample \<Rightarrow> 'd MotionSample \<Rightarrow> 'd motion_window \<Rightarrow> 'd motion_window" where
  "rest_sample fl first m w =
    (let w = w\<lparr>mw_first := Some first\<rparr>
     in if moved_from fl first m then w\<lparr>mw_status := MsRejected\<rparr>
        else let w = w\<lparr>mw_previous := Some m, mw_count := mw_count w + 1, mw_max_speed := fl_max fl (mw_max_speed w) (ms_speed m)\<rparr>
          in if mw_count w \<ge> 10 \<and> ms_stamp_ns m - ms_stamp_ns first \<ge> 1000000000
             then w\<lparr>mw_status := MsObserved\<rparr> else w)"

definition observe_motion ::
  "('d, 'x) trigonometry_scheme \<Rightarrow> 'd MotionSample \<Rightarrow> int \<Rightarrow> int \<Rightarrow> 'd motion_window \<Rightarrow> 'd motion_window" where
  "observe_motion fl m clock clock_age w =
    (if mw_status w \<noteq> MsPending then w
     else if ms_stamp_ns m \<le> mw_after w then w
     else if mw_first w = None \<and> clock < mw_after w then w
     else if invalid_sample fl m clock clock_age (mw_after w) then w\<lparr>mw_status := MsRejected\<rparr>
     else if out_of_step (mw_previous w) m then w\<lparr>mw_status := MsRejected\<rparr>
     else case mw_first w of
       None \<Rightarrow> if moving fl m then w\<lparr>mw_previous := Some m, mw_settling := mw_settling w + 1\<rparr>
         else rest_sample fl m m w
     | Some first \<Rightarrow> rest_sample fl first m w)"

definition reject_motion :: "'d motion_window \<Rightarrow> 'd motion_window" where
  "reject_motion w = w\<lparr>mw_status := MsRejected\<rparr>"

definition duration_ns :: "'d motion_window \<Rightarrow> int" where
  "duration_ns w = (case (mw_first w, mw_previous w) of
     (Some first, Some previous) \<Rightarrow> ms_stamp_ns previous - ms_stamp_ns first | _ \<Rightarrow> 0)"

datatype 'd motion_call = MoSample "'d MotionSample" int int | MoReject

fun motion_step :: "('d, 'x) trigonometry_scheme \<Rightarrow> 'd motion_window \<Rightarrow> 'd motion_call \<Rightarrow> 'd motion_window \<times> unit" where
  "motion_step fl w (MoSample m clock clock_age) = (observe_motion fl m clock clock_age w, ())"
| "motion_step fl w MoReject = (reject_motion w, ())"

subsection \<open>Cancel responses\<close>

text \<open>The response of the action server, and the interface's two codes that matter.\<close>

record cancel_response =
  cr_return_code :: u8
  cr_goals_canceling :: "u8 list list"

record cancel_codes =
  cc_error_none :: u8
  cc_error_rejected :: u8

definition cancel_acknowledgement :: "cancel_codes \<Rightarrow> cancel_response \<Rightarrow> u8 list \<Rightarrow> StopAcknowledgement" where
  "cancel_acknowledgement cc response expected =
    (if cr_return_code response = cc_error_rejected cc then SaRefused
     else if cr_return_code response \<noteq> cc_error_none cc \<or> length (cr_goals_canceling response) \<noteq> 1 \<or>
       hd (cr_goals_canceling response) \<noteq> expected then SaUnavailable
     else SaAcknowledged)"

end
