(* ===== verification/Observation_Watches_Properties.thy ===== *)
theory Observation_Watches_Properties
  imports Observation_Watches
begin

text \<open>What the monitors' answers say of the observations they have been given.\<close>

subsection \<open>Concrete monitors\<close>

text \<open>Distances in whole hundredths, and an angle's norm read off its value.\<close>

definition demo_trigonometry :: "int trigonometry" where
  "demo_trigonometry =
    \<lparr>fl_lit = \<lambda>m k. m * 10 ^ (2 - k), fl_add = (+), fl_sub = (-), fl_mul = (*), fl_div = \<lambda>x y. x, fl_neg = uminus,
     fl_abs = abs, fl_min = min, fl_max = max, fl_less = (<), fl_leq = (\<le>), fl_eq = (=), fl_finite = \<lambda>x. True,
     fl_sin = \<lambda>x. x, fl_cos = \<lambda>x. 1, fl_sqrt = \<lambda>x. x, fl_atan2 = \<lambda>y x. y, fl_hypot = \<lambda>x y. \<bar>x\<bar> + \<bar>y\<bar>\<rparr>"

definition demo_obstacle_free :: "int corridor_call list" where
  "demo_obstacle_free = [ObScan 100 10 200 True, ObScan 200 20 131 True, ObScan 300 30 150 True, ObCostmap 250 25 False True]"

definition demo_obstacle :: "int corridor_call list" where
  "demo_obstacle = [ObScan 100 10 90 True, ObScan 200 20 105 True, ObScan 300 30 70 True, ObCostmap 250 25 True True]"

definition demo_rest :: "int motion_call list" where
  "demo_rest = map (\<lambda>k. MoSample \<lparr>ms_stamp_ns = 100000000 * k, ms_x = 5, ms_y = 7, ms_yaw = 1, ms_speed = 1,
     ms_angular_speed = 0\<rparr> (100000000 * k) 0) [1, 2, 3, 4, 5, 6, 7, 8, 9, 10, 11]"

subsection \<open>Losses\<close>

fun is_start :: "watch_call \<Rightarrow> bool" where
  "is_start (WcStart t) \<longleftrightarrow> True"
| "is_start c \<longleftrightarrow> False"

fun watch_time :: "watch_call \<Rightarrow> u64" where
  "watch_time (WcStart t) = t"
| "watch_time (WcClock stamp t) = t"
| "watch_time (WcOdometry stamp t valid) = t"

lemma lost_step: "rw_lost w = Some x \<Longrightarrow> \<not> is_start c \<Longrightarrow> rw_lost (fst (watch_step w c)) = Some x"
  by (cases c) (auto simp: observe_clock_def observe_odometry_def latch_expiry_def Let_def)

lemma lost_run: "rw_lost w = Some x \<Longrightarrow> list_all (\<lambda>c. \<not> is_start c) cs \<Longrightarrow> rw_lost (run watch_step w cs) = Some x"
  by (induction cs arbitrary: w) (auto simp: lost_step)

lemma stale_step:
  assumes "stale (watch_time c) w = Some x" and "\<not> is_start c"
  shows "rw_lost (fst (watch_step w c)) = Some x"
  using assms by (cases c; cases "rw_lost w") (auto simp: observe_clock_def observe_odometry_def latch_expiry_def stale_def Let_def)

text \<open>
  A lost stream stays lost. When a stream has been without progress for the whole
  budget at the time of an observation, that observation, even one that restores the
  stream, and everything observed later leave the loss on record until the watch is
  started again.
\<close>

theorem loss_is_not_erased:
  assumes "stale (watch_time c) w = Some x" and "list_all (\<lambda>c. \<not> is_start c) (c # cs)"
  shows "stale t (run watch_step w (c # cs)) = Some x"
proof -
  have "rw_lost (run watch_step w (c # cs)) = Some x"
    using assms by (auto intro: lost_run stale_step)
  then show ?thesis by (simp add: stale_def)
qed

theorem loss_is_not_erased_witness:
  "stale 5000 (run watch_step (start_watch 100 new_runtime_watch) [WcOdometry 7 2100 True, WcClock 9 2101]) = Some StaleClock"
  by (rule loss_is_not_erased) (simp_all, code_simp)

text \<open>Where a stream's last progress comes from.\<close>

fun advances :: "(watch_call \<Rightarrow> bool) \<Rightarrow> u64 \<Rightarrow> watch_call list \<Rightarrow> u64 \<Rightarrow> bool" where
  "advances kind start cs a \<longleftrightarrow> a = start \<or> (\<exists>c \<in> set cs. kind c \<and> watch_time c = a)"

fun clock_call :: "watch_call \<Rightarrow> bool" where
  "clock_call (WcClock stamp t) \<longleftrightarrow> True"
| "clock_call c \<longleftrightarrow> False"

fun odometry_call :: "watch_call \<Rightarrow> bool" where
  "odometry_call (WcOdometry stamp t valid) \<longleftrightarrow> valid"
| "odometry_call c \<longleftrightarrow> False"

lemma watch_streams:
  assumes "list_all (\<lambda>c. \<not> is_start c) cs"
  shows "rw_active (run watch_step (start_watch t0 w) cs) \<and>
    advances clock_call t0 cs (sm_advanced_at (rw_clock (run watch_step (start_watch t0 w) cs))) \<and>
    advances odometry_call t0 cs (sm_advanced_at (rw_odometry (run watch_step (start_watch t0 w) cs)))"
  using assms
proof (induction cs rule: rev_induct)
  case Nil
  then show ?case by (simp add: start_watch_def)
next
  case (snoc c cs)
  then show ?case
    by (cases c)
      (auto simp: run_append observe_clock_def observe_odometry_def latch_expiry_def Let_def stream_observe_def)
qed

text \<open>
  A watch that reports no loss has seen both streams move. From a start at \<open>t0\<close>, as
  long as \<open>stale\<close> answers no, the clock and the odometry each have made progress, or the
  watch was started, less than the budget before \<open>t\<close> (or after \<open>t\<close>).
\<close>

theorem no_loss_means_progress:
  assumes "list_all (\<lambda>c. \<not> is_start c) cs" and "stale t (run watch_step (start_watch t0 w) cs) = None"
  shows "(\<exists>a. advances clock_call t0 cs a \<and> (t < a \<or> t - a < kBudgetMs)) \<and>
    (\<exists>a. advances odometry_call t0 cs a \<and> (t < a \<or> t - a < kBudgetMs))"
proof -
  let ?w = "run watch_step (start_watch t0 w) cs"
  note s = watch_streams [OF assms(1), of t0 w]
  have "\<not> stream_expired t (rw_clock ?w)" "\<not> stream_expired t (rw_odometry ?w)"
    using assms(2) s by (auto simp: stale_def split: if_splits)
  with s show ?thesis by (auto simp: stream_expired_def not_le)
qed

theorem no_loss_means_progress_witness:
  "(\<exists>a. advances clock_call 100 [WcClock 5 1500, WcOdometry 6 1600 True] a \<and> (3000 < a \<or> 3000 - a < kBudgetMs)) \<and>
    (\<exists>a. advances odometry_call 100 [WcClock 5 1500, WcOdometry 6 1600 True] a \<and> (3000 < a \<or> 3000 - a < kBudgetMs))"
  by (rule no_loss_means_progress [where w = new_runtime_watch]) (simp, code_simp)

subsection \<open>The corridor\<close>

fun scan_of :: "('d, 'x) floating_scheme \<Rightarrow> ('d \<Rightarrow> bool) \<Rightarrow> 'd corridor_call \<Rightarrow> Sample \<Rightarrow> bool" where
  "scan_of fl P (ObScan stamp received clearance valid) s \<longleftrightarrow>
    sp_stamp s = stamp \<and> sp_received s = received \<and> valid \<and> fl_finite fl clearance \<and> P clearance"
| "scan_of fl P (ObCostmap stamp received occupied valid) s \<longleftrightarrow> False"

text \<open>The valid samples of a window are scans, in the order of their stamps, up to the last one.\<close>

definition scanned :: "('d, 'x) floating_scheme \<Rightarrow> ('d \<Rightarrow> bool) \<Rightarrow> 'd corridor_call list \<Rightarrow> int \<Rightarrow> Sample \<Rightarrow> bool" where
  "scanned fl P cs latest s \<longleftrightarrow> (sp_valid s \<longrightarrow> sp_stamp s \<le> latest \<and> (\<exists>call \<in> set cs. scan_of fl P call s))"

lemma scanned_more: "scanned fl P cs latest s \<Longrightarrow> latest \<le> later \<Longrightarrow> scanned fl P (cs @ ds) later s"
  by (auto simp: scanned_def)

lemma scanned_last: "scan_of fl P c s \<Longrightarrow> scanned fl P (cs @ [c]) (sp_stamp s) s"
  by (simp add: scanned_def)

lemma scanned_none [simp]: "scanned fl P cs latest no_sample"
  by (simp add: scanned_def no_sample_def)

fun window_ok :: "('d, 'x) floating_scheme \<Rightarrow> ('d \<Rightarrow> bool) \<Rightarrow> 'd corridor_call list \<Rightarrow> int \<Rightarrow> window \<Rightarrow> bool" where
  "window_ok fl P cs latest (a, b, c) \<longleftrightarrow>
    scanned fl P cs latest a \<and> scanned fl P cs latest b \<and> scanned fl P cs latest c \<and>
    (sp_valid a \<and> sp_valid b \<longrightarrow> sp_stamp a < sp_stamp b) \<and> (sp_valid b \<and> sp_valid c \<longrightarrow> sp_stamp b < sp_stamp c)"

lemma no_window_ok [simp]: "window_ok fl P cs latest no_window"
  by (simp add: no_window_def) (simp add: no_sample_def)

lemma window_ok_more: "window_ok fl P cs latest w \<Longrightarrow> latest \<le> later \<Longrightarrow> window_ok fl P (cs @ ds) later w"
  by (cases w) (auto intro: scanned_more)

lemma window_ok_shift:
  assumes "window_ok fl P cs latest w" and "latest < sp_stamp s" and "scan_of fl P c s"
  shows "window_ok fl P (cs @ [c]) (sp_stamp s) (shift_window s w)"
proof -
  obtain x y z where w: "w = (x, y, z)" by (cases w)
  have more: "scanned fl P (cs @ [c]) (sp_stamp s) v" if "scanned fl P cs latest v" for v
    by (rule scanned_more [OF that]) (use assms(2) in simp)
  have "sp_valid z \<longrightarrow> sp_stamp z < sp_stamp s"
    using assms(1,2) by (auto simp: w scanned_def)
  with assms(1) show ?thesis by (simp add: w more scanned_last [OF assms(3)])
qed

definition corridor_ok :: "('d, 'x) floating_scheme \<Rightarrow> 'd corridor_call list \<Rightarrow> 'd obstacle_watch \<Rightarrow> bool" where
  "corridor_ok fl cs w \<longleftrightarrow>
    window_ok fl (clear_distance fl) cs (sp_stamp (ow_scan w)) (ow_clear w) \<and>
    window_ok fl (close_distance fl) cs (sp_stamp (ow_scan w)) (ow_close w) \<and>
    (sp_valid (ow_costmap w) \<longrightarrow>
      ObCostmap (sp_stamp (ow_costmap w)) (sp_received (ow_costmap w)) (ow_occupied w) True \<in> set cs)"

lemma window_ok_scan:
  assumes "window_ok fl P cs latest w" and "latest < sp_stamp s"
    and "Q \<longrightarrow> scan_of fl P c s"
  shows "window_ok fl P (cs @ [c]) (sp_stamp s) (if Q then shift_window s w else no_window)"
  using assms by (simp add: window_ok_shift)

lemma corridor_ok_step:
  assumes "corridor_ok fl cs w"
  shows "corridor_ok fl (cs @ [c]) (fst (corridor_step fl w c))"
proof (cases c)
  case (ObScan stamp received clearance valid)
  let ?s = "\<lparr>sp_stamp = stamp, sp_received = received,
    sp_valid = valid \<and> fl_finite fl clearance \<and> fl_leq fl (fl_zero fl) clearance\<rparr>"
  show ?thesis
  proof (cases "stamp \<le> sp_stamp (ow_scan w)")
    case True
    with assms show ?thesis
      by (auto simp: ObScan observe_scan_def corridor_ok_def intro: window_ok_more)
  next
    case False
    have clear: "window_ok fl (clear_distance fl) (cs @ [c]) (sp_stamp ?s)
        (if sp_valid ?s \<and> clear_distance fl clearance then shift_window ?s (ow_clear w) else no_window)"
      using assms False by (intro window_ok_scan [where latest = "sp_stamp (ow_scan w)"]) (auto simp: corridor_ok_def ObScan)
    have "window_ok fl (close_distance fl) (cs @ [c]) (sp_stamp ?s)
        (if sp_valid ?s \<and> close_distance fl clearance then shift_window ?s (ow_close w) else no_window)"
      using assms False by (intro window_ok_scan [where latest = "sp_stamp (ow_scan w)"]) (auto simp: corridor_ok_def ObScan)
    with clear show ?thesis
      using assms False by (auto simp: ObScan observe_scan_def corridor_ok_def Let_def)
  qed
next
  case (ObCostmap stamp received occupied valid)
  with assms show ?thesis
    by (auto simp: observe_costmap_def corridor_ok_def intro: window_ok_more)
qed

lemma corridor_run_ok: "corridor_ok fl cs (run (corridor_step fl) (new_obstacle_watch fl) cs)"
proof (induction cs rule: rev_induct)
  case Nil
  show ?case by (simp add: corridor_ok_def new_obstacle_watch_def) (simp add: no_sample_def)
next
  case (snoc c cs)
  then show ?case by (simp add: run_append corridor_ok_step)
qed

text \<open>Three scans of one kind, the later with the greater stamps.\<close>

definition three_scans ::
  "('d, 'x) floating_scheme \<Rightarrow> ('d \<Rightarrow> bool) \<Rightarrow> (Sample \<Rightarrow> bool) \<Rightarrow> 'd corridor_call list \<Rightarrow> bool" where
  "three_scans fl P Q cs \<longleftrightarrow> (\<exists>a b c. sp_stamp a < sp_stamp b \<and> sp_stamp b < sp_stamp c \<and>
    (\<forall>s \<in> {a, b, c}. Q s \<and> (\<exists>call \<in> set cs. scan_of fl P call s)))"

lemma window_three:
  assumes "window_ok fl P cs latest w" and "list_all (\<lambda>s. sp_valid s \<and> Q s) (window_samples w)"
  shows "three_scans fl P Q cs"
proof -
  obtain a b c where w: "w = (a, b, c)" by (cases w)
  from assms have "sp_stamp a < sp_stamp b \<and> sp_stamp b < sp_stamp c \<and>
    (\<forall>s \<in> {a, b, c}. Q s \<and> (\<exists>call \<in> set cs. scan_of fl P call s))"
    by (simp add: w scanned_def)
  then show ?thesis unfolding three_scans_def by blast
qed

text \<open>
  C31. Motion is resumed on new evidence only. When the watch lets the robot resume after
  the stopped boundary, it has been given three distinct finite scans with more than 1.3 m
  clearance and a valid cost map without the obstacle, all of them both produced and
  received after the boundary, and every scan received less than 1.5 s ago.
\<close>

theorem resume_needs_new_clear_scans:
  assumes "can_resume fl now clock after_ms after_ns (run (corridor_step fl) (new_obstacle_watch fl) cs)"
  shows "three_scans fl (clear_distance fl)
      (\<lambda>s. sp_stamp s > after_ns \<and> sp_received s > after_ms \<and> now - sp_received s < 1500) cs \<and>
    (\<exists>stamp received. stamp > after_ns \<and> received > after_ms \<and> ObCostmap stamp received False True \<in> set cs)"
proof -
  let ?w = "run (corridor_step fl) (new_obstacle_watch fl) cs"
  note ok = corridor_run_ok [of fl cs]
  have "list_all (\<lambda>s. sp_valid s \<and> (sp_stamp s > after_ns \<and> sp_received s > after_ms \<and> now - sp_received s < 1500))
      (window_samples (ow_clear ?w))"
    using assms unfolding can_resume_def list_all_iff sample_fresh_def by blast
  then have "three_scans fl (clear_distance fl)
      (\<lambda>s. sp_stamp s > after_ns \<and> sp_received s > after_ms \<and> now - sp_received s < 1500) cs"
    using ok unfolding corridor_ok_def by (blast intro: window_three)
  moreover have "sp_valid (ow_costmap ?w)" "\<not> ow_occupied ?w" "sp_stamp (ow_costmap ?w) > after_ns"
      "sp_received (ow_costmap ?w) > after_ms"
    using assms by (auto simp: can_resume_def corridor_ready_def costmap_fresh_def sample_fresh_def)
  ultimately show ?thesis using ok unfolding corridor_ok_def by auto
qed

theorem resume_needs_new_clear_scans_witness:
  "three_scans demo_trigonometry (clear_distance demo_trigonometry)
      (\<lambda>s. sp_stamp s > 50 \<and> sp_received s > 5 \<and> 100 - sp_received s < 1500) demo_obstacle_free \<and>
    (\<exists>stamp received. stamp > 50 \<and> received > 5 \<and> ObCostmap stamp received False True \<in> set demo_obstacle_free)"
  by (rule resume_needs_new_clear_scans [where clock = 400]) code_simp

text \<open>
  A corridor is called blocked on three distinct scans that saw something within
  1.05 m, all received less than 1.5 s ago, and a valid cost map that has the obstacle.
\<close>

theorem blocked_needs_close_scans:
  assumes "decision now clock (run (corridor_step fl) (new_obstacle_watch fl) cs) = ObBlocked"
  shows "three_scans fl (close_distance fl) (\<lambda>s. now - sp_received s < 1500) cs \<and>
    (\<exists>stamp received. ObCostmap stamp received True True \<in> set cs)"
proof -
  let ?w = "run (corridor_step fl) (new_obstacle_watch fl) cs"
  note ok = corridor_run_ok [of fl cs]
  have "list_all (\<lambda>s. sp_valid s \<and> now - sp_received s < 1500) (window_samples (ow_close ?w))"
    using assms unfolding decision_def list_all_iff list_ex_iff sample_fresh_def by (simp split: if_splits)
  then have "three_scans fl (close_distance fl) (\<lambda>s. now - sp_received s < 1500) cs"
    using ok unfolding corridor_ok_def by (blast intro: window_three)
  moreover have "sp_valid (ow_costmap ?w)" "ow_occupied ?w"
    using assms by (auto simp: decision_def costmap_fresh_def sample_fresh_def split: if_splits)
  ultimately show ?thesis using ok unfolding corridor_ok_def by auto
qed

theorem blocked_needs_close_scans_witness:
  "three_scans demo_trigonometry (close_distance demo_trigonometry) (\<lambda>s. 100 - sp_received s < 1500) demo_obstacle \<and>
    (\<exists>stamp received. ObCostmap stamp received True True \<in> set demo_obstacle)"
  by (rule blocked_needs_close_scans [where clock = 400]) code_simp

subsection \<open>Rest\<close>

text \<open>A sample of a run that was valid when it came.\<close>

definition valid_in :: "('d, 'x) floating_scheme \<Rightarrow> int \<Rightarrow> 'd motion_call list \<Rightarrow> 'd MotionSample \<Rightarrow> bool" where
  "valid_in fl after cs m \<longleftrightarrow> ms_stamp_ns m > after \<and>
    (\<exists>clock clock_age. MoSample m clock clock_age \<in> set cs \<and> \<not> invalid_sample fl m clock clock_age after)"

lemma valid_in_more: "valid_in fl after cs m \<Longrightarrow> valid_in fl after (cs @ ds) m"
  by (auto simp: valid_in_def)

definition in_step :: "'d MotionSample \<Rightarrow> 'd MotionSample \<Rightarrow> bool" where
  "in_step a b \<longleftrightarrow> ms_stamp_ns a < ms_stamp_ns b \<and> ms_stamp_ns b - ms_stamp_ns a \<le> 250000000"

text \<open>The samples of a window since it began to count.\<close>

definition resting :: "('d, 'x) trigonometry_scheme \<Rightarrow> 'd motion_call list \<Rightarrow> 'd motion_window \<Rightarrow> 'd MotionSample list \<Rightarrow> bool" where
  "resting fl cs w qs \<longleftrightarrow> qs \<noteq> [] \<and> mw_first w = Some (hd qs) \<and> mw_previous w = Some (last qs) \<and>
    length qs = mw_count w \<and> successively in_step qs \<and>
    (\<forall>m \<in> set qs. \<not> moved_from fl (hd qs) m \<and> valid_in fl (mw_after w) cs m)"

definition window_seen :: "('d, 'x) trigonometry_scheme \<Rightarrow> int \<Rightarrow> 'd motion_call list \<Rightarrow> 'd motion_window \<Rightarrow> bool" where
  "window_seen fl after cs w \<longleftrightarrow> mw_after w = after \<and> (mw_status w \<noteq> MsRejected \<longrightarrow>
    (mw_first w = None \<longrightarrow> mw_count w = 0 \<and> mw_status w = MsPending) \<and>
    (mw_first w \<noteq> None \<longrightarrow> (\<exists>qs. resting fl cs w qs \<and>
      (mw_status w = MsObserved \<longrightarrow> length qs \<ge> 10 \<and> ms_stamp_ns (last qs) - ms_stamp_ns (hd qs) \<ge> 1000000000))))"

lemma window_seen_more: "window_seen fl after cs w \<Longrightarrow> window_seen fl after (cs @ ds) w"
  unfolding window_seen_def resting_def by (blast intro: valid_in_more)

lemma window_seen_rejected: "mw_after w = after \<Longrightarrow> mw_status w = MsRejected \<Longrightarrow> window_seen fl after cs w"
  by (simp add: window_seen_def)

lemma rest_sample_seen:
  assumes w: "mw_after w = after" "mw_status w = MsPending"
    and qs: "qs \<noteq> []" "hd qs = first" "last qs = m" "length qs = mw_count w + 1" "successively in_step qs"
      "\<forall>q \<in> set (butlast qs). \<not> moved_from fl first q \<and> valid_in fl after cs q"
    and m: "valid_in fl after cs m"
  shows "window_seen fl after cs (rest_sample fl first m w)"
proof (cases "moved_from fl first m")
  case True
  with w show ?thesis by (intro window_seen_rejected) (simp_all add: rest_sample_def Let_def)
next
  case False
  have "\<forall>q \<in> set qs. \<not> moved_from fl first q \<and> valid_in fl after cs q"
    using qs(6) m False qs(1,3) append_butlast_last_id [of qs] by (metis Un_iff empty_iff insert_iff list.set set_append)
  with False w qs show ?thesis
    by (auto simp: rest_sample_def Let_def window_seen_def resting_def intro!: exI [of _ qs])
qed

lemma observe_motion_seen:
  assumes "window_seen fl after cs w"
  shows "window_seen fl after (cs @ [MoSample m clock clock_age]) (observe_motion fl m clock clock_age w)"
proof -
  let ?cs = "cs @ [MoSample m clock clock_age]"
  note more = window_seen_more [OF assms, of "[MoSample m clock clock_age]"]
  have after: "mw_after w = after" using assms by (simp add: window_seen_def)
  consider (ignored) "observe_motion fl m clock clock_age w = w"
    | (rejected) "mw_status w = MsPending" "observe_motion fl m clock clock_age w = w\<lparr>mw_status := MsRejected\<rparr>"
    | (taken) "mw_status w = MsPending" "ms_stamp_ns m > after" "\<not> invalid_sample fl m clock clock_age after"
        "\<not> out_of_step (mw_previous w) m"
        "observe_motion fl m clock clock_age w = (case mw_first w of
           None \<Rightarrow> if moving fl m then w\<lparr>mw_previous := Some m, mw_settling := mw_settling w + 1\<rparr>
             else rest_sample fl m m w
         | Some first \<Rightarrow> rest_sample fl first m w)"
  proof (cases "mw_status w \<noteq> MsPending \<or> ms_stamp_ns m \<le> after \<or> (mw_first w = None \<and> clock < after)")
    case True
    then have "observe_motion fl m clock clock_age w = w" by (auto simp: observe_motion_def after)
    then show ?thesis by (rule ignored)
  next
    case False
    then have late: "mw_status w = MsPending" "\<not> ms_stamp_ns m \<le> after"
        "\<not> (mw_first w = None \<and> clock < after)"
      by auto
    have step: "observe_motion fl m clock clock_age w =
      (if invalid_sample fl m clock clock_age after then w\<lparr>mw_status := MsRejected\<rparr>
       else if out_of_step (mw_previous w) m then w\<lparr>mw_status := MsRejected\<rparr>
       else case mw_first w of
         None \<Rightarrow> if moving fl m then w\<lparr>mw_previous := Some m, mw_settling := mw_settling w + 1\<rparr>
           else rest_sample fl m m w
       | Some first \<Rightarrow> rest_sample fl first m w)"
      unfolding observe_motion_def after if_not_P [OF late(3)] using late(1,2) by (simp only: if_False simp_thms)
    show ?thesis
    proof (cases "invalid_sample fl m clock clock_age after \<or> out_of_step (mw_previous w) m")
      case True
      with step have "observe_motion fl m clock clock_age w = w\<lparr>mw_status := MsRejected\<rparr>" by auto
      with late(1) show ?thesis by (rule rejected)
    next
      case False
      with step late show ?thesis by (intro taken) simp_all
    qed
  qed
  then show ?thesis
  proof cases
    case ignored
    with more show ?thesis by simp
  next
    case rejected
    with after show ?thesis by (simp add: window_seen_rejected)
  next
    case taken
    then have m: "valid_in fl after ?cs m" by (auto simp: valid_in_def)
    show ?thesis
    proof (cases "mw_first w")
      case None
      with assms taken(1) have count: "mw_count w = 0" by (simp add: window_seen_def)
      have "window_seen fl after ?cs (rest_sample fl m m w)"
        by (rule rest_sample_seen [where qs = "[m]"]) (use after taken(1) count m in simp_all)
      moreover have "window_seen fl after ?cs (w\<lparr>mw_previous := Some m, mw_settling := mw_settling w + 1\<rparr>)"
        using after taken(1) count None by (simp add: window_seen_def)
      ultimately show ?thesis using taken(5) None by simp
    next
      case (Some first)
      with more taken(1) obtain qs where qs: "resting fl ?cs w qs" by (auto simp: window_seen_def)
      have "in_step (last qs) m"
        using qs taken(4) by (auto simp: resting_def out_of_step_def in_step_def)
      then have "window_seen fl after ?cs (rest_sample fl first m w)"
        using qs after taken(1) m Some
        by (intro rest_sample_seen [where qs = "qs @ [m]"]) (auto simp: resting_def successively_append_iff)
      with taken(5) Some show ?thesis by simp
    qed
  qed
qed

lemma window_run_seen: "window_seen fl after cs (run (motion_step fl) (new_motion_window fl after) cs)"
proof (induction cs rule: rev_induct)
  case Nil
  show ?case by (simp add: window_seen_def new_motion_window_def)
next
  case (snoc c cs)
  then show ?case
    by (cases c)
      (auto simp: run_append observe_motion_seen reject_motion_def intro!: window_seen_rejected, simp add: window_seen_def)
qed

text \<open>
  C32. Rest is seen, never assumed. A window that reports the robot at rest has been given
  at least ten valid samples after its start, in step (each later than the one before by
  at most 250 ms), over at least a second, each of them slow and near the pose of the
  first.
\<close>

theorem rest_is_seen:
  assumes "mw_status (run (motion_step fl) (new_motion_window fl after) cs) = MsObserved"
  shows "\<exists>qs. length qs \<ge> 10 \<and> successively in_step qs \<and>
    ms_stamp_ns (last qs) - ms_stamp_ns (hd qs) \<ge> 1000000000 \<and>
    (\<forall>m \<in> set qs. \<not> moving fl m \<and> \<not> moved_from fl (hd qs) m \<and> valid_in fl after cs m)"
proof -
  let ?w = "run (motion_step fl) (new_motion_window fl after) cs"
  have s: "window_seen fl after cs ?w" by (rule window_run_seen)
  with assms have "mw_first ?w \<noteq> None" by (auto simp: window_seen_def)
  with s assms obtain qs where "resting fl cs ?w qs" "length qs \<ge> 10"
    "ms_stamp_ns (last qs) - ms_stamp_ns (hd qs) \<ge> 1000000000" "mw_after ?w = after"
    by (auto simp: window_seen_def)
  then show ?thesis
    by (intro exI [of _ qs]) (auto simp: resting_def moved_from_def)
qed

theorem rest_is_seen_witness:
  "\<exists>qs. length qs \<ge> 10 \<and> successively in_step qs \<and>
    ms_stamp_ns (last qs) - ms_stamp_ns (hd qs) \<ge> 1000000000 \<and>
    list_all (\<lambda>m. \<not> moving demo_trigonometry m \<and> \<not> moved_from demo_trigonometry (hd qs) m \<and>
      valid_in demo_trigonometry 0 demo_rest m) qs"
  unfolding list_all_iff by (rule rest_is_seen) code_simp

end
