(* ===== verification/Closure_Observations.thy ===== *)
theory Closure_Observations
  imports Motion_Permission Program
begin

text \<open>
  \<open>integrations/ros2/nav2_observation/closure_observations.hpp\<close>: the matcher of the
  native evidence that one navigation is over. It joins, for one scope, the identity links
  and worker acknowledgements of two child actions, the closure of the behaviour tree and
  the drive's report that it has applied its zeros. Any contradiction rejects the whole
  observation for good. The JSON library is an argument.
\<close>

subsection \<open>JSON events\<close>

datatype json = JString string | JBool bool | JUnsigned u64 | JInteger u64 | JOther

datatype document = JObject "string \<Rightarrow> json option" | JNoObject

text \<open>
  The library's parser, \<open>None\<close> when it throws, and its comparison of a value with the
  largest signed 64-bit integer.
\<close>

record json_api =
  js_parse :: "string \<Rightarrow> document option"
  js_fits :: "json \<Rightarrow> bool"

type_synonym event = "string \<Rightarrow> json option"

fun is_number_unsigned :: "json \<Rightarrow> bool" where
  "is_number_unsigned (JUnsigned n) \<longleftrightarrow> True"
| "is_number_unsigned j \<longleftrightarrow> False"

fun is_number_integer :: "json \<Rightarrow> bool" where
  "is_number_integer (JUnsigned n) \<longleftrightarrow> True"
| "is_number_integer (JInteger n) \<longleftrightarrow> True"
| "is_number_integer j \<longleftrightarrow> False"

text \<open>\<open>get<std::int64_t>\<close> of a number.\<close>

fun int64_of :: "json \<Rightarrow> int" where
  "int64_of (JUnsigned n) = sint n"
| "int64_of (JInteger n) = sint n"
| "int64_of j = 0"

subsection \<open>The matcher\<close>

definition uuid :: "string \<Rightarrow> bool" where
  "uuid text \<longleftrightarrow> length text = 32 \<and> text \<noteq> replicate 32 (CHR ''0'') \<and> list_all hex_digit text"

record Child =
  ch_link :: "string option"
  ch_ack :: "string option"

record closure =
  co_scope :: string
  co_parent :: string
  co_generation :: u64
  co_planner :: Child
  co_controller :: Child
  co_bt_closed :: bool
  co_rejected :: bool
  co_drive_rejected :: bool
  co_drive_stamp :: int

type_synonym 'a observes = "(closure, unit, 'a) fallible"

definition no_child :: Child where
  "no_child = \<lparr>ch_link = None, ch_ack = None\<rparr>"

text \<open>The constructor throws, \<open>None\<close>, on an invalid scope.\<close>

definition new_closure :: "string \<Rightarrow> u64 \<Rightarrow> closure option" where
  "new_closure scope generation =
    (if uuid scope
     then Some \<lparr>co_scope = scope, co_parent = [], co_generation = generation, co_planner = no_child,
       co_controller = no_child, co_bt_closed = False, co_rejected = False, co_drive_rejected = False,
       co_drive_stamp = 0\<rparr>
     else None)"

definition reject :: "closure \<Rightarrow> closure" where
  "reject s = s\<lparr>co_rejected := True\<rparr>"

text \<open>\<open>check\<close>: a fact that does not hold rejects the observation and throws.\<close>

definition check :: "bool \<Rightarrow> unit observes" where
  "check holds = (if holds then yields () else do {
     changes reject;
     fails ()
   })"

text \<open>A function-try-block that rejects and throws again.\<close>

definition rejecting :: "(closure \<Rightarrow> closure) \<Rightarrow> 'a observes \<Rightarrow> 'a observes" where
  "rejecting f m = do {
     r \<leftarrow> m;
     case r of Inl e \<Rightarrow> do {
       changes f;
       fails e
     } | Inr a \<Rightarrow> yields a
   }"

definition parse_wire :: "json_api \<Rightarrow> string \<Rightarrow> event observes" where
  "parse_wire js wire = attempt (check (length wire \<le> 4096)) (\<lambda>_.
     case js_parse js wire of
       Some (JObject event) \<Rightarrow> yields event
     | _ \<Rightarrow> do {
         changes reject;
         fails ()
       })"

text \<open>\<open>event.at(key)\<close> throws when the key is missing, \<open>get<std::string>\<close> when the value is no string.\<close>

definition at_key :: "event \<Rightarrow> string \<Rightarrow> json observes" where
  "at_key event key = (case event key of None \<Rightarrow> fails () | Some v \<Rightarrow> yields v)"

definition at_string :: "event \<Rightarrow> string \<Rightarrow> string observes" where
  "at_string event key = (case event key of Some (JString v) \<Rightarrow> yields v | _ \<Rightarrow> fails ())"

definition bind_parent :: "string \<Rightarrow> unit observes" where
  "bind_parent parent = do {
     s \<leftarrow> reads (\<lambda>s. s);
     attempt (check (uuid parent \<and> (co_parent s = [] \<or> co_parent s = parent)))
       (\<lambda>_. does (changes (\<lambda>s. s\<lparr>co_parent := parent\<rparr>)))
   }"

subsection \<open>Children\<close>

definition child_of :: "nat \<Rightarrow> closure \<Rightarrow> Child" where
  "child_of index s = (if index = 0 then co_planner s else co_controller s)"

definition set_child :: "nat \<Rightarrow> Child \<Rightarrow> closure \<Rightarrow> closure" where
  "set_child index c s = (if index = 0 then s\<lparr>co_planner := c\<rparr> else s\<lparr>co_controller := c\<rparr>)"

definition action_name :: "nat \<Rightarrow> string" where
  "action_name index = (if index = 0 then ''compute_path_to_pose'' else ''follow_path'')"

definition observe_ack :: "nat \<Rightarrow> event \<Rightarrow> unit observes" where
  "observe_ack index event =
     attempt (check (event ''event'' = Some (JString (action_name index @ ''_worker_ack'')) \<and>
       event ''worker_future_ready'' = Some (JBool True) \<and> event ''endpoint_sealed'' = Some (JBool True))) (\<lambda>_.
     attempt (at_string event ''goal_uuid'') (\<lambda>i. do {
       child \<leftarrow> reads (child_of index);
       attempt (check (uuid i \<and> (ch_ack child = None \<or> ch_ack child = Some i)))
         (\<lambda>_. does (changes (set_child index (child\<lparr>ch_ack := Some i\<rparr>))))
     }))"

definition observe_link :: "nat \<Rightarrow> event \<Rightarrow> unit observes" where
  "observe_link index event = do {
     scope \<leftarrow> reads co_scope;
     attempt (check (event ''event'' = Some (JString ''navigation_child_link'') \<and>
       event ''scope_id'' = Some (JString scope) \<and> event ''action'' = Some (JString (action_name index)))) (\<lambda>_.
     attempt (at_string event ''child_uuid'') (\<lambda>i. do {
       child \<leftarrow> reads (child_of index);
       attempt (check (uuid i \<and> (ch_link child = None \<or> ch_link child = Some i)))
         (\<lambda>_. does (changes (set_child index (child\<lparr>ch_link := Some i\<rparr>))))
     }))
   }"

definition observe_child :: "json_api \<Rightarrow> nat \<Rightarrow> bool \<Rightarrow> string \<Rightarrow> unit observes" where
  "observe_child js index acknowledgement wire = rejecting reject
     (attempt (check (index < 2)) (\<lambda>_.
      attempt (parse_wire js wire) (\<lambda>event.
      attempt (if acknowledgement then observe_ack index event else observe_link index event) (\<lambda>_. do {
        child \<leftarrow> reads (child_of index);
        check (ch_link child = None \<or> ch_ack child = None \<or> ch_link child = ch_ack child)
      }))))"

definition child_closed :: "Child \<Rightarrow> bool" where
  "child_closed c \<longleftrightarrow> ch_link c \<noteq> None \<and> ch_ack c \<noteq> None \<and> ch_link c = ch_ack c"

definition workers_closed :: "closure \<Rightarrow> bool" where
  "workers_closed s \<longleftrightarrow>
    \<not> co_rejected s \<and> co_parent s \<noteq> [] \<and> child_closed (co_planner s) \<and> child_closed (co_controller s)"

subsection \<open>The tree and the drive\<close>

definition ordered :: "json_api \<Rightarrow> event \<Rightarrow> int \<Rightarrow> int \<Rightarrow> unit observes" where
  "ordered js event requested received =
     attempt (at_key event ''steady_ns'') (\<lambda>v.
     attempt (check (is_number_integer v \<and> js_fits js v)) (\<lambda>_.
       check (requested > 0 \<and> requested \<le> int64_of v \<and> int64_of v \<le> received)))"

definition observe_bt :: "json_api \<Rightarrow> string \<Rightarrow> int \<Rightarrow> int \<Rightarrow> unit observes" where
  "observe_bt js wire requested received = rejecting reject
     (attempt (parse_wire js wire) (\<lambda>event. do {
       s \<leftarrow> reads (\<lambda>s. s);
       attempt (check (workers_closed s \<and> event ''event'' = Some (JString ''navigation_bt_closed'') \<and>
         event ''scope_id'' = Some (JString (co_scope s)) \<and> event ''bt_worker_joined'' = Some (JBool True) \<and>
         event ''endpoint_sealed'' = Some (JBool True) \<and> event ''tree_idle'' = Some (JBool True))) (\<lambda>_.
       attempt (ordered js event requested received) (\<lambda>_.
         does (changes (\<lambda>s. s\<lparr>co_bt_closed := True\<rparr>))))
     }))"

text \<open>Whether the event is of an earlier generation, once its generation has been validated.\<close>

definition earlier_generation :: "event \<Rightarrow> bool observes" where
  "earlier_generation event = do {
     generation \<leftarrow> reads co_generation;
     if generation = 0 then yields False
     else attempt (at_key event ''generation'') (\<lambda>v.
       case v of
         JUnsigned g \<Rightarrow> if g < generation then yields True
           else attempt (check (g = generation)) (\<lambda>_. yields False)
       | _ \<Rightarrow> attempt (check False) (\<lambda>_. yields False))
   }"

definition reject_drive :: "closure \<Rightarrow> closure" where
  "reject_drive s = s\<lparr>co_drive_rejected := True, co_rejected := True\<rparr>"

definition positive_unsigned :: "json \<Rightarrow> bool" where
  "positive_unsigned v \<longleftrightarrow> (case v of JUnsigned n \<Rightarrow> n > 0 | _ \<Rightarrow> False)"

definition drive_update :: "json_api \<Rightarrow> event \<Rightarrow> unit observes" where
  "drive_update js event =
     attempt (at_key event ''update_sequence'') (\<lambda>n.
     attempt (check (positive_unsigned n)) (\<lambda>_.
     attempt (at_key event ''sim_ns'') (\<lambda>v.
     attempt (check (is_number_integer v \<and> js_fits js v)) (\<lambda>_. do {
       stamp \<leftarrow> reads co_drive_stamp;
       attempt (check (int64_of v > 0 \<and> (stamp = 0 \<or> stamp = int64_of v)))
         (\<lambda>_. does (changes (\<lambda>s. s\<lparr>co_drive_stamp := int64_of v\<rparr>)))
     }))))"

definition observe_drive :: "json_api \<Rightarrow> string \<Rightarrow> int \<Rightarrow> int \<Rightarrow> unit observes" where
  "observe_drive js wire requested received = rejecting reject_drive
     (attempt (parse_wire js wire) (\<lambda>event.
      attempt (earlier_generation event) (\<lambda>earlier.
        if earlier then yields ()
        else do {
          scope \<leftarrow> reads co_scope;
          attempt (check (event ''event'' = Some (JString ''motion_scope_applied'') \<and>
            event ''scope_id'' = Some (JString scope) \<and> event ''sealed'' = Some (JBool True) \<and>
            event ''wheel_targets_zero'' = Some (JBool True))) (\<lambda>_.
          attempt (ordered js event requested received) (\<lambda>_. drive_update js event))
        })))"

definition drive_closed :: "closure \<Rightarrow> bool" where
  "drive_closed s \<longleftrightarrow> \<not> co_drive_rejected s \<and> co_drive_stamp s > 0"

definition closure_closed :: "closure \<Rightarrow> bool" where
  "closure_closed s \<longleftrightarrow> workers_closed s \<and> co_bt_closed s \<and> drive_closed s"

subsection \<open>The machine\<close>

datatype closure_call =
    CoParent string
  | CoChild nat bool string
  | CoBt string int int
  | CoDrive string int int
  | CoReject

fun closure_member :: "json_api \<Rightarrow> closure_call \<Rightarrow> unit observes" where
  "closure_member js (CoParent parent) = bind_parent parent"
| "closure_member js (CoChild index acknowledgement wire) = observe_child js index acknowledgement wire"
| "closure_member js (CoBt wire requested received) = observe_bt js wire requested received"
| "closure_member js (CoDrive wire requested received) = observe_drive js wire requested received"
| "closure_member js CoReject = does (changes reject)"

definition closure_step :: "json_api \<Rightarrow> closure \<Rightarrow> closure_call \<Rightarrow> closure \<times> (unit + unit)" where
  "closure_step js s c = (case run_state (closure_member js c) s of (r, s) \<Rightarrow> (s, r))"

end
