(* ===== verification/Closure_Observations_Properties.thy ===== *)
theory Closure_Observations_Properties
  imports Closure_Observations
begin

text \<open>What a closed navigation has been shown, and that a rejected one stays rejected.\<close>

subsection \<open>Evidence in the calls\<close>

definition link_shown :: "json_api \<Rightarrow> string \<Rightarrow> nat \<Rightarrow> string \<Rightarrow> closure_call \<Rightarrow> bool" where
  "link_shown js scope index i c \<longleftrightarrow> (\<exists>wire event. c = CoChild index False wire \<and>
    js_parse js wire = Some (JObject event) \<and> event ''event'' = Some (JString ''navigation_child_link'') \<and>
    event ''scope_id'' = Some (JString scope) \<and> event ''action'' = Some (JString (action_name index)) \<and>
    event ''child_uuid'' = Some (JString i))"

definition ack_shown :: "json_api \<Rightarrow> nat \<Rightarrow> string \<Rightarrow> closure_call \<Rightarrow> bool" where
  "ack_shown js index i c \<longleftrightarrow> (\<exists>wire event. c = CoChild index True wire \<and>
    js_parse js wire = Some (JObject event) \<and> event ''event'' = Some (JString (action_name index @ ''_worker_ack'')) \<and>
    event ''worker_future_ready'' = Some (JBool True) \<and> event ''endpoint_sealed'' = Some (JBool True) \<and>
    event ''goal_uuid'' = Some (JString i))"

definition timed :: "event \<Rightarrow> int \<Rightarrow> int \<Rightarrow> bool" where
  "timed event requested received \<longleftrightarrow> (\<exists>v. event ''steady_ns'' = Some v \<and> is_number_integer v \<and> 0 < requested \<and>
    requested \<le> int64_of v \<and> int64_of v \<le> received)"

definition bt_shown :: "json_api \<Rightarrow> string \<Rightarrow> closure_call \<Rightarrow> bool" where
  "bt_shown js scope c \<longleftrightarrow> (\<exists>wire requested received event. c = CoBt wire requested received \<and>
    js_parse js wire = Some (JObject event) \<and> event ''event'' = Some (JString ''navigation_bt_closed'') \<and>
    event ''scope_id'' = Some (JString scope) \<and> event ''bt_worker_joined'' = Some (JBool True) \<and>
    event ''endpoint_sealed'' = Some (JBool True) \<and> event ''tree_idle'' = Some (JBool True) \<and>
    timed event requested received)"

definition drive_shown :: "json_api \<Rightarrow> string \<Rightarrow> u64 \<Rightarrow> int \<Rightarrow> closure_call \<Rightarrow> bool" where
  "drive_shown js scope generation stamp c \<longleftrightarrow> (\<exists>wire requested received event v. c = CoDrive wire requested received \<and>
    js_parse js wire = Some (JObject event) \<and>
    (generation \<noteq> 0 \<longrightarrow> event ''generation'' = Some (JUnsigned generation)) \<and>
    event ''event'' = Some (JString ''motion_scope_applied'') \<and> event ''scope_id'' = Some (JString scope) \<and>
    event ''sealed'' = Some (JBool True) \<and> event ''wheel_targets_zero'' = Some (JBool True) \<and>
    timed event requested received \<and> event ''sim_ns'' = Some v \<and> int64_of v = stamp \<and> stamp > 0)"

text \<open>A call explains every fact that it adds.\<close>

definition explains :: "json_api \<Rightarrow> closure_call \<Rightarrow> closure \<Rightarrow> closure \<Rightarrow> bool" where
  "explains js c s t \<longleftrightarrow>
    co_scope t = co_scope s \<and> co_generation t = co_generation s \<and>
    (co_rejected s \<longrightarrow> co_rejected t) \<and> (co_drive_rejected s \<longrightarrow> co_drive_rejected t) \<and>
    (\<forall>index < 2. \<forall>i. ch_link (child_of index t) = Some i \<longrightarrow>
      ch_link (child_of index s) = Some i \<or> link_shown js (co_scope s) index i c) \<and>
    (\<forall>index < 2. \<forall>i. ch_ack (child_of index t) = Some i \<longrightarrow>
      ch_ack (child_of index s) = Some i \<or> ack_shown js index i c) \<and>
    (co_bt_closed t \<longrightarrow> co_bt_closed s \<or> bt_shown js (co_scope s) c) \<and>
    (co_drive_stamp t = co_drive_stamp s \<or> drive_shown js (co_scope s) (co_generation s) (co_drive_stamp t) c)"

lemma explains_refl [simp]: "explains js c s s"
  by (simp add: explains_def)

lemma child_of_update [simp]:
  "child_of index (s\<lparr>co_rejected := b\<rparr>) = child_of index s"
  "child_of index (s\<lparr>co_parent := p\<rparr>) = child_of index s"
  "child_of index (s\<lparr>co_bt_closed := b\<rparr>) = child_of index s"
  "child_of index (s\<lparr>co_drive_rejected := b\<rparr>) = child_of index s"
  "child_of index (s\<lparr>co_drive_stamp := n\<rparr>) = child_of index s"
  by (simp_all add: child_of_def)

lemma child_of_set: "index < 2 \<Longrightarrow> j < 2 \<Longrightarrow> child_of j (set_child index c s) = (if j = index then c else child_of j s)"
  by (auto simp: child_of_def set_child_def)

lemma set_child_fields [simp]:
  "co_scope (set_child index c s) = co_scope s"
  "co_generation (set_child index c s) = co_generation s"
  "co_rejected (set_child index c s) = co_rejected s"
  "co_drive_rejected (set_child index c s) = co_drive_rejected s"
  "co_bt_closed (set_child index c s) = co_bt_closed s"
  "co_drive_stamp (set_child index c s) = co_drive_stamp s"
  by (simp_all add: set_child_def)

lemma explains_reject: "explains js c s t \<Longrightarrow> explains js c s (reject t)" "explains js c s t \<Longrightarrow> explains js c s (reject_drive t)"
  by (simp_all add: explains_def reject_def reject_drive_def)

subsection \<open>Preconditions\<close>

lemma wp_check [wp_rules]: "wp (check holds) Q s = (if holds then Q (Inr ()) s else Q (Inl ()) (reject s))"
  by (simp add: check_def wp_rules)

lemma wp_rejecting:
  "wp (rejecting f m) Q s = wp m (\<lambda>r t. case r of Inl e \<Rightarrow> Q (Inl e) (f t) | Inr a \<Rightarrow> Q (Inr a) t) s"
proof -
  have "(\<lambda>r. wp (case r of Inl e \<Rightarrow> do {
       changes f;
       fails e
     } | Inr a \<Rightarrow> yields a) Q)
      = (\<lambda>r t. case r of Inl e \<Rightarrow> Q (Inl e) (f t) | Inr a \<Rightarrow> Q (Inr a) t)"
    by (intro ext) (auto simp: wp_rules split: sum.split)
  then show ?thesis by (simp add: rejecting_def wp_bind)
qed

lemma wp_parse_wire [wp_rules]:
  "wp (parse_wire js wire) Q s =
    (if length wire \<le> 4096 then
       (case js_parse js wire of Some (JObject event) \<Rightarrow> Q (Inr event) s | _ \<Rightarrow> Q (Inl ()) (reject s))
     else Q (Inl ()) (reject s))"
  by (simp add: parse_wire_def wp_rules split: option.split document.split)

lemma wp_at_key [wp_rules]: "wp (at_key event key) Q s = (case event key of None \<Rightarrow> Q (Inl ()) s | Some v \<Rightarrow> Q (Inr v) s)"
  by (simp add: at_key_def wp_rules split: option.split)

lemma wp_at_string [wp_rules]:
  "wp (at_string event key) Q s = (case event key of Some (JString v) \<Rightarrow> Q (Inr v) s | _ \<Rightarrow> Q (Inl ()) s)"
  by (simp add: at_string_def wp_rules split: option.split json.split)

lemma wp_ordered [wp_rules]:
  "wp (ordered js event requested received) Q s =
    (case event ''steady_ns'' of None \<Rightarrow> Q (Inl ()) s
     | Some v \<Rightarrow> if is_number_integer v \<and> js_fits js v \<and> requested > 0 \<and> requested \<le> int64_of v \<and> int64_of v \<le> received
         then Q (Inr ()) s else Q (Inl ()) (reject s))"
  by (auto simp: ordered_def wp_rules split: option.split)

subsection \<open>Every call explains what it adds\<close>

lemma observe_ack_explains:
  assumes "index < 2" and "js_parse js wire = Some (JObject event)"
  shows "wp (observe_ack index event) (\<lambda>r. explains js (CoChild index True wire) s) s"
  using assms
  by (auto simp: observe_ack_def wp_rules explains_def child_of_set ack_shown_def reject_def
      split: option.split json.split)

lemma observe_link_explains:
  assumes "index < 2" and "js_parse js wire = Some (JObject event)"
  shows "wp (observe_link index event) (\<lambda>r. explains js (CoChild index False wire) s) s"
  using assms
  by (auto simp: observe_link_def wp_rules explains_def child_of_set link_shown_def reject_def
      split: option.split json.split)

lemma observe_child_explains: "wp (observe_child js index a wire) (\<lambda>r. explains js (CoChild index a wire) s) s"
proof -
  let ?Q = "\<lambda>r t. explains js (CoChild index a wire) s t"
  have "wp (attempt (if a then observe_ack index event else observe_link index event) (\<lambda>_. do {
        child \<leftarrow> reads (child_of index);
        check (ch_link child = None \<or> ch_ack child = None \<or> ch_link child = ch_ack child)
      })) (\<lambda>r t. case r of Inl e \<Rightarrow> ?Q (Inl e) (reject t) | Inr b \<Rightarrow> ?Q (Inr b) t) s"
    if "index < 2" "js_parse js wire = Some (JObject event)" for event
  proof -
    have "wp (if a then observe_ack index event else observe_link index event) ?Q s"
      using observe_ack_explains [OF that] observe_link_explains [OF that] by (cases a) simp_all
    then show ?thesis
      unfolding wp_attempt
      by (rule wp_mono) (auto simp: wp_bind wp_reads wp_check explains_reject split: sum.split)
  qed
  then show ?thesis
    by (auto simp: observe_child_def wp_rejecting wp_attempt [of "check _"] wp_check wp_attempt [of "parse_wire _ _"]
        wp_parse_wire explains_reject split: option.split document.split)
qed

lemma observe_bt_explains:
  "wp (observe_bt js wire requested received) (\<lambda>r. explains js (CoBt wire requested received) s) s"
  by (auto simp: observe_bt_def wp_rejecting wp_rules explains_reject split: option.split document.split)
    (auto simp: explains_def bt_shown_def timed_def)

lemma drive_update_explains:
  assumes "js_parse js wire = Some (JObject event)"
    and "co_generation s \<noteq> 0 \<longrightarrow> event ''generation'' = Some (JUnsigned (co_generation s))"
    and "event ''event'' = Some (JString ''motion_scope_applied'')" and "event ''scope_id'' = Some (JString (co_scope s))"
    and "event ''sealed'' = Some (JBool True)" and "event ''wheel_targets_zero'' = Some (JBool True)"
    and "timed event requested received"
  shows "wp (drive_update js event) (\<lambda>r. explains js (CoDrive wire requested received) s) s"
  using assms
  by (auto simp: drive_update_def wp_rules explains_reject split: option.split)
    (auto simp: explains_def drive_shown_def)

lemma wp_earlier [wp_rules]:
  "wp (earlier_generation event) Q s =
    (if co_generation s = 0 then Q (Inr False) s
     else case event ''generation'' of
       None \<Rightarrow> Q (Inl ()) s
     | Some (JUnsigned g) \<Rightarrow> if g < co_generation s then Q (Inr True) s
         else if g = co_generation s then Q (Inr False) s else Q (Inl ()) (reject s)
     | Some v \<Rightarrow> Q (Inl ()) (reject s))"
  by (auto simp: earlier_generation_def wp_rules split: option.split json.split)

lemma observe_drive_explains:
  "wp (observe_drive js wire requested received) (\<lambda>r. explains js (CoDrive wire requested received) s) s"
proof -
  let ?Q = "\<lambda>r t. explains js (CoDrive wire requested received) s t"
  have "wp (do {
          scope \<leftarrow> reads co_scope;
          attempt (check (event ''event'' = Some (JString ''motion_scope_applied'') \<and>
            event ''scope_id'' = Some (JString scope) \<and> event ''sealed'' = Some (JBool True) \<and>
            event ''wheel_targets_zero'' = Some (JBool True))) (\<lambda>_.
          attempt (ordered js event requested received) (\<lambda>_. drive_update js event))
        }) (\<lambda>r t. case r of Inl e \<Rightarrow> ?Q (Inl e) (reject_drive t) | Inr b \<Rightarrow> ?Q (Inr b) t) s"
    if "js_parse js wire = Some (JObject event)"
      "co_generation s \<noteq> 0 \<longrightarrow> event ''generation'' = Some (JUnsigned (co_generation s))" for event
  proof -
    have "wp (drive_update js event) (\<lambda>r t. case r of Inl e \<Rightarrow> ?Q (Inl e) (reject_drive t) | Inr b \<Rightarrow> ?Q (Inr b) t) s"
      if "event ''event'' = Some (JString ''motion_scope_applied'')" "event ''scope_id'' = Some (JString (co_scope s))"
        "event ''sealed'' = Some (JBool True)" "event ''wheel_targets_zero'' = Some (JBool True)"
        "timed event requested received"
      by (rule wp_mono [OF drive_update_explains])
        (use that \<open>js_parse js wire = _\<close> \<open>co_generation s \<noteq> 0 \<longrightarrow> _\<close> in \<open>auto simp: explains_reject split: sum.split\<close>)
    then show ?thesis
      by (auto simp: wp_bind wp_reads wp_attempt wp_check wp_ordered explains_reject timed_def split: option.split)
  qed
  then show ?thesis
    by (auto simp: observe_drive_def wp_rejecting wp_attempt [of "parse_wire _ _"] wp_parse_wire
        wp_attempt [of "earlier_generation _"] wp_earlier wp_yields explains_reject
        split: option.split document.split json.split)
qed

lemma closure_step_explains: "explains js c s (fst (closure_step js s c))"
proof -
  have "wp (closure_member js c) (\<lambda>r. explains js c s) s"
    by (cases c)
      (auto simp: observe_child_explains observe_bt_explains observe_drive_explains bind_parent_def wp_rules explains_def
        reject_def)
  then show ?thesis by (simp add: closure_step_def wp_run split_beta)
qed

subsection \<open>A closed navigation\<close>

text \<open>Everything the matcher holds has been shown to it.\<close>

definition evidenced :: "json_api \<Rightarrow> string \<Rightarrow> u64 \<Rightarrow> closure_call list \<Rightarrow> closure \<Rightarrow> bool" where
  "evidenced js scope generation cs s \<longleftrightarrow>
    co_scope s = scope \<and> co_generation s = generation \<and>
    (\<forall>index < 2. \<forall>i. ch_link (child_of index s) = Some i \<longrightarrow> (\<exists>c \<in> set cs. link_shown js scope index i c)) \<and>
    (\<forall>index < 2. \<forall>i. ch_ack (child_of index s) = Some i \<longrightarrow> (\<exists>c \<in> set cs. ack_shown js index i c)) \<and>
    (co_bt_closed s \<longrightarrow> (\<exists>c \<in> set cs. bt_shown js scope c)) \<and>
    (co_drive_stamp s \<noteq> 0 \<longrightarrow> (\<exists>c \<in> set cs. drive_shown js scope generation (co_drive_stamp s) c))"

lemma evidenced_step:
  assumes "evidenced js scope generation cs s"
  shows "evidenced js scope generation (cs @ [c]) (fst (closure_step js s c))"
proof -
  let ?t = "fst (closure_step js s c)"
  have e: "explains js c s ?t" by (rule closure_step_explains)
  have same: "co_scope s = scope" "co_generation s = generation"
    using assms by (simp_all add: evidenced_def)
  have old: "\<forall>index < 2. \<forall>i. ch_link (child_of index s) = Some i \<longrightarrow> (\<exists>c \<in> set cs. link_shown js scope index i c)"
    "\<forall>index < 2. \<forall>i. ch_ack (child_of index s) = Some i \<longrightarrow> (\<exists>c \<in> set cs. ack_shown js index i c)"
    using assms unfolding evidenced_def by blast+
  have new: "\<forall>index < 2. \<forall>i. ch_link (child_of index ?t) = Some i \<longrightarrow>
      ch_link (child_of index s) = Some i \<or> link_shown js scope index i c"
    "\<forall>index < 2. \<forall>i. ch_ack (child_of index ?t) = Some i \<longrightarrow>
      ch_ack (child_of index s) = Some i \<or> ack_shown js index i c"
    using e unfolding explains_def same by blast+
  have "co_scope ?t = scope" "co_generation ?t = generation"
    using same e by (simp_all add: explains_def)
  moreover have "\<forall>index < 2. \<forall>i. ch_link (child_of index ?t) = Some i \<longrightarrow>
      (\<exists>d \<in> set (cs @ [c]). link_shown js scope index i d)"
    using old(1) new(1) unfolding set_append by (metis Un_iff list.set_intros(1))
  moreover have "\<forall>index < 2. \<forall>i. ch_ack (child_of index ?t) = Some i \<longrightarrow>
      (\<exists>d \<in> set (cs @ [c]). ack_shown js index i d)"
    using old(2) new(2) unfolding set_append by (metis Un_iff list.set_intros(1))
  moreover have "co_bt_closed ?t \<longrightarrow> (\<exists>d \<in> set (cs @ [c]). bt_shown js scope d)"
    using assms e same unfolding evidenced_def explains_def set_append by (metis Un_iff list.set_intros(1))
  moreover have "co_drive_stamp ?t \<noteq> 0 \<longrightarrow> (\<exists>d \<in> set (cs @ [c]). drive_shown js scope generation (co_drive_stamp ?t) d)"
    using assms e same unfolding evidenced_def explains_def set_append by (metis Un_iff list.set_intros(1))
  ultimately show ?thesis unfolding evidenced_def by blast
qed

lemma evidenced_run:
  assumes "new_closure scope generation = Some s"
  shows "evidenced js scope generation cs (run (closure_step js) s cs)"
proof (induction cs rule: rev_induct)
  case Nil
  show ?case
    using assms by (auto simp: new_closure_def evidenced_def child_of_def no_child_def split: if_splits)
next
  case (snoc c cs)
  then show ?case by (simp add: run_append evidenced_step)
qed

definition navigation_shown :: "json_api \<Rightarrow> string \<Rightarrow> u64 \<Rightarrow> closure_call list \<Rightarrow> bool" where
  "navigation_shown js scope generation cs \<longleftrightarrow>
    (\<forall>index < 2. \<exists>i. (\<exists>c \<in> set cs. link_shown js scope index i c) \<and> (\<exists>c \<in> set cs. ack_shown js index i c)) \<and>
    (\<exists>c \<in> set cs. bt_shown js scope c) \<and>
    (\<exists>stamp. \<exists>c \<in> set cs. drive_shown js scope generation stamp c)"

lemma closed_run_shown:
  assumes "new_closure scope generation = Some s" and "closure_closed (run (closure_step js) s cs)"
  shows "navigation_shown js scope generation cs"
proof -
  let ?t = "run (closure_step js) s cs"
  note e = evidenced_run [OF assms(1), of js cs]
  have closed: "child_closed (co_planner ?t)" "child_closed (co_controller ?t)" "co_bt_closed ?t" "co_drive_stamp ?t > 0"
    using assms(2) by (auto simp: closure_closed_def workers_closed_def drive_closed_def)
  have "\<exists>i. (\<exists>c \<in> set cs. link_shown js scope index i c) \<and> (\<exists>c \<in> set cs. ack_shown js index i c)" if "index < 2" for index
  proof -
    have "child_closed (child_of index ?t)" using closed by (simp add: child_of_def)
    then obtain i where "ch_link (child_of index ?t) = Some i" "ch_ack (child_of index ?t) = Some i"
      by (auto simp: child_closed_def)
    with e that show ?thesis unfolding evidenced_def by blast
  qed
  with e closed show ?thesis unfolding evidenced_def navigation_shown_def by auto
qed

text \<open>
  Nothing closes a navigation but evidence. When the matcher answers that a scope is
  closed, then for each of the two child actions a link that names the scope and a worker
  acknowledgement with the same child identity were observed, the closure of the scope's
  behaviour tree was observed with a time inside its request, and so was the drive's
  report for this scope and generation that its wheel targets are zero.
\<close>

theorem closed_navigation_is_evidenced:
  assumes "new_closure scope generation = Some s" and "closure_closed (run (closure_step js) s cs)"
  shows "(\<forall>index < 2. \<exists>i. (\<exists>c \<in> set cs. link_shown js scope index i c) \<and> (\<exists>c \<in> set cs. ack_shown js index i c)) \<and>
    (\<exists>c \<in> set cs. bt_shown js scope c) \<and>
    (\<exists>stamp. \<exists>c \<in> set cs. drive_shown js scope generation stamp c)"
  using closed_run_shown [OF assms] by (simp add: navigation_shown_def)

lemma rejected_run:
  "co_rejected s \<Longrightarrow> co_rejected (run (closure_step js) s cs) \<and>
    (co_drive_rejected s \<longrightarrow> co_drive_rejected (run (closure_step js) s cs))"
proof (induction cs arbitrary: s)
  case (Cons c cs)
  have "explains js c s (fst (closure_step js s c))" by (rule closure_step_explains)
  with Cons show ?case by (simp add: explains_def)
qed simp

lemma rejected_open: "co_rejected s \<Longrightarrow> \<not> closure_closed (run (closure_step js) s cs)"
  using rejected_run [of s js cs] by (simp add: closure_closed_def workers_closed_def)

text \<open>
  A rejected observation is rejected for good: whatever is observed later, neither the
  workers nor the navigation count as closed; after a contradiction from the drive,
  neither does the drive.
\<close>

theorem rejection_is_final:
  assumes "co_rejected s"
  shows "\<not> workers_closed (run (closure_step js) s cs) \<and> \<not> closure_closed (run (closure_step js) s cs) \<and>
    (co_drive_rejected s \<longrightarrow> \<not> drive_closed (run (closure_step js) s cs))"
  using rejected_run [OF assms, of js cs] by (simp add: workers_closed_def closure_closed_def drive_closed_def)

subsection \<open>A concrete navigation\<close>

definition demo_uuid :: "char \<Rightarrow> string" where
  "demo_uuid c = c # replicate 31 (CHR ''0'')"

definition link_event :: "nat \<Rightarrow> event" where
  "link_event index = [''event'' \<mapsto> JString ''navigation_child_link'', ''scope_id'' \<mapsto> JString (demo_uuid (CHR ''a'')),
     ''action'' \<mapsto> JString (action_name index), ''child_uuid'' \<mapsto> JString (demo_uuid (CHR ''c''))]"

definition ack_event :: "nat \<Rightarrow> event" where
  "ack_event index = [''event'' \<mapsto> JString (action_name index @ ''_worker_ack''), ''worker_future_ready'' \<mapsto> JBool True,
     ''endpoint_sealed'' \<mapsto> JBool True, ''goal_uuid'' \<mapsto> JString (demo_uuid (CHR ''c''))]"

definition bt_event :: event where
  "bt_event = [''event'' \<mapsto> JString ''navigation_bt_closed'', ''scope_id'' \<mapsto> JString (demo_uuid (CHR ''a'')),
     ''bt_worker_joined'' \<mapsto> JBool True, ''endpoint_sealed'' \<mapsto> JBool True, ''tree_idle'' \<mapsto> JBool True,
     ''steady_ns'' \<mapsto> JUnsigned 15]"

definition drive_event :: event where
  "drive_event = [''event'' \<mapsto> JString ''motion_scope_applied'', ''scope_id'' \<mapsto> JString (demo_uuid (CHR ''a'')),
     ''sealed'' \<mapsto> JBool True, ''wheel_targets_zero'' \<mapsto> JBool True, ''update_sequence'' \<mapsto> JUnsigned 9,
     ''sim_ns'' \<mapsto> JUnsigned 77, ''steady_ns'' \<mapsto> JUnsigned 25, ''generation'' \<mapsto> JUnsigned 1]"

definition demo_json :: json_api where
  "demo_json = \<lparr>js_parse = \<lambda>wire.
      (if wire = ''L0'' then Some (JObject (link_event 0)) else if wire = ''L1'' then Some (JObject (link_event 1))
       else if wire = ''A0'' then Some (JObject (ack_event 0)) else if wire = ''A1'' then Some (JObject (ack_event 1))
       else if wire = ''BT'' then Some (JObject bt_event) else if wire = ''DR'' then Some (JObject drive_event)
       else None),
     js_fits = \<lambda>v. True\<rparr>"

definition demo_closing :: "closure_call list" where
  "demo_closing =
    [CoParent (demo_uuid (CHR ''b'')), CoChild 0 False ''L0'', CoChild 0 True ''A0'', CoChild 1 True ''A1'',
     CoChild 1 False ''L1'', CoBt ''BT'' 10 20, CoDrive ''DR'' 22 30]"

definition demo_closure :: closure where
  "demo_closure = the (new_closure (demo_uuid (CHR ''a'')) 1)"

lemma demo_closure_new: "new_closure (demo_uuid (CHR ''a'')) 1 = Some demo_closure"
proof -
  have "new_closure (demo_uuid (CHR ''a'')) 1 \<noteq> None" by code_simp
  then show ?thesis by (auto simp: demo_closure_def)
qed

lemma demo_closing_closed: "closure_closed (run (closure_step demo_json) demo_closure demo_closing)"
  by code_simp

theorem closed_navigation_is_evidenced_witness:
  "(\<forall>index < 2. \<exists>i. (\<exists>c \<in> set demo_closing. link_shown demo_json (demo_uuid (CHR ''a'')) index i c) \<and>
      (\<exists>c \<in> set demo_closing. ack_shown demo_json index i c)) \<and>
    (\<exists>c \<in> set demo_closing. bt_shown demo_json (demo_uuid (CHR ''a'')) c) \<and>
    (\<exists>stamp. \<exists>c \<in> set demo_closing. drive_shown demo_json (demo_uuid (CHR ''a'')) 1 stamp c)"
  by (rule closed_navigation_is_evidenced [OF demo_closure_new demo_closing_closed])

theorem rejection_is_final_witness:
  "\<not> workers_closed (run (closure_step demo_json) (demo_closure\<lparr>co_rejected := True\<rparr>) demo_closing) \<and>
    \<not> closure_closed (run (closure_step demo_json) (demo_closure\<lparr>co_rejected := True\<rparr>) demo_closing) \<and>
    (co_drive_rejected (demo_closure\<lparr>co_rejected := True\<rparr>) \<longrightarrow>
      \<not> drive_closed (run (closure_step demo_json) (demo_closure\<lparr>co_rejected := True\<rparr>) demo_closing))"
  by (rule rejection_is_final) simp

end
