(* ===== verification/Native_Workers.thy ===== *)
theory Native_Workers
  imports Scoped_Drive Closure_Observations Transition_System
begin

text \<open>
  The observers of the native action workers in
  \<open>integrations/ros2/simulation/native_worker/\<close>: \<open>WorkerPlanner\<close>
  (\<open>native_worker_planner.cpp\<close>) and \<open>WorkerController\<close>
  (\<open>native_worker_controller.cpp\<close>). The action's worker thread runs the installed
  computation between two records; a timer on the main executor acknowledges the worker
  once, after the action server has reported that it no longer runs. The two threads
  interleave: the timer reads the worker's fields under their mutex first and asks the
  server afterwards, two steps here, between which the worker thread may run. The installed
  server's answers are arguments of the steps. The log holds each line's event and goal;
  the times that a line also carries are left out. The two observers are the same program
  but for the planner's barrier: the controller is a worker without \<open>hold\<close>.
\<close>

subsection \<open>Goal identities\<close>

definition hex_char :: "nat \<Rightarrow> char" where
  "hex_char n = (if n < 10 then char_of (48 + n) else char_of (87 + n))"

definition uuid_text :: "u8 list \<Rightarrow> string" where
  "uuid_text bytes = concat (map (\<lambda>b. [hex_char (unat b div 16), hex_char (unat b mod 16)]) bytes)"

definition zero_uuid :: string where
  "zero_uuid = replicate 32 (CHR ''0'')"

subsection \<open>The worker\<close>

text \<open>Where the main thread is: between callbacks, between the two steps of the timer, or of the seal.\<close>

datatype main_thread = MainIdle | MainSnapshot string bool u32 | MainSealing string int

text \<open>
  \<open>wk_active\<close> tells whether this node has left its server active. The last three fields
  are what has been written to the log, published as acknowledgements, and answered as
  seals of a worker that was never entered.
\<close>

record worker =
  wk_action :: nat
  wk_hold :: bool
  wk_uuid :: string
  wk_calls :: u32
  wk_in_tail :: bool
  wk_released :: bool
  wk_timed_out :: bool
  wk_published :: bool
  wk_withheld :: bool
  wk_active :: bool
  wk_main :: main_thread
  wk_log :: "(string \<times> string) list"
  wk_acks :: "string list"
  wk_seals :: "string list"

definition new_worker :: "nat \<Rightarrow> bool \<Rightarrow> worker" where
  "new_worker action hold =
    \<lparr>wk_action = action, wk_hold = hold, wk_uuid = [], wk_calls = 0, wk_in_tail = False, wk_released = False,
     wk_timed_out = False, wk_published = False, wk_withheld = False, wk_active = True, wk_main = MainIdle,
     wk_log = [], wk_acks = [], wk_seals = []\<rparr>"

definition record_worker :: "string \<Rightarrow> string \<Rightarrow> worker \<Rightarrow> worker" where
  "record_worker event goal w = w\<lparr>wk_log := wk_log w @ [(event, goal)]\<rparr>"

subsection \<open>The worker thread\<close>

definition enter_worker :: "u8 list \<Rightarrow> worker \<Rightarrow> worker" where
  "enter_worker goal w = record_worker ''worker_enter'' (uuid_text goal)
     (w\<lparr>wk_uuid := uuid_text goal, wk_calls := wk_calls w + 1\<rparr>)"

definition enter_tail :: "u8 list \<Rightarrow> worker \<Rightarrow> worker" where
  "enter_tail goal w = (record_worker ''callback_tail_enter'' (uuid_text goal) w)\<lparr>wk_in_tail := True\<rparr>"

text \<open>The barrier has been released, or has timed out.\<close>

definition leave_tail :: "u8 list \<Rightarrow> worker \<Rightarrow> worker" where
  "leave_tail goal w = record_worker ''callback_tail_return'' (uuid_text goal)
     (if wk_hold w \<and> \<not> wk_released w
      then record_worker ''planner_barrier_timeout'' (uuid_text goal) (w\<lparr>wk_timed_out := True\<rparr>) else w)"

subsection \<open>The main thread\<close>

definition release_worker :: "worker \<Rightarrow> worker \<times> bool" where
  "release_worker w =
    (let success = wk_hold w \<and> wk_in_tail w \<and> \<not> wk_released w \<and> \<not> wk_timed_out w
     in (if success then (record_worker ''planner_release'' (wk_uuid w) w)\<lparr>wk_released := True\<rparr> else w, success))"

definition ack_text :: "nat \<Rightarrow> string \<Rightarrow> string" where
  "ack_text action goal = ''{'' @ json_key ''event'' @ json_string (action_name action @ ''_worker_ack'') @
     '','' @ json_key ''goal_uuid'' @ json_string goal @
     '','' @ json_key ''worker_future_ready'' @ ''true'' @ '','' @ json_key ''endpoint_sealed'' @ ''true'' @ ''}''"

definition snapshot_worker :: "worker \<Rightarrow> worker" where
  "snapshot_worker w = w\<lparr>wk_main := MainSnapshot (wk_uuid w) (wk_in_tail w) (wk_calls w)\<rparr>"

definition acknowledge_worker :: "string \<Rightarrow> u32 \<Rightarrow> worker \<Rightarrow> worker" where
  "acknowledge_worker goal calls w =
    (let w = w\<lparr>wk_active := False, wk_published := True\<rparr>
     in if calls \<noteq> 1 \<or> wk_timed_out w \<or> goal = zero_uuid then record_worker ''unsupported_worker_scope'' goal w
        else (record_worker ''worker_future_ready_endpoint_sealed'' goal w)
          \<lparr>wk_acks := wk_acks w @ [ack_text (wk_action w) goal]\<rparr>)"

definition observe_work :: "bool \<Rightarrow> string \<Rightarrow> bool \<Rightarrow> u32 \<Rightarrow> worker \<Rightarrow> worker" where
  "observe_work running goal in_tail calls w =
    (if wk_published w \<or> calls = 0 then w
     else if running
     then (if in_tail \<and> \<not> wk_withheld w
           then (record_worker ''closure_withheld_worker_running'' goal w)\<lparr>wk_withheld := True\<rparr> else w)
     else acknowledge_worker goal calls w)"

text \<open>The controller's service that seals a worker which has never been entered.\<close>

record server_view =
  sv_active :: bool
  sv_running :: bool
  sv_current_goal :: bool
  sv_pending_goal :: bool

definition busy :: "server_view \<Rightarrow> bool" where
  "busy v \<longleftrightarrow> sv_running v \<or> sv_current_goal v \<or> sv_pending_goal v"

definition seal_text :: "string \<Rightarrow> int \<Rightarrow> int \<Rightarrow> string" where
  "seal_text scope generation ns = ''{'' @ json_key ''event'' @ json_string ''controller_unsubmitted_sealed'' @
     '','' @ json_key ''scope_id'' @ json_string scope @ '','' @ json_key ''generation'' @ int_to_string generation @
     '','' @ json_key ''worker_callbacks'' @ ''0'' @ '','' @ json_key ''server_idle'' @ ''true'' @
     '','' @ json_key ''endpoint_sealed'' @ ''true'' @ '','' @ json_key ''steady_ns'' @ int_to_string ns @ ''}''"

definition seal_refused :: "bool \<Rightarrow> string \<Rightarrow> int \<Rightarrow> server_view \<Rightarrow> worker \<Rightarrow> bool" where
  "seal_refused enabled scope generation v w \<longleftrightarrow>
    \<not> enabled \<or> \<not> valid_scope scope \<or> generation < 1 \<or> wk_calls w \<noteq> 0 \<or> busy v"

definition begin_seal :: "bool \<Rightarrow> string \<Rightarrow> int \<Rightarrow> server_view \<Rightarrow> worker \<Rightarrow> worker" where
  "begin_seal enabled scope generation v w =
    (if seal_refused enabled scope generation v w then w
     else w\<lparr>wk_active := False, wk_main := MainSealing scope generation\<rparr>)"

definition finish_seal :: "string \<Rightarrow> int \<Rightarrow> server_view \<Rightarrow> int \<Rightarrow> worker \<Rightarrow> worker" where
  "finish_seal scope generation v ns w =
    (if wk_calls w \<noteq> 0 \<or> sv_active v \<or> busy v then w
     else (record_worker ''controller_unsubmitted_sealed'' scope w)
       \<lparr>wk_seals := wk_seals w @ [seal_text scope generation ns]\<rparr>)"

subsection \<open>The machine\<close>

text \<open>A main-thread step that does not fit where the main thread is does not happen.\<close>

datatype worker_call =
    WkEnter "u8 list" | WkTail "u8 list" | WkReturn "u8 list"
  | WkRelease | WkSnapshot | WkObserve bool
  | WkSeal bool string int server_view | WkSealed server_view int

fun worker_step :: "worker \<Rightarrow> worker_call \<Rightarrow> worker \<times> bool" where
  "worker_step w (WkEnter goal) = (enter_worker goal w, True)"
| "worker_step w (WkTail goal) = (enter_tail goal w, True)"
| "worker_step w (WkReturn goal) = (leave_tail goal w, True)"
| "worker_step w WkRelease = (if wk_main w = MainIdle then release_worker w else (w, False))"
| "worker_step w WkSnapshot = (if wk_main w = MainIdle then (snapshot_worker w, True) else (w, False))"
| "worker_step w (WkObserve running) = (case wk_main w of
     MainSnapshot goal in_tail calls \<Rightarrow> (observe_work running goal in_tail calls (w\<lparr>wk_main := MainIdle\<rparr>), True)
   | _ \<Rightarrow> (w, False))"
| "worker_step w (WkSeal enabled scope generation v) =
     (if wk_main w = MainIdle \<and> wk_action w = 1 then (begin_seal enabled scope generation v w, True) else (w, False))"
| "worker_step w (WkSealed v ns) = (case wk_main w of
     MainSealing scope generation \<Rightarrow> (finish_seal scope generation v ns (w\<lparr>wk_main := MainIdle\<rparr>), True)
   | _ \<Rightarrow> (w, False))"

abbreviation worker_run :: "worker \<Rightarrow> worker_call list \<Rightarrow> worker" where
  "worker_run \<equiv> run worker_step"

end
