(* ===== verification/Leaf_Evidence.thy ===== *)
theory Leaf_Evidence
  imports Native_Workers
begin

text \<open>
  The behaviour tree's side of a navigation, in
  \<open>integrations/ros2/simulation/native_worker/\<close>: the record that a leaf keeps of its child
  action (\<open>native_leaf_evidence.hpp\<close>), the leaf itself (\<open>scoped_action.hpp\<close>), and the
  service that joins the tree, halts it and reports the leaves
  (\<open>native_scope_navigator.cpp\<close>). What the installed action node knows of its goal is an
  argument of each hook, and so is the tree library's halt.
\<close>

subsection \<open>The record of a leaf\<close>

record LeafRecord =
  lf_action :: string
  lf_scope :: string
  lf_uuid :: string
  lf_terminal :: string
  lf_entered :: bool
  lf_ambiguous :: bool

definition new_leaf :: "string \<Rightarrow> string \<Rightarrow> LeafRecord" where
  "new_leaf action scope =
    \<lparr>lf_action = action, lf_scope = scope, lf_uuid = [], lf_terminal = [], lf_entered = False, lf_ambiguous = False\<rparr>"

definition associate :: "string \<Rightarrow> string \<Rightarrow> LeafRecord \<Rightarrow> LeafRecord" where
  "associate identity outcome r =
    (if \<not> lf_entered r \<or> \<not> valid_scope identity \<or> (lf_uuid r \<noteq> [] \<and> lf_uuid r \<noteq> identity) \<or>
        (lf_terminal r \<noteq> [] \<and> lf_terminal r \<noteq> outcome)
     then r\<lparr>lf_ambiguous := True\<rparr>
     else r\<lparr>lf_uuid := identity, lf_terminal := outcome\<rparr>)"

definition leaf_kind :: "LeafRecord \<Rightarrow> string" where
  "leaf_kind r =
    (if lf_ambiguous r then ''unknown''
     else if \<not> lf_entered r then ''not_submitted''
     else if lf_uuid r = [] \<or> lf_terminal r = [] then ''unknown'' else ''terminal'')"

definition leaf_json :: "LeafRecord \<Rightarrow> string" where
  "leaf_json r = ''{'' @ json_key ''action'' @ json_string (lf_action r) @
     '','' @ json_key ''scope_id'' @ json_string (lf_scope r) @ '','' @ json_key ''kind'' @ json_string (leaf_kind r) @
     '','' @ json_key ''child_uuid'' @ json_string (lf_uuid r) @
     '','' @ json_key ''terminal'' @ json_string (lf_terminal r) @ ''}''"

subsection \<open>The leaf\<close>

datatype ResultCode = RcUnknown | RcSucceeded | RcCanceled | RcAborted

datatype NodeStatus = NsIdle | NsRunning | NsSuccess | NsFailure

text \<open>The base node's goal handle and result.\<close>

record action_view =
  av_goal :: "u8 list option"
  av_available :: bool
  av_code :: ResultCode
  av_result_goal :: "u8 list"

record tracked =
  ta_evidence :: LeafRecord
  ta_published :: string
  ta_links :: "string list"

datatype leaf_error = HandleUnavailable | IdentityChanged | UnconfirmedTerminal

type_synonym 'a leaf_program = "(tracked, leaf_error, 'a) fallible"

text \<open>The constructor throws, \<open>None\<close>, without a valid scope.\<close>

definition new_tracked :: "string \<Rightarrow> string option \<Rightarrow> tracked option" where
  "new_tracked action scope = (case scope of
     None \<Rightarrow> None
   | Some scope \<Rightarrow> if valid_scope scope then Some \<lparr>ta_evidence = new_leaf action scope, ta_published = [], ta_links = []\<rparr>
       else None)"

definition link_text :: "string \<Rightarrow> string \<Rightarrow> string \<Rightarrow> string" where
  "link_text scope child action = ''{'' @ json_key ''event'' @ json_string ''navigation_child_link'' @
     '','' @ json_key ''scope_id'' @ json_string scope @ '','' @ json_key ''child_uuid'' @ json_string child @
     '','' @ json_key ''action'' @ json_string action @ ''}''"

definition leaf_changes :: "(LeafRecord \<Rightarrow> LeafRecord) \<Rightarrow> (tracked, unit) program" where
  "leaf_changes f = changes (\<lambda>s. s\<lparr>ta_evidence := f (ta_evidence s)\<rparr>)"

definition publish_link :: "action_view \<Rightarrow> unit leaf_program" where
  "publish_link v = (case av_goal v of
     None \<Rightarrow> fails HandleUnavailable
   | Some goal \<Rightarrow> do {
       published \<leftarrow> reads ta_published;
       if published \<noteq> [] then (if uuid_text goal \<noteq> published then fails IdentityChanged else yields ())
       else does (changes (\<lambda>s. s\<lparr>
         ta_links := ta_links s @ [link_text (lf_scope (ta_evidence s)) (uuid_text goal) (lf_action (ta_evidence s))],
         ta_published := uuid_text goal\<rparr>))
     })"

definition terminal :: "action_view \<Rightarrow> ResultCode \<Rightarrow> string \<Rightarrow> unit leaf_program" where
  "terminal v code outcome = (case av_goal v of
     None \<Rightarrow> fails UnconfirmedTerminal
   | Some goal \<Rightarrow>
       if \<not> av_available v \<or> av_code v \<noteq> code \<or> goal \<noteq> av_result_goal v then fails UnconfirmedTerminal
       else do {
         leaf_changes (associate (uuid_text goal) outcome);
         publish_link v
       })"

text \<open>The base node's tick follows the record of the entry and is not part of it.\<close>

definition tick :: "(tracked, unit) program" where
  "tick = leaf_changes (\<lambda>r. r\<lparr>lf_entered := True\<rparr>)"

definition on_success :: "action_view \<Rightarrow> NodeStatus leaf_program" where
  "on_success v = attempt (terminal v RcSucceeded ''succeeded'') (\<lambda>_. yields NsSuccess)"

definition on_aborted :: "action_view \<Rightarrow> NodeStatus leaf_program" where
  "on_aborted v = attempt (terminal v RcAborted ''failed'') (\<lambda>_. yields NsFailure)"

definition on_cancelled :: "action_view \<Rightarrow> NodeStatus leaf_program" where
  "on_cancelled v =
     attempt (if av_goal v \<noteq> None \<and> av_available v \<and> av_code v = RcCanceled then terminal v RcCanceled ''cancelled''
       else does (leaf_changes (\<lambda>r. r\<lparr>lf_ambiguous := True\<rparr>))) (\<lambda>_.
     attempt (publish_link v) (\<lambda>_. yields NsSuccess))"

datatype leaf_call = LcTick | LcWait action_view | LcSuccess action_view | LcAborted action_view | LcCancelled action_view

fun leaf_member :: "leaf_call \<Rightarrow> NodeStatus leaf_program" where
  "leaf_member LcTick = does (do {
     tick;
     answer NsRunning
   })"
| "leaf_member (LcWait v) = attempt (publish_link v) (\<lambda>_. yields NsRunning)"
| "leaf_member (LcSuccess v) = on_success v"
| "leaf_member (LcAborted v) = on_aborted v"
| "leaf_member (LcCancelled v) = on_cancelled v"

definition leaf_step :: "tracked \<Rightarrow> leaf_call \<Rightarrow> tracked \<times> (leaf_error + NodeStatus)" where
  "leaf_step s c = (case run_state (leaf_member c) s of (r, s) \<Rightarrow> (s, r))"

abbreviation leaf_run :: "tracked \<Rightarrow> leaf_call list \<Rightarrow> tracked" where
  "leaf_run \<equiv> run leaf_step"

subsection \<open>The navigator\<close>

record bt_node =
  bn_status :: NodeStatus
  bn_leaf :: "LeafRecord option"

record navigator =
  nv_closed :: bool
  nv_log :: "string list"

definition new_navigator :: navigator where
  "new_navigator = \<lparr>nv_closed = False, nv_log = []\<rparr>"

text \<open>The scope of a path \<open>/output/request-<scope>.xml\<close>.\<close>

definition request_prefix :: string where
  "request_prefix = ''/output/request-''"

definition request_path :: "string \<Rightarrow> string" where
  "request_path scope = request_prefix @ scope @ ''.xml''"

definition request_scope :: "string \<Rightarrow> string option" where
  "request_scope path =
    (let scope = take 32 (drop (length request_prefix) path)
     in if length scope = 32 \<and> list_all hex_digit scope \<and> path = request_path scope then Some scope else None)"

fun status_code :: "NodeStatus \<Rightarrow> string" where
  "status_code NsIdle = ''0''"
| "status_code NsRunning = ''1''"
| "status_code NsSuccess = ''2''"
| "status_code NsFailure = ''3''"

text \<open>The root is the first node of a tree.\<close>

definition tree_idle :: "bt_node list \<Rightarrow> bool" where
  "tree_idle nodes \<longleftrightarrow>
    nodes \<noteq> [] \<and> bn_status (hd nodes) = NsIdle \<and> list_all (\<lambda>n. bn_status n \<noteq> NsRunning) nodes"

definition tree_leaves :: "bt_node list \<Rightarrow> LeafRecord list" where
  "tree_leaves nodes = List.map_filter bn_leaf nodes"

definition leaves_proved :: "string \<Rightarrow> LeafRecord list \<Rightarrow> bool" where
  "leaves_proved scope rows \<longleftrightarrow>
    list_all (\<lambda>r. (lf_action r = action_name 0 \<or> lf_action r = action_name 1) \<and> lf_scope r = scope \<and>
      leaf_kind r \<noteq> ''unknown'') rows \<and>
    length (filter (\<lambda>r. lf_action r = action_name 0) rows) = 1 \<and>
    length (filter (\<lambda>r. lf_action r = action_name 1) rows) = 1"

fun joined :: "string list \<Rightarrow> string" where
  "joined [] = []"
| "joined [x] = x"
| "joined (x # y # ys) = x @ '','' @ joined (y # ys)"

definition json_bool :: "bool \<Rightarrow> string" where
  "json_bool b = (if b then ''true'' else ''false'')"

definition bt_text :: "string \<Rightarrow> bool \<Rightarrow> int \<Rightarrow> bool \<Rightarrow> bool \<Rightarrow> LeafRecord list \<Rightarrow> string" where
  "bt_text scope idle ns require_proof proved rows =
     ''{'' @ json_key ''event'' @ json_string ''navigation_bt_closed'' @ '','' @ json_key ''scope_id'' @ json_string scope @
     '','' @ json_key ''bt_worker_joined'' @ ''true'' @ '','' @ json_key ''endpoint_sealed'' @ ''true'' @
     '','' @ json_key ''tree_idle'' @ json_bool idle @ '','' @ json_key ''steady_ns'' @ int_to_string ns @
     (if require_proof
      then '','' @ json_key ''leaf_proof_complete'' @ json_bool proved @
        '','' @ json_key ''children'' @ ''['' @ joined (map leaf_json rows) @ '']''
      else []) @ ''}''"

definition halted_text :: "NodeStatus \<Rightarrow> NodeStatus \<Rightarrow> string" where
  "halted_text before later = ''{'' @ json_key ''event'' @ json_string ''navigation_tree_halted'' @
     '','' @ json_key ''root_before_halt'' @ status_code before @ '','' @ json_key ''root_after_halt'' @ status_code later @ ''}''"

text \<open>The navigation's server is there or not; \<open>nodes\<close> is the tree of its last request.\<close>

definition close_navigation ::
  "(bt_node list \<Rightarrow> bt_node list) \<Rightarrow> bool \<Rightarrow> string \<Rightarrow> bt_node list \<Rightarrow> bool \<Rightarrow> int \<Rightarrow> navigator \<Rightarrow>
   navigator \<times> bool \<times> string" where
  "close_navigation halt server path nodes require_proof ns n =
    (if nv_closed n \<or> \<not> server then (n, False, [])
     else let n = n\<lparr>nv_closed := True\<rparr> in
       case request_scope path of
         None \<Rightarrow> (n, False, [])
       | Some scope \<Rightarrow>
           if nodes = [] then (n, False, [])
           else let halted = halt nodes; idle = tree_idle halted;
               rows = (if require_proof then tree_leaves halted else []); proved = leaves_proved scope rows;
               message = bt_text scope idle ns require_proof proved rows
             in (n\<lparr>nv_log := nv_log n @ [halted_text (bn_status (hd nodes)) (bn_status (hd halted)), message]\<rparr>,
                 idle \<and> (\<not> require_proof \<or> proved), message))"

end
