(* ===== verification/Native_Closure.thy ===== *)
theory Native_Closure
  imports Closure_Observations_Properties Leaf_Evidence
begin

text \<open>
  The owner of the matcher, \<open>integrations/ros2/nav2_observation/native_closure.cpp\<close> and
  \<open>.hpp\<close>: it feeds the matcher from the node's subscriptions, requests the drive's closure
  and closes a navigation. The executor handles callbacks only inside a wait, so each wait
  is a list of the callbacks that are handled while it lasts; the list ends where the
  budget ends, ROS shuts down, or the awaited answer comes. A callback's exception leaves
  the wait. The node's clock, services and messages are arguments. Not part of the model:
  \<open>prepare\<close>, which only polls readiness services before the goal, the text of the tree that
  \<open>goal_tree\<close> writes, and the lines printed to the console.
\<close>

subsection \<open>Before the goal\<close>

text \<open>The file that \<open>goal_tree\<close> writes, by which the navigator knows the scope.\<close>

definition goal_path :: "string \<Rightarrow> string" where
  "goal_path scope = ''/output/request-'' @ scope @ ''.xml''"

text \<open>\<open>open_drive\<close>: the expected generation it sends, and whether it accepts the answer.\<close>

definition expected_generation :: "u64 \<Rightarrow> u64" where
  "expected_generation generation = generation - 1"

definition drive_opened :: "u64 \<Rightarrow> (bool \<times> u64) option \<Rightarrow> bool" where
  "drive_opened generation response \<longleftrightarrow> (case response of
     None \<Rightarrow> False | Some (accepted, g) \<Rightarrow> \<not> (\<not> accepted \<or> g \<noteq> generation))"

subsection \<open>Callbacks\<close>

record native_closure =
  nc_mode :: string
  nc_generation :: u64
  nc_facts :: closure
  nc_requested :: int
  nc_accepted :: bool
  nc_failed :: bool

type_synonym 'a native_program = "(native_closure, unit, 'a) fallible"

definition new_native :: "string \<Rightarrow> string \<Rightarrow> u64 \<Rightarrow> native_closure option" where
  "new_native mode scope generation = (case new_closure scope generation of
     None \<Rightarrow> None
   | Some facts \<Rightarrow> Some \<lparr>nc_mode = mode, nc_generation = generation, nc_facts = facts, nc_requested = 0,
       nc_accepted = False, nc_failed = False\<rparr>)"

definition on_facts :: "'a observes \<Rightarrow> 'a native_program" where
  "on_facts m = State (\<lambda>s. case run_state m (nc_facts s) of (r, f) \<Rightarrow> (r, s\<lparr>nc_facts := f\<rparr>))"

text \<open>
  A message on one of the topics, the latter with the time at which it is handled; the
  drive service's answer, \<open>None\<close> when reading it throws.
\<close>

datatype closure_event =
    NvLink nat string | NvAck nat string | NvDrive string int | NvAnswer "bool option"

definition withholds_planner :: "string \<Rightarrow> bool" where
  "withholds_planner mode \<longleftrightarrow> mode = ''withhold-planner-ack''"

definition withholds_drive :: "string \<Rightarrow> bool" where
  "withholds_drive mode \<longleftrightarrow> mode = ''withhold-drive-ack'' \<or> mode = ''runtime-stop-unreachable-withhold-drive-ack''"

fun on_event :: "json_api \<Rightarrow> closure_event \<Rightarrow> unit native_program" where
  "on_event js (NvLink index wire) = on_facts (observe_child js index False wire)"
| "on_event js (NvAck index wire) = do {
     withheld \<leftarrow> reads (\<lambda>s. index = 0 \<and> withholds_planner (nc_mode s));
     if withheld then yields () else on_facts (observe_child js index True wire)
   }"
| "on_event js (NvDrive wire ns) = do {
     withheld \<leftarrow> reads (\<lambda>s. withholds_drive (nc_mode s));
     requested \<leftarrow> reads nc_requested;
     if withheld then yields () else on_facts (observe_drive js wire requested ns)
   }"
| "on_event js (NvAnswer answered) = does (changes (\<lambda>s. case answered of
     None \<Rightarrow> s\<lparr>nc_failed := True\<rparr> | Some accepted \<Rightarrow> s\<lparr>nc_accepted := accepted, nc_failed := \<not> accepted\<rparr>))"

subsection \<open>Waiting\<close>

fun wait_until :: "json_api \<Rightarrow> (native_closure \<Rightarrow> bool) \<Rightarrow> closure_event list \<Rightarrow> unit native_program" where
  "wait_until js holds [] = do {
     now \<leftarrow> reads holds;
     if now then yields () else fails ()
   }"
| "wait_until js holds (e # es) = do {
     now \<leftarrow> reads holds;
     if now then yields () else attempt (on_event js e) (\<lambda>_. wait_until js holds es)
   }"

text \<open>A wait for something outside: the callbacks handled before it came, or did not.\<close>

fun handle_all :: "json_api \<Rightarrow> closure_event list \<Rightarrow> unit native_program" where
  "handle_all js [] = yields ()"
| "handle_all js (e # es) = attempt (on_event js e) (\<lambda>_. handle_all js es)"

definition wait_for :: "json_api \<Rightarrow> closure_event list \<Rightarrow> bool \<Rightarrow> unit native_program" where
  "wait_for js es came = attempt (handle_all js es) (\<lambda>_. if came then yields () else fails ())"

subsection \<open>Closing\<close>

definition drive_isolated :: "native_closure \<Rightarrow> bool" where
  "drive_isolated s \<longleftrightarrow> nc_accepted s \<and> drive_closed (nc_facts s)"

text \<open>\<open>sent\<close> tells whether the request could be submitted.\<close>

definition request_drive_close :: "int \<Rightarrow> bool \<Rightarrow> native_closure \<Rightarrow> native_closure" where
  "request_drive_close ns sent s =
    (if nc_requested s \<noteq> 0 then s
     else let s = s\<lparr>nc_requested := ns\<rparr> in if sent then s else s\<lparr>nc_failed := True\<rparr>)"

text \<open>What happens outside while \<open>close\<close> runs.\<close>

record closing =
  cl_workers :: "closure_event list"
  cl_service :: "closure_event list \<times> bool"
  cl_answer :: "closure_event list \<times> (bool \<times> string) option"
  cl_bt_requested :: int
  cl_bt_received :: int
  cl_drive_requested :: int
  cl_drive_sent :: bool
  cl_drive :: "closure_event list"

definition close_drive :: "json_api \<Rightarrow> closing \<Rightarrow> unit native_program" where
  "close_drive js k = do {
     changes (request_drive_close (cl_drive_requested k) (cl_drive_sent k));
     attempt (wait_until js (\<lambda>s. drive_isolated s \<or> nc_failed s) (cl_drive k)) (\<lambda>_. do {
       closed \<leftarrow> reads (\<lambda>s. drive_isolated s \<and> closure_closed (nc_facts s));
       if closed then yields () else fails ()
     })
   }"

definition close_tree :: "json_api \<Rightarrow> closing \<Rightarrow> unit native_program" where
  "close_tree js k =
     attempt (wait_until js (\<lambda>s. workers_closed (nc_facts s)) (cl_workers k)) (\<lambda>_.
     attempt (wait_for js (fst (cl_service k)) (snd (cl_service k))) (\<lambda>_.
     attempt (wait_for js (fst (cl_answer k)) (snd (cl_answer k) \<noteq> None)) (\<lambda>_.
       case snd (cl_answer k) of
         None \<Rightarrow> fails ()
       | Some (success, message) \<Rightarrow>
           if \<not> success then fails ()
           else on_facts (observe_bt js message (cl_bt_requested k) (cl_bt_received k)))))"

definition close_native :: "json_api \<Rightarrow> closing \<Rightarrow> (native_closure, bool) program" where
  "close_native js k = do {
     r \<leftarrow> attempt (close_tree js k) (\<lambda>_. close_drive js k);
     case r of
       Inl e \<Rightarrow> do {
         changes (\<lambda>s. s\<lparr>nc_facts := reject (nc_facts s)\<rparr>);
         answer False
       }
     | Inr u \<Rightarrow> answer True
   }"

end
