(* ===== verification/Native_Workers_Properties.thy ===== *)
theory Native_Workers_Properties
  imports Native_Workers
begin

text \<open>What a worker's acknowledgement, and a controller's seal, say of its executions.\<close>

subsection \<open>Goal identities\<close>

lemma hex_chars: "n < 16 \<Longrightarrow> hex_digit (hex_char n)"
proof -
  have "list_all (\<lambda>n. hex_digit (hex_char n)) [0 ..< 16]" by code_simp
  then show "n < 16 \<Longrightarrow> hex_digit (hex_char n)" by (simp add: list_all_iff)
qed

lemma hex_char_inject: "m < 16 \<Longrightarrow> n < 16 \<Longrightarrow> hex_char m = hex_char n \<Longrightarrow> m = n"
proof -
  have "list_all (\<lambda>m. list_all (\<lambda>n. hex_char m = hex_char n \<longrightarrow> m = n) [0 ..< 16]) [0 ..< 16]" by code_simp
  then show "m < 16 \<Longrightarrow> n < 16 \<Longrightarrow> hex_char m = hex_char n \<Longrightarrow> m = n" by (simp add: list_all_iff)
qed

lemma byte_halves: "unat (b :: u8) div 16 < 16" "unat (b :: u8) mod 16 < 16"
proof -
  have "unat b < 256" using unsigned_less [of b, where 'a = nat] by simp
  then show "unat b div 16 < 16" by simp
qed simp

lemma uuid_text_Cons: "uuid_text (b # bs) = hex_char (unat b div 16) # hex_char (unat b mod 16) # uuid_text bs"
  by (simp add: uuid_text_def)

lemma length_uuid_text: "length (uuid_text bytes) = 2 * length bytes"
  by (induction bytes) (simp_all add: uuid_text_Cons, simp add: uuid_text_def)

lemma uuid_text_digits: "list_all hex_digit (uuid_text bytes)"
  by (induction bytes) (simp_all add: uuid_text_Cons hex_chars byte_halves, simp add: uuid_text_def)

lemma byte_eqI: "unat (a :: u8) div 16 = unat b div 16 \<Longrightarrow> unat a mod 16 = unat b mod 16 \<Longrightarrow> a = b"
  by (metis div_mult_mod_eq word_unat_eq_iff)

lemma uuid_text_inject: "uuid_text as = uuid_text bs \<longleftrightarrow> as = bs"
proof (induction as arbitrary: bs)
  case Nil
  then show ?case by (cases bs) (simp_all add: uuid_text_Cons, simp_all add: uuid_text_def)
next
  case (Cons a as)
  have nil: "uuid_text [] = []" by (simp add: uuid_text_def)
  show ?case
  proof (cases bs)
    case Nil
    then show ?thesis by (simp add: uuid_text_Cons nil)
  next
    case (Cons b bs')
    have "hex_char (unat a div 16) = hex_char (unat b div 16) \<Longrightarrow> hex_char (unat a mod 16) = hex_char (unat b mod 16) \<Longrightarrow> a = b"
      by (intro byte_eqI) (auto dest: hex_char_inject [OF byte_halves(1) byte_halves(1)] hex_char_inject [OF byte_halves(2) byte_halves(2)])
    then show ?thesis using Cons.IH by (auto simp: Cons uuid_text_Cons)
  qed
qed

text \<open>The goal identities that a worker acknowledges are those the matcher takes.\<close>

lemma uuid_text_uuid: "length goal = 16 \<Longrightarrow> uuid (uuid_text goal) \<longleftrightarrow> uuid_text goal \<noteq> zero_uuid"
  by (simp add: uuid_def zero_uuid_def length_uuid_text uuid_text_digits)

subsection \<open>Executions\<close>

text \<open>The goals of the executions that the worker thread has entered.\<close>

fun entered_goal :: "worker_call \<Rightarrow> u8 list list" where
  "entered_goal (WkEnter goal) = [goal]"
| "entered_goal c = []"

definition entered :: "worker_call list \<Rightarrow> u8 list list" where
  "entered cs = concat (map entered_goal cs)"

lemma entered_simps [simp]:
  "entered [] = []"
  "entered (c # cs) = entered_goal c @ entered cs"
  "entered (cs @ ds) = entered cs @ entered ds"
  by (simp_all add: entered_def)

lemma length_entered: "length (entered cs) \<le> length cs"
proof (induction cs)
  case (Cons c cs)
  then show ?case by (cases c) auto
qed simp

text \<open>
  An acknowledgement of \<open>goal\<close> in a run: the fields were read when exactly one execution,
  of that goal, had been entered, and the server answered later that nothing ran.
\<close>

definition read_once :: "u8 list \<Rightarrow> worker_call list \<Rightarrow> bool" where
  "read_once goal cs \<longleftrightarrow> (\<exists>pre post. cs = pre @ WkSnapshot # post \<and> entered pre = [goal])"

definition acked_once :: "u8 list \<Rightarrow> worker_call list \<Rightarrow> bool" where
  "acked_once goal cs \<longleftrightarrow> (\<exists>pre post. cs = pre @ WkObserve False # post \<and> read_once goal pre)"

lemma read_once_more: "read_once goal cs \<Longrightarrow> read_once goal (cs @ ds)"
  unfolding read_once_def by (metis append.assoc append_Cons)

lemma acked_once_more: "acked_once goal cs \<Longrightarrow> acked_once goal (cs @ ds)"
  unfolding acked_once_def by (metis append.assoc append_Cons)

text \<open>The numbers of executions are far from the width of the counter.\<close>

definition snapshot_ok :: "worker_call list \<Rightarrow> main_thread \<Rightarrow> bool" where
  "snapshot_ok cs m \<longleftrightarrow> (case m of
     MainSnapshot goal in_tail calls \<Rightarrow> calls = 1 \<longrightarrow> (\<exists>g. goal = uuid_text g \<and> read_once g cs)
   | _ \<Rightarrow> True)"

definition ran_ok :: "worker_call list \<Rightarrow> worker \<Rightarrow> bool" where
  "ran_ok cs w \<longleftrightarrow>
    wk_calls w = of_nat (length (entered cs)) \<and>
    (entered cs \<noteq> [] \<longrightarrow> wk_uuid w = uuid_text (last (entered cs))) \<and>
    snapshot_ok cs (wk_main w) \<and>
    (wk_published w \<longrightarrow> \<not> wk_active w) \<and>
    (wk_acks w \<noteq> [] \<longrightarrow> wk_published w \<and>
      (\<exists>goal. wk_acks w = [ack_text (wk_action w) (uuid_text goal)] \<and> uuid_text goal \<noteq> zero_uuid \<and> acked_once goal cs))"

lemma snapshot_ok_more: "snapshot_ok cs m \<Longrightarrow> snapshot_ok (cs @ ds) m"
  unfolding snapshot_ok_def by (cases m) (auto dest: read_once_more [where ds = ds])

lemma ran_ok_more:
  assumes "ran_ok cs w" and "entered_goal c = []"
  shows "ran_ok (cs @ [c]) w"
  using assms unfolding ran_ok_def by (auto intro: snapshot_ok_more acked_once_more)

lemma ran_ok_same:
  assumes "ran_ok cs w" and "wk_calls w' = wk_calls w" and "wk_uuid w' = wk_uuid w" and "wk_main w' = wk_main w"
    and "wk_published w' = wk_published w" and "wk_active w' = wk_active w" and "wk_acks w' = wk_acks w"
    and "wk_action w' = wk_action w"
  shows "ran_ok cs w'"
  using assms unfolding ran_ok_def by simp

lemma record_worker_fields [simp]:
  "wk_action (record_worker e g w) = wk_action w"
  "wk_hold (record_worker e g w) = wk_hold w"
  "wk_uuid (record_worker e g w) = wk_uuid w"
  "wk_calls (record_worker e g w) = wk_calls w"
  "wk_released (record_worker e g w) = wk_released w"
  "wk_timed_out (record_worker e g w) = wk_timed_out w"
  "wk_published (record_worker e g w) = wk_published w"
  "wk_active (record_worker e g w) = wk_active w"
  "wk_main (record_worker e g w) = wk_main w"
  "wk_acks (record_worker e g w) = wk_acks w"
  "wk_seals (record_worker e g w) = wk_seals w"
  by (simp_all add: record_worker_def)

lemma enter_ok:
  assumes "ran_ok cs w"
  shows "ran_ok (cs @ [WkEnter goal]) (enter_worker goal w)"
  using assms unfolding ran_ok_def enter_worker_def by (auto intro: snapshot_ok_more acked_once_more)

lemma snapshot_worker_ok:
  assumes "ran_ok cs w" and "length cs < 2 ^ 32"
  shows "ran_ok (cs @ [WkSnapshot]) (snapshot_worker w)"
proof -
  have one: "\<exists>g. wk_uuid w = uuid_text g \<and> entered cs = [g]" if "wk_calls w = 1"
  proof -
    have bound: "length (entered cs) < 2 ^ 32" using length_entered [of cs] assms(2) by simp
    then have "unat (of_nat (length (entered cs)) :: u32) = length (entered cs)" by (simp add: unsigned_of_nat take_bit_nat_eq_self)
    with that assms(1) have "length (entered cs) = 1" by (simp add: ran_ok_def)
    then obtain g where "entered cs = [g]" by (auto simp: length_Suc_conv)
    with assms(1) show ?thesis by (auto simp: ran_ok_def)
  qed
  have "snapshot_ok (cs @ [WkSnapshot]) (MainSnapshot (wk_uuid w) (wk_in_tail w) (wk_calls w))"
    unfolding snapshot_ok_def using one by (auto simp: read_once_def)
  with assms(1) show ?thesis
    unfolding ran_ok_def snapshot_worker_def by (auto intro: acked_once_more)
qed

lemma acknowledge_ok:
  assumes "ran_ok cs w" and "\<not> wk_published w" and "wk_main w = MainIdle"
    and "calls = 1 \<longrightarrow> (\<exists>g. goal = uuid_text g \<and> read_once g cs)"
  shows "ran_ok (cs @ [WkObserve False]) (acknowledge_worker goal calls w)"
proof -
  have none: "wk_acks w = []" using assms(1,2) by (auto simp: ran_ok_def)
  have acked: "acked_once g (cs @ [WkObserve False])" if "read_once g cs" for g
    unfolding acked_once_def using that by (intro exI [of _ cs] exI [of _ "[]"]) simp
  show ?thesis
    using assms none acked
    unfolding ran_ok_def acknowledge_worker_def Let_def snapshot_ok_def by auto
qed

lemma observe_work_ok:
  assumes "ran_ok cs w" and "wk_main w = MainSnapshot goal in_tail calls"
  shows "ran_ok (cs @ [WkObserve running]) (observe_work running goal in_tail calls (w\<lparr>wk_main := MainIdle\<rparr>))"
proof -
  let ?w = "w\<lparr>wk_main := MainIdle\<rparr>"
  have idle: "ran_ok cs ?w" using assms(1) unfolding ran_ok_def by (simp add: snapshot_ok_def)
  have goal: "calls = 1 \<longrightarrow> (\<exists>g. goal = uuid_text g \<and> read_once g cs)"
    using assms by (simp add: ran_ok_def snapshot_ok_def)
  show ?thesis
  proof (cases "wk_published w \<or> calls = 0 \<or> running")
    case True
    have "ran_ok cs (observe_work running goal in_tail calls ?w)"
      by (rule ran_ok_same [OF idle]) (use True in \<open>auto simp: observe_work_def\<close>)
    then show ?thesis by (rule ran_ok_more) simp
  next
    case False
    then show ?thesis
      using acknowledge_ok [OF idle _ _ goal] by (simp add: observe_work_def)
  qed
qed

lemma begin_seal_ok:
  assumes "ran_ok cs w"
  shows "ran_ok (cs @ [WkSeal enabled scope generation v]) (begin_seal enabled scope generation v w)"
proof -
  have "ran_ok cs (begin_seal enabled scope generation v w)"
    using assms unfolding ran_ok_def begin_seal_def by (auto simp: snapshot_ok_def)
  then show ?thesis by (rule ran_ok_more) simp
qed

lemma finish_seal_ok:
  assumes "ran_ok cs w"
  shows "ran_ok (cs @ [WkSealed v ns]) (finish_seal scope generation v ns (w\<lparr>wk_main := MainIdle\<rparr>))"
proof -
  have "ran_ok cs (w\<lparr>wk_main := MainIdle\<rparr>)" using assms unfolding ran_ok_def by (simp add: snapshot_ok_def)
  then have "ran_ok cs (finish_seal scope generation v ns (w\<lparr>wk_main := MainIdle\<rparr>))"
    by (rule ran_ok_same) (simp_all add: finish_seal_def)
  then show ?thesis by (rule ran_ok_more) simp
qed

lemma worker_step_ok:
  assumes "ran_ok cs w" and "length cs < 2 ^ 32"
  shows "ran_ok (cs @ [c]) (fst (worker_step w c))"
proof -
  have same: "ran_ok (cs @ [c]) w" if "entered_goal c = []"
    by (rule ran_ok_more [OF assms(1) that])
  show ?thesis
  proof (cases c)
    case (WkTail goal)
    have "ran_ok cs (enter_tail goal w)"
      by (rule ran_ok_same [OF assms(1)]) (simp_all add: enter_tail_def)
    then show ?thesis using WkTail by (simp add: ran_ok_more)
  next
    case (WkReturn goal)
    have "ran_ok cs (leave_tail goal w)"
      by (rule ran_ok_same [OF assms(1)]) (simp_all add: leave_tail_def)
    then show ?thesis using WkReturn by (simp add: ran_ok_more)
  next
    case WkRelease
    have "ran_ok cs (fst (release_worker w))"
      by (rule ran_ok_same [OF assms(1)]) (simp_all add: release_worker_def Let_def)
    then show ?thesis using WkRelease same by (simp add: ran_ok_more)
  next
    case (WkObserve running)
    then show ?thesis using same observe_work_ok [OF assms(1)] by (simp split: main_thread.split)
  next
    case (WkSealed v ns)
    then show ?thesis using same finish_seal_ok [OF assms(1)] by (simp split: main_thread.split)
  qed (use same assms in \<open>simp_all add: enter_ok snapshot_worker_ok begin_seal_ok\<close>)
qed

lemma worker_run_ok: "length cs \<le> 2 ^ 32 \<Longrightarrow> ran_ok cs (worker_run (new_worker action hold) cs)"
proof (induction cs rule: rev_induct)
  case Nil
  show ?case by (simp add: ran_ok_def new_worker_def snapshot_ok_def)
next
  case (snoc c cs)
  then show ?case by (simp add: run_append worker_step_ok)
qed

lemma worker_step_action [simp]: "wk_action (fst (worker_step w c)) = wk_action w"
  by (cases c)
    (simp_all add: enter_worker_def enter_tail_def leave_tail_def release_worker_def snapshot_worker_def
      observe_work_def acknowledge_worker_def begin_seal_def finish_seal_def Let_def split: main_thread.split)

lemma new_worker_action [simp]: "wk_action (new_worker action hold) = action"
  by (simp add: new_worker_def)

lemma worker_run_action [simp]: "wk_action (worker_run w cs) = wk_action w"
  by (induction cs arbitrary: w) simp_all

subsection \<open>Acknowledgements\<close>

text \<open>
  C33. A worker is acknowledged once, and for its one execution. Whatever the two threads
  interleave, at most one acknowledgement is published; it names a goal that was the only
  one entered when the fields were read, after which the server answered that nothing ran,
  and this node has left the server inactive.
\<close>

theorem acknowledged_worker_ran_once:
  assumes "length cs \<le> 2 ^ 32" and "message \<in> set (wk_acks (worker_run (new_worker action hold) cs))"
  shows "wk_acks (worker_run (new_worker action hold) cs) = [message] \<and>
    \<not> wk_active (worker_run (new_worker action hold) cs) \<and>
    (\<exists>goal. message = ack_text action (uuid_text goal) \<and> uuid_text goal \<noteq> zero_uuid \<and> acked_once goal cs)"
proof -
  let ?w = "worker_run (new_worker action hold) cs"
  from worker_run_ok [OF assms(1), of action hold] assms(2)
  obtain goal where "wk_acks ?w = [ack_text action (uuid_text goal)]" "uuid_text goal \<noteq> zero_uuid" "acked_once goal cs"
    "\<not> wk_active ?w"
    unfolding ran_ok_def by auto
  with assms(2) show ?thesis by auto
qed

definition demo_goal :: "u8 list" where
  "demo_goal = 193 # replicate 15 0"

definition demo_work :: "worker_call list" where
  "demo_work = [WkSnapshot, WkObserve True, WkEnter demo_goal, WkSnapshot, WkObserve True, WkTail demo_goal,
     WkSnapshot, WkReturn demo_goal, WkObserve True, WkSnapshot, WkObserve False, WkSnapshot, WkObserve False]"

theorem acknowledged_worker_ran_once_witness:
  "wk_acks (worker_run (new_worker 1 False) demo_work) = [ack_text 1 (uuid_text demo_goal)] \<and>
    \<not> wk_active (worker_run (new_worker 1 False) demo_work) \<and>
    (\<exists>goal. ack_text 1 (uuid_text demo_goal) = ack_text 1 (uuid_text goal) \<and> uuid_text goal \<noteq> zero_uuid \<and>
      acked_once goal demo_work)"
proof -
  have "ack_text 1 (uuid_text demo_goal) \<in> set (wk_acks (worker_run (new_worker 1 False) demo_work))" by code_simp
  moreover have "length demo_work \<le> 2 ^ 32" by (simp add: demo_work_def)
  ultimately show ?thesis by (intro acknowledged_worker_ran_once)
qed

text \<open>
  The count is read before the server is asked whether it runs. An execution that the worker
  thread enters in between, a goal that was pending while the first one ran, is not counted:
  the first goal is acknowledged although the node has run two.
\<close>

definition late_work :: "worker_call list" where
  "late_work = [WkEnter demo_goal, WkSnapshot, WkReturn demo_goal, WkEnter (rev demo_goal),
     WkReturn (rev demo_goal), WkObserve False]"

lemma late_execution_unseen:
  "wk_acks (worker_run (new_worker 1 False) late_work) = [ack_text 1 (uuid_text demo_goal)] \<and>
    entered late_work = [demo_goal, rev demo_goal]"
  by code_simp

subsection \<open>Seals\<close>

text \<open>
  The installed server starts no execution once this node has deactivated it: its
  documented behaviour, which a run has to respect.
\<close>

fun starts_active :: "worker \<Rightarrow> worker_call list \<Rightarrow> bool" where
  "starts_active w [] \<longleftrightarrow> True"
| "starts_active w (c # cs) \<longleftrightarrow> (entered_goal c \<noteq> [] \<longrightarrow> wk_active w) \<and> starts_active (fst (worker_step w c)) cs"

lemma starts_active_append:
  "starts_active w (cs @ ds) \<longleftrightarrow> starts_active w cs \<and> starts_active (worker_run w cs) ds"
  by (induction cs arbitrary: w) auto

definition sealed_ok :: "worker_call list \<Rightarrow> worker \<Rightarrow> bool" where
  "sealed_ok cs w \<longleftrightarrow>
    (wk_seals w \<noteq> [] \<longrightarrow> entered cs = [] \<and> \<not> wk_active w) \<and>
    ((\<exists>scope generation. wk_main w = MainSealing scope generation) \<longrightarrow> \<not> wk_active w)"

lemma no_calls_entered:
  assumes "ran_ok cs w" and "length cs < 2 ^ 32" and "wk_calls w = 0"
  shows "entered cs = []"
proof -
  have "length (entered cs) < 2 ^ 32" using length_entered [of cs] assms(2) by simp
  then have "unat (of_nat (length (entered cs)) :: u32) = length (entered cs)"
    by (simp add: unsigned_of_nat take_bit_nat_eq_self)
  with assms show ?thesis by (simp add: ran_ok_def)
qed

lemma sealed_step:
  assumes "ran_ok cs w" and "length cs < 2 ^ 32" and "sealed_ok cs w" and "entered_goal c \<noteq> [] \<longrightarrow> wk_active w"
  shows "sealed_ok (cs @ [c]) (fst (worker_step w c))"
proof (cases c)
  case (WkObserve running)
  with assms(3) show ?thesis
    by (auto simp: sealed_ok_def observe_work_def acknowledge_worker_def Let_def split: main_thread.split)
next
  case (WkSealed v ns)
  with assms(3) no_calls_entered [OF assms(1,2)] show ?thesis
    by (auto simp: sealed_ok_def finish_seal_def split: main_thread.split)
qed (use assms(3,4) in \<open>auto simp: sealed_ok_def enter_worker_def enter_tail_def leave_tail_def release_worker_def
    snapshot_worker_def begin_seal_def Let_def\<close>)

lemma sealed_run:
  "length cs \<le> 2 ^ 32 \<Longrightarrow> starts_active (new_worker action hold) cs \<Longrightarrow> sealed_ok cs (worker_run (new_worker action hold) cs)"
proof (induction cs rule: rev_induct)
  case Nil
  show ?case by (simp add: sealed_ok_def new_worker_def)
next
  case (snoc c cs)
  then show ?case
    by (simp add: run_append starts_active_append) (rule sealed_step, simp_all add: worker_run_ok)
qed

text \<open>
  A sealed controller never worked. Once the service has answered that a controller is
  sealed without a submission, no execution has been entered and none will be, and no
  acknowledgement of one is ever published.
\<close>

theorem sealed_controller_never_ran:
  assumes "length cs \<le> 2 ^ 32" and "starts_active (new_worker action hold) cs"
    and "wk_seals (worker_run (new_worker action hold) cs) \<noteq> []"
  shows "entered cs = [] \<and> wk_acks (worker_run (new_worker action hold) cs) = []"
proof -
  have none: "entered cs = []" using sealed_run [OF assms(1,2)] assms(3) by (simp add: sealed_ok_def)
  have "\<not> acked_once goal cs" for goal
    using none by (auto simp: acked_once_def read_once_def)
  then show ?thesis
    using worker_run_ok [OF assms(1), of action hold] none by (auto simp: ran_ok_def)
qed

definition demo_scope_id :: string where
  "demo_scope_id = CHR ''a'' # replicate 31 (CHR ''0'')"

definition idle_server :: server_view where
  "idle_server = \<lparr>sv_active = False, sv_running = False, sv_current_goal = False, sv_pending_goal = False\<rparr>"

definition demo_sealing :: "worker_call list" where
  "demo_sealing = [WkSeal True demo_scope_id 1 idle_server, WkSnapshot, WkSealed idle_server 5, WkSnapshot, WkObserve False]"

theorem sealed_controller_never_ran_witness:
  "entered demo_sealing = [] \<and> wk_acks (worker_run (new_worker 1 False) demo_sealing) = []"
proof (rule sealed_controller_never_ran)
  show "length demo_sealing \<le> 2 ^ 32" by (simp add: demo_sealing_def)
  show "starts_active (new_worker 1 False) demo_sealing" by code_simp
  show "wk_seals (worker_run (new_worker 1 False) demo_sealing) \<noteq> []" by code_simp
qed

end
