(* ===== verification/Leaf_Evidence_Properties.thy ===== *)
theory Leaf_Evidence_Properties
  imports Leaf_Evidence Native_Workers_Properties
begin

text \<open>What the kinds of a leaf's record, its link and the closure of the tree say.\<close>

subsection \<open>Leaves\<close>

text \<open>A hook in which the action's result confirms the end of the goal.\<close>

definition confirmed_end :: "action_view \<Rightarrow> ResultCode \<Rightarrow> u8 list \<Rightarrow> bool" where
  "confirmed_end v code goal \<longleftrightarrow> av_goal v = Some goal \<and> av_available v \<and> av_code v = code \<and> av_result_goal v = goal"

fun confirms :: "leaf_call \<Rightarrow> u8 list \<Rightarrow> string \<Rightarrow> bool" where
  "confirms (LcSuccess v) goal outcome \<longleftrightarrow> confirmed_end v RcSucceeded goal \<and> outcome = ''succeeded''"
| "confirms (LcAborted v) goal outcome \<longleftrightarrow> confirmed_end v RcAborted goal \<and> outcome = ''failed''"
| "confirms (LcCancelled v) goal outcome \<longleftrightarrow> confirmed_end v RcCanceled goal \<and> outcome = ''cancelled''"
| "confirms c goal outcome \<longleftrightarrow> False"

text \<open>The record keeps what has been confirmed, or is ambiguous.\<close>

definition leaf_ok :: "string \<Rightarrow> string \<Rightarrow> leaf_call list \<Rightarrow> LeafRecord \<Rightarrow> bool" where
  "leaf_ok action scope cs r \<longleftrightarrow>
    lf_action r = action \<and> lf_scope r = scope \<and> (lf_entered r \<longleftrightarrow> LcTick \<in> set cs) \<and>
    (\<not> lf_ambiguous r \<longrightarrow>
      (\<forall>c \<in> set cs. \<forall>goal outcome. confirms c goal outcome \<longrightarrow> lf_uuid r = uuid_text goal \<and> lf_terminal r = outcome) \<and>
      (lf_terminal r \<noteq> [] \<longrightarrow> valid_scope (lf_uuid r) \<and>
        (\<exists>c \<in> set cs. \<exists>goal. confirms c goal (lf_terminal r) \<and> lf_uuid r = uuid_text goal)))"

definition silent :: "leaf_call \<Rightarrow> bool" where
  "silent c \<longleftrightarrow> (\<forall>goal outcome. \<not> confirms c goal outcome)"

lemma leaf_ok_silent:
  assumes "leaf_ok action scope cs r" and "silent c" and "c \<noteq> LcTick"
  shows "leaf_ok action scope (cs @ [c]) r"
  using assms unfolding leaf_ok_def silent_def by auto

lemma leaf_ok_ambiguous:
  "leaf_ok action scope cs r \<Longrightarrow> c \<noteq> LcTick \<Longrightarrow> leaf_ok action scope (cs @ [c]) (r\<lparr>lf_ambiguous := True\<rparr>)"
  by (auto simp: leaf_ok_def)

lemma confirms_unique: "confirms c g e \<Longrightarrow> confirms c h d \<Longrightarrow> g = h \<and> e = d"
  by (cases c) (auto simp: confirmed_end_def)

lemma confirms_outcome: "confirms c g e \<Longrightarrow> e \<noteq> [] \<and> c \<noteq> LcTick"
  by (cases c) auto

lemma valid_scope_nonempty: "valid_scope i \<Longrightarrow> i \<noteq> []"
  by (auto simp: valid_scope_def)

lemma associate_ok:
  assumes "leaf_ok action scope cs r" and "confirms c goal outcome"
  shows "leaf_ok action scope (cs @ [c]) (associate (uuid_text goal) outcome r)"
proof (cases "lf_ambiguous (associate (uuid_text goal) outcome r)")
  case True
  with assms(1) confirms_outcome [OF assms(2)] show ?thesis by (auto simp: leaf_ok_def associate_def split: if_splits)
next
  case False
  let ?r = "associate (uuid_text goal) outcome r"
  from False have taken: "lf_uuid ?r = uuid_text goal" "lf_terminal ?r = outcome" "valid_scope (uuid_text goal)"
    "lf_uuid r = [] \<or> lf_uuid r = uuid_text goal" "lf_terminal r = [] \<or> lf_terminal r = outcome" "\<not> lf_ambiguous r"
    by (auto simp: associate_def split: if_splits)
  have old: "lf_uuid ?r = uuid_text g \<and> lf_terminal ?r = e" if "d \<in> set cs" "confirms d g e" for d g e
  proof -
    from assms(1) that taken(6) have o: "lf_uuid r = uuid_text g" "lf_terminal r = e" by (auto simp: leaf_ok_def)
    moreover have "lf_terminal r \<noteq> []" using o confirms_outcome [OF that(2)] by simp
    moreover from this assms(1) taken(6) have "lf_uuid r \<noteq> []"
      by (auto simp: leaf_ok_def dest: valid_scope_nonempty)
    ultimately show ?thesis using taken by simp
  qed
  have same: "lf_action ?r = lf_action r" "lf_scope ?r = lf_scope r" "lf_entered ?r = lf_entered r"
    by (simp_all add: associate_def)
  have entered: "lf_entered ?r \<longleftrightarrow> LcTick \<in> set (cs @ [c])" "lf_action ?r = action" "lf_scope ?r = scope"
    using assms(1) confirms_outcome [OF assms(2)] unfolding same leaf_ok_def by auto
  have "lf_uuid ?r = uuid_text g \<and> lf_terminal ?r = e" if "d \<in> set (cs @ [c])" "confirms d g e" for d g e
  proof (cases "d \<in> set cs")
    case False
    with that have "confirms c g e" by simp
    with confirms_unique [OF assms(2) this] taken(1,2) show ?thesis by simp
  qed (rule old [OF _ that(2)])
  moreover have "\<exists>d \<in> set (cs @ [c]). \<exists>g. confirms d g (lf_terminal ?r) \<and> lf_uuid ?r = uuid_text g"
    using assms(2) taken(1,2) by (intro bexI [of _ c] exI [of _ goal]) simp_all
  ultimately show ?thesis
    using entered taken(1,3) unfolding leaf_ok_def by metis
qed

lemma wp_publish_link:
  assumes "\<And>r s'. ta_evidence s' = ta_evidence s \<Longrightarrow> Q r s'"
  shows "wp (publish_link v) Q s"
  using assms by (auto simp: publish_link_def wp_rules split: option.split)

lemma wp_terminal:
  assumes "\<And>r s'. ta_evidence s' = ta_evidence s \<Longrightarrow> \<nexists>goal. confirmed_end v code goal \<Longrightarrow> Q r s'"
    and "\<And>r s' goal. confirmed_end v code goal \<Longrightarrow> ta_evidence s' = associate (uuid_text goal) outcome (ta_evidence s) \<Longrightarrow> Q r s'"
  shows "wp (terminal v code outcome) Q s"
  using assms
  by (auto simp: terminal_def leaf_changes_def wp_rules confirmed_end_def intro!: wp_publish_link split: option.split)

lemma leaf_member_ok:
  assumes "leaf_ok action scope cs (ta_evidence s)"
  shows "wp (leaf_member c) (\<lambda>r t. leaf_ok action scope (cs @ [c]) (ta_evidence t)) s"
proof (cases c)
  case LcTick
  have "leaf_ok action scope (cs @ [LcTick]) ((ta_evidence s)\<lparr>lf_entered := True\<rparr>)"
    using assms by (auto simp: leaf_ok_def)
  with LcTick show ?thesis by (simp add: tick_def leaf_changes_def wp_rules)
next
  case (LcWait v)
  have "leaf_ok action scope (cs @ [c]) (ta_evidence s)"
    by (rule leaf_ok_silent [OF assms]) (simp_all add: LcWait silent_def)
  with LcWait show ?thesis by (auto simp: wp_rules intro!: wp_publish_link split: sum.split)
next
  case (LcSuccess v)
  have "leaf_ok action scope (cs @ [c]) (ta_evidence s)" if "\<nexists>goal. confirmed_end v RcSucceeded goal"
    by (rule leaf_ok_silent [OF assms]) (use that in \<open>simp_all add: LcSuccess silent_def\<close>)
  moreover have "leaf_ok action scope (cs @ [c]) (associate (uuid_text goal) ''succeeded'' (ta_evidence s))"
    if "confirmed_end v RcSucceeded goal" for goal
    by (rule associate_ok [OF assms]) (simp add: LcSuccess that)
  ultimately show ?thesis
    by (auto simp: LcSuccess on_success_def wp_attempt wp_yields intro!: wp_terminal split: sum.split)
next
  case (LcAborted v)
  have "leaf_ok action scope (cs @ [c]) (ta_evidence s)" if "\<nexists>goal. confirmed_end v RcAborted goal"
    by (rule leaf_ok_silent [OF assms]) (use that in \<open>simp_all add: LcAborted silent_def\<close>)
  moreover have "leaf_ok action scope (cs @ [c]) (associate (uuid_text goal) ''failed'' (ta_evidence s))"
    if "confirmed_end v RcAborted goal" for goal
    by (rule associate_ok [OF assms]) (simp add: LcAborted that)
  ultimately show ?thesis
    by (auto simp: LcAborted on_aborted_def wp_attempt wp_yields intro!: wp_terminal split: sum.split)
next
  case (LcCancelled v)
  have unknown: "leaf_ok action scope (cs @ [c]) ((ta_evidence s)\<lparr>lf_ambiguous := True\<rparr>)"
    by (rule leaf_ok_ambiguous [OF assms]) (simp add: LcCancelled)
  have "leaf_ok action scope (cs @ [c]) (ta_evidence s)" if "\<nexists>goal. confirmed_end v RcCanceled goal"
    by (rule leaf_ok_silent [OF assms]) (use that in \<open>simp_all add: LcCancelled silent_def\<close>)
  moreover have "leaf_ok action scope (cs @ [c]) (associate (uuid_text goal) ''cancelled'' (ta_evidence s))"
    if "confirmed_end v RcCanceled goal" for goal
    by (rule associate_ok [OF assms]) (simp add: LcCancelled that)
  ultimately show ?thesis
    using unknown
    by (auto simp: LcCancelled on_cancelled_def wp_attempt wp_if wp_does wp_yields leaf_changes_def wp_changes
        intro!: wp_terminal wp_publish_link split: sum.split)
qed

lemma leaf_step_wp: "wp (leaf_member c) (\<lambda>r. P) s \<Longrightarrow> P (fst (leaf_step s c))"
  by (simp add: leaf_step_def wp_run split_beta)

lemma leaf_run_ok:
  assumes "new_tracked action (Some scope) = Some s"
  shows "leaf_ok action scope cs (ta_evidence (leaf_run s cs))"
proof (induction cs rule: rev_induct)
  case Nil
  with assms show ?case by (auto simp: new_tracked_def leaf_ok_def new_leaf_def split: if_splits)
next
  case (snoc c cs)
  then show ?case
    by (simp add: run_append leaf_step_wp [OF leaf_member_ok])
qed

text \<open>
  C34. A leaf's report of its child is evidence. A record of kind \<open>terminal\<close> names a child
  goal and an outcome that a result of that goal has confirmed, and every result confirmed
  in the leaf's life was of that goal and outcome; a record of kind \<open>not_submitted\<close> is
  that of a leaf which was never ticked.
\<close>

theorem leaf_kind_is_evidence:
  assumes "new_tracked action (Some scope) = Some s"
  shows "(leaf_kind (ta_evidence (leaf_run s cs)) = ''terminal'' \<longrightarrow>
      (\<exists>c \<in> set cs. \<exists>goal. confirms c goal (lf_terminal (ta_evidence (leaf_run s cs))) \<and>
        lf_uuid (ta_evidence (leaf_run s cs)) = uuid_text goal) \<and>
      (\<forall>c \<in> set cs. \<forall>goal outcome. confirms c goal outcome \<longrightarrow>
        lf_uuid (ta_evidence (leaf_run s cs)) = uuid_text goal \<and> lf_terminal (ta_evidence (leaf_run s cs)) = outcome)) \<and>
    (leaf_kind (ta_evidence (leaf_run s cs)) = ''not_submitted'' \<longrightarrow> LcTick \<notin> set cs)"
  using leaf_run_ok [OF assms, of cs] by (auto simp: leaf_ok_def leaf_kind_def split: if_splits)

definition demo_view :: action_view where
  "demo_view = \<lparr>av_goal = Some demo_goal, av_available = True, av_code = RcSucceeded, av_result_goal = demo_goal\<rparr>"

definition demo_leaf :: tracked where
  "demo_leaf = the (new_tracked (action_name 1) (Some demo_scope_id))"

lemma demo_leaf_new: "new_tracked (action_name 1) (Some demo_scope_id) = Some demo_leaf"
proof -
  have "new_tracked (action_name 1) (Some demo_scope_id) \<noteq> None" by code_simp
  then show ?thesis by (auto simp: demo_leaf_def)
qed

theorem leaf_kind_is_evidence_witness:
  "leaf_kind (ta_evidence (leaf_run demo_leaf [LcTick, LcSuccess demo_view])) = ''terminal'' \<and>
    (\<exists>c \<in> set [LcTick, LcSuccess demo_view]. \<exists>goal.
      confirms c goal (lf_terminal (ta_evidence (leaf_run demo_leaf [LcTick, LcSuccess demo_view]))) \<and>
      lf_uuid (ta_evidence (leaf_run demo_leaf [LcTick, LcSuccess demo_view])) = uuid_text goal)"
proof -
  have "leaf_kind (ta_evidence (leaf_run demo_leaf [LcTick, LcSuccess demo_view])) = ''terminal''"
    by code_simp
  with leaf_kind_is_evidence [OF demo_leaf_new, of "[LcTick, LcSuccess demo_view]"] show ?thesis
    by blast
qed

text \<open>The goal identities of the interface have sixteen bytes.\<close>

fun call_view :: "leaf_call \<Rightarrow> action_view option" where
  "call_view LcTick = None"
| "call_view (LcWait v) = Some v"
| "call_view (LcSuccess v) = Some v"
| "call_view (LcAborted v) = Some v"
| "call_view (LcCancelled v) = Some v"

definition sixteen :: "leaf_call \<Rightarrow> bool" where
  "sixteen c \<longleftrightarrow> (\<forall>v goal. call_view c = Some v \<longrightarrow> av_goal v = Some goal \<longrightarrow> length goal = 16)"

lemma uuid_text_nonempty: "length goal = 16 \<Longrightarrow> uuid_text goal \<noteq> []"
  using length_uuid_text [of goal] by auto

text \<open>The link that has been published, if any, is the one of the identity on record.\<close>

definition links_ok :: "string \<Rightarrow> string \<Rightarrow> tracked \<Rightarrow> bool" where
  "links_ok action scope s \<longleftrightarrow>
    lf_action (ta_evidence s) = action \<and> lf_scope (ta_evidence s) = scope \<and>
    (ta_published s = [] \<longrightarrow> ta_links s = []) \<and>
    (ta_published s \<noteq> [] \<longrightarrow> (\<exists>goal. length goal = 16 \<and> ta_published s = uuid_text goal \<and>
      ta_links s = [link_text scope (uuid_text goal) action]))"

lemma publish_link_ok:
  assumes "links_ok action scope s" and "\<forall>goal. av_goal v = Some goal \<longrightarrow> length goal = 16"
  shows "wp (publish_link v) (\<lambda>r. links_ok action scope) s"
  using assms by (auto simp: publish_link_def wp_rules links_ok_def uuid_text_nonempty split: option.split)

lemma leaf_changes_links:
  assumes "links_ok action scope s" and "\<And>r. lf_action (f r) = lf_action r" and "\<And>r. lf_scope (f r) = lf_scope r"
  shows "wp (leaf_changes f) (\<lambda>r. links_ok action scope) s"
  using assms by (simp add: leaf_changes_def wp_rules links_ok_def)

lemma associate_parts [simp]: "lf_action (associate i e r) = lf_action r" "lf_scope (associate i e r) = lf_scope r"
  by (simp_all add: associate_def)

lemma terminal_links:
  assumes "links_ok action scope s" and "\<forall>goal. av_goal v = Some goal \<longrightarrow> length goal = 16"
  shows "wp (terminal v code outcome) (\<lambda>r. links_ok action scope) s"
proof -
  have "wp (do {
      leaf_changes (associate (uuid_text goal) outcome);
      publish_link v
    }) (\<lambda>r. links_ok action scope) s" for goal
    unfolding wp_bind
    by (rule wp_mono [OF leaf_changes_links [OF assms(1)]]) (simp_all add: publish_link_ok assms(2))
  with assms(1) show ?thesis by (simp add: terminal_def wp_rules split: option.split)
qed

lemma leaf_member_links:
  assumes "links_ok action scope s" and "sixteen c"
  shows "wp (leaf_member c) (\<lambda>r. links_ok action scope) s"
proof -
  have goals: "\<forall>goal. av_goal v = Some goal \<longrightarrow> length goal = 16" if "call_view c = Some v" for v
    using assms(2) that by (simp add: sixteen_def)
  have then_yields: "wp (attempt m (\<lambda>_. yields e)) (\<lambda>r. links_ok action scope) s"
    if "wp m (\<lambda>r. links_ok action scope) s" for m :: "unit leaf_program" and e :: NodeStatus
    unfolding wp_attempt by (rule wp_mono [OF that]) (simp add: wp_yields split: sum.split)
  show ?thesis
  proof (cases c)
    case LcTick
    show ?thesis
      unfolding LcTick leaf_member.simps tick_def wp_does wp_bind wp_answer
      by (rule leaf_changes_links [OF assms(1)]) simp_all
  next
    case (LcWait v)
    with goals show ?thesis by (simp add: then_yields publish_link_ok [OF assms(1)])
  next
    case (LcSuccess v)
    with goals show ?thesis by (simp add: on_success_def then_yields terminal_links [OF assms(1)])
  next
    case (LcAborted v)
    with goals show ?thesis by (simp add: on_aborted_def then_yields terminal_links [OF assms(1)])
  next
    case (LcCancelled v)
    with goals have v: "\<forall>goal. av_goal v = Some goal \<longrightarrow> length goal = 16" by simp
    have first: "wp (if av_goal v \<noteq> None \<and> av_available v \<and> av_code v = RcCanceled then terminal v RcCanceled ''cancelled''
        else does (leaf_changes (\<lambda>r. r\<lparr>lf_ambiguous := True\<rparr>))) (\<lambda>r. links_ok action scope) s"
      using terminal_links [OF assms(1) v] leaf_changes_links [OF assms(1)] by (simp add: wp_if wp_does)
    have "wp (attempt (publish_link v) (\<lambda>_. yields NsSuccess)) (\<lambda>r. links_ok action scope) t" if "links_ok action scope t" for t
      unfolding wp_attempt by (rule wp_mono [OF publish_link_ok [OF that v]]) (simp add: wp_yields split: sum.split)
    then show ?thesis
      unfolding LcCancelled leaf_member.simps on_cancelled_def wp_attempt [of "If _ _ _"]
      by (intro wp_mono [OF first]) (simp split: sum.split)
  qed
qed

lemma leaf_run_links:
  assumes "new_tracked action (Some scope) = Some s" and "list_all sixteen cs"
  shows "links_ok action scope (leaf_run s cs)"
  using assms(2)
proof (induction cs rule: rev_induct)
  case Nil
  with assms(1) show ?case by (auto simp: new_tracked_def links_ok_def new_leaf_def split: if_splits)
next
  case (snoc c cs)
  then have "links_ok action scope (leaf_run s cs)" and c: "sixteen c" by simp_all
  then show ?case by (simp add: run_append leaf_step_wp [OF leaf_member_links])
qed

text \<open>
  A leaf is linked to one child. Whatever the hooks are called with, a leaf publishes
  at most one link, for its own scope and action, and never two identities.
\<close>

theorem leaf_links_one_child:
  assumes "new_tracked action (Some scope) = Some s" and "list_all sixteen cs"
  shows "ta_links (leaf_run s cs) = [] \<or>
    (\<exists>goal. length goal = 16 \<and> ta_links (leaf_run s cs) = [link_text scope (uuid_text goal) action])"
  using leaf_run_links [OF assms] by (auto simp: links_ok_def)

theorem leaf_links_one_child_witness:
  "ta_links (leaf_run demo_leaf [LcTick, LcSuccess demo_view]) = [] \<or>
    (\<exists>goal. length goal = 16 \<and>
      ta_links (leaf_run demo_leaf [LcTick, LcSuccess demo_view]) = [link_text demo_scope_id (uuid_text goal) (action_name 1)])"
  by (rule leaf_links_one_child [OF demo_leaf_new]) (simp add: sixteen_def demo_view_def demo_goal_def)

subsection \<open>The tree\<close>

lemma request_scope_path: "request_scope path = Some scope \<Longrightarrow> path = request_path scope"
  by (auto simp: request_scope_def Let_def split: if_splits)

lemma filter_one: "length (filter P xs) = 1 \<Longrightarrow> \<exists>x. filter P xs = [x] \<and> x \<in> set xs \<and> P x"
proof -
  assume "length (filter P xs) = 1"
  then obtain x where x: "filter P xs = [x]" by (auto simp: length_Suc_conv)
  have "x \<in> set (filter P xs)" unfolding x by simp
  then have "x \<in> set xs \<and> P x" by simp
  with x show ?thesis by blast
qed

text \<open>
  A proved closure of the tree covers both children. When the service succeeds with
  proof required, the halted tree is idle, exactly one planner leaf and one controller
  leaf are in it, and both report, for the scope of the request's path, either that they
  never submitted a child or how their child confirmed_end.
\<close>

theorem proved_tree_covers_children:
  assumes "close_navigation halt server path nodes True ns n = (m, True, message)"
  shows "\<exists>scope planner controller. path = request_path scope \<and> tree_idle (halt nodes) \<and>
    filter (\<lambda>r. lf_action r = action_name 0) (tree_leaves (halt nodes)) = [planner] \<and>
    filter (\<lambda>r. lf_action r = action_name 1) (tree_leaves (halt nodes)) = [controller] \<and>
    (\<forall>r \<in> {planner, controller}. lf_scope r = scope \<and> leaf_kind r \<in> {''not_submitted'', ''terminal''})"
proof -
  from assms obtain scope where scope: "request_scope path = Some scope" and idle: "tree_idle (halt nodes)"
    and proved: "leaves_proved scope (tree_leaves (halt nodes))"
    by (auto simp: close_navigation_def Let_def split: if_splits option.splits)
  obtain planner where p: "filter (\<lambda>r. lf_action r = action_name 0) (tree_leaves (halt nodes)) = [planner]"
      "planner \<in> set (tree_leaves (halt nodes))"
    using proved filter_one unfolding leaves_proved_def by blast
  obtain controller where c: "filter (\<lambda>r. lf_action r = action_name 1) (tree_leaves (halt nodes)) = [controller]"
      "controller \<in> set (tree_leaves (halt nodes))"
    using proved filter_one unfolding leaves_proved_def by blast
  have kinds: "leaf_kind r \<in> {''not_submitted'', ''terminal'', ''unknown''}" for r
    by (simp add: leaf_kind_def)
  have "lf_scope r = scope \<and> leaf_kind r \<in> {''not_submitted'', ''terminal''}" if "r \<in> set (tree_leaves (halt nodes))" for r
    using proved kinds [of r] that unfolding leaves_proved_def list_all_iff by blast
  with p c request_scope_path [OF scope] idle show ?thesis by auto
qed

definition demo_nodes :: "bt_node list" where
  "demo_nodes = [\<lparr>bn_status = NsRunning, bn_leaf = None\<rparr>,
     \<lparr>bn_status = NsSuccess, bn_leaf = Some (new_leaf (action_name 0) demo_scope_id)\<rparr>,
     \<lparr>bn_status = NsIdle, bn_leaf = Some (ta_evidence (leaf_run demo_leaf [LcTick, LcSuccess demo_view]))\<rparr>]"

definition demo_halt :: "bt_node list \<Rightarrow> bt_node list" where
  "demo_halt = map (\<lambda>n. n\<lparr>bn_status := NsIdle\<rparr>)"

theorem proved_tree_covers_children_witness:
  "\<exists>scope planner controller. request_path demo_scope_id = request_path scope \<and> tree_idle (demo_halt demo_nodes) \<and>
    filter (\<lambda>r. lf_action r = action_name 0) (tree_leaves (demo_halt demo_nodes)) = [planner] \<and>
    filter (\<lambda>r. lf_action r = action_name 1) (tree_leaves (demo_halt demo_nodes)) = [controller] \<and>
    (\<forall>r \<in> {planner, controller}. lf_scope r = scope \<and> leaf_kind r \<in> {''not_submitted'', ''terminal''})"
proof -
  have "fst (snd (close_navigation demo_halt True (request_path demo_scope_id) demo_nodes True 9 new_navigator))"
    by code_simp
  then obtain m message where
    "close_navigation demo_halt True (request_path demo_scope_id) demo_nodes True 9 new_navigator = (m, True, message)"
    by (metis prod.collapse)
  then show ?thesis by (rule proved_tree_covers_children)
qed

end
