(* ===== verification/Scoped_Drive_Handlers.thy ===== *)
theory Scoped_Drive_Handlers
  imports Scoped_Drive
begin

text \<open>
  The handlers of the scoped drive: the simulator's update, the legacy and scoped command
  paths, the owner's permission services, the load of the plugin and its reset. The machine
  at the end takes them in any order.
\<close>

subsection \<open>The update\<close>


text \<open>\<open>UpdateWheelVelocities\<close>, one wheel pair after the other.\<close>

fun wheel_velocities :: "('d, 'x) floating_scheme \<Rightarrow> 'd \<Rightarrow> 'd \<Rightarrow> 'd list \<Rightarrow> nat list \<Rightarrow> 'd list \<Rightarrow> 'd list" where
  "wheel_velocities fl vr va separation [] desired = desired"
| "wheel_velocities fl vr va separation (i # is) desired =
    wheel_velocities fl vr va separation is
      (desired[2 * i + LEFT := fl_sub fl vr (fl_div fl (fl_mul fl va (separation ! i)) (fl_two fl)),
        2 * i + RIGHT := fl_add fl vr (fl_div fl (fl_mul fl va (separation ! i)) (fl_two fl))])"

definition update_wheel_velocities :: "('d, 'x) floating_scheme \<Rightarrow> ('d, 'w) driving \<Rightarrow> ('d, 'w) driving" where
  "update_wheel_velocities fl s =
     s\<lparr>dv_desired := wheel_velocities fl (dv_target_x s) (dv_target_rot s) (dv_separation s)
        [0 ..< dv_pairs s] (dv_desired s)\<rparr>"

definition wheel_radius :: "('d, 'x) floating_scheme \<Rightarrow> ('d, 'w) driving \<Rightarrow> nat \<Rightarrow> 'd" where
  "wheel_radius fl s i = fl_div fl (dv_diameter s ! i) (fl_two fl)"

definition wheel_speed :: "('d, 'w) drive_api \<Rightarrow> nat \<Rightarrow> nat \<Rightarrow> (('d, 'w) driving, 'd) program" where
  "wheel_speed da i wheel = do {
     joint \<leftarrow> reads (\<lambda>s. dv_joints s ! wheel);
     v \<leftarrow> simulator (da_velocity da joint);
     reads (\<lambda>s. fl_mul da v (wheel_radius da s i))
   }"

fun current_speeds :: "('d, 'w) drive_api \<Rightarrow> nat list \<Rightarrow> 'd list \<Rightarrow> (('d, 'w) driving, 'd list) program" where
  "current_speeds da [] speeds = answer speeds"
| "current_speeds da (i # is) speeds = do {
     left \<leftarrow> wheel_speed da i (2 * i + LEFT);
     right \<leftarrow> wheel_speed da i (2 * i + RIGHT);
     current_speeds da is (speeds[2 * i + LEFT := left, 2 * i + RIGHT := right])
   }"

definition reached_speed :: "('d, 'x) floating_scheme \<Rightarrow> 'd \<Rightarrow> 'd \<Rightarrow> bool" where
  "reached_speed fl desired current \<longleftrightarrow> fl_less fl (fl_abs fl (fl_sub fl desired current)) (fl_lit fl 1 2)"

text \<open>The acceleration-limited step towards the desired speed; \<open>up\<close> says that it is an increase.\<close>

definition speed_step :: "('d, 'x) floating_scheme \<Rightarrow> bool \<Rightarrow> 'd \<Rightarrow> 'd \<Rightarrow> 'd \<Rightarrow> 'd \<Rightarrow> 'd" where
  "speed_step fl up accel seconds desired current =
    (if up then fl_min fl (fl_sub fl desired current) (fl_mul fl accel seconds)
     else fl_max fl (fl_sub fl desired current) (fl_mul fl (fl_neg fl accel) seconds))"

definition limit_pair :: "('d, 'x) floating_scheme \<Rightarrow> 'd \<Rightarrow> 'd list \<Rightarrow> nat \<Rightarrow> ('d, 'w) driving \<Rightarrow> ('d, 'w) driving" where
  "limit_pair fl seconds current i s =
    (let l = 2 * i + LEFT; r = 2 * i + RIGHT; dl = dv_desired s ! l; dr = dv_desired s ! r;
       s = s\<lparr>dv_instr := (dv_instr s)[l := fl_add fl (dv_instr s ! l)
         (speed_step fl (fl_leq fl (current ! l) dl) (dv_accel s) seconds dl (current ! l))]\<rparr>
     in s\<lparr>dv_instr := (dv_instr s)[r := fl_add fl (dv_instr s ! r)
         (speed_step fl (fl_less fl (current ! r) dr) (dv_accel s) seconds dr (current ! r))]\<rparr>)"

definition write_pair :: "('d, 'w) drive_api \<Rightarrow> sim_time \<Rightarrow> (('d, 'w) driving \<Rightarrow> 'd list) \<Rightarrow> nat \<Rightarrow> ('d, 'w, bool) drives" where
  "write_pair da t speeds i = do {
     left \<leftarrow> reads (\<lambda>s. fl_div da (speeds s ! (2 * i + LEFT)) (wheel_radius da s i));
     attempt (write_permitted da t (2 * i + LEFT) left) (\<lambda>ok.
       if \<not> ok then yields False
       else do {
         right \<leftarrow> reads (\<lambda>s. fl_div da (speeds s ! (2 * i + RIGHT)) (wheel_radius da s i));
         write_permitted da t (2 * i + RIGHT) right
       })
   }"

definition at_speed :: "('d, 'x) floating_scheme \<Rightarrow> 'd list \<Rightarrow> nat \<Rightarrow> ('d, 'w) driving \<Rightarrow> bool" where
  "at_speed fl current i s \<longleftrightarrow>
    fl_eq fl (dv_accel s) (fl_zero fl) \<or>
    reached_speed fl (dv_desired s ! (2 * i + LEFT)) (current ! (2 * i + LEFT)) \<and>
    reached_speed fl (dv_desired s ! (2 * i + RIGHT)) (current ! (2 * i + RIGHT))"

definition drive_pair :: "('d, 'w) drive_api \<Rightarrow> sim_time \<Rightarrow> 'd \<Rightarrow> 'd list \<Rightarrow> nat \<Rightarrow> ('d, 'w, bool) drives" where
  "drive_pair da t seconds current i = do {
     reached \<leftarrow> reads (at_speed da current i);
     if reached then write_pair da t dv_desired i
     else do {
       changes (limit_pair da seconds current i);
       write_pair da t dv_instr i
     }
   }"

fun drive_pairs :: "('d, 'w) drive_api \<Rightarrow> sim_time \<Rightarrow> 'd \<Rightarrow> 'd list \<Rightarrow> nat list \<Rightarrow> ('d, 'w, bool) drives" where
  "drive_pairs da t seconds current [] = yields True"
| "drive_pairs da t seconds current (i # is) = attempt (drive_pair da t seconds current i) (\<lambda>ok.
     if ok then drive_pairs da t seconds current is else yields False)"

definition move_wheels :: "('d, 'w) drive_api \<Rightarrow> sim_time \<Rightarrow> 'd \<Rightarrow> ('d, 'w, unit) drives" where
  "move_wheels da t seconds = do {
     changes (update_wheel_velocities da);
     pairs \<leftarrow> reads dv_pairs;
     current \<leftarrow> current_speeds da [0 ..< pairs] (replicate (2 * pairs) (fl_zero da));
     attempt (drive_pairs da t seconds current [0 ..< pairs]) (\<lambda>ok.
       does (on_condition ok (changes (\<lambda>s. s\<lparr>dv_last_update := t\<rparr>))))
   }"

definition check_permission :: "('d, 'w) drive_api \<Rightarrow> ('d, 'w, unit) drives" where
  "check_permission da = do {
     owner \<leftarrow> reads dv_owner_mode;
     attempt_when owner (attempt (permit_now da) (\<lambda>now. do {
       identity \<leftarrow> reads permit_identity;
       allowed \<leftarrow> permit (can_consume identity now);
       sync_permission da now
     }))
   }"

text \<open>The part of an update that runs under the mutex.\<close>

definition consume_targets :: "('d, 'w) drive_api \<Rightarrow> sim_time \<Rightarrow> 'd \<Rightarrow> ('d, 'w, unit) drives" where
  "consume_targets da t seconds = do {
     changes (\<lambda>s. s\<lparr>dv_sequence := dv_sequence s + 1\<rparr>);
     attempt (check_permission da) (\<lambda>_. do {
       sealed \<leftarrow> reads dv_sealed;
       if sealed then apply_zero da t else move_wheels da t seconds
     })
   }"

definition on_update :: "('d, 'w) drive_api \<Rightarrow> sim_time \<Rightarrow> ('d, 'w, unit) drives" where
  "on_update da t = do {
     update_encoder da t;
     seconds \<leftarrow> reads (\<lambda>s. da_elapsed da t (dv_last_update s));
     early \<leftarrow> reads (\<lambda>s. fl_less da seconds (dv_period s));
     if early then yields ()
     else do {
       report_odometry da t;
       consume_targets da t seconds
     }
   }"

subsection \<open>Commands without a permission\<close>

text \<open>The two components of a twist that the drive reads.\<close>

record 'd twist =
  tw_x :: 'd
  tw_rot :: 'd

definition nonzero_twist :: "('d, 'x) floating_scheme \<Rightarrow> 'd twist \<Rightarrow> bool" where
  "nonzero_twist fl m \<longleftrightarrow> \<not> fl_eq fl (tw_x m) (fl_zero fl) \<or> \<not> fl_eq fl (tw_rot m) (fl_zero fl)"

definition finite_twist :: "('d, 'x) floating_scheme \<Rightarrow> 'd twist \<Rightarrow> bool" where
  "finite_twist fl m \<longleftrightarrow> fl_finite fl (tw_x m) \<and> fl_finite fl (tw_rot m)"

definition set_target :: "'d twist \<Rightarrow> ('d, 'w) driving \<Rightarrow> ('d, 'w) driving" where
  "set_target m s = s\<lparr>dv_target_x := tw_x m, dv_target_rot := tw_rot m\<rparr>"

definition zero_target :: "('d, 'x) floating_scheme \<Rightarrow> ('d, 'w) driving \<Rightarrow> ('d, 'w) driving" where
  "zero_target fl s = s\<lparr>dv_target_x := fl_zero fl, dv_target_rot := fl_zero fl\<rparr>"

definition on_cmd_vel :: "('d, 'w) drive_api \<Rightarrow> 'd twist \<Rightarrow> ('d, 'w, unit) drives" where
  "on_cmd_vel da m = do {
     generation_mode \<leftarrow> reads dv_generation_mode;
     sealed \<leftarrow> reads dv_sealed;
     if generation_mode
     then attempt_when (nonzero_twist da m) (record_event da ''unscoped_command_rejected'')
     else if sealed
     then attempt_when (nonzero_twist da m) (record_event da ''late_nonzero_command_rejected'')
     else does (changes (set_target m))
   }"

definition close_scope :: "('d, 'w) drive_api \<Rightarrow> string \<Rightarrow> ('d, 'w, bool) drives" where
  "close_scope da scope = do {
     refused \<leftarrow> reads (\<lambda>s. dv_generation_mode s \<or> \<not> valid_scope scope \<or> dv_sealed s \<and> dv_scope s \<noteq> scope);
     sealed \<leftarrow> reads dv_sealed;
     if refused then yields False
     else attempt (attempt_when (\<not> sealed) (do {
         changes (\<lambda>s. zero_target da (s\<lparr>dv_scope := scope, dv_sealed := True\<rparr>));
         record_event da ''motion_scope_sealed''
       })) (\<lambda>_. yields True)
   }"

subsection \<open>Generations without an owner\<close>

definition open_scope :: "('d, 'w) drive_api \<Rightarrow> string \<Rightarrow> u64 \<Rightarrow> ('d, 'w, bool \<times> u64) drives" where
  "open_scope da scope expected = do {
     owner \<leftarrow> reads dv_owner_mode;
     generation \<leftarrow> reads dv_generation;
     invalid \<leftarrow> reads (\<lambda>s. \<not> dv_generation_mode s \<or> expected = u64_max \<or> \<not> valid_scope scope);
     retry \<leftarrow> reads (\<lambda>s. \<not> dv_sealed s \<and> dv_generation s = expected + 1 \<and> dv_scope s = scope);
     busy \<leftarrow> reads (\<lambda>s. dv_generation s \<noteq> expected \<or> \<not> dv_sealed s \<or> \<not> dv_applied s);
     if owner then attempt (record_event da ''legacy_open_rejected'') (\<lambda>_. yields (False, generation))
     else if invalid then yields (False, generation)
     else if retry then yields (True, generation)
     else if busy then yields (False, generation)
     else do {
       changes (\<lambda>s. (zero_target da (s\<lparr>dv_generation := dv_generation s + 1, dv_scope := scope\<rparr>))
         \<lparr>dv_applied := False, dv_sealed := False\<rparr>);
       generation \<leftarrow> reads dv_generation;
       attempt (record_event da ''motion_scope_opened'') (\<lambda>_. yields (True, generation))
     }
   }"

definition close_generation :: "('d, 'w) drive_api \<Rightarrow> string \<Rightarrow> u64 \<Rightarrow> ('d, 'w, bool) drives" where
  "close_generation da scope generation = do {
     owner \<leftarrow> reads dv_owner_mode;
     refused \<leftarrow> reads (\<lambda>s. \<not> dv_generation_mode s \<or> dv_generation s = 0 \<or> generation \<noteq> dv_generation s \<or>
       scope \<noteq> dv_scope s);
     sealed \<leftarrow> reads dv_sealed;
     if owner then attempt (record_event da ''legacy_close_rejected'') (\<lambda>_. yields False)
     else if refused then yields False
     else attempt (attempt_when (\<not> sealed) (do {
         changes (\<lambda>s. zero_target da (s\<lparr>dv_sealed := True, dv_applied := False\<rparr>));
         record_event da ''motion_scope_sealed''
       })) (\<lambda>_. yields True)
   }"

definition on_scoped_cmd :: "('d, 'w) drive_api \<Rightarrow> string \<Rightarrow> u64 \<Rightarrow> 'd twist \<Rightarrow> ('d, 'w, unit) drives" where
  "on_scoped_cmd da scope generation m = do {
     owner \<leftarrow> reads dv_owner_mode;
     refused \<leftarrow> reads (\<lambda>s. \<not> dv_generation_mode s \<or> dv_generation s = 0 \<or> dv_sealed s \<or>
       generation \<noteq> dv_generation s \<or> scope \<noteq> dv_scope s \<or> \<not> finite_twist da m);
     if owner then record_event da ''legacy_command_rejected''
     else if refused then record_command da ''scoped_command_rejected'' (Some generation)
     else does (changes (set_target m))
   }"

subsection \<open>The owner's permission\<close>

text \<open>Opening and closing, once the clock has been read.\<close>

definition open_at ::
  "('d, 'w) drive_api \<Rightarrow> MotionPermitIdentity \<Rightarrow> u64 \<Rightarrow> u64 \<Rightarrow> u64 \<Rightarrow> ('d, 'w, bool \<times> u64 \<times> u64) drives" where
  "open_at da identity expected issued now = do {
     retry \<leftarrow> reads (\<lambda>s. \<not> dv_sealed s);
     applied \<leftarrow> reads dv_applied;
     accepted \<leftarrow> permit (permission_open identity expected issued now applied);
     attempt (sync_permission da now) (\<lambda>_.
     attempt (attempt_when (accepted \<and> \<not> retry) (do {
         changes (\<lambda>s. (zero_target da (s\<lparr>dv_scope := mi_scope_id identity,
           dv_generation := mi_generation identity, dv_operation := mi_operation_id identity\<rparr>))
           \<lparr>dv_applied := False, dv_sealed := False, dv_reason := ''open''\<rparr>);
         record_event da ''motion_scope_opened''
       })) (\<lambda>_. do {
       generation \<leftarrow> reads dv_generation;
       deadline \<leftarrow> reads (\<lambda>s. mp_deadline (dv_permission s));
       attempt (record_event da (if accepted then ''permission_open_accepted'' else ''permission_open_rejected''))
         (\<lambda>_. yields (accepted, generation, deadline))
     }))
   }"

definition open_permit ::
  "('d, 'w) drive_api \<Rightarrow> string \<Rightarrow> u64 \<Rightarrow> u64 \<Rightarrow> u64 \<Rightarrow> ('d, 'w, bool \<times> u64 \<times> u64) drives" where
  "open_permit da scope expected operation issued = attempt (permit_now da)
     (open_at da \<lparr>mi_scope_id = scope, mi_generation = expected + 1, mi_operation_id = operation\<rparr> expected issued)"

definition renew_permit ::
  "('d, 'w) drive_api \<Rightarrow> MotionPermitIdentity \<Rightarrow> u64 \<Rightarrow> ('d, 'w, bool \<times> u64) drives" where
  "renew_permit da identity issued = attempt (permit_now da) (\<lambda>now. do {
     accepted \<leftarrow> permit (permission_renew identity issued now);
     attempt (sync_permission da now) (\<lambda>_. do {
       deadline \<leftarrow> reads (\<lambda>s. mp_deadline (dv_permission s));
       attempt (record_event da (if accepted then ''permission_renewed'' else ''permission_renew_rejected''))
         (\<lambda>_. yields (accepted, deadline))
     })
   })"

definition close_at :: "('d, 'w) drive_api \<Rightarrow> MotionPermitIdentity \<Rightarrow> u64 \<Rightarrow> ('d, 'w, bool) drives" where
  "close_at da identity now = do {
     accepted \<leftarrow> permit (permission_close identity now);
     attempt (sync_permission da now) (\<lambda>_. do {
       sealed \<leftarrow> reads dv_sealed;
       attempt (attempt_when (accepted \<and> \<not> sealed) (do {
         changes (seal_drive da ''normal_close'');
         record_event da ''motion_scope_sealed''
       })) (\<lambda>_. yields accepted)
     })
   }"

definition close_permit :: "('d, 'w) drive_api \<Rightarrow> MotionPermitIdentity \<Rightarrow> ('d, 'w, bool) drives" where
  "close_permit da identity = attempt (permit_now da) (close_at da identity)"

definition permitted_command ::
  "('d, 'w) drive_api \<Rightarrow> MotionPermitIdentity \<Rightarrow> 'd twist \<Rightarrow> ('d, 'w, unit) drives" where
  "permitted_command da identity m = attempt (permit_now da) (\<lambda>now. do {
     allowed \<leftarrow> permit (can_consume identity now);
     attempt (sync_permission da now) (\<lambda>_. do {
       sealed \<leftarrow> reads dv_sealed;
       if \<not> allowed \<or> sealed \<or> \<not> finite_twist da m
       then record_command da ''scoped_command_rejected'' (Some (mi_generation identity))
       else does (changes (set_target m))
     })
   })"

end
