(* ===== verification/Scoped_Drive_Machine.thy ===== *)
theory Scoped_Drive_Machine
  imports Scoped_Drive_Handlers
begin

text \<open>
  The life of a scoped drive: its load from the model description, its reset, and every
  handler in any order. A handler that no mode has registered is not called.
\<close>

subsection \<open>Load\<close>

record 'd drive_config =
  dc_isolated :: "string option"
  dc_log_open :: bool
  dc_generation_mode :: bool
  dc_owner_mode :: bool
  dc_wheel_pairs :: u32
  dc_wheel_accel :: 'd
  dc_wheel_torque :: 'd
  dc_left_joints :: "string list"
  dc_right_joints :: "string list"
  dc_separations :: "'d list"
  dc_diameters :: "'d list"
  dc_update_rate :: 'd
  dc_odometry_frame :: string
  dc_base_frame :: string
  dc_odometry_source :: u32
  dc_publish_odom :: bool
  dc_publish_wheel_tf :: bool
  dc_publish_odom_tf :: bool
  dc_covariance :: "'d point"

definition new_odometry :: "('d, 'x) floating_scheme \<Rightarrow> 'd odometry" where
  "new_odometry fl =
    \<lparr>od_position = (fl_zero fl, fl_zero fl, fl_zero fl),
     od_orientation = (fl_zero fl, fl_zero fl, fl_zero fl, fl_lit fl 1 0),
     od_angular_z = fl_zero fl, od_linear_x = fl_zero fl, od_linear_y = fl_zero fl,
     od_pose_covariance = replicate 36 (fl_zero fl), od_twist_covariance = replicate 36 (fl_zero fl),
     od_frame = [], od_child = [], od_stamp = \<lparr>st_sec = 0, st_nsec = 0\<rparr>\<rparr>"

text \<open>
  The private state as its member initialisers leave it. The members without an initialiser
  are zero here: \<open>Load\<close> sets each before anything reads it.
\<close>

definition new_drive :: "('d, 'x) floating_scheme \<Rightarrow> 'd scoped_drive" where
  "new_drive fl =
    \<lparr>dv_owner_mode = False, dv_permission = the (make_permission 1000000000), dv_operation = 0, dv_reason = ''boot'',
     dv_scope = [], dv_generation_mode = False, dv_generation = 0, dv_sealed = False, dv_applied = False,
     dv_sequence = 0, dv_separation = [], dv_diameter = [], dv_torque = fl_zero fl, dv_accel = fl_zero fl,
     dv_desired = [], dv_instr = [], dv_joints = [], dv_target_x = fl_zero fl, dv_target_rot = fl_zero fl,
     dv_period = fl_zero fl, dv_last_update = \<lparr>st_sec = 0, st_nsec = 0\<rparr>,
     dv_pose = (fl_zero fl, fl_zero fl, fl_zero fl), dv_encoder_update = \<lparr>st_sec = 0, st_nsec = 0\<rparr>, dv_odom_source = 0,
     dv_odometry = new_odometry fl, dv_odometry_frame = [], dv_base_frame = [], dv_publish_odom = False,
     dv_publish_wheel_tf = False, dv_publish_odom_tf = False, dv_covariance = (fl_zero fl, fl_zero fl, fl_zero fl),
     dv_pairs = 0, dv_writes = []\<rparr>"

text \<open>\<open>Load\<close> throws, returns early with the node reset, or connects the update.\<close>

datatype load_outcome = NotIsolated | NoLog | OwnerWithoutGeneration | NotWorking | Loaded

fun find_joints ::
  "('d, 'w) drive_api \<Rightarrow> 'd \<Rightarrow> string list \<Rightarrow> nat list \<Rightarrow> (('d, 'w) driving, nat list option) program" where
  "find_joints da torque [] joints = answer (Some joints)"
| "find_joints da torque (name # names) joints = do {
     found \<leftarrow> simulator (da_joint da name);
     case found of None \<Rightarrow> answer None
     | Some joint \<Rightarrow> do {
         limited \<leftarrow> simulator (da_set_torque da joint torque);
         find_joints da torque names (joints @ [joint])
       }
   }"

text \<open>The given values replace the first defaults; those beyond the last pair are ignored.\<close>

fun override_values :: "nat \<Rightarrow> nat \<Rightarrow> 'd list \<Rightarrow> 'd list \<Rightarrow> 'd list" where
  "override_values pairs index [] xs = xs"
| "override_values pairs index (v # vs) xs =
    (if index \<ge> pairs then xs else override_values pairs (Suc index) vs (xs[index := v]))"

definition configured_pairs :: "'d drive_config \<Rightarrow> nat" where
  "configured_pairs c = (if dc_wheel_pairs c < 1 then 1 else unat (dc_wheel_pairs c))"

definition update_period :: "('d, 'x) floating_scheme \<Rightarrow> 'd \<Rightarrow> 'd" where
  "update_period fl rate = (if fl_less fl (fl_zero fl) rate then fl_div fl (fl_lit fl 1 0) rate else fl_zero fl)"

definition wheels_of :: "nat \<Rightarrow> nat list \<Rightarrow> nat list \<Rightarrow> nat list" where
  "wheels_of pairs right left = concat (map (\<lambda>i. [right ! i, left ! i]) [0 ..< pairs])"

definition set_wheels ::
  "('d, 'x) floating_scheme \<Rightarrow> 'd drive_config \<Rightarrow> nat list \<Rightarrow> nat list \<Rightarrow> sim_time \<Rightarrow> ('d, 'w) driving \<Rightarrow> ('d, 'w) driving" where
  "set_wheels fl c left right now s =
     (let pairs = dv_pairs s in
      s\<lparr>dv_joints := wheels_of pairs right left,
        dv_separation := override_values pairs 0 (dc_separations c) (replicate pairs (fl_lit fl 34 2)),
        dv_diameter := override_values pairs 0 (dc_diameters c) (replicate pairs (fl_lit fl 15 2)),
        dv_instr := replicate (2 * pairs) (fl_zero fl), dv_desired := replicate (2 * pairs) (fl_zero fl),
        dv_period := update_period fl (dc_update_rate c), dv_last_update := now\<rparr>)"

definition set_odometry :: "'d drive_config \<Rightarrow> ('d, 'w) driving \<Rightarrow> ('d, 'w) driving" where
  "set_odometry c s = s\<lparr>dv_odometry_frame := dc_odometry_frame c, dv_base_frame := dc_base_frame c,
     dv_odom_source := dc_odometry_source c, dv_publish_odom := dc_publish_odom c,
     dv_publish_wheel_tf := dc_publish_wheel_tf c, dv_publish_odom_tf := dc_publish_odom_tf c,
     dv_covariance := dc_covariance c\<rparr>"

definition configure_drive ::
  "('d, 'x) floating_scheme \<Rightarrow> 'd drive_config \<Rightarrow> nat list \<Rightarrow> nat list \<Rightarrow> sim_time \<Rightarrow> ('d, 'w) driving \<Rightarrow> ('d, 'w) driving" where
  "configure_drive fl c left right now s = set_odometry c (set_wheels fl c left right now s)"

definition set_modes :: "'d drive_config \<Rightarrow> ('d, 'w) driving \<Rightarrow> ('d, 'w) driving" where
  "set_modes c s = s\<lparr>dv_generation_mode := dc_generation_mode c, dv_sealed := dc_generation_mode c,
     dv_owner_mode := dc_owner_mode c\<rparr>"

definition load_wheels :: "('d, 'w) drive_api \<Rightarrow> 'd drive_config \<Rightarrow> (('d, 'w) driving, load_outcome) program" where
  "load_wheels da c = do {
     changes (\<lambda>s. s\<lparr>dv_pairs := configured_pairs c, dv_accel := dc_wheel_accel c, dv_torque := dc_wheel_torque c\<rparr>);
     left \<leftarrow> find_joints da (dc_wheel_torque c) (dc_left_joints c) [];
     case left of None \<Rightarrow> answer NotWorking
     | Some left \<Rightarrow> do {
         right \<leftarrow> find_joints da (dc_wheel_torque c) (dc_right_joints c) [];
         case right of None \<Rightarrow> answer NotWorking
         | Some right \<Rightarrow>
             if length left \<noteq> length right \<or> length left \<noteq> configured_pairs c then answer NotWorking
             else do {
               now \<leftarrow> simulator (da_sim_time da);
               changes (configure_drive da c left right now);
               answer Loaded
             }
       }
   }"

definition load_drive :: "('d, 'w) drive_api \<Rightarrow> 'd drive_config \<Rightarrow> (('d, 'w) driving, load_outcome) program" where
  "load_drive da c =
    (if dc_isolated c \<noteq> Some ''1'' then answer NotIsolated
     else if \<not> dc_log_open c then answer NoLog
     else do {
       changes (set_modes c);
       if dc_owner_mode c \<and> \<not> dc_generation_mode c then answer OwnerWithoutGeneration
       else load_wheels da c
     })"

subsection \<open>Reset\<close>

fun limit_torque :: "('d, 'w) drive_api \<Rightarrow> nat list \<Rightarrow> (('d, 'w) driving, unit) program" where
  "limit_torque da [] = skip"
| "limit_torque da (i # is) = do {
     joints \<leftarrow> reads dv_joints;
     torque \<leftarrow> reads dv_torque;
     left \<leftarrow> simulator (da_set_torque da (joints ! (2 * i + LEFT)) torque);
     right \<leftarrow> simulator (da_set_torque da (joints ! (2 * i + RIGHT)) torque);
     limit_torque da is
   }"

definition reset_drive :: "('d, 'w) drive_api \<Rightarrow> (('d, 'w) driving, unit) program" where
  "reset_drive da = do {
     now \<leftarrow> simulator (da_sim_time da);
     changes (\<lambda>s. s\<lparr>dv_last_update := now\<rparr>);
     pairs \<leftarrow> reads dv_pairs;
     limit_torque da [0 ..< pairs];
     changes (\<lambda>s. zero_target da (s\<lparr>dv_pose := (fl_zero da, fl_zero da, fl_zero da)\<rparr>))
   }"

subsection \<open>The machine\<close>

datatype 'd drive_call =
    DcUpdate sim_time
  | DcReset
  | DcTwist "'d twist"
  | DcCloseScope string
  | DcOpenScope string u64
  | DcCloseGeneration string u64
  | DcScopedCommand string u64 "'d twist"
  | DcOpenPermit string u64 u64 u64
  | DcRenewPermit MotionPermitIdentity u64
  | DcClosePermit MotionPermitIdentity
  | DcCommand MotionPermitIdentity "'d twist"

datatype drive_reply =
    RpNone | RpThrew | RpUnregistered | RpAccepted bool | RpOpened bool u64
  | RpPermit bool u64 u64 | RpRenewed bool u64

definition replies ::
  "('a \<Rightarrow> drive_reply) \<Rightarrow> ('d, 'w, 'a) drives \<Rightarrow> (('d, 'w) driving, drive_reply) program" where
  "replies f m = do {
     r \<leftarrow> m;
     answer (case r of Inl e \<Rightarrow> RpThrew | Inr a \<Rightarrow> f a)
   }"

definition registered ::
  "(('d, 'w) driving \<Rightarrow> bool) \<Rightarrow> (('d, 'w) driving, drive_reply) program \<Rightarrow> (('d, 'w) driving, drive_reply) program" where
  "registered mode m = do {
     there \<leftarrow> reads mode;
     if there then m else answer RpUnregistered
   }"

fun drive_member :: "('d, 'w) drive_api \<Rightarrow> 'd drive_call \<Rightarrow> (('d, 'w) driving, drive_reply) program" where
  "drive_member da (DcUpdate t) = replies (\<lambda>_. RpNone) (on_update da t)"
| "drive_member da DcReset = do {
     reset_drive da;
     answer RpNone
   }"
| "drive_member da (DcTwist m) = replies (\<lambda>_. RpNone) (on_cmd_vel da m)"
| "drive_member da (DcCloseScope scope) = replies RpAccepted (close_scope da scope)"
| "drive_member da (DcOpenScope scope e) =
    registered dv_generation_mode (replies (case_prod RpOpened) (open_scope da scope e))"
| "drive_member da (DcCloseGeneration scope g) =
    registered dv_generation_mode (replies RpAccepted (close_generation da scope g))"
| "drive_member da (DcScopedCommand scope g m) =
    registered dv_generation_mode (replies (\<lambda>_. RpNone) (on_scoped_cmd da scope g m))"
| "drive_member da (DcOpenPermit scope e operation issued) =
    registered dv_owner_mode (replies (\<lambda>(r, g, d). RpPermit r g d) (open_permit da scope e operation issued))"
| "drive_member da (DcRenewPermit i issued) =
    registered dv_owner_mode (replies (case_prod RpRenewed) (renew_permit da i issued))"
| "drive_member da (DcClosePermit i) = registered dv_owner_mode (replies RpAccepted (close_permit da i))"
| "drive_member da (DcCommand i m) = registered dv_owner_mode (replies (\<lambda>_. RpNone) (permitted_command da i m))"

definition drive_step ::
  "('d, 'w) drive_api \<Rightarrow> ('d, 'w) driving \<Rightarrow> 'd drive_call \<Rightarrow> ('d, 'w) driving \<times> drive_reply" where
  "drive_step da s c = (case run_state (drive_member da c) s of (r, s) \<Rightarrow> (s, r))"

definition drive_loaded :: "('d, 'w) drive_api \<Rightarrow> ('d, 'w) driving \<Rightarrow> bool" where
  "drive_loaded da s \<longleftrightarrow> (\<exists>c s0. scoped_drive.truncate s0 = new_drive da \<and>
    run_state (load_drive da c) s0 = (Loaded, s))"

abbreviation drive_reachable :: "('d, 'w) drive_api \<Rightarrow> ('d, 'w) driving \<Rightarrow> bool" where
  "drive_reachable da \<equiv> reachable (drive_step da) (drive_loaded da)"

end
