(* ===== verification/Scoped_Drive_Invariant.thy ===== *)
theory Scoped_Drive_Invariant
  imports Scoped_Drive_Machine
begin

text \<open>
  The invariant of the scoped drive and what any part of a handler may do to it. The
  simulator is arbitrary: whatever it answers, the lemmas hold.
\<close>

subsection \<open>Wheel writes\<close>

fun is_motion :: "'d wheel_write \<Rightarrow> bool" where
  "is_motion (MotionWrite i v p) \<longleftrightarrow> True"
| "is_motion (ZeroWrite i ok) \<longleftrightarrow> False"

definition motions :: "('d, 'w) driving \<Rightarrow> 'd wheel_write list" where
  "motions s = filter is_motion (dv_writes s)"

text \<open>Every one of \<open>n\<close> wheels has taken a zero since the last motion.\<close>

definition zeroed :: "nat \<Rightarrow> 'd wheel_write list \<Rightarrow> bool" where
  "zeroed n ws \<longleftrightarrow> (\<forall>i < n. ZeroWrite i True \<in> set (takeWhile (\<lambda>w. \<not> is_motion w) ws))"

lemma takeWhile_still: "list_all (\<lambda>w. \<not> P w) new \<Longrightarrow> takeWhile (\<lambda>w. \<not> P w) (new @ ws) = new @ takeWhile (\<lambda>w. \<not> P w) ws"
  by (induction new) auto

lemma zeroed_still: "zeroed n ws \<Longrightarrow> list_all (\<lambda>w. \<not> is_motion w) new \<Longrightarrow> zeroed n (new @ ws)"
  by (simp add: zeroed_def takeWhile_still)

lemma zeroed_new:
  "list_all (\<lambda>w. \<not> is_motion w) new \<Longrightarrow> (\<And>i. i < n \<Longrightarrow> ZeroWrite i True \<in> set new) \<Longrightarrow> zeroed n (new @ ws)"
  by (simp add: zeroed_def takeWhile_still)

lemma filter_still: "list_all (\<lambda>w. \<not> P w) new \<Longrightarrow> filter P new = []"
  by (simp add: filter_empty_conv list_all_iff)

subsection \<open>Invariant\<close>

definition shape_ok :: "('d, 'w) driving \<Rightarrow> bool" where
  "shape_ok s \<longleftrightarrow>
    length (dv_desired s) = 2 * dv_pairs s \<and> length (dv_instr s) = 2 * dv_pairs s \<and>
    length (dv_joints s) = 2 * dv_pairs s \<and> length (dv_separation s) = dv_pairs s \<and>
    length (dv_diameter s) = dv_pairs s \<and> dv_pairs s > 0"

definition seal_ok :: "('d, 'x) floating_scheme \<Rightarrow> ('d, 'w) driving \<Rightarrow> bool" where
  "seal_ok fl s \<longleftrightarrow>
    (dv_owner_mode s \<longrightarrow> dv_generation_mode s) \<and>
    (dv_generation_mode s \<and> dv_generation s = 0 \<longrightarrow> dv_sealed s) \<and>
    (dv_applied s \<longrightarrow> dv_sealed s \<and> zeroed (2 * dv_pairs s) (dv_writes s)) \<and>
    (dv_sealed s \<longrightarrow> dv_target_x s = fl_zero fl \<and> dv_target_rot s = fl_zero fl)"

text \<open>A permission that the drive's own can have become.\<close>

definition drive_permission :: "permission \<Rightarrow> bool" where
  "drive_permission p \<longleftrightarrow> permission_reachable p \<and> mp_lifetime p = 1000000000"

lemma drive_permission_ok: "drive_permission p \<Longrightarrow> permission_ok p"
  by (simp add: drive_permission_def permission_reachable_ok)

lemma drive_permission_step: "drive_permission p \<Longrightarrow> drive_permission (fst (permission_step p c))"
  by (simp add: drive_permission_def reachable_step step_lifetime)

definition permit_ok :: "('d, 'w) driving \<Rightarrow> bool" where
  "permit_ok s \<longleftrightarrow> dv_owner_mode s \<longrightarrow>
    drive_permission (dv_permission s) \<and> mp_identity (dv_permission s) = permit_identity s \<and>
    (dv_sealed s \<longleftrightarrow> mp_state (dv_permission s) \<noteq> PsActive)"

fun write_allowed :: "'d wheel_write \<Rightarrow> bool" where
  "write_allowed (MotionWrite i v p) \<longleftrightarrow> drive_permission p \<and> mp_state p = PsActive"
| "write_allowed (ZeroWrite i ok) \<longleftrightarrow> True"

definition writes_ok :: "('d, 'w) driving \<Rightarrow> bool" where
  "writes_ok s \<longleftrightarrow> dv_owner_mode s \<longrightarrow> list_all write_allowed (dv_writes s)"

definition drive_ok :: "('d, 'x) floating_scheme \<Rightarrow> ('d, 'w) driving \<Rightarrow> bool" where
  "drive_ok fl s \<longleftrightarrow> shape_ok s \<and> seal_ok fl s \<and> permit_ok s \<and> writes_ok s"

text \<open>
  What time does to a drive: its modes stay, the permission only changes by its own
  operations, generations grow, and a sealed generation writes no motion again.
\<close>

definition drive_moves :: "('d, 'w) driving \<Rightarrow> ('d, 'w) driving \<Rightarrow> bool" where
  "drive_moves s t \<longleftrightarrow>
    dv_owner_mode t = dv_owner_mode s \<and> dv_generation_mode t = dv_generation_mode s \<and>
    dv_pairs t = dv_pairs s \<and> (\<exists>cs. dv_permission t = run permission_step (dv_permission s) cs) \<and>
    dv_generation s \<le> dv_generation t \<and>
    (\<exists>new. dv_writes t = new @ dv_writes s \<and>
      (dv_sealed s \<and> dv_generation t = dv_generation s \<longrightarrow>
        dv_sealed t \<and> list_all (\<lambda>w. \<not> is_motion w) new))"

lemma drive_moves_refl [simp, intro]: "drive_moves s s"
  by (auto simp: drive_moves_def intro: exI [of _ "[]"])

lemma drive_moves_trans:
  assumes "drive_moves s t" and "drive_moves t u"
  shows "drive_moves s u"
proof -
  from assms(1) obtain cs new where st:
    "dv_permission t = run permission_step (dv_permission s) cs" "dv_writes t = new @ dv_writes s"
    "dv_sealed s \<and> dv_generation t = dv_generation s \<longrightarrow> dv_sealed t \<and> list_all (\<lambda>w. \<not> is_motion w) new"
    by (auto simp: drive_moves_def)
  from assms(2) obtain ds new' where tu:
    "dv_permission u = run permission_step (dv_permission t) ds" "dv_writes u = new' @ dv_writes t"
    "dv_sealed t \<and> dv_generation u = dv_generation t \<longrightarrow> dv_sealed u \<and> list_all (\<lambda>w. \<not> is_motion w) new'"
    by (auto simp: drive_moves_def)
  have "\<exists>es. dv_permission u = run permission_step (dv_permission s) es"
    using st(1) tu(1) by (intro exI [of _ "cs @ ds"]) (simp add: run_append)
  moreover have "\<exists>ns. dv_writes u = ns @ dv_writes s \<and>
      (dv_sealed s \<and> dv_generation u = dv_generation s \<longrightarrow> dv_sealed u \<and> list_all (\<lambda>w. \<not> is_motion w) ns)"
    using st(2,3) tu(2,3) assms by (intro exI [of _ "new' @ new"]) (auto simp: drive_moves_def)
  ultimately show ?thesis using assms by (auto simp: drive_moves_def)
qed

definition drive_keeps :: "('d, 'x) floating_scheme \<Rightarrow> ('d, 'w) driving \<Rightarrow> ('d, 'w) driving \<Rightarrow> bool" where
  "drive_keeps fl s t \<longleftrightarrow> (drive_ok fl s \<longrightarrow> drive_ok fl t \<and> drive_moves s t)"

interpretation drive_kept: kept_relation "drive_keeps fl"
  by unfold_locales (auto simp: drive_keeps_def intro: drive_moves_trans)

text \<open>The simulator's state is not the drive's.\<close>

lemma drive_world [simp]:
  "motions (s\<lparr>dv_world := w\<rparr>) = motions s"
  "permit_identity (s\<lparr>dv_world := w\<rparr>) = permit_identity s"
  "drive_ok fl (s\<lparr>dv_world := w\<rparr>) = drive_ok fl s"
  "drive_moves (s\<lparr>dv_world := w\<rparr>) t = drive_moves s t"
  "drive_moves s (t\<lparr>dv_world := w\<rparr>) = drive_moves s t"
  "drive_keeps fl (s\<lparr>dv_world := w\<rparr>) t = drive_keeps fl s t"
  "drive_keeps fl s (t\<lparr>dv_world := w\<rparr>) = drive_keeps fl s t"
  by (simp_all add: motions_def permit_identity_def drive_ok_def shape_ok_def seal_ok_def permit_ok_def writes_ok_def
      drive_moves_def drive_keeps_def)

lemma wp_simulator: "(\<And>a w. Q a (s\<lparr>dv_world := w\<rparr>)) \<Longrightarrow> wp (simulator f) Q s"
  by (simp add: wp_def simulator_def split: prod.split)

lemma wp_permit: "wp (permit f) Q s = Q (snd (f (dv_permission s))) (s\<lparr>dv_permission := fst (f (dv_permission s))\<rparr>)"
  by (simp add: wp_def permit_def split: prod.split)

lemma wp_permit_now: "(\<And>r w. Q r (s\<lparr>dv_world := w\<rparr>)) \<Longrightarrow> wp (permit_now da) Q s"
  unfolding permit_now_def wp_bind
  by (rule wp_simulator) (auto simp: wp_fails wp_yields split: option.split)

lemma wp_motion_now: "(\<And>r w. Q r (s\<lparr>dv_world := w\<rparr>)) \<Longrightarrow> wp (motion_now da) Q s"
  by (simp add: motion_now_def wp_bind wp_reads wp_does wp_permit_now wp_simulator)

lemma wp_record:
  assumes "\<And>r w. Q r (s\<lparr>dv_world := w\<rparr>)"
  shows "wp (record_command da event g) Q s"
proof -
  have "wp (simulator (da_log da line)) (\<lambda>a. Q (Inr a)) (s\<lparr>dv_world := w\<rparr>)" for line w
    by (rule wp_simulator) (simp add: assms)
  then show ?thesis
    unfolding record_command_def wp_attempt
    by (intro wp_motion_now) (simp add: assms wp_does wp_bind wp_reads split: sum.split)
qed

lemma wp_set_wheel: "(\<And>a w. Q a (s\<lparr>dv_world := w\<rparr>)) \<Longrightarrow> wp (set_wheel da i v) Q s"
  by (simp add: set_wheel_def wp_bind wp_reads wp_simulator)

subsection \<open>The permission's fault seals the drive\<close>

definition settle_drive :: "('d, 'x) floating_scheme \<Rightarrow> u64 \<Rightarrow> ('d, 'w) driving \<Rightarrow> ('d, 'w) driving" where
  "settle_drive fl now s =
    (if mp_state (dv_permission s) = PsFaultClosed \<and> \<not> dv_sealed s
     then seal_drive fl (if now \<ge> mp_deadline (dv_permission s) then ''permission_expired'' else ''clock_invalid'') s
     else s)"

lemma wp_sync: "(\<And>r w. Q r ((settle_drive da now s)\<lparr>dv_world := w\<rparr>)) \<Longrightarrow> (\<And>r. Q r (settle_drive da now s)) \<Longrightarrow> wp (sync_permission da now) Q s"
  by (auto simp: sync_permission_def settle_drive_def wp_bind wp_reads wp_attempt_when wp_changes intro!: wp_record)

lemma seal_drive_fields [simp]:
  "dv_owner_mode (seal_drive fl r s) = dv_owner_mode s"
  "dv_permission (seal_drive fl r s) = dv_permission s"
  "dv_operation (seal_drive fl r s) = dv_operation s"
  "dv_scope (seal_drive fl r s) = dv_scope s"
  "dv_generation_mode (seal_drive fl r s) = dv_generation_mode s"
  "dv_generation (seal_drive fl r s) = dv_generation s"
  "dv_sealed (seal_drive fl r s) \<longleftrightarrow> True"
  "dv_applied (seal_drive fl r s) \<longleftrightarrow> False"
  "dv_writes (seal_drive fl r s) = dv_writes s"
  "dv_pairs (seal_drive fl r s) = dv_pairs s"
  "permit_identity (seal_drive fl r s) = permit_identity s"
  "shape_ok (seal_drive fl r s) = shape_ok s"
  "writes_ok (seal_drive fl r s) = writes_ok s"
  by (simp_all add: seal_drive_def permit_identity_def shape_ok_def writes_ok_def)

lemma seal_drive_seal_ok: "seal_ok fl s \<Longrightarrow> seal_ok fl (seal_drive fl r s)"
  by (simp add: seal_ok_def) (simp add: seal_drive_def)

text \<open>A read of the permission that leaves its identity, and its state but for a fault.\<close>

lemma drive_permission_parts [simp]:
  "shape_ok (s\<lparr>dv_permission := p\<rparr>) = shape_ok s"
  "seal_ok fl (s\<lparr>dv_permission := p\<rparr>) = seal_ok fl s"
  "writes_ok (s\<lparr>dv_permission := p\<rparr>) = writes_ok s"
  "permit_identity (s\<lparr>dv_permission := p\<rparr>) = permit_identity s"
  by (simp_all add: shape_ok_def seal_ok_def writes_ok_def permit_identity_def)

lemma settle_permission:
  assumes "drive_ok fl s" and "dv_owner_mode s"
    and "p = fst (permission_step (dv_permission s) c)"
    and "mp_identity p = mp_identity (dv_permission s)"
    and "mp_state p = mp_state (dv_permission s) \<or> mp_state p = PsFaultClosed"
  shows "drive_ok fl (settle_drive fl now (s\<lparr>dv_permission := p\<rparr>))"
    and "drive_moves s (settle_drive fl now (s\<lparr>dv_permission := p\<rparr>))"
    and "dv_sealed (settle_drive fl now (s\<lparr>dv_permission := p\<rparr>)) \<longleftrightarrow> mp_state p \<noteq> PsActive"
proof -
  have p: "drive_permission p"
    using assms(1,2,3) by (simp add: drive_ok_def permit_ok_def drive_permission_step)
  have r: "\<exists>cs. p = run permission_step (dv_permission s) cs"
    using assms(3) by (intro exI [of _ "[c]"]) simp
  have sealed: "dv_sealed s \<longleftrightarrow> mp_state (dv_permission s) \<noteq> PsActive"
    and i: "mp_identity (dv_permission s) = permit_identity s"
    using assms(1,2) by (simp_all add: drive_ok_def permit_ok_def)
  show "drive_ok fl (settle_drive fl now (s\<lparr>dv_permission := p\<rparr>))"
    using assms(1,2,4,5) p sealed i
    by (auto simp: settle_drive_def drive_ok_def seal_drive_seal_ok) (auto simp: permit_ok_def)
  show "drive_moves s (settle_drive fl now (s\<lparr>dv_permission := p\<rparr>))"
    using r by (auto simp: settle_drive_def drive_moves_def)
  show "dv_sealed (settle_drive fl now (s\<lparr>dv_permission := p\<rparr>)) \<longleftrightarrow> mp_state p \<noteq> PsActive"
    using sealed assms(5) by (auto simp: settle_drive_def)
qed

lemma consume_permission:
  "fst (can_consume i now p) = fst (permission_step p (McConsume i now))"
  "mp_identity (fst (can_consume i now p)) = mp_identity p"
  "mp_state (fst (can_consume i now p)) = mp_state p \<or> mp_state (fst (can_consume i now p)) = PsFaultClosed"
  "snd (can_consume i now p) \<longleftrightarrow> mp_state (fst (can_consume i now p)) = PsActive \<and> i = mp_identity p"
  by (auto simp: can_consume_def Let_def observe_permit_time_state)

lemma renew_permission:
  "fst (permission_renew i t now p) = fst (permission_step p (McRenew i t now))"
  "mp_identity (fst (permission_renew i t now p)) = mp_identity p"
  "mp_state (fst (permission_renew i t now p)) = mp_state p \<or> mp_state (fst (permission_renew i t now p)) = PsFaultClosed"
  by (auto simp: permission_renew_def Let_def observe_permit_time_state)

lemmas settle_consume = settle_permission [OF _ _ consume_permission(1-3)]
lemmas settle_renew = settle_permission [OF _ _ renew_permission(1-3)]

end
