(* ===== verification/Scoped_Drive_Steps.thy ===== *)
theory Scoped_Drive_Steps
  imports Scoped_Drive_Invariant
begin

text \<open>Every handler of the scoped drive keeps the invariant and moves as it may.\<close>

subsection \<open>The invariant's frame\<close>

text \<open>A change of fields that the invariant does not read, the lengths of the speeds apart.\<close>

definition same_drive :: "('d, 'w) driving \<Rightarrow> ('d, 'w) driving \<Rightarrow> bool" where
  "same_drive s t \<longleftrightarrow>
    dv_owner_mode t = dv_owner_mode s \<and> dv_permission t = dv_permission s \<and> permit_identity t = permit_identity s \<and>
    dv_generation_mode t = dv_generation_mode s \<and> dv_generation t = dv_generation s \<and>
    dv_sealed t = dv_sealed s \<and> dv_applied t = dv_applied s \<and> dv_pairs t = dv_pairs s \<and>
    dv_target_x t = dv_target_x s \<and> dv_target_rot t = dv_target_rot s \<and> dv_joints t = dv_joints s \<and>
    dv_separation t = dv_separation s \<and> dv_diameter t = dv_diameter s \<and>
    length (dv_desired t) = length (dv_desired s) \<and> length (dv_instr t) = length (dv_instr s)"

lemma same_drive_refl [simp]: "same_drive s s"
  by (simp add: same_drive_def)

lemma same_drive_trans: "same_drive s t \<Longrightarrow> same_drive t u \<Longrightarrow> same_drive s u"
  by (simp add: same_drive_def)

lemma same_drive_ok:
  assumes "drive_ok fl s" and "same_drive s t" and "dv_writes t = new @ dv_writes s"
    and "list_all (\<lambda>w. \<not> is_motion w) new"
  shows "drive_ok fl t" and "drive_moves s t"
proof -
  have "list_all write_allowed new"
    using assms(4) unfolding list_all_iff by (metis is_motion.simps(1) write_allowed.elims(3))
  with assms show "drive_ok fl t"
    by (auto simp: drive_ok_def shape_ok_def seal_ok_def permit_ok_def writes_ok_def same_drive_def zeroed_still)
  show "drive_moves s t"
    using assms unfolding drive_moves_def same_drive_def by (auto intro: exI [of _ "[]"])
qed

lemma same_drive_keeps: "same_drive s t \<Longrightarrow> dv_writes t = dv_writes s \<Longrightarrow> drive_keeps fl s t"
  using same_drive_ok [of fl s t "[]"] by (simp add: drive_keeps_def)

lemma drive_keepsI:
  assumes "\<And>s. drive_ok fl s \<Longrightarrow> wp m (\<lambda>r u. drive_ok fl u \<and> drive_moves s u) s"
  shows "keeps (drive_keeps fl) m"
proof (rule keepsI)
  fix s
  show "wp m (\<lambda>r. drive_keeps fl s) s"
    by (cases "drive_ok fl s") (use assms in \<open>auto simp: drive_keeps_def wp_run\<close>)
qed

lemma keeps_same:
  "(\<And>s. same_drive s (f s)) \<Longrightarrow> (\<And>s. dv_writes (f s) = dv_writes s) \<Longrightarrow> keeps (drive_keeps fl) (changes f)"
  by (simp add: keeps_def wp_changes same_drive_keeps)

lemma keeps_simulator: "keeps (drive_keeps fl) (simulator f)"
  by (intro keepsI wp_simulator) (simp add: drive_kept.kept_refl)

lemma keeps_record: "keeps (drive_keeps fl) (record_command da e g)"
  by (intro keepsI wp_record) (simp add: drive_kept.kept_refl)

lemma keeps_motion_now: "keeps (drive_keeps fl) (motion_now da)"
  by (intro keepsI wp_motion_now) (simp add: drive_kept.kept_refl)

lemmas drive_intros = drive_kept.keeps_fallible keeps_simulator keeps_record keeps_motion_now

subsection \<open>Zeros\<close>

lemma wp_zero_wheels:
  "wp (zero_wheels da wheels accepted)
    (\<lambda>a t. same_drive s t \<and> (\<exists>new. dv_writes t = new @ dv_writes s \<and> list_all (\<lambda>w. \<not> is_motion w) new \<and>
      (a \<longrightarrow> accepted \<and> (\<forall>i \<in> set wheels. ZeroWrite i True \<in> set new)))) s"
proof (induction wheels arbitrary: s accepted)
  case Nil
  then show ?case by (simp add: wp_answer)
next
  case (Cons i wheels)
  let ?t = "\<lambda>a w. (s\<lparr>dv_world := w\<rparr>)\<lparr>dv_desired := (dv_desired s)[i := fl_zero da], dv_instr := (dv_instr s)[i := fl_zero da],
      dv_writes := ZeroWrite i a # dv_writes s\<rparr>"
  have step: "same_drive s (?t a w)" for a w by (simp add: same_drive_def permit_identity_def)
  show ?case
    unfolding zero_wheels.simps zero_wheel_def wp_bind
    apply (rule wp_set_wheel)
    apply (simp only: wp_changes wp_answer)
    subgoal for a w
      apply (rule wp_mono [OF Cons.IH [of "a \<and> accepted"]])
      apply (use step [of a w] in \<open>auto intro: same_drive_trans\<close>)
      done
    done
qed

lemma report_applied_keeps: "keeps (drive_keeps fl) (report_applied da t)"
  unfolding report_applied_def by (intro drive_intros)

text \<open>A sealed drive may apply its zeros.\<close>

lemma apply_zero_ok:
  assumes "drive_ok da s" and "dv_sealed s"
  shows "wp (apply_zero da t) (\<lambda>r u. drive_ok da u \<and> drive_moves s u) s"
proof -
  have step: "wp (attempt (attempt_when (a \<and> \<not> dv_applied u) (do {
         changes (\<lambda>s. s\<lparr>dv_applied := True\<rparr>);
         report_applied da t
       })) (\<lambda>_. does (changes (\<lambda>s. s\<lparr>dv_last_update := t\<rparr>)))) (\<lambda>r v. drive_ok da v \<and> drive_moves s v) u"
    if u: "same_drive s u" "dv_writes u = new @ dv_writes s" "list_all (\<lambda>w. \<not> is_motion w) new"
      and a: "a \<longrightarrow> (\<forall>i < 2 * dv_pairs s. ZeroWrite i True \<in> set new)" for a u new
  proof -
    note ok = same_drive_ok [OF assms(1) u]
    let ?v = "u\<lparr>dv_applied := True\<rparr>"
    have v: "drive_ok da ?v \<and> drive_moves s ?v" if "a"
    proof -
      have "zeroed (2 * dv_pairs u) (dv_writes u)"
        using a u that by (auto simp: same_drive_def intro: zeroed_new)
      with ok u assms(2) show ?thesis
        by (auto simp: drive_ok_def shape_ok_def seal_ok_def permit_ok_def writes_ok_def permit_identity_def drive_moves_def
            same_drive_def)
    qed
    have last: "keeps (drive_keeps da) (changes (\<lambda>s. s\<lparr>dv_last_update := t\<rparr>))"
      by (rule keeps_same) (simp_all add: same_drive_def permit_identity_def)
    have tail: "wp (attempt m (\<lambda>_. does (changes (\<lambda>s. s\<lparr>dv_last_update := t\<rparr>)))) (\<lambda>r v. drive_ok da v \<and> drive_moves s v) x"
      if "drive_ok da x" "drive_moves s x" "keeps (drive_keeps da) m" for m x
    proof -
      have "wp (attempt m (\<lambda>_. does (changes (\<lambda>s. s\<lparr>dv_last_update := t\<rparr>)))) (\<lambda>r. drive_keeps da x) x"
        by (intro keepsD drive_intros last that)
      then show ?thesis
        by (rule wp_mono) (use that in \<open>auto simp: drive_keeps_def intro: drive_moves_trans\<close>)
    qed
    show ?thesis
    proof (cases "a \<and> \<not> dv_applied u")
      case True
      with v have "wp (attempt (report_applied da t) (\<lambda>_. does (changes (\<lambda>s. s\<lparr>dv_last_update := t\<rparr>))))
          (\<lambda>r v. drive_ok da v \<and> drive_moves s v) ?v"
        by (intro tail report_applied_keeps) simp_all
      with True show ?thesis by (simp add: attempt_when_def wp_attempt wp_bind wp_changes)
    next
      case False
      have "wp (attempt (yields ()) (\<lambda>_. does (changes (\<lambda>s. s\<lparr>dv_last_update := t\<rparr>))))
          (\<lambda>r v. drive_ok da v \<and> drive_moves s v) u"
        by (intro tail drive_intros ok)
      with False show ?thesis by (simp only: attempt_when_def if_False)
    qed
  qed
  show ?thesis
    unfolding apply_zero_def
    apply (simp only: wp_bind [of "reads _"] wp_reads wp_bind [of "zero_wheels _ _ _"])
    apply (rule wp_mono [OF wp_zero_wheels [of da _ _ s]])
    apply (elim conjE exE)
    apply (simp only: wp_bind wp_reads)
    apply (rule step)
       apply (auto simp: atLeast0LessThan)
    done
qed

subsection \<open>Motion\<close>

lemma motion_write_ok:
  assumes "drive_ok fl s" and "\<not> dv_sealed s" and "dv_owner_mode s \<Longrightarrow> mp_state (dv_permission s) = PsActive"
  shows "wp (motion_write da i v) (\<lambda>r t. drive_ok fl t \<and> drive_moves s t \<and> \<not> dv_sealed t) s"
  unfolding motion_write_def wp_bind
  by (rule wp_set_wheel)
    (use assms in \<open>auto simp: wp_changes drive_ok_def shape_ok_def seal_ok_def permit_ok_def writes_ok_def
      permit_identity_def drive_moves_def intro: exI [of _ "[]"]\<close>)

lemma wp_then_true:
  assumes "wp m (\<lambda>r u. P u \<and> \<not> dv_sealed u) s"
  shows "wp (m \<bind> (\<lambda>_. yields True)) (\<lambda>r u. P u \<and> (r = Inr True \<longrightarrow> \<not> dv_sealed u)) s"
  unfolding wp_bind by (rule wp_mono [OF assms]) (simp add: wp_yields)

text \<open>A motion is written to an unsealed drive, or its permission has sealed it.\<close>

lemma write_permitted_ok:
  assumes ok: "drive_ok da s" and open_drive: "\<not> dv_sealed s"
  shows "wp (write_permitted da t i v)
    (\<lambda>r u. drive_ok da u \<and> drive_moves s u \<and> (r = Inr True \<longrightarrow> \<not> dv_sealed u)) s"
proof (cases "dv_owner_mode s")
  case False
  have "wp (motion_write da i v) (\<lambda>r t. drive_ok da t \<and> drive_moves s t \<and> \<not> dv_sealed t) s"
    by (rule motion_write_ok [OF ok open_drive]) (simp add: False)
  then show ?thesis
    by (simp add: write_permitted_def wp_bind [of "reads _"] wp_reads False)
      (rule wp_then_true [where P = "\<lambda>u. drive_ok da u \<and> drive_moves s u", simplified])
next
  case True
  have current: "mp_identity (dv_permission s) = permit_identity s"
    using ok True by (simp add: drive_ok_def permit_ok_def)
  let ?p = "\<lambda>now. fst (can_consume (permit_identity s) now (dv_permission s))"
  let ?s = "\<lambda>w now. s\<lparr>dv_world := w, dv_permission := ?p now\<rparr>"
  have world: "drive_ok da (s\<lparr>dv_world := w\<rparr>)" "dv_owner_mode (s\<lparr>dv_world := w\<rparr>)" for w
    using ok True by simp_all
  have settled: "drive_ok da (settle_drive da now (?s w now))" "drive_moves s (settle_drive da now (?s w now))"
      "dv_sealed (settle_drive da now (?s w now)) \<longleftrightarrow> mp_state (?p now) \<noteq> PsActive" for w now
    using settle_consume [OF world] by simp_all
  have refused: "wp (attempt (attempt (sync_permission da now) (\<lambda>_. apply_zero da t)) (\<lambda>_. yields False))
      (\<lambda>r u. drive_ok da u \<and> drive_moves s u \<and> (r = Inr True \<longrightarrow> \<not> dv_sealed u)) (?s w now)"
    if "mp_state (?p now) \<noteq> PsActive" for w now
  proof -
    have zero: "wp (apply_zero da t) (\<lambda>r u. drive_ok da u \<and> drive_moves s u) x"
      if "drive_ok da x" "drive_moves s x" "dv_sealed x" for x
      by (rule wp_mono [OF apply_zero_ok [OF that(1,3)]]) (use that in \<open>auto intro: drive_moves_trans\<close>)
    show ?thesis
      unfolding wp_attempt
      apply (rule wp_sync)
      subgoal for r w'
        using settled [of now w] that by (auto simp: wp_yields split: sum.split intro!: wp_mono [OF zero])
      subgoal for r
        using settled [of now w] that by (auto simp: wp_yields split: sum.split intro!: wp_mono [OF zero])
      done
  qed
  have allowed: "wp (motion_write da i v)
      (\<lambda>r u. drive_ok da u \<and> drive_moves s u \<and> \<not> dv_sealed u) (?s w now)"
    if active: "mp_state (?p now) = PsActive" for w now
  proof -
    have same: "settle_drive da now (?s w now) = ?s w now" using active by (simp add: settle_drive_def)
    have sw: "drive_ok da (?s w now)" "drive_moves s (?s w now)" "\<not> dv_sealed (?s w now)"
      using settled [of now w] active unfolding same by simp_all
    show ?thesis
      by (rule wp_mono [OF motion_write_ok [OF sw(1,3)]]) (use sw(2) active in \<open>auto intro: drive_moves_trans\<close>)
  qed
  show ?thesis
    apply (simp only: write_permitted_def wp_bind [of "reads _"] wp_reads True not_True_eq_False if_False
        write_current_def wp_attempt [of "permit_now da"])
    apply (rule wp_permit_now)
    subgoal for r w
      apply (cases r)
       apply (simp add: ok)
      apply (simp only: sum.case wp_bind [of "permit _"] wp_permit)
      subgoal for now
        apply (cases "mp_state (?p now) = PsActive")
         apply (simp add: consume_permission(4) current)
         apply (rule wp_then_true [where P = "\<lambda>u. drive_ok da u \<and> drive_moves s u", simplified])
         apply (rule allowed, assumption)
        apply (simp add: consume_permission(4))
        apply (rule refused, assumption)
        done
      done
    done
qed

end
