(* ===== verification/Scoped_Drive_Members.thy ===== *)
theory Scoped_Drive_Members
  imports Scoped_Drive_Steps
begin

text \<open>The update, the command handlers and the permission services keep the invariant.\<close>

subsection \<open>The update\<close>

definition driven :: "('d, 'x) floating_scheme \<Rightarrow> ('d, 'w) driving \<Rightarrow> drive_error + bool \<Rightarrow> ('d, 'w) driving \<Rightarrow> bool" where
  "driven fl s r u \<longleftrightarrow> drive_ok fl u \<and> drive_moves s u \<and> (r = Inr True \<longrightarrow> \<not> dv_sealed u)"

lemma driven_trans: "drive_moves s t \<Longrightarrow> driven fl t r u \<Longrightarrow> driven fl s r u"
  by (auto simp: driven_def intro: drive_moves_trans)

lemma write_driven: "drive_ok da s \<Longrightarrow> \<not> dv_sealed s \<Longrightarrow> wp (write_permitted da t i v) (driven da s) s"
  unfolding driven_def by (rule write_permitted_ok)

lemma wp_driven_then:
  assumes "wp m (driven fl s) s"
    and "\<And>u. drive_ok fl u \<Longrightarrow> \<not> dv_sealed u \<Longrightarrow> wp (f True) (driven fl u) u"
    and "f False = yields False"
  shows "wp (attempt m f) (driven fl s) s"
  unfolding wp_attempt
proof (rule wp_mono [OF assms(1)])
  fix r u
  assume d: "driven fl s r u"
  show "(case r of Inl e \<Rightarrow> driven fl s (Inl e) | Inr a \<Rightarrow> wp (f a) (driven fl s)) u"
  proof (cases r)
    case (Inl e)
    with d show ?thesis by (simp add: driven_def)
  next
    case (Inr a)
    show ?thesis
    proof (cases a)
      case True
      have "wp (f True) (driven fl s) u"
        by (rule wp_mono [OF assms(2)]) (use d Inr True in \<open>auto simp: driven_def intro: drive_moves_trans\<close>)
      with Inr True show ?thesis by simp
    next
      case False
      with d Inr show ?thesis by (simp add: assms(3) wp_yields driven_def)
    qed
  qed
qed

lemma length_wheel_velocities [simp]: "length (wheel_velocities fl vr va separation is desired) = length desired"
  by (induction "is" arbitrary: desired) simp_all

lemma current_speeds_world: "wp (current_speeds da is speeds) (\<lambda>r t. \<exists>w. t = s\<lparr>dv_world := w\<rparr>) s"
proof (induction "is" arbitrary: s speeds)
  case Nil
  show ?case by (simp add: wp_answer) (rule exI [of _ "dv_world s"], simp)
next
  case (Cons i "is")
  have "wp (current_speeds da is sp) (\<lambda>r t. \<exists>w. t = s\<lparr>dv_world := w\<rparr>) (s\<lparr>dv_world := v\<rparr>)" for v sp
    by (rule wp_mono [OF Cons.IH [of sp]]) auto
  then show ?case
    by (simp add: wheel_speed_def wp_bind wp_reads wp_simulator)
qed

lemma limit_pair_same: "same_drive s (limit_pair fl seconds current i s)" "dv_writes (limit_pair fl seconds current i s) = dv_writes s"
  by (simp_all add: limit_pair_def Let_def same_drive_def permit_identity_def)

lemma update_velocities_same: "same_drive s (update_wheel_velocities fl s)" "dv_writes (update_wheel_velocities fl s) = dv_writes s"
  by (simp_all add: update_wheel_velocities_def same_drive_def permit_identity_def)

lemma same_driven:
  assumes "drive_ok fl s" and "\<not> dv_sealed s" and "same_drive s t" and "dv_writes t = dv_writes s"
  shows "drive_ok fl t" and "drive_moves s t" and "\<not> dv_sealed t"
  using same_drive_ok [OF assms(1,3), of "[]"] assms by (simp_all add: same_drive_def)

lemma write_pair_driven:
  assumes "drive_ok da s" and "\<not> dv_sealed s"
  shows "wp (write_pair da t speeds i) (driven da s) s"
  unfolding write_pair_def wp_bind [of "reads _"] wp_reads
  by (rule wp_driven_then) (simp_all add: write_driven assms wp_bind [of "reads _"] wp_reads)

lemma drive_pair_driven:
  assumes "drive_ok da s" and "\<not> dv_sealed s"
  shows "wp (drive_pair da t seconds current i) (driven da s) s"
proof -
  let ?u = "limit_pair da seconds current i s"
  note u = same_driven [OF assms limit_pair_same(1,2)]
  have "wp (write_pair da t dv_instr i) (driven da s) ?u"
    by (rule wp_mono [OF write_pair_driven [OF u(1,3)]]) (rule driven_trans [OF u(2)])
  then show ?thesis
    by (simp add: drive_pair_def wp_bind [of "reads _"] wp_reads wp_if wp_bind [of "changes _"] wp_changes
        write_pair_driven assms)
qed

lemma drive_pairs_driven:
  "drive_ok da s \<Longrightarrow> \<not> dv_sealed s \<Longrightarrow> wp (drive_pairs da t seconds current is) (driven da s) s"
proof (induction "is" arbitrary: s)
  case Nil
  then show ?case by (simp add: wp_yields driven_def)
next
  case (Cons i "is")
  show ?case
    unfolding drive_pairs.simps
    by (rule wp_driven_then) (simp_all add: drive_pair_driven Cons)
qed

lemma move_wheels_ok:
  assumes "drive_ok da s" and "\<not> dv_sealed s"
  shows "wp (move_wheels da t seconds) (\<lambda>r u. drive_ok da u \<and> drive_moves s u) s"
proof -
  let ?u = "update_wheel_velocities da s"
  note u = same_driven [OF assms update_velocities_same(1,2)]
  have last: "keeps (drive_keeps da) (changes (\<lambda>s. s\<lparr>dv_last_update := t\<rparr>))"
    by (rule keeps_same) (simp_all add: same_drive_def permit_identity_def)
  have tail: "wp (attempt (drive_pairs da t seconds current pairs) (\<lambda>ok.
       does (on_condition ok (changes (\<lambda>s. s\<lparr>dv_last_update := t\<rparr>))))) (\<lambda>r v. drive_ok da v \<and> drive_moves s v) (?u\<lparr>dv_world := w\<rparr>)"
    for current pairs w
    unfolding wp_attempt
  proof (rule wp_mono [OF drive_pairs_driven])
    fix r v
    assume d: "driven da (?u\<lparr>dv_world := w\<rparr>) r v"
    then have v: "drive_ok da v" "drive_moves s v"
      using u(2) by (auto simp: driven_def intro: drive_moves_trans)
    have end_ok: "wp (on_condition ok (changes (\<lambda>s. s\<lparr>dv_last_update := t\<rparr>))) (\<lambda>r v. drive_ok da v \<and> drive_moves s v) v" for ok
      by (rule wp_mono [OF keepsD [OF drive_kept.keeps_on_condition [OF last]]])
        (use v in \<open>auto simp: drive_keeps_def intro: drive_moves_trans\<close>)
    then show "(case r of Inl e \<Rightarrow> \<lambda>v. drive_ok da v \<and> drive_moves s v
      | Inr ok \<Rightarrow> wp (does (on_condition ok (changes (\<lambda>s. s\<lparr>dv_last_update := t\<rparr>)))) (\<lambda>r v. drive_ok da v \<and> drive_moves s v)) v"
      using v by (cases r) (simp_all add: wp_does)
  qed (use u in simp_all)
  show ?thesis
    unfolding move_wheels_def wp_bind wp_changes wp_reads
    by (rule wp_mono [OF current_speeds_world]) (auto intro: tail)
qed

lemma check_permission_ok:
  assumes "drive_ok da s"
  shows "wp (check_permission da) (\<lambda>r u. drive_ok da u \<and> drive_moves s u) s"
proof (cases "dv_owner_mode s")
  case False
  with assms show ?thesis by (simp add: check_permission_def wp_bind wp_reads wp_attempt_when)
next
  case True
  have world: "drive_ok da (s\<lparr>dv_world := w\<rparr>)" "dv_owner_mode (s\<lparr>dv_world := w\<rparr>)" for w
    using assms True by simp_all
  show ?thesis
    unfolding check_permission_def wp_bind wp_reads wp_attempt_when wp_attempt
    apply (simp only: True if_True)
    apply (rule wp_permit_now)
    apply (auto simp: assms wp_permit wp_bind wp_reads split: sum.split
        intro!: wp_sync settle_consume [OF world, simplified])
    done
qed

lemma keeps_consume_targets:
  fixes da :: "('d, 'w) drive_api"
  shows "keeps (drive_keeps da) (consume_targets da t seconds)"
proof (rule drive_keepsI)
  fix s :: "('d, 'w) driving"
  assume ok: "drive_ok da s"
  let ?s = "s\<lparr>dv_sequence := dv_sequence s + 1\<rparr>"
  have "same_drive s ?s" by (simp add: same_drive_def permit_identity_def)
  note s = same_drive_ok [OF ok this, of "[]", simplified]
  have zero: "wp (apply_zero da t) (\<lambda>r u. drive_ok da u \<and> drive_moves s u) u"
    if "drive_ok da u" "drive_moves ?s u" "dv_sealed u" for u
    by (rule wp_mono [OF apply_zero_ok [OF that(1,3)]]) (use that s in \<open>auto intro: drive_moves_trans\<close>)
  have move: "wp (move_wheels da t seconds) (\<lambda>r u. drive_ok da u \<and> drive_moves s u) u"
    if "drive_ok da u" "drive_moves ?s u" "\<not> dv_sealed u" for u seconds
    by (rule wp_mono [OF move_wheels_ok [OF that(1,3)]]) (use that s in \<open>auto intro: drive_moves_trans\<close>)
  have "wp (attempt (check_permission da) (\<lambda>_. do {
         sealed \<leftarrow> reads dv_sealed;
         if sealed then apply_zero da t else move_wheels da t seconds
       })) (\<lambda>r u. drive_ok da u \<and> drive_moves s u) ?s" for seconds
    unfolding wp_attempt wp_bind wp_reads
    by (rule wp_mono [OF check_permission_ok])
      (use s in \<open>auto intro: zero move drive_moves_trans split: sum.split\<close>)
  then show "wp (consume_targets da t seconds) (\<lambda>r u. drive_ok da u \<and> drive_moves s u) s"
    by (simp add: consume_targets_def wp_bind [of "changes _"] wp_changes)
qed

subsection \<open>Odometry\<close>

lemma keeps_wheels_tf: "keeps (drive_keeps fl) (publish_wheels_tf da t is)"
  by (induction "is") (auto intro!: drive_intros)

lemma move_encoder_same: "same_drive s (move_encoder da seconds vl vr (s\<lparr>dv_encoder_update := t\<rparr>))"
    "dv_writes (move_encoder da seconds vl vr (s\<lparr>dv_encoder_update := t\<rparr>)) = dv_writes s"
  by (simp_all add: move_encoder_def same_drive_def permit_identity_def Let_def split: prod.split)

lemma keeps_update_encoder: "keeps (drive_keeps fl) (update_encoder da t)"
  unfolding update_encoder_def update_odometry_encoder_def
  by (intro drive_intros keeps_same move_encoder_same)

lemma keeps_report_odometry: "keeps (drive_keeps fl) (report_odometry da t)"
  unfolding report_odometry_def update_odometry_world_def publish_odometry_msg_def publish_odometry_tf_def
  by (intro drive_intros keeps_wheels_tf keeps_same) (simp_all add: same_drive_def permit_identity_def)

lemma keeps_on_update: "keeps (drive_keeps da) (on_update da t)"
  unfolding on_update_def
  by (intro drive_intros keeps_update_encoder keeps_report_odometry keeps_consume_targets)

subsection \<open>Commands without a permission\<close>

lemma set_target_ok:
  assumes "drive_ok fl s" and "\<not> dv_sealed s"
  shows "drive_ok fl (set_target m s) \<and> drive_moves s (set_target m s)"
  using assms unfolding set_target_def
  by (auto simp: drive_ok_def shape_ok_def seal_ok_def permit_ok_def writes_ok_def permit_identity_def drive_moves_def
      intro: exI [of _ "[]"])

lemma keeps_on_cmd_vel: "keeps (drive_keeps da) (on_cmd_vel da m)"
  unfolding on_cmd_vel_def
  by (rule drive_kept.keeps_reads_bind)
    (auto simp: wp_bind wp_reads wp_does wp_changes drive_keeps_def wp_attempt_when set_target_ok intro!: wp_record)

lemma sealed_scope:
  assumes "drive_ok fl s" and "\<not> dv_generation_mode s"
  shows "drive_ok fl (zero_target fl (s\<lparr>dv_scope := scope, dv_sealed := True\<rparr>)) \<and>
    drive_moves s (zero_target fl (s\<lparr>dv_scope := scope, dv_sealed := True\<rparr>))"
  using assms unfolding zero_target_def
  by (auto simp: drive_ok_def shape_ok_def seal_ok_def permit_ok_def writes_ok_def permit_identity_def drive_moves_def
      intro: exI [of _ "[]"])

lemma keeps_close_scope: "keeps (drive_keeps da) (close_scope da scope)"
  unfolding close_scope_def
  by (rule drive_kept.keeps_reads_bind)
    (auto simp: wp_bind wp_reads wp_attempt wp_yields wp_changes drive_keeps_def wp_attempt_when sealed_scope
      split: sum.split intro!: wp_record)

lemma opened_generation:
  assumes "drive_ok fl s" and "\<not> dv_owner_mode s" and "dv_generation s \<noteq> u64_max"
  shows "drive_ok fl ((zero_target fl (s\<lparr>dv_generation := dv_generation s + 1, dv_scope := scope\<rparr>))
      \<lparr>dv_applied := False, dv_sealed := False\<rparr>) \<and>
    drive_moves s ((zero_target fl (s\<lparr>dv_generation := dv_generation s + 1, dv_scope := scope\<rparr>))
      \<lparr>dv_applied := False, dv_sealed := False\<rparr>)"
proof -
  have "dv_generation s + 1 \<noteq> 0" using assms(3) by (simp add: word_plus_one_eq_0)
  moreover from word_less_plus_one [OF this] have "dv_generation s \<le> dv_generation s + 1" by simp
  ultimately show ?thesis
    using assms unfolding zero_target_def
    by (auto simp: drive_ok_def shape_ok_def seal_ok_def permit_ok_def writes_ok_def permit_identity_def drive_moves_def
        intro: exI [of _ "[]"])
qed

lemma keeps_open_scope: "keeps (drive_keeps da) (open_scope da scope e)"
  unfolding open_scope_def
  by (rule drive_kept.keeps_reads_bind)
    (auto simp: wp_bind wp_reads wp_attempt wp_yields wp_changes drive_keeps_def opened_generation
      split: sum.split intro!: wp_record)

lemma closed_generation:
  assumes "drive_ok fl s" and "\<not> dv_owner_mode s"
  shows "drive_ok fl (zero_target fl (s\<lparr>dv_sealed := True, dv_applied := False\<rparr>)) \<and>
    drive_moves s (zero_target fl (s\<lparr>dv_sealed := True, dv_applied := False\<rparr>))"
  using assms unfolding zero_target_def
  by (auto simp: drive_ok_def shape_ok_def seal_ok_def permit_ok_def writes_ok_def permit_identity_def drive_moves_def
      intro: exI [of _ "[]"])

lemma keeps_close_generation: "keeps (drive_keeps da) (close_generation da scope g)"
  unfolding close_generation_def
  by (rule drive_kept.keeps_reads_bind)
    (auto simp: wp_bind wp_reads wp_attempt wp_yields wp_changes wp_attempt_when drive_keeps_def closed_generation
      split: sum.split intro!: wp_record)

lemma keeps_on_scoped_cmd: "keeps (drive_keeps da) (on_scoped_cmd da scope g m)"
  unfolding on_scoped_cmd_def
  by (rule drive_kept.keeps_reads_bind)
    (auto simp: wp_bind wp_reads wp_does wp_changes drive_keeps_def set_target_ok intro!: wp_record)

end
