(* ===== verification/Scoped_Drive_Reach.thy ===== *)
theory Scoped_Drive_Reach
  imports Scoped_Drive_Members
begin

text \<open>The owner's services keep the invariant of the drive; so does every member, from the load on.\<close>

subsection \<open>Opening\<close>

text \<open>A drive whose permission has just been opened, and what the handler makes of it.\<close>

definition opened_drive :: "('d, 'x) floating_scheme \<Rightarrow> MotionPermitIdentity \<Rightarrow> ('d, 'w) driving \<Rightarrow> ('d, 'w) driving" where
  "opened_drive fl i s = (zero_target fl (s\<lparr>dv_scope := mi_scope_id i, dv_generation := mi_generation i,
     dv_operation := mi_operation_id i\<rparr>))\<lparr>dv_applied := False, dv_sealed := False, dv_reason := ''open''\<rparr>"

lemma observed_inactive: "mp_state (observe_permit_time now p) \<noteq> PsFaultClosed \<Longrightarrow> mp_state (observe_permit_time now p) = mp_state p"
  by (simp add: observe_permit_time_state split: if_splits)

lemma opened_drive_ok:
  assumes ok: "drive_ok fl s" and owner: "dv_owner_mode s"
    and p: "p = permission_open i e t now (dv_applied s) (dv_permission s)"
    and opened: "mp_state (observe_permit_time now (dv_permission s)) \<in> {PsBootClosed, PsNormalClosed}"
      "fst p = (observe_permit_time now (dv_permission s))\<lparr>mp_identity := i, mp_opened := t, mp_issued := t,
        mp_deadline := t + mp_lifetime (dv_permission s), mp_state := PsActive\<rparr>"
      "e \<noteq> u64_max" "mi_generation i = e + 1" "mi_generation (mp_identity (dv_permission s)) = e"
  shows "drive_ok fl (opened_drive fl i (s\<lparr>dv_permission := fst p\<rparr>))"
    and "drive_moves s (opened_drive fl i (s\<lparr>dv_permission := fst p\<rparr>))"
proof -
  let ?t = "opened_drive fl i (s\<lparr>dv_permission := fst p\<rparr>)"
  have step: "fst p = fst (permission_step (dv_permission s) (McOpen i e t now (dv_applied s)))" by (simp add: p)
  have "drive_permission (fst p)"
    using ok owner unfolding step by (intro drive_permission_step) (simp add: drive_ok_def permit_ok_def)
  moreover have "e + 1 \<noteq> 0" using opened(3) by (simp add: word_plus_one_eq_0)
  moreover from word_less_plus_one [OF this] have "dv_generation s < e + 1"
    using ok owner opened(5) by (simp add: drive_ok_def permit_ok_def permit_identity_def)
  moreover have "\<exists>cs. fst p = run permission_step (dv_permission s) cs"
    unfolding step by (rule exI [of _ "[McOpen i e t now (dv_applied s)]"]) simp
  ultimately show "drive_ok fl ?t" and "drive_moves s ?t"
    using ok owner opened
    by (auto simp: opened_drive_def zero_target_def drive_ok_def shape_ok_def seal_ok_def permit_ok_def writes_ok_def
        permit_identity_def drive_moves_def intro: exI [of _ "[]"])
qed

lemma open_reply_ok:
  assumes "drive_ok da u" and "drive_moves s u"
  shows "wp (do {
      generation \<leftarrow> reads dv_generation;
      deadline \<leftarrow> reads (\<lambda>s. mp_deadline (dv_permission s));
      attempt (record_event da event) (\<lambda>_. yields (accepted, generation, deadline))
    }) (\<lambda>r u. drive_ok da u \<and> drive_moves s u) u"
  by (simp add: wp_bind wp_reads wp_attempt)
    (rule wp_record, auto simp: assms wp_yields split: sum.split)

lemma wp_sync_quiet: "mp_state (dv_permission s) \<noteq> PsFaultClosed \<Longrightarrow> wp (sync_permission da now) Q s = Q (Inr ()) s"
  by (simp add: sync_permission_def wp_bind wp_reads wp_attempt_when)

lemma open_at_ok:
  assumes ok: "drive_ok da s" and owner: "dv_owner_mode s" and generation: "mi_generation i = e + 1"
  shows "wp (open_at da i e issued now) (\<lambda>r u. drive_ok da u \<and> drive_moves s u) s"
proof -
  define m where "m = permission_open i e issued now (dv_applied s) (dv_permission s)"
  let ?s = "s\<lparr>dv_permission := fst m\<rparr>"
  have step: "fst m = fst (permission_step (dv_permission s) (McOpen i e issued now (dv_applied s)))"
    by (simp add: m_def)
  have sealed: "dv_sealed s \<longleftrightarrow> mp_state (dv_permission s) \<noteq> PsActive"
    using ok owner by (simp add: drive_ok_def permit_ok_def)
  have unopened: ?thesis if "fst m = observe_permit_time now (dv_permission s)" and no: "\<not> (snd m \<and> dv_sealed s)"
  proof -
    note settled = settle_permission [OF ok owner step, of now]
    have "drive_ok da (settle_drive da now ?s)" "drive_moves s (settle_drive da now ?s)"
      by (intro settled; simp add: that(1) observe_permit_time_state)+
    with no show ?thesis
      unfolding open_at_def wp_bind [of "reads _"] wp_bind [of "permit _"] wp_reads wp_permit m_def [symmetric]
        wp_attempt attempt_when_def
      by (intro wp_sync) (auto simp: wp_yields intro!: wp_record split: sum.split)
  qed
  show ?thesis
  proof (cases rule: permission_open_cases [of i e issued now "dv_applied s" "dv_permission s"])
    case refused
    then show ?thesis by (intro unopened) (simp_all add: m_def)
  next
    case retried
    then show ?thesis using sealed by (intro unopened) (simp_all add: m_def observe_permit_time_active)
  next
    case opened
    have "drive_ok da (opened_drive da i ?s)" "drive_moves s (opened_drive da i ?s)"
      by (rule opened_drive_ok [OF ok owner m_def]; use opened in \<open>simp add: m_def\<close>)+
    moreover have "mp_state (dv_permission ?s) \<noteq> PsFaultClosed" using opened by (simp add: m_def)
    moreover have "snd m" "dv_sealed s"
      using opened sealed by (auto simp: m_def observe_permit_time_state split: if_splits)
    ultimately show ?thesis
      by (simp add: open_at_def wp_bind [of "reads _"] wp_bind [of "permit _"] wp_reads wp_permit m_def [symmetric]
          wp_attempt [of "sync_permission _ _"] wp_attempt [of "attempt_when _ _"] wp_attempt_when
          wp_sync_quiet wp_bind [of "changes _"] wp_changes opened_drive_def [symmetric])
        (rule wp_record, auto intro: open_reply_ok split: sum.split)
  qed
qed

lemma wp_now_then:
  assumes "drive_ok da s" and "\<And>now w. wp (f now) (\<lambda>r u. drive_ok da u \<and> drive_moves s u) (s\<lparr>dv_world := w\<rparr>)"
  shows "wp (attempt (permit_now da) f) (\<lambda>r u. drive_ok da u \<and> drive_moves s u) s"
  unfolding wp_attempt by (rule wp_permit_now) (simp add: assms split: sum.split)

lemma open_permit_ok:
  assumes "drive_ok da s" and "dv_owner_mode s"
  shows "wp (open_permit da scope e operation issued) (\<lambda>r u. drive_ok da u \<and> drive_moves s u) s"
  unfolding open_permit_def
  by (rule wp_now_then [OF assms(1)])
    (use open_at_ok [of da "s\<lparr>dv_world := _\<rparr>"] assms in simp)

subsection \<open>Renewal, closure and commands\<close>

lemma renew_permit_ok:
  fixes s :: "('d, 'w) driving"
  assumes "drive_ok da s" and "dv_owner_mode s"
  shows "wp (renew_permit da i issued) (\<lambda>r u. drive_ok da u \<and> drive_moves s u) s"
proof -
  have world: "drive_ok da (s\<lparr>dv_world := w\<rparr>)" "dv_owner_mode (s\<lparr>dv_world := w\<rparr>)" for w
    using assms by simp_all
  note settled = settle_renew [OF world, simplified]
  show ?thesis
    unfolding renew_permit_def wp_attempt
    apply (rule wp_permit_now)
    apply (auto simp: assms wp_bind wp_reads wp_permit wp_attempt wp_yields settled
        intro!: wp_sync wp_record split: sum.split)
    done
qed

lemma permitted_command_ok:
  fixes s :: "('d, 'w) driving"
  assumes "drive_ok da s" and "dv_owner_mode s"
  shows "wp (permitted_command da i m) (\<lambda>r u. drive_ok da u \<and> drive_moves s u) s"
proof -
  have world: "drive_ok da (s\<lparr>dv_world := w\<rparr>)" "dv_owner_mode (s\<lparr>dv_world := w\<rparr>)" for w
    using assms by simp_all
  note settled = settle_consume [OF world, simplified]
  have set: "drive_ok da (set_target m u)" "drive_moves s (set_target m u)"
    if "drive_ok da u" "drive_moves s u" "\<not> dv_sealed u" for u
    using set_target_ok [OF that(1,3), of m] drive_moves_trans [OF that(2)] by auto
  show ?thesis
    unfolding permitted_command_def wp_attempt
    apply (rule wp_permit_now)
    apply (auto simp: assms wp_bind wp_reads wp_permit wp_attempt wp_yields wp_does wp_changes settled
        intro!: wp_sync wp_record set split: sum.split)
    done
qed

lemma closed_permission:
  assumes ok: "drive_ok fl s" and owner: "dv_owner_mode s" and sealed: "\<not> dv_sealed s"
    and p: "p = fst (permission_step (dv_permission s) c)"
      "mp_identity p = mp_identity (dv_permission s)" "mp_state p \<noteq> PsActive"
  shows "drive_ok fl (seal_drive fl reason (s\<lparr>dv_permission := p\<rparr>))"
    and "drive_moves s (seal_drive fl reason (s\<lparr>dv_permission := p\<rparr>))"
proof -
  have "drive_permission p" using ok owner p(1) by (simp add: drive_ok_def permit_ok_def drive_permission_step)
  then show "drive_ok fl (seal_drive fl reason (s\<lparr>dv_permission := p\<rparr>))"
    using ok owner p(2,3) by (simp add: drive_ok_def seal_drive_seal_ok) (simp add: permit_ok_def)
  have "\<exists>cs. p = run permission_step (dv_permission s) cs" unfolding p(1) by (rule exI [of _ "[c]"]) simp
  then show "drive_moves s (seal_drive fl reason (s\<lparr>dv_permission := p\<rparr>))"
    using sealed by (simp add: drive_moves_def)
qed

lemma close_at_ok:
  assumes ok: "drive_ok da s" and owner: "dv_owner_mode s"
  shows "wp (close_at da i now) (\<lambda>r u. drive_ok da u \<and> drive_moves s u) s"
proof -
  define m where "m = permission_close i now (dv_permission s)"
  have step: "fst m = fst (permission_step (dv_permission s) (McClose i now))" by (simp add: m_def)
  have sealed: "dv_sealed s \<longleftrightarrow> mp_state (dv_permission s) \<noteq> PsActive"
    using ok owner by (simp add: drive_ok_def permit_ok_def)
  have unclosed: ?thesis
    if p: "fst m = observe_permit_time now (dv_permission s)" and no: "snd m \<Longrightarrow> mp_state (fst m) \<noteq> PsActive"
  proof -
    note settled = settle_permission [OF ok owner step, of now]
    have "drive_ok da (settle_drive da now (s\<lparr>dv_permission := fst m\<rparr>))"
      "drive_moves s (settle_drive da now (s\<lparr>dv_permission := fst m\<rparr>))"
      "dv_sealed (settle_drive da now (s\<lparr>dv_permission := fst m\<rparr>)) \<longleftrightarrow> mp_state (fst m) \<noteq> PsActive"
      by (intro settled; simp add: p observe_permit_time_state)+
    with no show ?thesis
      unfolding close_at_def wp_bind [of "permit _"] wp_permit m_def [symmetric] wp_attempt
      by (intro wp_sync) (auto simp: wp_bind wp_reads wp_attempt wp_attempt_when wp_yields split: sum.split)
  qed
  show ?thesis
  proof (cases rule: permission_close_cases [of i now "dv_permission s"])
    case refused
    then show ?thesis by (intro unclosed) (simp_all add: m_def)
  next
    case kept
    then show ?thesis by (intro unclosed) (simp_all add: m_def)
  next
    case closed
    then have unsealed: "\<not> dv_sealed s" using sealed by (simp add: observe_permit_time_active)
    moreover have "fst m = (observe_permit_time now (dv_permission s))\<lparr>mp_state := PsNormalClosed\<rparr>" "snd m"
      using closed by (simp_all add: m_def)
    moreover note closed_permission [OF ok owner unsealed step]
    ultimately show ?thesis
      unfolding close_at_def wp_bind [of "permit _"] wp_permit m_def [symmetric]
      by (auto simp: wp_attempt wp_sync_quiet wp_bind wp_reads wp_changes wp_attempt_when wp_yields
          intro!: wp_record split: sum.split)
  qed
qed

lemma close_permit_ok:
  assumes "drive_ok da s" and "dv_owner_mode s"
  shows "wp (close_permit da i) (\<lambda>r u. drive_ok da u \<and> drive_moves s u) s"
  unfolding close_permit_def
  by (rule wp_now_then [OF assms(1)]) (use close_at_ok [of da "s\<lparr>dv_world := _\<rparr>"] assms in simp)

text \<open>Every state of a loaded drive satisfies the invariant, and its calls move it as they may.\<close>

subsection \<open>Members\<close>

lemma keeps_replies: "keeps (drive_keeps fl) m \<Longrightarrow> keeps (drive_keeps fl) (replies f m)"
  unfolding replies_def by (intro drive_intros)

lemma keeps_registered:
  assumes "\<And>s. drive_ok fl s \<Longrightarrow> mode s \<Longrightarrow> wp m (\<lambda>r u. drive_ok fl u \<and> drive_moves s u) s"
  shows "keeps (drive_keeps fl) (registered mode m)"
  by (rule drive_keepsI) (simp add: registered_def wp_bind wp_reads wp_if assms wp_answer)

lemma wp_replies: "wp m (\<lambda>r u. P u) s \<Longrightarrow> wp (replies f m) (\<lambda>r u. P u) s"
  unfolding replies_def wp_bind by (erule wp_mono) (simp add: wp_answer)

lemma registered_always: "keeps (drive_keeps fl) m \<Longrightarrow> keeps (drive_keeps fl) (registered mode m)"
  unfolding registered_def by (intro drive_intros)

lemma limit_torque_keeps: "keeps (drive_keeps fl) (limit_torque da is)"
  by (induction "is") (auto intro!: drive_intros)

lemma reset_keeps: "keeps (drive_keeps da) (reset_drive da)"
proof -
  have target: "keeps (drive_keeps da) (changes (\<lambda>s. zero_target da (s\<lparr>dv_pose := p\<rparr>)))" for p
    by (rule drive_keepsI)
      (auto simp: wp_changes zero_target_def drive_ok_def shape_ok_def seal_ok_def permit_ok_def writes_ok_def
        permit_identity_def drive_moves_def intro: exI [of _ "[]"])
  have last: "keeps (drive_keeps da) (changes (\<lambda>s. s\<lparr>dv_last_update := t\<rparr>))" for t
    by (rule keeps_same) (simp_all add: same_drive_def permit_identity_def)
  show ?thesis
    unfolding reset_drive_def by (intro drive_intros target last limit_torque_keeps)
qed

lemma drive_member_keeps: "keeps (drive_keeps da) (drive_member da c)"
proof (cases c)
  case DcReset
  then show ?thesis by (simp add: drive_kept.keeps_bind reset_keeps drive_kept.keeps_answer)
next
  case (DcOpenPermit scope e operation issued)
  then show ?thesis by (simp add: keeps_registered wp_replies open_permit_ok)
next
  case (DcRenewPermit i issued)
  then show ?thesis by (simp add: keeps_registered wp_replies renew_permit_ok)
next
  case (DcClosePermit i)
  then show ?thesis by (simp add: keeps_registered wp_replies close_permit_ok)
next
  case (DcCommand i m)
  then show ?thesis by (simp add: keeps_registered wp_replies permitted_command_ok)
qed (simp_all add: keeps_replies registered_always keeps_on_update keeps_on_cmd_vel
    keeps_close_scope keeps_open_scope keeps_close_generation keeps_on_scoped_cmd)

lemma drive_step_run: "fst (drive_step da s c) = snd (run_state (drive_member da c) s)"
  by (simp add: drive_step_def split: prod.split)

lemma drive_step_keeps:
  assumes "drive_ok da s"
  shows "drive_ok da (fst (drive_step da s c))" and "drive_moves s (fst (drive_step da s c))"
  using keeps_run [OF drive_member_keeps, of da s c] assms by (simp_all add: drive_step_run drive_keeps_def)

interpretation drive_inv: inv_machine "drive_step da" "drive_ok da"
  by unfold_locales (rule drive_step_keeps(1))

lemma drive_run_moves: "drive_ok da s \<Longrightarrow> drive_moves s (run (drive_step da) s cs)"
  by (induction cs arbitrary: s) (auto intro: drive_moves_trans drive_step_keeps)

subsection \<open>Load\<close>

lemma length_override_values [simp]: "length (override_values pairs index vs xs) = length xs"
  by (induction vs arbitrary: index xs) simp_all

lemma length_wheels_of [simp]: "length (wheels_of pairs right left) = 2 * pairs"
  by (simp add: wheels_of_def length_concat comp_def sum_list_triv)

lemma configured_pairs_pos: "configured_pairs c > 0"
proof -
  have "0 < unat (dc_wheel_pairs c)" if "\<not> dc_wheel_pairs c < 1"
    using that unat_gt_0 [of "dc_wheel_pairs c"] by (auto simp: not_less)
  then show ?thesis by (simp add: configured_pairs_def)
qed

lemma find_joints_world: "wp (find_joints da torque names joints) (\<lambda>r t. \<exists>w. t = s\<lparr>dv_world := w\<rparr>) s"
proof (induction names arbitrary: s joints)
  case Nil
  show ?case by (simp add: wp_answer) (rule exI [of _ "dv_world s"], simp)
next
  case (Cons name names)
  have next_joint: "wp (find_joints da torque names js) (\<lambda>r t. \<exists>w. t = s\<lparr>dv_world := w\<rparr>) (s\<lparr>dv_world := v\<rparr>)" for v js
    by (rule wp_mono [OF Cons.IH [of js]]) auto
  show ?case
    unfolding find_joints.simps wp_bind
    by (rule wp_simulator) (auto simp: wp_answer wp_bind intro!: wp_simulator next_joint split: option.split)
qed

lemma load_wheels_ok:
  assumes "\<And>left right now w. length left = configured_pairs c \<Longrightarrow> length right = configured_pairs c \<Longrightarrow>
    P (configure_drive da c left right now ((s\<lparr>dv_pairs := configured_pairs c, dv_accel := dc_wheel_accel c,
      dv_torque := dc_wheel_torque c\<rparr>)\<lparr>dv_world := w\<rparr>))"
  shows "wp (load_wheels da c) (\<lambda>r u. r = Loaded \<longrightarrow> P u) s"
proof -
  let ?s = "s\<lparr>dv_pairs := configured_pairs c, dv_accel := dc_wheel_accel c, dv_torque := dc_wheel_torque c\<rparr>"
  have last: "wp (do {
      now \<leftarrow> simulator (da_sim_time da);
      changes (configure_drive da c left right now);
      answer Loaded
    }) (\<lambda>r u. r = Loaded \<longrightarrow> P u) (?s\<lparr>dv_world := w\<rparr>)"
    if "length left = configured_pairs c" "length right = configured_pairs c" for left right w
    unfolding wp_bind wp_changes wp_answer by (rule wp_simulator) (use assms that in simp)
  have right: "wp (do {
      right \<leftarrow> find_joints da (dc_wheel_torque c) (dc_right_joints c) [];
      case right of None \<Rightarrow> answer NotWorking
      | Some right \<Rightarrow>
          if length left \<noteq> length right \<or> length left \<noteq> configured_pairs c then answer NotWorking
          else do {
            now \<leftarrow> simulator (da_sim_time da);
            changes (configure_drive da c left right now);
            answer Loaded
          }
    }) (\<lambda>r u. r = Loaded \<longrightarrow> P u) (?s\<lparr>dv_world := w\<rparr>)" for left w
    unfolding wp_bind [of "find_joints _ _ _ _"]
    by (rule wp_mono [OF find_joints_world]) (auto simp: wp_answer intro!: last split: option.split)
  show ?thesis
    unfolding load_wheels_def wp_bind [of "changes _"] wp_changes wp_bind [of "find_joints _ _ (dc_left_joints _) _"]
  proof (rule wp_mono [OF find_joints_world])
    fix left u
    assume "\<exists>w. u = ?s\<lparr>dv_world := w\<rparr>"
    then show "wp (case left of None \<Rightarrow> answer NotWorking | Some left \<Rightarrow> do {
      right \<leftarrow> find_joints da (dc_wheel_torque c) (dc_right_joints c) [];
      case right of None \<Rightarrow> answer NotWorking
      | Some right \<Rightarrow>
          if length left \<noteq> length right \<or> length left \<noteq> configured_pairs c then answer NotWorking
          else do {
            now \<leftarrow> simulator (da_sim_time da);
            changes (configure_drive da c left right now);
            answer Loaded
          }
    }) (\<lambda>r u. r = Loaded \<longrightarrow> P u) u"
      by (cases left) (use right in \<open>auto simp only: option.case, simp add: wp_answer\<close>)
  qed
qed

lemma new_drive_fields:
  assumes "scoped_drive.truncate s = new_drive fl"
  shows "dv_permission s = the (make_permission 1000000000)" "dv_operation s = 0" "dv_scope s = []"
    "dv_generation s = 0" "\<not> dv_applied s" "dv_target_x s = fl_zero fl" "dv_target_rot s = fl_zero fl"
    "dv_writes s = []"
  using assms by (simp_all add: scoped_drive.truncate_def new_drive_def)

lemma drive_loaded_ok:
  assumes "drive_loaded da s"
  shows "drive_ok da s" and "dv_writes s = []"
proof -
  from assms obtain c s0 where new: "scoped_drive.truncate s0 = new_drive da"
    and load: "run_state (load_drive da c) s0 = (Loaded, s)"
    by (auto simp: drive_loaded_def)
  let ?s = "set_modes c s0"
  have permission: "drive_permission (the (make_permission 1000000000))"
    "mp_identity (the (make_permission 1000000000)) = no_identity"
    "mp_state (the (make_permission 1000000000)) = PsBootClosed"
    by (auto simp: make_permission_def drive_permission_def permission_initial_def intro!: reachable_init exI [of _ 1000000000])
  have wheels: "wp (load_wheels da c) (\<lambda>r u. r = Loaded \<longrightarrow> drive_ok da u \<and> dv_writes u = []) ?s"
    if "dc_owner_mode c \<longrightarrow> dc_generation_mode c"
    using that new_drive_fields [OF new] configured_pairs_pos [of c] permission
    by (intro load_wheels_ok)
      (auto simp: configure_drive_def set_odometry_def set_wheels_def Let_def set_modes_def drive_ok_def shape_ok_def seal_ok_def permit_ok_def writes_ok_def
        permit_identity_def no_identity_def)
  then have "wp (load_drive da c) (\<lambda>r u. r = Loaded \<longrightarrow> drive_ok da u \<and> dv_writes u = []) s0"
    by (auto simp: load_drive_def wp_answer wp_bind wp_changes)
  from wp_result [OF this load] show "drive_ok da s" and "dv_writes s = []" by simp_all
qed

lemma drive_reachable_ok: "drive_reachable da s \<Longrightarrow> drive_ok da s"
  by (erule drive_inv.inv_reachable) (rule drive_loaded_ok(1))

text \<open>How the generation of a drive changes: only by the two openings, one at a time, from applied zeros.\<close>

subsection \<open>The generation\<close>

text \<open>No member but the two that open changes the generation.\<close>

definition same_generation :: "('d, 'w) driving \<Rightarrow> ('d, 'w) driving \<Rightarrow> bool" where
  "same_generation s t \<longleftrightarrow> dv_generation t = dv_generation s"

interpretation generation_kept: kept_relation same_generation
  by unfold_locales (simp_all add: same_generation_def)

lemma generation_change: "(\<And>s. dv_generation (f s) = dv_generation s) \<Longrightarrow> keeps same_generation (changes f)"
  by (simp add: keeps_def wp_changes same_generation_def)

lemma generation_simulator: "keeps same_generation (simulator f)"
  by (intro keepsI wp_simulator) (simp add: same_generation_def)

lemma generation_permit: "keeps same_generation (permit f)"
  by (simp add: keeps_def wp_permit same_generation_def)

lemmas generation_intros = generation_kept.keeps_fallible generation_simulator generation_permit generation_change

lemma generation_now: "keeps same_generation (permit_now da)" "keeps same_generation (motion_now da)"
proof -
  have now: "keeps same_generation (permit_now da)"
    unfolding permit_now_def
    by (rule generation_kept.keeps_bind [OF generation_simulator])
      (auto intro: generation_intros split: option.split)
  then show "keeps same_generation (permit_now da)" .
  from now show "keeps same_generation (motion_now da)"
    unfolding motion_now_def by (intro generation_intros)
qed

lemma generation_record: "keeps same_generation (record_command da e g)"
  unfolding record_command_def by (intro generation_intros generation_now)

lemma generation_zero_wheels: "keeps same_generation (zero_wheels da wheels a)"
  by (induction wheels arbitrary: a) (auto simp: zero_wheel_def set_wheel_def intro!: generation_intros)

lemma generation_apply_zero: "keeps same_generation (apply_zero da t)"
  unfolding apply_zero_def report_applied_def
  by (intro generation_intros generation_zero_wheels generation_record generation_now) simp_all

lemma generation_sync: "keeps same_generation (sync_permission da now)"
  unfolding sync_permission_def by (intro generation_intros generation_record) simp

lemma generation_write: "keeps same_generation (write_permitted da t i v)"
  unfolding write_permitted_def write_current_def motion_write_def set_wheel_def
  by (intro generation_intros generation_now generation_sync generation_apply_zero) simp_all

lemma generation_speeds: "keeps same_generation (current_speeds da is speeds)"
  by (induction "is" arbitrary: speeds) (auto simp: wheel_speed_def intro!: generation_intros)

lemma generation_pairs: "keeps same_generation (drive_pairs da t seconds current is)"
proof (induction "is")
  case (Cons i "is")
  have "keeps same_generation (drive_pair da t seconds current i)"
    unfolding drive_pair_def write_pair_def
    by (intro generation_intros generation_write) (simp add: limit_pair_def Let_def)
  with Cons show ?case by (auto intro!: generation_intros)
qed (simp add: generation_intros)

lemma generation_wheels_tf: "keeps same_generation (publish_wheels_tf da t is)"
  by (induction "is") (auto intro!: generation_intros)

lemma generation_encoder: "keeps same_generation (update_encoder da t)"
  unfolding update_encoder_def update_odometry_encoder_def
  by (intro generation_intros) (simp add: move_encoder_def Let_def split: prod.split)

lemma generation_report: "keeps same_generation (report_odometry da t)"
  unfolding report_odometry_def update_odometry_world_def publish_odometry_msg_def publish_odometry_tf_def
  by (intro generation_intros generation_wheels_tf) simp_all

lemma generation_update: "keeps same_generation (on_update da t)"
  unfolding on_update_def consume_targets_def move_wheels_def check_permission_def
  by (intro generation_encoder generation_report generation_intros generation_now generation_sync generation_apply_zero generation_speeds generation_pairs)
    (simp_all add: update_wheel_velocities_def)

lemma generation_torque: "keeps same_generation (limit_torque da is)"
  by (induction "is") (auto intro!: generation_intros)

lemma generation_replies: "keeps same_generation m \<Longrightarrow> keeps same_generation (replies f m)"
  unfolding replies_def by (intro generation_intros)

lemma generation_registered: "keeps same_generation m \<Longrightarrow> keeps same_generation (registered mode m)"
  unfolding registered_def by (intro generation_intros)

fun is_opening :: "'d drive_call \<Rightarrow> bool" where
  "is_opening (DcOpenScope scope e) \<longleftrightarrow> True"
| "is_opening (DcOpenPermit scope e operation issued) \<longleftrightarrow> True"
| "is_opening c \<longleftrightarrow> False"

lemma generation_member: "\<not> is_opening c \<Longrightarrow> keeps same_generation (drive_member da c)"
  by (cases c)
    (auto simp: reset_drive_def on_cmd_vel_def close_scope_def close_generation_def on_scoped_cmd_def renew_permit_def
      close_permit_def close_at_def permitted_command_def zero_target_def set_target_def
      intro!: generation_replies generation_registered generation_update generation_intros generation_torque
        generation_now generation_record generation_sync)

text \<open>An opening starts from a sealed drive whose wheels have taken their zeros, with zero targets.\<close>

definition opens_from :: "('d, 'x) floating_scheme \<Rightarrow> ('d, 'w) driving \<Rightarrow> ('d, 'w) driving \<Rightarrow> bool" where
  "opens_from fl s t \<longleftrightarrow> dv_generation t \<noteq> dv_generation s \<longrightarrow>
    dv_generation t = dv_generation s + 1 \<and> dv_sealed s \<and> dv_applied s \<and>
    dv_target_x t = fl_zero fl \<and> dv_target_rot t = fl_zero fl \<and> dv_writes t = dv_writes s"

lemma opens_from_world [simp]:
  "opens_from fl s (t\<lparr>dv_world := w\<rparr>) = opens_from fl s t"
  "opens_from fl (s\<lparr>dv_world := w\<rparr>) = opens_from fl s"
  by (simp_all add: opens_from_def fun_eq_iff)

lemma opens_from_same: "dv_generation t = dv_generation s \<Longrightarrow> opens_from fl s t"
  by (simp add: opens_from_def)

lemma open_scope_opens: "wp (open_scope da scope e) (\<lambda>r. opens_from da s) s"
  unfolding open_scope_def
  by (auto simp: wp_bind wp_reads wp_attempt wp_yields wp_changes opens_from_def zero_target_def
      split: sum.split intro!: wp_record)

lemma settle_generation [simp]: "dv_generation (settle_drive fl now s) = dv_generation s"
  by (simp add: settle_drive_def)

lemma open_at_opens:
  assumes ok: "drive_ok da s" and owner: "dv_owner_mode s" and generation: "mi_generation i = e + 1"
  shows "wp (open_at da i e issued now) (\<lambda>r. opens_from da s) s"
proof -
  define m where "m = permission_open i e issued now (dv_applied s) (dv_permission s)"
  note rest = open_at_def wp_bind [of "reads _"] wp_bind [of "permit _"] wp_reads wp_permit m_def [symmetric]
  show ?thesis
  proof (cases "snd m \<and> dv_sealed s")
    case False
    then show ?thesis
      unfolding rest wp_attempt
      by (intro wp_sync)
        (auto simp: attempt_when_def wp_yields wp_bind wp_reads wp_attempt opens_from_same split: sum.split intro!: wp_record)
  next
    case True
    have "mp_identity (dv_permission s) = permit_identity s" "mp_state (dv_permission s) \<noteq> PsActive"
      using ok owner True by (simp_all add: drive_ok_def permit_ok_def)
    with True have "dv_applied s" "e = dv_generation s" "mp_state (fst m) \<noteq> PsFaultClosed"
      by (cases rule: permission_open_cases [of i e issued now "dv_applied s" "dv_permission s"];
        auto simp: m_def observe_permit_time_active permit_identity_def)+
    with True generation show ?thesis
      unfolding rest
      by (simp add: wp_attempt [of "sync_permission _ _"] wp_attempt [of "attempt_when _ _"] wp_attempt_when
          wp_sync_quiet wp_bind [of "changes _"] wp_changes)
        (rule wp_record, auto simp: zero_target_def opens_from_def wp_bind wp_reads wp_attempt wp_yields
          intro!: wp_record split: sum.split)
  qed
qed

lemma open_permit_opens:
  assumes "drive_ok da s" and "dv_owner_mode s"
  shows "wp (open_permit da scope e operation issued) (\<lambda>r. opens_from da s) s"
  unfolding open_permit_def wp_attempt
  by (rule wp_permit_now)
    (use open_at_opens [of da "s\<lparr>dv_world := _\<rparr>"] assms in \<open>simp add: opens_from_same split: sum.split\<close>)

lemma drive_step_opens:
  assumes "drive_ok da s"
  shows "opens_from da s (fst (drive_step da s c))"
proof (cases "is_opening c")
  case False
  from keeps_run [OF generation_member [OF this], of s da] show ?thesis
    by (simp add: drive_step_run same_generation_def opens_from_same)
next
  case True
  have "wp (drive_member da c) (\<lambda>r. opens_from da s) s"
  proof (cases c)
    case (DcOpenScope scope e)
    then show ?thesis
      by (simp add: registered_def wp_bind wp_reads wp_answer wp_replies open_scope_opens opens_from_same)
  next
    case (DcOpenPermit scope e operation issued)
    with assms show ?thesis
      by (simp add: registered_def wp_bind wp_reads wp_answer wp_replies open_permit_opens opens_from_same)
  qed (use True in simp_all)
  then show ?thesis by (simp add: drive_step_run wp_run)
qed

end
