(* ===== verification/Motion_Permission_Properties.thy ===== *)
theory Motion_Permission_Properties
  imports Motion_Permission
begin

text \<open>What the permission promises over any sequence of calls.\<close>

subsection \<open>Leases\<close>

fun permit_grants :: "MotionPermitIdentity \<Rightarrow> u64 \<Rightarrow> permission_call \<Rightarrow> bool \<Rightarrow> bool" where
  "permit_grants i t (McOpen i' e t' now z) r \<longleftrightarrow> r \<and> i' = i \<and> t' = t"
| "permit_grants i t (McRenew i' t' now) r \<longleftrightarrow> r \<and> i' = i \<and> t' = t"
| "permit_grants i t c r \<longleftrightarrow> False"

fun closes :: "permission_call \<Rightarrow> bool \<Rightarrow> bool" where
  "closes (McClose i now) r \<longleftrightarrow> r"
| "closes c r \<longleftrightarrow> False"

text \<open>A call that leaves the permission active has granted it or found it granted.\<close>

lemma active_step:
  assumes "mp_state (fst (permission_step p c)) = PsActive"
  shows "permit_grants (mp_identity (fst (permission_step p c))) (mp_issued (fst (permission_step p c))) c
      (snd (permission_step p c)) \<or>
    mp_state p = PsActive \<and> mp_identity (fst (permission_step p c)) = mp_identity p \<and>
    mp_issued (fst (permission_step p c)) = mp_issued p \<and> \<not> closes c (snd (permission_step p c))"
proof (cases c)
  case (McOpen i e t now z)
  show ?thesis
    by (cases rule: permission_open_cases [of i e t now z p])
      (use assms McOpen in \<open>auto simp: observe_permit_time_active\<close>)
next
  case (McRenew i t now)
  show ?thesis
    by (cases rule: permission_renew_cases [of i t now p])
      (use assms McRenew in \<open>auto simp: observe_permit_time_active\<close>)
next
  case (McConsume i now)
  with assms show ?thesis by (auto simp: can_consume_def Let_def observe_permit_time_active)
next
  case (McClose i now)
  show ?thesis
    by (cases rule: permission_close_cases [of i now p])
      (use assms McClose in \<open>auto simp: observe_permit_time_active\<close>)
qed

lemma active_run:
  assumes "mp_state p \<noteq> PsActive" and "mp_state (run permission_step p cs) = PsActive"
  shows "\<exists>j < length cs.
    case_prod (permit_grants (mp_identity (run permission_step p cs)) (mp_issued (run permission_step p cs)))
      (trace permission_step p cs ! j) \<and>
    (\<forall>k. j < k \<and> k < length cs \<longrightarrow> \<not> case_prod closes (trace permission_step p cs ! k))"
  using assms(2)
proof (induction cs rule: rev_induct)
  case Nil
  with assms(1) show ?case by simp
next
  case (snoc c cs)
  let ?q = "run permission_step p cs"
  have active: "mp_state (fst (permission_step ?q c)) = PsActive"
    using snoc.prems by (simp add: run_append)
  from active_step [OF active] show ?case
  proof
    assume "permit_grants (mp_identity (fst (permission_step ?q c))) (mp_issued (fst (permission_step ?q c))) c
      (snd (permission_step ?q c))"
    then show ?thesis
      by (intro exI [of _ "length cs"]) (auto simp: run_append trace_append nth_append)
  next
    assume kept: "mp_state ?q = PsActive \<and>
      mp_identity (fst (permission_step ?q c)) = mp_identity ?q \<and>
      mp_issued (fst (permission_step ?q c)) = mp_issued ?q \<and> \<not> closes c (snd (permission_step ?q c))"
    with snoc.IH obtain j where "j < length cs"
      and "case_prod (permit_grants (mp_identity ?q) (mp_issued ?q)) (trace permission_step p cs ! j)"
      and "\<And>k. j < k \<Longrightarrow> k < length cs \<Longrightarrow> \<not> case_prod closes (trace permission_step p cs ! k)"
      by auto
    with kept show ?thesis
      by (intro exI [of _ j]) (auto simp: run_append trace_append nth_append less_Suc_eq)
  qed
qed

lemma word_add_no_wrap:
  assumes "(x::u64) \<le> u64_max - y"
  shows "unat (x + y) = unat x + unat y"
proof -
  have max: "unat u64_max = 18446744073709551615"
    by (simp add: u64_max_def unsigned_minus_1_eq_mask mask_eq_exp_minus_1)
  have "unat (u64_max - y) = unat u64_max - unat y" by (rule unat_sub) simp
  with assms max have "unat x \<le> 18446744073709551615 - unat y" by (simp add: word_le_nat_alt)
  moreover have "unat y \<le> 18446744073709551615"
    using u64_max_ge [of y] max by (simp add: word_le_nat_alt)
  ultimately have "unat x + unat y < 2 ^ 64" by simp
  then show ?thesis by (simp add: unat_word_ariths)
qed

text \<open>
  C25. Motion is leased. Whenever the permission lets a command be consumed at a time
  \<open>now\<close>, an earlier call opened or renewed the permission for exactly that identity with a
  stamp \<open>issued\<close> that is not in the future and less than a lifetime old, and no close has
  been accepted since.
\<close>

theorem consumed_permission_is_leased:
  assumes "permission_initial p" and "i < length cs"
    and "trace permission_step p cs ! i = (McConsume identity now, True)"
  shows "\<exists>j < i. \<exists>issued. case_prod (permit_grants identity issued) (trace permission_step p cs ! j) \<and>
    issued \<le> now \<and> unat now < unat issued + unat (mp_lifetime p) \<and>
    (\<forall>k. j < k \<and> k < i \<longrightarrow> \<not> case_prod closes (trace permission_step p cs ! k))"
proof -
  let ?q = "run permission_step p (take i cs)"
  have start: "mp_state p \<noteq> PsActive" "permission_ok p"
    using assms(1) by (auto simp: permission_initial_def make_permission_def permission_initial_ok split: if_splits)
  have ok: "permission_ok ?q" by (rule permission_inv.inv_run [OF start(2)])
  from assms(2,3) have c: "cs ! i = McConsume identity now"
    and r: "snd (permission_step ?q (cs ! i))" by (auto simp: trace_nth)
  then have a: "mp_state ?q = PsActive" "mp_identity ?q = identity" "mp_observed ?q \<le> now" "now < mp_deadline ?q"
    by (auto simp: can_consume_def Let_def observe_permit_time_active)
  then have lease: "mp_issued ?q \<le> now" "mp_deadline ?q = mp_issued ?q + mp_lifetime p"
    "mp_issued ?q \<le> u64_max - mp_lifetime p"
    using ok by (auto simp: permission_ok_def run_lifetime)
  from active_run [OF start(1) a(1)] obtain j where j: "j < i"
    and g: "case_prod (permit_grants identity (mp_issued ?q)) (trace permission_step p (take i cs) ! j)"
    and n: "\<And>k. j < k \<Longrightarrow> k < i \<Longrightarrow> \<not> case_prod closes (trace permission_step p (take i cs) ! k)"
    using assms(2) a(2) by auto
  have "trace permission_step p (take i cs) ! k = trace permission_step p cs ! k" if "k < i" for k
    using that assms(2) by (simp add: trace_nth min_def)
  with j g n a lease show ?thesis
    by (intro exI [of _ j] conjI exI [of _ "mp_issued ?q"]) (auto simp: word_less_nat_alt word_add_no_wrap)
qed

definition demo_identity :: "u64 \<Rightarrow> MotionPermitIdentity" where
  "demo_identity g =
    \<lparr>mi_scope_id = (if g = 1 then CHR ''a'' else CHR ''b'') # replicate 31 (CHR ''0''), mi_generation = g,
     mi_operation_id = g\<rparr>"

definition demo_permission :: permission where
  "demo_permission = the (make_permission 1000)"

lemma demo_permission_initial: "permission_initial demo_permission"
  unfolding permission_initial_def by (rule exI [of _ 1000]) (simp add: demo_permission_def make_permission_def)

definition demo_lease :: "permission_call list" where
  "demo_lease =
    [McOpen (demo_identity 1) 0 10 20 True, McRenew (demo_identity 1) 500 600, McConsume (demo_identity 1) 1400]"

lemma demo_lease_consumed: "trace permission_step demo_permission demo_lease ! 2 = (McConsume (demo_identity 1) 1400, True)"
  by code_simp

theorem consumed_permission_is_leased_witness:
  "\<exists>j < 2. \<exists>issued. case_prod (permit_grants (demo_identity 1) issued) (trace permission_step demo_permission demo_lease ! j) \<and>
    issued \<le> 1400 \<and> unat (1400::u64) < unat issued + unat (mp_lifetime demo_permission)"
proof -
  have "2 < length demo_lease" by (simp add: demo_lease_def)
  from consumed_permission_is_leased [OF demo_permission_initial this demo_lease_consumed]
  obtain j issued where "j < 2"
    and "case_prod (permit_grants (demo_identity 1) issued) (trace permission_step demo_permission demo_lease ! j)"
    and "issued \<le> 1400" and "unat (1400::u64) < unat issued + unat (mp_lifetime demo_permission)"
    by (elim exE conjE)
  then show ?thesis by (intro exI conjI)
qed

subsection \<open>Faults\<close>

fun is_close :: "permission_call \<Rightarrow> bool" where
  "is_close (McClose i now) \<longleftrightarrow> True"
| "is_close c \<longleftrightarrow> False"

lemma fault_step:
  assumes "mp_state p = PsFaultClosed"
  shows "mp_state (fst (permission_step p c)) = PsFaultClosed"
    and "snd (permission_step p c) \<Longrightarrow> is_close c"
  using assms
  by (cases c; auto simp: permission_open_def permission_renew_def permission_close_def can_consume_def Let_def)+

lemma late_step:
  assumes "mp_state p = PsActive" and "mp_deadline p \<le> call_now c"
  shows "mp_state (fst (permission_step p c)) = PsFaultClosed"
    and "snd (permission_step p c) \<Longrightarrow> is_close c"
  using assms
  by (cases c; auto simp: permission_open_def permission_renew_def permission_close_def can_consume_def Let_def
      observe_permit_time_state)+

interpretation fault_latch: blocking_machine permission_step "\<lambda>p. True"
  "\<lambda>p. mp_state p = PsFaultClosed" "\<lambda>c r. r \<and> \<not> is_close c"
  by unfold_locales (auto simp: fault_step dest: fault_step(2))

text \<open>
  An expired permission is dead. The first call that comes at or after the deadline of
  an active permission, a renewal included, closes it for good: the call itself and every
  call after it is refused, but for matching closes, and it stays closed by the fault.
\<close>

theorem expired_permission_is_final:
  assumes "mp_state p = PsActive" and "mp_deadline p \<le> call_now c"
  shows "mp_state (run permission_step p (c # cs)) = PsFaultClosed \<and>
    occurrences (\<lambda>c r. r \<and> \<not> is_close c) (trace permission_step p (c # cs)) = 0"
  using late_step [OF assms] fault_latch.latch_run fault_latch.blocked_trace by simp_all

definition live_permission :: permission where
  "live_permission = run permission_step demo_permission (take 2 demo_lease)"

lemma live_permission_state:
  "mp_state live_permission = PsActive" "mp_deadline live_permission = 1500"
  by code_simp+

theorem expired_permission_is_final_witness:
  "mp_state (run permission_step live_permission
      (McRenew (demo_identity 1) 1490 1500 # [McOpen (demo_identity 2) 1 1510 1520 True])) = PsFaultClosed \<and>
    occurrences (\<lambda>c r. r \<and> \<not> is_close c) (trace permission_step live_permission
      (McRenew (demo_identity 1) 1490 1500 # [McOpen (demo_identity 2) 1 1510 1520 True])) = 0"
  by (rule expired_permission_is_final) (simp_all add: live_permission_state)

subsection \<open>Generations\<close>

text \<open>The generations a sequence of calls opens: one for each change of the identity.\<close>

fun generations :: "permission \<Rightarrow> permission_call list \<Rightarrow> u64 list" where
  "generations p [] = []"
| "generations p (c # cs) =
    (let q = fst (permission_step p c)
     in (if mp_identity q \<noteq> mp_identity p then [mi_generation (mp_identity q)] else []) @ generations q cs)"

lemma generation_step:
  assumes "mp_identity (fst (permission_step p c)) \<noteq> mp_identity p"
  shows "mi_generation (mp_identity p) \<noteq> u64_max"
    and "mi_generation (mp_identity (fst (permission_step p c))) = mi_generation (mp_identity p) + 1"
proof -
  obtain i e t now z where c: "c = McOpen i e t now z"
  proof (cases c)
    case (McRenew i t now)
    with assms show ?thesis by (cases rule: permission_renew_cases [of i t now p]) simp_all
  next
    case (McClose i now)
    with assms show ?thesis by (cases rule: permission_close_cases [of i now p]) simp_all
  qed (use assms that in \<open>auto simp: can_consume_def Let_def\<close>)
  from assms show "mi_generation (mp_identity p) \<noteq> u64_max"
    and "mi_generation (mp_identity (fst (permission_step p c))) = mi_generation (mp_identity p) + 1"
    by (cases rule: permission_open_cases [of i e t now z p]; auto simp: c)+
qed

lemma generations_from:
  "map unat (generations p cs) =
    [Suc (unat (mi_generation (mp_identity p))) ..< Suc (unat (mi_generation (mp_identity (run permission_step p cs))))]
   \<and> mi_generation (mp_identity p) \<le> mi_generation (mp_identity (run permission_step p cs))"
proof (induction cs arbitrary: p)
  case Nil
  then show ?case by simp
next
  case (Cons c cs)
  let ?q = "fst (permission_step p c)"
  show ?case
  proof (cases "mp_identity ?q = mp_identity p")
    case True
    with Cons.IH [of ?q] show ?thesis by (simp add: Let_def)
  next
    case False
    from generation_step [OF False]
    have "unat (mi_generation (mp_identity ?q)) = Suc (unat (mi_generation (mp_identity p)))"
      using word_plus_one_eq_0 [of "mi_generation (mp_identity p)"] by (simp add: unatSuc add.commute)
    with Cons.IH [of ?q] False show ?thesis
      by (auto simp: Let_def word_le_nat_alt upt_conv_Cons)
  qed
qed

text \<open>
  The generations of a new permission are 1, 2, 3 and so on, each opened once: no
  generation is skipped, reopened or opened out of order, whatever the calls.
\<close>

theorem generations_are_consecutive:
  assumes "permission_initial p"
  shows "map unat (generations p cs) = [1 ..< Suc (length (generations p cs))]"
proof -
  have "mi_generation (mp_identity p) = 0"
    using assms by (auto simp: permission_initial_def make_permission_def no_identity_def split: if_splits)
  then have eq: "map unat (generations p cs) =
      [1 ..< Suc (unat (mi_generation (mp_identity (run permission_step p cs))))]"
    using generations_from [of p cs] by simp
  from arg_cong [OF eq, of length] show ?thesis by (subst eq) simp
qed

definition demo_reopened :: "permission_call list" where
  "demo_reopened = demo_lease @
    [McClose (demo_identity 1) 1410, McOpen (demo_identity 2) 1 1420 1430 True, McOpen (demo_identity 1) 0 1440 1450 True]"

theorem generations_are_consecutive_witness:
  "map unat (generations demo_permission demo_reopened) = [1 ..< Suc (length (generations demo_permission demo_reopened))]"
  by (rule generations_are_consecutive [OF demo_permission_initial])

end
