(* ===== verification/Scoped_Drive_Properties.thy ===== *)
theory Scoped_Drive_Properties
  imports Scoped_Drive_Reach Motion_Permission_Properties
begin

text \<open>A concrete drive with two wheels, integer velocities and a scripted clock.\<close>

definition demo_drive_api :: "(int, u64 list) drive_api" where
  "demo_drive_api =
    \<lparr>fl_lit = \<lambda>m k. m, fl_add = (+), fl_sub = (-), fl_mul = (*), fl_div = \<lambda>x y. x, fl_neg = uminus, fl_abs = abs,
     fl_min = min, fl_max = max, fl_less = (<), fl_leq = (\<le>), fl_eq = (=), fl_finite = \<lambda>x. True,
     fl_sin = \<lambda>x. x, fl_cos = \<lambda>x. 1, fl_sqrt = \<lambda>x. x,
     da_gettime = \<lambda>w. (case w of [] \<Rightarrow> (None, []) | t # ts \<Rightarrow> (Some (0, t), ts)),
     da_steady = \<lambda>w. (0, w), da_set_velocity = \<lambda>j v w. (True, w), da_set_torque = \<lambda>j v w. ((), w),
     da_velocity = \<lambda>j w. (0, w), da_joint = \<lambda>name w. (Some (length name), w),
     da_sim_time = \<lambda>w. (\<lparr>st_sec = 0, st_nsec = 0\<rparr>, w), da_elapsed = \<lambda>t u. 1,
     da_log = \<lambda>line w. ((), w), da_publish = \<lambda>line w. ((), w),
     da_yaw_rotation = \<lambda>x. (0, 0, x, 1), da_yaw = \<lambda>q. 0, da_sinf = \<lambda>x. x, da_cosf = \<lambda>x. 1,
     da_world_pose = \<lambda>w. (((0, 0, 0), (0, 0, 0, 1)), w), da_world_linear = \<lambda>w. ((0, 0, 0), w),
     da_world_angular = \<lambda>w. ((0, 0, 0), w), da_wheel_link = \<lambda>j w. (([], [], (0, 0, 0), (0, 0, 0, 1)), w),
     da_send_transform = \<lambda>m w. ((), w), da_publish_odometry = \<lambda>m w. ((), w)\<rparr>"

definition demo_drive_config :: "int drive_config" where
  "demo_drive_config =
    \<lparr>dc_isolated = Some ''1'', dc_log_open = True, dc_generation_mode = True, dc_owner_mode = True, dc_wheel_pairs = 1,
     dc_wheel_accel = 0, dc_wheel_torque = 5, dc_left_joints = [''l''], dc_right_joints = [''rr''], dc_separations = [],
     dc_diameters = [], dc_update_rate = 0, dc_odometry_frame = ''odom'', dc_base_frame = ''base'',
     dc_odometry_source = 1, dc_publish_odom = True, dc_publish_wheel_tf = True, dc_publish_odom_tf = False,
     dc_covariance = (1, 1, 1)\<rparr>"

text \<open>The clock readings of one boot, one opening, one command, one update, one close and a last update.\<close>

definition drive_clock :: "u64 list" where
  "drive_clock = [5, 6, 20, 21, 22, 30, 40, 41, 42, 50, 51, 60, 61, 62]"

definition loaded_drive :: "u64 list \<Rightarrow> (int, u64 list) driving" where
  "loaded_drive clock = snd (run_state (load_drive demo_drive_api demo_drive_config)
     (scoped_drive.extend (new_drive demo_drive_api) (driving.fields clock)))"

lemma loaded_drive_loaded: "drive_loaded demo_drive_api (loaded_drive clock)"
proof -
  let ?s = "scoped_drive.extend (new_drive demo_drive_api) (driving.fields clock)"
  have new: "scoped_drive.truncate ?s = new_drive demo_drive_api"
    by (simp add: scoped_drive.truncate_def scoped_drive.extend_def new_drive_def driving.fields_def)
  have "fst (run_state (load_drive demo_drive_api demo_drive_config) ?s) = Loaded"
    by (simp add: load_drive_def load_wheels_def demo_drive_config_def demo_drive_api_def answer_def changes_def
        simulator_def configured_pairs_def)
  with new show ?thesis
    unfolding drive_loaded_def loaded_drive_def
    by (intro exI [of _ demo_drive_config] exI [of _ ?s]) (simp add: prod_eq_iff)
qed

definition demo_time :: sim_time where
  "demo_time = \<lparr>st_sec = 0, st_nsec = 0\<rparr>"

definition demo_scope :: "char \<Rightarrow> string" where
  "demo_scope c = c # replicate 31 (CHR ''0'')"

definition demo_permit :: MotionPermitIdentity where
  "demo_permit = \<lparr>mi_scope_id = demo_scope (CHR ''a''), mi_generation = 1, mi_operation_id = 7\<rparr>"

definition motion_calls :: "int drive_call list" where
  "motion_calls =
    [DcUpdate demo_time, DcOpenPermit (demo_scope (CHR ''a'')) 0 7 19, DcCommand demo_permit \<lparr>tw_x = 3, tw_rot = 1\<rparr>,
     DcUpdate demo_time]"

definition moving_drive :: "(int, u64 list) driving" where
  "moving_drive = run (drive_step demo_drive_api) (loaded_drive drive_clock) motion_calls"

definition closed_drive :: "(int, u64 list) driving" where
  "closed_drive = fst (drive_step demo_drive_api moving_drive (DcClosePermit demo_permit))"

definition stopped_drive :: "(int, u64 list) driving" where
  "stopped_drive = fst (drive_step demo_drive_api closed_drive (DcUpdate demo_time))"

text \<open>A clock that goes backwards.\<close>

definition backward_clock :: "u64 list" where
  "backward_clock = [5, 6, 20, 21, 22, 30, 40, 41, 42, 10, 11, 12]"

definition faulted_drive :: "(int, u64 list) driving" where
  "faulted_drive = run (drive_step demo_drive_api) (loaded_drive backward_clock) (motion_calls @ [DcUpdate demo_time])"

definition drive_summary ::
  "('d, 'w) driving \<Rightarrow> bool \<times> u64 \<times> bool \<times> bool \<times> 'd \<times> nat \<times> PermissionState" where
  "drive_summary s =
    (dv_owner_mode s, dv_generation s, dv_sealed s, dv_applied s, dv_target_x s, length (motions s), mp_state (dv_permission s))"

lemma moving_drive_summary: "drive_summary moving_drive = (True, 1, False, False, 3, 2, PsActive)"
  by code_simp

lemma closed_drive_summary: "drive_summary closed_drive = (True, 1, True, False, 0, 2, PsNormalClosed)"
  by code_simp

lemma stopped_drive_summary: "drive_summary stopped_drive = (True, 1, True, True, 0, 2, PsNormalClosed)"
  by code_simp

lemma moving_drive_reachable: "drive_reachable demo_drive_api moving_drive"
  unfolding moving_drive_def by (rule reachable_run) (rule reachable_init, rule loaded_drive_loaded)

lemma closed_drive_reachable: "drive_reachable demo_drive_api closed_drive"
  unfolding closed_drive_def by (rule reachable_step, rule moving_drive_reachable)

lemma stopped_drive_reachable: "drive_reachable demo_drive_api stopped_drive"
  unfolding stopped_drive_def by (rule reachable_step, rule closed_drive_reachable)

lemma faulted_drive_summary: "drive_summary faulted_drive = (True, 1, True, True, 0, 2, PsFaultClosed)"
  by code_simp

lemma faulted_drive_reachable: "drive_reachable demo_drive_api faulted_drive"
  unfolding faulted_drive_def by (rule reachable_run) (rule reachable_init, rule loaded_drive_loaded)

text \<open>What the scoped drive promises, whatever the simulator and the order of its calls.\<close>

subsection \<open>Motion under a permission\<close>




lemma moving_drive_writes: "filter is_motion (dv_writes moving_drive) \<noteq> []" "dv_owner_mode moving_drive"
  using moving_drive_summary by (auto simp: drive_summary_def motions_def)


subsection \<open>Closure\<close>

text \<open>
  C27. A sealed drive stands still. While its generation lasts, whatever commands, updates,
  resets and services come, it stays sealed and no motion is written to a wheel.
\<close>

theorem sealed_drive_stands_still:
  assumes "drive_reachable da s" and "dv_sealed s"
    and "dv_generation (run (drive_step da) s cs) = dv_generation s"
  shows "dv_sealed (run (drive_step da) s cs) \<and> motions (run (drive_step da) s cs) = motions s"
  using drive_run_moves [OF drive_reachable_ok [OF assms(1)], of cs] assms(2,3)
  by (auto simp: drive_moves_def motions_def filter_still)

definition late_calls :: "int drive_call list" where
  "late_calls = [DcUpdate demo_time, DcTwist \<lparr>tw_x = 9, tw_rot = 9\<rparr>]"

lemma late_calls_summary:
  "drive_summary (run (drive_step demo_drive_api) closed_drive late_calls) = (True, 1, True, True, 0, 2, PsNormalClosed)"
  by code_simp

theorem sealed_drive_stands_still_witness:
  "dv_sealed (run (drive_step demo_drive_api) closed_drive late_calls) \<and>
    motions (run (drive_step demo_drive_api) closed_drive late_calls) = motions closed_drive"
  by (rule sealed_drive_stands_still [OF closed_drive_reachable])
    (use closed_drive_summary late_calls_summary in \<open>simp_all add: drive_summary_def\<close>)

subsection \<open>Faults\<close>

lemma fault_identity: "mp_state p = PsFaultClosed \<Longrightarrow> mp_identity (fst (permission_step p c)) = mp_identity p"
  by (cases c) (auto simp: permission_open_def permission_renew_def permission_close_def can_consume_def Let_def)

lemma fault_identity_run: "mp_state p = PsFaultClosed \<Longrightarrow> mp_identity (run permission_step p cs) = mp_identity p"
  by (induction cs arbitrary: p) (auto simp: fault_identity fault_step(1))

text \<open>
  C28. A drive whose permission has faulted never moves again: whatever the calls, it stays
  sealed in the same generation, and no motion is written to a wheel.
\<close>

theorem faulted_drive_is_dead:
  assumes "drive_reachable da s" and "dv_owner_mode s" and "mp_state (dv_permission s) = PsFaultClosed"
  shows "dv_sealed (run (drive_step da) s cs) \<and> dv_generation (run (drive_step da) s cs) = dv_generation s \<and>
    motions (run (drive_step da) s cs) = motions s"
proof -
  let ?t = "run (drive_step da) s cs"
  note ok = drive_reachable_ok [OF assms(1)]
  have ok': "drive_ok da ?t" and m: "drive_moves s ?t"
    using drive_inv.inv_run [OF ok] drive_run_moves [OF ok] by auto
  from m obtain ps where ps: "dv_permission ?t = run permission_step (dv_permission s) ps"
    by (auto simp: drive_moves_def)
  have owner: "dv_owner_mode ?t" using m assms(2) by (simp add: drive_moves_def)
  have "mp_state (dv_permission ?t) = PsFaultClosed"
    unfolding ps by (rule fault_latch.latch_run) (simp_all add: assms(3))
  with ok' owner have sealed: "dv_sealed ?t" by (simp add: drive_ok_def permit_ok_def)
  have "permit_identity ?t = permit_identity s"
    using ok ok' owner assms(2) fault_identity_run [OF assms(3), of ps] by (simp add: drive_ok_def permit_ok_def ps)
  then have "dv_generation ?t = dv_generation s" by (simp add: permit_identity_def)
  moreover have "dv_sealed s" using ok assms(2,3) by (simp add: drive_ok_def permit_ok_def)
  ultimately show ?thesis
    using m sealed by (auto simp: drive_moves_def motions_def filter_still)
qed

theorem faulted_drive_is_dead_witness:
  "dv_sealed (run (drive_step demo_drive_api) faulted_drive [DcOpenPermit (demo_scope (CHR ''b'')) 1 8 100]) \<and>
    dv_generation (run (drive_step demo_drive_api) faulted_drive [DcOpenPermit (demo_scope (CHR ''b'')) 1 8 100]) =
      dv_generation faulted_drive \<and>
    motions (run (drive_step demo_drive_api) faulted_drive [DcOpenPermit (demo_scope (CHR ''b'')) 1 8 100]) =
      motions faulted_drive"
  by (rule faulted_drive_is_dead [OF faulted_drive_reachable])
    (use faulted_drive_summary in \<open>simp_all add: drive_summary_def\<close>)

subsection \<open>The permission behind the drive\<close>

text \<open>
  C29. In the owner's mode the drive refines the permission: whatever the calls, its
  permission changes by a run of the permission's own operations, carries the drive's
  scope, generation and operation, and is active exactly while the drive is not sealed.
\<close>

theorem drive_refines_permission:
  assumes "drive_reachable da s" and "dv_owner_mode s"
  shows "\<exists>ps. dv_permission (run (drive_step da) s cs) = run permission_step (dv_permission s) ps \<and>
    mp_identity (run permission_step (dv_permission s) ps) = permit_identity (run (drive_step da) s cs) \<and>
    (mp_state (run permission_step (dv_permission s) ps) = PsActive \<longleftrightarrow> \<not> dv_sealed (run (drive_step da) s cs))"
proof -
  let ?t = "run (drive_step da) s cs"
  note ok = drive_reachable_ok [OF assms(1)]
  have ok': "drive_ok da ?t" and m: "drive_moves s ?t"
    using drive_inv.inv_run [OF ok] drive_run_moves [OF ok] by auto
  from m obtain ps where ps: "dv_permission ?t = run permission_step (dv_permission s) ps"
    by (auto simp: drive_moves_def)
  have "dv_owner_mode ?t" using m assms(2) by (simp add: drive_moves_def)
  with ok' show ?thesis by (intro exI [of _ ps]) (auto simp: drive_ok_def permit_ok_def ps [symmetric])
qed

theorem drive_refines_permission_witness:
  "\<exists>ps. dv_permission (run (drive_step demo_drive_api) closed_drive late_calls) = run permission_step (dv_permission closed_drive) ps \<and>
    mp_identity (run permission_step (dv_permission closed_drive) ps) =
      permit_identity (run (drive_step demo_drive_api) closed_drive late_calls) \<and>
    (mp_state (run permission_step (dv_permission closed_drive) ps) = PsActive \<longleftrightarrow>
      \<not> dv_sealed (run (drive_step demo_drive_api) closed_drive late_calls))"
  by (rule drive_refines_permission [OF closed_drive_reachable])
    (use closed_drive_summary in \<open>simp add: drive_summary_def\<close>)

subsection \<open>Opening a generation\<close>

text \<open>
  C30. Generations are opened one after the other, and only on standing wheels: a call that
  changes the generation raises it by one, from a sealed drive each of whose wheels has
  taken a zero velocity since the last motion, and starts it with zero targets and no
  wheel written.
\<close>

theorem opening_needs_applied_zeros:
  assumes "drive_reachable da s" and "dv_generation (fst (drive_step da s c)) \<noteq> dv_generation s"
  shows "dv_generation (fst (drive_step da s c)) = dv_generation s + 1 \<and> dv_sealed s \<and>
    zeroed (2 * dv_pairs s) (dv_writes s) \<and>
    dv_target_x (fst (drive_step da s c)) = fl_zero da \<and> dv_target_rot (fst (drive_step da s c)) = fl_zero da \<and>
    dv_writes (fst (drive_step da s c)) = dv_writes s"
proof -
  note ok = drive_reachable_ok [OF assms(1)]
  have "opens_from da s (fst (drive_step da s c))" by (rule drive_step_opens [OF ok])
  with assms(2) ok show ?thesis by (simp add: opens_from_def drive_ok_def seal_ok_def)
qed

definition reopen_call :: "int drive_call" where
  "reopen_call = DcOpenPermit (demo_scope (CHR ''b'')) 1 8 59"

lemma reopened_generation: "dv_generation (fst (drive_step demo_drive_api stopped_drive reopen_call)) = 2"
  by code_simp

theorem opening_needs_applied_zeros_witness:
  "dv_generation (fst (drive_step demo_drive_api stopped_drive reopen_call)) = dv_generation stopped_drive + 1 \<and>
    dv_sealed stopped_drive \<and> zeroed (2 * dv_pairs stopped_drive) (dv_writes stopped_drive) \<and>
    dv_target_x (fst (drive_step demo_drive_api stopped_drive reopen_call)) = fl_zero demo_drive_api \<and>
    dv_target_rot (fst (drive_step demo_drive_api stopped_drive reopen_call)) = fl_zero demo_drive_api \<and>
    dv_writes (fst (drive_step demo_drive_api stopped_drive reopen_call)) = dv_writes stopped_drive"
  by (rule opening_needs_applied_zeros [OF stopped_drive_reachable])
    (use reopened_generation stopped_drive_summary in \<open>simp add: drive_summary_def\<close>)

subsection \<open>Legacy calls\<close>

fun is_legacy :: "'d drive_call \<Rightarrow> bool" where
  "is_legacy (DcTwist m) \<longleftrightarrow> True"
| "is_legacy (DcCloseScope scope) \<longleftrightarrow> True"
| "is_legacy (DcOpenScope scope e) \<longleftrightarrow> True"
| "is_legacy (DcCloseGeneration scope g) \<longleftrightarrow> True"
| "is_legacy (DcScopedCommand scope g m) \<longleftrightarrow> True"
| "is_legacy c \<longleftrightarrow> False"

fun refused_reply :: "drive_reply \<Rightarrow> bool" where
  "refused_reply (RpAccepted r) \<longleftrightarrow> \<not> r"
| "refused_reply (RpOpened r g) \<longleftrightarrow> \<not> r"
| "refused_reply RpNone \<longleftrightarrow> True"
| "refused_reply RpThrew \<longleftrightarrow> True"
| "refused_reply r \<longleftrightarrow> False"

definition only_logged :: "('d, 'w) driving \<Rightarrow> ('d, 'w) driving \<Rightarrow> bool" where
  "only_logged s t \<longleftrightarrow> (\<exists>w. t = s\<lparr>dv_world := w\<rparr>)"

lemma only_logged_simps [simp]: "only_logged s s" "only_logged s (s\<lparr>dv_world := w\<rparr>)"
proof -
  have "s = s\<lparr>dv_world := dv_world s\<rparr>" by simp
  then show "only_logged s s" unfolding only_logged_def by (rule exI)
  show "only_logged s (s\<lparr>dv_world := w\<rparr>)" unfolding only_logged_def by (rule exI) (rule refl)
qed

text \<open>
  A drive in the owner's mode refuses every command, opening and closure of the older
  interfaces: it answers no and changes nothing but its log.
\<close>

theorem legacy_calls_are_refused:
  assumes "drive_reachable da s" and "dv_owner_mode s" and "is_legacy c"
  shows "(\<exists>w. fst (drive_step da s c) = s\<lparr>dv_world := w\<rparr>) \<and> refused_reply (snd (drive_step da s c))"
proof -
  have mode: "dv_generation_mode s"
    using drive_reachable_ok [OF assms(1)] assms(2) by (simp add: drive_ok_def seal_ok_def)
  have "wp (drive_member da c) (\<lambda>r t. only_logged s t \<and> refused_reply r) s"
    using assms(2,3) mode
    by (cases c)
      (auto simp: registered_def replies_def on_cmd_vel_def close_scope_def open_scope_def close_generation_def
        on_scoped_cmd_def wp_bind wp_reads wp_attempt_when wp_answer wp_attempt wp_yields
        intro!: wp_record split: sum.split)
  then show ?thesis by (simp add: wp_run drive_step_def split_beta only_logged_def)
qed

theorem legacy_calls_are_refused_witness:
  "(\<exists>w. fst (drive_step demo_drive_api moving_drive (DcTwist \<lparr>tw_x = 9, tw_rot = 9\<rparr>)) = moving_drive\<lparr>dv_world := w\<rparr>) \<and>
    refused_reply (snd (drive_step demo_drive_api moving_drive (DcTwist \<lparr>tw_x = 9, tw_rot = 9\<rparr>)))"
  by (rule legacy_calls_are_refused [OF moving_drive_reachable moving_drive_writes(2)]) simp

end
