(* ===== verification/Native_Closure_Properties.thy ===== *)
theory Native_Closure_Properties
  imports Native_Closure Leaf_Evidence_Properties Scoped_Drive_Properties
begin

text \<open>
  What the owner's answer says of the messages, and that the messages of the workers, the
  leaves, the navigator and the drive are those it takes.
\<close>

subsection \<open>The owner moves the matcher by its operations\<close>

definition matcher_moves :: "json_api \<Rightarrow> native_closure \<Rightarrow> native_closure \<Rightarrow> bool" where
  "matcher_moves js s t \<longleftrightarrow> (\<exists>cs. nc_facts t = run (closure_step js) (nc_facts s) cs)"

interpretation matcher_kept: kept_relation "matcher_moves js"
proof
  fix s t u
  show "matcher_moves js s s" by (auto simp: matcher_moves_def intro: exI [of _ "[]"])
  assume "matcher_moves js s t" and "matcher_moves js t u"
  then show "matcher_moves js s u" unfolding matcher_moves_def by (metis run_append)
qed

lemma wp_on_facts: "wp (on_facts m) Q s = wp m (\<lambda>r f. Q r (s\<lparr>nc_facts := f\<rparr>)) (nc_facts s)"
  by (simp add: on_facts_def wp_run split_beta)

lemma on_facts_moves: "keeps (matcher_moves js) (on_facts (closure_member js c))"
proof (rule keepsI)
  fix s :: native_closure
  have "nc_facts (s\<lparr>nc_facts := snd (run_state (closure_member js c) (nc_facts s))\<rparr>) = run (closure_step js) (nc_facts s) [c]"
    by (simp add: closure_step_def split_beta)
  then show "wp (on_facts (closure_member js c)) (\<lambda>r. matcher_moves js s) s"
    by (subst wp_on_facts, subst wp_run, unfold matcher_moves_def) blast
qed

lemmas on_facts_calls =
  on_facts_moves [where c = "CoChild _ _ _", unfolded closure_member.simps]
  on_facts_moves [where c = "CoBt _ _ _", unfolded closure_member.simps]
  on_facts_moves [where c = "CoDrive _ _ _", unfolded closure_member.simps]

lemma same_facts_moves: "(\<And>s. nc_facts (f s) = nc_facts s) \<Longrightarrow> keeps (matcher_moves js) (changes f)"
  by (rule keepsI) (auto simp: wp_changes matcher_moves_def intro: exI [of _ "[]"])

lemma on_event_moves: "keeps (matcher_moves js) (on_event js e)"
proof (cases e)
  case (NvAnswer answered)
  show ?thesis
    unfolding NvAnswer on_event.simps
    by (intro matcher_kept.keeps_does same_facts_moves) (simp split: option.split)
qed (auto intro!: matcher_kept.keeps_fallible on_facts_calls)

lemma handle_all_moves: "keeps (matcher_moves js) (handle_all js es)"
  by (induction es) (auto intro!: matcher_kept.keeps_fallible on_event_moves)

lemma wait_for_moves: "keeps (matcher_moves js) (wait_for js es came)"
  unfolding wait_for_def by (intro matcher_kept.keeps_fallible handle_all_moves)

lemma wait_until_moves: "keeps (matcher_moves js) (wait_until js holds es)"
  by (induction es) (auto intro!: matcher_kept.keeps_fallible on_event_moves)

lemma close_tree_moves: "keeps (matcher_moves js) (close_tree js k)"
proof -
  have "keeps (matcher_moves js) (if \<not> success then fails () else on_facts (observe_bt js message requested received))"
    for success message requested received
    by (intro matcher_kept.keeps_if matcher_kept.keeps_fails on_facts_calls)
  then have "keeps (matcher_moves js) (case answer of
         None \<Rightarrow> fails ()
       | Some (success, message) \<Rightarrow>
           if \<not> success then fails () else on_facts (observe_bt js message requested received))" for answer requested received
    by (simp add: matcher_kept.keeps_fails split: option.split)
  then show ?thesis
    unfolding close_tree_def by (intro matcher_kept.keeps_attempt wait_until_moves wait_for_moves)
qed

lemma close_drive_moves: "keeps (matcher_moves js) (close_drive js k)"
  unfolding close_drive_def
  by (intro matcher_kept.keeps_fallible wait_until_moves same_facts_moves) (simp add: request_drive_close_def Let_def)

lemma close_drive_closed:
  "wp (close_drive js k) (\<lambda>r t. r = Inr () \<longrightarrow> drive_isolated t \<and> closure_closed (nc_facts t)) s"
proof -
  have last: "wp (do {
       closed \<leftarrow> reads (\<lambda>s. drive_isolated s \<and> closure_closed (nc_facts s));
       if closed then yields () else fails ()
     }) (\<lambda>r t. r = Inr () \<longrightarrow> drive_isolated t \<and> closure_closed (nc_facts t)) t" for t
    by (simp add: wp_rules)
  have "wp m (\<lambda>r t. True) t" for m :: "unit native_program" and t by (simp add: wp_run)
  then show ?thesis
    unfolding close_drive_def wp_bind [of "changes _"] wp_changes wp_attempt
    by (rule wp_mono) (simp add: last split: sum.split)
qed

lemma close_native_ends:
  "wp (close_native js k) (\<lambda>closed t. if closed then matcher_moves js s t \<and> drive_isolated t \<and> closure_closed (nc_facts t)
    else co_rejected (nc_facts t)) s"
proof -
  let ?m = "attempt (close_tree js k) (\<lambda>_. close_drive js k)"
  have moves: "wp ?m (\<lambda>r. matcher_moves js s) s"
    by (intro keepsD matcher_kept.keeps_attempt close_tree_moves close_drive_moves)
  have closed: "wp ?m (\<lambda>r t. r = Inr () \<longrightarrow> drive_isolated t \<and> closure_closed (nc_facts t)) s"
  proof -
    have "wp (close_tree js k) (\<lambda>r t. True) s" by (simp add: wp_run)
    then show ?thesis
      unfolding wp_attempt by (rule wp_mono) (simp add: close_drive_closed split: sum.split)
  qed
  have "wp ?m (\<lambda>r t. matcher_moves js s t \<and> (r = Inr () \<longrightarrow> drive_isolated t \<and> closure_closed (nc_facts t))) s"
    using moves closed unfolding wp_conj by simp
  then show ?thesis
    unfolding close_native_def wp_bind
    by (rule wp_mono) (auto simp: wp_rules reject_def split: sum.split)
qed

subsection \<open>Closing is evidenced\<close>

text \<open>
  C35. A navigation is closed on evidence only. When \<open>close\<close> answers that it has closed the
  navigation, the matcher has come there by its own operations, the links, worker
  acknowledgements, tree closure and drive report of this scope and generation are among
  the messages it was given, and the drive had accepted its closure.
\<close>

theorem closed_on_evidence:
  assumes "new_closure scope generation = Some facts" and "nc_facts s = run (closure_step js) facts cs"
    and "run_state (close_native js k) s = (True, t)"
  shows "nc_accepted t \<and> (\<exists>ds. nc_facts t = run (closure_step js) facts (cs @ ds) \<and>
    navigation_shown js scope generation (cs @ ds))"
proof -
  have t: "matcher_moves js s t" "drive_isolated t" "closure_closed (nc_facts t)"
    using wp_result [OF close_native_ends assms(3)] by simp_all
  then obtain ds where ds: "nc_facts t = run (closure_step js) facts (cs @ ds)"
    using assms(2) by (auto simp: matcher_moves_def run_append)
  with t closed_run_shown [OF assms(1)] show ?thesis by (auto simp: drive_isolated_def)
qed

definition demo_navigation :: native_closure where
  "demo_navigation = \<lparr>nc_mode = ''normal'', nc_generation = 1,
     nc_facts = run (closure_step demo_json) demo_closure [CoParent (demo_uuid (CHR ''b''))], nc_requested = 0,
     nc_accepted = False, nc_failed = False\<rparr>"

definition demo_outside :: closing where
  "demo_outside = \<lparr>cl_workers = [NvLink 0 ''L0'', NvAck 1 ''A1'', NvLink 1 ''L1'', NvAck 0 ''A0''],
     cl_service = ([], True), cl_answer = ([], Some (True, ''BT'')), cl_bt_requested = 10, cl_bt_received = 20,
     cl_drive_requested = 22, cl_drive_sent = True, cl_drive = [NvDrive ''DR'' 30, NvAnswer (Some True)]\<rparr>"

definition withheld_outside :: closing where
  "withheld_outside = demo_outside\<lparr>cl_workers := [NvLink 0 ''L0'', NvAck 1 ''A1'', NvLink 1 ''L1'']\<rparr>"

lemma demo_closes: "run_state (close_native demo_json demo_outside) demo_navigation =
    (True, snd (run_state (close_native demo_json demo_outside) demo_navigation))"
proof -
  have "fst (run_state (close_native demo_json demo_outside) demo_navigation)" by code_simp
  then show ?thesis by (metis prod.collapse)
qed

theorem closed_on_evidence_witness:
  "nc_accepted (snd (run_state (close_native demo_json demo_outside) demo_navigation)) \<and>
    (\<exists>ds. nc_facts (snd (run_state (close_native demo_json demo_outside) demo_navigation)) =
        run (closure_step demo_json) demo_closure ([CoParent (demo_uuid (CHR ''b''))] @ ds) \<and>
      navigation_shown demo_json (demo_uuid (CHR ''a'')) 1 ([CoParent (demo_uuid (CHR ''b''))] @ ds))"
  by (rule closed_on_evidence [OF demo_closure_new _ demo_closes]) (simp only: demo_navigation_def native_closure.simps)

text \<open>
  A failed closing is final. When \<open>close\<close> answers no, for whatever reason, no message
  that comes later closes the navigation.
\<close>

theorem failed_closing_is_final:
  assumes "run_state (close_native js k) s = (False, t)"
  shows "\<not> closure_closed (run (closure_step js) (nc_facts t) cs)"
  using wp_result [OF close_native_ends assms] rejected_open by simp

theorem failed_closing_is_final_witness:
  "\<not> closure_closed (run (closure_step demo_json)
    (nc_facts (snd (run_state (close_native demo_json withheld_outside) demo_navigation))) [CoChild 0 True ''A0''])"
proof (rule failed_closing_is_final)
  have "\<not> fst (run_state (close_native demo_json withheld_outside) demo_navigation)" by code_simp
  then show "run_state (close_native demo_json withheld_outside) demo_navigation =
      (False, snd (run_state (close_native demo_json withheld_outside) demo_navigation))"
    by (metis prod.collapse)
qed

subsection \<open>The messages that close a navigation\<close>














lemma set_child_parts [simp]:
  "child_of 0 (set_child 1 c s) = child_of 0 s"
  "child_of 1 (set_child 0 c s) = child_of 1 s"
  "child_of 1 (set_child (Suc 0) c s) = c"
  "child_of (Suc 0) (set_child 0 c s) = child_of (Suc 0) s"
  "child_of index (set_child index c s) = c"
  "co_parent (set_child index c s) = co_parent s"
  by (simp_all add: child_of_def set_child_def)












subsection \<open>The path of a request\<close>

text \<open>
  The navigator finds the scope of the request's tree: the path that the owner writes
  for a valid scope is read back as that scope, and two scopes never share a path.
\<close>

theorem goal_path_names_scope:
  assumes "uuid scope"
  shows "request_scope (goal_path scope) = Some scope \<and> (goal_path other = goal_path scope \<longrightarrow> other = scope)"
  using assms
  by (simp add: request_scope_def goal_path_def request_path_def request_prefix_def uuid_def Let_def)

theorem goal_path_names_scope_witness:
  "request_scope (goal_path (demo_uuid (CHR ''a''))) = Some (demo_uuid (CHR ''a'')) \<and>
    (goal_path (demo_uuid (CHR ''b'')) = goal_path (demo_uuid (CHR ''a'')) \<longrightarrow> demo_uuid (CHR ''b'') = demo_uuid (CHR ''a''))"
  by (rule goal_path_names_scope) code_simp

end
