(* ===== verification/Spec2Isabelle.thy ===== *)
theory Spec2Isabelle
  imports Gate_Rules Compute_Process_Properties Compute_Worker_Properties
    Compute_Task_Properties Sample_Properties Recovery_Owner_Properties
    Observation_Watches_Properties Native_Closure_Properties
begin

text \<open>
  The robot harness: execution authority for robots and for local compute, and the
  evidence on which that authority is granted, revoked and released.

  The program has four layers, and the library follows them.

  1. The authority gate (\<open>src/core/authority_gate.cpp\<close>) decides. It admits one operation at
     a time, lets its dispatch be claimed once, records what the native side reports, says
     whether a result may be delivered and when the operation is settled, and moves its
     binding from one provider generation to the next. It never acts: its owners call it.
  2. The hosts own a gate each and act. The compute host (\<open>src/compute/compute_execution.cpp\<close>)
     launches a worker process (\<open>compute_process.cpp\<close>, \<open>compute_worker.cpp\<close>) and reads its
     frames (\<open>compute_protocol.hpp\<close>); the sample host (\<open>src/sample/sample_execution.cpp\<close>) runs a
     deterministic worker on an event queue; the recovery owner and client
     (\<open>recovery_owner.cpp\<close>, \<open>recovery_client.cpp\<close>, \<open>recovery_protocol.hpp\<close>) split the same work
     over a socket, so that a new host can take over a compute domain that is clear.
  3. Applications drive a host: the two-step task (\<open>examples/finite_compute_task.cpp\<close>) over a
     compute host or over a recovery session (\<open>examples/recovery_task_execution.cpp\<close>).
  4. The ROS 2 integration (\<open>integrations/ros2/\<close>) applies the same rules to a navigation in
     simulation: the drive that moves only under a permission
     (\<open>simulation/native_drive/\<close>), the workers and behaviour tree that report what they have
     done (\<open>simulation/native_worker/\<close>), and the owner's side that watches the runtime and
     matches the reports before it calls a navigation closed (\<open>nav2_observation/\<close>).

  Conventions. A C++ struct or class is a \<open>record\<close> of its fields, an \<open>enum class\<close> a
  \<open>datatype\<close>, an unsigned integer of 64, 32 or 8 bits a word (\<open>u64\<close>, \<open>u32\<close>, \<open>u8\<close>), an
  \<open>int64_t\<close> a word read with \<open>sint\<close>, a plain \<open>int\<close> of the system interface an \<open>int\<close>, a
  \<open>std::optional\<close> an \<open>option\<close>. A member that only reads is a function of the state, a member
  that changes it a function to the next state and the answer, or, where it calls the world,
  a program of the state monad. An exception is \<open>Inl\<close> of a sum (or \<open>None\<close> of a constructor).
  What the code calls and does not contain is a record of functions over an abstract world
  \<open>'w\<close>: POSIX (\<open>Compute_Protocol\<close>), sockets (\<open>Recovery_Protocol\<close>), the simulator and floating point
  arithmetic (\<open>Scoped_Drive\<close>), trigonometry (\<open>Observation_Watches\<close>), the JSON reader
  (\<open>Closure_Observations\<close>), clocks. Nothing is assumed of them except where a theorem names
  it: a read returns no more bytes than were asked for (\<open>reads_bounded\<close>), a clock that passes
  for the termination of the worker. All objects are used from one thread, as the code's
  comments require; where several threads or processes meet (worker and host, leaf and
  worker and drive) the model is a list of calls in any order.

  Theories and what their lemmas show.

  - \<open>Prelude\<close>: words, decimal rendering, order of optional times. \<open>Transition_System\<close>: runs,
    traces and reachable states of a step function, and one locale per shape of argument
    about them (invariant, latch, event at most once, event with a cause, simulation).
    \<open>Program\<close>: the state monad, weakest preconditions, relations that programs keep.
  - Gate: \<open>Evidence\<close>, \<open>Receipt\<close>, \<open>Gate_State\<close> (the types of \<open>authority_gate.hpp\<close> and
    \<open>AuthorityGate::Implementation\<close>), \<open>Gate_Binding\<close> (startup, capabilities, withdrawal, rebinding),
    \<open>Gate_Operation\<close> (admission, control, evidence, settlement). \<open>Receipt_Invariant\<close>,
    \<open>Receipt_Steps\<close> and \<open>Receipt_Native\<close> show that a receipt stays consistent and only grows;
    \<open>Gate_Machine\<close>, \<open>Gate_Control\<close> and \<open>Gate_Invariant\<close> the invariant of the whole gate;
    \<open>Gate_Guarantees\<close>, \<open>Gate_Order\<close>, \<open>Gate_Properties\<close> and \<open>Gate_Rules\<close> what holds in every
    order of calls, among it the refinement of an abstract lease. \<open>Gate_Client\<close> and
    \<open>Gate_Times\<close> are what an owner of a gate relies on.
  - Compute: \<open>Compute_Protocol\<close>, \<open>Compute_Process\<close>, \<open>Compute_Worker\<close> are the frame and the calls of the system, the host's side
    of a worker process and the worker program. \<open>Compute_Process_Facts\<close>, \<open>Compute_Process_Machine\<close>
    and \<open>Compute_Process_Properties\<close> show that the process record stays well formed under every
    answer of the system and that nothing is signalled or closed twice;
    \<open>Compute_Conformance\<close> and \<open>Compute_Worker_Properties\<close> that worker and host agree. \<open>Compute_Host\<close>
    and \<open>Compute_Host_Interface\<close> are the members of \<open>ComputeExecutionHost\<close>;
    \<open>Compute_Host_Gate\<close> shows that they move the gate by its calls only,
    \<open>Compute_Host_Invariant\<close> to \<open>Compute_Host_Machine\<close> the invariant, \<open>Compute_Host_Progress\<close> what
    polling achieves, \<open>Compute_Host_Properties\<close> the properties.
  - Two-step task: \<open>Compute_Task\<close> (the task, its port, the two executions),
    \<open>Compute_Task_Invariant\<close> (the contract \<open>task_execution\<close> and what follows from it),
    \<open>Compute_Task_Ports\<close> (both executions keep it) and \<open>Compute_Task_Properties\<close>.
  - Sample host: \<open>Sample_Host\<close>, \<open>Sample_Interface\<close>, \<open>Sample_Machine\<close>; \<open>Sample_Parts\<close>,
    \<open>Sample_Members\<close> and \<open>Sample_Safety\<close> for the invariant, \<open>Sample_Loop\<close> for the end of the event
    loop and the bounds, \<open>Sample_Properties\<close>.
  - Recovery: \<open>Recovery_Protocol\<close>, \<open>Recovery_Owner\<close> with \<open>Recovery_Owner_Invariant\<close>,
    \<open>Recovery_Owner_Session\<close> and \<open>Recovery_Owner_Properties\<close>; \<open>Recovery_Client\<close> with
    \<open>Recovery_Client_Invariant\<close>, \<open>Recovery_Client_Steps\<close>, \<open>Recovery_Client_Members\<close> and
    \<open>Recovery_Client_Properties\<close>.
  - Drive: \<open>Motion_Permission\<close> is the lease of \<open>motion_permission.hpp\<close> and its guarded write;
    \<open>Scoped_Drive\<close>, \<open>Scoped_Drive_Handlers\<close> and \<open>Scoped_Drive_Machine\<close> are \<open>scoped_diff_drive.cpp\<close>: the update of the wheels, odometry, the
    handlers of the three modes, load and reset. \<open>Scoped_Drive_Invariant\<close> to
    \<open>Scoped_Drive_Reach\<close> show how every handler moves the permission, the seal and the list of
    wheel writes.
  - Reports: \<open>Native_Workers\<close> (\<open>native_worker_planner.cpp\<close>, \<open>native_worker_controller.cpp\<close>),
    \<open>Leaf_Evidence\<close> (\<open>native_leaf_evidence.hpp\<close>, \<open>scoped_action.hpp\<close>, \<open>native_scope_navigator.cpp\<close>),
    each with its properties. The messages that they publish are functions (\<open>ack_text\<close>,
    \<open>link_text\<close>, \<open>bt_text\<close>, \<open>applied_text\<close>) that the owner's matcher reads again.
  - Owner: \<open>Closure_Observations\<close> is the matcher of \<open>closure_observations.hpp\<close>, \<open>Native_Closure\<close>
    its owner \<open>native_closure.cpp\<close>; \<open>Observation_Watches\<close> holds the runtime watch, the corridor
    watch, the motion window and the reading of a cancel response.

  Bounds and fuel. Every loop of the program is a structural recursion or ends by a measure
  that is proved, with these exceptions, which are \<open>option\<close> valued: the draining of a pipe
  takes fuel, and \<open>drain_fuel_enough\<close> shows that the code's own bound on frames ends it
  before the fuel; the worker's send loop is a \<open>partial_function\<close>, and \<open>worker_ends\<close> shows
  that it returns once time passes; the destructor of a process may wait for ever, which the
  host model records and its invariant excludes; \<open>event_loop_ends\<close> is the end of the sample
  host's queue. The waits of \<open>Native_Closure\<close> are over the list of messages that arrive before
  the deadline.

  Not modelled, and why.

  - Failed allocations (\<open>std::bad_alloc\<close>) and the handlers that only they reach; memory,
    move semantics and threads of the C++ runtime; textual logs that nothing reads.
  - \<open>nav2_observation/navigation_observation.cpp\<close>: the scripted experiment that owns a gate, the
    watches and the closure. Its parts are modelled above; its own sequence of scenarios is a
    test driver over ROS 2 action clients.
  - \<open>simulation/native_worker/\<close>: lifecycle and readiness services and \<open>main\<close> of the workers, and
    the registration of the tree leaves \<open>scoped_compute_path.cpp\<close> and \<open>scoped_follow_path.cpp\<close> (plug-in ports,
    no state of their own beyond \<open>scoped_action.hpp\<close>).
  - \<open>bindings/python/core_module.cpp\<close> (generated-style conversions), the remaining programs of
    \<open>examples/\<close> (drivers that print), tests, tools, Python and build files.
\<close>

end
